(* ===== verification/Prelude.thy ===== *)
theory Prelude
  imports Main "HOL-Library.Char_ord" "HOL-Library.List_Lexorder"
begin

text \<open>
  Shared vocabulary of the development: the exception classes of the program as a datatype,
  results as \<open>exc + 'a\<close> with their bind and handler combinators, database transactions as
  state transformers, and the operations of Python strings that the sources use.

  Text is a \<^typ>\<open>string\<close>; a character stands for the code point with its number, so the
  model covers the code points U+0000 to U+00FF. Case mapping, white space and word
  characters are those of Python for that range. Exception messages are not modelled: an
  exception is its class.
\<close>

section \<open>Collections of facts\<close>

named_theorems res_simps \<open>rewrite rules of the result combinators\<close>
named_theorems text_simps \<open>rewrite rules of the text normalisers\<close>

section \<open>Exceptions and results\<close>

datatype exc =
    KeyError | ValueError | TypeError | AssertionError | DatabaseError
  | StateCorruptError | ReadOnlyStateError | StaleRevisionError | RecordValidationError
  | AuditError | AuditValidationError
  | SettingsValidationError | DuplicateSettingError | ForbiddenPermissionMutationError
  | PermissionDeniedError | SettingsCorruptError
  | CapabilityRegistryError | CapabilityRequestValidationError | CapabilityAuditError
  | ConfirmationValidationError | ForbiddenConfirmationMutationError
  | ConfirmationUnavailableError | ConfirmationCorruptError
  | WorkItemValidationError | WorkItemCorruptError
  | SecretClassificationError | SecretReferenceValidationError
  | WorkspaceRevisionError | ConversationValidationError | FutureSchemaVersionError
  | MigrationError | StateExistsError | StateNotInitializedError | StateRevisionMismatchError
  | OverflowError
  | MemoryValidationError | ForbiddenMemoryMutationError | MemoryExportError | MemoryCorruptError
  | ArtifactValidationError | ArtifactCorruptError | UnsafeManagedPathError
  | ProjectDecisionValidationError | ForbiddenAuthorityMutationError
  | ProjectDecisionExportError | ProjectDecisionCorruptError
  | TruthValidationError | ForbiddenTruthMutationError | TruthCorruptError

text \<open>The class hierarchy, as far as an \<open>except\<close> clause of the sources asks for it.\<close>

definition is_StateError :: "exc \<Rightarrow> bool" where
  "is_StateError e \<longleftrightarrow> e \<in> {StateCorruptError, ReadOnlyStateError, StaleRevisionError,
     RecordValidationError, AuditError, AuditValidationError, ConfirmationValidationError,
     ForbiddenConfirmationMutationError, ConfirmationUnavailableError, ConfirmationCorruptError,
     WorkItemValidationError, WorkItemCorruptError, ConversationValidationError,
     FutureSchemaVersionError, MigrationError, StateExistsError, StateNotInitializedError,
     StateRevisionMismatchError, MemoryValidationError, ForbiddenMemoryMutationError,
     MemoryExportError, MemoryCorruptError, ProjectDecisionValidationError,
     ForbiddenAuthorityMutationError, ProjectDecisionExportError, ProjectDecisionCorruptError,
     TruthValidationError, ForbiddenTruthMutationError, TruthCorruptError}"

definition is_SettingsError :: "exc \<Rightarrow> bool" where
  "is_SettingsError e \<longleftrightarrow> e \<in> {SettingsValidationError, DuplicateSettingError,
     ForbiddenPermissionMutationError, PermissionDeniedError, SettingsCorruptError}"

type_synonym 'a res = "exc + 'a"

definition bindr :: "'a res \<Rightarrow> ('a \<Rightarrow> 'b res) \<Rightarrow> 'b res" where
  "bindr r f = (case r of Inl e \<Rightarrow> Inl e | Inr x \<Rightarrow> f x)"

text \<open>\<open>rescue p e r\<close> is \<open>try: r except <p> as exc: raise e from exc\<close>.\<close>

definition rescue :: "(exc \<Rightarrow> bool) \<Rightarrow> exc \<Rightarrow> 'a res \<Rightarrow> 'a res" where
  "rescue p e r = (case r of Inl x \<Rightarrow> Inl (if p x then e else x) | Inr v \<Rightarrow> Inr v)"

definition require :: "bool \<Rightarrow> exc \<Rightarrow> unit res" where
  "require b e = (if b then Inr () else Inl e)"

fun map_res :: "('a \<Rightarrow> 'b res) \<Rightarrow> 'a list \<Rightarrow> 'b list res" where
  "map_res f [] = Inr []"
| "map_res f (x # xs) = bindr (f x) (\<lambda>y. bindr (map_res f xs) (\<lambda>ys. Inr (y # ys)))"

definition opt_res :: "('a \<Rightarrow> 'b res) \<Rightarrow> 'a option \<Rightarrow> 'b option res" where
  "opt_res f v = (case v of None \<Rightarrow> Inr None | Some x \<Rightarrow> bindr (f x) (\<lambda>y. Inr (Some y)))"

definition of_option :: "exc \<Rightarrow> 'a option \<Rightarrow> 'a res" where
  "of_option e v = (case v of None \<Rightarrow> Inl e | Some x \<Rightarrow> Inr x)"

lemma bindr_Inl [simp, res_simps]: "bindr (Inl e) f = Inl e"
  by (simp add: bindr_def)

lemma bindr_Inr [simp, res_simps]: "bindr (Inr x) f = f x"
  by (simp add: bindr_def)

lemma bindr_eq_Inr [simp, res_simps]: "bindr r f = Inr y \<longleftrightarrow> (\<exists>x. r = Inr x \<and> f x = Inr y)"
  by (cases r) auto

lemma bindr_eq_Inl: "bindr r f = Inl e \<longleftrightarrow> r = Inl e \<or> (\<exists>x. r = Inr x \<and> f x = Inl e)"
  by (cases r) auto

lemma rescue_Inl [simp, res_simps]: "rescue p e (Inl x) = Inl (if p x then e else x)"
  by (simp add: rescue_def)

lemma rescue_Inr [simp, res_simps]: "rescue p e (Inr v) = Inr v"
  by (simp add: rescue_def)

lemma rescue_eq_Inr [simp, res_simps]: "rescue p e r = Inr v \<longleftrightarrow> r = Inr v"
  by (cases r) auto

lemma rescue_eq_Inl:
  "rescue p e r = Inl x \<longleftrightarrow> (\<exists>y. r = Inl y \<and> x = (if p y then e else y))"
  by (cases r) auto

lemma require_eq_Inr [simp, res_simps]: "require b e = Inr u \<longleftrightarrow> b"
  by (simp add: require_def)

lemma require_eq_Inl [simp, res_simps]: "require b e = Inl x \<longleftrightarrow> \<not> b \<and> x = e"
  by (auto simp: require_def)

lemma require_True [simp, res_simps]: "require True e = Inr ()"
  by (simp add: require_def)

lemma require_False [simp, res_simps]: "require False e = Inl e"
  by (simp add: require_def)

lemma opt_res_None [simp, res_simps]: "opt_res f None = Inr None"
  by (simp add: opt_res_def)

lemma opt_res_Some [simp, res_simps]: "opt_res f (Some x) = bindr (f x) (\<lambda>y. Inr (Some y))"
  by (simp add: opt_res_def)

lemma opt_res_eq_Inr:
  "opt_res f v = Inr w \<longleftrightarrow>
     (v = None \<and> w = None) \<or> (\<exists>x y. v = Some x \<and> f x = Inr y \<and> w = Some y)"
  by (cases v) auto

lemma of_option_None [simp, res_simps]: "of_option e None = Inl e"
  by (simp add: of_option_def)

lemma of_option_Some [simp, res_simps]: "of_option e (Some x) = Inr x"
  by (simp add: of_option_def)

lemma of_option_eq_Inr [simp, res_simps]: "of_option e v = Inr x \<longleftrightarrow> v = Some x"
  by (cases v) auto

lemma map_res_eq_Inr:
  "map_res f xs = Inr ys \<longleftrightarrow> list_all2 (\<lambda>x y. f x = Inr y) xs ys"
  by (induction xs arbitrary: ys) (auto simp: list_all2_Cons1)

lemma map_res_length: "map_res f xs = Inr ys \<Longrightarrow> length ys = length xs"
  by (auto simp: map_res_eq_Inr dest: list_all2_lengthD)

lemma map_res_fixpoint: "(\<And>x. x \<in> set xs \<Longrightarrow> f x = Inr x) \<Longrightarrow> map_res f xs = Inr xs"
  by (induction xs) auto

lemma map_res_idem:
  assumes "map_res f xs = Inr ys" and "\<And>x y. x \<in> set xs \<Longrightarrow> f x = Inr y \<Longrightarrow> f y = Inr y"
  shows "map_res f ys = Inr ys"
proof (rule map_res_fixpoint)
  fix y assume "y \<in> set ys"
  then obtain x where "x \<in> set xs" "f x = Inr y"
    using assms(1) by (fastforce simp: map_res_eq_Inr list_all2_conv_all_nth in_set_conv_nth)
  then show "f y = Inr y" by (rule assms(2))
qed

section \<open>Database transactions\<close>

text \<open>
  A service call is a state transformer \<open>'s \<Rightarrow> 'a res \<times> 's\<close>: it returns or raises, and it
  leaves a state behind in both cases. \<open>transaction\<close> is the pattern
  \<open>BEGIN IMMEDIATE; try: body; COMMIT; except: ROLLBACK; raise\<close>: the body's changes are kept
  when it returns and undone when it raises.
\<close>

type_synonym ('s, 'a) op = "'s \<Rightarrow> 'a res \<times> 's"

definition transaction :: "('s \<Rightarrow> ('a \<times> 's) res) \<Rightarrow> ('s, 'a) op" where
  "transaction body s = (case body s of Inl e \<Rightarrow> (Inl e, s) | Inr (x, s') \<Rightarrow> (Inr x, s'))"

definition bind_op :: "('s, 'a) op \<Rightarrow> ('a \<Rightarrow> ('s, 'b) op) \<Rightarrow> ('s, 'b) op" where
  "bind_op m f s = (case m s of (Inl e, s') \<Rightarrow> (Inl e, s') | (Inr x, s') \<Rightarrow> f x s')"

definition lift_op :: "('s \<Rightarrow> 'a res) \<Rightarrow> ('s, 'a) op" where
  "lift_op f s = (f s, s)"

lemma transaction_Inl: "transaction body s = (Inl e, s') \<longleftrightarrow> body s = Inl e \<and> s' = s"
  by (auto simp: transaction_def split: sum.splits prod.splits)

lemma transaction_Inr: "transaction body s = (Inr x, s') \<longleftrightarrow> body s = Inr (x, s')"
  by (auto simp: transaction_def split: sum.splits prod.splits)

lemma bind_op_eq:
  "bind_op m f s = (r, s') \<longleftrightarrow>
     (\<exists>e. m s = (Inl e, s') \<and> r = Inl e) \<or> (\<exists>x t. m s = (Inr x, t) \<and> f x t = (r, s'))"
  by (auto simp: bind_op_def split: prod.splits sum.splits)

lemma lift_op_eq [simp]: "lift_op f s = (r, s') \<longleftrightarrow> r = f s \<and> s' = s"
  by (auto simp: lift_op_def)

lemmas op_eqs = transaction_Inl transaction_Inr bind_op_eq lift_op_eq

end
