(* ===== verification/Text.thy ===== *)
theory Text
  imports Prelude
begin

text \<open>
  Python strings over the code points U+0000 to U+00FF: character classes, \<open>str.strip\<close>,
  \<open>str.split\<close> without a separator, \<open>" ".join\<close>, \<open>str.lower\<close>, the substring test, the length
  of the UTF-8 encoding and the decimal rendering of integers. The lemmas show that the
  normalisers are idempotent and what the normal forms look like.
\<close>

section \<open>Characters\<close>

definition ord :: "char \<Rightarrow> int" where
  "ord c = of_char c"

definition is_space :: "char \<Rightarrow> bool" where
  "is_space c = (let n = ord c in (9 \<le> n \<and> n \<le> 13) \<or> (28 \<le> n \<and> n \<le> 32) \<or> n = 133 \<or> n = 160)"

definition is_upper_ascii :: "char \<Rightarrow> bool" where
  "is_upper_ascii c = (65 \<le> ord c \<and> ord c \<le> 90)"

definition is_lower_ascii :: "char \<Rightarrow> bool" where
  "is_lower_ascii c = (97 \<le> ord c \<and> ord c \<le> 122)"

definition is_digit :: "char \<Rightarrow> bool" where
  "is_digit c = (48 \<le> ord c \<and> ord c \<le> 57)"

definition is_alnum_ascii :: "char \<Rightarrow> bool" where
  "is_alnum_ascii c = (is_upper_ascii c \<or> is_lower_ascii c \<or> is_digit c)"

definition is_word :: "char \<Rightarrow> bool" where
  "is_word c = (is_alnum_ascii c \<or> (let n = ord c in n = 95 \<or> n = 170 \<or> n = 178 \<or> n = 179 \<or>
     n = 181 \<or> n = 185 \<or> n = 186 \<or> (188 \<le> n \<and> n \<le> 190) \<or> (192 \<le> n \<and> n \<noteq> 215 \<and> n \<noteq> 247)))"

definition lower_char :: "char \<Rightarrow> char" where
  "lower_char c = (let n = ord c in
     if (65 \<le> n \<and> n \<le> 90) \<or> (192 \<le> n \<and> n \<le> 222 \<and> n \<noteq> 215) then char_of (n + 32) else c)"

definition lower :: "string \<Rightarrow> string" where
  "lower s = map lower_char s"

definition contains_control :: "string \<Rightarrow> bool" where
  "contains_control s = list_ex (\<lambda>c. ord c < 32) s"

definition utf8_length :: "string \<Rightarrow> nat" where
  "utf8_length s = sum_list (map (\<lambda>c. if ord c < 128 then 1 else 2) s)"

section \<open>Stripping and splitting\<close>

definition lstrip :: "string \<Rightarrow> string" where
  "lstrip s = dropWhile is_space s"

definition rstrip_by :: "(char \<Rightarrow> bool) \<Rightarrow> string \<Rightarrow> string" where
  "rstrip_by p s = rev (dropWhile p (rev s))"

definition strip :: "string \<Rightarrow> string" where
  "strip s = rstrip_by is_space (lstrip s)"

fun words_from :: "string \<Rightarrow> string \<Rightarrow> string list" where
  "words_from acc [] = (if acc = [] then [] else [rev acc])"
| "words_from acc (c # cs) =
     (if is_space c then (if acc = [] then words_from [] cs else rev acc # words_from [] cs)
      else words_from (c # acc) cs)"

definition split_ws :: "string \<Rightarrow> string list" where
  "split_ws s = words_from [] s"

fun join :: "string \<Rightarrow> string list \<Rightarrow> string" where
  "join sep [] = []"
| "join sep [w] = w"
| "join sep (w # v # ws) = w @ sep @ join sep (v # ws)"

text \<open>\<open>" ".join(value.split())\<close>\<close>

definition norm_ws :: "string \<Rightarrow> string" where
  "norm_ws s = join '' '' (split_ws s)"

text \<open>\<open>value.split(sep)\<close> for a one-character separator.\<close>

fun split_on :: "char \<Rightarrow> string \<Rightarrow> string list" where
  "split_on d [] = [[]]"
| "split_on d (c # cs) =
     (if c = d then [] # split_on d cs
      else (case split_on d cs of [] \<Rightarrow> [[c]] | w # ws \<Rightarrow> (c # w) # ws))"

fun starts_with :: "string \<Rightarrow> string \<Rightarrow> bool" where
  "starts_with [] s = True"
| "starts_with (p # ps) [] = False"
| "starts_with (p # ps) (c # cs) = (p = c \<and> starts_with ps cs)"

definition ends_with :: "string \<Rightarrow> string \<Rightarrow> bool" where
  "ends_with p s = starts_with (rev p) (rev s)"

fun contains_text :: "string \<Rightarrow> string \<Rightarrow> bool" where
  "contains_text p [] = (p = [])"
| "contains_text p (c # cs) = (starts_with p (c # cs) \<or> contains_text p cs)"

section \<open>Integers as text\<close>

definition digit_char :: "nat \<Rightarrow> char" where
  "digit_char n = char_of (48 + int n)"

fun show_nat :: "nat \<Rightarrow> string" where
  "show_nat n = (if n < 10 then [digit_char n] else show_nat (n div 10) @ [digit_char (n mod 10)])"

declare show_nat.simps [simp del]

definition show_int :: "int \<Rightarrow> string" where
  "show_int i = (if i < 0 then CHR ''-'' # show_nat (nat (- i)) else show_nat (nat i))"

section \<open>Properties of the normalisers\<close>

lemma ord_nat: "ord c = int (of_char c)"
  by (simp add: ord_def of_nat_of_char)

lemma ord_range: "0 \<le> ord c \<and> ord c < 256"
  unfolding ord_nat using nat_of_char_less_256 [of c] by simp

lemma ord_inject [simp]: "ord c = ord d \<longleftrightarrow> c = d"
  by (simp add: ord_def)

lemma ord_char_of: "0 \<le> n \<Longrightarrow> n < 256 \<Longrightarrow> ord (char_of n) = n"
  by (simp add: ord_def)

lemma dropWhile_idem [simp]: "dropWhile p (dropWhile p xs) = dropWhile p xs"
  by (induction xs) auto

lemma dropWhile_fix: "xs = [] \<or> \<not> p (hd xs) \<Longrightarrow> dropWhile p xs = xs"
  by (cases xs) auto

lemma hd_dropWhile_not: "dropWhile p xs \<noteq> [] \<Longrightarrow> \<not> p (hd (dropWhile p xs))"
  by (rule hd_dropWhile)

text \<open>A stripped text has no white space at either end, and stripping leaves such a text alone.\<close>

definition stripped :: "string \<Rightarrow> bool" where
  "stripped s \<longleftrightarrow> s = [] \<or> \<not> is_space (hd s) \<and> \<not> is_space (last s)"

lemma strip_fix: "stripped s \<Longrightarrow> strip s = s"
  by (cases s rule: rev_cases)
    (auto simp: stripped_def strip_def lstrip_def rstrip_by_def dropWhile_fix)

lemma rstrip_by_prefix: "\<exists>t. s = rstrip_by p s @ t"
proof -
  have "rev s = takeWhile p (rev s) @ dropWhile p (rev s)" by simp
  then have "s = rev (dropWhile p (rev s)) @ rev (takeWhile p (rev s))"
    by (metis rev_append rev_rev_ident)
  then show ?thesis by (auto simp: rstrip_by_def)
qed

lemma rstrip_by_last: "rstrip_by p s \<noteq> [] \<Longrightarrow> \<not> p (last (rstrip_by p s))"
  unfolding rstrip_by_def by (simp add: last_rev hd_dropWhile)

lemma rstrip_by_hd: "rstrip_by p s \<noteq> [] \<Longrightarrow> hd (rstrip_by p s) = hd s"
  using rstrip_by_prefix [of s p] by (metis hd_append2)

lemma stripped_strip [simp]: "stripped (strip s)"
proof (cases "strip s = []")
  case True
  then show ?thesis by (simp add: stripped_def)
next
  case False
  then have "hd (strip s) = hd (lstrip s)" by (simp add: strip_def rstrip_by_hd)
  moreover have "lstrip s \<noteq> []" using False by (auto simp: strip_def rstrip_by_def)
  ultimately have "\<not> is_space (hd (strip s))" by (simp add: lstrip_def hd_dropWhile)
  moreover have "\<not> is_space (last (strip s))"
    using False by (simp add: strip_def rstrip_by_last)
  ultimately show ?thesis by (simp add: stripped_def)
qed

lemma strip_idem [simp, text_simps]: "strip (strip s) = strip s"
  by (rule strip_fix) simp

lemma set_rstrip_by: "set (rstrip_by p s) \<subseteq> set s"
  by (auto simp: rstrip_by_def dest: set_dropWhileD)

lemma set_strip: "set (strip s) \<subseteq> set s"
proof -
  have "set (strip s) \<subseteq> set (lstrip s)"
    unfolding strip_def by (rule set_rstrip_by)
  also have "\<dots> \<subseteq> set s" unfolding lstrip_def by (auto dest: set_dropWhileD)
  finally show ?thesis .
qed

text \<open>Splitting at white space yields non-empty words without white space, and joining such
  words with one blank is undone by splitting again.\<close>

definition is_word_text :: "string \<Rightarrow> bool" where
  "is_word_text w \<longleftrightarrow> w \<noteq> [] \<and> (\<forall>c \<in> set w. \<not> is_space c)"

lemma words_from_wf:
  "(\<forall>c \<in> set acc. \<not> is_space c) \<Longrightarrow> w \<in> set (words_from acc s) \<Longrightarrow> is_word_text w"
proof (induction acc s rule: words_from.induct)
  case (1 acc)
  then show ?case by (cases "acc = []") (auto simp: is_word_text_def)
next
  case (2 acc c cs)
  show ?case
  proof (cases "is_space c")
    case True
    with 2 show ?thesis by (cases "acc = []") (auto simp: is_word_text_def)
  next
    case False
    with 2 show ?thesis by simp
  qed
qed

lemma split_ws_wf: "w \<in> set (split_ws s) \<Longrightarrow> is_word_text w"
  unfolding split_ws_def by (rule words_from_wf) auto

lemma words_from_word:
  "(\<forall>c \<in> set w. \<not> is_space c) \<Longrightarrow> words_from acc (w @ s) = words_from (rev w @ acc) s"
  by (induction w arbitrary: acc) auto

lemma is_space_blank [simp]: "is_space CHR '' ''"
  by code_simp

lemma split_ws_join: "(\<forall>w \<in> set ws. is_word_text w) \<Longrightarrow> split_ws (join '' '' ws) = ws"
proof (induction "'' ''" ws rule: join.induct)
  case (2 w)
  then show ?case using words_from_word [of w "[]" "[]"] by (auto simp: split_ws_def is_word_text_def)
next
  case (3 w v ws)
  then show ?case by (auto simp: split_ws_def is_word_text_def words_from_word)
qed (simp add: split_ws_def)

lemma split_ws_norm_ws [simp, text_simps]: "split_ws (norm_ws s) = split_ws s"
  unfolding norm_ws_def by (rule split_ws_join) (simp add: split_ws_wf)

lemma norm_ws_idem [simp, text_simps]: "norm_ws (norm_ws s) = norm_ws s"
  by (metis norm_ws_def split_ws_norm_ws)

lemma lower_char_idem: "lower_char (lower_char c) = lower_char c"
  using ord_range [of c] by (auto simp: lower_char_def Let_def ord_char_of)

lemma lower_idem [simp, text_simps]: "lower (lower s) = lower s"
  by (simp add: lower_def lower_char_idem)

lemma length_lower [simp]: "length (lower s) = length s"
  by (simp add: lower_def)

lemma starts_with_append [simp]: "starts_with p (p @ s)"
  by (induction p) auto

lemma starts_with_iff: "starts_with p s \<longleftrightarrow> (\<exists>t. s = p @ t)"
  by (induction p s rule: starts_with.induct) auto

lemma ends_with_iff: "ends_with p s \<longleftrightarrow> (\<exists>t. s = t @ p)"
  unfolding ends_with_def starts_with_iff by (metis rev_append rev_rev_ident)

lemma contains_text_iff: "contains_text p s \<longleftrightarrow> (\<exists>a b. s = a @ p @ b)"
proof (induction s)
  case Nil
  then show ?case by simp
next
  case IH: (Cons c cs)
  show ?case
  proof
    assume "contains_text p (c # cs)"
    then show "\<exists>a b. c # cs = a @ p @ b"
      using IH by (auto simp: starts_with_iff intro: exI [of _ "[]"]) (metis append_Cons)
  next
    assume "\<exists>a b. c # cs = a @ p @ b"
    then obtain a b where ab: "c # cs = a @ p @ b" by blast
    show "contains_text p (c # cs)"
    proof (cases a)
      case Nil
      then have "starts_with p (c # cs)" using ab by (simp add: starts_with_iff)
      then show ?thesis by simp
    next
      case (Cons d a')
      with ab IH show ?thesis by auto
    qed
  qed
qed

section \<open>Decimal numerals are read back\<close>

definition digit_value :: "char \<Rightarrow> nat" where
  "digit_value c = nat (ord c - 48)"

definition read_nat :: "string \<Rightarrow> nat" where
  "read_nat s = foldl (\<lambda>n c. 10 * n + digit_value c) 0 s"

lemma ord_digit_char: "n < 10 \<Longrightarrow> ord (digit_char n) = 48 + int n"
  by (simp add: ord_def digit_char_def)

lemma is_digit_digit_char: "n < 10 \<Longrightarrow> is_digit (digit_char n)"
  by (simp add: is_digit_def ord_digit_char)

lemma show_nat_digits: "\<forall>c \<in> set (show_nat n). is_digit c"
proof (induction n rule: show_nat.induct)
  case (1 n)
  then show ?case
    by (cases "n < 10") (auto simp: show_nat.simps [of n] is_digit_digit_char)
qed

lemma show_nat_nonempty [simp]: "show_nat n \<noteq> []"
  by (subst show_nat.simps) simp

lemma read_show_nat: "read_nat (show_nat n) = n"
proof (induction n rule: show_nat.induct)
  case (1 n)
  then show ?case
    by (cases "n < 10")
      (auto simp: show_nat.simps [of n] read_nat_def digit_value_def ord_digit_char)
qed

lemma show_nat_inject [simp]: "show_nat m = show_nat n \<longleftrightarrow> m = n"
  by (metis read_show_nat)

lemma show_nat_hd: "hd (show_nat n) \<noteq> CHR ''-''"
proof -
  have "is_digit (hd (show_nat n))"
    using show_nat_digits hd_in_set [OF show_nat_nonempty] by blast
  then show ?thesis by (auto simp: is_digit_def ord_def)
qed

lemma show_int_inject [simp]: "show_int i = show_int j \<longleftrightarrow> i = j"
proof
  assume eq: "show_int i = show_int j"
  have "hd (show_nat n) # tl (show_nat n) = show_nat n" for n by simp
  then show "i = j"
    using eq show_nat_hd [of "nat i"] show_nat_hd [of "nat j"]
    by (auto simp: show_int_def split: if_splits) (metis list.sel(1))+
qed simp

end
