(* ===== verification/Json.thy ===== *)
theory Json
  imports Text
begin

text \<open>
  JSON values and their canonical text, \<open>json.dumps(value, ensure_ascii=False, sort_keys=True,
  separators=(",", ":"))\<close>. An object is the list of its items in insertion order; \<open>canon\<close>
  sorts the keys as the encoder does, and two values are equal for Python when their
  normal forms agree. A float is kept as its \<open>repr\<close> text. The main result is that the
  canonical text determines the value (\<open>encode_inject\<close>): nothing that is hashed or stored as
  canonical JSON is lost.
\<close>

datatype json =
    JNull
  | JBool bool
  | JInt int
  | JFloat string
  | JStr string
  | JList "json list"
  | JObj "(string \<times> json) list"

type_synonym dict = "(string \<times> json) list"

fun canon :: "json \<Rightarrow> json" where
  "canon (JList xs) = JList (map canon xs)"
| "canon (JObj kvs) = JObj (sort_key fst (map (\<lambda>(k, v). (k, canon v)) kvs))"
| "canon v = v"

abbreviation canon_dict :: "dict \<Rightarrow> dict" where
  "canon_dict d \<equiv> sort_key fst (map (\<lambda>(k, v). (k, canon v)) d)"

text \<open>Python's \<open>==\<close>: the order of items does not count, \<open>True == 1 == 1.0\<close>. A float is compared
  with an integer by its text, which is exact below \<open>10 ^ 16\<close>.\<close>

definition float_int :: "string \<Rightarrow> int option" where
  "float_int r =
     (let p = take (length r - 2) r;
          (sign, digits) = (case p of [] \<Rightarrow> (1, []) | c # cs \<Rightarrow> if c = CHR ''-'' then (- 1, cs) else (1, p))
      in if ends_with ''.0'' r \<and> digits \<noteq> [] \<and> list_all is_digit digits
         then Some (sign * int (read_nat digits)) else None)"

fun num_norm :: "json \<Rightarrow> json" where
  "num_norm (JBool b) = JInt (if b then 1 else 0)"
| "num_norm (JFloat r) = (case float_int r of Some n \<Rightarrow> JInt n | None \<Rightarrow> JFloat r)"
| "num_norm (JList xs) = JList (map num_norm xs)"
| "num_norm (JObj kvs) = JObj (map (\<lambda>(k, v). (k, num_norm v)) kvs)"
| "num_norm v = v"

definition py_eq :: "json \<Rightarrow> json \<Rightarrow> bool" where
  "py_eq v w \<longleftrightarrow> canon (num_norm v) = canon (num_norm w)"

definition dict_eq :: "dict \<Rightarrow> dict \<Rightarrow> bool" where
  "dict_eq d e \<longleftrightarrow> py_eq (JObj d) (JObj e)"

section \<open>Text\<close>

definition hex_char :: "int \<Rightarrow> char" where
  "hex_char n = (if n < 10 then char_of (48 + n) else char_of (87 + n))"

definition esc_char :: "char \<Rightarrow> string" where
  "esc_char c =
     (if c = CHR 0x22 then [CHR 0x5C, CHR 0x22]
      else if c = CHR 0x5C then [CHR 0x5C, CHR 0x5C]
      else if c = CHR 0x0A then [CHR 0x5C, CHR ''n'']
      else if c = CHR 0x0D then [CHR 0x5C, CHR ''r'']
      else if c = CHR 0x09 then [CHR 0x5C, CHR ''t'']
      else if c = CHR 0x0C then [CHR 0x5C, CHR ''f'']
      else if c = CHR 0x08 then [CHR 0x5C, CHR ''b'']
      else if ord c < 32 then [CHR 0x5C, CHR ''u'', CHR ''0'', CHR ''0'',
                               hex_char (ord c div 16), hex_char (ord c mod 16)]
      else [c])"

definition json_string :: "string \<Rightarrow> string" where
  "json_string s = CHR 0x22 # concat (map esc_char s) @ [CHR 0x22]"

fun dumps :: "json \<Rightarrow> string" where
  "dumps JNull = ''null''"
| "dumps (JBool b) = (if b then ''true'' else ''false'')"
| "dumps (JInt i) = show_int i"
| "dumps (JFloat r) = r"
| "dumps (JStr s) = json_string s"
| "dumps (JList xs) = ''['' @ join '','' (map dumps xs) @ '']''"
| "dumps (JObj kvs) = ''{'' @ join '','' (map (\<lambda>(k, v). json_string k @ '':'' @ dumps v) kvs) @ ''}''"

definition encode :: "json \<Rightarrow> string" where
  "encode v = dumps (canon v)"

text \<open>\<open>allow_nan=False\<close>: the encoder raises ValueError for \<open>nan\<close> and the infinities.\<close>

definition finite_float :: "string \<Rightarrow> bool" where
  "finite_float r \<longleftrightarrow> r \<notin> {''nan'', ''inf'', ''-inf''}"

fun all_finite :: "json \<Rightarrow> bool" where
  "all_finite (JFloat r) = finite_float r"
| "all_finite (JList xs) = list_all all_finite xs"
| "all_finite (JObj kvs) = list_all (\<lambda>(k, v). all_finite v) kvs"
| "all_finite v = True"

text \<open>The \<open>repr\<close> of a finite float: number characters with a point or an exponent.\<close>

definition num_char :: "char \<Rightarrow> bool" where
  "num_char c = (is_digit c \<or> c = CHR ''-'' \<or> c = CHR ''+'' \<or> c = CHR ''.'' \<or> c = CHR ''e'')"

definition float_repr :: "string \<Rightarrow> bool" where
  "float_repr r \<longleftrightarrow> r \<noteq> [] \<and> (is_digit (hd r) \<or> hd r = CHR ''-'') \<and> list_all num_char r \<and>
     list_ex (\<lambda>c. c = CHR ''.'' \<or> c = CHR ''e'') r"

fun wf_json :: "json \<Rightarrow> bool" where
  "wf_json (JFloat r) = float_repr r"
| "wf_json (JList xs) = list_all wf_json xs"
| "wf_json (JObj kvs) = list_all (\<lambda>(k, v). wf_json v) kvs"
| "wf_json v = True"

section \<open>The canonical form\<close>

lemma json_induct [case_names JNull JBool JInt JFloat JStr JList JObj]:
  assumes "P JNull" "\<And>b. P (JBool b)" "\<And>i. P (JInt i)" "\<And>r. P (JFloat r)" "\<And>s. P (JStr s)"
    and "\<And>xs. (\<And>x. x \<in> set xs \<Longrightarrow> P x) \<Longrightarrow> P (JList xs)"
    and "\<And>kvs. (\<And>k v. (k, v) \<in> set kvs \<Longrightarrow> P v) \<Longrightarrow> P (JObj kvs)"
  shows "P v"
  using assms by (induction v rule: canon.induct) auto

lemma sort_key_fixpoint: "sorted (map f xs) \<Longrightarrow> sort_key f xs = xs"
  by (induction xs) (auto simp: insort_is_Cons)

lemma canon_idem [simp]: "canon (canon v) = canon v"
proof (induction v rule: json_induct)
  case (JObj kvs)
  let ?d = "canon_dict kvs"
  have "sorted (map fst ?d)" by simp
  moreover have "map (\<lambda>(k, v). (k, canon v)) ?d = ?d"
  proof (rule map_idI)
    fix kv assume "kv \<in> set ?d"
    then obtain k v where "kv = (k, canon v)" "(k, v) \<in> set kvs" by auto
    with JObj show "(case kv of (k, v) \<Rightarrow> (k, canon v)) = kv" by simp
  qed
  ultimately show ?case by (simp add: sort_key_fixpoint)
qed simp_all

lemma canon_dict_idem [simp]: "canon_dict (canon_dict d) = canon_dict d"
  using canon_idem [of "JObj d"] by simp

lemma wf_json_canon [simp]: "wf_json (canon v) \<longleftrightarrow> wf_json v"
proof (induction v rule: json_induct)
  case (JObj kvs)
  then show ?case by (fastforce simp: list_all_iff)
qed (simp_all add: list_all_iff)

lemma all_finite_canon [simp]: "all_finite (canon v) \<longleftrightarrow> all_finite v"
proof (induction v rule: json_induct)
  case (JObj kvs)
  then show ?case by (fastforce simp: list_all_iff)
qed (simp_all add: list_all_iff)

lemma encode_canon [simp]: "encode (canon v) = encode v"
  by (simp add: encode_def)

lemma distinct_map_sort_key: "distinct (map f (sort_key g xs)) \<longleftrightarrow> distinct (map f xs)"
  by (simp add: distinct_map)

lemma map_of_canon_dict:
  assumes "distinct (map fst d)"
  shows "map_of (canon_dict d) k = map_option canon (map_of d k)"
proof -
  let ?e = "map (\<lambda>(k, v). (k, canon v)) d"
  have "map fst ?e = map fst d" by (simp add: case_prod_beta comp_def)
  then have e: "distinct (map fst ?e)" using assms by (simp only:)
  then have "distinct (map fst (sort_key fst ?e))" by (simp only: distinct_map_sort_key)
  then have "map_of (sort_key fst ?e) = map_of ?e"
    using e by (intro map_of_inject_set [THEN iffD2]) simp_all
  then show ?thesis by (simp add: map_of_map)
qed

lemma py_eq_refl [simp]: "py_eq v v"
  by (simp add: py_eq_def)

lemma py_eq_JStr [simp]: "py_eq v (JStr s) \<longleftrightarrow> v = JStr s"
  by (cases v) (auto simp: py_eq_def split: option.splits)

section \<open>The canonical text determines the value\<close>

lemma hex_char_inject:
  "0 \<le> m \<Longrightarrow> m < 16 \<Longrightarrow> 0 \<le> n \<Longrightarrow> n < 16 \<Longrightarrow> hex_char m = hex_char n \<Longrightarrow> m = n"
proof -
  assume mn: "0 \<le> m" "m < 16" "0 \<le> n" "n < 16" and eq: "hex_char m = hex_char n"
  have "ord (hex_char m) = ord (hex_char n)" using eq by simp
  then show "m = n" using mn by (auto simp: hex_char_def ord_char_of split: if_splits)
qed

lemma esc_char_control_inject:
  assumes "ord c < 32" "ord d < 32"
    and "hex_char (ord c div 16) = hex_char (ord d div 16)"
    and "hex_char (ord c mod 16) = hex_char (ord d mod 16)"
  shows "c = d"
proof -
  have "ord c div 16 = ord d div 16"
    using assms(1-3) ord_range [of c] ord_range [of d] by (intro hex_char_inject) auto
  moreover have "ord c mod 16 = ord d mod 16"
    using assms(4) by (intro hex_char_inject) auto
  ultimately have "ord c = ord d" by (metis div_mult_mod_eq)
  then show ?thesis by simp
qed

text \<open>The escapes form a prefix code.\<close>

lemma esc_char_prefix_code: "esc_char c @ x = esc_char d @ y \<Longrightarrow> c = d \<and> x = y"
  by (auto simp: esc_char_def dest: esc_char_control_inject split: if_splits)

lemma esc_char_not_quote: "esc_char c @ x \<noteq> CHR 0x22 # y"
  by (auto simp: esc_char_def)

lemma esc_text_inject:
  "concat (map esc_char s) @ CHR 0x22 # x = concat (map esc_char t) @ CHR 0x22 # y \<Longrightarrow> s = t \<and> x = y"
proof (induction s arbitrary: t)
  case Nil
  then show ?case
    using esc_char_not_quote by (cases t) (auto, metis)
next
  case (Cons c s)
  show ?case
  proof (cases t)
    case Nil
    with Cons.prems show ?thesis using esc_char_not_quote by auto
  next
    case (Cons d t')
    with Cons.prems have "esc_char c @ (concat (map esc_char s) @ CHR 0x22 # x) =
        esc_char d @ (concat (map esc_char t') @ CHR 0x22 # y)"
      by simp
    from esc_char_prefix_code [OF this] Cons Cons.IH show ?thesis by auto
  qed
qed

lemma json_string_inject: "json_string s @ x = json_string t @ y \<Longrightarrow> s = t \<and> x = y"
  using esc_text_inject [of s x t y] by (simp add: json_string_def)

definition delimited :: "string \<Rightarrow> bool" where
  "delimited r \<longleftrightarrow> r = [] \<or> hd r \<in> {CHR '','', CHR '']'', CHR ''}''}"

lemma delimited_not_num: "delimited r \<Longrightarrow> r \<noteq> [] \<Longrightarrow> \<not> num_char (hd r)"
  by (auto simp: delimited_def num_char_def is_digit_def ord_def)

lemma num_text_unique:
  assumes "list_all num_char t" "list_all num_char u" "delimited r" "delimited s" "t @ r = u @ s"
  shows "t = u \<and> r = s"
proof -
  have tw: "takeWhile num_char (t @ r) = t"
    if "list_all num_char t" "delimited r" for t r
    using that delimited_not_num [of r]
    by (cases r) (auto simp: takeWhile_append2 list_all_iff takeWhile_tail)
  from tw [OF assms(1,3)] tw [OF assms(2,4)] assms(5) show ?thesis by simp
qed

lemma digits_num: "\<forall>c \<in> set (show_nat n). num_char c \<and> c \<noteq> CHR ''.'' \<and> c \<noteq> CHR ''e''"
proof
  fix c assume "c \<in> set (show_nat n)"
  then have "is_digit c" using show_nat_digits by blast
  then show "num_char c \<and> c \<noteq> CHR ''.'' \<and> c \<noteq> CHR ''e''"
    by (auto simp: num_char_def is_digit_def ord_def)
qed

lemma show_int_num: "list_all num_char (show_int i)"
  using digits_num by (auto simp: show_int_def list_all_iff num_char_def)

lemma show_int_chars: "c \<in> set (show_int i) \<Longrightarrow> c \<noteq> CHR ''.'' \<and> c \<noteq> CHR ''e''"
  using digits_num [of "nat i"] digits_num [of "nat (- i)"] by (auto simp: show_int_def split: if_splits)

lemma show_int_not_float:
  assumes "float_repr r"
  shows "show_int i \<noteq> r"
proof -
  from assms obtain c where "c \<in> set r" "c = CHR ''.'' \<or> c = CHR ''e''"
    by (auto simp: float_repr_def list_ex_iff)
  then show ?thesis using show_int_chars by blast
qed

lemma show_int_nonempty: "show_int i \<noteq> []"
  by (simp add: show_int_def)

text \<open>The first character tells the kind of value apart.\<close>

datatype json_kind = KNull | KTrue | KFalse | KNum | KStr | KList | KObj | KNone

definition kind_of_char :: "char \<Rightarrow> json_kind" where
  "kind_of_char c = (if c = CHR ''n'' then KNull else if c = CHR ''t'' then KTrue
     else if c = CHR ''f'' then KFalse else if c = CHR 0x22 then KStr
     else if c = CHR ''['' then KList else if c = CHR ''{'' then KObj
     else if is_digit c \<or> c = CHR ''-'' then KNum else KNone)"

fun jkind :: "json \<Rightarrow> json_kind" where
  "jkind JNull = KNull"
| "jkind (JBool b) = (if b then KTrue else KFalse)"
| "jkind (JInt i) = KNum"
| "jkind (JFloat r) = KNum"
| "jkind (JStr s) = KStr"
| "jkind (JList xs) = KList"
| "jkind (JObj kvs) = KObj"

lemma kind_of_num: "is_digit c \<or> c = CHR ''-'' \<Longrightarrow> kind_of_char c = KNum"
  by (auto simp: kind_of_char_def is_digit_def ord_def)

lemma dumps_kind: "wf_json v \<Longrightarrow> dumps v \<noteq> [] \<and> kind_of_char (hd (dumps v)) = jkind v"
proof (cases v)
  case (JInt i)
  have "is_digit (hd (show_nat n))" for n
    using show_nat_digits hd_in_set [OF show_nat_nonempty] by blast
  then show ?thesis using JInt by (auto simp: show_int_def kind_of_num)
qed (auto simp: float_repr_def kind_of_num json_string_def kind_of_char_def is_digit_def ord_def)

lemma dumps_not_closing: "wf_json v \<Longrightarrow> hd (dumps v) \<notin> {CHR '','', CHR '']'', CHR ''}''}"
  using dumps_kind [of v] by (cases v) (auto simp: kind_of_char_def is_digit_def ord_def split: if_splits)

lemma join_Cons: "join sep (w # ws) = w @ (if ws = [] then [] else sep @ join sep ws)"
  by (cases ws) auto

lemma join_inject:
  assumes elem: "\<And>x y r s. x \<in> set xs \<Longrightarrow> y \<in> set ys \<Longrightarrow> f x @ r = f y @ s \<Longrightarrow>
      delimited r \<Longrightarrow> delimited s \<Longrightarrow> x = y \<and> r = s"
    and open_x: "\<And>x. x \<in> set xs \<Longrightarrow> f x \<noteq> [] \<and> hd (f x) \<noteq> cl"
    and open_y: "\<And>y. y \<in> set ys \<Longrightarrow> f y \<noteq> [] \<and> hd (f y) \<noteq> cl"
    and cl: "cl = CHR '']'' \<or> cl = CHR ''}''"
    and eq: "join '','' (map f xs) @ cl # r = join '','' (map f ys) @ cl # s"
  shows "xs = ys \<and> r = s"
  using elem open_x open_y eq
proof (induction xs arbitrary: ys)
  case Nil
  show ?case
  proof (cases ys)
    case (Cons y ys')
    with Nil.prems(3) [of y] Nil.prems(4) show ?thesis
      by (cases "f y") (auto simp: join_Cons)
  qed (use Nil in simp)
next
  case (Cons x xs)
  show ?case
  proof (cases ys)
    case Nil
    with Cons.prems(2) [of x] Cons.prems(4) show ?thesis
      by (cases "f x") (auto simp: join_Cons)
  next
    case ys: (Cons y ys')
    let ?tail = "\<lambda>zs r. (if zs = [] then [] else '','' @ join '','' (map f zs)) @ cl # r"
    have "f x @ ?tail xs r = f y @ ?tail ys' s"
      using Cons.prems(4) ys by (simp add: join_Cons split: if_splits)
    moreover have "delimited (?tail zs q)" for zs q using cl by (auto simp: delimited_def)
    ultimately have xy: "x = y" "?tail xs r = ?tail ys' s"
      using Cons.prems(1) [of x y "?tail xs r" "?tail ys' s"] ys by auto
    have "xs = ys' \<and> r = s"
    proof (cases "xs = [] \<or> ys' = []")
      case True
      with xy(2) cl show ?thesis by (auto split: if_splits)
    next
      case False
      with xy(2) have "join '','' (map f xs) @ cl # r = join '','' (map f ys') @ cl # s" by simp
      then show ?thesis
      proof (rule Cons.IH [rotated -1])
        show "x = y \<and> r = s" if "x \<in> set xs" "y \<in> set ys'" "f x @ r = f y @ s" "delimited r" "delimited s"
          for x y r s by (rule Cons.prems(1)) (use that ys in simp_all)
      qed (use Cons.prems(2,3) ys in simp_all)
    qed
    with xy ys show ?thesis by simp
  qed
qed

lemma dumps_inject_aux:
  "wf_json v \<Longrightarrow> wf_json w \<Longrightarrow> dumps v @ r = dumps w @ s \<Longrightarrow> delimited r \<Longrightarrow> delimited s \<Longrightarrow>
     v = w \<and> r = s"
proof (induction v arbitrary: w r s rule: json_induct)
  case (JInt i)
  have "jkind w = KNum"
    using dumps_kind [OF JInt(1)] dumps_kind [OF JInt(2)] JInt(3) by (metis hd_append2 jkind.simps(3))
  then show ?case using JInt show_int_num show_int_not_float
    by (cases w) (auto dest!: num_text_unique [rotated -1] simp: float_repr_def split: if_splits)
next
  case (JFloat t)
  have "jkind w = KNum"
    using dumps_kind [OF JFloat(1)] dumps_kind [OF JFloat(2)] JFloat(3)
    by (metis hd_append2 jkind.simps(4))
  then show ?case using JFloat show_int_num show_int_not_float
    by (cases w) (auto dest!: num_text_unique [rotated -1] simp: float_repr_def split: if_splits)
next
  case (JStr t)
  have "jkind w = KStr"
    using dumps_kind [OF JStr(1)] dumps_kind [OF JStr(2)] JStr(3) by (metis hd_append2 jkind.simps(5))
  with JStr show ?case by (cases w) (auto dest: json_string_inject split: if_splits)
next
  case (JList xs)
  have "jkind w = KList"
    using dumps_kind [OF JList(2)] dumps_kind [OF JList(3)] JList(4) by (metis hd_append2 jkind.simps(6))
  then obtain ys where w: "w = JList ys" by (cases w) (auto split: if_splits)
  have wf: "x \<in> set xs \<Longrightarrow> wf_json x" "y \<in> set ys \<Longrightarrow> wf_json y" for x y
    using JList.prems(1,2) w by (simp_all add: list_all_iff)
  have "xs = ys \<and> r = s"
  proof (rule join_inject [where f = dumps and cl = "CHR '']''"])
    show "x = y \<and> a = b" if "x \<in> set xs" "y \<in> set ys" "dumps x @ a = dumps y @ b" "delimited a" "delimited b"
      for x y a b using that wf by (intro JList.IH) simp_all
    show "join '','' (map dumps xs) @ CHR '']'' # r = join '','' (map dumps ys) @ CHR '']'' # s"
      using JList.prems(3) w by simp
  qed (use dumps_kind dumps_not_closing wf in simp_all)
  with w show ?case by simp
next
  case (JObj kvs)
  let ?f = "\<lambda>(k, v). json_string k @ '':'' @ dumps v"
  have "jkind w = KObj"
    using dumps_kind [OF JObj(2)] dumps_kind [OF JObj(3)] JObj(4) by (metis hd_append2 jkind.simps(7))
  then obtain ys where w: "w = JObj ys" by (cases w) (auto split: if_splits)
  have item: "x = y \<and> a = b"
    if xy: "x \<in> set kvs" "y \<in> set ys" and eq: "?f x @ a = ?f y @ b" and "delimited a" "delimited b"
    for x y a b
  proof -
    obtain k u l z where kv: "x = (k, u)" "y = (l, z)" by (cases x, cases y)
    with eq have "json_string k @ ('':'' @ dumps u @ a) = json_string l @ ('':'' @ dumps z @ b)" by simp
    from json_string_inject [OF this] have "k = l" "dumps u @ a = dumps z @ b" by auto
    with JObj.IH [of k u z a b] JObj.prems w kv that show ?thesis by (auto simp: list_all_iff)
  qed
  have "kvs = ys \<and> r = s"
    by (rule join_inject [where f = ?f and cl = "CHR ''}''"])
      (use item JObj.prems(3) w in \<open>auto simp: json_string_def\<close>)
  with w show ?case by simp
next
  case JNull
  have "jkind w = KNull"
    using dumps_kind [OF JNull(2)] JNull(3) by (cases "dumps w") (auto simp: kind_of_char_def)
  with JNull show ?case by (cases w) (auto split: if_splits)
next
  case (JBool b)
  have "jkind w = jkind (JBool b)"
    using dumps_kind [OF JBool(1)] dumps_kind [OF JBool(2)] JBool(3) by (metis hd_append2)
  with JBool show ?case by (cases w) (auto split: if_splits)
qed

lemma dumps_inject: "wf_json v \<Longrightarrow> wf_json w \<Longrightarrow> dumps v = dumps w \<Longrightarrow> v = w"
  using dumps_inject_aux [of v w "[]" "[]"] by (simp add: delimited_def)

lemma encode_inject: "wf_json v \<Longrightarrow> wf_json w \<Longrightarrow> encode v = encode w \<Longrightarrow> canon v = canon w"
  unfolding encode_def by (rule dumps_inject) simp_all

end
