(* ===== verification/Regex.thy ===== *)
theory Regex
  imports Text
begin

text \<open>
  The part of Python's \<open>re\<close> that the sources use, as an executable backtracking matcher:
  character classes, sequence, ordered choice, bounded repetition (greedy and lazy), named
  groups, back references, word boundaries and one-character negative look-behind. A match
  state is the reversed text before the cursor, the text after it and the recorded groups;
  \<open>rmatch\<close> lists all ways to match in the order in which the engine tries them, so the head
  of the list is the engine's match. A repetition needs no more rounds than there are
  characters left, because the bodies used here consume at least one character; \<open>rep_loop\<close>
  has that many rounds as its fuel.
\<close>

datatype rx =
    REps
  | RCls "char \<Rightarrow> bool"
  | RSeq rx rx
  | RAlt rx rx
  | RRep nat "int option" bool rx
  | RGrp string rx
  | RRef string
  | RWordB
  | RNotBehind "char \<Rightarrow> bool"

type_synonym groups = "(string \<times> nat \<times> nat) list"
type_synonym mst = "string \<times> string \<times> groups"

fun rep_loop :: "(mst \<Rightarrow> mst list) \<Rightarrow> nat \<Rightarrow> nat \<Rightarrow> int option \<Rightarrow> bool \<Rightarrow> mst \<Rightarrow> mst list" where
  "rep_loop f 0 lo hi greedy s = (if lo = 0 then [s] else [])"
| "rep_loop f (Suc k) lo hi greedy s =
     (let more = (if hi = Some 0 then []
                  else concat (map (rep_loop f k (lo - 1) (map_option (\<lambda>h. h - 1) hi) greedy) (f s)));
          stop = (if lo = 0 then [s] else [])
      in if greedy then more @ stop else stop @ more)"

fun head_is_word :: "string \<Rightarrow> bool" where
  "head_is_word [] = False"
| "head_is_word (c # _) = is_word c"

text \<open>A back reference compares without regard to case: the one pattern that has a back
  reference is compiled with \<open>re.IGNORECASE\<close>.\<close>

fun match_text_i :: "string \<Rightarrow> string \<Rightarrow> string \<Rightarrow> (string \<times> string) option" where
  "match_text_i [] pre post = Some (pre, post)"
| "match_text_i (w # ws) pre [] = None"
| "match_text_i (w # ws) pre (c # cs) =
     (if lower_char w = lower_char c then match_text_i ws (c # pre) cs else None)"

fun rmatch :: "rx \<Rightarrow> mst \<Rightarrow> mst list" where
  "rmatch REps s = [s]"
| "rmatch (RCls p) (pre, post, g) =
     (case post of [] \<Rightarrow> [] | c # cs \<Rightarrow> if p c then [(c # pre, cs, g)] else [])"
| "rmatch (RSeq a b) s = concat (map (rmatch b) (rmatch a s))"
| "rmatch (RAlt a b) s = rmatch a s @ rmatch b s"
| "rmatch (RRep lo hi greedy r) (pre, post, g) =
     rep_loop (rmatch r) (Suc (length post)) lo hi greedy (pre, post, g)"
| "rmatch (RGrp n r) (pre, post, g) =
     map (\<lambda>(pre', post', g'). (pre', post', (n, length pre, length pre') # g'))
       (rmatch r (pre, post, g))"
| "rmatch (RRef n) (pre, post, g) =
     (case map_of g n of
        None \<Rightarrow> []
      | Some (a, b) \<Rightarrow>
          (case match_text_i (take (b - a) (drop a (rev pre))) pre post of
             None \<Rightarrow> [] | Some (pre', post') \<Rightarrow> [(pre', post', g)]))"
| "rmatch RWordB (pre, post, g) =
     (if head_is_word pre \<noteq> head_is_word post then [(pre, post, g)] else [])"
| "rmatch (RNotBehind p) (pre, post, g) =
     (case pre of [] \<Rightarrow> [(pre, post, g)] | c # _ \<Rightarrow> if p c then [] else [(pre, post, g)])"

section \<open>The entry points\<close>

definition re_fullmatch :: "rx \<Rightarrow> string \<Rightarrow> bool" where
  "re_fullmatch r s = list_ex (\<lambda>(pre, post, g). post = []) (rmatch r ([], s, []))"

definition re_match :: "rx \<Rightarrow> string \<Rightarrow> bool" where
  "re_match r s = (rmatch r ([], s, []) \<noteq> [])"

type_synonym span = "nat \<times> nat \<times> groups"

fun iter_from :: "nat \<Rightarrow> rx \<Rightarrow> string \<Rightarrow> string \<Rightarrow> span list" where
  "iter_from 0 r pre post = []"
| "iter_from (Suc k) r pre post =
     (let skip = (case post of [] \<Rightarrow> [] | c # cs \<Rightarrow> iter_from k r (c # pre) cs)
      in case rmatch r (pre, post, []) of
           [] \<Rightarrow> skip
         | (pre', post', g) # _ \<Rightarrow>
             if length pre < length pre'
             then (length pre, length pre', g) # iter_from k r pre' post'
             else skip)"

definition re_finditer :: "rx \<Rightarrow> string \<Rightarrow> span list" where
  "re_finditer r s = iter_from (Suc (length s)) r [] s"

fun search_from :: "rx \<Rightarrow> string \<Rightarrow> string \<Rightarrow> bool" where
  "search_from r pre [] = (rmatch r (pre, [], []) \<noteq> [])"
| "search_from r pre (c # cs) = (rmatch r (pre, c # cs, []) \<noteq> [] \<or> search_from r (c # pre) cs)"

definition re_search :: "rx \<Rightarrow> string \<Rightarrow> bool" where
  "re_search r s = search_from r [] s"

text \<open>Replacing spans: \<open>splice c\<close> copies the text from position \<open>c\<close> on and puts a replacement
  in the place of each span. \<open>Pattern.sub\<close> with a function computes the replacement of each
  match from the text and the groups.\<close>

fun splice :: "nat \<Rightarrow> (nat \<times> nat \<times> string) list \<Rightarrow> string \<Rightarrow> string" where
  "splice cur [] s = drop cur s"
| "splice cur ((a, b, w) # xs) s = take (a - cur) (drop cur s) @ w @ splice b xs s"

definition re_sub :: "rx \<Rightarrow> (string \<Rightarrow> groups \<Rightarrow> string) \<Rightarrow> string \<Rightarrow> string" where
  "re_sub r f s = splice 0 (map (\<lambda>(a, b, g). (a, b, f s g)) (re_finditer r s)) s"

definition group_text :: "string \<Rightarrow> groups \<Rightarrow> string \<Rightarrow> string" where
  "group_text s g n = (case map_of g n of None \<Rightarrow> [] | Some (a, b) \<Rightarrow> take (b - a) (drop a s))"

section \<open>Building patterns\<close>

abbreviation any_of :: "string \<Rightarrow> char \<Rightarrow> bool" where
  "any_of cs c \<equiv> List.member cs c"

definition rlit :: "string \<Rightarrow> rx" where
  "rlit s = foldr (\<lambda>c r. RSeq (RCls (\<lambda>d. d = c)) r) s REps"

definition rlit_i :: "string \<Rightarrow> rx" where
  "rlit_i s = foldr (\<lambda>c r. RSeq (RCls (\<lambda>d. lower_char d = lower_char c)) r) s REps"

fun rseq :: "rx list \<Rightarrow> rx" where
  "rseq [] = REps"
| "rseq [r] = r"
| "rseq (r # v # rs) = RSeq r (rseq (v # rs))"

fun ralt :: "rx list \<Rightarrow> rx" where
  "ralt [] = RCls (\<lambda>_. False)"
| "ralt [r] = r"
| "ralt (r # v # rs) = RAlt r (ralt (v # rs))"

abbreviation rstar :: "rx \<Rightarrow> rx" where "rstar r \<equiv> RRep 0 None True r"
abbreviation rplus :: "rx \<Rightarrow> rx" where "rplus r \<equiv> RRep 1 None True r"
abbreviation ropt :: "rx \<Rightarrow> rx" where "ropt r \<equiv> RRep 0 (Some 1) True r"
abbreviation rbetween :: "nat \<Rightarrow> int \<Rightarrow> rx \<Rightarrow> rx" where "rbetween m n r \<equiv> RRep m (Some n) True r"

section \<open>A match consumes a piece of the text\<close>

text \<open>Every result of the matcher is the start state with a piece \<open>m\<close> of the text moved across
  the cursor, and every group it records lies between the old and the new cursor.\<close>

definition extends :: "mst \<Rightarrow> mst \<Rightarrow> bool" where
  "extends s t \<longleftrightarrow> (case (s, t) of ((pre, post, g), (pre', post', g')) \<Rightarrow>
     (\<exists>m. pre' = rev m @ pre \<and> post = m @ post') \<and>
     (\<exists>h. g' = h @ g \<and> (\<forall>(n, a, b) \<in> set h. length pre \<le> a \<and> a \<le> b \<and> b \<le> length pre')))"

lemma extends_refl [simp]: "extends s s"
  by (auto simp: extends_def split: prod.splits)

lemma extends_trans: "extends s t \<Longrightarrow> extends t u \<Longrightarrow> extends s u"
proof -
  assume st: "extends s t" and tu: "extends t u"
  obtain pre post g where s: "s = (pre, post, g)" by (cases s)
  obtain pre' post' g' where t: "t = (pre', post', g')" by (cases t)
  obtain pre2 post2 g2 where u: "u = (pre2, post2, g2)" by (cases u)
  from st s t obtain m h where m: "pre' = rev m @ pre" "post = m @ post'" "g' = h @ g"
    and h: "\<forall>(n, a, b) \<in> set h. length pre \<le> a \<and> a \<le> b \<and> b \<le> length pre'"
    by (auto simp: extends_def)
  from tu t u obtain m2 h2 where m2: "pre2 = rev m2 @ pre'" "post' = m2 @ post2" "g2 = h2 @ g'"
    and h2: "\<forall>(n, a, b) \<in> set h2. length pre' \<le> a \<and> a \<le> b \<and> b \<le> length pre2"
    by (auto simp: extends_def)
  have "pre2 = rev (m @ m2) @ pre" "post = (m @ m2) @ post2" "g2 = (h2 @ h) @ g"
    using m m2 by auto
  moreover have "\<forall>(n, a, b) \<in> set (h2 @ h). length pre \<le> a \<and> a \<le> b \<and> b \<le> length pre2"
    using h h2 m m2 by fastforce
  ultimately show ?thesis unfolding s u extends_def by blast
qed

lemma rep_loop_extends:
  assumes "\<And>s t. t \<in> set (f s) \<Longrightarrow> extends s t"
  shows "t \<in> set (rep_loop f k lo hi greedy s) \<Longrightarrow> extends s t"
proof (induction k arbitrary: lo hi s)
  case 0
  then show ?case by (auto split: if_splits)
next
  case (Suc k)
  from Suc.prems consider "t = s"
    | s' where "s' \<in> set (f s)" "t \<in> set (rep_loop f k (lo - 1) (map_option (\<lambda>h. h - 1) hi) greedy s')"
    by (auto simp: Let_def split: if_splits)
  then show ?case
  proof cases
    case 2
    from assms [OF 2(1)] Suc.IH [OF 2(2)] show ?thesis by (rule extends_trans)
  qed simp
qed

lemma match_text_i_extends:
  "match_text_i w pre post = Some (pre', post') \<Longrightarrow> extends (pre, post, g) (pre', post', g)"
proof (induction w pre post rule: match_text_i.induct)
  case (3 w ws pre c cs)
  then have "extends (c # pre, cs, g) (pre', post', g)" by (auto split: if_splits)
  then show ?case by (fastforce simp: extends_def)
qed (auto simp: extends_def)

lemma rmatch_extends: "t \<in> set (rmatch r s) \<Longrightarrow> extends s t"
proof (induction r s arbitrary: t rule: rmatch.induct)
  case (3 a b s)
  then obtain u where u: "u \<in> set (rmatch a s)" "t \<in> set (rmatch b u)" by auto
  from "3.IH"(1) [OF u(1)] "3.IH"(2) [OF u] show ?case by (rule extends_trans)
next
  case (5 lo hi greedy r pre post g)
  have "t \<in> set (rep_loop (rmatch r) (Suc (length post)) lo hi greedy (pre, post, g))"
    using "5.prems" by (simp del: rep_loop.simps)
  with "5.IH" show ?case by (rule rep_loop_extends)
next
  case (6 n r pre post g)
  then obtain pre' post' g' where "(pre', post', g') \<in> set (rmatch r (pre, post, g))"
    and t: "t = (pre', post', (n, length pre, length pre') # g')"
    by auto
  with 6 have "extends (pre, post, g) (pre', post', g')" by blast
  then show ?case unfolding t by (fastforce simp: extends_def)
next
  case (7 n pre post g)
  then show ?case by (auto split: option.splits intro: match_text_i_extends)
qed (auto simp: extends_def split: list.splits if_splits)

section \<open>Patterns that cannot match over an alphabet\<close>

text \<open>\<open>dead A r\<close>: every match of \<open>r\<close> consumes a character outside \<open>A\<close>, so \<open>r\<close> matches nowhere in a
  text over \<open>A\<close>.\<close>

fun none_in :: "(char \<Rightarrow> bool) \<Rightarrow> string \<Rightarrow> bool" where
  "none_in p [] = True"
| "none_in p (c # cs) = (if p c then False else none_in p cs)"

lemma none_in_iff [simp]: "none_in p A \<longleftrightarrow> (\<forall>c \<in> set A. \<not> p c)"
  by (induction A) auto

primrec dead :: "string \<Rightarrow> rx \<Rightarrow> bool" where
  "dead A REps = False"
| "dead A (RCls p) = none_in p A"
| "dead A (RSeq a b) = (if dead A a then True else dead A b)"
| "dead A (RAlt a b) = (if dead A a then dead A b else False)"
| "dead A (RRep lo hi greedy r) = (if lo = 0 then False else dead A r)"
| "dead A (RGrp n r) = dead A r"
| "dead A (RRef n) = False"
| "dead A RWordB = False"
| "dead A (RNotBehind p) = False"

lemma dead_mono: "dead A r \<Longrightarrow> set B \<subseteq> set A \<Longrightarrow> dead B r"
  by (induction r) (auto split: if_splits)

lemma rmatch_rest: "(pre', post', g') \<in> set (rmatch r (pre, post, g)) \<Longrightarrow> set post' \<subseteq> set post"
  using rmatch_extends [of "(pre', post', g')" r "(pre, post, g)"] by (auto simp: extends_def)

lemma dead_rmatch: "dead A r \<Longrightarrow> set post \<subseteq> set A \<Longrightarrow> rmatch r (pre, post, g) = []"
proof (induction r arbitrary: pre post g)
  case (RSeq a b)
  then show ?case
    by (cases "dead A a") (auto dest!: rmatch_rest intro!: RSeq.IH(2))
next
  case (RCls p)
  then show ?case by (auto split: list.splits)
qed (auto split: if_splits)

lemma dead_iter_from: "dead A r \<Longrightarrow> set post \<subseteq> set A \<Longrightarrow> iter_from k r pre post = []"
  by (induction k r pre post rule: iter_from.induct) (auto simp: dead_rmatch split: list.splits)

lemma dead_finditer: "dead A r \<Longrightarrow> set s \<subseteq> set A \<Longrightarrow> re_finditer r s = []"
  by (simp add: re_finditer_def dead_iter_from del: iter_from.simps)

lemma dead_search: "dead A r \<Longrightarrow> set s \<subseteq> set A \<Longrightarrow> \<not> re_search r s"
proof -
  have "\<not> search_from r pre post" if "dead A r" "set post \<subseteq> set A" for pre post
    using that by (induction r pre post rule: search_from.induct) (auto simp: dead_rmatch)
  then show "dead A r \<Longrightarrow> set s \<subseteq> set A \<Longrightarrow> \<not> re_search r s" by (simp add: re_search_def)
qed

lemma dead_sub: "dead A r \<Longrightarrow> set s \<subseteq> set A \<Longrightarrow> re_sub r f s = s"
  by (simp add: re_sub_def dead_finditer)

section \<open>The spans of \<open>finditer\<close> are ordered, disjoint and inside the text\<close>

fun spans_ok :: "nat \<Rightarrow> nat \<Rightarrow> (nat \<times> nat \<times> 'a) list \<Rightarrow> bool" where
  "spans_ok lo n [] = True"
| "spans_ok lo n ((a, b, x) # xs) = (lo \<le> a \<and> a < b \<and> b \<le> n \<and> spans_ok b n xs)"

lemma spans_ok_mono: "spans_ok lo n xs \<Longrightarrow> lo' \<le> lo \<Longrightarrow> spans_ok lo' n xs"
  by (cases xs) auto

lemma iter_from_ok: "spans_ok (length pre) (length pre + length post) (iter_from k r pre post)"
proof (induction k arbitrary: pre post)
  case 0
  then show ?case by simp
next
  case (Suc k)
  let ?skip = "case post of [] \<Rightarrow> [] | c # cs \<Rightarrow> iter_from k r (c # pre) cs"
  have skip: "spans_ok (length pre) (length pre + length post) ?skip"
  proof (cases post)
    case (Cons c cs)
    then show ?thesis using Suc.IH [of "c # pre" cs] by (auto intro: spans_ok_mono)
  qed simp
  show ?case
  proof (cases "rmatch r (pre, post, [])")
    case Nil
    with skip show ?thesis by simp
  next
    case (Cons t ts)
    obtain pre' post' g where t: "t = (pre', post', g)" by (cases t)
    have "extends (pre, post, []) (pre', post', g)"
      using Cons t by (intro rmatch_extends [of _ r]) simp
    then have "length pre' + length post' = length pre + length post"
      by (auto simp: extends_def)
    then have "spans_ok (length pre') (length pre + length post) (iter_from k r pre' post')"
      using Suc.IH [of pre' post'] by simp
    moreover have "length pre' \<le> length pre + length post"
      using \<open>length pre' + length post' = length pre + length post\<close> by simp
    ultimately show ?thesis
      using skip Cons t by simp
  qed
qed

lemma re_finditer_ok: "spans_ok 0 (length s) (re_finditer r s)"
  using iter_from_ok [of "[]" s "Suc (length s)" r] by (simp add: re_finditer_def del: iter_from.simps)

lemma iter_from_groups:
  "(a, b, g) \<in> set (iter_from k r pre post) \<Longrightarrow> (n, c, d) \<in> set g \<Longrightarrow> a \<le> c \<and> c \<le> d \<and> d \<le> b"
proof (induction k arbitrary: pre post)
  case 0
  then show ?case by simp
next
  case (Suc k)
  let ?skip = "case post of [] \<Rightarrow> [] | c # cs \<Rightarrow> iter_from k r (c # pre) cs"
  have skip: "(a, b, g) \<in> set ?skip \<Longrightarrow> ?case"
    using Suc by (auto split: list.splits)
  show ?case
  proof (cases "rmatch r (pre, post, [])")
    case Nil
    with skip Suc.prems show ?thesis by simp
  next
    case (Cons t ts)
    obtain pre' post' h where t: "t = (pre', post', h)" by (cases t)
    have "extends (pre, post, []) (pre', post', h)"
      using Cons t by (intro rmatch_extends [of _ r]) simp
    then have "\<forall>(n, a, b) \<in> set h. length pre \<le> a \<and> a \<le> b \<and> b \<le> length pre'"
      by (auto simp: extends_def)
    then show ?thesis
      using skip Suc.prems Suc.IH [of pre' post'] Cons t by (auto split: if_splits)
  qed
qed

section \<open>The identifier pattern\<close>

text \<open>\<open>^[A-Za-z0-9][A-Za-z0-9._:-]*$\<close>, used for identifiers all over the sources.\<close>

definition token_char :: "char \<Rightarrow> bool" where
  "token_char c = (is_alnum_ascii c \<or> any_of ''._:-'' c)"

definition TOKEN_PATTERN :: rx where
  "TOKEN_PATTERN = RSeq (RCls is_alnum_ascii) (rstar (RCls token_char))"

fun is_token :: "string \<Rightarrow> bool" where
  "is_token [] = False"
| "is_token (c # cs) = (is_alnum_ascii c \<and> list_all token_char cs)"

lemma rep_loop_cls_full:
  "length post < k \<Longrightarrow>
     (\<exists>pre' g'. (pre', [], g') \<in> set (rep_loop (rmatch (RCls p)) k 0 None True (pre, post, g)))
     \<longleftrightarrow> list_all p post"
proof (induction k arbitrary: pre post)
  case 0
  then show ?case by simp
next
  case (Suc k)
  then show ?case
    by (cases post) (auto simp: Let_def)
qed

lemma fullmatch_TOKEN_PATTERN: "re_fullmatch TOKEN_PATTERN s \<longleftrightarrow> is_token s"
proof (cases s)
  case Nil
  then show ?thesis by (simp add: re_fullmatch_def TOKEN_PATTERN_def)
next
  case (Cons c cs)
  have "re_fullmatch TOKEN_PATTERN s \<longleftrightarrow> is_alnum_ascii c \<and>
      (\<exists>pre' g'. (pre', [], g') \<in>
         set (rep_loop (rmatch (RCls token_char)) (Suc (length cs)) 0 None True ([c], cs, [])))"
    using Cons by (auto simp: re_fullmatch_def TOKEN_PATTERN_def list_ex_iff simp del: rep_loop.simps)
  also have "\<dots> \<longleftrightarrow> is_alnum_ascii c \<and> list_all token_char cs"
    by (subst rep_loop_cls_full) auto
  finally show ?thesis using Cons by simp
qed

lemma is_token_no_space: "is_token s \<Longrightarrow> c \<in> set s \<Longrightarrow> \<not> is_space c"
proof -
  have "token_char c \<Longrightarrow> \<not> is_space c" for c
    by (auto simp: token_char_def is_alnum_ascii_def is_upper_ascii_def is_lower_ascii_def
        is_digit_def is_space_def ord_def Let_def)
  then show "is_token s \<Longrightarrow> c \<in> set s \<Longrightarrow> \<not> is_space c"
    by (cases s) (auto simp: token_char_def list_all_iff)
qed

lemma is_token_stripped: "is_token s \<Longrightarrow> stripped s"
  using is_token_no_space [of s "hd s"] is_token_no_space [of s "last s"]
  by (cases "s = []") (auto simp: stripped_def)

lemma strip_token [simp, text_simps]: "is_token s \<Longrightarrow> strip s = s"
  by (simp add: is_token_stripped strip_fix)

lemma is_token_nonempty: "is_token s \<Longrightarrow> s \<noteq> []"
  by auto

end
