(* ===== verification/Secret_Policy.thy ===== *)
theory Secret_Policy
  imports Json Regex
begin

text \<open>
  Models \<open>src/doll/secret_policy.py\<close>: the handling decision for classified payloads, the
  validation of SecretReference metadata and the check of the ordinary-state boundary.
  Literal types that callers pass are datatypes; strings read from metadata stay strings.
\<close>

section \<open>Handling decisions\<close>

datatype SecretPayloadKind = non_secret | secret_value | secret_reference | unknown_payload

datatype SecretHandlingLocation =
    loc_input | loc_ordinary_state | loc_audit | loc_log | loc_export | loc_backup | loc_diagnostic
  | loc_model_context | loc_output | loc_external_secret_store | loc_bounded_operation

datatype SecretDisposition = disp_allow | disp_reference_only | disp_transient_only | disp_deny

datatype SecretHandlingReason =
    classification_uncertain | non_secret_payload | validated_non_secret_reference
  | secret_value_prohibited | external_store_only | bounded_transient_use
  | unsupported_secret_destination

record SecretHandlingDecision =
  h_payload_kind :: SecretPayloadKind
  h_location :: SecretHandlingLocation
  h_disposition :: SecretDisposition
  h_allowed :: bool
  h_reason :: SecretHandlingReason
  requires_external_store :: bool
  requires_bounded_operation :: bool

definition REFERENCE_ONLY_LOCATIONS :: "SecretHandlingLocation list" where
  "REFERENCE_ONLY_LOCATIONS = [loc_ordinary_state, loc_export, loc_backup]"

definition SECRET_VALUE_DENIED_LOCATIONS :: "SecretHandlingLocation list" where
  "SECRET_VALUE_DENIED_LOCATIONS = [loc_ordinary_state, loc_audit, loc_log, loc_export, loc_backup,
     loc_diagnostic, loc_model_context, loc_output]"

definition handling_decision ::
  "SecretPayloadKind \<Rightarrow> SecretHandlingLocation \<Rightarrow> SecretDisposition \<Rightarrow> SecretHandlingReason
   \<Rightarrow> SecretHandlingDecision" where
  "handling_decision payload_kind location disposition reason =
     \<lparr>h_payload_kind = payload_kind, h_location = location, h_disposition = disposition,
      h_allowed = (disposition \<noteq> disp_deny), h_reason = reason,
      requires_external_store = (payload_kind = secret_value \<and>
        \<not> List.member [loc_external_secret_store, loc_bounded_operation, loc_input] location),
      requires_bounded_operation = (payload_kind = secret_value \<and>
        List.member [loc_input, loc_bounded_operation] location)\<rparr>"

definition evaluate_secret_handling ::
  "SecretPayloadKind \<Rightarrow> SecretHandlingLocation \<Rightarrow> string option \<Rightarrow> bool \<Rightarrow> SecretHandlingDecision" where
  "evaluate_secret_handling payload_kind location sensitivity uncertain =
     (if uncertain \<or> payload_kind = unknown_payload
      then handling_decision payload_kind location disp_deny classification_uncertain
      else if payload_kind = non_secret
      then handling_decision payload_kind location disp_allow non_secret_payload
      else if payload_kind = secret_reference
      then handling_decision payload_kind location
             (if List.member REFERENCE_ONLY_LOCATIONS location then disp_reference_only else disp_allow)
             validated_non_secret_reference
      else if List.member SECRET_VALUE_DENIED_LOCATIONS location
      then handling_decision payload_kind location disp_deny secret_value_prohibited
      else if location = loc_external_secret_store
      then handling_decision payload_kind location disp_allow external_store_only
      else if List.member [loc_input, loc_bounded_operation] location
      then handling_decision payload_kind location disp_transient_only bounded_transient_use
      else handling_decision payload_kind location disp_deny unsupported_secret_destination)"

text \<open>The classes that a value may be given.\<close>

definition ALLOWED_SECRET_CLASSES :: "string list" where
  "ALLOWED_SECRET_CLASSES = [''credential'', ''authentication_material'', ''cryptographic_key'',
     ''session_material'', ''recovery_material'', ''personal_sensitive'', ''unknown_secret'']"

definition classify_secret_class :: "string \<Rightarrow> string res" where
  "classify_secret_class v = bindr (require (List.member ALLOWED_SECRET_CLASSES v) SecretClassificationError) (\<lambda>_. Inr v)"

section \<open>SecretReference metadata\<close>

definition ALLOWED_CREDENTIAL_CLASSES :: "string list" where
  "ALLOWED_CREDENTIAL_CLASSES = [''password'', ''api_key'', ''access_token'', ''refresh_token'',
     ''client_secret'', ''private_key'', ''session_cookie'', ''recovery_phrase'',
     ''authorization_header'', ''other'']"

definition ALLOWED_REFERENCE_STATUSES :: "string list" where
  "ALLOWED_REFERENCE_STATUSES = [''active'', ''rotated'', ''revoked'']"

definition ALLOWED_REFERENCE_FIELDS :: "string list" where
  "ALLOWED_REFERENCE_FIELDS = [''reference_id'', ''credential_class'', ''store_adapter_class'',
     ''label'', ''status'', ''provider_class'', ''allowed_operation_scope'',
     ''allowed_destination_scope'', ''created_at'', ''rotated_at'', ''revoked_at'']"

definition PROHIBITED_REFERENCE_FIELDS :: "string list" where
  "PROHIBITED_REFERENCE_FIELDS = [''password'', ''passwd'', ''secret'', ''secret_value'',
     ''credential'', ''credential_value'', ''credentials'', ''token'', ''access_token'',
     ''refresh_token'', ''api_key'', ''apikey'', ''private_key'', ''key'', ''cookie'',
     ''session_cookie'', ''recovery_phrase'', ''seed_phrase'', ''mnemonic'', ''authorization'',
     ''authorization_header'', ''auth_header'', ''bearer_token'', ''value'', ''raw_value'',
     ''encoded_value'', ''encrypted_value'', ''ciphertext'', ''reconstruction_hint'',
     ''value_hint'', ''prefix'', ''suffix'', ''last_four'', ''checksum'']"

definition REFERENCE_ID_PATTERN :: rx where
  "REFERENCE_ID_PATTERN = RSeq (RCls is_alnum_ascii) (rbetween 0 127 (RCls token_char))"

definition ADAPTER_PATTERN :: rx where
  "ADAPTER_PATTERN = RSeq (RCls (\<lambda>c. is_lower_ascii c \<or> is_digit c))
     (rbetween 0 79 (RCls (\<lambda>c. is_lower_ascii c \<or> is_digit c \<or> any_of ''._-'' c)))"

definition SCOPE_PATTERN :: rx where
  "SCOPE_PATTERN = RSeq (RCls is_alnum_ascii)
     (rbetween 0 199 (RCls (\<lambda>c. is_alnum_ascii c \<or> any_of ''._:/@*-'' c)))"

definition rdigits :: "nat \<Rightarrow> rx" where
  "rdigits n = RRep n (Some (int n)) True (RCls is_digit)"

definition TIMESTAMP_PATTERN :: rx where
  "TIMESTAMP_PATTERN = rseq
     [rdigits 4, rlit ''-'', rdigits 2, rlit ''-'', rdigits 2, rlit ''T'', rdigits 2, rlit '':'',
      rdigits 2, rlit '':'', rdigits 2, ropt (RSeq (rlit ''.'') (rplus (RCls is_digit))), rlit ''Z'']"

record SecretReferenceMetadata =
  reference_id :: string
  credential_class :: string
  store_adapter_class :: string
  label :: string
  ref_status :: string
  provider_class :: "string option"
  allowed_operation_scope :: "string list"
  allowed_destination_scope :: "string list"
  ref_created_at :: "string option"
  rotated_at :: "string option"
  revoked_at :: "string option"

text \<open>\<open>for key, value in (...): if value is not None: payload[key] = value\<close>\<close>

definition optional_entry :: "string \<Rightarrow> string option \<Rightarrow> dict" where
  "optional_entry key value = (case value of None \<Rightarrow> [] | Some s \<Rightarrow> [(key, JStr s)])"

definition as_record_metadata :: "SecretReferenceMetadata \<Rightarrow> dict" where
  "as_record_metadata r =
     [(''reference_id'', JStr (reference_id r)),
      (''credential_class'', JStr (credential_class r)),
      (''store_adapter_class'', JStr (store_adapter_class r)),
      (''label'', JStr (label r)),
      (''status'', JStr (ref_status r)),
      (''allowed_operation_scope'', JList (map JStr (allowed_operation_scope r))),
      (''allowed_destination_scope'', JList (map JStr (allowed_destination_scope r)))]
     @ optional_entry ''provider_class'' (provider_class r)
     @ optional_entry ''created_at'' (ref_created_at r)
     @ optional_entry ''rotated_at'' (rotated_at r)
     @ optional_entry ''revoked_at'' (revoked_at r)"

text \<open>\<open>re.sub("[^a-z0-9]+", "_", value.strip().lower()).strip("_")\<close>\<close>

definition policy_normalize_field_name :: "string \<Rightarrow> string" where
  "policy_normalize_field_name value =
     (let s = re_sub (rplus (RCls (\<lambda>c. \<not> (is_lower_ascii c \<or> is_digit c)))) (\<lambda>_ _. ''_'') (lower (strip value))
      in rstrip_by (\<lambda>c. c = CHR ''_'') (dropWhile (\<lambda>c. c = CHR ''_'') s))"

definition ref_required_string :: "dict \<Rightarrow> string \<Rightarrow> nat \<Rightarrow> string res" where
  "ref_required_string metadata key maximum =
     (case map_of metadata key of
        Some (JStr value) \<Rightarrow>
          if strip value = [] \<or> maximum < length value then Inl SecretReferenceValidationError
          else if list_ex (\<lambda>c. is_space c \<and> c \<noteq> CHR '' '') value then Inl SecretReferenceValidationError
          else Inr value
      | _ \<Rightarrow> Inl SecretReferenceValidationError)"

definition ref_optional_string :: "dict \<Rightarrow> string \<Rightarrow> nat \<Rightarrow> string option res" where
  "ref_optional_string metadata key maximum =
     (case map_of metadata key of
        None \<Rightarrow> Inr None
      | Some JNull \<Rightarrow> Inr None
      | Some (JStr value) \<Rightarrow>
          if strip value = [] \<or> maximum < length value then Inl SecretReferenceValidationError
          else Inr (Some value)
      | _ \<Rightarrow> Inl SecretReferenceValidationError)"

fun scope_items :: "string list \<Rightarrow> json list \<Rightarrow> string list res" where
  "scope_items acc [] = Inr acc"
| "scope_items acc (JStr item # rest) =
     (if \<not> re_fullmatch SCOPE_PATTERN item then Inl SecretReferenceValidationError
      else if item \<in> set acc then Inl SecretReferenceValidationError
      else scope_items (acc @ [item]) rest)"
| "scope_items acc (_ # rest) = Inl SecretReferenceValidationError"

definition ref_scope :: "dict \<Rightarrow> string \<Rightarrow> string list res" where
  "ref_scope metadata key =
     (case map_of metadata key of
        None \<Rightarrow> Inr []
      | Some (JList value) \<Rightarrow>
          if 32 < length value then Inl SecretReferenceValidationError else scope_items [] value
      | _ \<Rightarrow> Inl SecretReferenceValidationError)"

definition ref_timestamp :: "dict \<Rightarrow> string \<Rightarrow> string option res" where
  "ref_timestamp metadata key =
     (case map_of metadata key of
        None \<Rightarrow> Inr None
      | Some JNull \<Rightarrow> Inr None
      | Some (JStr value) \<Rightarrow>
          if re_fullmatch TIMESTAMP_PATTERN value then Inr (Some value)
          else Inl SecretReferenceValidationError
      | _ \<Rightarrow> Inl SecretReferenceValidationError)"

definition reference_keys_ok :: "dict \<Rightarrow> bool" where
  "reference_keys_ok metadata = list_all (\<lambda>(raw_key, _).
     \<not> List.member PROHIBITED_REFERENCE_FIELDS (policy_normalize_field_name raw_key)
     \<and> List.member ALLOWED_REFERENCE_FIELDS raw_key) metadata"

definition validate_secret_reference_metadata :: "dict \<Rightarrow> SecretReferenceMetadata res" where
  "validate_secret_reference_metadata metadata =
     bindr (require (reference_keys_ok metadata) SecretReferenceValidationError) (\<lambda>_.
     bindr (require (list_all (\<lambda>key. map_of metadata key \<noteq> None)
              [''reference_id'', ''credential_class'', ''store_adapter_class'', ''label'', ''status''])
              SecretReferenceValidationError) (\<lambda>_.
     bindr (ref_required_string metadata ''reference_id'' 128) (\<lambda>ref_id.
     bindr (require (re_fullmatch REFERENCE_ID_PATTERN ref_id) SecretReferenceValidationError) (\<lambda>_.
     bindr (ref_required_string metadata ''credential_class'' 40) (\<lambda>credential.
     bindr (require (List.member ALLOWED_CREDENTIAL_CLASSES credential) SecretReferenceValidationError) (\<lambda>_.
     bindr (ref_required_string metadata ''store_adapter_class'' 80) (\<lambda>adapter.
     bindr (require (re_fullmatch ADAPTER_PATTERN adapter) SecretReferenceValidationError) (\<lambda>_.
     bindr (ref_required_string metadata ''label'' 160) (\<lambda>lbl.
     bindr (ref_required_string metadata ''status'' 20) (\<lambda>status.
     bindr (require (List.member ALLOWED_REFERENCE_STATUSES status) SecretReferenceValidationError) (\<lambda>_.
     bindr (ref_optional_string metadata ''provider_class'' 80) (\<lambda>provider.
     bindr (require (case provider of None \<Rightarrow> True | Some p \<Rightarrow> re_fullmatch ADAPTER_PATTERN p)
              SecretReferenceValidationError) (\<lambda>_.
     bindr (ref_scope metadata ''allowed_operation_scope'') (\<lambda>operations.
     bindr (ref_scope metadata ''allowed_destination_scope'') (\<lambda>destinations.
     bindr (ref_timestamp metadata ''created_at'') (\<lambda>created.
     bindr (ref_timestamp metadata ''rotated_at'') (\<lambda>rotated.
     bindr (ref_timestamp metadata ''revoked_at'') (\<lambda>revoked.
     bindr (require (\<not> (status = ''rotated'' \<and> rotated = None)) SecretReferenceValidationError) (\<lambda>_.
     bindr (require (\<not> (status = ''revoked'' \<and> revoked = None)) SecretReferenceValidationError) (\<lambda>_.
     Inr \<lparr>reference_id = ref_id, credential_class = credential, store_adapter_class = adapter,
          label = lbl, ref_status = status, provider_class = provider,
          allowed_operation_scope = operations, allowed_destination_scope = destinations,
          ref_created_at = created, rotated_at = rotated, revoked_at = revoked\<rparr>))))))))))))))))))))"

section \<open>The ordinary-state boundary\<close>

definition validate_ordinary_state_record :: "string \<Rightarrow> string \<Rightarrow> dict \<Rightarrow> unit res" where
  "validate_ordinary_state_record record_type sensitivity metadata =
     (if record_type = ''secret_reference''
      then bindr (require (List.member [''sensitive'', ''secret''] sensitivity) SecretClassificationError) (\<lambda>_.
           bindr (validate_secret_reference_metadata metadata) (\<lambda>_. Inr ()))
      else if sensitivity = ''secret'' then Inl SecretClassificationError
      else Inr ())"

section \<open>Properties\<close>

lemma as_record_lookup:
  "map_of (as_record_metadata r) ''reference_id'' = Some (JStr (reference_id r))"
  "map_of (as_record_metadata r) ''credential_class'' = Some (JStr (credential_class r))"
  "map_of (as_record_metadata r) ''store_adapter_class'' = Some (JStr (store_adapter_class r))"
  "map_of (as_record_metadata r) ''label'' = Some (JStr (label r))"
  "map_of (as_record_metadata r) ''status'' = Some (JStr (ref_status r))"
  "map_of (as_record_metadata r) ''allowed_operation_scope'' =
     Some (JList (map JStr (allowed_operation_scope r)))"
  "map_of (as_record_metadata r) ''allowed_destination_scope'' =
     Some (JList (map JStr (allowed_destination_scope r)))"
  "map_of (as_record_metadata r) ''provider_class'' = map_option JStr (provider_class r)"
  "map_of (as_record_metadata r) ''created_at'' = map_option JStr (ref_created_at r)"
  "map_of (as_record_metadata r) ''rotated_at'' = map_option JStr (rotated_at r)"
  "map_of (as_record_metadata r) ''revoked_at'' = map_option JStr (revoked_at r)"
  by (simp_all add: as_record_metadata_def optional_entry_def split: option.splits)

lemma allowed_fields_pass:
  "list_all (\<lambda>k. \<not> List.member PROHIBITED_REFERENCE_FIELDS (policy_normalize_field_name k)
     \<and> List.member ALLOWED_REFERENCE_FIELDS k) ALLOWED_REFERENCE_FIELDS"
  by code_simp

lemma as_record_keys_ok: "reference_keys_ok (as_record_metadata r)"
proof -
  have "fst kv \<in> set ALLOWED_REFERENCE_FIELDS" if "kv \<in> set (as_record_metadata r)" for kv
    using that by (auto simp: as_record_metadata_def optional_entry_def ALLOWED_REFERENCE_FIELDS_def
        split: option.splits)
  then show ?thesis
    using allowed_fields_pass unfolding reference_keys_ok_def list_all_iff by fastforce
qed

lemma scope_items_shape:
  "scope_items acc vs = Inr r \<Longrightarrow> \<exists>items. vs = map JStr items \<and> r = acc @ items"
proof (induction acc vs rule: scope_items.induct)
  case (2 acc item rest)
  then obtain items where "rest = map JStr items" "r = (acc @ [item]) @ items"
    by (auto split: if_splits)
  then show ?case by (intro exI [of _ "item # items"]) simp
qed simp_all

lemma ref_scope_reread:
  assumes "ref_scope m k = Inr xs" and "map_of m' k' = Some (JList (map JStr xs))"
  shows "ref_scope m' k' = Inr xs"
proof (cases "map_of m k")
  case None
  with assms show ?thesis by (simp add: ref_scope_def)
next
  case (Some v)
  then obtain vs where v: "v = JList vs" "\<not> 32 < length vs" "scope_items [] vs = Inr xs"
    using assms(1) by (auto simp: ref_scope_def split: json.splits if_splits)
  then have "vs = map JStr xs" by (auto dest: scope_items_shape)
  with v assms(2) show ?thesis by (auto simp: ref_scope_def)
qed

lemma ref_required_reread:
  "ref_required_string m k n = Inr x \<Longrightarrow> map_of m' k' = Some (JStr x) \<Longrightarrow> ref_required_string m' k' n = Inr x"
  by (auto simp: ref_required_string_def split: option.splits json.splits if_splits)

lemma ref_optional_reread:
  "ref_optional_string m k n = Inr x \<Longrightarrow> map_of m' k' = map_option JStr x \<Longrightarrow>
     ref_optional_string m' k' n = Inr x"
  by (auto simp: ref_optional_string_def split: option.splits json.splits if_splits)

lemma ref_timestamp_reread:
  "ref_timestamp m k = Inr x \<Longrightarrow> map_of m' k' = map_option JStr x \<Longrightarrow> ref_timestamp m' k' = Inr x"
  by (auto simp: ref_timestamp_def split: option.splits json.splits if_splits)

definition reference_fields_read :: "dict \<Rightarrow> SecretReferenceMetadata \<Rightarrow> bool" where
  "reference_fields_read m r \<longleftrightarrow>
     ref_required_string m ''reference_id'' 128 = Inr (reference_id r) \<and>
     ref_required_string m ''credential_class'' 40 = Inr (credential_class r) \<and>
     ref_required_string m ''store_adapter_class'' 80 = Inr (store_adapter_class r) \<and>
     ref_required_string m ''label'' 160 = Inr (label r) \<and>
     ref_required_string m ''status'' 20 = Inr (ref_status r) \<and>
     ref_optional_string m ''provider_class'' 80 = Inr (provider_class r) \<and>
     ref_scope m ''allowed_operation_scope'' = Inr (allowed_operation_scope r) \<and>
     ref_scope m ''allowed_destination_scope'' = Inr (allowed_destination_scope r) \<and>
     ref_timestamp m ''created_at'' = Inr (ref_created_at r) \<and>
     ref_timestamp m ''rotated_at'' = Inr (rotated_at r) \<and>
     ref_timestamp m ''revoked_at'' = Inr (revoked_at r)"

definition reference_values_ok :: "SecretReferenceMetadata \<Rightarrow> bool" where
  "reference_values_ok r \<longleftrightarrow>
     re_fullmatch REFERENCE_ID_PATTERN (reference_id r) \<and>
     List.member ALLOWED_CREDENTIAL_CLASSES (credential_class r) \<and>
     re_fullmatch ADAPTER_PATTERN (store_adapter_class r) \<and>
     List.member ALLOWED_REFERENCE_STATUSES (ref_status r) \<and>
     (case provider_class r of None \<Rightarrow> True | Some p \<Rightarrow> re_fullmatch ADAPTER_PATTERN p) \<and>
     (ref_status r = ''rotated'' \<longrightarrow> rotated_at r \<noteq> None) \<and>
     (ref_status r = ''revoked'' \<longrightarrow> revoked_at r \<noteq> None)"

lemma validate_reference_iff:
  "validate_secret_reference_metadata m = Inr r \<longleftrightarrow>
     reference_keys_ok m \<and>
     list_all (\<lambda>key. map_of m key \<noteq> None)
       [''reference_id'', ''credential_class'', ''store_adapter_class'', ''label'', ''status''] \<and>
     reference_fields_read m r \<and> reference_values_ok r"
  unfolding validate_secret_reference_metadata_def reference_fields_read_def reference_values_ok_def
    bindr_eq_Inr require_eq_Inr
  by (cases r) auto

lemma reference_fields_reread: "reference_fields_read m r \<Longrightarrow> reference_fields_read (as_record_metadata r) r"
  unfolding reference_fields_read_def
  by (intro conjI; elim conjE)
    (erule ref_required_reread ref_optional_reread ref_timestamp_reread ref_scope_reread,
     rule as_record_lookup)+

text \<open>C4: stored SecretReference metadata is read back unchanged. What validation accepts is
  turned into record metadata that validation accepts again with the same result, so no
  accepted reference becomes unreadable or changes by being stored.\<close>

theorem secret_reference_roundtrip:
  assumes "validate_secret_reference_metadata m = Inr r"
  shows "validate_secret_reference_metadata (as_record_metadata r) = Inr r"
  using assms reference_fields_reread
  by (auto simp: validate_reference_iff as_record_keys_ok as_record_lookup)

text \<open>No handling decision lets a secret value into ordinary state, audit, logs, exports,
  backups, diagnostics, model context or output, whatever the sensitivity label says; a secret
  value is allowed only in the external store or as bounded transient input; and an
  uncertain classification is denied everywhere.\<close>

theorem secret_value_never_persisted:
  "(h_allowed (evaluate_secret_handling secret_value location sensitivity uncertain) \<longleftrightarrow>
      \<not> uncertain \<and> location \<in> {loc_external_secret_store, loc_input, loc_bounded_operation})
   \<and> (h_disposition (evaluate_secret_handling secret_value location sensitivity uncertain) = disp_allow \<longleftrightarrow>
      \<not> uncertain \<and> location = loc_external_secret_store)
   \<and> \<not> h_allowed (evaluate_secret_handling kind location sensitivity True)"
  by (cases location)
    (auto simp: evaluate_secret_handling_def handling_decision_def SECRET_VALUE_DENIED_LOCATIONS_def)

theorem secret_reference_roundtrip_witness:
  "\<exists>r. validate_secret_reference_metadata
        [(''reference_id'', JStr ''ref-1''), (''credential_class'', JStr ''api_key''),
         (''store_adapter_class'', JStr ''keychain''), (''label'', JStr ''Mail key''),
         (''status'', JStr ''active''), (''allowed_operation_scope'', JList [JStr ''send''])] = Inr r
     \<and> validate_secret_reference_metadata (as_record_metadata r) = Inr r"
proof -
  let ?m = "[(''reference_id'', JStr ''ref-1''), (''credential_class'', JStr ''api_key''),
     (''store_adapter_class'', JStr ''keychain''), (''label'', JStr ''Mail key''),
     (''status'', JStr ''active''), (''allowed_operation_scope'', JList [JStr ''send''])]"
  have r: "validate_secret_reference_metadata ?m = Inr
     \<lparr>reference_id = ''ref-1'', credential_class = ''api_key'', store_adapter_class = ''keychain'',
      label = ''Mail key'', ref_status = ''active'', provider_class = None,
      allowed_operation_scope = [''send''], allowed_destination_scope = [], ref_created_at = None,
      rotated_at = None, revoked_at = None\<rparr>"
    by code_simp
  show ?thesis using r secret_reference_roundtrip [OF r] by blast
qed

end
