(* ===== verification/Normalizer.thy ===== *)
theory Normalizer
  imports Json Regex
begin

text \<open>
  The contract that the validators of the program share: a validator either raises or returns a
  normal form, and a normal form is accepted unchanged. Records are validated again whenever
  they are read, so this contract is what makes a written record readable. The locale
  \<open>normalizer\<close> states it and derives the versions for optional values and lists; the component
  theories interpret it on their validators.

  \<open>uuid\<close> models \<open>str(UUID(value))\<close>: removal of \<open>urn:\<close>, \<open>uuid:\<close>, braces and hyphens, 32
  characters read by \<open>int(_, 16)\<close>, and the canonical lower-case text.
\<close>

locale normalizer =
  fixes norm :: "'a \<Rightarrow> 'a res"
  assumes norm_idem: "norm x = Inr y \<Longrightarrow> norm y = Inr y"
begin

lemma norm_opt_idem: "opt_res norm v = Inr w \<Longrightarrow> opt_res norm w = Inr w"
  by (auto simp: opt_res_eq_Inr dest: norm_idem)

lemma norm_list_idem: "map_res norm xs = Inr ys \<Longrightarrow> map_res norm ys = Inr ys"
  by (erule map_res_idem) (rule norm_idem)

lemma norm_rescue_idem: "rescue p e (norm x) = Inr y \<Longrightarrow> rescue p e (norm y) = Inr y"
  by (simp add: norm_idem)

end

section \<open>\<open>str(UUID(value))\<close>\<close>

fun remove_text :: "string \<Rightarrow> string \<Rightarrow> string" where
  "remove_text old [] = []"
| "remove_text old (c # cs) =
     (if starts_with old (c # cs) then remove_text old (drop (length old - 1) cs)
      else c # remove_text old cs)"

definition strip_by :: "(char \<Rightarrow> bool) \<Rightarrow> string \<Rightarrow> string" where
  "strip_by p s = rstrip_by p (dropWhile p s)"

definition hex_value :: "char \<Rightarrow> int option" where
  "hex_value c =
     (if is_digit c then Some (ord c - 48)
      else if 97 \<le> ord c \<and> ord c \<le> 102 then Some (ord c - 87)
      else if 65 \<le> ord c \<and> ord c \<le> 70 then Some (ord c - 55)
      else None)"

text \<open>\<open>int(text, 16)\<close>: white space around, a sign, a \<open>0x\<close> prefix and single underscores between
  digits are accepted. The flag says that an underscore is not allowed next.\<close>

fun read_hex :: "int \<Rightarrow> bool \<Rightarrow> string \<Rightarrow> int option" where
  "read_hex acc no_underscore [] = (if no_underscore then None else Some acc)"
| "read_hex acc no_underscore (c # cs) =
     (if c = CHR ''_'' then (if no_underscore then None else read_hex acc True cs)
      else case hex_value c of None \<Rightarrow> None | Some v \<Rightarrow> read_hex (16 * acc + v) False cs)"

definition int_base16 :: "string \<Rightarrow> int option" where
  "int_base16 s =
     (let t = strip s;
          (sign, u) = (case t of [] \<Rightarrow> (1, []) | c # cs \<Rightarrow>
             if c = CHR ''+'' then (1, cs) else if c = CHR ''-'' then (- 1, cs) else (1, t));
          body = (if starts_with ''0x'' u \<or> starts_with ''0X'' u
                  then (case drop 2 u of [] \<Rightarrow> [] | c # cs \<Rightarrow> if c = CHR ''_'' then cs else c # cs)
                  else u)
      in map_option (\<lambda>n. sign * n) (read_hex 0 True body))"

fun hex_digits :: "nat \<Rightarrow> int \<Rightarrow> string" where
  "hex_digits 0 n = []"
| "hex_digits (Suc k) n = hex_digits k (n div 16) @ [hex_char (n mod 16)]"

definition uuid_text :: "int \<Rightarrow> string" where
  "uuid_text n = (let h = hex_digits 32 n in
     take 8 h @ ''-'' @ take 4 (drop 8 h) @ ''-'' @ take 4 (drop 12 h) @ ''-'' @
     take 4 (drop 16 h) @ ''-'' @ drop 20 h)"

definition uuid :: "string \<Rightarrow> string option" where
  "uuid value =
     (let h = remove_text ''-'' (strip_by (any_of ''{}'') (remove_text ''uuid:'' (remove_text ''urn:'' value)))
      in if length h \<noteq> 32 then None
         else case int_base16 h of
                None \<Rightarrow> None
              | Some n \<Rightarrow> if 0 \<le> n \<and> n < 2 ^ 128 then Some (uuid_text n) else None)"

section \<open>The canonical text is a fixed point\<close>

lemma length_hex_digits [simp]: "length (hex_digits k n) = k"
  by (induction k arbitrary: n) auto

definition lower_hex :: "char \<Rightarrow> bool" where
  "lower_hex c = (is_digit c \<or> (97 \<le> ord c \<and> ord c \<le> 102))"

lemma hex_char_lower: "0 \<le> n \<Longrightarrow> n < 16 \<Longrightarrow> lower_hex (hex_char n)"
  by (auto simp: hex_char_def lower_hex_def is_digit_def ord_char_of)

lemma hex_digits_lower: "c \<in> set (hex_digits k n) \<Longrightarrow> lower_hex c"
  by (induction k arbitrary: n) (auto intro: hex_char_lower)

lemma hex_value_hex_char: "0 \<le> n \<Longrightarrow> n < 16 \<Longrightarrow> hex_value (hex_char n) = Some n"
  by (auto simp: hex_char_def hex_value_def is_digit_def ord_char_of)

lemma lower_hex_not:
  assumes "lower_hex c"
  shows "c \<noteq> CHR ''_''" "c \<noteq> CHR ''-''" "c \<noteq> CHR ''+''" "c \<noteq> CHR ''u''" "c \<noteq> CHR ''x''" "c \<noteq> CHR ''X''"
    "c \<noteq> CHR ''{''" "c \<noteq> CHR ''}''" "\<not> is_space c"
  using assms by (auto simp: lower_hex_def is_digit_def is_space_def ord_def Let_def)

lemma read_hex_digits:
  "0 \<le> n \<Longrightarrow> n < 16 ^ Suc k \<Longrightarrow>
     read_hex acc b (hex_digits (Suc k) n @ rest) = read_hex (acc * 16 ^ Suc k + n) False rest"
proof (induction k arbitrary: n rest)
  case 0
  then have "hex_char (n mod 16) \<noteq> CHR ''_''" "hex_value (hex_char (n mod 16)) = Some n"
    using lower_hex_not(1) hex_char_lower [of n] hex_value_hex_char [of n] by auto
  then show ?case by (simp add: mult.commute)
next
  case (Suc k)
  let ?c = "hex_char (n mod 16)"
  have c: "?c \<noteq> CHR ''_''" "hex_value ?c = Some (n mod 16)"
    using lower_hex_not(1) hex_char_lower [of "n mod 16"] hex_value_hex_char [of "n mod 16"] by auto
  have "n div 16 < 16 ^ Suc k" using Suc.prems by (simp add: div_less_iff_less_mult)
  then have "read_hex acc b (hex_digits (Suc k) (n div 16) @ ?c # rest) =
      read_hex (acc * 16 ^ Suc k + n div 16) False (?c # rest)"
    using Suc.IH [of "n div 16"] Suc.prems(1) by simp
  also have "\<dots> = read_hex (16 * (acc * 16 ^ Suc k + n div 16) + n mod 16) False rest"
    using c by simp
  also have "16 * (acc * 16 ^ Suc k + n div 16) + n mod 16 = acc * 16 ^ Suc (Suc k) + n"
    by (simp add: algebra_simps)
  finally show ?case by (simp only: hex_digits.simps append_assoc append.simps)
qed

lemma remove_text_absent:
  "old \<noteq> [] \<Longrightarrow> hd old \<notin> set s \<Longrightarrow> remove_text old s = s"
proof (induction old s rule: remove_text.induct)
  case (2 old c cs)
  then show ?case by (cases old) auto
qed simp

lemma remove_hyphens: "remove_text ''-'' (s @ t) = remove_text ''-'' s @ remove_text ''-'' t"
  by (induction "''-''" s rule: remove_text.induct) auto

lemma dropWhile_absent: "(\<And>c. c \<in> set s \<Longrightarrow> \<not> p c) \<Longrightarrow> dropWhile p s = s"
  by (cases s) auto

lemma strip_by_absent: "(\<And>c. c \<in> set s \<Longrightarrow> \<not> p c) \<Longrightarrow> strip_by p s = s"
  using dropWhile_absent [of s p] dropWhile_absent [of "rev s" p] by (simp add: strip_by_def rstrip_by_def)

lemma int_base16_digits:
  assumes "0 \<le> n" "n < 16 ^ 32"
  shows "int_base16 (hex_digits 32 n) = Some n"
proof -
  let ?h = "hex_digits 32 n"
  have lower: "lower_hex c" if "c \<in> set ?h" for c using that by (rule hex_digits_lower)
  have "length ?h = 32" by simp
  then obtain a b t where h: "?h = a # b # t"
    by (metis length_0_conv length_Cons list.exhaust numeral_eq_one_iff one_eq_numeral_iff
        semiring_norm(85) zero_neq_numeral One_nat_def)
  have ab: "lower_hex a" "lower_hex b" using lower h by auto
  have "stripped ?h"
    using lower_hex_not(9) lower h by (auto simp: stripped_def)
  then have "strip ?h = ?h" by (rule strip_fix)
  moreover have "read_hex 0 True ?h = Some n"
    using read_hex_digits [of n 31 0 True "[]"] assms by simp
  ultimately show ?thesis
    using lower_hex_not(2,3) [OF ab(1)] lower_hex_not(5,6) [OF ab(2)]
    unfolding int_base16_def h by simp
qed

lemma uuid_uuid_text:
  assumes "0 \<le> n" "n < 2 ^ 128"
  shows "uuid (uuid_text n) = Some (uuid_text n)"
proof -
  let ?h = "hex_digits 32 n" and ?u = "uuid_text n"
  have lower: "lower_hex c" if "c \<in> set ?h" for c using that by (rule hex_digits_lower)
  have chars: "c = CHR ''-'' \<or> lower_hex c" if "c \<in> set ?u" for c
    using that lower by (auto simp: uuid_text_def Let_def dest!: in_set_takeD in_set_dropD)
  then have no: "CHR ''u'' \<notin> set ?u" "CHR ''{'' \<notin> set ?u" "CHR ''}'' \<notin> set ?u"
    using lower_hex_not(4,7,8) by blast+
  have piece: "remove_text ''-'' s = s" if "set s \<subseteq> set ?h" for s
    using that lower lower_hex_not(2) by (intro remove_text_absent) auto
  have "remove_text ''-'' ?u = take 8 ?h @ take 4 (drop 8 ?h) @ take 4 (drop 12 ?h) @
      take 4 (drop 16 ?h) @ drop 20 ?h"
    unfolding uuid_text_def Let_def remove_hyphens
    by (simp add: piece set_take_subset set_drop_subset subset_trans [OF set_take_subset])
  also have "\<dots> = ?h"
    using append_take_drop_id [of 8 ?h] append_take_drop_id [of 4 "drop 8 ?h"]
      append_take_drop_id [of 4 "drop 12 ?h"] append_take_drop_id [of 4 "drop 16 ?h"]
    by (simp add: drop_drop)
  finally have "remove_text ''-'' ?u = ?h" .
  moreover have "strip_by (any_of ''{}'') ?u = ?u"
    using no by (intro strip_by_absent) auto
  ultimately show ?thesis
    using assms int_base16_digits [of n] no by (simp add: uuid_def remove_text_absent)
qed

lemma uuid_range:
  "uuid s = Some u \<Longrightarrow> \<exists>n. 0 \<le> n \<and> n < 2 ^ 128 \<and> u = uuid_text n"
  unfolding uuid_def Let_def by (auto split: option.splits if_splits)

lemma uuid_fixpoint: "uuid s = Some u \<Longrightarrow> uuid u = Some u"
  using uuid_range uuid_uuid_text by blast

interpretation uuid_value: normalizer "\<lambda>s. of_option e (uuid s)"
  by unfold_locales (simp add: uuid_fixpoint)

end
