(* ===== verification/State_Repository.thy ===== *)
theory State_Repository
  imports Secret_Policy Normalizer
begin

text \<open>
  The record repository of \<open>state_repository.py\<close> over the tables of \<open>state_schema.py\<close>, and the
  workspace revision that \<open>workspace.py\<close> keeps beside the database.

  A \<open>repo\<close> is one open repository: its mode, the workspace revision on disk, the singleton row
  of \<open>schema_metadata\<close> and the rows of the two tables. A row holds the value its
  \<open>metadata_json\<close> text parses to (\<open>None\<close> when \<open>json.loads\<close> rejects the text); what is written
  is the canonical form of a value, because the encoder sorts the keys. The clock and
  \<open>uuid4()\<close> are inputs of an operation (\<open>env\<close>).

  \<open>update_record\<close> reads the record before it begins its transaction, so it is split into that
  reading part and the part under the database lock; a run of several writers interleaves the
  two parts of their calls.
\<close>

section \<open>State\<close>

record 'm envelope =
  rec_id :: string
  record_type :: string
  rec_schema_version :: int
  created_at :: string
  updated_at :: string
  revision :: int
  rec_status :: string
  provenance :: string
  sensitivity :: string
  rec_title :: "string option"
  metadata :: 'm

type_synonym RecordEnvelope = "dict envelope"
type_synonym RecordRow = "json option envelope"

record 'm audit_record =
  sequence :: int
  event_id :: string
  operation_id :: string
  occurred_at :: string
  actor_type :: string
  actor_id :: "string option"
  action :: string
  target_type :: "string option"
  target_id :: "string option"
  result :: string
  summary :: "string option"
  error_class :: "string option"
  event_metadata :: 'm

type_synonym AuditEvent = "dict audit_record"
type_synonym AuditRow = "json option audit_record"

record schema_metadata =
  meta_workspace_id :: string
  meta_schema_version :: int
  meta_state_revision :: int
  meta_updated_at :: string

record repo =
  read_only :: bool
  workspace_revision :: int
  meta_row :: "schema_metadata option"
  records :: "RecordRow list"
  audit_events :: "AuditRow list"
  last_sequence :: int

record env =
  new_uuid :: string
  other_uuid :: string
  event_uuid :: string
  utc_now :: string
  event_now :: string
  commit_now :: string

record StateStatus =
  status_workspace_id :: string
  status_schema_version :: int
  status_state_revision :: int
  record_count :: int
  status_read_only :: bool

definition ALLOWED_STATUSES :: "string list" where
  "ALLOWED_STATUSES = [''active'', ''archived'', ''superseded'', ''deleted'', ''invalid'']"

definition ALLOWED_PROVENANCE :: "string list" where
  "ALLOWED_PROVENANCE = [''user-created'', ''user-confirmed'', ''imported'', ''model-proposed'',
     ''system-generated'', ''migrated'', ''restored'']"

definition ALLOWED_SENSITIVITY :: "string list" where
  "ALLOWED_SENSITIVITY = [''public'', ''internal'', ''personal'', ''sensitive'', ''secret'']"

section \<open>Reading\<close>

definition metadata_row :: "repo \<Rightarrow> schema_metadata res" where
  "metadata_row s = of_option StateCorruptError (meta_row s)"

definition status_of :: "repo \<Rightarrow> StateStatus res" where
  "status_of s = bindr (metadata_row s) (\<lambda>row. Inr
     \<lparr>status_workspace_id = meta_workspace_id row,
      status_schema_version = meta_schema_version row,
      status_state_revision = meta_state_revision row,
      record_count = (if meta_schema_version row = 0 then 0 else int (length (records s))),
      status_read_only = read_only s\<rparr>)"

definition with_metadata :: "'a envelope \<Rightarrow> 'm \<Rightarrow> 'm envelope" where
  "with_metadata r m =
     \<lparr>rec_id = rec_id r, record_type = record_type r, rec_schema_version = rec_schema_version r,
      created_at = created_at r, updated_at = updated_at r, revision = revision r,
      rec_status = rec_status r, provenance = provenance r, sensitivity = sensitivity r,
      rec_title = rec_title r, metadata = m\<rparr>"

definition record_from_row :: "RecordRow \<Rightarrow> RecordEnvelope res" where
  "record_from_row row =
     (case metadata row of
        None \<Rightarrow> Inl StateCorruptError
      | Some (JObj m) \<Rightarrow> Inr (with_metadata row m)
      | Some _ \<Rightarrow> Inl StateCorruptError)"

definition find_row :: "string \<Rightarrow> RecordRow list \<Rightarrow> RecordRow option" where
  "find_row i rows = find (\<lambda>r. rec_id r = i) rows"

definition get_record :: "string \<Rightarrow> repo \<Rightarrow> RecordEnvelope res" where
  "get_record i s =
     (case find_row i (records s) of
        None \<Rightarrow> Inl KeyError
      | Some row \<Rightarrow> record_from_row row)"

section \<open>Writing\<close>

definition require_write :: "repo \<Rightarrow> unit res" where
  "require_write s = require (\<not> read_only s) ReadOnlyStateError"

definition commit_state_revision :: "env \<Rightarrow> repo \<Rightarrow> (int \<times> repo) res" where
  "commit_state_revision e s =
     (case meta_row s of
        None \<Rightarrow> Inl StateCorruptError
      | Some row \<Rightarrow>
          (let row' = row\<lparr>meta_state_revision := meta_state_revision row + 1,
                           meta_updated_at := commit_now e\<rparr>
           in Inr (meta_state_revision row', s\<lparr>meta_row := Some row'\<rparr>)))"

definition update_workspace_state_revision :: "int \<Rightarrow> (repo, unit) op" where
  "update_workspace_state_revision n s =
     (if n < workspace_revision s then (Inl WorkspaceRevisionError, s)
      else if n = workspace_revision s then (Inr (), s)
      else (Inr (), s\<lparr>workspace_revision := n\<rparr>))"

definition sync_after_commit :: "int \<Rightarrow> (repo, unit) op" where
  "sync_after_commit n = update_workspace_state_revision n"

definition validate_record_fields ::
  "string \<Rightarrow> int \<Rightarrow> string \<Rightarrow> string \<Rightarrow> string \<Rightarrow> unit res" where
  "validate_record_fields rtype version stat prov sens =
     bindr (require (strip rtype \<noteq> []) RecordValidationError) (\<lambda>_.
     bindr (require (\<not> version < 1) RecordValidationError) (\<lambda>_.
     bindr (require (List.member ALLOWED_STATUSES stat) RecordValidationError) (\<lambda>_.
     bindr (require (List.member ALLOWED_PROVENANCE prov) RecordValidationError) (\<lambda>_.
     require (List.member ALLOWED_SENSITIVITY sens) RecordValidationError))))"

definition validate_record_id :: "string \<Rightarrow> string res" where
  "validate_record_id value =
     (case uuid value of
        None \<Rightarrow> Inl RecordValidationError
      | Some canonical \<Rightarrow> if canonical \<noteq> value then Inl RecordValidationError else Inr canonical)"

definition is_SecretPolicyError :: "exc \<Rightarrow> bool" where
  "is_SecretPolicyError e \<longleftrightarrow> e = SecretClassificationError \<or> e = SecretReferenceValidationError"

definition validate_secret_boundary :: "string \<Rightarrow> string \<Rightarrow> dict \<Rightarrow> unit res" where
  "validate_secret_boundary rtype sens m =
     rescue is_SecretPolicyError RecordValidationError (validate_ordinary_state_record rtype sens m)"

definition serialize_metadata :: "dict \<Rightarrow> json res" where
  "serialize_metadata m =
     bindr (require (all_finite (JObj m)) RecordValidationError) (\<lambda>_. Inr (canon (JObj m)))"

text \<open>The partial unique index of migration 0003: at most one active \<open>model_binding\<close> per scope.
  Rows whose scope has a null component are never equal for a unique index.\<close>

definition scope_value :: "dict \<Rightarrow> string \<Rightarrow> json option" where
  "scope_value m k = (case map_of m k of None \<Rightarrow> None | Some JNull \<Rightarrow> None | Some v \<Rightarrow> Some (num_norm v))"

definition binding_scope :: "RecordRow \<Rightarrow> (json \<times> json) option" where
  "binding_scope r =
     (case metadata r of
        Some (JObj m) \<Rightarrow>
          if record_type r = ''model_binding'' \<and> rec_status r = ''active'' \<and>
             map_of m ''binding_state'' = Some (JStr ''active'')
          then (case (scope_value m ''scope_type'', scope_value m ''scope_key'') of
                  (Some a, Some b) \<Rightarrow> Some (a, b) | _ \<Rightarrow> None)
          else None
      | _ \<Rightarrow> None)"

definition index_admits :: "RecordRow list \<Rightarrow> RecordRow \<Rightarrow> bool" where
  "index_admits rows r \<longleftrightarrow>
     (case binding_scope r of
        None \<Rightarrow> True
      | Some k \<Rightarrow> list_all (\<lambda>q. rec_id q = rec_id r \<or> binding_scope q \<noteq> Some k) rows)"

definition insert_record :: "RecordRow \<Rightarrow> repo \<Rightarrow> repo res" where
  "insert_record r s =
     (if index_admits (records s) r then Inr (s\<lparr>records := records s @ [r]\<rparr>) else Inl DatabaseError)"

definition replace_row :: "RecordRow \<Rightarrow> RecordRow list \<Rightarrow> RecordRow list" where
  "replace_row r rows = map (\<lambda>q. if rec_id q = rec_id r then r else q) rows"

definition store_record :: "RecordRow \<Rightarrow> repo \<Rightarrow> repo res" where
  "store_record r s =
     (if index_admits (records s) r then Inr (s\<lparr>records := replace_row r (records s)\<rparr>)
      else Inl DatabaseError)"

text \<open>Every writer has the same shape: a transaction whose body changes the tables and ends with
  \<open>_commit_state_revision\<close>, then \<open>_sync_after_commit\<close>, then a read of what was written.\<close>

definition write_op :: "env \<Rightarrow> (repo \<Rightarrow> repo res) \<Rightarrow> (repo \<Rightarrow> 'a res) \<Rightarrow> (repo, 'a) op" where
  "write_op e body view =
     bind_op (transaction (\<lambda>s. bindr (body s) (commit_state_revision e)))
       (\<lambda>n. bind_op (sync_after_commit n) (\<lambda>_. lift_op view))"

definition create_body :: "RecordRow \<Rightarrow> repo \<Rightarrow> repo res" where
  "create_body row s =
     bindr (require (find_row (rec_id row) (records s) = None) RecordValidationError) (\<lambda>_.
     insert_record row s)"

definition prepare_create ::
  "env \<Rightarrow> string \<Rightarrow> int \<Rightarrow> string \<Rightarrow> string \<Rightarrow> string \<Rightarrow> string option \<Rightarrow> dict option \<Rightarrow>
   string option \<Rightarrow> repo \<Rightarrow> RecordRow res" where
  "prepare_create e rtype version stat prov sens ttl meta rid s =
     bindr (require_write s) (\<lambda>_.
     bindr (validate_record_fields rtype version stat prov sens) (\<lambda>_.
     let m = (case meta of None \<Rightarrow> [] | Some m \<Rightarrow> m) in
     bindr (validate_secret_boundary rtype sens m) (\<lambda>_.
     bindr (case rid of None \<Rightarrow> Inr (new_uuid e)
            | Some i \<Rightarrow> if i \<noteq> [] then validate_record_id i else Inr (new_uuid e)) (\<lambda>i.
     bindr (serialize_metadata m) (\<lambda>j.
     Inr \<lparr>rec_id = i, record_type = rtype, rec_schema_version = version,
          created_at = utc_now e, updated_at = utc_now e, revision = 1,
          rec_status = stat, provenance = prov, sensitivity = sens,
          rec_title = ttl, metadata = Some j\<rparr>)))))"

definition create_record ::
  "env \<Rightarrow> string \<Rightarrow> int \<Rightarrow> string \<Rightarrow> string \<Rightarrow> string \<Rightarrow> string option \<Rightarrow> dict option \<Rightarrow>
   string option \<Rightarrow> (repo, RecordEnvelope) op" where
  "create_record e rtype version stat prov sens ttl meta rid =
     bind_op (lift_op (prepare_create e rtype version stat prov sens ttl meta rid))
       (\<lambda>row. write_op e (create_body row) (get_record (rec_id row)))"

text \<open>What the reading part of \<open>update_record\<close> hands to the locked part.\<close>

record update_plan =
  plan_id :: string
  plan_expected :: int
  plan_status :: string
  plan_title :: "string option"
  plan_json :: json
  plan_now :: string

definition prepare_update ::
  "env \<Rightarrow> string \<Rightarrow> int \<Rightarrow> string option \<Rightarrow> string option \<Rightarrow> dict option \<Rightarrow> repo \<Rightarrow> update_plan res" where
  "prepare_update e i expected stat ttl meta s =
     bindr (require_write s) (\<lambda>_.
     bindr (get_record i s) (\<lambda>current.
     bindr (require (revision current = expected) StaleRevisionError) (\<lambda>_.
     let next_status = (case stat of Some t \<Rightarrow> if t \<noteq> [] then t else rec_status current
                        | None \<Rightarrow> rec_status current) in
     bindr (require (List.member ALLOWED_STATUSES next_status) RecordValidationError) (\<lambda>_.
     let next_title = (case ttl of None \<Rightarrow> rec_title current | Some t \<Rightarrow> Some t);
         next_metadata = (case meta of None \<Rightarrow> metadata current | Some m \<Rightarrow> m) in
     bindr (require (\<not> (record_type current = ''instruction_origin'' \<and>
                      (next_title \<noteq> rec_title current \<or> \<not> dict_eq next_metadata (metadata current))))
              RecordValidationError) (\<lambda>_.
     bindr (validate_secret_boundary (record_type current) (sensitivity current) next_metadata) (\<lambda>_.
     bindr (serialize_metadata next_metadata) (\<lambda>j.
     Inr \<lparr>plan_id = i, plan_expected = expected, plan_status = next_status,
          plan_title = next_title, plan_json = j, plan_now = utc_now e\<rparr>)))))))"

definition updated_row :: "update_plan \<Rightarrow> RecordRow \<Rightarrow> RecordRow" where
  "updated_row p r = r\<lparr>updated_at := plan_now p, revision := revision r + 1,
     rec_status := plan_status p, rec_title := plan_title p, metadata := Some (plan_json p)\<rparr>"

definition update_body :: "update_plan \<Rightarrow> repo \<Rightarrow> repo res" where
  "update_body p s =
     (case find_row (plan_id p) (records s) of
        None \<Rightarrow> Inl StaleRevisionError
      | Some r \<Rightarrow>
          if revision r \<noteq> plan_expected p then Inl StaleRevisionError
          else store_record (updated_row p r) s)"

definition commit_update :: "env \<Rightarrow> update_plan \<Rightarrow> (repo, RecordEnvelope) op" where
  "commit_update e p = write_op e (update_body p) (get_record (plan_id p))"

definition update_record ::
  "env \<Rightarrow> string \<Rightarrow> int \<Rightarrow> string option \<Rightarrow> string option \<Rightarrow> dict option \<Rightarrow>
   (repo, RecordEnvelope) op" where
  "update_record e i expected stat ttl meta =
     bind_op (lift_op (prepare_update e i expected stat ttl meta)) (commit_update e)"

section \<open>Invariant\<close>

definition row_ok :: "RecordRow \<Rightarrow> bool" where
  "row_ok r \<longleftrightarrow> 1 \<le> revision r \<and> 1 \<le> rec_schema_version r \<and>
     rec_status r \<in> set ALLOWED_STATUSES \<and> provenance r \<in> set ALLOWED_PROVENANCE \<and>
     sensitivity r \<in> set ALLOWED_SENSITIVITY \<and>
     (\<exists>m. metadata r = Some (JObj m) \<and> canon (JObj m) = JObj m \<and> all_finite (JObj m))"

definition bindings_unique :: "RecordRow list \<Rightarrow> bool" where
  "bindings_unique rows \<longleftrightarrow>
     (\<forall>k. \<forall>r \<in> set rows. \<forall>q \<in> set rows.
        binding_scope r = Some k \<longrightarrow> binding_scope q = Some k \<longrightarrow> rec_id q = rec_id r)"

definition events_ok :: "repo \<Rightarrow> bool" where
  "events_ok s \<longleftrightarrow> sorted_wrt (<) (map sequence (audit_events s)) \<and>
     (\<forall>a \<in> set (audit_events s). 1 \<le> sequence a \<and> sequence a \<le> last_sequence s) \<and>
     0 \<le> last_sequence s \<and> distinct (map event_id (audit_events s))"

definition revision_ok :: "repo \<Rightarrow> bool" where
  "revision_ok s \<longleftrightarrow> (\<exists>m. meta_row s = Some m \<and> workspace_revision s \<le> meta_state_revision m)"

definition repo_ok :: "repo \<Rightarrow> bool" where
  "repo_ok s \<longleftrightarrow> distinct (map rec_id (records s)) \<and> (\<forall>r \<in> set (records s). row_ok r) \<and>
     bindings_unique (records s) \<and> events_ok s \<and> revision_ok s"

definition state_revision :: "repo \<Rightarrow> int" where
  "state_revision s = (case meta_row s of None \<Rightarrow> 0 | Some m \<Rightarrow> meta_state_revision m)"

text \<open>The state after a committed body: the revision is advanced in both places.\<close>

definition advance :: "env \<Rightarrow> repo \<Rightarrow> repo" where
  "advance e s = s\<lparr>meta_row := map_option (\<lambda>m. m\<lparr>meta_state_revision := meta_state_revision m + 1,
       meta_updated_at := commit_now e\<rparr>) (meta_row s),
     workspace_revision := state_revision s + 1\<rparr>"

text \<open>How the tables may change: a record keeps its identity fields and its revision grows
  whenever anything of it changes, no record disappears, and the audit table only grows.\<close>

definition row_evolves :: "RecordRow \<Rightarrow> RecordRow \<Rightarrow> bool" where
  "row_evolves r q \<longleftrightarrow> q = r \<or>
     (revision r < revision q \<and> rec_id q = rec_id r \<and> record_type q = record_type r \<and>
      created_at q = created_at r \<and> sensitivity q = sensitivity r)"

definition evolves :: "repo \<Rightarrow> repo \<Rightarrow> bool" where
  "evolves s t \<longleftrightarrow>
     (\<forall>i r. find_row i (records s) = Some r \<longrightarrow> (\<exists>q. find_row i (records t) = Some q \<and> row_evolves r q)) \<and>
     (\<exists>new. audit_events t = audit_events s @ new) \<and>
     (read_only t \<longleftrightarrow> read_only s)"

lemma find_row_Some: "find_row i rows = Some r \<Longrightarrow> r \<in> set rows \<and> rec_id r = i"
  by (auto simp: find_row_def find_Some_iff)

lemma find_row_None: "find_row i rows = None \<longleftrightarrow> i \<notin> rec_id ` set rows"
  by (auto simp: find_row_def find_None_iff)

lemma find_row_distinct:
  "distinct (map rec_id rows) \<Longrightarrow> r \<in> set rows \<Longrightarrow> find_row (rec_id r) rows = Some r"
  by (induction rows) (auto simp: find_row_def)

lemma find_row_append:
  "find_row i (xs @ ys) = (case find_row i xs of None \<Rightarrow> find_row i ys | Some r \<Rightarrow> Some r)"
  by (induction xs) (auto simp: find_row_def)

lemma find_row_replace:
  "find_row i (replace_row r rows) =
     (if i = rec_id r then map_option (\<lambda>_. r) (find_row i rows) else find_row i rows)"
  by (induction rows) (auto simp: find_row_def replace_row_def)

lemma map_id_replace [simp]: "map rec_id (replace_row r rows) = map rec_id rows"
  by (induction rows) (auto simp: replace_row_def)

lemma row_evolves_trans: "row_evolves p q \<Longrightarrow> row_evolves q r \<Longrightarrow> row_evolves p r"
  by (auto simp: row_evolves_def)

lemma evolves_refl [intro, simp]: "evolves s s"
  by (auto simp: evolves_def row_evolves_def)

lemma evolves_trans: "evolves s t \<Longrightarrow> evolves t u \<Longrightarrow> evolves s u"
  unfolding evolves_def by (metis (no_types, lifting) append.assoc row_evolves_trans)

lemma evolves_advance [simp]: "evolves s (advance e t) = evolves s t"
  by (simp add: evolves_def advance_def)

lemma advance_sel [simp]:
  "records (advance e s) = records s" "audit_events (advance e s) = audit_events s"
  "last_sequence (advance e s) = last_sequence s" "read_only (advance e s) = read_only s"
  by (simp_all add: advance_def)

lemma get_record_advance [simp]: "get_record i (advance e s) = get_record i s"
  by (simp add: get_record_def)

lemma advance_ok: "repo_ok s \<Longrightarrow> repo_ok (advance e s)"
  by (auto simp: repo_ok_def revision_ok_def events_ok_def advance_def state_revision_def)

lemma advance_revision: "repo_ok s \<Longrightarrow> state_revision (advance e s) = state_revision s + 1
    \<and> workspace_revision (advance e s) = state_revision s + 1"
  by (auto simp: repo_ok_def revision_ok_def advance_def state_revision_def)

section \<open>The contract of a transaction body\<close>

text \<open>\<open>pre\<close> is what the caller validated about the values the body writes.\<close>

locale write_body =
  fixes pre :: bool and body :: "repo \<Rightarrow> repo res"
  assumes body_frame: "body s = Inr t \<Longrightarrow> meta_row t = meta_row s \<and> workspace_revision t = workspace_revision s"
    and body_ok: "pre \<Longrightarrow> repo_ok s \<Longrightarrow> body s = Inr t \<Longrightarrow> repo_ok t"
    and body_evolves: "repo_ok s \<Longrightarrow> body s = Inr t \<Longrightarrow> evolves s t"
begin

lemma write_op_eq:
  assumes "repo_ok s"
  shows "write_op e body view s =
    (case body s of Inl x \<Rightarrow> (Inl x, s) | Inr t \<Rightarrow> (view (advance e t), advance e t))"
proof (cases "body s")
  case (Inr t)
  obtain m where m: "meta_row s = Some m" "workspace_revision s \<le> meta_state_revision m"
    using assms by (auto simp: repo_ok_def revision_ok_def)
  have "meta_row t = Some m" "workspace_revision t = workspace_revision s"
    using body_frame [OF Inr] m by auto
  then show ?thesis
    using m Inr by (simp add: write_op_def bind_op_def transaction_def commit_state_revision_def
        sync_after_commit_def update_workspace_state_revision_def lift_op_def advance_def
        state_revision_def Let_def)
qed (simp add: write_op_def bind_op_def transaction_def)

lemma write_op_ok: "pre \<Longrightarrow> repo_ok s \<Longrightarrow> write_op e body view s = (r, t) \<Longrightarrow> repo_ok t"
  by (auto simp: write_op_eq advance_ok body_ok split: sum.splits)

lemma write_op_evolves: "repo_ok s \<Longrightarrow> write_op e body view s = (r, t) \<Longrightarrow> evolves s t"
  by (auto simp: write_op_eq body_evolves split: sum.splits)

lemma write_op_cases:
  assumes "repo_ok s" "write_op e body view s = (r, t)"
  shows "(\<exists>x. body s = Inl x \<and> r = Inl x \<and> t = s) \<or>
    (\<exists>u. body s = Inr u \<and> t = advance e u \<and> r = view t \<and> state_revision t = state_revision s + 1
       \<and> workspace_revision t = state_revision t)"
proof (cases "body s")
  case (Inr u)
  have "meta_row u = meta_row s" using body_frame Inr by simp
  moreover obtain m where "meta_row s = Some m" using assms(1) by (auto simp: repo_ok_def revision_ok_def)
  ultimately have "state_revision (advance e u) = state_revision s + 1
      \<and> workspace_revision (advance e u) = state_revision s + 1"
    by (simp add: advance_def state_revision_def)
  with Inr assms show ?thesis by (auto simp: write_op_eq)
qed (use assms in \<open>simp add: write_op_eq\<close>)

end

lemma index_admitsD:
  "index_admits rows r \<Longrightarrow> binding_scope r = Some k \<Longrightarrow> q \<in> set rows \<Longrightarrow> binding_scope q = Some k \<Longrightarrow>
     rec_id q = rec_id r"
  by (auto simp: index_admits_def list_all_iff)

lemma bindings_uniqueD:
  "bindings_unique rows \<Longrightarrow> r \<in> set rows \<Longrightarrow> q \<in> set rows \<Longrightarrow> binding_scope r = Some k \<Longrightarrow>
     binding_scope q = Some k \<Longrightarrow> rec_id q = rec_id r"
  unfolding bindings_unique_def by blast

lemma bindings_unique_extend:
  assumes "bindings_unique rows" "index_admits rows r" "set rows' \<subseteq> insert r (set rows)"
  shows "bindings_unique rows'"
  unfolding bindings_unique_def
proof (intro allI ballI impI)
  fix k p q assume "p \<in> set rows'" "q \<in> set rows'" and k: "binding_scope p = Some k" "binding_scope q = Some k"
  then have "p = r \<or> p \<in> set rows" "q = r \<or> q \<in> set rows" using assms(3) by auto
  with k show "rec_id q = rec_id p"
    using bindings_uniqueD [OF assms(1)] index_admitsD [OF assms(2)] by metis
qed

lemma set_replace_row: "set (replace_row r rows) \<subseteq> insert r (set rows)"
  by (auto simp: replace_row_def)

lemma insert_record_ok:
  assumes "row_ok r" "repo_ok s" "find_row (rec_id r) (records s) = None" "insert_record r s = Inr t"
  shows "repo_ok t"
  using assms bindings_unique_extend [of "records s" r "records s @ [r]"]
  unfolding repo_ok_def insert_record_def
  by (auto simp: events_ok_def revision_ok_def find_row_None split: if_splits)

lemma insert_record_evolves:
  assumes "insert_record r s = Inr t"
  shows "evolves s t"
  using assms unfolding evolves_def insert_record_def
  by (auto simp: find_row_append row_evolves_def split: if_splits)

lemma store_record_ok:
  assumes "row_ok r" "repo_ok s" "store_record r s = Inr t"
  shows "repo_ok t"
proof -
  have "row_ok q" if "q \<in> set (replace_row r (records s))" for q
    using that assms(1,2) by (auto simp: replace_row_def repo_ok_def split: if_splits)
  with assms(2,3) show ?thesis
    using bindings_unique_extend [OF _ _ set_replace_row, of "records s" r]
    unfolding repo_ok_def store_record_def
    by (auto simp: events_ok_def revision_ok_def split: if_splits)
qed

lemma store_record_evolves:
  assumes "find_row (rec_id r) (records s) = Some q" "row_evolves q r" "store_record r s = Inr t"
  shows "evolves s t"
  using assms unfolding evolves_def store_record_def
  by (auto simp: find_row_replace row_evolves_def split: if_splits)

lemma insert_record_frame:
  "insert_record r s = Inr t \<Longrightarrow> meta_row t = meta_row s \<and> workspace_revision t = workspace_revision s"
  by (auto simp: insert_record_def split: if_splits)

lemma store_record_frame:
  "store_record r s = Inr t \<Longrightarrow> meta_row t = meta_row s \<and> workspace_revision t = workspace_revision s"
  by (auto simp: store_record_def split: if_splits)

definition plan_ok :: "update_plan \<Rightarrow> bool" where
  "plan_ok p \<longleftrightarrow> plan_status p \<in> set ALLOWED_STATUSES \<and>
     (\<exists>m. plan_json p = JObj m \<and> canon (JObj m) = JObj m \<and> all_finite (JObj m))"

lemma updated_row_sel [simp]: "rec_id (updated_row p r) = rec_id r"
  by (simp add: updated_row_def)

lemma updated_row_ok: "plan_ok p \<Longrightarrow> row_ok r \<Longrightarrow> row_ok (updated_row p r)"
  by (auto simp: plan_ok_def row_ok_def updated_row_def)

lemma updated_row_evolves: "row_evolves r (updated_row p r)"
  by (simp add: row_evolves_def updated_row_def)

lemma repo_ok_row: "repo_ok s \<Longrightarrow> find_row i (records s) = Some r \<Longrightarrow> row_ok r"
  using find_row_Some by (fastforce simp: repo_ok_def)

interpretation create: write_body "row_ok row" "create_body row" for row
  by unfold_locales (auto simp: create_body_def intro: insert_record_ok insert_record_evolves
      dest: insert_record_frame)

interpretation update: write_body "plan_ok p" "update_body p" for p
proof
  fix s t assume ok: "repo_ok s" and t: "update_body p s = Inr t"
  obtain r where r: "find_row (plan_id p) (records s) = Some r" "store_record (updated_row p r) s = Inr t"
    using t by (auto simp: update_body_def split: option.splits if_splits)
  have "rec_id r = plan_id p" using find_row_Some [OF r(1)] by simp
  then show "evolves s t"
    using r by (intro store_record_evolves [OF _ updated_row_evolves]) auto
  show "plan_ok p \<Longrightarrow> repo_ok t"
    using store_record_ok [OF updated_row_ok [OF _ repo_ok_row [OF ok r(1)]] ok r(2)] .
next
  fix s t assume "update_body p s = Inr t"
  then show "meta_row t = meta_row s \<and> workspace_revision t = workspace_revision s"
    by (auto simp: update_body_def dest: store_record_frame split: option.splits if_splits)
qed

section \<open>Properties of the two operations\<close>

lemma serialize_metadata_eq:
  "serialize_metadata m = Inr j \<longleftrightarrow> all_finite (JObj m) \<and> j = JObj (canon_dict m)"
  by (auto simp: serialize_metadata_def)

lemma canon_dict_fix: "canon (JObj (canon_dict m)) = JObj (canon_dict m)"
  using canon_idem [of "JObj m"] by (simp only: canon.simps)

lemma canon_dict_finite: "all_finite (JObj (canon_dict m)) = all_finite (JObj m)"
  using all_finite_canon [of "JObj m"] by (simp only: canon.simps)

lemma validate_record_fields_ok:
  "validate_record_fields rtype version stat prov sens = Inr u \<Longrightarrow>
     1 \<le> version \<and> stat \<in> set ALLOWED_STATUSES \<and> prov \<in> set ALLOWED_PROVENANCE \<and>
     sens \<in> set ALLOWED_SENSITIVITY"
  by (auto simp: validate_record_fields_def)

lemma prepare_create_row:
  assumes "prepare_create e rtype version stat prov sens ttl meta rid s = Inr row"
  shows "row_ok row \<and> revision row = 1 \<and>
    metadata row = Some (JObj (canon_dict (case meta of None \<Rightarrow> [] | Some m \<Rightarrow> m)))"
  using assms canon_dict_fix canon_dict_finite
  by (auto simp: prepare_create_def row_ok_def serialize_metadata_eq Let_def
      dest!: validate_record_fields_ok simp del: canon.simps all_finite.simps)

lemma bind_lift: "bind_op (lift_op f) g s = (case f s of Inl x \<Rightarrow> (Inl x, s) | Inr v \<Rightarrow> g v s)"
  by (simp add: bind_op_def lift_op_def split: sum.splits)

lemma create_bodyD:
  "create_body row s = Inr t \<Longrightarrow>
     find_row (rec_id row) (records s) = None \<and> t = s\<lparr>records := records s @ [row]\<rparr>"
  by (auto simp: create_body_def insert_record_def split: if_splits)

lemma find_row_append1:
  "find_row i (rows @ [r]) =
     (if i = rec_id r \<and> find_row i rows = None then Some r else find_row i rows)"
  by (induction rows) (auto simp: find_row_def)

lemma record_from_row_ok: "metadata row = Some (JObj m) \<Longrightarrow> record_from_row row = Inr (with_metadata row m)"
  by (simp add: record_from_row_def)

lemma with_metadata_sel [simp]:
  "rec_id (with_metadata r m) = rec_id r" "record_type (with_metadata r m) = record_type r"
  "rec_schema_version (with_metadata r m) = rec_schema_version r"
  "created_at (with_metadata r m) = created_at r" "updated_at (with_metadata r m) = updated_at r"
  "revision (with_metadata r m) = revision r" "rec_status (with_metadata r m) = rec_status r"
  "provenance (with_metadata r m) = provenance r" "sensitivity (with_metadata r m) = sensitivity r"
  "rec_title (with_metadata r m) = rec_title r" "metadata (with_metadata r m) = m"
  by (simp_all add: with_metadata_def)

lemma prepare_create_fields:
  assumes "prepare_create e rtype version stat prov sens ttl meta rid s = Inr row"
  shows "record_type row = rtype \<and> rec_schema_version row = version \<and> rec_status row = stat \<and>
    provenance row = prov \<and> sensitivity row = sens \<and> rec_title row = ttl \<and>
    validate_ordinary_state_record rtype sens (case meta of None \<Rightarrow> [] | Some m \<Rightarrow> m) = Inr ()"
  using assms by (auto simp: prepare_create_def validate_secret_boundary_def Let_def)

lemma create_record_shape:
  assumes "repo_ok s"
    and "create_record e rtype version stat prov sens ttl meta rid s = (res, t)"
  shows "case res of
      Inl x \<Rightarrow> t = s
    | Inr r \<Rightarrow> find_row (rec_id r) (records s) = None \<and> get_record (rec_id r) t = Inr r \<and>
        revision r = 1 \<and> record_type r = rtype \<and> rec_status r = stat \<and> provenance r = prov \<and>
        sensitivity r = sens \<and> rec_title r = ttl \<and>
        metadata r = canon_dict (case meta of None \<Rightarrow> [] | Some m \<Rightarrow> m) \<and>
        (\<forall>i. i \<noteq> rec_id r \<longrightarrow> find_row i (records t) = find_row i (records s)) \<and>
        audit_events t = audit_events s \<and> repo_ok t \<and>
        state_revision t = state_revision s + 1 \<and> workspace_revision t = state_revision t"
proof (cases "prepare_create e rtype version stat prov sens ttl meta rid s")
  case (Inl x)
  with assms(2) show ?thesis by (auto simp: create_record_def bind_lift)
next
  case (Inr row)
  note row = prepare_create_row [OF Inr] prepare_create_fields [OF Inr]
  have w: "write_op e (create_body row) (get_record (rec_id row)) s = (res, t)"
    using assms(2) Inr by (simp add: create_record_def bind_lift)
  from create.write_op_cases [OF assms(1) w] show ?thesis
  proof
    assume "\<exists>u. create_body row s = Inr u \<and> t = advance e u \<and> res = get_record (rec_id row) t \<and>
      state_revision t = state_revision s + 1 \<and> workspace_revision t = state_revision t"
    then obtain u where u: "create_body row s = Inr u" "t = advance e u"
      "res = get_record (rec_id row) t" "state_revision t = state_revision s + 1"
      "workspace_revision t = state_revision t" by auto
    have "repo_ok t" using create.write_op_ok [OF _ assms(1) w] row by simp
    moreover have "find_row (rec_id row) (records u) = Some row"
      using create_bodyD [OF u(1)] by (auto simp: find_row_append1)
    ultimately show ?thesis
      using u row create_bodyD [OF u(1)]
      by (auto simp: get_record_def record_from_row_ok find_row_append1)
  qed auto
qed

lemmas create_record_effect = create_record_shape [where res = "Inr r" for r, unfolded sum.case]

text \<open>C5: \<open>create_record\<close> adds exactly one record. On success the identifier was free, the new
  record has revision 1 and the given fields with the metadata in canonical form, reading it
  back gives what was returned, every other record and the audit table are unchanged, and the
  state revision is advanced by one in the database and in the workspace; on an error nothing
  changes.\<close>

theorem create_record_correct:
  assumes "repo_ok s"
    and "create_record e rtype version stat prov sens ttl meta rid s = (res, t)"
  shows "case res of
      Inl x \<Rightarrow> t = s
    | Inr r \<Rightarrow> find_row (rec_id r) (records s) = None \<and> get_record (rec_id r) t = Inr r \<and>
        revision r = 1 \<and> record_type r = rtype \<and> rec_status r = stat \<and> provenance r = prov \<and>
        sensitivity r = sens \<and> rec_title r = ttl \<and>
        metadata r = canon_dict (case meta of None \<Rightarrow> [] | Some m \<Rightarrow> m) \<and>
        (\<forall>i. i \<noteq> rec_id r \<longrightarrow> find_row i (records t) = find_row i (records s)) \<and>
        audit_events t = audit_events s \<and> repo_ok t \<and>
        state_revision t = state_revision s + 1 \<and> workspace_revision t = state_revision t"
  by (rule create_record_shape [OF assms])

lemma prepare_updateD:
  assumes "prepare_update e i expected stat ttl meta s = Inr p"
  shows "plan_ok p \<and> plan_id p = i \<and> plan_expected p = expected \<and> plan_now p = utc_now e \<and>
    (\<exists>r m. get_record i s = Inr r \<and> revision r = expected \<and> plan_json p = JObj (canon_dict m) \<and>
      m = (case meta of None \<Rightarrow> metadata r | Some m \<Rightarrow> m) \<and>
      plan_title p = (case ttl of None \<Rightarrow> rec_title r | Some t \<Rightarrow> Some t) \<and>
      plan_status p = (case stat of Some t \<Rightarrow> if t \<noteq> [] then t else rec_status r | None \<Rightarrow> rec_status r) \<and>
      (record_type r = ''instruction_origin'' \<longrightarrow>
        plan_title p = rec_title r \<and> dict_eq m (metadata r)) \<and>
      validate_ordinary_state_record (record_type r) (sensitivity r) m = Inr ())"
  using assms canon_dict_fix canon_dict_finite
  by (auto simp: prepare_update_def plan_ok_def serialize_metadata_eq validate_secret_boundary_def Let_def
      simp del: canon.simps all_finite.simps)

lemma get_recordD:
  "get_record i s = Inr r \<Longrightarrow>
     \<exists>row. find_row i (records s) = Some row \<and> metadata row = Some (JObj (metadata r)) \<and>
       r = with_metadata row (metadata r)"
  by (auto simp: get_record_def record_from_row_def split: option.splits json.splits)

lemma get_record_row:
  assumes "get_record i s = Inr r" "find_row i (records s) = Some row"
  shows "rec_id r = rec_id row \<and> record_type r = record_type row \<and>
    rec_schema_version r = rec_schema_version row \<and> created_at r = created_at row \<and>
    updated_at r = updated_at row \<and> revision r = revision row \<and> rec_status r = rec_status row \<and>
    provenance r = provenance row \<and> sensitivity r = sensitivity row \<and> rec_title r = rec_title row \<and>
    metadata row = Some (JObj (metadata r))"
  using assms by (auto simp: get_record_def record_from_row_def split: option.splits json.splits)

lemma update_bodyD:
  "update_body p s = Inr t \<Longrightarrow>
     \<exists>r. find_row (plan_id p) (records s) = Some r \<and> revision r = plan_expected p \<and>
       t = s\<lparr>records := replace_row (updated_row p r) (records s)\<rparr>"
  by (auto simp: update_body_def store_record_def split: option.splits if_splits)

lemma commit_update_cases:
  assumes "repo_ok s" "plan_ok p" "commit_update e p s = (res, t)"
  shows "case res of
      Inl x \<Rightarrow> t = s
    | Inr r \<Rightarrow> repo_ok t \<and> get_record (plan_id p) t = Inr r \<and>
        (\<exists>row. find_row (plan_id p) (records s) = Some row \<and> revision row = plan_expected p \<and>
           find_row (plan_id p) (records t) = Some (updated_row p row)) \<and>
        (\<forall>i. i \<noteq> plan_id p \<longrightarrow> find_row i (records t) = find_row i (records s)) \<and>
        audit_events t = audit_events s \<and> state_revision t = state_revision s + 1 \<and>
        workspace_revision t = state_revision t"
proof -
  have w: "write_op e (update_body p) (get_record (plan_id p)) s = (res, t)"
    using assms(3) by (simp add: commit_update_def)
  from update.write_op_cases [OF assms(1) w] show ?thesis
  proof
    assume "\<exists>u. update_body p s = Inr u \<and> t = advance e u \<and> res = get_record (plan_id p) t \<and>
      state_revision t = state_revision s + 1 \<and> workspace_revision t = state_revision t"
    then obtain u where u: "update_body p s = Inr u" "t = advance e u"
      "res = get_record (plan_id p) t" "state_revision t = state_revision s + 1"
      "workspace_revision t = state_revision t" by auto
    obtain row where row: "find_row (plan_id p) (records s) = Some row" "revision row = plan_expected p"
      "u = s\<lparr>records := replace_row (updated_row p row) (records s)\<rparr>"
      using update_bodyD [OF u(1)] by auto
    obtain m where "plan_json p = JObj m" using assms(2) by (auto simp: plan_ok_def)
    then have "record_from_row (updated_row p row) = Inr (with_metadata (updated_row p row) m)"
      by (intro record_from_row_ok) (simp add: updated_row_def)
    moreover have "repo_ok t" using update.write_op_ok [OF assms(2,1) w] .
    ultimately show ?thesis
      using u row find_row_Some [OF row(1)] by (auto simp: get_record_def find_row_replace)
  qed auto
qed

lemma update_record_shape:
  assumes "repo_ok s" and "update_record e i expected stat ttl meta s = (res, t)"
  shows "case res of
      Inl x \<Rightarrow> t = s
    | Inr r \<Rightarrow> get_record i t = Inr r \<and> repo_ok t \<and>
        (\<exists>old. get_record i s = Inr old \<and> revision old = expected \<and> revision r = expected + 1 \<and>
           rec_id r = rec_id old \<and> record_type r = record_type old \<and>
           rec_schema_version r = rec_schema_version old \<and> created_at r = created_at old \<and>
           provenance r = provenance old \<and> sensitivity r = sensitivity old \<and>
           rec_title r = (case ttl of None \<Rightarrow> rec_title old | Some x \<Rightarrow> Some x) \<and>
           metadata r = canon_dict (case meta of None \<Rightarrow> metadata old | Some m \<Rightarrow> m)) \<and>
        (\<forall>j. j \<noteq> i \<longrightarrow> find_row j (records t) = find_row j (records s)) \<and>
        audit_events t = audit_events s \<and> state_revision t = state_revision s + 1"
proof (cases "prepare_update e i expected stat ttl meta s")
  case (Inl x)
  with assms(2) show ?thesis by (auto simp: update_record_def bind_lift)
next
  case (Inr p)
  note p = prepare_updateD [OF Inr]
  have "commit_update e p s = (res, t)" using assms(2) Inr by (simp add: update_record_def bind_lift)
  note c = commit_update_cases [OF assms(1) conjunct1 [OF p] this]
  show ?thesis
  proof (cases res)
    case Inl
    with c show ?thesis by simp
  next
    case (Inr r)
    then obtain row where row: "find_row i (records s) = Some row" "get_record i t = Inr r"
      "find_row i (records t) = Some (updated_row p row)"
      using c p by auto
    obtain old where old: "get_record i s = Inr old" "revision old = expected"
      "plan_title p = (case ttl of None \<Rightarrow> rec_title old | Some x \<Rightarrow> Some x)"
      "plan_json p = JObj (canon_dict (case meta of None \<Rightarrow> metadata old | Some m \<Rightarrow> m))"
      using p by auto
    note r = get_record_row [OF row(2,3), unfolded updated_row_def, simplified]
    note o = get_record_row [OF old(1) row(1)]
    show ?thesis
      unfolding Inr sum.case
      using c p Inr row(2) old o r by (intro conjI exI [of _ old]) simp_all
  qed
qed

lemmas update_record_effect = update_record_shape [where res = "Inr r" for r, unfolded sum.case]

text \<open>C6: \<open>update_record\<close> is an optimistic update. On success the stored revision was the expected
  one and grows by exactly one; identifier, type, schema version, creation time, provenance and
  sensitivity are kept, an omitted field keeps its value, and no other record and no audit event
  changes; on an error nothing changes.\<close>

theorem update_record_correct:
  assumes "repo_ok s" and "update_record e i expected stat ttl meta s = (res, t)"
  shows "case res of
      Inl x \<Rightarrow> t = s
    | Inr r \<Rightarrow> get_record i t = Inr r \<and> repo_ok t \<and>
        (\<exists>old. get_record i s = Inr old \<and> revision old = expected \<and> revision r = expected + 1 \<and>
           rec_id r = rec_id old \<and> record_type r = record_type old \<and>
           rec_schema_version r = rec_schema_version old \<and> created_at r = created_at old \<and>
           provenance r = provenance old \<and> sensitivity r = sensitivity old \<and>
           rec_title r = (case ttl of None \<Rightarrow> rec_title old | Some x \<Rightarrow> Some x) \<and>
           metadata r = canon_dict (case meta of None \<Rightarrow> metadata old | Some m \<Rightarrow> m)) \<and>
        (\<forall>j. j \<noteq> i \<longrightarrow> find_row j (records t) = find_row j (records s)) \<and>
        audit_events t = audit_events s \<and> state_revision t = state_revision s + 1"
  by (rule update_record_shape [OF assms])

section \<open>The secret boundary of stored records\<close>

lemma ref_lookups_canon:
  assumes "distinct (map fst m)"
  shows "ref_required_string (canon_dict m) k n = ref_required_string m k n"
    and "ref_optional_string (canon_dict m) k n = ref_optional_string m k n"
    and "ref_timestamp (canon_dict m) k = ref_timestamp m k"
  unfolding ref_required_string_def ref_optional_string_def ref_timestamp_def map_of_canon_dict [OF assms]
  by (auto split: option.splits json.splits)

lemma scope_items_canon: "scope_items acc (map canon vs) = scope_items acc vs"
proof (induction vs arbitrary: acc)
  case (Cons v vs)
  then show ?case by (cases v) auto
qed simp

lemma ref_scope_canon:
  "distinct (map fst m) \<Longrightarrow> ref_scope (canon_dict m) k = ref_scope m k"
  by (auto simp: ref_scope_def map_of_canon_dict scope_items_canon split: option.splits json.splits)

lemma reference_keys_canon: "reference_keys_ok (canon_dict m) = reference_keys_ok m"
  by (auto simp: reference_keys_ok_def list_all_iff)

lemma validate_reference_canon:
  assumes "distinct (map fst m)" "validate_secret_reference_metadata m = Inr r"
  shows "validate_secret_reference_metadata (canon_dict m) = Inr r"
  using assms(2) unfolding validate_reference_iff reference_fields_read_def
  by (simp add: reference_keys_canon ref_lookups_canon ref_scope_canon map_of_canon_dict assms(1))

lemma boundary_canon:
  assumes "distinct (map fst m)" "validate_ordinary_state_record rtype sens m = Inr u"
  shows "validate_ordinary_state_record rtype sens (canon_dict m) = Inr u"
proof (cases "rtype = ''secret_reference''")
  case True
  then obtain r where "validate_secret_reference_metadata m = Inr r"
    using assms(2) by (auto simp: validate_ordinary_state_record_def)
  with True assms show ?thesis
    by (auto simp: validate_ordinary_state_record_def dest: validate_reference_canon)
qed (use assms in \<open>simp add: validate_ordinary_state_record_def\<close>)

lemma stored_metadata_canonical:
  assumes "repo_ok s" "get_record i s = Inr r"
  shows "canon_dict (metadata r) = metadata r"
proof -
  obtain row where row: "find_row i (records s) = Some row" using get_recordD [OF assms(2)] by blast
  have "metadata row = Some (JObj (metadata r))" using get_record_row [OF assms(2) row] by simp
  with repo_ok_row [OF assms(1) row] show ?thesis by (auto simp: row_ok_def)
qed

text \<open>C7: what \<open>create_record\<close> and \<open>update_record\<close> store has passed the secret boundary in the
  form in which it is stored, whether the call gives metadata or leaves them out: a record of
  sensitivity \<open>secret\<close> is a secret reference, and the stored metadata of a secret reference
  validates. Metadata that are given are a dictionary, so their keys are distinct.\<close>

theorem stored_record_within_boundary:
  assumes "repo_ok s" and "\<forall>m. meta = Some m \<longrightarrow> distinct (map fst m)"
    and "create_record e rtype version stat prov sens ttl meta rid s = (Inr r, t) \<or>
         update_record e i expected nstat nttl meta s = (Inr r, t)"
  shows "validate_ordinary_state_record (record_type r) (sensitivity r) (metadata r) = Inr ()
    \<and> (sensitivity r = ''secret'' \<longrightarrow> record_type r = ''secret_reference'')
    \<and> (record_type r = ''secret_reference'' \<longrightarrow>
        (\<exists>x. validate_secret_reference_metadata (metadata r) = Inr x))"
proof -
  have "validate_ordinary_state_record (record_type r) (sensitivity r) (metadata r) = Inr ()"
    using assms(3)
  proof
    let ?m = "case meta of None \<Rightarrow> [] | Some m \<Rightarrow> m"
    assume c: "create_record e rtype version stat prov sens ttl meta rid s = (Inr r, t)"
    then obtain row where "prepare_create e rtype version stat prov sens ttl meta rid s = Inr row"
      by (auto simp: create_record_def bind_lift split: sum.splits)
    then have "validate_ordinary_state_record rtype sens ?m = Inr ()"
      using prepare_create_fields by blast
    moreover have "distinct (map fst ?m)" using assms(2) by (simp split: option.split)
    ultimately show ?thesis using create_record_effect [OF assms(1) c] boundary_canon by simp
  next
    assume u: "update_record e i expected nstat nttl meta s = (Inr r, t)"
    then obtain p where p: "prepare_update e i expected nstat nttl meta s = Inr p"
      by (auto simp: update_record_def bind_lift split: sum.splits)
    obtain old where old: "get_record i s = Inr old" "record_type r = record_type old"
      "sensitivity r = sensitivity old" "metadata r = canon_dict (case meta of None \<Rightarrow> metadata old | Some m \<Rightarrow> m)"
      using update_record_effect [OF assms(1) u] by auto
    have v: "validate_ordinary_state_record (record_type old) (sensitivity old)
        (case meta of None \<Rightarrow> metadata old | Some m \<Rightarrow> m) = Inr ()"
      using prepare_updateD [OF p] old(1) by auto
    show ?thesis
    proof (cases meta)
      case None
      then show ?thesis using v old stored_metadata_canonical [OF assms(1) old(1)] by simp
    next
      case (Some m)
      then show ?thesis using v old boundary_canon assms(2) by simp
    qed
  qed
  then show ?thesis by (auto simp: validate_ordinary_state_record_def split: if_splits)
qed

section \<open>Concrete runs\<close>

definition sample_repo :: repo where
  "sample_repo = \<lparr>read_only = False, workspace_revision = 0,
     meta_row = Some \<lparr>meta_workspace_id = ''ws'', meta_schema_version = 3, meta_state_revision = 0,
                       meta_updated_at = ''t0''\<rparr>,
     records = [], audit_events = [], last_sequence = 0\<rparr>"

definition sample_env :: "string \<Rightarrow> env" where
  "sample_env i = \<lparr>new_uuid = i, other_uuid = i, event_uuid = i, utc_now = ''2026-01-01T00:00:00Z'',
     event_now = ''2026-01-01T00:00:00Z'', commit_now = ''2026-01-01T00:00:00Z''\<rparr>"

lemma sample_repo_ok: "repo_ok sample_repo"
  by (simp add: repo_ok_def sample_repo_def bindings_unique_def events_ok_def revision_ok_def)

lemma op_succeeds: "\<not> isl (fst (f s)) \<Longrightarrow> \<exists>r t. f s = (Inr r, t)"
  by (cases "f s"; cases "fst (f s)") auto

definition sample_create :: "(repo, RecordEnvelope) op" where
  "sample_create = create_record (sample_env ''r1'') ''note'' 1 ''active'' ''user-created'' ''personal''
     (Some ''First'') (Some [(''b'', JInt 1), (''a'', JNull)]) None"

theorem create_record_correct_witness:
  "\<exists>r t. sample_create sample_repo = (Inr r, t) \<and> get_record (rec_id r) t = Inr r \<and>
     metadata r = canon_dict [(''b'', JInt 1), (''a'', JNull)] \<and> repo_ok t \<and>
     state_revision t = state_revision sample_repo + 1"
proof -
  have "\<not> isl (fst (sample_create sample_repo))" by code_simp
  then obtain r t where c: "sample_create sample_repo = (Inr r, t)" by (blast dest: op_succeeds)
  from create_record_correct [OF sample_repo_ok this [unfolded sample_create_def]]
  show ?thesis using c by (intro exI [of _ r] exI [of _ t]) simp
qed

definition sample_repo1 :: repo where
  "sample_repo1 = snd (sample_create sample_repo)"

lemma sample_repo1_ok: "repo_ok sample_repo1"
proof -
  have "\<not> isl (fst (sample_create sample_repo))" by code_simp
  then obtain r t where c: "sample_create sample_repo = (Inr r, t)" by (blast dest: op_succeeds)
  then show ?thesis
    using create_record_effect [OF sample_repo_ok c [unfolded sample_create_def]]
    by (simp add: sample_repo1_def)
qed

definition sample_update :: "int \<Rightarrow> (repo, RecordEnvelope) op" where
  "sample_update n = update_record (sample_env ''-'') ''r1'' n (Some ''archived'') (Some ''Second'')
     (Some [(''a'', JStr ''x'')])"

theorem update_record_correct_witness:
  "\<exists>r t. sample_update 1 sample_repo1 = (Inr r, t) \<and> get_record ''r1'' t = Inr r \<and> revision r = 2 \<and>
     rec_title r = Some ''Second'' \<and> sample_update 1 t = (Inl StaleRevisionError, t)"
proof -
  have "\<not> isl (fst (sample_update 1 sample_repo1))" by code_simp
  then obtain r t where c: "sample_update 1 sample_repo1 = (Inr r, t)" by (blast dest: op_succeeds)
  have "sample_update 1 (snd (sample_update 1 sample_repo1)) =
      (Inl StaleRevisionError, snd (sample_update 1 sample_repo1))"
    by code_simp
  with c update_record_correct [OF sample_repo1_ok c [unfolded sample_update_def]]
  show ?thesis by (intro exI [of _ r] exI [of _ t]) auto
qed

theorem stored_record_within_boundary_witness:
  "\<exists>r t. sample_update 1 sample_repo1 = (Inr r, t) \<and>
     validate_ordinary_state_record (record_type r) (sensitivity r) (metadata r) = Inr ()"
proof -
  have "\<not> isl (fst (sample_update 1 sample_repo1))" by code_simp
  then obtain r t where c: "sample_update 1 sample_repo1 = (Inr r, t)" by (blast dest: op_succeeds)
  from stored_record_within_boundary [OF sample_repo1_ok _ disjI2 [OF c [unfolded sample_update_def]]]
  show ?thesis using c by (intro exI [of _ r] exI [of _ t]) simp
qed

end
