(* ===== verification/Secret_Detection.thy ===== *)
theory Secret_Detection
  imports Regex "HOL-Library.Product_Lexorder"
begin

text \<open>
  Models \<open>src/doll/secret_detection.py\<close> (the detectors, the bounded scan, the normalisation of
  overlapping findings and the redaction) and \<open>src/doll/sensitive_fields.py\<close> (classification of
  field names). The lemmas show that the findings of a scan are ordered, disjoint and inside
  the scanned text, that every match of every detector is covered by a finding unless a limit
  was reached, and that reaching a limit returns a fixed marker instead of text.
\<close>

section \<open>Detectors\<close>

datatype SecretFindingKind =
    authorization_header | credential_assignment | known_token | private_key | recovery_phrase
  | session_cookie | personal_email | personal_phone | private_path

datatype SecretFindingConfidence = high | medium

fun kind_text :: "SecretFindingKind \<Rightarrow> string" where
  "kind_text authorization_header = ''authorization_header''"
| "kind_text credential_assignment = ''credential_assignment''"
| "kind_text known_token = ''known_token''"
| "kind_text private_key = ''private_key''"
| "kind_text recovery_phrase = ''recovery_phrase''"
| "kind_text session_cookie = ''session_cookie''"
| "kind_text personal_email = ''personal_email''"
| "kind_text personal_phone = ''personal_phone''"
| "kind_text private_path = ''private_path''"

definition SCAN_LIMIT_MARKER :: string where
  "SCAN_LIMIT_MARKER = ''[UNSCANNED_CONTENT_OMITTED]''"

definition FINDING_LIMIT_MARKER :: string where
  "FINDING_LIMIT_MARKER = ''[REDACTION_FINDING_LIMIT_REACHED]''"

record SecretFinding =
  f_kind :: SecretFindingKind
  f_confidence :: SecretFindingConfidence
  f_detector_id :: string
  f_start :: nat
  f_end :: nat

record SecretScanResult =
  s_findings :: "SecretFinding list"
  s_input_characters :: nat
  s_scanned_characters :: nat
  s_input_truncated :: bool
  s_finding_limit_reached :: bool

record RedactionResult =
  redacted_text :: string
  r_findings :: "SecretFinding list"
  r_input_characters :: nat
  r_scanned_characters :: nat
  r_input_truncated :: bool
  r_finding_limit_reached :: bool

record Detector =
  d_detector_id :: string
  d_kind :: SecretFindingKind
  d_confidence :: SecretFindingConfidence
  d_pattern :: rx
  d_value_group :: "string option"

definition is_letter_i :: "char \<Rightarrow> bool" where
  "is_letter_i c = (is_lower_ascii c \<or> is_upper_ascii c)"

abbreviation rspace :: rx where "rspace \<equiv> RCls is_space"
abbreviation rspaces :: rx where "rspaces \<equiv> rstar (RCls is_space)"

definition is_quote :: "char \<Rightarrow> bool" where
  "is_quote c = (c = CHR 0x22 \<or> c = CHR 0x27)"

definition is_line_break :: "char \<Rightarrow> bool" where
  "is_line_break c = (c = CHR 0x0D \<or> c = CHR 0x0A)"

abbreviation rsep :: rx where "rsep \<equiv> ropt (RCls (any_of ''_-''))"

definition CREDENTIAL_NAMES :: rx where
  "CREDENTIAL_NAMES = ralt
     [rlit_i ''password'', rlit_i ''passwd'', rlit_i ''passphrase'',
      rseq [rlit_i ''api'', rsep, rlit_i ''key''],
      rseq [rlit_i ''access'', rsep, rlit_i ''token''],
      rseq [rlit_i ''refresh'', rsep, rlit_i ''token''],
      rseq [rlit_i ''client'', rsep, rlit_i ''secret''],
      rseq [rlit_i ''secret'', rsep, rlit_i ''key''],
      rseq [rlit_i ''session'', rsep, ralt [rlit_i ''id'', rlit_i ''token'', rlit_i ''cookie'']],
      rseq [rlit_i ''private'', rsep, rlit_i ''key'']]"

definition is_bearer_char :: "char \<Rightarrow> bool" where
  "is_bearer_char c = (is_alnum_ascii c \<or> any_of ''._~+/=-'' c)"

definition is_slug_char :: "char \<Rightarrow> bool" where
  "is_slug_char c = (is_alnum_ascii c \<or> any_of ''_-'' c)"

definition is_local_part_char :: "char \<Rightarrow> bool" where
  "is_local_part_char c =
     (is_alnum_ascii c \<or> any_of ''.!#$%&*+/=?^_{|}~-'' c \<or> c = CHR 0x27 \<or> c = CHR 0x60)"

definition private_key_pattern :: rx where
  "private_key_pattern = rseq
     [rlit_i ''-----BEGIN '',
      RGrp ''label'' (RSeq (ropt (ralt [rlit_i ''RSA '', rlit_i ''EC '', rlit_i ''DSA '', rlit_i ''OPENSSH '']))
                           (rlit_i ''PRIVATE KEY'')),
      rlit_i ''-----'',
      RRep 0 (Some 16384) False (RCls (\<lambda>_. True)),
      rlit_i ''-----END '', RRef ''label'', rlit_i ''-----'']"

definition authorization_header_pattern :: rx where
  "authorization_header_pattern = rseq
     [RWordB, rlit_i ''authorization'', rspaces, rlit '':'', rspaces,
      ralt [rlit_i ''bearer'', rlit_i ''basic''], rplus rspace,
      RGrp ''secret'' (rbetween 8 2048 (RCls is_bearer_char))]"

definition cookie_header_pattern :: rx where
  "cookie_header_pattern = rseq
     [RWordB, ralt [rlit_i ''set-cookie'', rlit_i ''cookie''], rspaces, rlit '':'', rspaces,
      RGrp ''secret'' (rbetween 4 2048 (RCls (\<lambda>c. \<not> is_line_break c)))]"

definition recovery_phrase_pattern :: rx where
  "recovery_phrase_pattern = rseq
     [RWordB, ralt [rlit_i ''seed'', rlit_i ''recovery'', rlit_i ''mnemonic''],
      ropt (RSeq (rplus rspace) (rlit_i ''phrase'')), rspaces, RCls (any_of '':=''), rspaces,
      RGrp ''secret''
        (RSeq (rbetween 11 23 (RSeq (rbetween 2 16 (RCls is_letter_i))
                                    (rplus (RCls (\<lambda>c. c = CHR '' '' \<or> c = CHR 0x09)))))
              (rbetween 2 16 (RCls is_letter_i)))]"

definition credential_quoted_pattern :: rx where
  "credential_quoted_pattern = rseq
     [RWordB, CREDENTIAL_NAMES, RWordB, rspaces, RCls (any_of '':=''), rspaces, RCls is_quote,
      RGrp ''secret'' (rbetween 4 2048 (RCls (\<lambda>c. \<not> is_quote c \<and> \<not> is_line_break c))),
      RCls is_quote]"

definition credential_bare_pattern :: rx where
  "credential_bare_pattern = rseq
     [RWordB, CREDENTIAL_NAMES, RWordB, rspaces, RCls (any_of '':=''), rspaces,
      RGrp ''secret'' (rbetween 4 2048 (RCls (\<lambda>c. \<not> is_space c \<and> \<not> any_of '',;}]'' c)))]"

definition known_token_pattern :: rx where
  "known_token_pattern = rseq
     [RWordB,
      ralt [RSeq (rlit ''sk-'') (rbetween 16 255 (RCls is_slug_char)),
            rseq [rlit ''gh'', RCls (any_of ''pousr''), rlit ''_'',
                  rbetween 20 255 (RCls is_alnum_ascii)],
            RSeq (rlit ''github_pat_'')
                 (rbetween 20 255 (RCls (\<lambda>c. is_alnum_ascii c \<or> c = CHR ''_'')))],
      RWordB]"

definition jwt_pattern :: rx where
  "jwt_pattern = rseq
     [RWordB, rlit ''eyJ'', RRep 8 None True (RCls is_slug_char), rlit ''.'',
      RRep 8 None True (RCls is_slug_char), rlit ''.'', RRep 8 None True (RCls is_slug_char),
      RWordB]"

definition email_pattern :: rx where
  "email_pattern = rseq
     [RWordB, rbetween 1 64 (RCls is_local_part_char), rlit ''@'',
      rbetween 1 253 (RCls (\<lambda>c. is_alnum_ascii c \<or> any_of ''.-'' c)), rlit ''.'',
      rbetween 2 63 (RCls is_letter_i), RWordB]"

definition phone_pattern :: rx where
  "phone_pattern = rseq
     [RWordB, ralt [rlit_i ''phone'', rlit_i ''mobile'', RSeq (rlit_i ''tel'') (ropt (rlit_i ''ephone''))],
      rspaces, RCls (any_of '':=''), rspaces,
      RGrp ''secret''
        (rseq [ropt (rlit ''+''), RCls is_digit,
               rbetween 6 24 (RCls (\<lambda>c. is_digit c \<or> any_of ''(). -'' c)), RCls is_digit])]"

definition unix_home_pattern :: rx where
  "unix_home_pattern = rseq
     [rlit ''/'', ralt [rlit ''Users'', rlit ''home''], rlit ''/'',
      rplus (RCls (\<lambda>c. c \<noteq> CHR ''/'' \<and> \<not> is_space c \<and> c \<noteq> CHR '':'')),
      ropt (RSeq (rlit ''/'') (rstar (RCls (\<lambda>c. \<not> is_space c \<and> \<not> any_of '':;,'' c))))]"

definition windows_home_pattern :: rx where
  "windows_home_pattern = rseq
     [RCls is_letter_i, rlit [CHR '':'', CHR 0x5C], rlit_i ''Users'', rlit [CHR 0x5C],
      rplus (RCls (\<lambda>c. c \<noteq> CHR 0x5C \<and> \<not> is_space c \<and> c \<noteq> CHR '':'')),
      ropt (RSeq (rlit [CHR 0x5C]) (rstar (RCls (\<lambda>c. \<not> is_space c \<and> \<not> any_of '':;,'' c))))]"

definition DETECTORS :: "Detector list" where
  "DETECTORS =
    [\<lparr>d_detector_id = ''private-key-block-v1'', d_kind = private_key, d_confidence = high,
      d_pattern = private_key_pattern, d_value_group = None\<rparr>,
     \<lparr>d_detector_id = ''authorization-header-v1'', d_kind = authorization_header, d_confidence = high,
      d_pattern = authorization_header_pattern, d_value_group = Some ''secret''\<rparr>,
     \<lparr>d_detector_id = ''cookie-header-v1'', d_kind = session_cookie, d_confidence = high,
      d_pattern = cookie_header_pattern, d_value_group = Some ''secret''\<rparr>,
     \<lparr>d_detector_id = ''recovery-phrase-v1'', d_kind = recovery_phrase, d_confidence = high,
      d_pattern = recovery_phrase_pattern, d_value_group = Some ''secret''\<rparr>,
     \<lparr>d_detector_id = ''credential-assignment-quoted-v1'', d_kind = credential_assignment,
      d_confidence = high, d_pattern = credential_quoted_pattern, d_value_group = Some ''secret''\<rparr>,
     \<lparr>d_detector_id = ''credential-assignment-bare-v1'', d_kind = credential_assignment,
      d_confidence = high, d_pattern = credential_bare_pattern, d_value_group = Some ''secret''\<rparr>,
     \<lparr>d_detector_id = ''known-token-v1'', d_kind = known_token, d_confidence = high,
      d_pattern = known_token_pattern, d_value_group = None\<rparr>,
     \<lparr>d_detector_id = ''jwt-v1'', d_kind = known_token, d_confidence = medium,
      d_pattern = jwt_pattern, d_value_group = None\<rparr>,
     \<lparr>d_detector_id = ''email-address-v1'', d_kind = personal_email, d_confidence = medium,
      d_pattern = email_pattern, d_value_group = None\<rparr>,
     \<lparr>d_detector_id = ''labeled-phone-v1'', d_kind = personal_phone, d_confidence = medium,
      d_pattern = phone_pattern, d_value_group = Some ''secret''\<rparr>,
     \<lparr>d_detector_id = ''unix-home-path-v1'', d_kind = private_path, d_confidence = medium,
      d_pattern = unix_home_pattern, d_value_group = None\<rparr>,
     \<lparr>d_detector_id = ''windows-home-path-v1'', d_kind = private_path, d_confidence = medium,
      d_pattern = windows_home_pattern, d_value_group = None\<rparr>]"

section \<open>Scanning\<close>

definition MAX_CONFIGURED_SCAN_CHARS :: int where "MAX_CONFIGURED_SCAN_CHARS = 1048576"
definition MAX_CONFIGURED_FINDINGS :: int where "MAX_CONFIGURED_FINDINGS = 1024"
definition DEFAULT_MAX_FINDINGS :: int where "DEFAULT_MAX_FINDINGS = 64"

definition validate_limits :: "int \<Rightarrow> int \<Rightarrow> unit res" where
  "validate_limits max_scan_chars max_findings =
     bindr (require (1 \<le> max_scan_chars \<and> max_scan_chars \<le> MAX_CONFIGURED_SCAN_CHARS) ValueError)
       (\<lambda>_. require (1 \<le> max_findings \<and> max_findings \<le> MAX_CONFIGURED_FINDINGS) ValueError)"

definition match_span :: "Detector \<Rightarrow> span \<Rightarrow> nat \<times> nat" where
  "match_span d m = (case m of (a, b, g) \<Rightarrow>
     (case d_value_group d of
        None \<Rightarrow> (a, b)
      | Some n \<Rightarrow> (case map_of g n of None \<Rightarrow> (a, a) | Some ab \<Rightarrow> ab)))"

definition finding_of :: "Detector \<Rightarrow> nat \<times> nat \<Rightarrow> SecretFinding" where
  "finding_of d ab = \<lparr>f_kind = d_kind d, f_confidence = d_confidence d,
     f_detector_id = d_detector_id d, f_start = fst ab, f_end = snd ab\<rparr>"

fun scan_matches ::
  "nat \<Rightarrow> Detector \<Rightarrow> SecretFinding list \<Rightarrow> span list \<Rightarrow> SecretFinding list \<times> bool" where
  "scan_matches raw_limit d acc [] = (acc, False)"
| "scan_matches raw_limit d acc (m # ms) =
     (let (start, end) = match_span d m
      in if start = end then scan_matches raw_limit d acc ms
         else let acc' = acc @ [finding_of d (start, end)]
              in if raw_limit \<le> length acc' then (acc', True)
                 else scan_matches raw_limit d acc' ms)"

fun scan_detectors ::
  "nat \<Rightarrow> string \<Rightarrow> SecretFinding list \<Rightarrow> Detector list \<Rightarrow> SecretFinding list \<times> bool" where
  "scan_detectors raw_limit txt acc [] = (acc, False)"
| "scan_detectors raw_limit txt acc (d # ds) =
     (case scan_matches raw_limit d acc (re_finditer (d_pattern d) txt) of
        (acc', True) \<Rightarrow> (acc', True)
      | (acc', False) \<Rightarrow> scan_detectors raw_limit txt acc' ds)"

fun confidence_rank :: "SecretFindingConfidence \<Rightarrow> nat" where
  "confidence_rank high = 0"
| "confidence_rank medium = 1"

definition finding_key :: "SecretFinding \<Rightarrow> nat \<times> int \<times> nat \<times> string" where
  "finding_key f = (f_start f, - int (f_end f), confidence_rank (f_confidence f), f_detector_id f)"

definition preferred_finding :: "SecretFinding \<Rightarrow> SecretFinding \<Rightarrow> SecretFinding" where
  "preferred_finding first second =
     (let key = (\<lambda>f. (confidence_rank (f_confidence f), - (int (f_end f) - int (f_start f)), f_detector_id f))
      in if key first \<le> key second then first else second)"

text \<open>The accumulator holds the normalised findings in reverse, so \<open>normalized[-1]\<close> is its head.\<close>

fun normalize_step :: "SecretFinding list \<Rightarrow> SecretFinding \<Rightarrow> SecretFinding list" where
  "normalize_step [] f = [f]"
| "normalize_step (prev # rest) f =
     (if f_end prev \<le> f_start f then f # prev # rest
      else (preferred_finding prev f)\<lparr>f_start := min (f_start prev) (f_start f),
                                     f_end := max (f_end prev) (f_end f)\<rparr> # rest)"

definition normalize_findings :: "SecretFinding list \<Rightarrow> SecretFinding list" where
  "normalize_findings findings = rev (foldl normalize_step [] (sort_key finding_key findings))"

definition scan_secrets :: "string \<Rightarrow> int \<Rightarrow> int \<Rightarrow> SecretScanResult res" where
  "scan_secrets txt max_scan_chars max_findings =
     bindr (validate_limits max_scan_chars max_findings) (\<lambda>_.
       let scanned_text = take (nat max_scan_chars) txt;
           (raw_findings, raw_limit_reached) =
             scan_detectors (nat max_findings * 4) scanned_text [] DETECTORS;
           findings = normalize_findings raw_findings
       in Inr \<lparr>s_findings = take (nat max_findings) findings,
               s_input_characters = length txt,
               s_scanned_characters = length scanned_text,
               s_input_truncated = (length scanned_text < length txt),
               s_finding_limit_reached = (raw_limit_reached \<or> nat max_findings < length findings)\<rparr>)"

definition redaction_marker :: "SecretFindingKind \<Rightarrow> string" where
  "redaction_marker k = ''[REDACTED:'' @ kind_text k @ '']''"

definition redact_text :: "string \<Rightarrow> int \<Rightarrow> int \<Rightarrow> RedactionResult res" where
  "redact_text txt max_scan_chars max_findings =
     bindr (scan_secrets txt max_scan_chars max_findings) (\<lambda>scan.
       let result = (\<lambda>t trunc lim. \<lparr>redacted_text = t, r_findings = s_findings scan,
             r_input_characters = s_input_characters scan,
             r_scanned_characters = s_scanned_characters scan,
             r_input_truncated = trunc, r_finding_limit_reached = lim\<rparr>)
       in Inr (if s_finding_limit_reached scan
               then result FINDING_LIMIT_MARKER (s_input_truncated scan) True
               else if s_input_truncated scan then result SCAN_LIMIT_MARKER True False
               else result
                 (splice 0 (map (\<lambda>f. (f_start f, f_end f, redaction_marker (f_kind f))) (s_findings scan)) txt)
                 False False))"

section \<open>Sensitive field names\<close>

definition SECRET_FIELD_NAMES :: "string list" where
  "SECRET_FIELD_NAMES = [''password'', ''passwd'', ''passphrase'', ''secret'', ''secret_value'',
     ''api_key'', ''apikey'', ''access_token'', ''refresh_token'', ''client_secret'',
     ''authorization'', ''proxy_authorization'', ''bearer_token'', ''cookie'', ''set_cookie'',
     ''session_cookie'', ''session_token'', ''private_key'', ''recovery_phrase'', ''seed_phrase'',
     ''mnemonic'', ''credential'', ''credentials'', ''credential_value'']"

definition SECRET_FIELD_PARTS :: "string list" where
  "SECRET_FIELD_PARTS = [''password'', ''passwd'', ''passphrase'', ''secret'', ''authorization'',
     ''cookie'', ''mnemonic'', ''credential'', ''credentials'']"

definition SECRET_FIELD_PAIRS :: "(string \<times> string) list" where
  "SECRET_FIELD_PAIRS = [(''api'', ''key''), (''access'', ''token''), (''refresh'', ''token''),
     (''client'', ''secret''), (''session'', ''cookie''), (''session'', ''token''),
     (''private'', ''key''), (''recovery'', ''phrase''), (''seed'', ''phrase''), (''bearer'', ''token'')]"

definition PRIVATE_ENVIRONMENT_FIELD_NAMES :: "string list" where
  "PRIVATE_ENVIRONMENT_FIELD_NAMES = [''username'', ''user_name'', ''os_user'', ''login_name'',
     ''hostname'', ''host_name'', ''machine_name'', ''computer_name'', ''home'', ''home_dir'',
     ''home_directory'', ''home_path'', ''cwd'', ''current_working_directory'',
     ''working_directory'', ''absolute_path'', ''local_absolute_path'', ''environment'',
     ''environment_variables'', ''env'']"

text \<open>\<open>[^a-z0-9]+\<close> replaced by one underscore.\<close>

fun collapse_separators :: "bool \<Rightarrow> string \<Rightarrow> string" where
  "collapse_separators pending [] = (if pending then ''_'' else [])"
| "collapse_separators pending (c # cs) =
     (if is_lower_ascii c \<or> is_digit c
      then (if pending then ''_'' else []) @ c # collapse_separators False cs
      else collapse_separators True cs)"

definition normalize_field_name :: "string \<Rightarrow> string" where
  "normalize_field_name value =
     (let s = collapse_separators False (lower (strip value))
      in rstrip_by (\<lambda>c. c = CHR ''_'') (dropWhile (\<lambda>c. c = CHR ''_'') s))"

definition is_secret_field_name :: "string \<Rightarrow> bool" where
  "is_secret_field_name value =
     (let normalized = normalize_field_name value;
          parts = filter (\<lambda>p. p \<noteq> []) (split_on CHR ''_'' normalized)
      in List.member SECRET_FIELD_NAMES normalized
         \<or> list_ex (List.member SECRET_FIELD_PARTS) parts
         \<or> list_ex (\<lambda>(a, b). List.member parts a \<and> List.member parts b) SECRET_FIELD_PAIRS)"

definition is_private_environment_field_name :: "string \<Rightarrow> bool" where
  "is_private_environment_field_name value =
     List.member PRIVATE_ENVIRONMENT_FIELD_NAMES (normalize_field_name value)"

definition SECRET_FIELD_MARKER :: string where
  "SECRET_FIELD_MARKER = ''[REDACTED:secret_field]''"

definition PRIVATE_ENVIRONMENT_MARKER :: string where
  "PRIVATE_ENVIRONMENT_MARKER = ''[REDACTED:private_environment]''"

definition field_redaction_marker :: "string \<Rightarrow> string option" where
  "field_redaction_marker value =
     (if is_secret_field_name value then Some SECRET_FIELD_MARKER
      else if is_private_environment_field_name value then Some PRIVATE_ENVIRONMENT_MARKER
      else None)"

section \<open>What a scan collects\<close>

definition raw_spans :: "Detector \<Rightarrow> span list \<Rightarrow> (nat \<times> nat) list" where
  "raw_spans d ms = filter (\<lambda>(a, b). a \<noteq> b) (map (match_span d) ms)"

lemma scan_matches_complete:
  "scan_matches L d acc ms = (acc', False) \<Longrightarrow> acc' = acc @ map (finding_of d) (raw_spans d ms)"
  by (induction L d acc ms rule: scan_matches.induct)
    (auto simp: raw_spans_def Let_def split: prod.splits if_splits)

lemma scan_matches_sound:
  "scan_matches L d acc ms = (acc', lim) \<Longrightarrow>
     set acc' \<subseteq> set acc \<union> finding_of d ` set (raw_spans d ms)"
proof (induction L d acc ms rule: scan_matches.induct)
  case (2 L d acc m ms)
  obtain a b where ab: "match_span d m = (a, b)" by (cases "match_span d m")
  with 2 show ?case
    by (cases "a = b"; cases "L \<le> length (acc @ [finding_of d (a, b)])")
      (auto simp: raw_spans_def Let_def)
qed simp

definition detected_spans :: "string \<Rightarrow> (Detector \<times> nat \<times> nat) set" where
  "detected_spans txt =
     {(d, ab). d \<in> set DETECTORS \<and> ab \<in> set (raw_spans d (re_finditer (d_pattern d) txt))}"

lemma scan_detectors_keep: "scan_detectors L txt xs ds = (acc', False) \<Longrightarrow> set xs \<subseteq> set acc'"
proof (induction ds arbitrary: xs)
  case (Cons e ds)
  obtain acc1 lim where s: "scan_matches L e xs (re_finditer (d_pattern e) txt) = (acc1, lim)"
    by (cases "scan_matches L e xs (re_finditer (d_pattern e) txt)")
  with Cons.prems have rest: "\<not> lim" "scan_detectors L txt acc1 ds = (acc', False)"
    by (auto split: bool.splits)
  from s rest(1) have "set xs \<subseteq> set acc1" using scan_matches_complete [of L e xs "re_finditer (d_pattern e) txt" acc1] by auto
  with Cons.IH [OF rest(2)] show ?case by blast
qed simp

lemma scan_detectors_complete:
  "scan_detectors L txt acc ds = (acc', False) \<Longrightarrow> d \<in> set ds \<Longrightarrow>
     ab \<in> set (raw_spans d (re_finditer (d_pattern d) txt)) \<Longrightarrow> finding_of d ab \<in> set acc'"
proof (induction ds arbitrary: acc)
  case (Cons e ds)
  obtain acc1 lim where s: "scan_matches L e acc (re_finditer (d_pattern e) txt) = (acc1, lim)"
    by (cases "scan_matches L e acc (re_finditer (d_pattern e) txt)")
  with Cons.prems have rest: "\<not> lim" "scan_detectors L txt acc1 ds = (acc', False)"
    by (auto split: bool.splits)
  show ?case
  proof (cases "d = e")
    case True
    with s rest Cons.prems(3) have "finding_of d ab \<in> set acc1"
      using scan_matches_complete [of L e acc "re_finditer (d_pattern e) txt" acc1] by auto
    with scan_detectors_keep [OF rest(2)] show ?thesis by blast
  next
    case False
    with Cons rest show ?thesis by auto
  qed
qed simp

lemma scan_detectors_sound:
  "scan_detectors L txt acc ds = (acc', lim) \<Longrightarrow> f \<in> set acc' \<Longrightarrow>
     f \<in> set acc \<or> (\<exists>d \<in> set ds. f \<in> finding_of d ` set (raw_spans d (re_finditer (d_pattern d) txt)))"
proof (induction ds arbitrary: acc)
  case (Cons e ds)
  obtain acc1 lim1 where s: "scan_matches L e acc (re_finditer (d_pattern e) txt) = (acc1, lim1)"
    by (cases "scan_matches L e acc (re_finditer (d_pattern e) txt)")
  have "f \<in> set acc1 \<or> (\<exists>d \<in> set ds. f \<in> finding_of d ` set (raw_spans d (re_finditer (d_pattern d) txt)))"
    using Cons s by (cases lim1) auto
  with scan_matches_sound [OF s] show ?case by auto
qed simp

lemma spans_ok_mem: "spans_ok lo n xs \<Longrightarrow> (a, b, g) \<in> set xs \<Longrightarrow> lo \<le> a \<and> a < b \<and> b \<le> n"
  by (induction lo n xs rule: spans_ok.induct) fastforce+

lemma raw_spans_bounds:
  assumes "(a, b) \<in> set (raw_spans d (re_finditer r txt))"
  shows "a < b \<and> b \<le> length txt"
proof -
  from assms obtain x y g where m: "(x, y, g) \<in> set (re_finditer r txt)"
    and span: "match_span d (x, y, g) = (a, b)" and "a \<noteq> b"
    by (auto simp: raw_spans_def)
  have xy: "x < y" "y \<le> length txt"
    using spans_ok_mem [OF re_finditer_ok m] by auto
  show ?thesis
  proof (cases "d_value_group d")
    case None
    with span xy show ?thesis by (auto simp: match_span_def)
  next
    case (Some n)
    then have "map_of g n = Some (a, b)"
      using span \<open>a \<noteq> b\<close> by (auto simp: match_span_def split: option.splits)
    then have "(n, a, b) \<in> set g" by (rule map_of_SomeD)
    then have "a \<le> b \<and> b \<le> y"
      using iter_from_groups m by (auto simp: re_finditer_def simp del: iter_from.simps)
    with xy \<open>a \<noteq> b\<close> show ?thesis by auto
  qed
qed

section \<open>Normalisation\<close>

definition finding_ok :: "nat \<Rightarrow> SecretFinding \<Rightarrow> bool" where
  "finding_ok n f \<longleftrightarrow> f_start f < f_end f \<and> f_end f \<le> n"

definition covers :: "SecretFinding list \<Rightarrow> nat \<times> nat \<Rightarrow> bool" where
  "covers fs ab \<longleftrightarrow> (\<exists>f \<in> set fs. f_start f \<le> fst ab \<and> snd ab \<le> f_end f)"

abbreviation span_of :: "SecretFinding \<Rightarrow> nat \<times> nat" where
  "span_of f \<equiv> (f_start f, f_end f)"

lemma covers_step: "covers acc ab \<Longrightarrow> covers (normalize_step acc f) ab"
  by (cases acc) (auto simp: covers_def)

lemma covers_new: "covers (normalize_step acc f) (span_of f)"
  by (cases acc) (auto simp: covers_def)

lemma covers_foldl: "covers acc ab \<Longrightarrow> covers (foldl normalize_step acc fs) ab"
  by (induction fs arbitrary: acc) (auto simp: covers_step)

lemma covers_foldl_new: "f \<in> set fs \<Longrightarrow> covers (foldl normalize_step acc fs) (span_of f)"
  by (induction fs arbitrary: acc) (auto simp: covers_new covers_foldl)

text \<open>Disjointness of the reversed accumulator.\<close>

abbreviation apart :: "SecretFinding list \<Rightarrow> bool" where
  "apart acc \<equiv> sorted_wrt (\<lambda>x y. f_end y \<le> f_start x) acc"

lemma normalize_step_inv:
  assumes "apart acc" "\<forall>x \<in> set acc. finding_ok n x" "finding_ok n f"
    and "\<forall>x \<in> set acc. f_start x \<le> f_start f"
  shows "apart (normalize_step acc f) \<and> (\<forall>x \<in> set (normalize_step acc f). finding_ok n x) \<and>
    (\<forall>x \<in> set (normalize_step acc f). f_start x \<le> f_start f)"
proof (cases acc)
  case (Cons prev rest)
  show ?thesis
  proof (cases "f_end prev \<le> f_start f")
    case True
    with Cons assms show ?thesis by (fastforce simp: finding_ok_def)
  next
    case False
    with Cons assms show ?thesis by (auto simp: finding_ok_def min_def max_def)
  qed
qed (use assms in auto)

lemma foldl_normalize_inv:
  "apart acc \<Longrightarrow> \<forall>x \<in> set acc. finding_ok n x \<Longrightarrow> \<forall>f \<in> set fs. finding_ok n f \<Longrightarrow>
   \<forall>x \<in> set acc. \<forall>f \<in> set fs. f_start x \<le> f_start f \<Longrightarrow>
   sorted (map f_start fs) \<Longrightarrow>
   apart (foldl normalize_step acc fs) \<and> (\<forall>x \<in> set (foldl normalize_step acc fs). finding_ok n x)"
proof (induction fs arbitrary: acc)
  case (Cons f fs)
  have step: "apart (normalize_step acc f)" "\<forall>x \<in> set (normalize_step acc f). finding_ok n x"
    "\<forall>x \<in> set (normalize_step acc f). f_start x \<le> f_start f"
    using normalize_step_inv [of acc n f] Cons.prems by auto
  moreover have "\<forall>x \<in> set (normalize_step acc f). \<forall>g \<in> set fs. f_start x \<le> f_start g"
    using step(3) Cons.prems(5) by fastforce
  ultimately show ?case using Cons.IH [of "normalize_step acc f"] Cons.prems by simp
qed simp

lemma sorted_starts: "sorted (map f_start (sort_key finding_key fs))"
proof -
  have "sorted (map finding_key (sort_key finding_key fs))" by simp
  then show ?thesis
    unfolding sorted_map by (rule sorted_wrt_mono_rel [rotated]) (auto simp: finding_key_def less_eq_prod_def)
qed

text \<open>The normalised findings, in text order: disjoint, well formed, covering every raw finding.\<close>

lemma normalize_findings_ok:
  assumes "\<forall>f \<in> set fs. finding_ok n f"
  shows "sorted_wrt (\<lambda>x y. f_end x \<le> f_start y) (normalize_findings fs)"
    and "\<forall>f \<in> set (normalize_findings fs). finding_ok n f"
proof -
  have "apart (foldl normalize_step [] (sort_key finding_key fs)) \<and>
      (\<forall>x \<in> set (foldl normalize_step [] (sort_key finding_key fs)). finding_ok n x)"
    by (rule foldl_normalize_inv) (use assms sorted_starts in auto)
  then show "sorted_wrt (\<lambda>x y. f_end x \<le> f_start y) (normalize_findings fs)"
    and "\<forall>f \<in> set (normalize_findings fs). finding_ok n f"
    by (auto simp: normalize_findings_def sorted_wrt_rev)
qed

lemma normalize_findings_covers: "f \<in> set fs \<Longrightarrow> covers (normalize_findings fs) (span_of f)"
  using covers_foldl_new [of f "sort_key finding_key fs" "[]"]
  by (simp add: normalize_findings_def covers_def)

section \<open>Redaction\<close>

lemma redact_text_cases:
  assumes "redact_text txt m k = Inr r" and "\<not> r_finding_limit_reached r" and "\<not> r_input_truncated r"
  obtains raw where "scan_detectors (nat k * 4) txt [] DETECTORS = (raw, False)"
    and "r_findings r = normalize_findings raw"
    and "redacted_text r =
      splice 0 (map (\<lambda>f. (f_start f, f_end f, redaction_marker (f_kind f))) (normalize_findings raw)) txt"
proof -
  obtain raw lim where sc: "scan_detectors (nat k * 4) (take (nat m) txt) [] DETECTORS = (raw, lim)"
    by (cases "scan_detectors (nat k * 4) (take (nat m) txt) [] DETECTORS")
  from assms sc have "\<not> lim" "length (normalize_findings raw) \<le> nat k" "take (nat m) txt = txt"
    "r_findings r = take (nat k) (normalize_findings raw)"
    "redacted_text r = splice 0 (map (\<lambda>f. (f_start f, f_end f, redaction_marker (f_kind f)))
       (take (nat k) (normalize_findings raw))) txt"
    by (auto simp: redact_text_def scan_secrets_def Let_def split: if_splits)
  with sc that show thesis by simp
qed

lemma raw_findings_ok:
  "scan_detectors L txt [] DETECTORS = (raw, lim) \<Longrightarrow> f \<in> set raw \<Longrightarrow> finding_ok (length txt) f"
  by (auto dest!: scan_detectors_sound raw_spans_bounds simp: finding_of_def finding_ok_def)

text \<open>Two texts that agree outside the spans are spliced to the same result.\<close>

lemma take_drop_agree:
  assumes "length s = length t" and "\<forall>i < length s. c \<le> i \<and> i < a \<longrightarrow> s ! i = t ! i"
  shows "take (a - c) (drop c s) = take (a - c) (drop c t)"
  using assms by (intro nth_equalityI) auto

lemma drop_agree:
  assumes "length s = length t" and "\<forall>i < length s. c \<le> i \<longrightarrow> s ! i = t ! i"
  shows "drop c s = drop c t"
  using assms by (intro nth_equalityI) auto

lemma splice_agree:
  "spans_ok c n xs \<Longrightarrow> length s = length t \<Longrightarrow>
   \<forall>i < length s. c \<le> i \<and> (\<forall>(a, b, w) \<in> set xs. \<not> (a \<le> i \<and> i < b)) \<longrightarrow> s ! i = t ! i \<Longrightarrow>
   splice c xs s = splice c xs t"
proof (induction c xs s rule: splice.induct)
  case (1 cur s)
  then show ?case by (auto intro: drop_agree)
next
  case (2 cur a b w xs s)
  have "\<forall>i < length s. cur \<le> i \<and> i < a \<longrightarrow> s ! i = t ! i"
  proof (intro allI impI)
    fix i assume i: "i < length s" "cur \<le> i \<and> i < a"
    have "\<not> (x \<le> i \<and> i < y)" if "(x, y, v) \<in> set xs" for x y v
      using spans_ok_mem [of b n xs x y v] that "2.prems"(1) i by auto
    with i "2.prems"(3) show "s ! i = t ! i" by auto
  qed
  then have "take (a - cur) (drop cur s) = take (a - cur) (drop cur t)"
    using "2.prems"(2) by (intro take_drop_agree)
  moreover have "splice b xs s = splice b xs t"
    using "2.prems" by (intro "2.IH") auto
  ultimately show ?case by simp
qed

lemma apart_spans_ok:
  "sorted_wrt (\<lambda>x y. f_end x \<le> f_start y) fs \<Longrightarrow> \<forall>f \<in> set fs. finding_ok n f \<Longrightarrow>
   \<forall>f \<in> set fs. lo \<le> f_start f \<Longrightarrow> spans_ok lo n (map (\<lambda>f. (f_start f, f_end f, g f)) fs)"
  by (induction fs arbitrary: lo) (auto simp: finding_ok_def)

text \<open>C1: redaction is complete. When neither limit was reached, every span matched by a
  detector lies inside one of the reported findings, the findings are in text order, disjoint
  and inside the text, and the returned text is the input with each finding replaced by the
  marker of its kind.\<close>

theorem redact_text_covers:
  assumes "redact_text txt m k = Inr r"
    and "\<not> r_finding_limit_reached r" and "\<not> r_input_truncated r"
  shows "(\<forall>(d, a, b) \<in> detected_spans txt. \<exists>f \<in> set (r_findings r). f_start f \<le> a \<and> b \<le> f_end f)
    \<and> sorted_wrt (\<lambda>x y. f_end x \<le> f_start y) (r_findings r)
    \<and> (\<forall>f \<in> set (r_findings r). f_start f < f_end f \<and> f_end f \<le> length txt)
    \<and> redacted_text r = splice 0
        (map (\<lambda>f. (f_start f, f_end f, redaction_marker (f_kind f))) (r_findings r)) txt"
proof -
  from assms obtain raw where raw: "scan_detectors (nat k * 4) txt [] DETECTORS = (raw, False)"
    and fs: "r_findings r = normalize_findings raw"
    and spl: "redacted_text r = splice 0
       (map (\<lambda>f. (f_start f, f_end f, redaction_marker (f_kind f))) (normalize_findings raw)) txt"
    by (rule redact_text_cases)
  have "\<forall>f \<in> set raw. finding_ok (length txt) f" using raw_findings_ok [OF raw] by blast
  note ok = normalize_findings_ok [OF this]
  have "\<exists>f \<in> set (r_findings r). f_start f \<le> a \<and> b \<le> f_end f"
    if "(d, a, b) \<in> detected_spans txt" for d a b
  proof -
    have "finding_of d (a, b) \<in> set raw"
      using that scan_detectors_complete [OF raw] by (auto simp: detected_spans_def)
    from normalize_findings_covers [OF this] show ?thesis
      by (auto simp: fs covers_def finding_of_def)
  qed
  then show ?thesis using ok spl by (auto simp: fs finding_ok_def)
qed

text \<open>C2: redaction does not leak. Two texts with the same findings that agree outside the
  reported spans have the same redacted text, so nothing of what stood inside a span reaches
  the output.\<close>

theorem redact_text_no_leak:
  assumes "redact_text s m k = Inr r" and "redact_text t m k = Inr q"
    and "\<not> r_finding_limit_reached r" and "\<not> r_input_truncated r"
    and "\<not> r_finding_limit_reached q" and "\<not> r_input_truncated q"
    and "r_findings q = r_findings r" and "length t = length s"
    and "\<forall>i < length s. (\<forall>f \<in> set (r_findings r). \<not> (f_start f \<le> i \<and> i < f_end f)) \<longrightarrow> s ! i = t ! i"
  shows "redacted_text q = redacted_text r"
proof -
  from assms(1,3,4) obtain raw where raw: "scan_detectors (nat k * 4) s [] DETECTORS = (raw, False)"
    and fs: "r_findings r = normalize_findings raw"
    and rt: "redacted_text r = splice 0
       (map (\<lambda>f. (f_start f, f_end f, redaction_marker (f_kind f))) (normalize_findings raw)) s"
    by (rule redact_text_cases)
  from assms(2,5,6) obtain raw' where "r_findings q = normalize_findings raw'"
    and qt: "redacted_text q = splice 0
       (map (\<lambda>f. (f_start f, f_end f, redaction_marker (f_kind f))) (normalize_findings raw')) t"
    by (rule redact_text_cases)
  then have eq: "normalize_findings raw' = normalize_findings raw" using fs assms(7) by simp
  have "\<forall>f \<in> set raw. finding_ok (length s) f" using raw_findings_ok [OF raw] by blast
  note ok = normalize_findings_ok [OF this]
  have "spans_ok 0 (length s)
      (map (\<lambda>f. (f_start f, f_end f, redaction_marker (f_kind f))) (normalize_findings raw))"
    using ok by (intro apart_spans_ok) auto
  then show ?thesis
    unfolding rt qt eq using assms(8,9) by (intro splice_agree [symmetric]) (auto simp: fs)
qed

text \<open>C3: the scan fails closed. When the finding limit was reached or a part of the input was
  not scanned, the result holds one of two fixed markers and no character of the input.\<close>

theorem redact_text_fails_closed:
  assumes "redact_text txt m k = Inr r"
    and "r_finding_limit_reached r \<or> nat m < length txt"
  shows "redacted_text r = (if r_finding_limit_reached r then FINDING_LIMIT_MARKER else SCAN_LIMIT_MARKER)"
  using assms by (auto simp: redact_text_def scan_secrets_def Let_def split: prod.splits if_splits)

section \<open>Texts that hold nothing to redact\<close>

lemma scan_detectors_quiet:
  "list_all (\<lambda>d. re_finditer (d_pattern d) s = []) ds \<Longrightarrow> scan_detectors n s acc ds = (acc, False)"
  by (induction ds) auto

lemma redact_text_quiet:
  assumes "list_all (\<lambda>d. re_finditer (d_pattern d) s = []) DETECTORS"
    and "s \<noteq> []" "int (length s) \<le> MAX_CONFIGURED_SCAN_CHARS"
  shows "\<exists>r. redact_text s (max (int (length s)) 1) DEFAULT_MAX_FINDINGS = Inr r \<and> redacted_text r = s"
proof -
  have "validate_limits (max (int (length s)) 1) DEFAULT_MAX_FINDINGS = Inr ()"
    using assms(2,3) by (cases s) (auto simp: validate_limits_def DEFAULT_MAX_FINDINGS_def
        MAX_CONFIGURED_FINDINGS_def MAX_CONFIGURED_SCAN_CHARS_def require_def)
  then show ?thesis
    using assms(1) by (simp add: redact_text_def scan_secrets_def scan_detectors_quiet
        normalize_findings_def Let_def)
qed

definition quiet_alphabet :: "string \<Rightarrow> bool" where
  "quiet_alphabet A = list_all (\<lambda>d. dead A (d_pattern d)) DETECTORS"

lemma quiet_alphabet_finditer:
  "quiet_alphabet A \<Longrightarrow> set s \<subseteq> set A \<Longrightarrow> list_all (\<lambda>d. re_finditer (d_pattern d) s = []) DETECTORS"
  by (auto simp: quiet_alphabet_def list_all_iff dead_finditer)

theorem redact_text_covers_witness:
  "\<exists>r. redact_text ''token sk-abcdefghijklmnop1'' 100 8 = Inr r
     \<and> \<not> r_finding_limit_reached r \<and> \<not> r_input_truncated r
     \<and> (\<forall>(d, a, b) \<in> detected_spans ''token sk-abcdefghijklmnop1''.
          \<exists>f \<in> set (r_findings r). f_start f \<le> a \<and> b \<le> f_end f)
     \<and> redacted_text r = ''token [REDACTED:known_token]''"
proof -
  let ?t = "''token sk-abcdefghijklmnop1''"
  obtain r where r: "redact_text ?t 100 8 = Inr r"
    and ok: "\<not> r_finding_limit_reached r" "\<not> r_input_truncated r"
    and spl: "redacted_text r = ''token [REDACTED:known_token]''"
  proof
    show "redact_text ?t 100 8 = Inr
      \<lparr>redacted_text = ''token [REDACTED:known_token]'',
       r_findings = [\<lparr>f_kind = known_token, f_confidence = high, f_detector_id = ''known-token-v1'',
         f_start = 6, f_end = 26\<rparr>],
       r_input_characters = 26, r_scanned_characters = 26,
       r_input_truncated = False, r_finding_limit_reached = False\<rparr>"
      by code_simp
  qed simp_all
  show ?thesis using r ok spl redact_text_covers [OF r ok] by blast
qed

theorem redact_text_no_leak_witness:
  "redact_text ''sk-abcdefghijklmnop1'' 100 8 = redact_text ''sk-ponmlkjihgfedcba2'' 100 8"
proof -
  let ?r = "\<lparr>redacted_text = ''[REDACTED:known_token]'',
       r_findings = [\<lparr>f_kind = known_token, f_confidence = high, f_detector_id = ''known-token-v1'',
         f_start = 0, f_end = 20\<rparr>],
       r_input_characters = 20, r_scanned_characters = 20,
       r_input_truncated = False, r_finding_limit_reached = False\<rparr>"
  have r: "redact_text ''sk-abcdefghijklmnop1'' 100 8 = Inr ?r" by code_simp
  obtain q where q: "redact_text ''sk-ponmlkjihgfedcba2'' 100 8 = Inr q"
    and qs: "q = \<lparr>redacted_text = redacted_text q, r_findings = r_findings ?r,
       r_input_characters = 20, r_scanned_characters = 20,
       r_input_truncated = False, r_finding_limit_reached = False\<rparr>"
  proof
    show "redact_text ''sk-ponmlkjihgfedcba2'' 100 8 = Inr ?r" by code_simp
  qed simp
  have q1: "r_findings q = r_findings ?r" "\<not> r_finding_limit_reached q" "\<not> r_input_truncated q"
    by (subst qs, simp)+
  have "redacted_text q = redacted_text ?r"
    by (rule redact_text_no_leak [OF r q]) (use q1 in \<open>auto\<close>)
  then show ?thesis using r q qs by simp
qed

theorem redact_text_fails_closed_witness:
  "\<exists>r. redact_text ''sk-abcdefghijklmnop1'' 5 8 = Inr r \<and> redacted_text r = SCAN_LIMIT_MARKER"
proof -
  obtain r where r: "redact_text ''sk-abcdefghijklmnop1'' 5 8 = Inr r"
    and l: "\<not> r_finding_limit_reached r"
  proof
    show "redact_text ''sk-abcdefghijklmnop1'' 5 8 = Inr
      \<lparr>redacted_text = SCAN_LIMIT_MARKER, r_findings = [],
       r_input_characters = 20, r_scanned_characters = 5,
       r_input_truncated = True, r_finding_limit_reached = False\<rparr>"
      by code_simp
  qed simp
  have "r_finding_limit_reached r \<or> nat 5 < length ''sk-abcdefghijklmnop1''" by simp
  from redact_text_fails_closed [OF r this] r l show ?thesis by auto
qed

end
