(* ===== verification/Datetime.thy ===== *)
theory Datetime
  imports Text
begin

text \<open>
  \<open>datetime.fromisoformat\<close> as CPython implements it: the calendar, week and compact date forms,
  hours with optional minutes, seconds and fraction, and an optional offset. A parsed value is
  the local time in microseconds (counted from day 0 of the proleptic Gregorian calendar) and
  the offset in microseconds, \<open>None\<close> for a naive value. Two aware values are compared by their
  instants.
\<close>

section \<open>Calendar\<close>

definition is_leap :: "int \<Rightarrow> bool" where
  "is_leap y \<longleftrightarrow> y mod 4 = 0 \<and> (y mod 100 \<noteq> 0 \<or> y mod 400 = 0)"

definition days_in_month :: "int \<Rightarrow> int \<Rightarrow> int" where
  "days_in_month y m =
     (if m = 2 then (if is_leap y then 29 else 28)
      else if m = 4 \<or> m = 6 \<or> m = 9 \<or> m = 11 then 30 else 31)"

definition days_before_year :: "int \<Rightarrow> int" where
  "days_before_year y = (let p = y - 1 in p * 365 + p div 4 - p div 100 + p div 400)"

definition days_before_month :: "int \<Rightarrow> int \<Rightarrow> int" where
  "days_before_month y m =
     [0, 0, 31, 59, 90, 120, 151, 181, 212, 243, 273, 304, 334] ! nat m + (if 2 < m \<and> is_leap y then 1 else 0)"

definition ymd_ordinal :: "int \<Rightarrow> int \<Rightarrow> int \<Rightarrow> int option" where
  "ymd_ordinal y m d =
     (if 1 \<le> y \<and> y \<le> 9999 \<and> 1 \<le> m \<and> m \<le> 12 \<and> 1 \<le> d \<and> d \<le> days_in_month y m
      then Some (days_before_year y + days_before_month y m + d) else None)"

definition iso_week_ordinal :: "int \<Rightarrow> int \<Rightarrow> int \<Rightarrow> int option" where
  "iso_week_ordinal y week day =
     (let first = days_before_year y + 1;
          weekday = (first + 6) mod 7;
          long_year = (weekday = 3 \<or> (weekday = 2 \<and> is_leap y));
          monday = first - weekday + (if 3 < weekday then 7 else 0);
          n = monday + (week - 1) * 7 + (day - 1)
      in if 1 \<le> y \<and> y \<le> 9999 \<and> 1 \<le> week \<and> (week \<le> 52 \<or> (week = 53 \<and> long_year)) \<and> 1 \<le> day \<and> day \<le> 7
            \<and> 1 \<le> n \<and> n \<le> 3652059
         then Some n else None)"

section \<open>Digits and separators\<close>

fun digits_value :: "int \<Rightarrow> string \<Rightarrow> int option" where
  "digits_value acc [] = Some acc"
| "digits_value acc (c # cs) = (if is_digit c then digits_value (10 * acc + (ord c - 48)) cs else None)"

definition take_digits :: "nat \<Rightarrow> string \<Rightarrow> (int \<times> string) option" where
  "take_digits n s =
     (if length s < n then None
      else map_option (\<lambda>v. (v, drop n s)) (digits_value 0 (take n s)))"

definition char_at :: "string \<Rightarrow> nat \<Rightarrow> char option" where
  "char_at s i = (if i < length s then Some (s ! i) else None)"

definition digit_at :: "string \<Rightarrow> nat \<Rightarrow> bool" where
  "digit_at s i = (case char_at s i of None \<Rightarrow> False | Some c \<Rightarrow> is_digit c)"

text \<open>\<open>_find_isoformat_datetime_separator\<close>.\<close>

definition separator_location :: "string \<Rightarrow> nat option" where
  "separator_location s =
     (if length s < 7 then None
      else if length s = 7 then Some 7
      else if char_at s 4 = Some CHR ''-'' then
        (if char_at s 5 = Some CHR ''W'' then
           (if char_at s 8 = Some CHR ''-'' then
              (if length s = 9 then None else if digit_at s 10 then Some 8 else Some 10)
            else Some 8)
         else Some 10)
      else if char_at s 4 = Some CHR ''W'' then
        (let idx = 7 + length (takeWhile is_digit (drop 7 s))
         in if idx < 9 then Some idx else if even idx then Some 7 else Some 8)
      else Some 8)"

definition parse_date :: "string \<Rightarrow> int option" where
  "parse_date s =
     (case take_digits 4 s of
        None \<Rightarrow> None
      | Some (y, p) \<Rightarrow>
          (let sep = (char_at p 0 = Some CHR ''-''); q = (if sep then drop 1 p else p)
           in if char_at q 0 = Some CHR ''W'' then
                (case take_digits 2 (drop 1 q) of
                   None \<Rightarrow> None
                 | Some (week, []) \<Rightarrow> iso_week_ordinal y week 1
                 | Some (week, r) \<Rightarrow>
                     if sep \<and> char_at r 0 \<noteq> Some CHR ''-'' then None
                     else (case take_digits 1 (if sep then drop 1 r else r) of
                             None \<Rightarrow> None
                           | Some (day, _) \<Rightarrow> iso_week_ordinal y week day))
              else
                (case take_digits 2 q of
                   None \<Rightarrow> None
                 | Some (m, r) \<Rightarrow>
                     if sep \<and> char_at r 0 \<noteq> Some CHR ''-'' then None
                     else (case take_digits 2 (if sep then drop 1 r else r) of
                             Some (d, []) \<Rightarrow> ymd_ordinal y m d
                           | _ \<Rightarrow> None))))"

section \<open>Time of day and offset\<close>

text \<open>\<open>parse_hh_mm_ss_ff\<close>: hours, minutes and seconds with the first separator deciding whether
  separators are used, and a fraction of at most six significant digits. The flag says that
  text is left over.\<close>

definition pow10 :: "nat \<Rightarrow> int" where
  "pow10 n = 10 ^ n"

definition parse_fraction :: "string \<Rightarrow> (int \<times> bool) option" where
  "parse_fraction p =
     (let n = min 6 (length p)
      in map_option (\<lambda>(v, r). (v * pow10 (6 - n), dropWhile is_digit r \<noteq> [])) (take_digits n p))"

fun parse_hms :: "nat \<Rightarrow> bool option \<Rightarrow> string \<Rightarrow> (int list \<times> int \<times> bool) option" where
  "parse_hms 0 sep p = map_option (\<lambda>(f, b). ([], f, b)) (parse_fraction p)"
| "parse_hms (Suc k) sep p =
     (case take_digits 2 p of
        None \<Rightarrow> None
      | Some (v, []) \<Rightarrow> Some ([v], 0, False)
      | Some (v, c # r) \<Rightarrow>
          (let has_sep = (case sep of None \<Rightarrow> c = CHR '':'' | Some b \<Rightarrow> b) in
           if r = [] then Some ([v], 0, True)
           else if has_sep \<and> c = CHR '':'' then
             map_option (\<lambda>(vs, x). (v # vs, x)) (parse_hms k (Some has_sep) r)
           else if c = CHR ''.'' \<or> c = CHR '','' then
             map_option (\<lambda>(f, b). ([v], f, b)) (parse_fraction r)
           else if \<not> has_sep then
             map_option (\<lambda>(vs, x). (v # vs, x)) (parse_hms k (Some has_sep) (c # r))
           else None))"

definition time_comp :: "int list \<Rightarrow> nat \<Rightarrow> int" where
  "time_comp vs i = (if i < length vs then vs ! i else 0)"

definition parse_offset :: "char \<Rightarrow> string \<Rightarrow> int option" where
  "parse_offset c s =
     (if c = CHR ''Z'' then (if s = [] then Some 0 else None)
      else case parse_hms 3 None s of
             Some (vs, us, False) \<Rightarrow>
               (let secs = time_comp vs 0 * 3600 + time_comp vs 1 * 60 + time_comp vs 2;
                    off = (if c = CHR ''-'' then - 1 else 1) * (secs * 1000000 + us)
                in if secs = 0 then Some 0
                   else if - 86400000000 < off \<and> off < 86400000000 then Some off else None)
           | _ \<Rightarrow> None)"

definition time_micros :: "int list \<Rightarrow> int \<Rightarrow> int option" where
  "time_micros vs us =
     (if time_comp vs 0 < 24 \<and> time_comp vs 1 < 60 \<and> time_comp vs 2 < 60
      then Some ((time_comp vs 0 * 3600 + time_comp vs 1 * 60 + time_comp vs 2) * 1000000 + us) else None)"

definition parse_time :: "string \<Rightarrow> (int \<times> int option) option" where
  "parse_time s =
     (let is_tz = (\<lambda>c. c = CHR ''+'' \<or> c = CHR ''-'' \<or> c = CHR ''Z'');
          body = takeWhile (\<lambda>c. \<not> is_tz c) s
      in case parse_hms 3 None body of
           None \<Rightarrow> None
         | Some (vs, us, more) \<Rightarrow>
             (case drop (length body) s of
                [] \<Rightarrow> if more then None else map_option (\<lambda>t. (t, None)) (time_micros vs us)
              | c # tz \<Rightarrow>
                  (case parse_offset c tz of
                     None \<Rightarrow> None
                   | Some off \<Rightarrow> map_option (\<lambda>t. (t, Some off)) (time_micros vs us))))"

definition fromisoformat :: "string \<Rightarrow> (int \<times> int option) option" where
  "fromisoformat s =
     (case separator_location s of
        None \<Rightarrow> None
      | Some n \<Rightarrow>
          (case parse_date (take n s) of
             None \<Rightarrow> None
           | Some day \<Rightarrow>
               if length s \<le> n then Some (day * 86400000000, None)
               else map_option (\<lambda>(t, off). (day * 86400000000 + t, off)) (parse_time (drop (n + 1) s))))"

text \<open>The instant of an aware value in microseconds of UTC.\<close>

definition instant :: "int \<times> int \<Rightarrow> int" where
  "instant d = fst d - snd d"

section \<open>Bounds\<close>

lemma parse_offset_bounds:
  "parse_offset c s = Some off \<Longrightarrow> - 86400000000 < off \<and> off < 86400000000"
  by (auto simp: parse_offset_def Let_def split: if_splits option.splits prod.splits bool.splits)

lemma fromisoformat_offset_bounds:
  assumes "fromisoformat s = Some (t, Some off)"
  shows "- 86400000000 < off \<and> off < 86400000000"
proof -
  obtain x u where "parse_time x = Some (u, Some off)"
    using assms by (auto simp: fromisoformat_def split: option.splits if_splits)
  then obtain c z where "parse_offset c z = Some off"
    by (auto simp: parse_time_def Let_def split: option.splits prod.splits list.splits if_splits)
  then show ?thesis by (rule parse_offset_bounds)
qed

end
