(* ===== verification/Audit_Log.thy ===== *)
theory Audit_Log
  imports State_Repository Secret_Detection Datetime
begin

text \<open>
  The audit service of \<open>audit.py\<close>: identifier validation, sanitisation of summaries and metadata,
  the append-only event table, and the reader that validates every row again.

  An event is written with a sanitised summary and sanitised metadata; the reader sanitises
  them once more and rejects the row unless that changes nothing. Metadata is a finite JSON
  tree, so the identity check against cyclic containers never fires and is left out. An
  exception given as \<open>error\<close> is represented by its class name.
\<close>

section \<open>Patterns\<close>

definition POSIX_PATH_PATTERN :: rx where
  "POSIX_PATH_PATTERN =
     (let name = RCls (\<lambda>c. c \<noteq> CHR ''/'' \<and> \<not> is_space c)
      in rseq [RNotBehind (\<lambda>c. c = CHR '':'' \<or> c = CHR ''/'' \<or> is_word c), rlit ''/'',
               rstar (RSeq (rplus name) (rlit ''/'')), rplus name])"

definition WINDOWS_PATH_PATTERN :: rx where
  "WINDOWS_PATH_PATTERN =
     (let name = RCls (\<lambda>c. c \<noteq> CHR 0x5C \<and> \<not> is_space c)
      in rseq [RWordB, RCls is_letter_i, rlit [CHR '':'', CHR 0x5C],
               rstar (RSeq (rplus name) (rlit [CHR 0x5C])), rplus name])"

definition BARE_BEARER_PATTERN :: rx where
  "BARE_BEARER_PATTERN = rseq [RWordB, rlit_i ''bearer'', rplus rspace, RRep 8 None True (RCls is_bearer_char)]"

definition REDACTION_MARKER_PATTERN :: rx where
  "REDACTION_MARKER_PATTERN = rseq
     [rlit ''['',
      ralt [RSeq (rlit ''REDACTED:'') (rplus (RCls (\<lambda>c. is_lower_ascii c \<or> c = CHR ''_''))),
            rlit ''UNSCANNED_CONTENT_OMITTED'', rlit ''REDACTION_FINDING_LIMIT_REACHED''],
      rlit '']'']"

definition PRIVATE_ENVIRONMENT_ASSIGNMENT_PATTERN :: rx where
  "PRIVATE_ENVIRONMENT_ASSIGNMENT_PATTERN = rseq
     [RWordB,
      RGrp ''label'' (ralt (map rlit_i
        [''username'', ''user_name'', ''os_user'', ''login_name'', ''hostname'', ''host_name'',
         ''machine_name'', ''computer_name'', ''cwd'', ''current_working_directory'', ''home_dir'',
         ''home_directory''])),
      rspaces, RCls (any_of '':=''), rspaces,
      RGrp ''value'' (rbetween 1 2048 (RCls (\<lambda>c. \<not> is_space c \<and> \<not> any_of '',;'' c)))]"

definition ALLOWED_ACTOR_TYPES :: "string list" where
  "ALLOWED_ACTOR_TYPES = [''user'', ''system'', ''model'', ''runtime'', ''capability'', ''migration'']"

definition ALLOWED_RESULTS :: "string list" where
  "ALLOWED_RESULTS = [''success'', ''denied'', ''failed'', ''cancelled'', ''partial'']"

definition AUDIT_SCHEMA_VERSION :: int where "AUDIT_SCHEMA_VERSION = 2"
definition MAX_ACTION_LENGTH :: int where "MAX_ACTION_LENGTH = 120"
definition MAX_IDENTIFIER_LENGTH :: int where "MAX_IDENTIFIER_LENGTH = 200"
definition MAX_SUMMARY_LENGTH :: int where "MAX_SUMMARY_LENGTH = 500"
definition MAX_ERROR_CLASS_LENGTH :: int where "MAX_ERROR_CLASS_LENGTH = 120"
definition MAX_METADATA_BYTES :: int where "MAX_METADATA_BYTES = 8192"
definition MAX_METADATA_STRING_LENGTH :: int where "MAX_METADATA_STRING_LENGTH = 4096"
definition MAX_METADATA_DEPTH :: int where "MAX_METADATA_DEPTH = 6"
definition MAX_METADATA_ITEMS :: int where "MAX_METADATA_ITEMS = 256"
definition MAX_AUDIT_LIMIT :: int where "MAX_AUDIT_LIMIT = 200"

section \<open>Text sanitisation\<close>

definition redact_unmarked_secret_text :: "string \<Rightarrow> string res" where
  "redact_unmarked_secret_text value =
     (if value = [] then Inr []
      else bindr (redact_text value (max (int (length value)) 1) DEFAULT_MAX_FINDINGS) (\<lambda>r.
           Inr (re_sub BARE_BEARER_PATTERN (\<lambda>_ _. ''Bearer [REDACTED:authorization_header]'') (redacted_text r))))"

fun sanitize_pieces :: "string \<Rightarrow> nat \<Rightarrow> span list \<Rightarrow> string res" where
  "sanitize_pieces value cursor [] = redact_unmarked_secret_text (drop cursor value)"
| "sanitize_pieces value cursor ((a, b, g) # rest) =
     bindr (redact_unmarked_secret_text (take (a - cursor) (drop cursor value))) (\<lambda>part.
     bindr (sanitize_pieces value b rest) (\<lambda>more.
     Inr (part @ take (b - a) (drop a value) @ more)))"

definition sanitize_secret_text :: "string \<Rightarrow> int \<Rightarrow> string res" where
  "sanitize_secret_text value max_scan_chars =
     (if max_scan_chars < int (length value)
      then bindr (redact_text value max_scan_chars DEFAULT_MAX_FINDINGS) (\<lambda>r. Inr (redacted_text r))
      else sanitize_pieces value 0 (re_finditer REDACTION_MARKER_PATTERN value))"

definition sanitize_free_text :: "string \<Rightarrow> int \<Rightarrow> string res" where
  "sanitize_free_text value max_scan_chars =
     bindr (sanitize_secret_text (norm_ws value) max_scan_chars) (\<lambda>redacted.
     let env = re_sub PRIVATE_ENVIRONMENT_ASSIGNMENT_PATTERN
                 (\<lambda>t g. group_text t g ''label'' @ ''=[REDACTED:private_environment]'') redacted;
         posix = re_sub POSIX_PATH_PATTERN (\<lambda>_ _. ''[REDACTED:private_path]'') env
     in Inr (re_sub WINDOWS_PATH_PATTERN (\<lambda>_ _. ''[REDACTED:private_path]'') posix))"

definition reject_secret_text :: "string \<Rightarrow> unit res" where
  "reject_secret_text value =
     (let normalized = norm_ws value
      in bindr (sanitize_secret_text normalized (max (int (length normalized)) 1)) (\<lambda>redacted.
         require (redacted = normalized) AuditValidationError))"

definition reject_local_path :: "string \<Rightarrow> unit res" where
  "reject_local_path value =
     bindr (require (\<not> (contains_text ''file://'' value \<or> re_search POSIX_PATH_PATTERN value)) AuditValidationError) (\<lambda>_.
     require (\<not> re_search WINDOWS_PATH_PATTERN value) AuditValidationError)"

definition reject_private_environment_text :: "string \<Rightarrow> unit res" where
  "reject_private_environment_text value =
     require (\<not> re_search PRIVATE_ENVIRONMENT_ASSIGNMENT_PATTERN value) AuditValidationError"

definition reject_unsafe_identifier_text :: "string \<Rightarrow> unit res" where
  "reject_unsafe_identifier_text value =
     bindr (reject_secret_text value) (\<lambda>_.
     bindr (reject_local_path value) (\<lambda>_.
     reject_private_environment_text value))"

definition validate_token :: "int \<Rightarrow> string \<Rightarrow> string res" where
  "validate_token maximum value =
     (let normalized = strip value in
      bindr (require (normalized \<noteq> []) AuditValidationError) (\<lambda>_.
      bindr (require (\<not> maximum < int (length normalized)) AuditValidationError) (\<lambda>_.
      bindr (require (re_fullmatch TOKEN_PATTERN normalized) AuditValidationError) (\<lambda>_.
      bindr (reject_unsafe_identifier_text normalized) (\<lambda>_.
      Inr normalized)))))"

definition validate_identifier :: "string \<Rightarrow> string res" where
  "validate_identifier value =
     (let normalized = norm_ws value in
      bindr (require (normalized \<noteq> []) AuditValidationError) (\<lambda>_.
      bindr (require (\<not> MAX_IDENTIFIER_LENGTH < int (length normalized)) AuditValidationError) (\<lambda>_.
      bindr (require (\<not> list_ex (\<lambda>c. ord c < 32) normalized) AuditValidationError) (\<lambda>_.
      bindr (reject_secret_text normalized) (\<lambda>_.
      bindr (reject_local_path normalized) (\<lambda>_.
      bindr (reject_private_environment_text normalized) (\<lambda>_.
      Inr normalized)))))))"

definition validate_optional_identifier :: "string option \<Rightarrow> string option res" where
  "validate_optional_identifier = opt_res validate_identifier"

definition sanitize_summary :: "string option \<Rightarrow> string option res" where
  "sanitize_summary summ =
     (case summ of
        None \<Rightarrow> Inr None
      | Some text \<Rightarrow>
          (let normalized = norm_ws text in
           if normalized = [] then Inr None
           else bindr (require (\<not> MAX_SUMMARY_LENGTH < int (length normalized)) AuditValidationError) (\<lambda>_.
                bindr (sanitize_free_text normalized MAX_SUMMARY_LENGTH) (\<lambda>t. Inr (Some t)))))"

definition validate_stored_summary :: "string option \<Rightarrow> string option res" where
  "validate_stored_summary summ =
     bindr (sanitize_summary summ) (\<lambda>sanitized.
     let normalized = (case summ of None \<Rightarrow> None
                       | Some t \<Rightarrow> if norm_ws t = [] then None else Some (norm_ws t)) in
     bindr (require (sanitized = normalized) AuditValidationError) (\<lambda>_. Inr sanitized))"

definition safe_error_class :: "string option \<Rightarrow> string option" where
  "safe_error_class error =
     (case error of
        None \<Rightarrow> None
      | Some name \<Rightarrow>
          if MAX_ERROR_CLASS_LENGTH < int (length name) \<or> \<not> re_fullmatch TOKEN_PATTERN name
          then Some ''Error'' else Some name)"

section \<open>Metadata sanitisation\<close>

definition dict_put :: "string \<Rightarrow> json \<Rightarrow> dict \<Rightarrow> dict" where
  "dict_put k v d =
     (if k \<in> fst ` set d then map (\<lambda>(j, w). if j = k then (j, v) else (j, w)) d else d @ [(k, v)])"

definition consume_metadata_item :: "int \<Rightarrow> int res" where
  "consume_metadata_item seen =
     (if MAX_METADATA_ITEMS \<le> seen then Inl AuditValidationError else Inr (seen + 1))"

definition metadata_key :: "string \<Rightarrow> string res" where
  "metadata_key raw_key =
     (let key = strip raw_key in
      bindr (require (key \<noteq> []) AuditValidationError) (\<lambda>_.
      bindr (require (\<not> is_secret_field_name key) AuditValidationError) (\<lambda>_.
      bindr (require (\<not> is_private_environment_field_name key) AuditValidationError) (\<lambda>_.
      bindr (reject_unsafe_identifier_text key) (\<lambda>_. Inr key)))))"

fun sanitize_metadata_value :: "int \<Rightarrow> json \<Rightarrow> int \<Rightarrow> (json \<times> int) res"
and sanitize_items :: "int \<Rightarrow> dict \<Rightarrow> dict \<Rightarrow> int \<Rightarrow> (json \<times> int) res"
and sanitize_elements :: "int \<Rightarrow> json list \<Rightarrow> json list \<Rightarrow> int \<Rightarrow> (json \<times> int) res" where
  "sanitize_metadata_value depth value seen =
     (if MAX_METADATA_DEPTH < depth then Inl AuditValidationError
      else case value of
             JObj kvs \<Rightarrow> sanitize_items depth [] kvs seen
           | JList xs \<Rightarrow> sanitize_elements depth [] xs seen
           | JStr s \<Rightarrow> bindr (sanitize_free_text s MAX_METADATA_STRING_LENGTH) (\<lambda>t. Inr (JStr t, seen))
           | JFloat r \<Rightarrow> if finite_float r then Inr (JFloat r, seen) else Inl AuditValidationError
           | JNull \<Rightarrow> Inr (JNull, seen)
           | JBool b \<Rightarrow> Inr (JBool b, seen)
           | JInt i \<Rightarrow> Inr (JInt i, seen))"
| "sanitize_items depth acc [] seen = Inr (JObj acc, seen)"
| "sanitize_items depth acc ((raw_key, nested) # rest) seen =
     bindr (consume_metadata_item seen) (\<lambda>seen1.
     bindr (metadata_key raw_key) (\<lambda>key.
     bindr (sanitize_metadata_value (depth + 1) nested seen1) (\<lambda>r.
     sanitize_items depth (dict_put key (fst r) acc) rest (snd r))))"
| "sanitize_elements depth acc [] seen = Inr (JList acc, seen)"
| "sanitize_elements depth acc (nested # rest) seen =
     bindr (consume_metadata_item seen) (\<lambda>seen1.
     bindr (sanitize_metadata_value (depth + 1) nested seen1) (\<lambda>r.
     sanitize_elements depth (acc @ [fst r]) rest (snd r)))"

definition sanitize_metadata :: "dict \<Rightarrow> dict res" where
  "sanitize_metadata m =
     bindr (sanitize_metadata_value 0 (JObj m) 0) (\<lambda>r.
     case fst r of JObj d \<Rightarrow> Inr d | _ \<Rightarrow> Inl AuditValidationError)"

text \<open>The encoded text is represented by the value that it parses to.\<close>

definition encode_metadata :: "dict \<Rightarrow> json res" where
  "encode_metadata m =
     bindr (require (all_finite (JObj m)) AuditValidationError) (\<lambda>_.
     bindr (require (\<not> MAX_METADATA_BYTES < int (utf8_length (encode (JObj m)))) AuditValidationError) (\<lambda>_.
     Inr (canon (JObj m))))"

definition serialize_metadata_strict :: "dict \<Rightarrow> json res" where
  "serialize_metadata_strict m =
     bindr (sanitize_metadata m) (\<lambda>sanitized.
     bindr (require (dict_eq sanitized m) AuditValidationError) (\<lambda>_.
     encode_metadata sanitized))"

definition serialize_metadata_for_write :: "dict \<Rightarrow> json res" where
  "serialize_metadata_for_write m = bindr (sanitize_metadata m) encode_metadata"

definition validate_stored_metadata :: "dict \<Rightarrow> dict res" where
  "validate_stored_metadata m =
     bindr (sanitize_metadata m) (\<lambda>sanitized.
     bindr (require (dict_eq sanitized m) AuditValidationError) (\<lambda>_.
     bindr (encode_metadata sanitized) (\<lambda>_. Inr sanitized)))"

definition validate_utc_timestamp :: "string \<Rightarrow> string res" where
  "validate_utc_timestamp value =
     bindr (require (ends_with ''Z'' value) AuditValidationError) (\<lambda>_.
     case fromisoformat (take (length value - 1) value @ ''+00:00'') of
       None \<Rightarrow> Inl AuditValidationError
     | Some (_, offset) \<Rightarrow> if offset \<noteq> Some 0 then Inl AuditValidationError else Inr value)"

section \<open>The service\<close>

definition require_audit_schema :: "repo \<Rightarrow> unit res" where
  "require_audit_schema s =
     bindr (status_of s) (\<lambda>st. require (\<not> status_schema_version st < AUDIT_SCHEMA_VERSION) AuditError)"

definition is_row_error :: "exc \<Rightarrow> bool" where
  "is_row_error x \<longleftrightarrow> x = AuditValidationError \<or> x = KeyError \<or> x = ValueError"

definition event_from_row :: "AuditRow \<Rightarrow> AuditEvent res" where
  "event_from_row row = rescue is_row_error StateCorruptError (
     bindr (require (\<not> sequence row < 1) AuditValidationError) (\<lambda>_.
     bindr (of_option ValueError (uuid (event_id row))) (\<lambda>_.
     bindr (validate_token MAX_IDENTIFIER_LENGTH (operation_id row)) (\<lambda>op.
     bindr (validate_utc_timestamp (occurred_at row)) (\<lambda>at.
     bindr (require (List.member ALLOWED_ACTOR_TYPES (actor_type row)) AuditValidationError) (\<lambda>_.
     bindr (validate_optional_identifier (actor_id row)) (\<lambda>actor.
     bindr (validate_token MAX_ACTION_LENGTH (action row)) (\<lambda>act.
     bindr (opt_res (validate_token MAX_ACTION_LENGTH) (target_type row)) (\<lambda>ttype.
     bindr (validate_optional_identifier (target_id row)) (\<lambda>tid.
     bindr (require (List.member ALLOWED_RESULTS (result row)) AuditValidationError) (\<lambda>_.
     bindr (validate_stored_summary (summary row)) (\<lambda>summ.
     bindr (opt_res (validate_token MAX_ERROR_CLASS_LENGTH) (error_class row)) (\<lambda>err.
     bindr (of_option ValueError (event_metadata row)) (\<lambda>value.
     bindr (case value of JObj m \<Rightarrow> validate_stored_metadata m | _ \<Rightarrow> Inl AuditValidationError) (\<lambda>m.
     Inr \<lparr>sequence = sequence row, event_id = event_id row, operation_id = op, occurred_at = at,
          actor_type = actor_type row, actor_id = actor, action = act, target_type = ttype,
          target_id = tid, result = result row, summary = summ, error_class = err,
          event_metadata = m\<rparr>)))))))))))))))"

definition insert_event :: "AuditRow \<Rightarrow> repo \<Rightarrow> repo res" where
  "insert_event row s =
     (if event_id row \<in> event_id ` set (audit_events s) then Inl StateCorruptError
      else Inr (s\<lparr>audit_events := audit_events s @ [row\<lparr>sequence := last_sequence s + 1\<rparr>],
                  last_sequence := last_sequence s + 1\<rparr>))"

definition audit_get :: "string \<Rightarrow> repo \<Rightarrow> AuditEvent res" where
  "audit_get i s =
     bindr (require_audit_schema s) (\<lambda>_.
     bindr (validate_token MAX_IDENTIFIER_LENGTH i) (\<lambda>safe.
     case find (\<lambda>a. event_id a = safe) (audit_events s) of
       None \<Rightarrow> Inl KeyError
     | Some row \<Rightarrow> event_from_row row))"

record audit_request =
  q_action :: string
  q_result :: string
  q_actor_type :: string
  q_operation_id :: "string option"
  q_actor_id :: "string option"
  q_target_type :: "string option"
  q_target_id :: "string option"
  q_summary :: "string option"
  q_error :: "string option"
  q_metadata :: "dict option"

definition prepare_append :: "env \<Rightarrow> audit_request \<Rightarrow> repo \<Rightarrow> AuditRow res" where
  "prepare_append e q s =
     bindr (require (\<not> read_only s) ReadOnlyStateError) (\<lambda>_.
     bindr (require_audit_schema s) (\<lambda>_.
     let op0 = (case q_operation_id q of None \<Rightarrow> other_uuid e | Some i \<Rightarrow> if i = [] then other_uuid e else i) in
     bindr (validate_token MAX_ACTION_LENGTH (q_action q)) (\<lambda>act.
     bindr (validate_token MAX_IDENTIFIER_LENGTH op0) (\<lambda>op.
     bindr (require (List.member ALLOWED_ACTOR_TYPES (q_actor_type q)) AuditValidationError) (\<lambda>_.
     bindr (require (List.member ALLOWED_RESULTS (q_result q)) AuditValidationError) (\<lambda>_.
     bindr (validate_optional_identifier (q_actor_id q)) (\<lambda>actor.
     bindr (opt_res (validate_token MAX_ACTION_LENGTH) (q_target_type q)) (\<lambda>ttype.
     bindr (validate_optional_identifier (q_target_id q)) (\<lambda>tid.
     bindr (sanitize_summary (q_summary q)) (\<lambda>summ.
     bindr (serialize_metadata_for_write (case q_metadata q of None \<Rightarrow> [] | Some m \<Rightarrow> m)) (\<lambda>j.
     Inr \<lparr>sequence = 0, event_id = new_uuid e, operation_id = op, occurred_at = utc_now e,
          actor_type = q_actor_type q, actor_id = actor, action = act, target_type = ttype,
          target_id = tid, result = q_result q, summary = summ,
          error_class = safe_error_class (q_error q), event_metadata = Some j\<rparr>)))))))))))"

definition audit_append :: "env \<Rightarrow> audit_request \<Rightarrow> (repo, AuditEvent) op" where
  "audit_append e q =
     bind_op (lift_op (prepare_append e q))
       (\<lambda>row. write_op e (insert_event row) (audit_get (event_id row)))"

record audit_filter =
  f_operation_id :: "string option"
  f_action :: "string option"
  f_actor_type :: "string option"
  f_result :: "string option"

definition allowed_value :: "string list \<Rightarrow> string \<Rightarrow> string res" where
  "allowed_value allowed v = bindr (require (List.member allowed v) AuditValidationError) (\<lambda>_. Inr v)"

definition matches :: "'a option \<Rightarrow> 'a \<Rightarrow> bool" where
  "matches f v = (case f of None \<Rightarrow> True | Some w \<Rightarrow> v = w)"

definition audit_list :: "audit_filter \<Rightarrow> int \<Rightarrow> repo \<Rightarrow> AuditEvent list res" where
  "audit_list f limit s =
     bindr (require_audit_schema s) (\<lambda>_.
     bindr (require (\<not> (limit < 1 \<or> MAX_AUDIT_LIMIT < limit)) AuditValidationError) (\<lambda>_.
     bindr (opt_res (validate_token MAX_IDENTIFIER_LENGTH) (f_operation_id f)) (\<lambda>op.
     bindr (opt_res (validate_token MAX_ACTION_LENGTH) (f_action f)) (\<lambda>act.
     bindr (opt_res (allowed_value ALLOWED_ACTOR_TYPES) (f_actor_type f)) (\<lambda>actor.
     bindr (opt_res (allowed_value ALLOWED_RESULTS) (f_result f)) (\<lambda>res.
     map_res event_from_row
       (take (nat limit)
         (sort_key (\<lambda>a. - sequence a)
           (filter (\<lambda>a. matches op (operation_id a) \<and> matches act (action a) \<and>
                         matches actor (actor_type a) \<and> matches res (result a))
              (audit_events s))))))))))"

section \<open>Validators return normal forms\<close>

interpretation token: normalizer "validate_token n" for n
  by unfold_locales (auto simp: validate_token_def Let_def)

interpretation ident: normalizer validate_identifier
  by unfold_locales (auto simp: validate_identifier_def Let_def)

interpretation utc_timestamp: normalizer validate_utc_timestamp
  by unfold_locales (auto simp: validate_utc_timestamp_def split: option.splits if_splits)

interpretation allowed: normalizer "allowed_value xs" for xs
  by unfold_locales (auto simp: allowed_value_def)

lemmas audit_normal_forms = token.norm_idem token.norm_opt_idem ident.norm_idem
  ident.norm_opt_idem utc_timestamp.norm_idem

section \<open>Identifiers made of plain characters\<close>

text \<open>Over lower-case letters, digits and \<open>. _ -\<close> only one detector can match, the one for known
  tokens.\<close>

definition ident_alphabet :: string where
  "ident_alphabet = ''abcdefghijklmnopqrstuvwxyz0123456789._-''"

lemma ident_alphabet_dead:
  "list_all (\<lambda>d. d_detector_id d = ''known-token-v1'' \<or> dead ident_alphabet (d_pattern d)) DETECTORS"
  "dead ident_alphabet BARE_BEARER_PATTERN" "dead ident_alphabet REDACTION_MARKER_PATTERN"
  "dead ident_alphabet POSIX_PATH_PATTERN" "dead ident_alphabet WINDOWS_PATH_PATTERN"
  "dead ident_alphabet PRIVATE_ENVIRONMENT_ASSIGNMENT_PATTERN"
  "\<not> List.member ident_alphabet CHR ''/''" "list_all (\<lambda>c. \<not> is_space c) ident_alphabet"
  by code_simp+

definition plain_alphabet :: "string \<Rightarrow> bool" where
  "plain_alphabet A \<longleftrightarrow> list_all (List.member ident_alphabet) A \<and> dead A known_token_pattern"

lemma plain_alphabetD:
  assumes "plain_alphabet A"
  shows "quiet_alphabet A" "dead A BARE_BEARER_PATTERN" "dead A REDACTION_MARKER_PATTERN"
    "dead A POSIX_PATH_PATTERN" "dead A WINDOWS_PATH_PATTERN"
    "dead A PRIVATE_ENVIRONMENT_ASSIGNMENT_PATTERN" "CHR ''/'' \<notin> set A" "\<forall>c \<in> set A. \<not> is_space c"
proof -
  have sub: "set A \<subseteq> set ident_alphabet" using assms by (auto simp: plain_alphabet_def list_all_iff)
  have "dead A (d_pattern d)" if d: "d \<in> set DETECTORS" for d
  proof (cases "d_detector_id d = ''known-token-v1''")
    case True
    with d have "d_pattern d = known_token_pattern" by (auto simp: DETECTORS_def)
    then show ?thesis using assms by (simp add: plain_alphabet_def)
  next
    case False
    then show ?thesis using ident_alphabet_dead(1) d dead_mono [OF _ sub] by (auto simp: list_all_iff)
  qed
  then show "quiet_alphabet A" by (simp add: quiet_alphabet_def list_all_iff)
  show "dead A BARE_BEARER_PATTERN" "dead A REDACTION_MARKER_PATTERN"
    "dead A POSIX_PATH_PATTERN" "dead A WINDOWS_PATH_PATTERN"
    "dead A PRIVATE_ENVIRONMENT_ASSIGNMENT_PATTERN"
    by (rule dead_mono [OF ident_alphabet_dead(2) sub] dead_mono [OF ident_alphabet_dead(3) sub]
        dead_mono [OF ident_alphabet_dead(4) sub] dead_mono [OF ident_alphabet_dead(5) sub]
        dead_mono [OF ident_alphabet_dead(6) sub])+
  show "CHR ''/'' \<notin> set A" "\<forall>c \<in> set A. \<not> is_space c"
    using ident_alphabet_dead(7,8) sub by (auto simp: list_all_iff)
qed

lemma norm_ws_word: "is_word_text s \<Longrightarrow> norm_ws s = s"
  using split_ws_join [of "[s]"] by (simp add: norm_ws_def)

lemma redact_unmarked_quiet:
  assumes "quiet_alphabet A" "dead A BARE_BEARER_PATTERN" "set s \<subseteq> set A"
    and "int (length s) \<le> MAX_CONFIGURED_SCAN_CHARS"
  shows "redact_unmarked_secret_text s = Inr s"
proof (cases "s = []")
  case False
  obtain r where "redact_text s (max (int (length s)) 1) DEFAULT_MAX_FINDINGS = Inr r" "redacted_text r = s"
    using redact_text_quiet [OF quiet_alphabet_finditer [OF assms(1,3)] False assms(4)] by auto
  then show ?thesis
    using False assms by (simp add: redact_unmarked_secret_text_def dead_sub)
qed (simp add: redact_unmarked_secret_text_def)

lemma plain_identifier_safe:
  assumes "plain_alphabet A" "set s \<subseteq> set A" "s \<noteq> []" "int (length s) \<le> MAX_CONFIGURED_SCAN_CHARS"
  shows "reject_unsafe_identifier_text s = Inr ()"
proof -
  have A: "quiet_alphabet A" "dead A BARE_BEARER_PATTERN" "dead A REDACTION_MARKER_PATTERN"
    "dead A POSIX_PATH_PATTERN" "dead A WINDOWS_PATH_PATTERN"
    "dead A PRIVATE_ENVIRONMENT_ASSIGNMENT_PATTERN" "CHR ''/'' \<notin> set s" "is_word_text s"
    using plain_alphabetD [OF assms(1)] assms(2,3) by (auto simp: is_word_text_def)
  have "sanitize_secret_text s (max (int (length s)) 1) = Inr s"
    using A redact_unmarked_quiet [OF A(1,2) assms(2,4)] assms(2)
    by (simp add: sanitize_secret_text_def dead_finditer)
  moreover have "\<not> contains_text ''file://'' s"
    using A(7) by (auto simp: contains_text_iff)
  ultimately show ?thesis
    using A assms(2) dead_search
    by (simp add: reject_unsafe_identifier_text_def reject_secret_text_def reject_local_path_def
        reject_private_environment_text_def norm_ws_word Let_def require_def)
qed

lemma plain_token_valid:
  assumes "plain_alphabet A" "set s \<subseteq> set A" "is_token s" "int (length s) \<le> n" "int (length s) \<le> 500"
  shows "validate_token n s = Inr s"
proof -
  have "reject_unsafe_identifier_text s = Inr ()"
    using assms by (intro plain_identifier_safe) (auto simp: MAX_CONFIGURED_SCAN_CHARS_def)
  then show ?thesis
    using assms by (auto simp: validate_token_def Let_def fullmatch_TOKEN_PATTERN require_def)
qed

lemma plain_free_text:
  assumes "plain_alphabet s" "s \<noteq> []" "int (length s) \<le> n" "int (length s) \<le> MAX_CONFIGURED_SCAN_CHARS"
  shows "sanitize_free_text s n = Inr s"
proof -
  have A: "quiet_alphabet s" "dead s BARE_BEARER_PATTERN" "dead s REDACTION_MARKER_PATTERN"
    "dead s POSIX_PATH_PATTERN" "dead s WINDOWS_PATH_PATTERN"
    "dead s PRIVATE_ENVIRONMENT_ASSIGNMENT_PATTERN" "is_word_text s"
    using plain_alphabetD [OF assms(1)] assms(2) by (auto simp: is_word_text_def)
  then show ?thesis
    using assms redact_unmarked_quiet [OF A(1,2) subset_refl assms(4)]
    by (simp add: sanitize_free_text_def norm_ws_word sanitize_secret_text_def dead_finditer [where A = s]
        dead_sub [where A = s] Let_def)
qed

text \<open>Flat metadata of plain keys with plain texts, integers and truth values is a fixed point of
  sanitisation.\<close>

definition plain_value :: "json \<Rightarrow> bool" where
  "plain_value v = (case v of JStr t \<Rightarrow> plain_alphabet t \<and> t \<noteq> [] \<and> int (length t) \<le> 500
     | JInt _ \<Rightarrow> True | JBool _ \<Rightarrow> True | _ \<Rightarrow> False)"

definition plain_entry :: "string \<times> json \<Rightarrow> bool" where
  "plain_entry kv = (case kv of (k, v) \<Rightarrow>
     plain_alphabet k \<and> k \<noteq> [] \<and> strip k = k \<and> int (length k) \<le> 500 \<and> \<not> is_secret_field_name k \<and>
     \<not> is_private_environment_field_name k \<and> plain_value v)"

lemma plain_key: "plain_alphabet k \<Longrightarrow> k \<noteq> [] \<Longrightarrow> strip k = k \<Longrightarrow> int (length k) \<le> 500 \<Longrightarrow>
    \<not> is_secret_field_name k \<Longrightarrow> \<not> is_private_environment_field_name k \<Longrightarrow> metadata_key k = Inr k"
  using plain_identifier_safe [of k k]
  by (simp add: metadata_key_def Let_def require_def MAX_CONFIGURED_SCAN_CHARS_def)

lemma dict_put_new: "k \<notin> fst ` set d \<Longrightarrow> dict_put k v d = d @ [(k, v)]"
  by (simp add: dict_put_def)

lemma sanitize_items_plain:
  "list_all plain_entry kvs \<Longrightarrow> distinct (map fst (acc @ kvs)) \<Longrightarrow>
     seen + int (length kvs) \<le> MAX_METADATA_ITEMS \<Longrightarrow>
     sanitize_items 0 acc kvs seen = Inr (JObj (acc @ kvs), seen + int (length kvs))"
proof (induction kvs arbitrary: acc seen)
  case (Cons kv kvs)
  obtain k v where kv: "kv = (k, v)" by (cases kv)
  have "metadata_key k = Inr k" "sanitize_metadata_value 1 v (seen + 1) = Inr (v, seen + 1)"
    using Cons.prems(1) kv plain_key plain_free_text [of _ MAX_METADATA_STRING_LENGTH]
    by (auto simp: plain_entry_def plain_value_def MAX_METADATA_STRING_LENGTH_def MAX_CONFIGURED_SCAN_CHARS_def
        MAX_METADATA_DEPTH_def split: json.splits)
  moreover have "dict_put k v acc = acc @ [(k, v)]"
    using Cons.prems(2) kv by (intro dict_put_new) auto
  moreover have "sanitize_items 0 (acc @ [(k, v)]) kvs (seen + 1) =
      Inr (JObj ((acc @ [(k, v)]) @ kvs), seen + 1 + int (length kvs))"
    using Cons.prems kv by (intro Cons.IH) auto
  ultimately show ?case
    using Cons.prems(3) kv by (simp add: consume_metadata_item_def)
qed simp

lemma sanitize_metadata_plain:
  assumes "list_all plain_entry m" "distinct (map fst m)" "int (length m) \<le> MAX_METADATA_ITEMS"
  shows "sanitize_metadata m = Inr m"
  using sanitize_items_plain [of m "[]" 0] assms by (simp add: sanitize_metadata_def MAX_METADATA_DEPTH_def)

lemma serialize_plain:
  assumes "list_all plain_entry m" "distinct (map fst m)" "int (length m) \<le> MAX_METADATA_ITEMS"
    and "int (utf8_length (encode (JObj m))) \<le> MAX_METADATA_BYTES"
  shows "serialize_metadata_strict m = Inr (canon (JObj m))"
proof -
  have "all_finite v" if "(k, v) \<in> set m" for k v
  proof -
    have "plain_entry (k, v)" using assms(1) that by (auto simp: list_all_iff)
    then show ?thesis by (cases v) (auto simp: plain_entry_def plain_value_def)
  qed
  then have "all_finite (JObj m)" by (auto simp: list_all_iff)
  then show ?thesis
    using sanitize_metadata_plain [OF assms(1-3)] assms(4)
    by (simp add: serialize_metadata_strict_def encode_metadata_def require_def dict_eq_def del: canon.simps all_finite.simps)
qed

definition uuid_alphabet :: string where
  "uuid_alphabet = ''0123456789abcdef-''"

lemma uuid_alphabet_plain: "plain_alphabet uuid_alphabet"
  by code_simp

lemma hex_char_uuid: "0 \<le> n \<Longrightarrow> n < 16 \<Longrightarrow> hex_char n \<in> set uuid_alphabet \<and> is_alnum_ascii (hex_char n)"
proof -
  assume "0 \<le> n" "n < 16"
  then have "n \<in> set [0..15]" by simp
  moreover have "list_all (\<lambda>k. List.member uuid_alphabet (hex_char k) \<and> is_alnum_ascii (hex_char k)) [0..15]"
    by code_simp
  ultimately show ?thesis by (auto simp: list_all_iff)
qed

lemma hex_digits_uuid: "c \<in> set (hex_digits k n) \<Longrightarrow> c \<in> set uuid_alphabet \<and> is_alnum_ascii c"
  by (induction k arbitrary: n) (auto simp: hex_char_uuid)

lemma uuid_text_token:
  "is_token (uuid_text n) \<and> set (uuid_text n) \<subseteq> set uuid_alphabet \<and> length (uuid_text n) = 36"
proof -
  let ?h = "hex_digits 32 n"
  have h: "c \<in> set uuid_alphabet \<and> is_alnum_ascii c" if "c \<in> set ?h" for c
    using that by (rule hex_digits_uuid)
  have sub: "c \<in> set (take i (drop j ?h)) \<Longrightarrow> c \<in> set ?h" "c \<in> set (drop j ?h) \<Longrightarrow> c \<in> set ?h"
    "c \<in> set (take i ?h) \<Longrightarrow> c \<in> set ?h" for c i j
    by (auto dest: in_set_takeD in_set_dropD)
  have tc: "token_char c" if "c \<in> set (uuid_text n)" for c
    using that h sub by (auto simp: uuid_text_def Let_def token_char_def)
  have "CHR ''-'' \<in> set uuid_alphabet" by (simp add: uuid_alphabet_def)
  then have "set (uuid_text n) \<subseteq> set uuid_alphabet"
    using h sub by (auto simp: uuid_text_def Let_def)
  moreover have "length (uuid_text n) = 36" by (simp add: uuid_text_def Let_def)
  moreover obtain c cs where c: "?h = c # cs" by (cases ?h) (auto dest: arg_cong [where f = length])
  then have "uuid_text n = c # drop 1 (uuid_text n)" "is_alnum_ascii c"
    using h [of c] by (auto simp: uuid_text_def Let_def)
  then have "is_token (uuid_text n)"
    using tc by (metis (no_types, lifting) is_token.simps(2) list.set_intros(2) list_all_iff)
  ultimately show ?thesis by simp
qed

lemma uuid_token_valid:
  assumes "uuid i = Some i"
  shows "validate_token MAX_IDENTIFIER_LENGTH i = Inr i"
proof -
  obtain n where "i = uuid_text n" using uuid_range [OF assms] by auto
  then show ?thesis
    using uuid_text_token [of n]
    by (intro plain_token_valid [OF uuid_alphabet_plain]) (auto simp: MAX_IDENTIFIER_LENGTH_def)
qed

section \<open>Appending\<close>

abbreviation numbered :: "AuditRow \<Rightarrow> repo \<Rightarrow> AuditRow" where
  "numbered row s \<equiv> row\<lparr>sequence := last_sequence s + 1\<rparr>"

lemma insert_eventD:
  "insert_event row s = Inr t \<Longrightarrow> event_id row \<notin> event_id ` set (audit_events s) \<and>
     t = s\<lparr>audit_events := audit_events s @ [numbered row s], last_sequence := last_sequence s + 1\<rparr>"
  by (auto simp: insert_event_def split: if_splits)

lemma insert_event_ok:
  assumes "repo_ok s" "insert_event row s = Inr t"
  shows "repo_ok t"
proof -
  have "events_ok s" using assms(1) by (simp add: repo_ok_def)
  then have "events_ok t"
    using insert_eventD [OF assms(2)] by (fastforce simp: events_ok_def sorted_wrt_append image_iff)
  then show ?thesis using assms(1) insert_eventD [OF assms(2)] by (simp add: repo_ok_def revision_ok_def)
qed

interpretation append: write_body True "insert_event row" for row
  by unfold_locales (auto dest: insert_eventD intro: insert_event_ok simp: evolves_def row_evolves_def)

lemma require_audit_schema_append [simp]:
  "require_audit_schema (s\<lparr>audit_events := a, last_sequence := n\<rparr>) = require_audit_schema s"
  by (cases "meta_row s") (auto simp: require_audit_schema_def status_of_def metadata_row_def)

lemma require_audit_schema_advance [simp]: "require_audit_schema (advance e s) = require_audit_schema s"
  by (cases "meta_row s") (auto simp: require_audit_schema_def status_of_def metadata_row_def advance_def)

lemma audit_append_cases:
  assumes "repo_ok s" "audit_append e q s = (res, t)"
  shows "(isl res \<and> t = s) \<or>
    (\<exists>row. prepare_append e q s = Inr row \<and> new_uuid e \<notin> event_id ` set (audit_events s) \<and>
       audit_events t = audit_events s @ [numbered row s] \<and> records t = records s \<and>
       repo_ok t \<and> state_revision t = state_revision s + 1 \<and> workspace_revision t = state_revision t \<and>
       require_audit_schema t = require_audit_schema s \<and> res = audit_get (event_id row) t)"
proof (cases "prepare_append e q s")
  case (Inl x)
  with assms(2) show ?thesis by (auto simp: audit_append_def bind_lift)
next
  case (Inr row)
  then have w: "write_op e (insert_event row) (audit_get (event_id row)) s = (res, t)"
    using assms(2) by (simp add: audit_append_def bind_lift)
  have "event_id row = new_uuid e" using Inr by (auto simp: prepare_append_def Let_def)
  with append.write_op_cases [OF assms(1) w] append.write_op_ok [OF TrueI assms(1) w] show ?thesis
    using Inr by (auto dest!: insert_eventD)
qed

text \<open>C8: the audit table is append-only. Whatever \<open>append\<close> is given, it either raises and leaves
  everything as it was, or it adds exactly one event at the end, with a sequence number above
  all earlier ones and a new identifier; the earlier events and all records stay as they are,
  and the state revision moves by one.\<close>

theorem audit_append_only:
  assumes "repo_ok s" and "audit_append e q s = (res, t)"
  shows "(isl res \<and> t = s) \<or>
    (\<exists>row. audit_events t = audit_events s @ [row] \<and> event_id row = new_uuid e \<and>
       (\<forall>a \<in> set (audit_events s). sequence a < sequence row \<and> event_id a \<noteq> event_id row) \<and>
       records t = records s \<and> repo_ok t \<and> state_revision t = state_revision s + 1 \<and>
       workspace_revision t = state_revision t)"
proof -
  have ev: "\<forall>a \<in> set (audit_events s). sequence a \<le> last_sequence s"
    using assms(1) by (auto simp: repo_ok_def events_ok_def)
  have id: "event_id row = new_uuid e" if "prepare_append e q s = Inr row" for row
    using that by (auto simp: prepare_append_def Let_def)
  from audit_append_cases [OF assms] show ?thesis
  proof
    assume "\<exists>row. prepare_append e q s = Inr row \<and> new_uuid e \<notin> event_id ` set (audit_events s) \<and>
       audit_events t = audit_events s @ [numbered row s] \<and> records t = records s \<and>
       repo_ok t \<and> state_revision t = state_revision s + 1 \<and> workspace_revision t = state_revision t \<and>
       require_audit_schema t = require_audit_schema s \<and> res = audit_get (event_id row) t"
    then obtain row where "prepare_append e q s = Inr row" "new_uuid e \<notin> event_id ` set (audit_events s)"
       "audit_events t = audit_events s @ [numbered row s]" "records t = records s"
       "repo_ok t" "state_revision t = state_revision s + 1" "workspace_revision t = state_revision t"
      by blast
    with ev id [of row] show ?thesis
      by (intro disjI2 exI [of _ "numbered row s"]) (auto simp: image_iff)
  qed blast
qed

section \<open>Reading back what was written\<close>

lemma event_from_rowI:
  assumes "1 \<le> sequence row" "uuid (event_id row) = Some i"
    "validate_token MAX_IDENTIFIER_LENGTH (operation_id row) = Inr (operation_id row)"
    "validate_utc_timestamp (occurred_at row) = Inr (occurred_at row)"
    "List.member ALLOWED_ACTOR_TYPES (actor_type row)"
    "validate_optional_identifier (actor_id row) = Inr (actor_id row)"
    "validate_token MAX_ACTION_LENGTH (action row) = Inr (action row)"
    "opt_res (validate_token MAX_ACTION_LENGTH) (target_type row) = Inr (target_type row)"
    "validate_optional_identifier (target_id row) = Inr (target_id row)"
    "List.member ALLOWED_RESULTS (result row)"
    "validate_stored_summary (summary row) = Inr (summary row)"
    "opt_res (validate_token MAX_ERROR_CLASS_LENGTH) (error_class row) = Inr (error_class row)"
    "event_metadata row = Some (JObj m)" "validate_stored_metadata m = Inr d"
  shows "event_from_row row = Inr
     \<lparr>sequence = sequence row, event_id = event_id row, operation_id = operation_id row,
      occurred_at = occurred_at row, actor_type = actor_type row, actor_id = actor_id row,
      action = action row, target_type = target_type row, target_id = target_id row,
      result = result row, summary = summary row, error_class = error_class row,
      event_metadata = d\<rparr>"
  using assms by (simp add: event_from_row_def require_def)

lemma prepare_append_fields:
  assumes "prepare_append e q s = Inr row"
  shows "require_audit_schema s = Inr () \<and> event_id row = new_uuid e \<and> occurred_at row = utc_now e \<and>
    validate_token MAX_IDENTIFIER_LENGTH (operation_id row) = Inr (operation_id row) \<and>
    List.member ALLOWED_ACTOR_TYPES (actor_type row) \<and>
    validate_optional_identifier (actor_id row) = Inr (actor_id row) \<and>
    validate_token MAX_ACTION_LENGTH (action row) = Inr (action row) \<and>
    opt_res (validate_token MAX_ACTION_LENGTH) (target_type row) = Inr (target_type row) \<and>
    validate_optional_identifier (target_id row) = Inr (target_id row) \<and>
    List.member ALLOWED_RESULTS (result row) \<and>
    sanitize_summary (q_summary q) = Inr (summary row) \<and>
    error_class row = safe_error_class (q_error q) \<and>
    (\<exists>j. serialize_metadata_for_write (case q_metadata q of None \<Rightarrow> [] | Some m \<Rightarrow> m) = Inr j \<and>
       event_metadata row = Some j)"
  using assms unfolding prepare_append_def Let_def validate_optional_identifier_def
  by (auto dest: audit_normal_forms)

lemma find_appended: "(\<And>x. x \<in> set xs \<Longrightarrow> \<not> p x) \<Longrightarrow> p y \<Longrightarrow> find p (xs @ [y]) = Some y"
  by (induction xs) auto

lemma audit_get_new:
  assumes "repo_ok s" "prepare_append e q s = Inr row" "uuid (new_uuid e) = Some (new_uuid e)"
    and "new_uuid e \<notin> event_id ` set (audit_events s)" "audit_events t = audit_events s @ [numbered row s]"
    and "require_audit_schema t = Inr ()"
  shows "audit_get (event_id row) t = event_from_row (numbered row s)"
proof -
  have id: "event_id row = new_uuid e" using prepare_append_fields [OF assms(2)] by simp
  have "find (\<lambda>a. event_id a = new_uuid e) (audit_events s @ [numbered row s]) = Some (numbered row s)"
    using id assms(4) by (intro find_appended) force+
  then show ?thesis
    using assms(5,6) id uuid_token_valid [OF assms(3)] by (simp add: audit_get_def)
qed

lemma audit_append_new:
  assumes "repo_ok s" "prepare_append e q s = Inr row" "uuid (new_uuid e) = Some (new_uuid e)"
    and "new_uuid e \<notin> event_id ` set (audit_events s)"
  shows "\<exists>t. audit_append e q s = (event_from_row (numbered row s), t) \<and>
    audit_events t = audit_events s @ [numbered row s] \<and> records t = records s \<and> repo_ok t \<and>
    audit_get (event_id row) t = event_from_row (numbered row s) \<and> require_audit_schema t = Inr ()"
proof -
  obtain res t where a: "audit_append e q s = (res, t)" by force
  have "event_id row = new_uuid e" using prepare_append_fields [OF assms(2)] by simp
  with assms have "insert_event row s = Inr (s\<lparr>audit_events := audit_events s @ [numbered row s],
      last_sequence := last_sequence s + 1\<rparr>)"
    by (simp add: insert_event_def)
  then have "audit_events t = audit_events s @ [numbered row s]"
    using a assms(1,2) by (auto simp: audit_append_def bind_lift append.write_op_eq)
  with audit_append_cases [OF assms(1) a] assms(2) show ?thesis
    using a prepare_append_fields [OF assms(2)]
      audit_get_new [OF assms, of t] by auto
qed

text \<open>C9: an appended event is returned and can be read again, field by field as it was
  validated, as long as sanitisation has reached a fixed point: the reader's second
  sanitisation of the stored summary, error class and metadata changes nothing.\<close>

theorem audit_append_readable:
  assumes "repo_ok s" and "prepare_append e q s = Inr row"
    and "uuid (new_uuid e) = Some (new_uuid e)" and "new_uuid e \<notin> event_id ` set (audit_events s)"
    and "validate_utc_timestamp (utc_now e) = Inr (utc_now e)"
    and "validate_stored_summary (summary row) = Inr (summary row)"
    and "opt_res (validate_token MAX_ERROR_CLASS_LENGTH) (error_class row) = Inr (error_class row)"
    and "event_metadata row = Some (JObj m)" and "validate_stored_metadata m = Inr d"
  shows "\<exists>ev t. audit_append e q s = (Inr ev, t) \<and> audit_get (new_uuid e) t = Inr ev \<and>
    sequence ev = last_sequence s + 1 \<and> event_id ev = new_uuid e \<and> occurred_at ev = utc_now e \<and>
    action ev = action row \<and> result ev = q_result q \<and> actor_type ev = q_actor_type q \<and>
    operation_id ev = operation_id row \<and> actor_id ev = actor_id row \<and>
    target_type ev = target_type row \<and> target_id ev = target_id row \<and>
    summary ev = summary row \<and> error_class ev = error_class row \<and> event_metadata ev = d"
proof -
  note f = prepare_append_fields [OF assms(2)]
  have "0 \<le> last_sequence s" using assms(1) by (simp add: repo_ok_def events_ok_def)
  then have ev: "event_from_row (numbered row s) = Inr
     \<lparr>sequence = last_sequence s + 1, event_id = new_uuid e, operation_id = operation_id row,
      occurred_at = utc_now e, actor_type = actor_type row, actor_id = actor_id row,
      action = action row, target_type = target_type row, target_id = target_id row,
      result = result row, summary = summary row, error_class = error_class row,
      event_metadata = d\<rparr>"
    using event_from_rowI [of "numbered row s"] f assms by simp
  have "result row = q_result q" "actor_type row = q_actor_type q"
    using assms(2) by (auto simp: prepare_append_def Let_def)
  with audit_append_new [OF assms(1-4)] ev f show ?thesis by auto
qed

section \<open>Listing\<close>

lemma insort_key_last:
  fixes f :: "'a \<Rightarrow> 'b :: linorder"
  shows "\<forall>y \<in> set ys. f y < f x \<Longrightarrow> insort_key f x ys = ys @ [x]"
  by (induction ys) (auto simp: not_le [symmetric])

lemma newest_first:
  "sorted_wrt (<) (map sequence evs) \<Longrightarrow> sort_key (\<lambda>a. - sequence a) evs = rev evs"
  by (induction evs) (auto simp: insort_key_last)

lemma sorted_filter_sequence:
  "sorted_wrt (<) (map sequence evs) \<Longrightarrow> sorted_wrt (<) (map sequence (filter p evs))"
  by (induction evs) auto

lemma event_from_row_sequence: "event_from_row row = Inr ev \<Longrightarrow> sequence ev = sequence row"
  by (auto simp: event_from_row_def)

lemma map_res_map: "map_res f xs = Inr ys \<Longrightarrow> (\<And>x y. f x = Inr y \<Longrightarrow> g y = h x) \<Longrightarrow> map g ys = map h xs"
  by (induction xs arbitrary: ys) auto

definition selected :: "string option \<Rightarrow> string option \<Rightarrow> audit_filter \<Rightarrow> AuditRow list \<Rightarrow> AuditRow list" where
  "selected op act f rows = filter (\<lambda>a. matches op (operation_id a) \<and> matches act (action a) \<and>
     matches (f_actor_type f) (actor_type a) \<and> matches (f_result f) (result a)) rows"

lemma audit_list_eq:
  assumes "repo_ok s" "audit_list f limit s = Inr evs"
  shows "\<exists>op act. opt_res (validate_token MAX_IDENTIFIER_LENGTH) (f_operation_id f) = Inr op \<and>
    opt_res (validate_token MAX_ACTION_LENGTH) (f_action f) = Inr act \<and> 1 \<le> limit \<and> limit \<le> MAX_AUDIT_LIMIT \<and>
    map_res event_from_row (take (nat limit) (rev (selected op act f (audit_events s)))) = Inr evs"
proof -
  have "sorted_wrt (<) (map sequence (audit_events s))"
    using assms(1) by (simp add: repo_ok_def events_ok_def)
  then have "sort_key (\<lambda>a. - sequence a) (selected op act f (audit_events s)) =
      rev (selected op act f (audit_events s))" for op act
    unfolding selected_def by (intro newest_first sorted_filter_sequence)
  moreover have "opt_res (allowed_value xs) v = Inr w \<Longrightarrow> w = v" for xs v w
    by (cases v) (auto simp: allowed_value_def)
  ultimately have a: "\<And>xs v w. opt_res (allowed_value xs) v = Inr w \<Longrightarrow> w = v"
    and sk: "\<And>op act. sort_key (\<lambda>a. - sequence a) (selected op act f (audit_events s)) =
      rev (selected op act f (audit_events s))" by blast+
  obtain op act actor res where "opt_res (validate_token MAX_IDENTIFIER_LENGTH) (f_operation_id f) = Inr op"
    "opt_res (validate_token MAX_ACTION_LENGTH) (f_action f) = Inr act" "1 \<le> limit" "limit \<le> MAX_AUDIT_LIMIT"
    "actor = f_actor_type f" "res = f_result f"
    "map_res event_from_row (take (nat limit) (sort_key (\<lambda>a. - sequence a)
       (filter (\<lambda>a. matches op (operation_id a) \<and> matches act (action a) \<and>
          matches actor (actor_type a) \<and> matches res (result a)) (audit_events s)))) = Inr evs"
    using assms(2) unfolding audit_list_def bindr_eq_Inr require_eq_Inr
    by (auto dest!: a simp: not_less)
  then show ?thesis using sk [of op act] unfolding selected_def by auto
qed

text \<open>C10: \<open>list\<close> returns the newest matching events. The result has at most \<open>limit\<close> events, in
  strictly decreasing order of their sequence numbers, and it is exactly the end of the table
  filtered by the normalised filter values, so no newer matching event is skipped.\<close>

theorem audit_list_newest:
  assumes "repo_ok s" and "audit_list f limit s = Inr evs"
    and "opt_res (validate_token MAX_IDENTIFIER_LENGTH) (f_operation_id f) = Inr op"
    and "opt_res (validate_token MAX_ACTION_LENGTH) (f_action f) = Inr act"
  shows "map sequence evs = take (nat limit) (rev (map sequence (selected op act f (audit_events s))))
    \<and> sorted_wrt (>) (map sequence evs) \<and> int (length evs) \<le> limit \<and> limit \<le> MAX_AUDIT_LIMIT"
proof -
  have r: "map_res event_from_row (take (nat limit) (rev (selected op act f (audit_events s)))) = Inr evs"
    "1 \<le> limit" "limit \<le> MAX_AUDIT_LIMIT"
    using audit_list_eq [OF assms(1,2)] assms(3,4) by auto
  have m: "map sequence evs = take (nat limit) (rev (map sequence (selected op act f (audit_events s))))"
    using map_res_map [OF r(1), of sequence sequence] event_from_row_sequence
    by (simp add: take_map rev_map)
  have "sorted_wrt (<) (map sequence (selected op act f (audit_events s)))"
    using assms(1) unfolding selected_def
    by (intro sorted_filter_sequence) (simp add: repo_ok_def events_ok_def)
  then have "sorted_wrt (>) (rev (map sequence (selected op act f (audit_events s))))"
    by (simp add: sorted_wrt_rev)
  then have "sorted_wrt (>) (map sequence evs)" unfolding m by (rule sorted_wrt_take)
  moreover have "length evs \<le> nat limit" using map_res_length [OF r(1)] by simp
  ultimately show ?thesis using m r by simp
qed

section \<open>A summary that grows while it is sanitised\<close>

lemma stored_summary_too_long:
  "MAX_SUMMARY_LENGTH < int (length (norm_ws t)) \<Longrightarrow> validate_stored_summary (Some t) = Inl AuditValidationError"
  by (auto simp: validate_stored_summary_def sanitize_summary_def MAX_SUMMARY_LENGTH_def Let_def require_def)

text \<open>The length limit of a summary is checked before redaction on the way in and after
  redaction on the way out. When redaction markers make a summary longer than the limit, the
  event is committed, \<open>append\<close> raises \<open>StateCorruptError\<close> after the commit, and an
  unfiltered \<open>list\<close> of the state after it raises as well.\<close>

theorem audit_summary_growth_corrupts:
  assumes "repo_ok s" and "prepare_append e q s = Inr row"
    and "uuid (new_uuid e) = Some (new_uuid e)" and "new_uuid e \<notin> event_id ` set (audit_events s)"
    and "validate_utc_timestamp (utc_now e) = Inr (utc_now e)"
    and "summary row = Some t" and "MAX_SUMMARY_LENGTH < int (length (norm_ws t))"
  shows "\<exists>u. audit_append e q s = (Inl StateCorruptError, u) \<and>
    audit_events u = audit_events s @ [numbered row s] \<and>
    (\<forall>limit. 1 \<le> limit \<and> limit \<le> MAX_AUDIT_LIMIT \<longrightarrow>
      audit_list \<lparr>f_operation_id = None, f_action = None, f_actor_type = None, f_result = None\<rparr> limit u =
        Inl StateCorruptError)"
proof -
  note f = prepare_append_fields [OF assms(2)]
  have "0 \<le> last_sequence s" using assms(1) by (simp add: repo_ok_def events_ok_def)
  then have bad: "event_from_row (numbered row s) = Inl StateCorruptError"
    using f assms(3,5,6) stored_summary_too_long [OF assms(7)]
    by (simp add: event_from_row_def is_row_error_def require_def)
  from audit_append_new [OF assms(1-4)] obtain u where u: "audit_append e q s = (Inl StateCorruptError, u)"
    "audit_events u = audit_events s @ [numbered row s]" "repo_ok u" "require_audit_schema u = Inr ()"
    using bad by auto
  have "sort_key (\<lambda>a. - sequence a) (audit_events u) = numbered row s # rev (audit_events s)"
    using newest_first [of "audit_events u"] u(2,3) by (simp add: repo_ok_def events_ok_def)
  then have "audit_list \<lparr>f_operation_id = None, f_action = None, f_actor_type = None, f_result = None\<rparr> limit u =
      Inl StateCorruptError" if "1 \<le> limit" "limit \<le> MAX_AUDIT_LIMIT" for limit
    using that u(4) bad by (cases "nat limit") (auto simp: audit_list_def matches_def require_def)
  with u show ?thesis by blast
qed

lemma posix_needs_slash: "c \<noteq> CHR ''/'' \<Longrightarrow> rmatch POSIX_PATH_PATTERN (pre, c # cs, g) = []"
  by (simp add: POSIX_PATH_PATTERN_def rlit_def Let_def split: list.splits)

lemma posix_at_end: "rmatch POSIX_PATH_PATTERN (pre, [], g) = []"
  by (simp add: POSIX_PATH_PATTERN_def rlit_def Let_def split: list.splits)

lemma posix_iter_skip:
  "CHR ''/'' \<notin> set xs \<Longrightarrow> iter_from (length xs + k) POSIX_PATH_PATTERN pre (xs @ post) =
     iter_from k POSIX_PATH_PATTERN (rev xs @ pre) post"
  by (induction xs arbitrary: pre) (auto simp: posix_needs_slash)

lemma posix_short_path:
  "rmatch POSIX_PATH_PATTERN (CHR '' '' # pre, ''/a'', []) = [(CHR ''a'' # CHR ''/'' # CHR '' '' # pre, [], [])]"
  by (simp add: POSIX_PATH_PATTERN_def rlit_def Let_def is_word_def is_space_def is_alnum_ascii_def
      is_upper_ascii_def is_lower_ascii_def is_digit_def ord_def)

lemma posix_sub_last:
  assumes "CHR ''/'' \<notin> set xs"
  shows "re_sub POSIX_PATH_PATTERN (\<lambda>_ _. w) (xs @ '' /a'') = xs @ '' '' @ w"
proof -
  have "re_finditer POSIX_PATH_PATTERN (xs @ '' /a'') =
      iter_from (length (xs @ '' '') + 3) POSIX_PATH_PATTERN [] ((xs @ '' '') @ ''/a'')"
    by (simp add: re_finditer_def eval_nat_numeral del: iter_from.simps)
  also have "\<dots> = iter_from 3 POSIX_PATH_PATTERN (rev (xs @ '' '')) ''/a''"
    using assms by (subst posix_iter_skip) auto
  also have "\<dots> = [(length xs + 1, length xs + 3, [])]"
    by (simp add: eval_nat_numeral posix_short_path posix_at_end)
  finally show ?thesis by (simp add: re_sub_def)
qed

section \<open>Concrete runs\<close>

definition sample_uuid :: string where
  "sample_uuid = ''00000000-0000-4000-8000-000000000001''"

definition sample_request :: "string option \<Rightarrow> audit_request" where
  "sample_request summ = \<lparr>q_action = ''note.add'', q_result = ''success'', q_actor_type = ''user'',
     q_operation_id = Some ''op1'', q_actor_id = None, q_target_type = None, q_target_id = None,
     q_summary = summ, q_error = None, q_metadata = None\<rparr>"

definition sample_row :: "string option \<Rightarrow> AuditRow" where
  "sample_row summ = \<lparr>sequence = 0, event_id = sample_uuid, operation_id = ''op1'',
     occurred_at = ''2026-01-01T00:00:00Z'', actor_type = ''user'', actor_id = None,
     action = ''note.add'', target_type = None, target_id = None, result = ''success'',
     summary = summ, error_class = None, event_metadata = Some (JObj [])\<rparr>"

lemma sample_uuid_ok: "uuid sample_uuid = Some sample_uuid"
  by code_simp

lemma sample_clock_ok: "validate_utc_timestamp ''2026-01-01T00:00:00Z'' = Inr ''2026-01-01T00:00:00Z''"
  by code_simp

lemma sample_tokens: "validate_token MAX_ACTION_LENGTH ''note.add'' = Inr ''note.add''"
  "validate_token MAX_IDENTIFIER_LENGTH ''op1'' = Inr ''op1''"
  by code_simp+

lemma sample_prepare:
  assumes "sanitize_summary summ = Inr t"
  shows "prepare_append (sample_env sample_uuid) (sample_request summ) sample_repo = Inr (sample_row t)"
proof -
  have "require_audit_schema sample_repo = Inr ()" "\<not> read_only sample_repo"
    "serialize_metadata_for_write [] = Inr (JObj [])" by code_simp+
  then show ?thesis
    using assms sample_tokens
    by (simp add: prepare_append_def sample_request_def sample_row_def sample_env_def
        validate_optional_identifier_def safe_error_class_def ALLOWED_ACTOR_TYPES_def ALLOWED_RESULTS_def)
qed


definition growing_summary :: string where
  "growing_summary = replicate 490 CHR ''a'' @ '' /a''"

definition grown_summary :: string where
  "grown_summary = replicate 490 CHR ''a'' @ '' [REDACTED:private_path]''"

lemma growing_alphabet:
  "quiet_alphabet ''/a '' \<and> dead ''/a '' BARE_BEARER_PATTERN \<and> dead ''/a '' REDACTION_MARKER_PATTERN \<and>
     dead ''/a '' PRIVATE_ENVIRONMENT_ASSIGNMENT_PATTERN \<and>
     dead ''a []REDACTED:private_path'' WINDOWS_PATH_PATTERN"
  by code_simp

lemma norm_two_words: "is_word_text v \<Longrightarrow> is_word_text w \<Longrightarrow> norm_ws (v @ '' '' @ w) = v @ '' '' @ w"
  using split_ws_join [of "[v, w]"] by (simp add: norm_ws_def)

lemma sanitize_growing: "sanitize_summary (Some growing_summary) = Inr (Some grown_summary)"
proof -
  let ?xs = "replicate 490 CHR ''a''"
  have a: "is_word_text ?xs" "is_word_text ''/a''" "is_word_text ''[REDACTED:private_path]''"
    by (simp_all add: is_word_text_def is_space_def ord_def)
  have n: "norm_ws growing_summary = growing_summary"
    using norm_two_words [OF a(1,2)] by (simp add: growing_summary_def)
  have sub: "set growing_summary \<subseteq> set ''/a ''" "set grown_summary \<subseteq> set ''a []REDACTED:private_path''"
    by (auto simp: growing_summary_def grown_summary_def)
  have len: "length growing_summary = 493" by (simp add: growing_summary_def)
  have "redact_unmarked_secret_text growing_summary = Inr growing_summary"
    using growing_alphabet sub len by (intro redact_unmarked_quiet [where A = "''/a ''"])
      (auto simp: MAX_CONFIGURED_SCAN_CHARS_def)
  then have "sanitize_secret_text growing_summary MAX_SUMMARY_LENGTH = Inr growing_summary"
    using growing_alphabet sub len
    by (simp add: sanitize_secret_text_def dead_finditer [where A = "''/a ''"] MAX_SUMMARY_LENGTH_def)
  moreover have "re_sub PRIVATE_ENVIRONMENT_ASSIGNMENT_PATTERN f growing_summary = growing_summary" for f
    using growing_alphabet sub by (intro dead_sub) auto
  moreover have "re_sub POSIX_PATH_PATTERN (\<lambda>_ _. ''[REDACTED:private_path]'') growing_summary = grown_summary"
    unfolding growing_summary_def grown_summary_def by (subst posix_sub_last) auto
  moreover have "re_sub WINDOWS_PATH_PATTERN f grown_summary = grown_summary" for f
    using growing_alphabet sub by (intro dead_sub) auto
  ultimately show ?thesis
    using n len by (simp add: sanitize_summary_def sanitize_free_text_def Let_def require_def
        MAX_SUMMARY_LENGTH_def) (simp add: growing_summary_def)
qed

lemma grown_too_long: "MAX_SUMMARY_LENGTH < int (length (norm_ws grown_summary))"
proof -
  have "norm_ws grown_summary = grown_summary"
    using norm_two_words [of "replicate 490 CHR ''a''" "''[REDACTED:private_path]''"]
    by (simp add: grown_summary_def is_word_text_def is_space_def ord_def)
  then show ?thesis by (simp add: grown_summary_def MAX_SUMMARY_LENGTH_def)
qed

theorem audit_summary_growth_corrupts_witness:
  "\<exists>u. audit_append (sample_env sample_uuid) (sample_request (Some growing_summary)) sample_repo =
      (Inl StateCorruptError, u) \<and>
     audit_list \<lparr>f_operation_id = None, f_action = None, f_actor_type = None, f_result = None\<rparr> 50 u =
      Inl StateCorruptError"
proof -
  have "new_uuid (sample_env sample_uuid) = sample_uuid" "utc_now (sample_env sample_uuid) = ''2026-01-01T00:00:00Z''"
    "audit_events sample_repo = []"
    by (simp_all add: sample_env_def sample_repo_def)
  then show ?thesis
    using audit_summary_growth_corrupts [OF sample_repo_ok sample_prepare [OF sanitize_growing], of grown_summary]
      sample_uuid_ok sample_clock_ok grown_too_long
    by (fastforce simp: sample_row_def MAX_AUDIT_LIMIT_def)
qed

theorem audit_append_readable_witness:
  "\<exists>ev t. audit_append (sample_env sample_uuid) (sample_request None) sample_repo = (Inr ev, t) \<and>
     audit_get sample_uuid t = Inr ev \<and> sequence ev = 1 \<and> action ev = ''note.add''"
proof -
  have "sanitize_summary None = Inr None" "validate_stored_summary None = Inr None"
    by (simp_all add: sanitize_summary_def validate_stored_summary_def)
  moreover have "validate_stored_metadata [] = Inr []" by code_simp
  moreover have "new_uuid (sample_env sample_uuid) = sample_uuid"
    "utc_now (sample_env sample_uuid) = ''2026-01-01T00:00:00Z''"
    "audit_events sample_repo = []" "last_sequence sample_repo = 0"
    by (simp_all add: sample_env_def sample_repo_def)
  ultimately show ?thesis
    using audit_append_readable [OF sample_repo_ok sample_prepare [of None None], of "[]" "[]"]
      sample_uuid_ok sample_clock_ok
    by (auto simp: sample_row_def)
qed

lemma sample_append:
  "\<exists>ev t. audit_append (sample_env sample_uuid) (sample_request None) sample_repo = (Inr ev, t) \<and>
     audit_events t = [numbered (sample_row None) sample_repo] \<and> repo_ok t \<and>
     require_audit_schema t = Inr () \<and> event_from_row (numbered (sample_row None) sample_repo) = Inr ev"
proof -
  have "sanitize_summary None = Inr None" by (simp add: sanitize_summary_def)
  from audit_append_new [OF sample_repo_ok sample_prepare [OF this]]
  obtain t where "audit_append (sample_env sample_uuid) (sample_request None) sample_repo =
      (event_from_row (numbered (sample_row None) sample_repo), t)" "repo_ok t"
    "audit_events t = [numbered (sample_row None) sample_repo]" "require_audit_schema t = Inr ()"
    using sample_uuid_ok by (auto simp: sample_env_def sample_repo_def)
  moreover have "\<not> isl (event_from_row (numbered (sample_row None) sample_repo))" by code_simp
  ultimately show ?thesis
    by (cases "event_from_row (numbered (sample_row None) sample_repo)") auto
qed

theorem audit_append_only_witness:
  "\<exists>ev t. audit_append (sample_env sample_uuid) (sample_request None) sample_repo = (Inr ev, t) \<and>
     (\<exists>row. audit_events t = [row] \<and> event_id row = sample_uuid) \<and>
     state_revision t = state_revision sample_repo + 1"
proof -
  obtain ev t where a: "audit_append (sample_env sample_uuid) (sample_request None) sample_repo = (Inr ev, t)"
    using sample_append by blast
  from audit_append_only [OF sample_repo_ok a] a show ?thesis
    by (auto simp: sample_env_def sample_repo_def)
qed

theorem audit_list_newest_witness:
  "\<exists>ev t. audit_append (sample_env sample_uuid) (sample_request None) sample_repo = (Inr ev, t) \<and>
     audit_list \<lparr>f_operation_id = None, f_action = None, f_actor_type = None, f_result = None\<rparr> 5 t = Inr [ev] \<and>
     map sequence [ev] = [1]"
proof -
  let ?f = "\<lparr>f_operation_id = None, f_action = None, f_actor_type = None, f_result = None\<rparr>"
  obtain ev t where a: "audit_append (sample_env sample_uuid) (sample_request None) sample_repo = (Inr ev, t)"
    "audit_events t = [numbered (sample_row None) sample_repo]" "repo_ok t"
    "require_audit_schema t = Inr ()" "event_from_row (numbered (sample_row None) sample_repo) = Inr ev"
    using sample_append by blast
  then have l: "audit_list ?f 5 t = Inr [ev]"
    by (simp add: audit_list_def matches_def MAX_AUDIT_LIMIT_def require_def)
  from audit_list_newest [OF a(3) l, of None None] a l show ?thesis
    by (auto simp: selected_def matches_def sample_repo_def)
qed

end
