(* ===== verification/Typed_Records.thy ===== *)
theory Typed_Records
  imports Audit_Log
begin

text \<open>
  The record layer of \<open>settings.py\<close>: validators of keys, texts, JSON values, scopes and times, and
  \<open>_create_typed_record\<close> / \<open>_update_typed_record\<close>, which change one record and write one audit
  event in the same transaction. A service call gets the texts its \<open>_utc_now()\<close> calls return and
  the identifiers its \<open>uuid4()\<close> calls return from its \<open>env\<close>.
\<close>

section \<open>Constants\<close>

definition ALLOWED_PERMISSION_MODES :: "string list" where
  "ALLOWED_PERMISSION_MODES = [''denied'', ''allow_once'', ''ask'', ''scoped'']"

definition ALLOWED_MANAGEMENT_ACTORS :: "string list" where
  "ALLOWED_MANAGEMENT_ACTORS = [''user'']"

definition ALLOWED_CONSUME_ACTORS :: "string list" where
  "ALLOWED_CONSUME_ACTORS = [''capability'', ''system'']"

definition SECRET_SCOPE_KEYS :: "string list" where
  "SECRET_SCOPE_KEYS = [''password'', ''passwd'', ''secret'', ''token'', ''api_key'', ''apikey'',
     ''private_key'', ''credential'', ''credentials'', ''authorization'', ''cookie'']"

definition DRIVE_PATH_PATTERN :: rx where
  "DRIVE_PATH_PATTERN = rseq [RCls is_letter_i, rlit '':'', RCls (any_of [CHR 0x5C, CHR ''/''])]"

definition MAX_KEY_LENGTH :: int where "MAX_KEY_LENGTH = 120"
definition MAX_DESCRIPTION_LENGTH :: int where "MAX_DESCRIPTION_LENGTH = 500"
definition MAX_POLICY_RULE_LENGTH :: int where "MAX_POLICY_RULE_LENGTH = 2000"
definition MAX_JSON_BYTES :: int where "MAX_JSON_BYTES = 16384"
definition MAX_SCOPE_BYTES :: int where "MAX_SCOPE_BYTES = 4096"
definition MAX_SCOPE_DEPTH :: int where "MAX_SCOPE_DEPTH = 8"
definition MAX_SCOPE_STRING_LENGTH :: int where "MAX_SCOPE_STRING_LENGTH = 500"
definition MAX_SETTINGS_LIMIT :: int where "MAX_SETTINGS_LIMIT = 200"

section \<open>Validators\<close>

definition require_user_management :: "string \<Rightarrow> unit res" where
  "require_user_management actor =
     require (List.member ALLOWED_MANAGEMENT_ACTORS actor) ForbiddenPermissionMutationError"

definition require_active_record :: "string \<Rightarrow> unit res" where
  "require_active_record stat = require (stat = ''active'') SettingsValidationError"

definition validate_key :: "string \<Rightarrow> string res" where
  "validate_key value =
     (let normalized = strip value in
      bindr (require (\<not> (normalized = [] \<or> MAX_KEY_LENGTH < int (length normalized))) SettingsValidationError) (\<lambda>_.
      bindr (require (re_fullmatch TOKEN_PATTERN normalized) SettingsValidationError) (\<lambda>_.
      Inr normalized)))"

text \<open>\<open>str.splitlines()\<close>: the line boundaries below U+0100, with CR LF counting as one.\<close>

definition is_line_end :: "char \<Rightarrow> bool" where
  "is_line_end c = (let n = ord c in (10 \<le> n \<and> n \<le> 13) \<or> (28 \<le> n \<and> n \<le> 30) \<or> n = 133)"

fun lines_from :: "string \<Rightarrow> string \<Rightarrow> string list" where
  "lines_from acc [] = (if acc = [] then [] else [rev acc])"
| "lines_from acc (c # cs) =
     (if is_line_end c
      then rev acc # lines_from [] (drop (if c = CHR 0x0D \<and> starts_with [CHR 0x0A] cs then 1 else 0) cs)
      else lines_from (c # acc) cs)"

definition splitlines :: "string \<Rightarrow> string list" where
  "splitlines s = lines_from [] s"

definition norm_lines :: "string \<Rightarrow> string" where
  "norm_lines value = join [CHR 0x0A] (map (rstrip_by is_space) (splitlines (strip value)))"

definition validate_text :: "int \<Rightarrow> string \<Rightarrow> string res" where
  "validate_text maximum value =
     (let normalized = norm_lines value in
      bindr (require (\<not> (normalized = [] \<or> maximum < int (length normalized))) SettingsValidationError) (\<lambda>_.
      bindr (require (\<not> list_ex (\<lambda>c. ord c < 32 \<and> c \<noteq> CHR 0x0A \<and> c \<noteq> CHR 0x09) normalized)
               SettingsValidationError) (\<lambda>_.
      Inr normalized)))"

definition normalized_scope_key :: "string \<Rightarrow> string" where
  "normalized_scope_key key =
     map (\<lambda>c. if c = CHR ''-'' \<or> c = CHR '' '' then CHR ''_'' else c) (lower (strip key))"

fun nested_json_ok :: "int \<Rightarrow> json \<Rightarrow> bool" where
  "nested_json_ok depth (JObj kvs) \<longleftrightarrow> \<not> MAX_SCOPE_DEPTH < depth \<and>
     list_all (\<lambda>(key, nested). key \<noteq> [] \<and> \<not> List.member SECRET_SCOPE_KEYS (normalized_scope_key key) \<and>
       nested_json_ok (depth + 1) nested) kvs"
| "nested_json_ok depth (JList xs) \<longleftrightarrow> \<not> MAX_SCOPE_DEPTH < depth \<and> list_all (nested_json_ok (depth + 1)) xs"
| "nested_json_ok depth (JStr value) \<longleftrightarrow> \<not> MAX_SCOPE_DEPTH < depth \<and>
     \<not> MAX_SCOPE_STRING_LENGTH < int (length value) \<and> \<not> list_ex (\<lambda>c. ord c < 32) value \<and>
     \<not> (starts_with ''/'' value \<or> re_match DRIVE_PATH_PATTERN value)"
| "nested_json_ok depth v \<longleftrightarrow> \<not> MAX_SCOPE_DEPTH < depth"

definition validate_json_value :: "int \<Rightarrow> json \<Rightarrow> json res" where
  "validate_json_value maximum value =
     bindr (require (nested_json_ok 0 value) SettingsValidationError) (\<lambda>_.
     bindr (require (all_finite value) SettingsValidationError) (\<lambda>_.
     bindr (require (\<not> maximum < int (utf8_length (encode value))) SettingsValidationError) (\<lambda>_.
     Inr (canon value))))"

definition validate_scope :: "dict \<Rightarrow> dict res" where
  "validate_scope scope =
     bindr (validate_json_value MAX_SCOPE_BYTES (JObj scope)) (\<lambda>v.
     case v of
       JObj normalized \<Rightarrow>
         (case map_of normalized ''kind'' of
            Some (JStr kind) \<Rightarrow>
              bindr (validate_key kind) (\<lambda>k. Inr (dict_put ''kind'' (JStr k) normalized))
          | _ \<Rightarrow> Inl SettingsValidationError)
     | _ \<Rightarrow> Inl SettingsValidationError)"

definition validate_permission_mode :: "string \<Rightarrow> dict \<Rightarrow> string res" where
  "validate_permission_mode mode scope =
     bindr (require (List.member ALLOWED_PERMISSION_MODES mode) SettingsValidationError) (\<lambda>_.
     bindr (require (\<not> (mode = ''scoped'' \<and> (map_of scope ''kind'' = Some (JStr ''global'') \<or> length scope < 2)))
              SettingsValidationError) (\<lambda>_.
     Inr mode))"

definition validate_approval_source :: "string \<Rightarrow> string res" where
  "validate_approval_source value =
     bindr (validate_key value) (\<lambda>safe.
     bindr (require (List.member [''management-cli'', ''management-ui''] safe) ForbiddenPermissionMutationError) (\<lambda>_.
     Inr safe))"

definition validate_utc :: "string \<Rightarrow> string res" where
  "validate_utc value =
     bindr (require (ends_with ''Z'' value) SettingsValidationError) (\<lambda>_.
     case fromisoformat (take (length value - 1) value @ ''+00:00'') of
       None \<Rightarrow> Inl SettingsValidationError
     | Some (_, offset) \<Rightarrow> if offset \<noteq> Some 0 then Inl SettingsValidationError else Inr value)"

definition validate_operation_id :: "env \<Rightarrow> string option \<Rightarrow> string res" where
  "validate_operation_id e value =
     validate_token MAX_IDENTIFIER_LENGTH
       (case value of None \<Rightarrow> other_uuid e | Some v \<Rightarrow> if v = [] then other_uuid e else v)"

definition required_string :: "dict \<Rightarrow> string \<Rightarrow> string res" where
  "required_string m key =
     (case map_of m key of
        Some (JStr value) \<Rightarrow> if value = [] then Inl SettingsValidationError else Inr value
      | _ \<Rightarrow> Inl SettingsValidationError)"

definition optional_string :: "dict \<Rightarrow> string \<Rightarrow> string option res" where
  "optional_string m key =
     (case map_of m key of
        None \<Rightarrow> Inr None
      | Some JNull \<Rightarrow> Inr None
      | Some (JStr value) \<Rightarrow> if value = [] then Inl SettingsValidationError else Inr (Some value)
      | _ \<Rightarrow> Inl SettingsValidationError)"

definition opt_json :: "string option \<Rightarrow> json" where
  "opt_json v = (case v of None \<Rightarrow> JNull | Some t \<Rightarrow> JStr t)"

section \<open>Reading typed records\<close>

definition require_record_type :: "string \<Rightarrow> string \<Rightarrow> repo \<Rightarrow> RecordEnvelope res" where
  "require_record_type i expected s =
     bindr (get_record i s) (\<lambda>r. bindr (require (record_type r = expected) KeyError) (\<lambda>_. Inr r))"

definition newest_records :: "string \<Rightarrow> bool \<Rightarrow> repo \<Rightarrow> RecordRow list" where
  "newest_records rtype include_archived s =
     rev (sort_key (\<lambda>r. (created_at r, rec_id r))
       (filter (\<lambda>r. record_type r = rtype \<and> (include_archived \<or> rec_status r = ''active'')) (records s)))"

definition list_all_typed_records :: "string \<Rightarrow> bool \<Rightarrow> repo \<Rightarrow> RecordEnvelope list res" where
  "list_all_typed_records rtype include_archived s =
     map_res (\<lambda>r. get_record (rec_id r) s) (newest_records rtype include_archived s)"

definition list_typed_records :: "string \<Rightarrow> bool \<Rightarrow> int \<Rightarrow> repo \<Rightarrow> RecordEnvelope list res" where
  "list_typed_records rtype include_archived limit s =
     bindr (require (\<not> (limit < 1 \<or> MAX_SETTINGS_LIMIT < limit)) SettingsValidationError) (\<lambda>_.
     map_res (\<lambda>r. get_record (rec_id r) s) (take (nat limit) (newest_records rtype include_archived s)))"

section \<open>Writing typed records\<close>

record change =
  c_operation_id :: string
  c_actor_type :: string
  c_action :: string
  c_target_type :: string
  c_target_id :: string
  c_metadata :: dict

text \<open>The audit insert that every authoritative writer makes inside its transaction; the writers
  differ in the summary text.\<close>

definition insert_change :: "env \<Rightarrow> change \<Rightarrow> string \<Rightarrow> repo \<Rightarrow> repo res" where
  "insert_change e c summ s =
     bindr (validate_token MAX_ACTION_LENGTH (c_action c)) (\<lambda>act.
     bindr (serialize_metadata_strict (c_metadata c)) (\<lambda>j.
     insert_event
       \<lparr>sequence = 0, event_id = event_uuid e, operation_id = c_operation_id c,
        occurred_at = event_now e, actor_type = c_actor_type c, actor_id = None, action = act,
        target_type = Some (c_target_type c), target_id = Some (c_target_id c),
        result = ''success'', summary = Some summ, error_class = None, event_metadata = Some j\<rparr> s))"

definition insert_audit :: "env \<Rightarrow> change \<Rightarrow> repo \<Rightarrow> repo res" where
  "insert_audit e c = insert_change e c (''Changed '' @ c_target_type c @ '' record'')"

definition database_error :: "exc \<Rightarrow> bool" where
  "database_error x \<longleftrightarrow> x = DatabaseError"

text \<open>The transaction of \<open>_create_typed_record\<close>; \<open>unique\<close> is the identity check that its caller
  selects. A primary key that is taken is an integrity error of the database.\<close>

definition typed_create_body ::
  "env \<Rightarrow> (repo \<Rightarrow> unit res) \<Rightarrow> RecordRow \<Rightarrow> change \<Rightarrow> repo \<Rightarrow> repo res" where
  "typed_create_body e unique row c s =
     rescue database_error StateCorruptError (
       bindr (unique s) (\<lambda>_.
       bindr (require (find_row (rec_id row) (records s) = None) DatabaseError) (\<lambda>_.
       bindr (insert_record row s) (\<lambda>t.
       insert_audit e c t))))"

definition typed_new_row :: "env \<Rightarrow> string \<Rightarrow> string \<Rightarrow> string \<Rightarrow> json \<Rightarrow> RecordRow" where
  "typed_new_row e rtype ttl sens j =
     \<lparr>rec_id = new_uuid e, record_type = rtype, rec_schema_version = 1,
      created_at = utc_now e, updated_at = utc_now e, revision = 1, rec_status = ''active'',
      provenance = ''user-created'', sensitivity = sens, rec_title = Some ttl, metadata = Some j\<rparr>"

definition create_typed_record ::
  "env \<Rightarrow> string \<Rightarrow> string \<Rightarrow> dict \<Rightarrow> string \<Rightarrow> string option \<Rightarrow> string \<Rightarrow> (repo \<Rightarrow> unit res) \<Rightarrow> dict \<Rightarrow>
   (repo, string) op" where
  "create_typed_record e rtype ttl m sens op act unique ameta =
     bind_op (lift_op (\<lambda>s.
       bindr (require (\<not> read_only s) ReadOnlyStateError) (\<lambda>_.
       bindr (validate_record_fields rtype 1 ''active'' ''user-created'' sens) (\<lambda>_.
       bindr (validate_operation_id e op) (\<lambda>safe_op.
       bindr (serialize_metadata m) (\<lambda>j. Inr (safe_op, j)))))))
     (\<lambda>(safe_op, j). write_op e
       (typed_create_body e unique (typed_new_row e rtype ttl sens j)
          \<lparr>c_operation_id = safe_op, c_actor_type = ''user'', c_action = act, c_target_type = rtype,
           c_target_id = new_uuid e, c_metadata = ameta\<rparr>)
       (\<lambda>_. Inr (new_uuid e)))"

definition typed_row :: "string \<Rightarrow> string \<Rightarrow> json \<Rightarrow> RecordRow \<Rightarrow> RecordRow" where
  "typed_row now stat j r = r\<lparr>updated_at := now, revision := revision r + 1, rec_status := stat,
     metadata := Some j\<rparr>"

definition typed_update_body ::
  "env \<Rightarrow> string \<Rightarrow> int \<Rightarrow> string \<Rightarrow> json \<Rightarrow> change \<Rightarrow> repo \<Rightarrow> repo res" where
  "typed_update_body e i expected stat j c s =
     rescue database_error StateCorruptError (
       bindr (get_record i s) (\<lambda>refreshed.
       bindr (require (revision refreshed = expected) StaleRevisionError) (\<lambda>_.
       case find_row i (records s) of
         None \<Rightarrow> Inl StaleRevisionError
       | Some r \<Rightarrow>
           bindr (store_record (typed_row (utc_now e) stat j r) s) (\<lambda>t.
           insert_audit e c t))))"

definition update_typed_record ::
  "env \<Rightarrow> RecordEnvelope \<Rightarrow> int \<Rightarrow> dict \<Rightarrow> string \<Rightarrow> string option \<Rightarrow> string \<Rightarrow> string \<Rightarrow> dict \<Rightarrow>
   (repo, unit) op" where
  "update_typed_record e current expected m stat op actor act ameta =
     bind_op (lift_op (\<lambda>s.
       bindr (require (\<not> read_only s) ReadOnlyStateError) (\<lambda>_.
       bindr (validate_operation_id e op) (\<lambda>safe_op.
       bindr (serialize_metadata m) (\<lambda>j. Inr (safe_op, j))))))
     (\<lambda>(safe_op, j). write_op e
       (typed_update_body e (rec_id current) expected stat j
          \<lparr>c_operation_id = safe_op, c_actor_type = actor, c_action = act,
           c_target_type = record_type current, c_target_id = rec_id current, c_metadata = ameta\<rparr>)
       (\<lambda>_. Inr ()))"

section \<open>The transaction bodies meet the contract\<close>

definition json_ok :: "json \<Rightarrow> bool" where
  "json_ok j \<longleftrightarrow> (\<exists>m. j = JObj m \<and> canon (JObj m) = JObj m \<and> all_finite (JObj m))"

lemma serialize_metadata_ok: "serialize_metadata m = Inr j \<Longrightarrow> json_ok j \<and> j = JObj (canon_dict m)"
  using canon_dict_fix canon_dict_finite
  by (auto simp: serialize_metadata_eq json_ok_def simp del: canon.simps all_finite.simps)

definition audit_row_of :: "env \<Rightarrow> change \<Rightarrow> AuditRow \<Rightarrow> bool" where
  "audit_row_of e c a \<longleftrightarrow> event_id a = event_uuid e \<and> operation_id a = c_operation_id c \<and>
     actor_type a = c_actor_type c \<and> target_type a = Some (c_target_type c) \<and>
     target_id a = Some (c_target_id c) \<and> result a = ''success'' \<and>
     validate_token MAX_ACTION_LENGTH (c_action c) = Inr (action a)"

lemma insert_changeD:
  assumes "insert_change e c summ s = Inr t"
  shows "\<exists>row. insert_event row s = Inr t \<and>
    t = s\<lparr>audit_events := audit_events s @ [numbered row s], last_sequence := last_sequence s + 1\<rparr> \<and>
    audit_row_of e c (numbered row s)"
proof -
  obtain act j where a: "validate_token MAX_ACTION_LENGTH (c_action c) = Inr act"
    and i: "insert_event
       \<lparr>sequence = 0, event_id = event_uuid e, operation_id = c_operation_id c,
        occurred_at = event_now e, actor_type = c_actor_type c, actor_id = None, action = act,
        target_type = Some (c_target_type c), target_id = Some (c_target_id c),
        result = ''success'', summary = Some summ, error_class = None, event_metadata = Some j\<rparr> s = Inr t"
    using assms by (auto simp: insert_change_def)
  from insert_eventD [OF i] i a show ?thesis by (fastforce simp: audit_row_of_def)
qed

lemma insert_change_ok: "repo_ok s \<Longrightarrow> insert_change e c summ s = Inr t \<Longrightarrow> repo_ok t"
  by (auto dest: insert_changeD insert_event_ok)

lemma insert_change_evolves: "insert_change e c summ s = Inr t \<Longrightarrow> evolves s t"
  by (drule insert_changeD) (auto simp: evolves_def row_evolves_def)

lemma insert_change_frame:
  "insert_change e c summ s = Inr t \<Longrightarrow> meta_row t = meta_row s \<and> workspace_revision t = workspace_revision s
     \<and> records t = records s"
  by (drule insert_changeD) auto

lemma insert_change_succeeds:
  assumes "validate_token MAX_ACTION_LENGTH (c_action c) = Inr act" "serialize_metadata_strict (c_metadata c) = Inr j"
    and "event_uuid e \<notin> event_id ` set (audit_events s)"
  shows "\<exists>t. insert_change e c summ s = Inr t"
  using assms by (simp add: insert_change_def insert_event_def)

lemmas insert_auditD = insert_changeD [where c = c and summ = "''Changed '' @ c_target_type c @ '' record''" for c, folded insert_audit_def]
lemmas insert_audit_ok = insert_change_ok [where c = c and summ = "''Changed '' @ c_target_type c @ '' record''" for c, folded insert_audit_def]
lemmas insert_audit_evolves = insert_change_evolves [where c = c and summ = "''Changed '' @ c_target_type c @ '' record''" for c, folded insert_audit_def]
lemmas insert_audit_frame = insert_change_frame [where c = c and summ = "''Changed '' @ c_target_type c @ '' record''" for c, folded insert_audit_def]

lemma insert_recordD: "insert_record r s = Inr t \<Longrightarrow> t = s\<lparr>records := records s @ [r]\<rparr>"
  by (auto simp: insert_record_def split: if_splits)

lemma store_recordD: "store_record r s = Inr t \<Longrightarrow> t = s\<lparr>records := replace_row r (records s)\<rparr>"
  by (auto simp: store_record_def split: if_splits)

lemma typed_create_bodyD:
  assumes "typed_create_body e unique row c s = Inr t"
  shows "unique s = Inr () \<and> find_row (rec_id row) (records s) = None \<and>
    (\<exists>u. insert_record row s = Inr u \<and> insert_audit e c u = Inr t)"
  using assms by (auto simp: typed_create_body_def)

lemma typed_update_bodyD:
  assumes "typed_update_body e i expected stat j c s = Inr t"
  shows "\<exists>r u. find_row i (records s) = Some r \<and> revision r = expected \<and>
    store_record (typed_row (utc_now e) stat j r) s = Inr u \<and> insert_audit e c u = Inr t"
proof -
  obtain old r u where "get_record i s = Inr old" "revision old = expected"
    "find_row i (records s) = Some r" "store_record (typed_row (utc_now e) stat j r) s = Inr u"
    "insert_audit e c u = Inr t"
    using assms by (auto simp: typed_update_body_def split: option.splits)
  then show ?thesis using get_record_row [of i s old r] by auto
qed

lemma typed_row_sel [simp]: "rec_id (typed_row now stat j r) = rec_id r"
  by (simp add: typed_row_def)

lemma typed_row_ok: "stat \<in> set ALLOWED_STATUSES \<Longrightarrow> json_ok j \<Longrightarrow> row_ok r \<Longrightarrow> row_ok (typed_row now stat j r)"
  by (auto simp: row_ok_def typed_row_def json_ok_def)

lemma typed_row_evolves: "row_evolves r (typed_row now stat j r)"
  by (simp add: row_evolves_def typed_row_def)

interpretation typed_create: write_body "row_ok row" "typed_create_body e unique row c" for e unique row c
proof
  fix s t assume "typed_create_body e unique row c s = Inr t"
  then obtain u where u: "find_row (rec_id row) (records s) = None" "insert_record row s = Inr u"
    "insert_audit e c u = Inr t"
    by (auto dest: typed_create_bodyD)
  show "meta_row t = meta_row s \<and> workspace_revision t = workspace_revision s"
    using insert_record_frame [OF u(2)] insert_audit_frame [OF u(3)] by simp
  show "row_ok row \<Longrightarrow> repo_ok s \<Longrightarrow> repo_ok t"
    using insert_record_ok [OF _ _ u(1,2)] insert_audit_ok [OF _ u(3)] by blast
  show "evolves s t"
    using insert_record_evolves [OF u(2)] insert_audit_evolves [OF u(3)] by (rule evolves_trans)
qed

interpretation typed_update: write_body "stat \<in> set ALLOWED_STATUSES \<and> json_ok j"
  "typed_update_body e i expected stat j c" for stat j e i expected c
proof
  fix s t assume "typed_update_body e i expected stat j c s = Inr t"
  then obtain r u where u: "find_row i (records s) = Some r"
    "store_record (typed_row (utc_now e) stat j r) s = Inr u" "insert_audit e c u = Inr t"
    by (auto dest: typed_update_bodyD)
  show "meta_row t = meta_row s \<and> workspace_revision t = workspace_revision s"
    using store_record_frame [OF u(2)] insert_audit_frame [OF u(3)] by simp
  show "stat \<in> set ALLOWED_STATUSES \<and> json_ok j \<Longrightarrow> repo_ok s \<Longrightarrow> repo_ok t"
    using store_record_ok [OF typed_row_ok _ u(2)] repo_ok_row [OF _ u(1)] insert_audit_ok [OF _ u(3)] by blast
  have "evolves s u"
    using u(1,2) find_row_Some [OF u(1)] by (intro store_record_evolves [OF _ typed_row_evolves u(2)]) auto
  then show "evolves s t"
    using insert_audit_evolves [OF u(3)] by (rule evolves_trans)
qed

lemma create_typed_record_cases:
  assumes "repo_ok s" "create_typed_record e rtype ttl m sens op act unique ameta s = (res, t)"
  shows "(isl res \<and> t = s) \<or>
    (\<exists>a. res = Inr (new_uuid e) \<and> repo_ok t \<and> evolves s t \<and> unique s = Inr () \<and>
       find_row (new_uuid e) (records s) = None \<and>
       records t = records s @ [typed_new_row e rtype ttl sens (JObj (canon_dict m))] \<and>
       audit_events t = audit_events s @ [a] \<and> event_id a = event_uuid e \<and>
       target_type a = Some rtype \<and> target_id a = Some (new_uuid e) \<and> actor_type a = ''user'' \<and>
       state_revision t = state_revision s + 1 \<and> workspace_revision t = state_revision t)"
proof (cases "(bindr (require (\<not> read_only s) ReadOnlyStateError) (\<lambda>_.
       bindr (validate_record_fields rtype 1 ''active'' ''user-created'' sens) (\<lambda>_.
       bindr (validate_operation_id e op) (\<lambda>safe_op.
       bindr (serialize_metadata m) (\<lambda>j. Inr (safe_op, j))))))")
  case (Inl x)
  with assms(2) show ?thesis by (auto simp: create_typed_record_def bind_lift)
next
  case (Inr v)
  obtain safe_op j where v: "v = (safe_op, j)" by (cases v)
  let ?row = "typed_new_row e rtype ttl sens j"
  let ?c = "\<lparr>c_operation_id = safe_op, c_actor_type = ''user'', c_action = act, c_target_type = rtype,
           c_target_id = new_uuid e, c_metadata = ameta\<rparr>"
  have j: "json_ok j" "j = JObj (canon_dict m)" "sens \<in> set ALLOWED_SENSITIVITY"
    using Inr v by (auto dest!: serialize_metadata_ok validate_record_fields_ok)
  then have row: "row_ok ?row"
    by (auto simp: row_ok_def json_ok_def typed_new_row_def ALLOWED_STATUSES_def ALLOWED_PROVENANCE_def)
  have w: "write_op e (typed_create_body e unique ?row ?c) (\<lambda>_. Inr (new_uuid e)) s = (res, t)"
    using assms(2) Inr v by (simp add: create_typed_record_def bind_lift)
  from typed_create.write_op_cases [OF assms(1) w] show ?thesis
  proof
    assume "\<exists>u. typed_create_body e unique ?row ?c s = Inr u \<and> t = advance e u \<and> res = Inr (new_uuid e) \<and>
       state_revision t = state_revision s + 1 \<and> workspace_revision t = state_revision t"
    then obtain u where u: "typed_create_body e unique ?row ?c s = Inr u" "t = advance e u"
       "res = Inr (new_uuid e)" "state_revision t = state_revision s + 1"
       "workspace_revision t = state_revision t" by blast
    obtain x where x: "unique s = Inr ()" "find_row (new_uuid e) (records s) = None"
      "insert_record ?row s = Inr x" "insert_audit e ?c x = Inr u"
      using typed_create_bodyD [OF u(1)] by (auto simp: typed_new_row_def)
    obtain a where "audit_events u = audit_events x @ [a]" "audit_row_of e ?c a" "records u = records x"
      using insert_auditD [OF x(4)] by auto
    then show ?thesis
      using u x j insert_recordD [OF x(3)] typed_create.write_op_ok [OF row assms(1) w]
        typed_create.write_op_evolves [OF assms(1) w]
      by (intro disjI2 exI [of _ a]) (simp add: audit_row_of_def)
  qed auto
qed

lemma create_typed_record_ok:
  assumes "repo_ok s" "\<not> read_only s" "validate_record_fields rtype 1 ''active'' ''user-created'' sens = Inr ()"
    and "validate_operation_id e op = Inr oid" "all_finite (JObj m)" "unique s = Inr ()"
    and "find_row (new_uuid e) (records s) = None" "rtype \<noteq> ''model_binding''"
    and "validate_token MAX_ACTION_LENGTH act = Inr act'" "serialize_metadata_strict ameta = Inr j"
    and "event_uuid e \<notin> event_id ` set (audit_events s)"
  shows "\<exists>t. create_typed_record e rtype ttl m sens op act unique ameta s = (Inr (new_uuid e), t)"
proof -
  let ?row = "typed_new_row e rtype ttl sens (JObj (canon_dict m))"
  let ?c = "\<lparr>c_operation_id = oid, c_actor_type = ''user'', c_action = act, c_target_type = rtype,
           c_target_id = new_uuid e, c_metadata = ameta\<rparr>"
  have "binding_scope ?row = None" using assms(8) by (simp add: binding_scope_def typed_new_row_def)
  then have "insert_record ?row s = Inr (s\<lparr>records := records s @ [?row]\<rparr>)"
    by (simp add: insert_record_def index_admits_def)
  then have "\<exists>u. typed_create_body e unique ?row ?c s = Inr u"
    using assms by (simp add: typed_create_body_def insert_audit_def insert_change_def insert_event_def require_def typed_new_row_def)
  then show ?thesis
    using assms typed_create.write_op_eq [OF assms(1), of e e unique ?row ?c "\<lambda>_. Inr (new_uuid e)"]
    by (auto simp: create_typed_record_def bind_lift serialize_metadata_def require_def simp del: all_finite.simps)
qed

lemma update_typed_record_cases:
  assumes "repo_ok s" "stat \<in> set ALLOWED_STATUSES"
    and "update_typed_record e current expected m stat op actor act ameta s = (res, t)"
  shows "(isl res \<and> t = s) \<or>
    (\<exists>row a. res = Inr () \<and> repo_ok t \<and> evolves s t \<and> find_row (rec_id current) (records s) = Some row \<and>
       revision row = expected \<and>
       records t = replace_row (typed_row (utc_now e) stat (JObj (canon_dict m)) row) (records s) \<and>
       audit_events t = audit_events s @ [a] \<and> event_id a = event_uuid e \<and> actor_type a = actor \<and>
       target_type a = Some (record_type current) \<and> target_id a = Some (rec_id current) \<and>
       state_revision t = state_revision s + 1 \<and> workspace_revision t = state_revision t)"
proof (cases "(bindr (require (\<not> read_only s) ReadOnlyStateError) (\<lambda>_.
       bindr (validate_operation_id e op) (\<lambda>safe_op.
       bindr (serialize_metadata m) (\<lambda>j. Inr (safe_op, j)))))")
  case (Inl x)
  with assms(3) show ?thesis by (auto simp: update_typed_record_def bind_lift)
next
  case (Inr v)
  obtain safe_op j where v: "v = (safe_op, j)" by (cases v)
  let ?c = "\<lparr>c_operation_id = safe_op, c_actor_type = actor, c_action = act,
           c_target_type = record_type current, c_target_id = rec_id current, c_metadata = ameta\<rparr>"
  let ?body = "typed_update_body e (rec_id current) expected stat j ?c"
  have j: "json_ok j" "j = JObj (canon_dict m)"
    using Inr v by (auto dest!: serialize_metadata_ok)
  have w: "write_op e ?body (\<lambda>_. Inr ()) s = (res, t)"
    using assms(3) Inr v by (simp add: update_typed_record_def bind_lift)
  from typed_update.write_op_cases [OF assms(1) w] show ?thesis
  proof
    assume "\<exists>u. ?body s = Inr u \<and> t = advance e u \<and> res = Inr () \<and>
       state_revision t = state_revision s + 1 \<and> workspace_revision t = state_revision t"
    then obtain u where u: "?body s = Inr u" "t = advance e u"
       "res = Inr ()" "state_revision t = state_revision s + 1"
       "workspace_revision t = state_revision t" by blast
    obtain row x where x: "find_row (rec_id current) (records s) = Some row" "revision row = expected"
      "store_record (typed_row (utc_now e) stat j row) s = Inr x" "insert_audit e ?c x = Inr u"
      using typed_update_bodyD [OF u(1)] by auto
    obtain a where "audit_events u = audit_events x @ [a]" "audit_row_of e ?c a" "records u = records x"
      using insert_auditD [OF x(4)] by auto
    then show ?thesis
      using u x j(2) store_recordD [OF x(3)] typed_update.write_op_ok [OF conjI [OF assms(2) j(1)] assms(1) w]
        typed_update.write_op_evolves [OF assms(1) w]
      by (intro disjI2 exI [of _ row] exI [of _ a]) (simp add: audit_row_of_def)
  qed auto
qed

lemma update_typed_record_ok:
  assumes "repo_ok s" "\<not> read_only s" "validate_operation_id e op = Inr oid" "all_finite (JObj m)"
    and "get_record (rec_id current) s = Inr r" "revision r = expected" "record_type r \<noteq> ''model_binding''"
    and "validate_token MAX_ACTION_LENGTH act = Inr act'" "serialize_metadata_strict ameta = Inr j"
    and "event_uuid e \<notin> event_id ` set (audit_events s)"
  shows "\<exists>t. update_typed_record e current expected m stat op actor act ameta s = (Inr (), t)"
proof -
  let ?c = "\<lparr>c_operation_id = oid, c_actor_type = actor, c_action = act,
           c_target_type = record_type current, c_target_id = rec_id current, c_metadata = ameta\<rparr>"
  obtain row where row: "find_row (rec_id current) (records s) = Some row" using get_recordD [OF assms(5)] by blast
  let ?row = "typed_row (utc_now e) stat (JObj (canon_dict m)) row"
  have "binding_scope ?row = None"
    using assms(7) get_record_row [OF assms(5) row] by (simp add: binding_scope_def typed_row_def)
  then have "store_record ?row s = Inr (s\<lparr>records := replace_row ?row (records s)\<rparr>)"
    by (simp add: store_record_def index_admits_def)
  then have "\<exists>u. typed_update_body e (rec_id current) expected stat (JObj (canon_dict m)) ?c s = Inr u"
    using assms row by (simp add: typed_update_body_def insert_audit_def insert_change_def insert_event_def require_def)
  then show ?thesis
    using assms typed_update.write_op_eq [OF assms(1), of e e "rec_id current" expected stat "JObj (canon_dict m)" ?c "\<lambda>_. Inr ()"]
    by (auto simp: update_typed_record_def bind_lift serialize_metadata_def require_def simp del: all_finite.simps)
qed

section \<open>Validators return normal forms\<close>

interpretation key: normalizer validate_key
  by unfold_locales (auto simp: validate_key_def Let_def)

interpretation approval: normalizer validate_approval_source
  by unfold_locales (auto simp: validate_approval_source_def key.norm_idem)

interpretation utc: normalizer validate_utc
  by unfold_locales (auto simp: validate_utc_def split: option.splits if_splits)

lemma strip_ends: "strip s \<noteq> [] \<Longrightarrow> \<not> is_space (hd (strip s)) \<and> \<not> is_space (last (strip s))"
  using stripped_strip [of s] by (simp add: stripped_def)

lemma line_end_space: "is_line_end c \<Longrightarrow> is_space c"
  by (auto simp: is_line_end_def is_space_def Let_def)

definition line_ok :: "string \<Rightarrow> bool" where
  "line_ok l \<longleftrightarrow> (\<forall>c \<in> set l. \<not> is_line_end c) \<and> (l = [] \<or> \<not> is_space (last l))"

lemma lines_from_no_end:
  "(\<forall>c \<in> set acc. \<not> is_line_end c) \<Longrightarrow> l \<in> set (lines_from acc s) \<Longrightarrow> (\<forall>c \<in> set l. \<not> is_line_end c)"
proof (induction acc s rule: lines_from.induct)
  case (2 acc c cs)
  let ?n = "if c = CHR 0x0D \<and> starts_with [CHR 0x0A] cs then 1 else 0 :: nat"
  show ?case
  proof (cases "is_line_end c")
    case True
    then have "l = rev acc \<or> l \<in> set (lines_from [] (drop ?n cs))"
      using "2.prems"(2) by (simp only: lines_from.simps if_True list.set) blast
    then show ?thesis using "2.prems"(1) "2.IH"(1) [OF True] by auto
  next
    case False
    then show ?thesis using "2.prems" "2.IH"(2) by simp
  qed
qed (auto split: if_splits)

lemma lines_from_plain: "(\<forall>c \<in> set l. \<not> is_line_end c) \<Longrightarrow> lines_from acc (l @ s) = lines_from (rev l @ acc) s"
  by (induction l arbitrary: acc) auto

lemma lf_is_line_end: "is_line_end CHR 0x0A"
  by code_simp

lemma splitlines_join:
  "(\<forall>l \<in> set ls. \<forall>c \<in> set l. \<not> is_line_end c) \<Longrightarrow> ls \<noteq> [] \<Longrightarrow> last ls \<noteq> [] \<Longrightarrow>
     splitlines (join [CHR 0x0A] ls) = ls"
proof (induction "[CHR 0x0A]" ls rule: join.induct)
  case (2 w)
  then show ?case using lines_from_plain [of w "[]" "[]"] by (simp add: splitlines_def)
next
  case (3 w v ws)
  then have "splitlines (join [CHR 0x0A] (v # ws)) = v # ws" by auto
  then show ?case
    using "3.prems" lf_is_line_end lines_from_plain [of w "[]" "CHR 0x0A # join [CHR 0x0A] (v # ws)"]
    by (simp add: splitlines_def)
qed simp

lemma rstrip_fix: "s = [] \<or> \<not> p (last s) \<Longrightarrow> rstrip_by p s = s"
  by (cases s rule: rev_cases) (auto simp: rstrip_by_def)

lemma lines_from_last: "s \<noteq> [] \<Longrightarrow> \<not> is_line_end (last s) \<Longrightarrow>
    lines_from acc s \<noteq> [] \<and> last (lines_from acc s) \<noteq> [] \<and> last (last (lines_from acc s)) = last s"
proof (induction s arbitrary: acc rule: length_induct)
  case (1 s)
  then obtain c cs where s: "s = c # cs" by (cases s) auto
  show ?case
  proof (cases "cs = []")
    case True
    then show ?thesis using 1 s by simp
  next
    case False
    let ?n = "if c = CHR 0x0D \<and> starts_with [CHR 0x0A] cs then 1 else 0 :: nat"
    have "drop ?n cs \<noteq> []"
      using 1(3) False s lf_is_line_end by (cases cs) (auto split: if_splits)
    moreover have "last (drop ?n cs) = last s" using calculation s False by (simp add: last_drop)
    ultimately show ?thesis
      using 1 s False by (cases "is_line_end c") (auto simp: le_imp_less_Suc)
  qed
qed

lemma lines_from_hd: "acc \<noteq> [] \<Longrightarrow>
    lines_from acc s \<noteq> [] \<and> hd (lines_from acc s) \<noteq> [] \<and> hd (hd (lines_from acc s)) = last acc"
proof (induction s arbitrary: acc)
  case (Cons c cs)
  then show ?case by (cases "is_line_end c") (auto simp: hd_rev)
qed (simp add: hd_rev)

lemma last_join: "ls \<noteq> [] \<Longrightarrow> last ls \<noteq> [] \<Longrightarrow> join sep ls \<noteq> [] \<and> last (join sep ls) = last (last ls)"
  by (induction sep ls rule: join.induct) auto

lemma hd_join: "ls \<noteq> [] \<Longrightarrow> hd ls \<noteq> [] \<Longrightarrow> hd (join sep ls) = hd (hd ls)"
  by (induction sep ls rule: join.induct) auto

lemma norm_lines_idem [simp, text_simps]: "norm_lines (norm_lines value) = norm_lines value"
proof (cases "strip value = []")
  case True
  moreover have "strip [] = []" by (simp add: strip_def lstrip_def rstrip_by_def)
  ultimately show ?thesis by (simp add: norm_lines_def splitlines_def)
next
  case False
  let ?v = "strip value"
  let ?raw = "splitlines ?v"
  let ?ls = "map (rstrip_by is_space) ?raw"
  have ends: "\<not> is_space (hd ?v)" "\<not> is_space (last ?v)" using strip_ends [OF False] by auto
  then have nle: "\<not> is_line_end (hd ?v)" "\<not> is_line_end (last ?v)" using line_end_space by blast+
  have l: "?raw \<noteq> []" "last ?raw \<noteq> []" "last (last ?raw) = last ?v"
    using lines_from_last [OF False nle(2), of "[]"] by (auto simp: splitlines_def)
  obtain c cs where c: "?v = c # cs" using False by (cases ?v) auto
  have h: "hd ?raw \<noteq> []" "hd (hd ?raw) = hd ?v"
    using lines_from_hd [of "[c]" cs] c nle(1) by (auto simp: splitlines_def)
  have no_end: "\<forall>x \<in> set ?ls. \<forall>c \<in> set x. \<not> is_line_end c"
    using lines_from_no_end [of "[]" _ ?v] set_rstrip_by by (fastforce simp: splitlines_def)
  have last_l: "last ?ls = last ?raw" using l ends(2) by (simp add: last_map rstrip_fix)
  have hd_keep: "rstrip_by is_space x \<noteq> [] \<and> hd (rstrip_by is_space x) = hd x"
    if "x \<noteq> []" "\<not> is_space (hd x)" for x
  proof -
    have "rstrip_by is_space x \<noteq> []"
      using that by (auto simp: rstrip_by_def dropWhile_eq_Nil_conv intro: hd_in_set)
    then show ?thesis using rstrip_by_hd by blast
  qed
  then have hd_l: "hd ?ls \<noteq> []" "hd (hd ?ls) = hd ?v"
    using h ends(1) l(1) by (auto simp: hd_map)
  let ?t = "join [CHR 0x0A] ?ls"
  have "?t \<noteq> []" "last ?t = last ?v" "hd ?t = hd ?v"
    using last_join [of ?ls] hd_join [of ?ls] l last_l hd_l by auto
  then have "strip ?t = ?t" using ends by (intro strip_fix) (auto simp: stripped_def)
  moreover have "splitlines ?t = ?ls" using splitlines_join [OF no_end] l last_l by auto
  moreover have "map (rstrip_by is_space) ?ls = ?ls"
    using rstrip_by_last by (auto intro!: map_idI rstrip_fix)
  ultimately show ?thesis unfolding norm_lines_def by (simp only:)
qed

interpretation text_value: normalizer "validate_text n" for n
  by unfold_locales (auto simp: validate_text_def Let_def)

section \<open>JSON values and scopes\<close>

lemma nested_json_canon [simp]: "nested_json_ok d (canon v) = nested_json_ok d v"
proof (induction v arbitrary: d rule: json_induct)
  case (JObj kvs)
  then show ?case by (auto simp: list_all_iff)
next
  case (JList xs)
  then show ?case by (auto simp: list_all_iff)
qed simp_all

interpretation json_value: normalizer "validate_json_value n" for n
  by unfold_locales (auto simp: validate_json_value_def encode_def)

definition keys_sorted :: "dict \<Rightarrow> bool" where
  "keys_sorted d \<longleftrightarrow> sorted (map fst d)"

lemma dict_put_keys: "k \<in> fst ` set d \<Longrightarrow> map fst (dict_put k v d) = map fst d"
  by (induction d) (auto simp: dict_put_def)

lemma dict_put_same:
  assumes "distinct (map fst d)" "map_of d k = Some v"
  shows "dict_put k v d = d"
proof -
  have k: "k \<in> fst ` set d" using map_of_SomeD [OF assms(2)] by force
  have "map (\<lambda>(j, w). if j = k then (j, v) else (j, w)) d = d"
  proof (rule map_idI)
    fix x assume x: "x \<in> set d"
    obtain j w where jw: "x = (j, w)" by (cases x)
    then have "map_of d j = Some w" using x assms(1) by (simp add: map_of_is_SomeI)
    then show "(case x of (j, w) \<Rightarrow> if j = k then (j, v) else (j, w)) = x"
      using assms(2) jw by auto
  qed
  with k show ?thesis by (simp add: dict_put_def)
qed

lemma map_of_update_values:
  "map_of (map (\<lambda>(j, w). if j = k then (j, v) else (j, w)) d) i =
     (if i = k then map_option (\<lambda>_. v) (map_of d k) else map_of d i)"
  by (induction d) auto

lemma map_of_dict_put: "map_of (dict_put k v d) j = (if j = k then Some v else map_of d j)"
proof (cases "k \<in> fst ` set d")
  case True
  then obtain w where "map_of d k = Some w" by (metis map_of_eq_None_iff not_Some_eq)
  with True show ?thesis by (simp add: dict_put_def map_of_update_values)
next
  case False
  then have "map_of d k = None" by (simp add: map_of_eq_None_iff)
  with False show ?thesis by (auto simp: dict_put_def map_add_def split: option.splits)
qed

lemma validate_key_inv: "validate_key v = Inr k \<Longrightarrow> k = strip v \<and> is_token k \<and> int (length k) \<le> MAX_KEY_LENGTH"
  by (auto simp: validate_key_def Let_def fullmatch_TOKEN_PATTERN)

text \<open>A validated scope: canonical, finite, within the limits, and with a normalised kind.\<close>

lemma validate_scopeD:
  assumes "validate_scope scp = Inr sc"
  shows "\<exists>kind k. map_of (canon_dict scp) ''kind'' = Some (JStr kind) \<and> validate_key kind = Inr k \<and>
    sc = dict_put ''kind'' (JStr k) (canon_dict scp) \<and> nested_json_ok 0 (JObj scp) \<and> all_finite (JObj scp) \<and>
    int (utf8_length (encode (JObj scp))) \<le> MAX_SCOPE_BYTES"
  using assms unfolding validate_scope_def validate_json_value_def
  by (auto simp del: all_finite.simps nested_json_ok.simps split: option.splits json.splits)

lemma utf8_append [simp]: "utf8_length (a @ b) = utf8_length a + utf8_length b"
  by (simp add: utf8_length_def)

lemma utf8_Cons [simp]: "utf8_length (c # s) = (if ord c < 128 then 1 else 2) + utf8_length s"
  by (simp add: utf8_length_def)

lemma utf8_concat: "utf8_length (concat ws) = sum_list (map utf8_length ws)"
  by (induction ws) (auto simp: utf8_length_def)

lemma utf8_join_mono:
  "list_all2 (\<lambda>a b. utf8_length a \<le> utf8_length b) xs ys \<Longrightarrow> utf8_length (join sep xs) \<le> utf8_length (join sep ys)"
proof (induction xs ys rule: list_all2_induct)
  case (Cons x xs y ys)
  then show ?case by (cases xs; cases ys) (auto simp: join_Cons)
qed simp

lemma strip_infix: "\<exists>a b. s = a @ strip s @ b"
proof -
  have "s = takeWhile is_space s @ lstrip s" by (simp add: lstrip_def)
  moreover obtain t where "lstrip s = strip s @ t"
    using rstrip_by_prefix [of "lstrip s" is_space] by (auto simp: strip_def)
  ultimately show ?thesis by metis
qed

lemma utf8_strip_string: "utf8_length (json_string (strip s)) \<le> utf8_length (json_string s)"
proof -
  obtain a b where "s = a @ strip s @ b" using strip_infix by blast
  then have "utf8_length (concat (map esc_char s)) =
      utf8_length (concat (map esc_char a)) + utf8_length (concat (map esc_char (strip s))) +
      utf8_length (concat (map esc_char b))"
    by (metis (no_types, lifting) concat_append map_append utf8_append add.assoc)
  moreover have "utf8_length (json_string t) = utf8_length (concat (map esc_char t)) + 2" for t
    by (simp add: json_string_def utf8_length_def ord_def)
  ultimately show ?thesis by simp
qed

lemma dict_put_shape:
  "k \<in> fst ` set d \<Longrightarrow> dict_put k v d = map (\<lambda>(j, w). if j = k then (j, v) else (j, w)) d"
  by (simp add: dict_put_def)

lemma utf8_dict_put_strip:
  assumes "distinct (map fst d)" "map_of d k = Some (JStr s)"
  shows "utf8_length (dumps (JObj (dict_put k (JStr (strip s)) d))) \<le> utf8_length (dumps (JObj d))"
proof -
  have k: "k \<in> fst ` set d" using map_of_SomeD [OF assms(2)] by force
  let ?f = "\<lambda>(j, w). json_string j @ '':'' @ dumps w"
  have "list_all2 (\<lambda>a b. utf8_length a \<le> utf8_length b)
      (map ?f (map (\<lambda>(j, w). if j = k then (j, JStr (strip s)) else (j, w)) d)) (map ?f d)"
    unfolding list_all2_map1 list_all2_map2
  proof (rule list.rel_refl_strong)
    fix x assume "x \<in> set d"
    moreover obtain j w where x: "x = (j, w)" by (cases x)
    ultimately have "map_of d j = Some w" using assms(1) by (simp add: map_of_is_SomeI)
    then have "w = JStr s" if "j = k" using assms(2) that by auto
    then show "utf8_length (?f (case x of (j, w) \<Rightarrow> if j = k then (j, JStr (strip s)) else (j, w))) \<le> utf8_length (?f x)"
      using x utf8_strip_string [of s] by auto
  qed
  then show ?thesis
    unfolding dict_put_shape [OF k] by (simp del: map_map add: utf8_join_mono)
qed

lemma token_scope_string:
  assumes "is_token k" "int (length k) \<le> MAX_KEY_LENGTH"
  shows "nested_json_ok 1 (JStr k)"
proof -
  obtain c cs where k: "k = c # cs" "is_alnum_ascii c" "list_all token_char cs"
    using assms(1) by (cases k) auto
  have tc: "token_char d \<Longrightarrow> \<not> ord d < 32 \<and> d \<noteq> CHR ''/'' \<and> d \<noteq> CHR 0x5C" for d
    by (auto simp: token_char_def is_alnum_ascii_def is_upper_ascii_def is_lower_ascii_def is_digit_def ord_def)
  have c: "token_char c" using k(2) by (simp add: token_char_def)
  have "\<not> re_match DRIVE_PATH_PATTERN k"
  proof (cases cs)
    case (Cons d ds)
    then show ?thesis using k tc
      by (cases ds) (auto simp: re_match_def DRIVE_PATH_PATTERN_def rlit_def)
  qed (use k in \<open>simp add: re_match_def DRIVE_PATH_PATTERN_def rlit_def\<close>)
  then show ?thesis
    using assms(2) k c tc
    by (auto simp: MAX_SCOPE_DEPTH_def MAX_SCOPE_STRING_LENGTH_def MAX_KEY_LENGTH_def list_ex_iff list_all_iff)
qed

lemma validate_scope_idem:
  assumes "distinct (map fst scp)" "validate_scope scp = Inr sc"
  shows "validate_scope sc = Inr sc \<and> canon (JObj sc) = JObj sc \<and> distinct (map fst sc)"
proof -
  let ?d = "canon_dict scp"
  obtain kind k where k: "map_of ?d ''kind'' = Some (JStr kind)" "validate_key kind = Inr k"
    "sc = dict_put ''kind'' (JStr k) ?d" "nested_json_ok 0 (JObj scp)" "all_finite (JObj scp)"
    "int (utf8_length (encode (JObj scp))) \<le> MAX_SCOPE_BYTES"
    using validate_scopeD [OF assms(2)] by auto
  have key: "k = strip kind" "is_token k" "int (length k) \<le> MAX_KEY_LENGTH" "validate_key k = Inr k"
    using validate_key_inv [OF k(2)] key.norm_idem [OF k(2)] by auto
  have dd: "distinct (map fst ?d)" using assms(1) by (simp add: distinct_map_sort_key comp_def case_prod_unfold)
  have kin: "''kind'' \<in> fst ` set ?d" using map_of_SomeD [OF k(1)] by force
  have keys: "map fst sc = map fst ?d" using k(3) kin by (simp only: dict_put_keys)
  have vals: "canon w = w" if "(j, w) \<in> set sc" for j w
    using that unfolding k(3) dict_put_shape [OF kin] by (auto split: if_splits)
  have sorted: "sorted (map fst sc)" unfolding keys by simp
  have "map (\<lambda>(j, w). (j, canon w)) sc = sc" using vals by (intro map_idI) auto
  then have canon: "canon (JObj sc) = JObj sc" using sort_key_fixpoint [OF sorted] by simp
  have nested: "nested_json_ok 0 (JObj sc)"
    using k(4) nested_json_canon [of 0 "JObj scp"] token_scope_string [OF key(2,3)]
    unfolding k(3) dict_put_shape [OF kin] by (auto simp: list_all_iff split: if_splits)
  have fin: "all_finite (JObj sc)"
    using k(5) unfolding k(3) dict_put_shape [OF kin] by (auto simp: list_all_iff split: if_splits)
  have "utf8_length (encode (JObj sc)) \<le> utf8_length (encode (JObj scp))"
    using utf8_dict_put_strip [OF dd k(1)] canon unfolding k(3) key(1) encode_def by simp
  then have "validate_json_value MAX_SCOPE_BYTES (JObj sc) = Inr (JObj sc)"
    using k(6) nested fin canon by (simp add: validate_json_value_def require_def del: canon.simps all_finite.simps nested_json_ok.simps)
  moreover have kk: "map_of sc ''kind'' = Some (JStr k)" using k(3) by (simp only: map_of_dict_put if_True simp_thms)
  moreover have ds: "distinct (map fst sc)" using dd keys by (simp only:)
  ultimately show ?thesis
    using canon key(4) dict_put_same [OF ds kk] by (simp add: validate_scope_def del: canon.simps)
qed

end
