(* ===== verification/Settings.thy ===== *)
theory Settings
  imports Typed_Records
begin

text \<open>
  The three services of \<open>settings.py\<close>: preferences, policies and permissions. A typed record is
  validated again whenever it is read. \<open>at\<close> is the text that a \<open>_utc_now()\<close> call of the service
  returns and \<open>clock\<close> the value of \<open>datetime.now(UTC)\<close> in microseconds, on the scale of
  \<open>fromisoformat\<close>.
\<close>

section \<open>Data\<close>

record typed_info =
  i_record_id :: string
  i_revision :: int
  i_status :: string
  i_sensitivity :: string
  i_created_at :: string
  i_updated_at :: string

record PreferenceInfo = typed_info +
  pref_key :: string
  pref_value :: json
  pref_description :: "string option"

record PolicyInfo = typed_info +
  policy_key :: string
  policy_rule :: string
  policy_enabled :: bool

record PermissionInfo = typed_info +
  capability_id :: string
  scope :: dict
  mode :: string
  expires_at :: "string option"
  approval_source :: string
  last_changed_at :: string
  last_used_at :: "string option"
  remaining_uses :: "int option"

datatype DecisionReason = reason_active | reason_expired | reason_consumed | reason_archived | reason_no_record

record PermissionDecision =
  dec_record_id :: "string option"
  dec_capability_id :: string
  dec_scope :: dict
  effective_mode :: string
  dec_reason :: DecisionReason

definition canonical_json :: "dict \<Rightarrow> string" where
  "canonical_json d = encode (JObj d)"

definition permission_identity :: "string \<Rightarrow> dict \<Rightarrow> string" where
  "permission_identity cap scp = cap @ [CHR 0x00] @ canonical_json scp"

text \<open>\<open>_permission_metadata\<close>; \<open>uses\<close> is \<open>None\<close> when the caller leaves \<open>remaining_uses\<close> out.\<close>

definition permission_metadata ::
  "string \<Rightarrow> dict \<Rightarrow> string \<Rightarrow> string option \<Rightarrow> string \<Rightarrow> string \<Rightarrow> string option \<Rightarrow> int option option \<Rightarrow> dict" where
  "permission_metadata cap scp md expires source changed used uses =
     [(''capability_id'', JStr cap), (''scope'', JObj scp), (''mode'', JStr md),
      (''expires_at'', opt_json expires), (''approval_source'', JStr source),
      (''last_changed_at'', JStr changed), (''last_used_at'', opt_json used),
      (''remaining_uses'',
        (case uses of
           None \<Rightarrow> if md = ''allow_once'' then JInt 1 else JNull
         | Some None \<Rightarrow> JNull
         | Some (Some n) \<Rightarrow> JInt n)),
      (''permission_identity'', JStr (permission_identity cap scp))]"

definition permission_metadata_from_info :: "PermissionInfo \<Rightarrow> dict" where
  "permission_metadata_from_info p =
     permission_metadata (capability_id p) (scope p) (mode p) (expires_at p) (approval_source p)
       (last_changed_at p) (last_used_at p) (Some (remaining_uses p))"

section \<open>Reading\<close>

definition is_malformed :: "exc \<Rightarrow> bool" where
  "is_malformed x \<longleftrightarrow> x = KeyError \<or> x = SettingsValidationError \<or> x = ValueError"

definition is_malformed_permission :: "exc \<Rightarrow> bool" where
  "is_malformed_permission x \<longleftrightarrow> is_malformed x \<or> x = ForbiddenPermissionMutationError \<or> x = AssertionError"

definition preference_from_record :: "RecordEnvelope \<Rightarrow> PreferenceInfo res" where
  "preference_from_record r = rescue is_malformed SettingsCorruptError (
     bindr (bindr (required_string (metadata r) ''preference_key'') validate_key) (\<lambda>key.
     bindr (bindr (of_option KeyError (map_of (metadata r) ''value'')) (validate_json_value MAX_JSON_BYTES)) (\<lambda>value.
     bindr (bindr (optional_string (metadata r) ''description'') (opt_res (validate_text MAX_DESCRIPTION_LENGTH))) (\<lambda>descr.
     Inr \<lparr>i_record_id = rec_id r, i_revision = revision r, i_status = rec_status r,
          i_sensitivity = sensitivity r, i_created_at = created_at r, i_updated_at = updated_at r,
          pref_key = key, pref_value = value, pref_description = descr\<rparr>))))"

definition policy_from_record :: "RecordEnvelope \<Rightarrow> PolicyInfo res" where
  "policy_from_record r = rescue is_malformed SettingsCorruptError (
     bindr (bindr (required_string (metadata r) ''policy_key'') validate_key) (\<lambda>key.
     bindr (bindr (required_string (metadata r) ''rule'') (validate_text MAX_POLICY_RULE_LENGTH)) (\<lambda>rule.
     bindr (case map_of (metadata r) ''enabled'' of None \<Rightarrow> Inl KeyError | Some (JBool b) \<Rightarrow> Inr b
            | Some _ \<Rightarrow> Inl SettingsValidationError) (\<lambda>enabled.
     Inr \<lparr>i_record_id = rec_id r, i_revision = revision r, i_status = rec_status r,
          i_sensitivity = sensitivity r, i_created_at = created_at r, i_updated_at = updated_at r,
          policy_key = key, policy_rule = rule, policy_enabled = enabled\<rparr>))))"

definition read_remaining_uses :: "dict \<Rightarrow> int option res" where
  "read_remaining_uses m =
     (case map_of m ''remaining_uses'' of
        None \<Rightarrow> Inr None
      | Some JNull \<Rightarrow> Inr None
      | Some (JInt n) \<Rightarrow> if n = 0 \<or> n = 1 then Inr (Some n) else Inl SettingsValidationError
      | Some _ \<Rightarrow> Inl SettingsValidationError)"

definition permission_from_record :: "RecordEnvelope \<Rightarrow> PermissionInfo res" where
  "permission_from_record r = rescue is_malformed_permission SettingsCorruptError (
     let m = metadata r in
     bindr (bindr (required_string m ''capability_id'') validate_key) (\<lambda>cap.
     bindr (case map_of m ''scope'' of None \<Rightarrow> Inl KeyError | Some (JObj raw) \<Rightarrow> validate_scope raw
            | Some _ \<Rightarrow> Inl SettingsValidationError) (\<lambda>scp.
     bindr (bindr (required_string m ''mode'') (\<lambda>t. validate_permission_mode t scp)) (\<lambda>md.
     bindr (bindr (optional_string m ''expires_at'') (opt_res validate_utc)) (\<lambda>expires.
     bindr (bindr (required_string m ''approval_source'') validate_approval_source) (\<lambda>source.
     bindr (bindr (required_string m ''last_changed_at'') validate_utc) (\<lambda>changed.
     bindr (bindr (optional_string m ''last_used_at'') (opt_res validate_utc)) (\<lambda>used.
     bindr (read_remaining_uses m) (\<lambda>uses.
     bindr (require (map_of m ''permission_identity'' = Some (JStr (permission_identity cap scp)))
              SettingsValidationError) (\<lambda>_.
     bindr (require (\<not> (md = ''allow_once'' \<and> uses \<noteq> Some 1)) SettingsValidationError) (\<lambda>_.
     Inr \<lparr>i_record_id = rec_id r, i_revision = revision r, i_status = rec_status r,
          i_sensitivity = sensitivity r, i_created_at = created_at r, i_updated_at = updated_at r,
          capability_id = cap, scope = scp, mode = md, expires_at = expires, approval_source = source,
          last_changed_at = changed, last_used_at = used, remaining_uses = uses\<rparr>)))))))))))"

definition utc_micros :: "string \<Rightarrow> int res" where
  "utc_micros t =
     (case fromisoformat (take (length t - 1) t @ ''+00:00'') of
        Some (us, Some off) \<Rightarrow> Inr (instant (us, off))
      | _ \<Rightarrow> Inl ValueError)"

definition decision_from_permission :: "int \<Rightarrow> PermissionInfo \<Rightarrow> PermissionDecision res" where
  "decision_from_permission clock p =
     (let decide = (\<lambda>md why. \<lparr>dec_record_id = Some (i_record_id p), dec_capability_id = capability_id p,
                        dec_scope = scope p, effective_mode = md, dec_reason = why\<rparr>) in
      if i_status p \<noteq> ''active'' then Inr (decide ''denied'' reason_archived)
      else bindr (case expires_at p of None \<Rightarrow> Inr False
                  | Some t \<Rightarrow> bindr (utc_micros t) (\<lambda>us. Inr (us \<le> clock))) (\<lambda>expired.
           Inr (if expired then decide ''denied'' reason_expired
                else if mode p = ''allow_once'' \<and> remaining_uses p \<noteq> Some 1
                then decide ''denied'' reason_consumed
                else decide (mode p) reason_active)))"

definition preference_get :: "string \<Rightarrow> repo \<Rightarrow> PreferenceInfo res" where
  "preference_get i s = bindr (require_record_type i ''preference'' s) preference_from_record"

definition policy_get :: "string \<Rightarrow> repo \<Rightarrow> PolicyInfo res" where
  "policy_get i s = bindr (require_record_type i ''policy'' s) policy_from_record"

definition permission_get :: "string \<Rightarrow> repo \<Rightarrow> PermissionInfo res" where
  "permission_get i s = bindr (require_record_type i ''permission'' s) permission_from_record"

definition preference_list :: "bool \<Rightarrow> int \<Rightarrow> repo \<Rightarrow> PreferenceInfo list res" where
  "preference_list archived limit s =
     bindr (list_typed_records ''preference'' archived limit s) (map_res preference_from_record)"

definition policy_list :: "bool \<Rightarrow> int \<Rightarrow> repo \<Rightarrow> PolicyInfo list res" where
  "policy_list archived limit s =
     bindr (list_typed_records ''policy'' archived limit s) (map_res policy_from_record)"

definition permission_list :: "bool \<Rightarrow> int \<Rightarrow> repo \<Rightarrow> PermissionInfo list res" where
  "permission_list archived limit s =
     bindr (list_typed_records ''permission'' archived limit s) (map_res permission_from_record)"

definition permission_effective :: "int \<Rightarrow> string \<Rightarrow> repo \<Rightarrow> PermissionDecision res" where
  "permission_effective clock i s = bindr (permission_get i s) (decision_from_permission clock)"

definition permission_resolve :: "int \<Rightarrow> string \<Rightarrow> dict \<Rightarrow> repo \<Rightarrow> PermissionDecision res" where
  "permission_resolve clock cap scp s =
     bindr (validate_key cap) (\<lambda>safe_cap.
     bindr (validate_scope scp) (\<lambda>safe_scope.
     bindr (bindr (list_all_typed_records ''permission'' False s) (map_res permission_from_record)) (\<lambda>ps.
     case filter (\<lambda>p. capability_id p = safe_cap \<and> dict_eq (scope p) safe_scope) ps of
       [] \<Rightarrow> Inr \<lparr>dec_record_id = None, dec_capability_id = safe_cap, dec_scope = safe_scope,
                 effective_mode = ''denied'', dec_reason = reason_no_record\<rparr>
     | [p] \<Rightarrow> decision_from_permission clock p
     | _ \<Rightarrow> Inl StateCorruptError)))"

section \<open>Identity checks\<close>

definition assert_unique_identity :: "string \<Rightarrow> string \<Rightarrow> string \<Rightarrow> repo \<Rightarrow> unit res" where
  "assert_unique_identity rtype field expected s =
     bindr (list_all_typed_records rtype False s) (\<lambda>rs.
     bindr (map_res (\<lambda>r.
        bindr (if rtype = ''permission''
               then bindr (permission_from_record r) (\<lambda>p. Inr (Some (permission_identity (capability_id p) (scope p))))
               else Inr (case map_of (metadata r) field of Some (JStr t) \<Rightarrow> Some t | _ \<Rightarrow> None)) (\<lambda>actual.
        require (actual \<noteq> Some expected) DuplicateSettingError)) rs) (\<lambda>_. Inr ()))"

section \<open>Preferences\<close>

definition preference_fields :: "string \<Rightarrow> json \<Rightarrow> string option \<Rightarrow> dict" where
  "preference_fields key value descr =
     [(''preference_key'', JStr key), (''value'', value), (''description'', opt_json descr)]"

definition preference_create ::
  "env \<Rightarrow> string \<Rightarrow> json \<Rightarrow> string option \<Rightarrow> string option \<Rightarrow> string \<Rightarrow> string \<Rightarrow> (repo, PreferenceInfo) op" where
  "preference_create e key value descr op sens actor =
     bind_op (lift_op (\<lambda>s.
       bindr (require_user_management actor) (\<lambda>_.
       bindr (validate_key key) (\<lambda>k.
       bindr (validate_json_value MAX_JSON_BYTES value) (\<lambda>v.
       bindr (opt_res (validate_text MAX_DESCRIPTION_LENGTH) descr) (\<lambda>d. Inr (k, v, d)))))))
     (\<lambda>(k, v, d). bind_op
       (create_typed_record e ''preference'' k (preference_fields k v d) sens op ''preference.create''
          (assert_unique_identity ''preference'' ''preference_key'' k) [(''preference_key'', JStr k)])
       (\<lambda>i. lift_op (preference_get i)))"

definition preference_update ::
  "env \<Rightarrow> string \<Rightarrow> int \<Rightarrow> json \<Rightarrow> string option \<Rightarrow> string option \<Rightarrow> string \<Rightarrow> (repo, PreferenceInfo) op" where
  "preference_update e i expected value descr op actor =
     bind_op (lift_op (\<lambda>s.
       bindr (require_user_management actor) (\<lambda>_.
       bindr (preference_get i s) (\<lambda>current.
       bindr (require_active_record (i_status current)) (\<lambda>_.
       bindr (validate_json_value MAX_JSON_BYTES value) (\<lambda>v.
       bindr (opt_res (validate_text MAX_DESCRIPTION_LENGTH) descr) (\<lambda>d.
       bindr (get_record i s) (\<lambda>r. Inr (current, r, preference_fields (pref_key current) v d)))))))))
     (\<lambda>(current, r, m). bind_op
       (update_typed_record e r expected m (i_status current) op ''user'' ''preference.update''
          [(''preference_key'', JStr (pref_key current))])
       (\<lambda>_. lift_op (preference_get i)))"

definition preference_archive ::
  "env \<Rightarrow> string \<Rightarrow> int \<Rightarrow> string option \<Rightarrow> string \<Rightarrow> (repo, PreferenceInfo) op" where
  "preference_archive e i expected op actor =
     bind_op (lift_op (\<lambda>s.
       bindr (require_user_management actor) (\<lambda>_.
       bindr (preference_get i s) (\<lambda>current.
       bindr (require_active_record (i_status current)) (\<lambda>_.
       bindr (get_record i s) (\<lambda>r. Inr (current, r)))))))
     (\<lambda>(current, r). bind_op
       (update_typed_record e r expected
          (preference_fields (pref_key current) (pref_value current) (pref_description current))
          ''archived'' op ''user'' ''preference.archive'' [(''preference_key'', JStr (pref_key current))])
       (\<lambda>_. lift_op (preference_get i)))"

section \<open>Policies\<close>

definition policy_fields :: "string \<Rightarrow> string \<Rightarrow> bool \<Rightarrow> dict" where
  "policy_fields key rule enabled =
     [(''policy_key'', JStr key), (''rule'', JStr rule), (''enabled'', JBool enabled)]"

definition policy_create ::
  "env \<Rightarrow> string \<Rightarrow> string \<Rightarrow> bool \<Rightarrow> string option \<Rightarrow> string \<Rightarrow> string \<Rightarrow> (repo, PolicyInfo) op" where
  "policy_create e key rule enabled op sens actor =
     bind_op (lift_op (\<lambda>s.
       bindr (require_user_management actor) (\<lambda>_.
       bindr (validate_key key) (\<lambda>k.
       bindr (validate_text MAX_POLICY_RULE_LENGTH rule) (\<lambda>t. Inr (k, t))))))
     (\<lambda>(k, t). bind_op
       (create_typed_record e ''policy'' k (policy_fields k t enabled) sens op ''policy.create''
          (assert_unique_identity ''policy'' ''policy_key'' k)
          [(''policy_key'', JStr k), (''enabled'', JBool enabled)])
       (\<lambda>i. lift_op (policy_get i)))"

definition policy_update ::
  "env \<Rightarrow> string \<Rightarrow> int \<Rightarrow> string \<Rightarrow> bool \<Rightarrow> string option \<Rightarrow> string \<Rightarrow> (repo, PolicyInfo) op" where
  "policy_update e i expected rule enabled op actor =
     bind_op (lift_op (\<lambda>s.
       bindr (require_user_management actor) (\<lambda>_.
       bindr (policy_get i s) (\<lambda>current.
       bindr (require_active_record (i_status current)) (\<lambda>_.
       bindr (validate_text MAX_POLICY_RULE_LENGTH rule) (\<lambda>t.
       bindr (get_record i s) (\<lambda>r. Inr (current, r, t))))))))
     (\<lambda>(current, r, t). bind_op
       (update_typed_record e r expected (policy_fields (policy_key current) t enabled)
          (i_status current) op ''user'' ''policy.update''
          [(''policy_key'', JStr (policy_key current)), (''enabled'', JBool enabled)])
       (\<lambda>_. lift_op (policy_get i)))"

definition policy_archive ::
  "env \<Rightarrow> string \<Rightarrow> int \<Rightarrow> string option \<Rightarrow> string \<Rightarrow> (repo, PolicyInfo) op" where
  "policy_archive e i expected op actor =
     bind_op (lift_op (\<lambda>s.
       bindr (require_user_management actor) (\<lambda>_.
       bindr (policy_get i s) (\<lambda>current.
       bindr (require_active_record (i_status current)) (\<lambda>_.
       bindr (get_record i s) (\<lambda>r. Inr (current, r)))))))
     (\<lambda>(current, r). bind_op
       (update_typed_record e r expected
          (policy_fields (policy_key current) (policy_rule current) (policy_enabled current))
          ''archived'' op ''user'' ''policy.archive'' [(''policy_key'', JStr (policy_key current))])
       (\<lambda>_. lift_op (policy_get i)))"

section \<open>Permissions\<close>

text \<open>\<open>scope["kind"]\<close> of a validated scope.\<close>

definition scope_kind :: "dict \<Rightarrow> json" where
  "scope_kind scp = (case map_of scp ''kind'' of None \<Rightarrow> JNull | Some v \<Rightarrow> v)"

definition permission_create ::
  "env \<Rightarrow> string \<Rightarrow> string \<Rightarrow> dict \<Rightarrow> string \<Rightarrow> string option \<Rightarrow> string \<Rightarrow> string option \<Rightarrow> string \<Rightarrow> string \<Rightarrow>
   (repo, PermissionInfo) op" where
  "permission_create e at cap scp md expires source op sens actor =
     bind_op (lift_op (\<lambda>s.
       bindr (require_user_management actor) (\<lambda>_.
       bindr (validate_key cap) (\<lambda>c.
       bindr (validate_scope scp) (\<lambda>sc.
       bindr (validate_permission_mode md sc) (\<lambda>m.
       bindr (opt_res validate_utc expires) (\<lambda>x.
       bindr (validate_approval_source source) (\<lambda>src. Inr (c, sc, m, x, src)))))))))
     (\<lambda>(c, sc, m, x, src). bind_op
       (create_typed_record e ''permission'' c (permission_metadata c sc m x src at None None) sens op
          ''permission.create'' (assert_unique_identity ''permission'' ''permission_identity'' (permission_identity c sc))
          [(''capability_id'', JStr c), (''mode'', JStr m), (''scope_kind'', scope_kind sc),
           (''approval_source'', JStr src)])
       (\<lambda>i. lift_op (permission_get i)))"

definition permission_update ::
  "env \<Rightarrow> string \<Rightarrow> string \<Rightarrow> int \<Rightarrow> string \<Rightarrow> string option \<Rightarrow> string \<Rightarrow> string option \<Rightarrow> string \<Rightarrow>
   (repo, PermissionInfo) op" where
  "permission_update e at i expected md expires source op actor =
     bind_op (lift_op (\<lambda>s.
       bindr (require_user_management actor) (\<lambda>_.
       bindr (permission_get i s) (\<lambda>current.
       bindr (require_active_record (i_status current)) (\<lambda>_.
       bindr (validate_permission_mode md (scope current)) (\<lambda>m.
       bindr (opt_res validate_utc expires) (\<lambda>x.
       bindr (validate_approval_source source) (\<lambda>src.
       bindr (get_record i s) (\<lambda>r. Inr (current, r, m, x, src))))))))))
     (\<lambda>(current, r, m, x, src). bind_op
       (update_typed_record e r expected
          (permission_metadata (capability_id current) (scope current) m x src at None None)
          (i_status current) op ''user'' ''permission.update''
          [(''capability_id'', JStr (capability_id current)), (''previous_mode'', JStr (mode current)),
           (''mode'', JStr m), (''scope_kind'', scope_kind (scope current)), (''approval_source'', JStr src)])
       (\<lambda>_. lift_op (permission_get i)))"

definition permission_archive ::
  "env \<Rightarrow> string \<Rightarrow> int \<Rightarrow> string option \<Rightarrow> string \<Rightarrow> (repo, PermissionInfo) op" where
  "permission_archive e i expected op actor =
     bind_op (lift_op (\<lambda>s.
       bindr (require_user_management actor) (\<lambda>_.
       bindr (permission_get i s) (\<lambda>current.
       bindr (require_active_record (i_status current)) (\<lambda>_.
       bindr (get_record i s) (\<lambda>r. Inr (current, r)))))))
     (\<lambda>(current, r). bind_op
       (update_typed_record e r expected (permission_metadata_from_info current) ''archived'' op
          ''user'' ''permission.archive''
          [(''capability_id'', JStr (capability_id current)), (''mode'', JStr (mode current)),
           (''scope_kind'', scope_kind (scope current))])
       (\<lambda>_. lift_op (permission_get i)))"

definition consume_allow_once ::
  "env \<Rightarrow> string \<Rightarrow> int \<Rightarrow> string \<Rightarrow> int \<Rightarrow> string \<Rightarrow> string \<Rightarrow> (repo, PermissionInfo) op" where
  "consume_allow_once e at clock i expected op actor =
     bind_op (lift_op (\<lambda>s.
       bindr (require (List.member ALLOWED_CONSUME_ACTORS actor) ForbiddenPermissionMutationError) (\<lambda>_.
       bindr (permission_get i s) (\<lambda>current.
       bindr (decision_from_permission clock current) (\<lambda>decision.
       bindr (require (effective_mode decision = ''allow_once'') PermissionDeniedError) (\<lambda>_.
       bindr (get_record i s) (\<lambda>r. Inr (current, r))))))))
     (\<lambda>(current, r). bind_op
       (update_typed_record e r expected
          (permission_metadata (capability_id current) (scope current) ''denied'' (expires_at current)
             (approval_source current) at (Some at) (Some (Some 0)))
          (i_status current) (Some op) actor ''permission.consume_once''
          [(''capability_id'', JStr (capability_id current)), (''previous_mode'', JStr ''allow_once''),
           (''mode'', JStr ''denied''), (''scope_kind'', scope_kind (scope current))])
       (\<lambda>_. lift_op (permission_get i)))"

section \<open>A stored permission is read back\<close>

definition stored_uses :: "string \<Rightarrow> int option option \<Rightarrow> int option" where
  "stored_uses md uses = (case uses of None \<Rightarrow> if md = ''allow_once'' then Some 1 else None | Some u \<Rightarrow> u)"

lemma permission_metadata_keys: "distinct (map fst (permission_metadata c sc m x src at used uses))"
  by (simp add: permission_metadata_def)

lemma permission_metadata_lookup:
  "map_of (canon_dict (permission_metadata c sc m x src at used uses)) k =
     map_option canon (map_of (permission_metadata c sc m x src at used uses) k)"
  by (rule map_of_canon_dict [OF permission_metadata_keys])

lemma validated_nonempty:
  "validate_key v = Inr k \<Longrightarrow> k \<noteq> []" "validate_utc t = Inr u \<Longrightarrow> u \<noteq> [] \<and> t = u"
  "validate_permission_mode m sc = Inr n \<Longrightarrow> n \<noteq> [] \<and> n = m"
  "validate_approval_source a = Inr src \<Longrightarrow> src \<noteq> []"
  by (auto simp: validate_key_def Let_def validate_utc_def ends_with_def validate_permission_mode_def
      ALLOWED_PERMISSION_MODES_def validate_approval_source_def split: option.splits if_splits)

lemma optional_utc_json:
  assumes "opt_res validate_utc x = Inr x" "map_of m k = Some (opt_json x)"
  shows "bindr (optional_string m k) (opt_res validate_utc) = Inr x"
  using assms by (cases x) (auto simp: optional_string_def opt_json_def dest: validated_nonempty(2))

definition permission_info :: "RecordEnvelope \<Rightarrow> string \<Rightarrow> dict \<Rightarrow> string \<Rightarrow> string option \<Rightarrow> string \<Rightarrow> string \<Rightarrow>
    string option \<Rightarrow> int option \<Rightarrow> PermissionInfo" where
  "permission_info r c sc m x src at used uses =
     \<lparr>i_record_id = rec_id r, i_revision = revision r, i_status = rec_status r,
      i_sensitivity = sensitivity r, i_created_at = created_at r, i_updated_at = updated_at r,
      capability_id = c, scope = sc, mode = m, expires_at = x, approval_source = src,
      last_changed_at = at, last_used_at = used, remaining_uses = uses\<rparr>"

lemma permission_from_stored:
  assumes m: "metadata r = canon_dict (permission_metadata c sc m x src at used uses)"
    and c: "validate_key c = Inr c" and sc: "validate_scope sc = Inr sc" "canon (JObj sc) = JObj sc"
    and md: "validate_permission_mode m sc = Inr m" and x: "opt_res validate_utc x = Inr x"
    and src: "validate_approval_source src = Inr src" and at: "validate_utc at = Inr at"
    and used: "opt_res validate_utc used = Inr used"
    and uses: "stored_uses m uses \<in> {None, Some 0, Some 1}"
    and once: "m = ''allow_once'' \<longrightarrow> stored_uses m uses = Some 1"
  shows "permission_from_record r = Inr (permission_info r c sc m x src at used (stored_uses m uses))"
proof -
  let ?d = "metadata r"
  have look: "map_of ?d k = map_option canon (map_of (permission_metadata c sc m x src at used uses) k)" for k
    unfolding m by (rule permission_metadata_lookup)
  have l: "map_of ?d ''capability_id'' = Some (JStr c)" "map_of ?d ''scope'' = Some (JObj sc)"
    "map_of ?d ''mode'' = Some (JStr m)" "map_of ?d ''expires_at'' = Some (opt_json x)"
    "map_of ?d ''approval_source'' = Some (JStr src)" "map_of ?d ''last_changed_at'' = Some (JStr at)"
    "map_of ?d ''last_used_at'' = Some (opt_json used)"
    "map_of ?d ''permission_identity'' = Some (JStr (permission_identity c sc))"
    using sc(2) by (simp_all add: look permission_metadata_def opt_json_def split: option.splits del: canon.simps(2))
  have "read_remaining_uses ?d = Inr (stored_uses m uses)"
    using uses by (auto simp: read_remaining_uses_def look permission_metadata_def stored_uses_def
        split: option.splits if_splits)
  then show ?thesis
    using l c sc md src at once validated_nonempty(1) [OF c] validated_nonempty(2) [OF at]
      validated_nonempty(3) [OF md] validated_nonempty(4) [OF src]
      optional_utc_json [OF x l(4)] optional_utc_json [OF used l(7)]
    by (simp add: permission_from_record_def required_string_def Let_def require_def permission_info_def)
qed

lemma permission_inv:
  assumes "permission_from_record r = Inr p"
  shows "validate_key (capability_id p) = Inr (capability_id p) \<and>
    (\<exists>raw. map_of (metadata r) ''scope'' = Some (JObj raw) \<and> validate_scope raw = Inr (scope p)) \<and>
    validate_permission_mode (mode p) (scope p) = Inr (mode p) \<and>
    opt_res validate_utc (expires_at p) = Inr (expires_at p) \<and>
    validate_approval_source (approval_source p) = Inr (approval_source p) \<and>
    validate_utc (last_changed_at p) = Inr (last_changed_at p) \<and>
    opt_res validate_utc (last_used_at p) = Inr (last_used_at p) \<and>
    remaining_uses p \<in> {None, Some 0, Some 1} \<and>
    (mode p = ''allow_once'' \<longrightarrow> remaining_uses p = Some 1) \<and>
    i_status p = rec_status r \<and> i_record_id p = rec_id r \<and> i_revision p = revision r \<and>
    map_of (metadata r) ''mode'' = Some (JStr (mode p)) \<and>
    map_of (metadata r) ''permission_identity'' = Some (JStr (permission_identity (capability_id p) (scope p)))"
proof -
  have uses: "read_remaining_uses m = Inr u \<Longrightarrow> u \<in> {None, Some 0, Some 1}" for m u
    by (auto simp: read_remaining_uses_def split: option.splits json.splits if_splits)
  have md: "required_string m k = Inr v \<Longrightarrow> map_of m k = Some (JStr v)" for m k v
    by (auto simp: required_string_def split: option.splits json.splits if_splits)
  have mode: "validate_permission_mode v sc = Inr w \<Longrightarrow> validate_permission_mode w sc = Inr w \<and> v = w" for v sc w
    by (auto simp: validate_permission_mode_def)
  obtain c0 raw m0 x0 s0 l0 u0 where
    "validate_key c0 = Inr (capability_id p)" "map_of (metadata r) ''scope'' = Some (JObj raw)"
    "validate_scope raw = Inr (scope p)" "required_string (metadata r) ''mode'' = Inr m0"
    "validate_permission_mode m0 (scope p) = Inr (mode p)" "opt_res validate_utc x0 = Inr (expires_at p)"
    "validate_approval_source s0 = Inr (approval_source p)" "validate_utc l0 = Inr (last_changed_at p)"
    "opt_res validate_utc u0 = Inr (last_used_at p)" "read_remaining_uses (metadata r) = Inr (remaining_uses p)"
    "map_of (metadata r) ''permission_identity'' = Some (JStr (permission_identity (capability_id p) (scope p)))"
    "mode p = ''allow_once'' \<longrightarrow> remaining_uses p = Some 1"
    "i_status p = rec_status r" "i_record_id p = rec_id r" "i_revision p = revision r"
    using assms unfolding permission_from_record_def Let_def rescue_eq_Inr bindr_eq_Inr require_eq_Inr
    by (auto split: option.splits json.splits)
  then show ?thesis
    using key.norm_idem approval.norm_idem utc.norm_idem utc.norm_opt_idem uses [of "metadata r"]
      md [of "metadata r" "''mode''" m0] mode [of m0 "scope p" "mode p"]
    by blast
qed

lemma validated_scope_again:
  assumes "validate_scope raw = Inr sc" "distinct (map fst sc)"
  shows "validate_scope sc = Inr sc \<and> canon (JObj sc) = JObj sc"
proof -
  obtain kind k where k: "map_of (canon_dict raw) ''kind'' = Some (JStr kind)"
    "sc = dict_put ''kind'' (JStr k) (canon_dict raw)"
    using validate_scopeD [OF assms(1)] by auto
  then have "''kind'' \<in> fst ` set (canon_dict raw)" by (metis domI dom_map_of_conv_image_fst)
  then have "map fst sc = map fst (canon_dict raw)" using k(2) by (simp only: dict_put_keys)
  then have "distinct (map fst raw)"
    using assms(2) by (simp add: distinct_map_sort_key comp_def case_prod_unfold)
  from validate_scope_idem [OF this assms(1)] show ?thesis by simp
qed

lemma get_record_typed_row:
  "find_row i (records t) = Some (typed_row now stat (JObj m) row) \<Longrightarrow>
     get_record i t = Inr (with_metadata (typed_row now stat (JObj m) row) m)"
  by (simp add: get_record_def record_from_row_def typed_row_def)

lemma permission_getD:
  "permission_get i s = Inr p \<Longrightarrow> \<exists>r. get_record i s = Inr r \<and> record_type r = ''permission'' \<and> permission_from_record r = Inr p"
  by (auto simp: permission_get_def require_record_type_def)

text \<open>The common tail of the calls that rewrite a permission.\<close>

lemma permission_rewrite:
  assumes ok: "repo_ok s" and cur: "permission_get i s = Inr p" "get_record i s = Inr r"
    and dist: "distinct (map fst (scope p))" and stat: "stat \<in> set ALLOWED_STATUSES"
    and upd: "update_typed_record e r expected
        (permission_metadata (capability_id p) (scope p) m x src at used uses) stat op actor act ameta s = (Inr (), t)"
    and md: "validate_permission_mode m (scope p) = Inr m" and x: "opt_res validate_utc x = Inr x"
    and src: "validate_approval_source src = Inr src" and at: "validate_utc at = Inr at"
    and used: "opt_res validate_utc used = Inr used"
    and uses: "stored_uses m uses \<in> {None, Some 0, Some 1}"
    and once: "m = ''allow_once'' \<longrightarrow> stored_uses m uses = Some 1"
  shows "\<exists>q. permission_get i t = Inr q \<and> i_record_id q = i \<and> i_revision q = expected + 1 \<and>
    i_revision p = expected \<and> i_status q = stat \<and> capability_id q = capability_id p \<and> scope q = scope p \<and>
    mode q = m \<and> expires_at q = x \<and> approval_source q = src \<and> last_changed_at q = at \<and>
    last_used_at q = used \<and> remaining_uses q = stored_uses m uses"
proof -
  obtain r' where r': "get_record i s = Inr r'" "record_type r' = ''permission''" "permission_from_record r' = Inr p"
    using permission_getD [OF cur(1)] by blast
  then have r: "record_type r = ''permission''" "permission_from_record r = Inr p" using cur(2) by auto
  obtain row0 where row0: "find_row i (records s) = Some row0" using get_recordD [OF cur(2)] by blast
  note rr = get_record_row [OF cur(2) row0]
  have idr: "rec_id r = i" using rr find_row_Some [OF row0] by simp
  let ?m = "canon_dict (permission_metadata (capability_id p) (scope p) m x src at used uses)"
  obtain row where row: "find_row i (records s) = Some row" "revision row = expected"
    "records t = replace_row (typed_row (utc_now e) stat (JObj ?m) row) (records s)"
    using update_typed_record_cases [OF ok stat upd] idr by auto
  then have eq: "row = row0" using row0 by simp
  let ?new = "with_metadata (typed_row (utc_now e) stat (JObj ?m) row) ?m"
  have "find_row i (records t) = Some (typed_row (utc_now e) stat (JObj ?m) row)"
    using row find_row_Some [OF row(1)] by (simp add: find_row_replace)
  then have g: "get_record i t = Inr ?new" by (rule get_record_typed_row)
  have inv: "validate_key (capability_id p) = Inr (capability_id p)"
    "\<exists>raw. validate_scope raw = Inr (scope p)" "i_revision p = revision r"
    using permission_inv [OF r(2)] by auto
  have sc: "validate_scope (scope p) = Inr (scope p)" "canon (JObj (scope p)) = JObj (scope p)"
    using inv(2) validated_scope_again [OF _ dist] by auto
  have "permission_from_record ?new =
      Inr (permission_info ?new (capability_id p) (scope p) m x src at used (stored_uses m uses))"
    by (intro permission_from_stored inv sc md x src at used uses once) simp
  moreover have "record_type ?new = ''permission''" using r(1) rr eq by (simp add: typed_row_def)
  moreover have "rec_id ?new = i" "revision ?new = expected + 1" "rec_status ?new = stat"
    using row(1,2) find_row_Some [OF row(1)] by (simp_all add: typed_row_def)
  ultimately show ?thesis
    using g inv(3) rr eq row(2) by (simp add: permission_get_def require_record_type_def permission_info_def require_def)
qed

section \<open>Creating a permission\<close>

lemma active_allowed: "''active'' \<in> set ALLOWED_STATUSES" "''archived'' \<in> set ALLOWED_STATUSES"
  by (simp_all add: ALLOWED_STATUSES_def)

lemma find_row_new: "records t = records s @ [row] \<Longrightarrow> find_row i (records s) = None \<Longrightarrow> rec_id row = i \<Longrightarrow>
    find_row i (records t) = Some row"
  by (simp add: find_row_append1)

lemma lift_then:
  "bind_op (lift_op f) k s = (res, t) \<Longrightarrow> (isl res \<and> t = s) \<or> (\<exists>v. f s = Inr v \<and> k v s = (res, t))"
  by (cases "f s") (auto simp: bind_lift)

lemma then_read:
  "bind_op m (\<lambda>i. lift_op (h i)) s = (res, t) \<Longrightarrow>
     \<exists>r1. m s = (r1, t) \<and> ((isl r1 \<and> isl res) \<or> (\<exists>i. r1 = Inr i \<and> res = h i t))"
  by (auto simp: bind_op_eq)

lemma permission_create_shape:
  assumes "repo_ok s" and "distinct (map fst scp)" and "validate_utc at = Inr at"
    and "permission_create e at cap scp md expires source op sens actor s = (res, t)"
  shows "(isl res \<and> t = s) \<or>
    (\<exists>q row a. res = Inr q \<and> permission_get (new_uuid e) t = Inr q \<and> actor = ''user'' \<and>
       i_revision q = 1 \<and> i_status q = ''active'' \<and> validate_key cap = Inr (capability_id q) \<and>
       validate_scope scp = Inr (scope q) \<and> mode q = md \<and> expires_at q = expires \<and>
       (md = ''allow_once'' \<longrightarrow> remaining_uses q = Some 1) \<and>
       records t = records s @ [row] \<and> audit_events t = audit_events s @ [a] \<and>
       target_id a = Some (i_record_id q) \<and> repo_ok t \<and> state_revision t = state_revision s + 1)"
proof -
  from lift_then [OF assms(4) [unfolded permission_create_def]]
  consider "isl res \<and> t = s" |
    c sc m x src r1 where "require_user_management actor = Inr ()" "validate_key cap = Inr c"
      "validate_scope scp = Inr sc" "validate_permission_mode md sc = Inr m" "opt_res validate_utc expires = Inr x"
      "validate_approval_source source = Inr src"
      "create_typed_record e ''permission'' c (permission_metadata c sc m x src at None None) sens op
          ''permission.create'' (assert_unique_identity ''permission'' ''permission_identity'' (permission_identity c sc))
          [(''capability_id'', JStr c), (''mode'', JStr m), (''scope_kind'', scope_kind sc),
           (''approval_source'', JStr src)] s = (r1, t)"
      "(isl r1 \<and> isl res) \<or> (\<exists>i. r1 = Inr i \<and> res = permission_get i t)"
    by (auto dest!: then_read)
  then show ?thesis
  proof cases
    case 2
    have user: "actor = ''user''" using 2(1) by (simp add: require_user_management_def ALLOWED_MANAGEMENT_ACTORS_def)
    have x: "x = expires" using 2(5) validated_nonempty(2) by (cases expires) auto
    have m: "m = md" using validated_nonempty(3) [OF 2(4)] by simp
    from create_typed_record_cases [OF assms(1) 2(7)] 2(8) consider "isl res \<and> t = s" |
      row a where "res = permission_get (new_uuid e) t" "repo_ok t" "find_row (new_uuid e) (records s) = None"
        "records t = records s @ [row]" "rec_id row = new_uuid e" "record_type row = ''permission''"
        "revision row = 1" "rec_status row = ''active''"
        "metadata row = Some (JObj (canon_dict (permission_metadata c sc m x src at None None)))"
        "audit_events t = audit_events s @ [a]" "target_id a = Some (new_uuid e)"
        "state_revision t = state_revision s + 1"
      by (fastforce simp: typed_new_row_def)
    then show ?thesis
    proof cases
      case (2 row a)
      let ?r = "with_metadata row (canon_dict (permission_metadata c sc m x src at None None))"
      have g: "get_record (new_uuid e) t = Inr ?r"
        using find_row_new [OF 2(4,3,5)] 2(9) by (simp add: get_record_def record_from_row_def)
      have "permission_from_record ?r = Inr (permission_info ?r c sc m x src at None (stored_uses m None))"
        using key.norm_idem \<open>validate_key cap = Inr c\<close> validate_scope_idem [OF assms(2) \<open>validate_scope scp = Inr sc\<close>]
          \<open>validate_permission_mode md sc = Inr m\<close> m utc.norm_opt_idem \<open>opt_res validate_utc expires = Inr x\<close>
          approval.norm_idem \<open>validate_approval_source source = Inr src\<close> assms(3)
        by (intro permission_from_stored) (auto simp: stored_uses_def)
      then have "permission_get (new_uuid e) t = Inr (permission_info ?r c sc m x src at None (stored_uses m None))"
        using g 2(6) by (simp add: permission_get_def require_record_type_def require_def)
      then show ?thesis
        using 2 user x m \<open>validate_key cap = Inr c\<close> \<open>validate_scope scp = Inr sc\<close>
        by (intro disjI2 exI [of _ "permission_info ?r c sc m x src at None (stored_uses m None)"]
            exI [of _ row] exI [of _ a]) (auto simp: permission_info_def stored_uses_def)
    qed blast
  qed blast
qed

text \<open>A permission is created only for the user, as one record and one audit event in one
  commit, and it can be read back at once with the validated capability, scope, mode and
  expiry; an allow-once permission starts with exactly one use. In every other case the call
  raises and nothing is changed: no committed permission is unreadable.\<close>

theorem permission_create_correct:
  assumes "repo_ok s" and "distinct (map fst scp)" and "validate_utc at = Inr at"
    and "permission_create e at cap scp md expires source op sens actor s = (res, t)"
  shows "(isl res \<and> t = s) \<or>
    (\<exists>q row a. res = Inr q \<and> permission_get (new_uuid e) t = Inr q \<and> actor = ''user'' \<and>
       i_revision q = 1 \<and> i_status q = ''active'' \<and> validate_key cap = Inr (capability_id q) \<and>
       validate_scope scp = Inr (scope q) \<and> mode q = md \<and> expires_at q = expires \<and>
       (md = ''allow_once'' \<longrightarrow> remaining_uses q = Some 1) \<and>
       records t = records s @ [row] \<and> audit_events t = audit_events s @ [a] \<and>
       target_id a = Some (i_record_id q) \<and> repo_ok t \<and> state_revision t = state_revision s + 1)"
  by (rule permission_create_shape [OF assms])

section \<open>Decisions\<close>

lemma decision_granted:
  assumes "decision_from_permission clock p = Inr d" "effective_mode d \<noteq> ''denied''"
  shows "i_status p = ''active'' \<and> effective_mode d = mode p \<and> dec_record_id d = Some (i_record_id p) \<and>
    dec_capability_id d = capability_id p \<and> dec_scope d = scope p \<and> dec_reason d = reason_active \<and>
    (\<forall>t. expires_at p = Some t \<longrightarrow> (\<exists>us. utc_micros t = Inr us \<and> clock < us)) \<and>
    (mode p = ''allow_once'' \<longrightarrow> remaining_uses p = Some 1)"
  using assms by (auto simp: decision_from_permission_def Let_def split: if_splits option.splits)

lemma row_status_allowed: "repo_ok s \<Longrightarrow> get_record i s = Inr r \<Longrightarrow> rec_status r \<in> set ALLOWED_STATUSES"
  using get_recordD [of i s r] get_record_row [of i s r] repo_ok_row by (fastforce simp: row_ok_def)

lemma denied_mode_valid: "validate_permission_mode ''denied'' sc = Inr ''denied''"
  by (simp add: validate_permission_mode_def ALLOWED_PERMISSION_MODES_def require_def)

lemma consume_needs_allow_once:
  assumes "permission_get i s = Inr q" "mode q \<noteq> ''allow_once''"
  shows "\<exists>x. consume_allow_once e at clock i expected op actor s = (Inl x, s)"
proof -
  have no: "effective_mode d \<noteq> ''allow_once''" if "decision_from_permission clock q = Inr d" for d
    using decision_granted [OF that] assms(2) by auto
  let ?f = "\<lambda>s. bindr (require (List.member ALLOWED_CONSUME_ACTORS actor) ForbiddenPermissionMutationError) (\<lambda>_.
       bindr (permission_get i s) (\<lambda>current.
       bindr (decision_from_permission clock current) (\<lambda>decision.
       bindr (require (effective_mode decision = ''allow_once'') PermissionDeniedError) (\<lambda>_.
       bindr (get_record i s) (\<lambda>r. Inr (current, r))))))"
  have "isl (?f s)"
    using assms no by (cases "?f s") auto
  then show ?thesis unfolding consume_allow_once_def bind_lift by (cases "?f s") auto
qed

text \<open>C11: an allow-once permission is used at most once. A successful consumption needs an active,
  unexpired allow-once permission at the expected revision and a capability or system actor; it
  writes one audit event and leaves a denied permission with no uses that can be read back, and
  every further consumption raises and changes nothing. A failed consumption changes nothing.\<close>

theorem consume_allow_once_at_most_once:
  assumes "repo_ok s" and "permission_get i s = Inr p" and "distinct (map fst (scope p))"
    and "validate_utc at = Inr at"
    and "consume_allow_once e at clock i expected op actor s = (res, t)"
  shows "(isl res \<and> t = s) \<or>
    (\<exists>q a. res = Inr q \<and> permission_get i t = Inr q \<and> mode p = ''allow_once'' \<and> i_status p = ''active'' \<and>
       (\<forall>x. expires_at p = Some x \<longrightarrow> (\<exists>us. utc_micros x = Inr us \<and> clock < us)) \<and>
       i_revision p = expected \<and> mode q = ''denied'' \<and> remaining_uses q = Some 0 \<and> last_used_at q = Some at \<and>
       actor \<in> {''capability'', ''system''} \<and> audit_events t = audit_events s @ [a] \<and> actor_type a = actor \<and>
       (\<forall>e' at' clock' expected' op' actor'.
          \<exists>x. consume_allow_once e' at' clock' i expected' op' actor' t = (Inl x, t)))"
proof -
  from lift_then [OF assms(5) [unfolded consume_allow_once_def]]
  consider "isl res \<and> t = s" |
    r d r1 where "List.member ALLOWED_CONSUME_ACTORS actor" "decision_from_permission clock p = Inr d"
      "effective_mode d = ''allow_once''" "get_record i s = Inr r"
      "update_typed_record e r expected
          (permission_metadata (capability_id p) (scope p) ''denied'' (expires_at p)
             (approval_source p) at (Some at) (Some (Some 0)))
          (i_status p) (Some op) actor ''permission.consume_once''
          [(''capability_id'', JStr (capability_id p)), (''previous_mode'', JStr ''allow_once''),
           (''mode'', JStr ''denied''), (''scope_kind'', scope_kind (scope p))] s = (r1, t)"
      "(isl r1 \<and> isl res) \<or> (r1 = Inr () \<and> res = permission_get i t)"
    using assms(2) by (auto dest!: then_read)
  then show ?thesis
  proof cases
    case 2
    have act: "i_status p = ''active'' \<and> mode p = ''allow_once'' \<and>
        (\<forall>x. expires_at p = Some x \<longrightarrow> (\<exists>us. utc_micros x = Inr us \<and> clock < us))"
      using decision_granted [OF 2(2)] 2(3) by simp
    have pr: "permission_from_record r = Inr p" using permission_getD [OF assms(2)] 2(4) by auto
    note inv = permission_inv [OF pr]
    have stat: "i_status p \<in> set ALLOWED_STATUSES" using act active_allowed(1) by simp
    from update_typed_record_cases [OF assms(1) stat 2(5)] 2(6) consider "isl res \<and> t = s" |
      a where "r1 = Inr ()" "res = permission_get i t" "audit_events t = audit_events s @ [a]" "actor_type a = actor"
      by auto
    then show ?thesis
    proof cases
      case a: (2 a)
      have "\<exists>q. permission_get i t = Inr q \<and> i_record_id q = i \<and> i_revision q = expected + 1 \<and>
        i_revision p = expected \<and> i_status q = i_status p \<and> capability_id q = capability_id p \<and> scope q = scope p \<and>
        mode q = ''denied'' \<and> expires_at q = expires_at p \<and> approval_source q = approval_source p \<and>
        last_changed_at q = at \<and> last_used_at q = Some at \<and> remaining_uses q = stored_uses ''denied'' (Some (Some 0))"
        using inv assms(4) 2(5) a(1) denied_mode_valid
        by (intro permission_rewrite [OF assms(1,2) 2(4) assms(3) stat]) (auto simp: stored_uses_def)
      then obtain q where q: "permission_get i t = Inr q" "i_revision p = expected" "mode q = ''denied''"
        "last_used_at q = Some at" "remaining_uses q = Some 0"
        by (auto simp: stored_uses_def)
      then have "\<exists>x. consume_allow_once e' at' clock' i expected' op' actor' t = (Inl x, t)"
        for e' at' clock' expected' op' actor'
        by (intro consume_needs_allow_once) auto
      moreover have "actor \<in> {''capability'', ''system''}" using 2(1) by (auto simp: ALLOWED_CONSUME_ACTORS_def)
      ultimately show ?thesis using a act q by (intro disjI2 exI [of _ q] exI [of _ a]) simp
    qed blast
  qed blast
qed

section \<open>Resolution\<close>

lemma set_newest_records:
  "set (newest_records rtype archived s) =
     {r \<in> set (records s). record_type r = rtype \<and> (archived \<or> rec_status r = ''active'')}"
  by (auto simp: newest_records_def)

lemma map_res_member: "map_res f xs = Inr ys \<Longrightarrow> y \<in> set ys \<Longrightarrow> \<exists>x \<in> set xs. f x = Inr y"
  by (induction xs arbitrary: ys) auto

lemma map_res_image: "map_res f xs = Inr ys \<Longrightarrow> x \<in> set xs \<Longrightarrow> \<exists>y \<in> set ys. f x = Inr y"
  by (induction xs arbitrary: ys) auto

lemma listed_permission:
  assumes "repo_ok s" "list_all_typed_records ''permission'' False s = Inr rs"
    "map_res permission_from_record rs = Inr ps" "p \<in> set ps"
  shows "\<exists>row \<in> set (records s). record_type row = ''permission'' \<and> rec_status row = ''active'' \<and>
    permission_get (rec_id row) s = Inr p"
proof -
  obtain r where r: "r \<in> set rs" "permission_from_record r = Inr p"
    using map_res_member [OF assms(3,4)] by blast
  obtain row where row: "row \<in> set (newest_records ''permission'' False s)" "get_record (rec_id row) s = Inr r"
    using map_res_member [OF assms(2) [unfolded list_all_typed_records_def] r(1)] by blast
  then have m: "row \<in> set (records s)" "record_type row = ''permission''" "rec_status row = ''active''"
    by (auto simp: set_newest_records)
  have "find_row (rec_id row) (records s) = Some row"
    using assms(1) m(1) by (auto simp: repo_ok_def intro: find_row_distinct)
  then have "record_type r = ''permission''" using get_record_row [OF row(2)] m by simp
  then show ?thesis
    using m row(2) r(2) by (intro bexI [of _ row]) (auto simp: permission_get_def require_record_type_def require_def)
qed

lemma resolve_granted:
  assumes "repo_ok s" and "permission_resolve clock cap scp s = Inr d" and "effective_mode d \<noteq> ''denied''"
  shows "\<exists>row p. row \<in> set (records s) \<and> record_type row = ''permission'' \<and> rec_status row = ''active'' \<and>
    permission_get (rec_id row) s = Inr p \<and> dec_record_id d = Some (rec_id row) \<and>
    validate_key cap = Inr (capability_id p) \<and>
    (\<exists>sc. validate_scope scp = Inr sc \<and> dict_eq (scope p) sc) \<and> mode p = effective_mode d \<and>
    (\<forall>t. expires_at p = Some t \<longrightarrow> (\<exists>us. utc_micros t = Inr us \<and> clock < us))"
proof -
  obtain c sc rs ps where v: "validate_key cap = Inr c" "validate_scope scp = Inr sc"
    "list_all_typed_records ''permission'' False s = Inr rs" "map_res permission_from_record rs = Inr ps"
    and f: "(case filter (\<lambda>p. capability_id p = c \<and> dict_eq (scope p) sc) ps of
       [] \<Rightarrow> Inr \<lparr>dec_record_id = None, dec_capability_id = c, dec_scope = sc,
                 effective_mode = ''denied'', dec_reason = reason_no_record\<rparr>
     | [p] \<Rightarrow> decision_from_permission clock p
     | _ \<Rightarrow> Inl StateCorruptError) = Inr d"
    using assms(2) by (auto simp: permission_resolve_def)
  then obtain p where p: "filter (\<lambda>p. capability_id p = c \<and> dict_eq (scope p) sc) ps = [p]"
    "decision_from_permission clock p = Inr d"
    using assms(3) by (auto split: list.splits)
  then have "p \<in> set (filter (\<lambda>p. capability_id p = c \<and> dict_eq (scope p) sc) ps)" by simp
  then have m: "p \<in> set ps" "capability_id p = c" "dict_eq (scope p) sc" by auto
  obtain row where row: "row \<in> set (records s)" "record_type row = ''permission''" "rec_status row = ''active''"
    "permission_get (rec_id row) s = Inr p"
    using listed_permission [OF assms(1) v(3,4) m(1)] by blast
  have "find_row (rec_id row) (records s) = Some row"
    using assms(1) row(1) by (auto simp: repo_ok_def intro: find_row_distinct)
  then have "i_record_id p = rec_id row"
    using permission_getD [OF row(4)] permission_inv get_record_row by metis
  with decision_granted [OF p(2) assms(3)] row v m show ?thesis by auto
qed

text \<open>\<open>resolve\<close> grants nothing without a record. A decision other than \<open>denied\<close> comes from an
  active stored permission whose capability is the requested one and whose scope is equal to
  the requested one, which is not expired, and whose mode is the decided mode.\<close>

theorem resolve_grants_only_stored:
  assumes "repo_ok s" and "permission_resolve clock cap scp s = Inr d" and "effective_mode d \<noteq> ''denied''"
  shows "\<exists>row p. row \<in> set (records s) \<and> record_type row = ''permission'' \<and> rec_status row = ''active'' \<and>
    permission_get (rec_id row) s = Inr p \<and> dec_record_id d = Some (rec_id row) \<and>
    validate_key cap = Inr (capability_id p) \<and>
    (\<exists>sc. validate_scope scp = Inr sc \<and> dict_eq (scope p) sc) \<and> mode p = effective_mode d \<and>
    (\<forall>t. expires_at p = Some t \<longrightarrow> (\<exists>us. utc_micros t = Inr us \<and> clock < us))"
  using assms by (rule resolve_granted)

section \<open>One active permission per identity\<close>

definition row_identity :: "RecordRow \<Rightarrow> json option" where
  "row_identity r = (case metadata r of Some (JObj m) \<Rightarrow> map_of m ''permission_identity'' | _ \<Rightarrow> None)"

definition active_permission :: "RecordRow \<Rightarrow> bool" where
  "active_permission r \<longleftrightarrow> record_type r = ''permission'' \<and> rec_status r = ''active''"

definition permissions_unique :: "repo \<Rightarrow> bool" where
  "permissions_unique s \<longleftrightarrow> (\<forall>r \<in> set (records s). \<forall>q \<in> set (records s).
     active_permission r \<longrightarrow> active_permission q \<longrightarrow> row_identity r = row_identity q \<longrightarrow> rec_id r = rec_id q)"

lemma permissions_unique_insert:
  assumes "permissions_unique s" "records t = records s @ [row]"
    and "\<And>q. q \<in> set (records s) \<Longrightarrow> active_permission q \<Longrightarrow> row_identity q \<noteq> row_identity row"
  shows "permissions_unique t"
  unfolding permissions_unique_def assms(2) set_append list.set
proof (intro ballI impI)
  fix r q assume "r \<in> set (records s) \<union> {row}" "q \<in> set (records s) \<union> {row}"
    "active_permission r" "active_permission q" "row_identity r = row_identity q"
  then show "rec_id r = rec_id q"
    using assms(1,3) unfolding permissions_unique_def by (metis UnE singletonD)
qed

lemma permissions_unique_replace:
  assumes "permissions_unique s" "records t = replace_row row' (records s)" "row \<in> set (records s)"
    and "rec_id row' = rec_id row" "active_permission row' \<Longrightarrow> active_permission row \<and> row_identity row' = row_identity row"
  shows "permissions_unique t"
  unfolding permissions_unique_def assms(2)
proof (intro ballI impI)
  fix r q assume rq: "r \<in> set (replace_row row' (records s))" "q \<in> set (replace_row row' (records s))"
    "active_permission r" "active_permission q" "row_identity r = row_identity q"
  have "\<exists>r0 \<in> set (records s). active_permission r0 \<and> row_identity r0 = row_identity x \<and> rec_id r0 = rec_id x"
    if "x \<in> set (replace_row row' (records s))" "active_permission x" for x
    using that set_replace_row [of row' "records s"] assms(3-5) by (cases "x = row'") force+
  from this [OF rq(1,3)] this [OF rq(2,4)] rq(5) show "rec_id r = rec_id q"
    using assms(1) unfolding permissions_unique_def by metis
qed

lemma assert_unique_permission:
  assumes "repo_ok s" "assert_unique_identity ''permission'' f x s = Inr ()"
    "q \<in> set (records s)" "active_permission q"
  shows "row_identity q \<noteq> Some (JStr x)"
proof -
  obtain rs where rs: "list_all_typed_records ''permission'' False s = Inr rs"
    and chk: "\<exists>us. map_res (\<lambda>r. bindr (bindr (permission_from_record r) (\<lambda>p. Inr (Some (permission_identity (capability_id p) (scope p)))))
        (\<lambda>actual. require (actual \<noteq> Some x) DuplicateSettingError)) rs = Inr us"
    using assms(2) by (auto simp: assert_unique_identity_def)
  have "q \<in> set (newest_records ''permission'' False s)"
    using assms(3,4) by (simp add: set_newest_records active_permission_def)
  then obtain r where r: "r \<in> set rs" "get_record (rec_id q) s = Inr r"
    using map_res_image [OF rs [unfolded list_all_typed_records_def]] by blast
  then obtain p where p: "permission_from_record r = Inr p" "permission_identity (capability_id p) (scope p) \<noteq> x"
    using chk map_res_image by fastforce
  have "find_row (rec_id q) (records s) = Some q"
    using assms(1,3) by (auto simp: repo_ok_def intro: find_row_distinct)
  then have "metadata q = Some (JObj (metadata r))" using get_record_row [OF r(2)] by simp
  then show ?thesis using permission_inv [OF p(1)] p(2) by (simp add: row_identity_def)
qed

lemma stored_identity:
  "map_of (canon_dict (permission_metadata c sc m x src at used uses)) ''permission_identity'' =
     Some (JStr (permission_identity c sc))"
  unfolding permission_metadata_lookup by (simp add: permission_metadata_def)

lemma rewrite_keeps_unique:
  assumes "repo_ok s" "permissions_unique s" "permission_get i s = Inr p" "get_record i s = Inr r"
    and "i_status p = ''active''" "stat \<in> set ALLOWED_STATUSES"
    and "update_typed_record e r expected (permission_metadata (capability_id p) (scope p) m x src at used uses)
          stat op actor act ameta s = (r1, t)"
  shows "permissions_unique t"
proof -
  let ?m = "canon_dict (permission_metadata (capability_id p) (scope p) m x src at used uses)"
  have pr: "permission_from_record r = Inr p" "record_type r = ''permission''"
    using permission_getD [OF assms(3)] assms(4) by auto
  obtain row where row: "find_row i (records s) = Some row" using get_recordD [OF assms(4)] by blast
  note rr = get_record_row [OF assms(4) row]
  have idr: "rec_id r = i" using rr find_row_Some [OF row] by simp
  from update_typed_record_cases [OF assms(1,6,7)] consider "t = s" |
    "records t = replace_row (typed_row (utc_now e) stat (JObj ?m) row) (records s)"
    using idr row by auto
  then show ?thesis
  proof cases
    case 2
    have "metadata (typed_row (utc_now e) stat (JObj ?m) row) = Some (JObj ?m)" by (simp add: typed_row_def)
    then have "row_identity (typed_row (utc_now e) stat (JObj ?m) row) =
        Some (JStr (permission_identity (capability_id p) (scope p)))"
      by (simp only: row_identity_def option.case json.case stored_identity)
    moreover have "row_identity row = Some (JStr (permission_identity (capability_id p) (scope p)))"
      using rr permission_inv [OF pr(1)] by (simp add: row_identity_def)
    moreover have "active_permission row"
      using rr pr permission_inv [OF pr(1)] assms(5) by (simp add: active_permission_def)
    ultimately show ?thesis
      using find_row_Some [OF row] by (intro permissions_unique_replace [OF assms(2) 2]) auto
  qed (use assms(2) in simp)
qed

lemma permission_create_keeps_unique:
  assumes "repo_ok s" "permissions_unique s"
    and "permission_create e at cap scp md expires source op sens actor s = (res, t)"
  shows "permissions_unique t"
proof -
  from lift_then [OF assms(3) [unfolded permission_create_def]]
  consider "t = s" | c sc m x src r1 where
      "create_typed_record e ''permission'' c (permission_metadata c sc m x src at None None) sens op
          ''permission.create'' (assert_unique_identity ''permission'' ''permission_identity'' (permission_identity c sc))
          [(''capability_id'', JStr c), (''mode'', JStr m), (''scope_kind'', scope_kind sc),
           (''approval_source'', JStr src)] s = (r1, t)"
    by (auto dest!: then_read)
  then show ?thesis
  proof cases
    case 2
    from create_typed_record_cases [OF assms(1) 2] consider "t = s" |
      row where "assert_unique_identity ''permission'' ''permission_identity'' (permission_identity c sc) s = Inr ()"
        "records t = records s @ [row]"
        "metadata row = Some (JObj (canon_dict (permission_metadata c sc m x src at None None)))"
      by (auto simp: typed_new_row_def)
    then show ?thesis
    proof cases
      case u: (2 row)
      have "row_identity row = Some (JStr (permission_identity c sc))"
        using u(3) by (simp only: row_identity_def option.case json.case stored_identity)
      then show ?thesis
        using assert_unique_permission [OF assms(1) u(1)] by (intro permissions_unique_insert [OF assms(2) u(2)]) auto
    qed (use assms(2) in simp)
  qed (use assms(2) in simp)
qed

lemma permission_update_keeps_unique:
  assumes "repo_ok s" "permissions_unique s"
    and "permission_update e at i expected md expires source op actor s = (res, t)"
  shows "permissions_unique t"
proof -
  from lift_then [OF assms(3) [unfolded permission_update_def]]
  consider "t = s" | p r m x src r1 where "permission_get i s = Inr p" "get_record i s = Inr r"
      "i_status p = ''active''"
      "update_typed_record e r expected (permission_metadata (capability_id p) (scope p) m x src at None None)
          (i_status p) op ''user'' ''permission.update''
          [(''capability_id'', JStr (capability_id p)), (''previous_mode'', JStr (mode p)),
           (''mode'', JStr m), (''scope_kind'', scope_kind (scope p)), (''approval_source'', JStr src)] s = (r1, t)"
    by (auto dest!: then_read simp: require_active_record_def)
  then show ?thesis
  proof cases
    case 2
    then show ?thesis using assms(1,2) active_allowed(1) by (auto intro: rewrite_keeps_unique)
  qed (use assms(2) in simp)
qed

lemma permission_archive_keeps_unique:
  assumes "repo_ok s" "permissions_unique s" and "permission_archive e i expected op actor s = (res, t)"
  shows "permissions_unique t"
proof -
  from lift_then [OF assms(3) [unfolded permission_archive_def permission_metadata_from_info_def]]
  consider "t = s" | p r r1 where "permission_get i s = Inr p" "get_record i s = Inr r"
      "i_status p = ''active''"
      "update_typed_record e r expected (permission_metadata (capability_id p) (scope p) (mode p) (expires_at p)
          (approval_source p) (last_changed_at p) (last_used_at p) (Some (remaining_uses p)))
          ''archived'' op ''user'' ''permission.archive''
          [(''capability_id'', JStr (capability_id p)), (''mode'', JStr (mode p)),
           (''scope_kind'', scope_kind (scope p))] s = (r1, t)"
    by (auto dest!: then_read simp: require_active_record_def)
  then show ?thesis
  proof cases
    case 2
    then show ?thesis using assms(1,2) active_allowed(2) by (auto intro: rewrite_keeps_unique)
  qed (use assms(2) in simp)
qed

lemma consume_keeps_unique:
  assumes "repo_ok s" "permissions_unique s" and "consume_allow_once e at clock i expected op actor s = (res, t)"
  shows "permissions_unique t"
proof -
  from lift_then [OF assms(3) [unfolded consume_allow_once_def]]
  consider "t = s" | p r d r1 where "permission_get i s = Inr p" "get_record i s = Inr r"
      "decision_from_permission clock p = Inr d" "effective_mode d = ''allow_once''"
      "update_typed_record e r expected
          (permission_metadata (capability_id p) (scope p) ''denied'' (expires_at p)
             (approval_source p) at (Some at) (Some (Some 0)))
          (i_status p) (Some op) actor ''permission.consume_once''
          [(''capability_id'', JStr (capability_id p)), (''previous_mode'', JStr ''allow_once''),
           (''mode'', JStr ''denied''), (''scope_kind'', scope_kind (scope p))] s = (r1, t)"
    by (auto dest!: then_read)
  then show ?thesis
  proof cases
    case 2
    then have "i_status p = ''active''" using decision_granted by fastforce
    then show ?thesis using 2 assms(1,2) active_allowed(1) by (auto intro: rewrite_keeps_unique)
  qed (use assms(2) in simp)
qed

text \<open>C12: at most one active permission holds an identity (a capability with the canonical text
  of a scope), and every operation of the permission service keeps it so.\<close>

theorem permission_identity_unique:
  assumes "repo_ok s" and "permissions_unique s"
    and "snd (permission_create e at cap scp md expires source op sens actor s) = t \<or>
         snd (permission_update e at i expected md expires source op actor s) = t \<or>
         snd (permission_archive e i expected op actor s) = t \<or>
         snd (consume_allow_once e at clock i expected oid actor s) = t"
  shows "permissions_unique t"
  using assms permission_create_keeps_unique permission_update_keeps_unique
    permission_archive_keeps_unique consume_keeps_unique
  by (metis prod.collapse)

section \<open>Scopes that are equal but not identical\<close>

lemma filter_two: "x \<in> set (filter P xs) \<Longrightarrow> y \<in> set (filter P xs) \<Longrightarrow> x \<noteq> y \<Longrightarrow>
    \<exists>a b cs. filter P xs = a # b # cs"
  by (cases "filter P xs"; cases "tl (filter P xs)") auto

text \<open>Uniqueness is decided by the canonical text of a scope and resolution by Python
  equality, for which \<open>1\<close>, \<open>1.0\<close> and \<open>True\<close> are the same. Two active permissions whose scopes
  are equal in that sense make every resolution of the scope raise \<open>StateCorruptError\<close>, although
  their identities differ and both were created through the service.\<close>

theorem equal_scopes_break_resolution:
  assumes "list_all_typed_records ''permission'' False s = Inr rs" and "map_res permission_from_record rs = Inr ps"
    and "p \<in> set ps" and "q \<in> set ps" and "p \<noteq> q"
    and "validate_key cap = Inr (capability_id p)" and "capability_id q = capability_id p"
    and "validate_scope scp = Inr sc" and "dict_eq (scope p) sc" and "dict_eq (scope q) sc"
  shows "permission_resolve clock cap scp s = Inl StateCorruptError"
proof -
  obtain a b cs where "filter (\<lambda>x. capability_id x = capability_id p \<and> dict_eq (scope x) sc) ps = a # b # cs"
    using filter_two [of p "\<lambda>x. capability_id x = capability_id p \<and> dict_eq (scope x) sc" ps q] assms(3-5,7,9,10) by auto
  with assms show ?thesis by (simp add: permission_resolve_def)
qed

section \<open>Concrete runs\<close>

lemma plain_audit_entries:
  "list_all plain_entry [(''capability_id'', JStr ''cap''), (''mode'', JStr ''denied''), (''mode'', JStr ''ask''),
     (''mode'', JStr ''allow_once''), (''previous_mode'', JStr ''allow_once''), (''scope_kind'', JStr ''dir''),
     (''approval_source'', JStr ''management-cli'')]"
  by code_simp

lemma plain_actions: "plain_alphabet ''permission.create'' \<and> plain_alphabet ''permission.consume_once'' \<and> plain_alphabet ''op1''"
  by code_simp

lemma action_tokens:
  "validate_token MAX_ACTION_LENGTH ''permission.create'' = Inr ''permission.create''"
  "validate_token MAX_ACTION_LENGTH ''permission.consume_once'' = Inr ''permission.consume_once''"
  "validate_token MAX_IDENTIFIER_LENGTH ''op1'' = Inr ''op1''"
  using plain_actions
  by (auto intro!: plain_token_valid [OF _ subset_refl] simp: MAX_ACTION_LENGTH_def MAX_IDENTIFIER_LENGTH_def
      is_alnum_ascii_def is_lower_ascii_def is_upper_ascii_def is_digit_def token_char_def ord_def)

definition sample_grant :: "string \<Rightarrow> string \<Rightarrow> dict \<Rightarrow> string \<Rightarrow> (repo, PermissionInfo) op" where
  "sample_grant i v scp md = permission_create ((sample_env i)\<lparr>event_uuid := v\<rparr>) ''2026-01-01T00:00:00Z'' ''cap''
     scp md None ''management-cli'' (Some ''op1'') ''personal'' ''user''"

definition sample_permission_row :: "string \<Rightarrow> string \<Rightarrow> dict \<Rightarrow> string \<Rightarrow> RecordRow" where
  "sample_permission_row i v sc md = typed_new_row ((sample_env i)\<lparr>event_uuid := v\<rparr>) ''permission'' ''cap'' ''personal''
     (JObj (canon_dict (permission_metadata ''cap'' sc md None ''management-cli'' ''2026-01-01T00:00:00Z'' None None)))"

lemma sample_grant_metadata:
  assumes "md = ''ask'' \<or> md = ''allow_once''"
  shows "\<exists>j. serialize_metadata_strict [(''capability_id'', JStr ''cap''), (''mode'', JStr md),
    (''scope_kind'', JStr ''dir''), (''approval_source'', JStr ''management-cli'')] = Inr j"
proof -
  let ?m = "[(''capability_id'', JStr ''cap''), (''mode'', JStr md),
    (''scope_kind'', JStr ''dir''), (''approval_source'', JStr ''management-cli'')]"
  have "list_all plain_entry ?m" using plain_audit_entries assms by auto
  moreover have "int (utf8_length (encode (JObj ?m))) \<le> MAX_METADATA_BYTES"
    using assms by (elim disjE) (hypsubst, code_simp)+
  ultimately show ?thesis by (simp add: serialize_plain MAX_METADATA_ITEMS_def)
qed

lemma sample_grant_succeeds:
  assumes "repo_ok s" "\<not> read_only s" "md = ''ask'' \<or> md = ''allow_once''"
    and "validate_scope scp = Inr sc" "scope_kind sc = JStr ''dir''" "distinct (map fst scp)"
    and "assert_unique_identity ''permission'' ''permission_identity'' (permission_identity ''cap'' sc) s = Inr ()"
    and "find_row i (records s) = None" "v \<notin> event_id ` set (audit_events s)"
    and "all_finite (JObj (permission_metadata ''cap'' sc md None ''management-cli'' ''2026-01-01T00:00:00Z'' None None))"
  shows "\<exists>q t a. sample_grant i v scp md s = (Inr q, t) \<and> repo_ok t \<and> \<not> read_only t \<and>
    audit_events t = audit_events s @ [a] \<and> event_id a = v \<and>
    records t = records s @ [sample_permission_row i v sc md]"
proof -
  let ?e = "(sample_env i)\<lparr>event_uuid := v\<rparr>"
  have e: "new_uuid ?e = i" "event_uuid ?e = v" "utc_now ?e = ''2026-01-01T00:00:00Z''"
    by (simp_all add: sample_env_def)
  have mode: "validate_permission_mode md sc = Inr md"
    using assms(3) by (auto simp: validate_permission_mode_def ALLOWED_PERMISSION_MODES_def require_def)
  have fixed: "validate_key ''cap'' = Inr ''cap''" "validate_approval_source ''management-cli'' = Inr ''management-cli''"
    "validate_record_fields ''permission'' 1 ''active'' ''user-created'' ''personal'' = Inr ()"
    "require_user_management ''user'' = Inr ()" "validate_utc ''2026-01-01T00:00:00Z'' = Inr ''2026-01-01T00:00:00Z''"
    by code_simp+
  obtain j where j: "serialize_metadata_strict [(''capability_id'', JStr ''cap''), (''mode'', JStr md),
    (''scope_kind'', JStr ''dir''), (''approval_source'', JStr ''management-cli'')] = Inr j"
    using sample_grant_metadata [OF assms(3)] by blast
  have "\<exists>t. create_typed_record ?e ''permission'' ''cap''
      (permission_metadata ''cap'' sc md None ''management-cli'' ''2026-01-01T00:00:00Z'' None None) ''personal''
      (Some ''op1'') ''permission.create''
      (assert_unique_identity ''permission'' ''permission_identity'' (permission_identity ''cap'' sc))
      [(''capability_id'', JStr ''cap''), (''mode'', JStr md), (''scope_kind'', JStr ''dir''),
       (''approval_source'', JStr ''management-cli'')] s = (Inr (new_uuid ?e), t)"
    by (rule create_typed_record_ok [OF assms(1,2) fixed(3) _ assms(10)])
      (use assms(7-9) e action_tokens j in \<open>simp_all add: validate_operation_id_def\<close>)
  then obtain t where t: "create_typed_record ?e ''permission'' ''cap''
      (permission_metadata ''cap'' sc md None ''management-cli'' ''2026-01-01T00:00:00Z'' None None) ''personal''
      (Some ''op1'') ''permission.create''
      (assert_unique_identity ''permission'' ''permission_identity'' (permission_identity ''cap'' sc))
      [(''capability_id'', JStr ''cap''), (''mode'', JStr md), (''scope_kind'', JStr ''dir''),
       (''approval_source'', JStr ''management-cli'')] s = (Inr i, t)"
    using e by auto
  have run: "sample_grant i v scp md s = (permission_get i t, t)"
    using t mode fixed assms(4,5) by (simp add: sample_grant_def permission_create_def bind_lift bind_op_def lift_op_def)
  from create_typed_record_cases [OF assms(1) t] obtain a where a: "repo_ok t" "evolves s t"
    "records t = records s @ [sample_permission_row i v sc md]"
    "audit_events t = audit_events s @ [a]" "event_id a = v"
    using e by (auto simp: sample_permission_row_def)
  from permission_create_shape [OF assms(1,6) fixed(5) run [unfolded sample_grant_def]] obtain q
    where "permission_get i t = Inr q"
    using a(3) run e by auto
  then show ?thesis using run a assms(2) by (auto simp: evolves_def)
qed

definition scope_int :: dict where "scope_int = [(''kind'', JStr ''dir''), (''n'', JInt 1)]"
definition scope_bool :: dict where "scope_bool = [(''kind'', JStr ''dir''), (''n'', JBool True)]"

lemma typed_list_cong: "records s = records t \<Longrightarrow> list_all_typed_records ty a s = list_all_typed_records ty a t"
  by (simp add: list_all_typed_records_def newest_records_def get_record_def)

lemma assert_unique_cong: "records s = records t \<Longrightarrow> assert_unique_identity ty f x s = assert_unique_identity ty f x t"
  unfolding assert_unique_identity_def by (simp only: typed_list_cong [of s t])

lemma resolve_cong: "records s = records t \<Longrightarrow> permission_resolve c cap scp s = permission_resolve c cap scp t"
  unfolding permission_resolve_def by (simp only: typed_list_cong [of s t])

lemma sample_scopes:
  "validate_scope scope_int = Inr scope_int" "validate_scope scope_bool = Inr scope_bool"
  "scope_kind scope_int = JStr ''dir''" "scope_kind scope_bool = JStr ''dir''"
  "distinct (map fst scope_int)" "distinct (map fst scope_bool)"
  by code_simp+

lemma sample_metadata_finite:
  "sc = scope_int \<or> sc = scope_bool \<Longrightarrow>
     all_finite (JObj (permission_metadata ''cap'' sc md None ''management-cli'' ''2026-01-01T00:00:00Z'' None None))"
  by (auto simp: permission_metadata_def scope_int_def scope_bool_def opt_json_def)

lemma sample_first_grant:
  assumes "md = ''ask'' \<or> md = ''allow_once''"
  shows "\<exists>q t a. sample_grant ''u1'' ''v1'' scope_int md sample_repo = (Inr q, t) \<and> repo_ok t \<and> \<not> read_only t \<and>
    audit_events t = [a] \<and> event_id a = ''v1'' \<and> records t = [sample_permission_row ''u1'' ''v1'' scope_int md]"
proof -
  have e: "\<not> read_only sample_repo" "records sample_repo = []" "audit_events sample_repo = []"
    by (simp_all add: sample_repo_def)
  then have a: "assert_unique_identity ''permission'' ''permission_identity'' (permission_identity ''cap'' scope_int) sample_repo = Inr ()"
    "find_row ''u1'' (records sample_repo) = None" "''v1'' \<notin> event_id ` set (audit_events sample_repo)"
    by (simp_all add: assert_unique_identity_def list_all_typed_records_def newest_records_def find_row_def)
  have f: "all_finite (JObj (permission_metadata ''cap'' scope_int md None ''management-cli'' ''2026-01-01T00:00:00Z'' None None))"
    by (rule sample_metadata_finite) simp
  from sample_grant_succeeds [OF sample_repo_ok e(1) assms sample_scopes(1,3,5) a f]
  show ?thesis unfolding e append_Nil .
qed

theorem permission_create_correct_witness:
  "\<exists>q t. sample_grant ''u1'' ''v1'' scope_int ''allow_once'' sample_repo = (Inr q, t) \<and>
     permission_get ''u1'' t = Inr q \<and> remaining_uses q = Some 1 \<and> repo_ok t"
proof -
  obtain q t where g: "sample_grant ''u1'' ''v1'' scope_int ''allow_once'' sample_repo = (Inr q, t)"
    using sample_first_grant by blast
  have at: "validate_utc ''2026-01-01T00:00:00Z'' = Inr ''2026-01-01T00:00:00Z''" by code_simp
  from permission_create_correct [OF sample_repo_ok sample_scopes(5) at g [unfolded sample_grant_def]] g
  show ?thesis by (auto simp: sample_env_def)
qed

theorem resolve_grants_only_stored_witness:
  "\<exists>q t d. sample_grant ''u1'' ''v1'' scope_int ''ask'' sample_repo = (Inr q, t) \<and>
     permission_resolve 0 ''cap'' scope_int t = Inr d \<and> effective_mode d = ''ask'' \<and>
     (\<exists>row \<in> set (records t). dec_record_id d = Some (rec_id row) \<and> rec_status row = ''active'')"
proof -
  obtain q t where g: "sample_grant ''u1'' ''v1'' scope_int ''ask'' sample_repo = (Inr q, t)" "repo_ok t"
    "records t = [sample_permission_row ''u1'' ''v1'' scope_int ''ask'']"
    using sample_first_grant by blast
  let ?s = "sample_repo\<lparr>records := [sample_permission_row ''u1'' ''v1'' scope_int ''ask'']\<rparr>"
  have "case permission_resolve 0 ''cap'' scope_int ?s of Inr d \<Rightarrow> effective_mode d = ''ask'' | _ \<Rightarrow> False"
    by code_simp
  then obtain d where d: "permission_resolve 0 ''cap'' scope_int t = Inr d" "effective_mode d = ''ask''"
    using resolve_cong [of t ?s] g(3) by (auto split: sum.splits)
  from resolve_grants_only_stored [OF g(2) d(1)] d g(1) show ?thesis by fastforce
qed

theorem permission_identity_unique_witness:
  "\<exists>q t. sample_grant ''u1'' ''v1'' scope_int ''ask'' sample_repo = (Inr q, t) \<and> permissions_unique t"
proof -
  obtain q t where g: "sample_grant ''u1'' ''v1'' scope_int ''ask'' sample_repo = (Inr q, t)"
    using sample_first_grant by blast
  have "permissions_unique sample_repo" by (simp add: permissions_unique_def sample_repo_def)
  from permission_identity_unique [OF sample_repo_ok this disjI1] g show ?thesis
    unfolding sample_grant_def by (metis snd_conv)
qed

theorem equal_scopes_break_resolution_witness:
  "\<exists>p q t u. sample_grant ''u1'' ''v1'' scope_int ''ask'' sample_repo = (Inr p, t) \<and>
     sample_grant ''u2'' ''v2'' scope_bool ''ask'' t = (Inr q, u) \<and>
     permission_resolve 0 ''cap'' scope_int u = Inl StateCorruptError"
proof -
  let ?r1 = "sample_permission_row ''u1'' ''v1'' scope_int ''ask''"
  let ?r2 = "sample_permission_row ''u2'' ''v2'' scope_bool ''ask''"
  obtain p t a where g: "sample_grant ''u1'' ''v1'' scope_int ''ask'' sample_repo = (Inr p, t)" "repo_ok t"
    "\<not> read_only t" "audit_events t = [a]" "event_id a = ''v1''" "records t = [?r1]"
    using sample_first_grant by blast
  have "assert_unique_identity ''permission'' ''permission_identity'' (permission_identity ''cap'' scope_bool)
      (sample_repo\<lparr>records := [?r1]\<rparr>) = Inr ()" "find_row ''u2'' [?r1] = None"
    by code_simp+
  then obtain q u where h: "sample_grant ''u2'' ''v2'' scope_bool ''ask'' t = (Inr q, u)" "records u = [?r1, ?r2]"
    using sample_grant_succeeds [OF g(2,3) _ sample_scopes(2,4,6), of "''ask''" "''u2''" "''v2''"]
      assert_unique_cong [of t "sample_repo\<lparr>records := [?r1]\<rparr>"] g sample_metadata_finite [of scope_bool] by auto
  let ?s = "sample_repo\<lparr>records := [?r1, ?r2]\<rparr>"
  let ?ps = "bindr (list_all_typed_records ''permission'' False ?s) (map_res permission_from_record)"
  have "case ?ps of Inr [y, x] \<Rightarrow> x \<noteq> y \<and> capability_id x = ''cap'' \<and> capability_id y = ''cap'' \<and>
      dict_eq (scope x) scope_int \<and> dict_eq (scope y) scope_int | _ \<Rightarrow> False"
    by code_simp
  then obtain rs x y where ps: "list_all_typed_records ''permission'' False u = Inr rs"
    "map_res permission_from_record rs = Inr [y, x]"
    "x \<noteq> y" "capability_id x = ''cap''" "capability_id y = ''cap''"
    "dict_eq (scope x) scope_int" "dict_eq (scope y) scope_int"
    using typed_list_cong [of u ?s] h(2) by (auto split: sum.splits list.splits simp: bindr_def)
  have "validate_key ''cap'' = Inr ''cap''" by code_simp
  then have "permission_resolve 0 ''cap'' scope_int u = Inl StateCorruptError"
    using equal_scopes_break_resolution [OF ps(1,2), of x y "''cap''" scope_int scope_int 0] ps sample_scopes(1) by auto
  with g h show ?thesis by blast
qed

theorem consume_allow_once_at_most_once_witness:
  "\<exists>p q t u. sample_grant ''u1'' ''v1'' scope_int ''allow_once'' sample_repo = (Inr p, t) \<and>
     consume_allow_once ((sample_env ''x'')\<lparr>event_uuid := ''v2''\<rparr>) ''2026-01-01T00:00:00Z'' 0 ''u1'' 1 ''op1'' ''system'' t =
       (Inr q, u) \<and> mode q = ''denied'' \<and> permission_get ''u1'' u = Inr q"
proof -
  let ?e = "(sample_env ''x'')\<lparr>event_uuid := ''v2''\<rparr>"
  obtain p t a where g: "sample_grant ''u1'' ''v1'' scope_int ''allow_once'' sample_repo = (Inr p, t)" "repo_ok t"
    "\<not> read_only t" "audit_events t = [a]" "event_id a = ''v1''"
    "records t = [sample_permission_row ''u1'' ''v1'' scope_int ''allow_once'']"
    using sample_first_grant by blast
  have at: "validate_utc ''2026-01-01T00:00:00Z'' = Inr ''2026-01-01T00:00:00Z''" by code_simp
  have "validate_key ''cap'' = Inr ''cap''" by code_simp
  with permission_create_shape [OF sample_repo_ok sample_scopes(5) at g(1) [unfolded sample_grant_def]] sample_scopes(1) g(6)
  have p: "permission_get ''u1'' t = Inr p" "mode p = ''allow_once''" "scope p = scope_int" "i_status p = ''active''"
    "capability_id p = ''cap''" "expires_at p = None" "remaining_uses p = Some 1" "i_revision p = 1"
    by (auto simp: sample_env_def)
  obtain r where r: "get_record ''u1'' t = Inr r" "record_type r = ''permission''" "permission_from_record r = Inr p"
    using permission_getD [OF p(1)] by blast
  obtain row where "find_row ''u1'' (records t) = Some row" "r = with_metadata row (metadata r)"
    using get_recordD [OF r(1)] by blast
  then have rid: "rec_id r = ''u1''" "revision r = 1"
    using permission_inv [OF r(3)] p(8) find_row_Some [of "''u1''" "records t" row]
    by (metis with_metadata_sel(1), simp)
  let ?m = "[(''capability_id'', JStr ''cap''), (''previous_mode'', JStr ''allow_once''),
           (''mode'', JStr ''denied''), (''scope_kind'', JStr ''dir'')]"
  have "list_all plain_entry ?m" using plain_audit_entries by auto
  moreover have "int (utf8_length (encode (JObj ?m))) \<le> MAX_METADATA_BYTES" by code_simp
  ultimately have j: "serialize_metadata_strict ?m = Inr (canon (JObj ?m))"
    by (intro serialize_plain) (simp_all add: MAX_METADATA_ITEMS_def)
  have "\<exists>u. update_typed_record ?e r 1
        (permission_metadata ''cap'' scope_int ''denied'' None (approval_source p) ''2026-01-01T00:00:00Z''
           (Some ''2026-01-01T00:00:00Z'') (Some (Some 0)))
        ''active'' (Some ''op1'') ''system'' ''permission.consume_once'' ?m t = (Inr (), u)"
    using g(2-5) r rid action_tokens j
    by (intro update_typed_record_ok [where oid = "''op1''" and r = r])
      (auto simp: validate_operation_id_def permission_metadata_def scope_int_def opt_json_def sample_env_def)
  then obtain u where u: "update_typed_record ?e r 1
        (permission_metadata ''cap'' scope_int ''denied'' None (approval_source p) ''2026-01-01T00:00:00Z''
           (Some ''2026-01-01T00:00:00Z'') (Some (Some 0)))
        ''active'' (Some ''op1'') ''system'' ''permission.consume_once'' ?m t = (Inr (), u)" by blast
  have "decision_from_permission 0 p = Inr \<lparr>dec_record_id = Some (i_record_id p), dec_capability_id = ''cap'',
      dec_scope = scope_int, effective_mode = ''allow_once'', dec_reason = reason_active\<rparr>"
    using p by (simp add: decision_from_permission_def)
  then have run: "consume_allow_once ?e ''2026-01-01T00:00:00Z'' 0 ''u1'' 1 ''op1'' ''system'' t = (permission_get ''u1'' u, u)"
    using p r(1) u sample_scopes(3)
    by (simp add: consume_allow_once_def bind_lift bind_op_def lift_op_def ALLOWED_CONSUME_ACTORS_def require_def)
  have "u \<noteq> t" using update_typed_record_cases [OF g(2) active_allowed(1) u] by auto
  with consume_allow_once_at_most_once [OF g(2) p(1) _ at run] p(3) sample_scopes(5) run g(1) show ?thesis
    by auto
qed

end
