(* ===== verification/Record_Store.thy ===== *)
theory Record_Store
  imports Settings
begin

text \<open>
  What the services for long-term records share. \<open>memory.py\<close>, \<open>project_state.py\<close> and
  \<open>work_item.py\<close> each carry their own copy of the same field validators and of the same two
  transactions, which differ only in the exception class they raise and in the audit event they
  write. Here the copies are one definition each, with the exception class \<open>x\<close> as an argument.

  A write reads nothing it validated again except the row it changes: it compares the revision
  and the status under the lock, rewrites the row, adds one audit event and advances the state
  revision.
\<close>

section \<open>Field validators\<close>

definition WINDOWS_ROOT_PATTERN :: rx where
  "WINDOWS_ROOT_PATTERN = rseq [RWordB, RCls is_letter_i, rlit '':'', RCls (any_of [CHR 0x5C, CHR ''/''])]"

definition local_path :: "string \<Rightarrow> bool" where
  "local_path value \<longleftrightarrow> contains_text ''file://'' value \<or> re_search POSIX_PATH_PATTERN value \<or>
     re_search WINDOWS_ROOT_PATTERN value"

definition field_text :: "exc \<Rightarrow> int \<Rightarrow> string \<Rightarrow> string res" where
  "field_text x maximum value =
     (let normalized = norm_lines value in
      bindr (require (\<not> (normalized = [] \<or> maximum < int (length normalized))) x) (\<lambda>_.
      bindr (require (\<not> list_ex (\<lambda>c. ord c < 32 \<and> c \<noteq> CHR 0x0A \<and> c \<noteq> CHR 0x09) normalized) x) (\<lambda>_.
      bindr (require (\<not> local_path normalized) x) (\<lambda>_.
      Inr normalized))))"

definition text_items :: "exc \<Rightarrow> int \<Rightarrow> int \<Rightarrow> string list \<Rightarrow> string list res" where
  "text_items x items maximum values =
     bindr (require (\<not> items < int (length values)) x) (\<lambda>_.
     bindr (map_res (field_text x maximum) values) (\<lambda>normalized.
     bindr (require (distinct normalized) x) (\<lambda>_.
     Inr normalized)))"

definition is_utc :: "string \<Rightarrow> bool" where
  "is_utc value \<longleftrightarrow> ends_with ''Z'' value \<and>
     (case fromisoformat (take (length value - 1) value @ ''+00:00'') of
        None \<Rightarrow> False | Some (_, offset) \<Rightarrow> offset = Some 0)"

definition field_utc :: "exc \<Rightarrow> string \<Rightarrow> string res" where
  "field_utc x value = (if is_utc value then Inr value else Inl x)"

definition not_before :: "exc \<Rightarrow> string \<Rightarrow> string \<Rightarrow> unit res" where
  "not_before x later earlier =
     bindr (utc_micros later) (\<lambda>a. bindr (utc_micros earlier) (\<lambda>b. require (\<not> a < b) x))"

definition ref_id :: "exc \<Rightarrow> string \<Rightarrow> string res" where
  "ref_id x value = of_option x (uuid value)"

fun collect_ids :: "exc \<Rightarrow> string list \<Rightarrow> string list \<Rightarrow> string list res" where
  "collect_ids x normalized [] = Inr normalized"
| "collect_ids x normalized (value # values) =
     bindr (ref_id x value) (\<lambda>canonical.
     bindr (require (\<not> List.member normalized canonical) x) (\<lambda>_.
     collect_ids x (normalized @ [canonical]) values))"

definition ref_ids :: "exc \<Rightarrow> int \<Rightarrow> string list \<Rightarrow> string list res" where
  "ref_ids x maximum values =
     bindr (require (\<not> maximum < int (length values)) x) (\<lambda>_. collect_ids x [] values)"

definition req_str :: "exc \<Rightarrow> dict \<Rightarrow> string \<Rightarrow> string res" where
  "req_str x m key =
     (case map_of m key of
        Some (JStr value) \<Rightarrow> if value = [] then Inl x else Inr value
      | _ \<Rightarrow> Inl x)"

definition opt_str :: "exc \<Rightarrow> dict \<Rightarrow> string \<Rightarrow> string option res" where
  "opt_str x m key =
     (case map_of m key of
        None \<Rightarrow> Inr None
      | Some JNull \<Rightarrow> Inr None
      | Some (JStr value) \<Rightarrow> if value = [] then Inl x else Inr (Some value)
      | _ \<Rightarrow> Inl x)"

definition meta_list :: "exc \<Rightarrow> dict \<Rightarrow> string \<Rightarrow> json list res" where
  "meta_list x m key = (case map_of m key of Some (JList vs) \<Rightarrow> Inr vs | _ \<Rightarrow> Inl x)"

definition as_text :: "exc \<Rightarrow> json \<Rightarrow> string res" where
  "as_text x v = (case v of JStr t \<Rightarrow> Inr t | _ \<Rightarrow> Inl x)"

definition meta_strings :: "exc \<Rightarrow> dict \<Rightarrow> string \<Rightarrow> string list res" where
  "meta_strings x m key = bindr (meta_list x m key) (map_res (as_text x))"

definition meta_ids :: "exc \<Rightarrow> int \<Rightarrow> dict \<Rightarrow> string \<Rightarrow> string list res" where
  "meta_ids x maximum m key = bindr (meta_strings x m key) (ref_ids x maximum)"

abbreviation str_list :: "string list \<Rightarrow> json" where
  "str_list us \<equiv> JList (map JStr us)"

abbreviation present :: "dict \<Rightarrow> string \<Rightarrow> bool" where
  "present m key \<equiv> map_of m key \<noteq> None \<and> map_of m key \<noteq> Some JNull"

text \<open>The newest records of a type, by creation time and identifier.\<close>

definition listed :: "string \<Rightarrow> bool \<Rightarrow> int \<Rightarrow> repo \<Rightarrow> RecordRow list" where
  "listed rtype include_archived limit s =
     take (nat limit) (rev (sort_key (\<lambda>r. (created_at r, rec_id r))
       (filter (\<lambda>r. record_type r = rtype \<and>
          (rec_status r = ''active'' \<or> include_archived \<and> rec_status r = ''archived'')) (records s))))"

section \<open>Transactions\<close>

record draft =
  dr_id :: string
  dr_type :: string
  dr_version :: int
  dr_prov :: string
  dr_sens :: string
  dr_title :: string
  dr_meta :: dict

definition draft_row :: "env \<Rightarrow> draft \<Rightarrow> json \<Rightarrow> RecordRow" where
  "draft_row e d j =
     \<lparr>rec_id = dr_id d, record_type = dr_type d, rec_schema_version = dr_version d,
      created_at = utc_now e, updated_at = utc_now e, revision = 1, rec_status = ''active'',
      provenance = dr_prov d, sensitivity = dr_sens d, rec_title = Some (dr_title d), metadata = Some j\<rparr>"

definition store_create_body :: "env \<Rightarrow> draft \<Rightarrow> change \<Rightarrow> dict res \<Rightarrow> string \<Rightarrow> repo \<Rightarrow> repo res" where
  "store_create_body e d c ameta summ s =
     rescue database_error StateCorruptError (
       bindr (serialize_metadata (dr_meta d)) (\<lambda>j.
       bindr (require (find_row (dr_id d) (records s) = None) DatabaseError) (\<lambda>_.
       bindr (insert_record (draft_row e d j) s) (\<lambda>t.
       bindr ameta (\<lambda>am. insert_change e (c\<lparr>c_metadata := am\<rparr>) summ t)))))"

definition change_of :: "string \<Rightarrow> string \<Rightarrow> string \<Rightarrow> string \<Rightarrow> string \<Rightarrow> change" where
  "change_of op actor act ttype tid =
     \<lparr>c_operation_id = op, c_actor_type = actor, c_action = act, c_target_type = ttype,
      c_target_id = tid, c_metadata = []\<rparr>"

definition store_create ::
  "env \<Rightarrow> draft \<Rightarrow> string option \<Rightarrow> string \<Rightarrow> string \<Rightarrow> string \<Rightarrow> dict res \<Rightarrow> (repo, string) op" where
  "store_create e d op actor act summ ameta =
     bind_op (lift_op (\<lambda>s.
       bindr (require (\<not> read_only s) ReadOnlyStateError) (\<lambda>_.
       bindr (validate_record_fields (dr_type d) (dr_version d) ''active'' (dr_prov d) (dr_sens d)) (\<lambda>_.
       validate_operation_id e op))))
     (\<lambda>safe_op. write_op e
       (store_create_body e d (change_of safe_op actor act (dr_type d) (dr_id d)) ameta summ)
       (\<lambda>_. Inr (dr_id d)))"

record revising =
  rv_version :: "int option"
  rv_status :: string
  rv_prov :: string
  rv_title :: string
  rv_meta :: dict

definition revised_row :: "env \<Rightarrow> revising \<Rightarrow> json \<Rightarrow> RecordRow \<Rightarrow> RecordRow" where
  "revised_row e v j r =
     r\<lparr>rec_schema_version := (case rv_version v of None \<Rightarrow> rec_schema_version r | Some n \<Rightarrow> n),
       updated_at := utc_now e, revision := revision r + 1, rec_status := rv_status v,
       provenance := rv_prov v, rec_title := Some (rv_title v), metadata := Some j\<rparr>"

definition store_update_body ::
  "env \<Rightarrow> exc \<Rightarrow> string \<Rightarrow> int \<Rightarrow> revising \<Rightarrow> change \<Rightarrow> dict res \<Rightarrow> string \<Rightarrow> repo \<Rightarrow> repo res" where
  "store_update_body e x i expected v c ameta summ s =
     rescue database_error StateCorruptError (
       bindr (get_record i s) (\<lambda>refreshed.
       bindr (require (revision refreshed = expected) StaleRevisionError) (\<lambda>_.
       bindr (require (rec_status refreshed = ''active'') x) (\<lambda>_.
       bindr (serialize_metadata (rv_meta v)) (\<lambda>j.
       case find_row i (records s) of
         None \<Rightarrow> Inl StaleRevisionError
       | Some r \<Rightarrow>
           if revision r \<noteq> expected \<or> rec_status r \<noteq> ''active'' then Inl StaleRevisionError
           else bindr (store_record (revised_row e v j r) s) (\<lambda>t.
                bindr ameta (\<lambda>am. insert_change e (c\<lparr>c_metadata := am\<rparr>) summ t)))))))"

text \<open>\<open>checked\<close> is what a service still validates between the operation identifier and the
  transaction.\<close>

definition store_update ::
  "env \<Rightarrow> exc \<Rightarrow> RecordEnvelope \<Rightarrow> int \<Rightarrow> revising \<Rightarrow> string option \<Rightarrow> unit res \<Rightarrow> string \<Rightarrow> string \<Rightarrow>
   string \<Rightarrow> dict res \<Rightarrow> (repo, unit) op" where
  "store_update e x current expected v op checked actor act summ ameta =
     bind_op (lift_op (\<lambda>s.
       bindr (require (\<not> read_only s) ReadOnlyStateError) (\<lambda>_.
       bindr (validate_operation_id e op) (\<lambda>safe_op.
       bindr checked (\<lambda>_. Inr safe_op)))))
     (\<lambda>safe_op. write_op e
       (store_update_body e x (rec_id current) expected v
          (change_of safe_op actor act (record_type current) (rec_id current)) ameta summ)
       (\<lambda>_. Inr ()))"

section \<open>The transactions meet the contract\<close>

definition draft_ok :: "draft \<Rightarrow> bool" where
  "draft_ok d \<longleftrightarrow> 1 \<le> dr_version d \<and> dr_prov d \<in> set ALLOWED_PROVENANCE \<and> dr_sens d \<in> set ALLOWED_SENSITIVITY"

definition revising_ok :: "revising \<Rightarrow> bool" where
  "revising_ok v \<longleftrightarrow> (\<forall>n. rv_version v = Some n \<longrightarrow> 1 \<le> n) \<and> rv_status v \<in> set ALLOWED_STATUSES \<and>
     rv_prov v \<in> set ALLOWED_PROVENANCE"

abbreviation drafted :: "env \<Rightarrow> draft \<Rightarrow> RecordRow" where
  "drafted e d \<equiv> draft_row e d (JObj (canon_dict (dr_meta d)))"

abbreviation revised :: "env \<Rightarrow> revising \<Rightarrow> RecordRow \<Rightarrow> RecordRow" where
  "revised e v r \<equiv> revised_row e v (JObj (canon_dict (rv_meta v))) r"

lemma draft_row_ok: "draft_ok d \<Longrightarrow> json_ok j \<Longrightarrow> row_ok (draft_row e d j)"
  by (auto simp: row_ok_def draft_row_def draft_ok_def json_ok_def ALLOWED_STATUSES_def)

lemma revised_row_ok: "revising_ok v \<Longrightarrow> json_ok j \<Longrightarrow> row_ok r \<Longrightarrow> row_ok (revised_row e v j r)"
  by (auto simp: row_ok_def revised_row_def revising_ok_def json_ok_def split: option.splits)

lemma draft_row_sel [simp]:
  "rec_id (draft_row e d j) = dr_id d" "record_type (draft_row e d j) = dr_type d"
  "rec_status (draft_row e d j) = ''active''" "metadata (draft_row e d j) = Some j"
  by (simp_all add: draft_row_def)

lemma revised_row_sel [simp]:
  "rec_id (revised_row e v j r) = rec_id r" "record_type (revised_row e v j r) = record_type r"
  "revision (revised_row e v j r) = revision r + 1" "rec_status (revised_row e v j r) = rv_status v"
  "created_at (revised_row e v j r) = created_at r" "updated_at (revised_row e v j r) = utc_now e"
  "sensitivity (revised_row e v j r) = sensitivity r" "provenance (revised_row e v j r) = rv_prov v"
  "rec_title (revised_row e v j r) = Some (rv_title v)" "metadata (revised_row e v j r) = Some j"
  by (simp_all add: revised_row_def)

lemma revised_row_evolves: "row_evolves r (revised_row e v j r)"
  by (simp add: row_evolves_def)

lemma store_create_bodyD:
  assumes "store_create_body e d c ameta summ s = Inr t"
  shows "\<exists>am u. find_row (dr_id d) (records s) = None \<and> json_ok (JObj (canon_dict (dr_meta d))) \<and>
    insert_record (drafted e d) s = Inr u \<and> ameta = Inr am \<and> insert_change e (c\<lparr>c_metadata := am\<rparr>) summ u = Inr t"
  using assms by (fastforce simp: store_create_body_def dest!: serialize_metadata_ok)

lemma store_update_bodyD:
  assumes "store_update_body e x i expected v c ameta summ s = Inr t"
  shows "\<exists>r am u. find_row i (records s) = Some r \<and> revision r = expected \<and> rec_status r = ''active'' \<and>
    json_ok (JObj (canon_dict (rv_meta v))) \<and> store_record (revised e v r) s = Inr u \<and> ameta = Inr am \<and>
    insert_change e (c\<lparr>c_metadata := am\<rparr>) summ u = Inr t"
  using assms
  by (fastforce simp: store_update_body_def dest!: serialize_metadata_ok split: option.splits if_splits)

interpretation store_create: write_body "draft_ok d" "store_create_body e d c ameta summ" for d e c ameta summ
proof
  fix s t assume "store_create_body e d c ameta summ s = Inr t"
  then obtain am u where u: "find_row (rec_id (drafted e d)) (records s) = None"
    "json_ok (JObj (canon_dict (dr_meta d)))" "insert_record (drafted e d) s = Inr u"
    "insert_change e (c\<lparr>c_metadata := am\<rparr>) summ u = Inr t"
    by (auto dest: store_create_bodyD)
  show "meta_row t = meta_row s \<and> workspace_revision t = workspace_revision s"
    using insert_record_frame [OF u(3)] insert_change_frame [OF u(4)] by simp
  show "draft_ok d \<Longrightarrow> repo_ok s \<Longrightarrow> repo_ok t"
    using insert_record_ok [OF draft_row_ok _ u(1,3)] u(2) insert_change_ok [OF _ u(4)] by blast
  show "evolves s t"
    using insert_record_evolves [OF u(3)] insert_change_evolves [OF u(4)] by (rule evolves_trans)
qed

interpretation store_update: write_body "revising_ok v" "store_update_body e x i expected v c ameta summ"
  for v e x i expected c ameta summ
proof
  fix s t assume "store_update_body e x i expected v c ameta summ s = Inr t"
  then obtain r am u where u: "find_row i (records s) = Some r" "json_ok (JObj (canon_dict (rv_meta v)))"
    "store_record (revised e v r) s = Inr u" "insert_change e (c\<lparr>c_metadata := am\<rparr>) summ u = Inr t"
    by (auto dest: store_update_bodyD)
  show "meta_row t = meta_row s \<and> workspace_revision t = workspace_revision s"
    using store_record_frame [OF u(3)] insert_change_frame [OF u(4)] by simp
  show "revising_ok v \<Longrightarrow> repo_ok s \<Longrightarrow> repo_ok t"
    using store_record_ok [OF revised_row_ok _ u(3)] u(2) repo_ok_row [OF _ u(1)] insert_change_ok [OF _ u(4)]
    by blast
  have "evolves s u"
    using find_row_Some [OF u(1)] u(1) by (intro store_record_evolves [OF _ revised_row_evolves u(3)]) auto
  then show "evolves s t"
    using insert_change_evolves [OF u(4)] by (rule evolves_trans)
qed


section \<open>What a write leaves behind\<close>

text \<open>One audit event about the record, and both revisions advanced by one.\<close>

definition audited :: "env \<Rightarrow> string \<Rightarrow> string \<Rightarrow> string \<Rightarrow> repo \<Rightarrow> repo \<Rightarrow> bool" where
  "audited e actor ttype i s t \<longleftrightarrow> repo_ok t \<and> evolves s t \<and>
     (\<exists>a. audit_events t = audit_events s @ [a] \<and> event_id a = event_uuid e \<and> actor_type a = actor \<and>
        target_type a = Some ttype \<and> target_id a = Some i \<and> result a = ''success'') \<and>
     state_revision t = state_revision s + 1 \<and> workspace_revision t = state_revision t"

definition created :: "env \<Rightarrow> draft \<Rightarrow> string \<Rightarrow> repo \<Rightarrow> repo \<Rightarrow> bool" where
  "created e d actor s t \<longleftrightarrow> audited e actor (dr_type d) (dr_id d) s t \<and> draft_ok d \<and>
     find_row (dr_id d) (records s) = None \<and> records t = records s @ [drafted e d]"

definition changed :: "env \<Rightarrow> string \<Rightarrow> int \<Rightarrow> revising \<Rightarrow> string \<Rightarrow> string \<Rightarrow> RecordRow \<Rightarrow> repo \<Rightarrow> repo \<Rightarrow> bool" where
  "changed e i expected v actor ttype r s t \<longleftrightarrow> audited e actor ttype i s t \<and>
     find_row i (records s) = Some r \<and> revision r = expected \<and> rec_status r = ''active'' \<and>
     records t = replace_row (revised e v r) (records s)"

lemma audited_bodyI:
  assumes "insert_change e c summ u = Inr x" "audit_events u = audit_events s" "t = advance e x"
    and "repo_ok t" "evolves s t" "state_revision t = state_revision s + 1" "workspace_revision t = state_revision t"
    and "c_actor_type c = actor" "c_target_type c = ttype" "c_target_id c = i"
  shows "audited e actor ttype i s t \<and> records t = records u"
proof -
  obtain a where "audit_events x = audit_events u @ [a]" "audit_row_of e c a" "records x = records u"
    using insert_changeD [OF assms(1)] by auto
  then show ?thesis using assms(2-) by (auto simp: audited_def audit_row_of_def)
qed

lemma store_create_cases:
  assumes "repo_ok s" "store_create e d op actor act summ ameta s = (res, t)"
  shows "(isl res \<and> t = s) \<or> (res = Inr (dr_id d) \<and> created e d actor s t)"
proof (cases "bindr (require (\<not> read_only s) ReadOnlyStateError) (\<lambda>_.
       bindr (validate_record_fields (dr_type d) (dr_version d) ''active'' (dr_prov d) (dr_sens d)) (\<lambda>_.
       validate_operation_id e op))")
  case (Inl x)
  then have "(Inl x, s) = (res, t)" using assms(2) unfolding store_create_def bind_lift by simp
  then show ?thesis by auto
next
  case (Inr safe_op)
  let ?c = "change_of safe_op actor act (dr_type d) (dr_id d)"
  let ?body = "store_create_body e d ?c ameta summ"
  have d: "draft_ok d"
    using Inr by (auto dest!: validate_record_fields_ok simp: draft_ok_def)
  have w: "write_op e ?body (\<lambda>_. Inr (dr_id d)) s = (res, t)"
    using assms(2) Inr by (simp add: store_create_def bind_lift)
  from store_create.write_op_cases [OF assms(1) w] show ?thesis
  proof
    assume "\<exists>u. ?body s = Inr u \<and> t = advance e u \<and> res = Inr (dr_id d) \<and>
       state_revision t = state_revision s + 1 \<and> workspace_revision t = state_revision t"
    then obtain u where u: "?body s = Inr u" "t = advance e u" "res = Inr (dr_id d)"
      "state_revision t = state_revision s + 1" "workspace_revision t = state_revision t" by blast
    from store_create_bodyD [OF u(1)] obtain am x where x: "find_row (dr_id d) (records s) = None"
      "insert_record (drafted e d) s = Inr x" "insert_change e (?c\<lparr>c_metadata := am\<rparr>) summ x = Inr u" by blast
    have "audited e actor (dr_type d) (dr_id d) s t \<and> records t = records x"
      using insert_recordD [OF x(2)] store_create.write_op_ok [OF d assms(1) w]
        store_create.write_op_evolves [OF assms(1) w] u
      by (intro audited_bodyI [OF x(3)]) (simp_all add: change_of_def)
    then show ?thesis using u(3) x(1) d insert_recordD [OF x(2)] by (simp add: created_def)
  qed auto
qed

lemma store_update_cases:
  assumes "repo_ok s" "revising_ok v" "store_update e x current expected v op checked actor act summ ameta s = (res, t)"
  shows "(isl res \<and> t = s) \<or>
    (res = Inr () \<and> (\<exists>r. changed e (rec_id current) expected v actor (record_type current) r s t))"
proof (cases "bindr (require (\<not> read_only s) ReadOnlyStateError) (\<lambda>_.
       bindr (validate_operation_id e op) (\<lambda>safe_op. bindr checked (\<lambda>_. Inr safe_op)))")
  case (Inl y)
  then have "(Inl y, s) = (res, t)" using assms(3) unfolding store_update_def bind_lift by simp
  then show ?thesis by auto
next
  case (Inr safe_op)
  let ?c = "change_of safe_op actor act (record_type current) (rec_id current)"
  let ?body = "store_update_body e x (rec_id current) expected v ?c ameta summ"
  have w: "write_op e ?body (\<lambda>_. Inr ()) s = (res, t)"
    using assms(3) Inr by (simp add: store_update_def bind_lift)
  from store_update.write_op_cases [OF assms(1) w] show ?thesis
  proof
    assume "\<exists>u. ?body s = Inr u \<and> t = advance e u \<and> res = Inr () \<and>
       state_revision t = state_revision s + 1 \<and> workspace_revision t = state_revision t"
    then obtain u where u: "?body s = Inr u" "t = advance e u" "res = Inr ()"
      "state_revision t = state_revision s + 1" "workspace_revision t = state_revision t" by blast
    from store_update_bodyD [OF u(1)] obtain r am y where y: "find_row (rec_id current) (records s) = Some r"
      "revision r = expected" "rec_status r = ''active''" "store_record (revised e v r) s = Inr y"
      "insert_change e (?c\<lparr>c_metadata := am\<rparr>) summ y = Inr u" by blast
    have "audited e actor (record_type current) (rec_id current) s t \<and> records t = records y"
      using store_recordD [OF y(4)] store_update.write_op_ok [OF assms(2,1) w]
        store_update.write_op_evolves [OF assms(1) w] u
      by (intro audited_bodyI [OF y(5)]) (simp_all add: change_of_def)
    then show ?thesis using u(3) y(1-3) store_recordD [OF y(4)] by (auto simp: changed_def)
  qed auto
qed

text \<open>When the writes go through.\<close>

lemma store_create_ok:
  assumes "repo_ok s" "\<not> read_only s"
    and "validate_record_fields (dr_type d) (dr_version d) ''active'' (dr_prov d) (dr_sens d) = Inr ()"
    and "validate_operation_id e op = Inr oid" "all_finite (JObj (dr_meta d))"
    and "find_row (dr_id d) (records s) = None" "dr_type d \<noteq> ''model_binding''"
    and "validate_token MAX_ACTION_LENGTH act = Inr act'" "ameta = Inr am" "serialize_metadata_strict am = Inr j"
    and "event_uuid e \<notin> event_id ` set (audit_events s)"
  shows "\<exists>t. store_create e d op actor act summ ameta s = (Inr (dr_id d), t)"
proof -
  let ?c = "change_of oid actor act (dr_type d) (dr_id d)"
  let ?row = "drafted e d"
  let ?u = "s\<lparr>records := records s @ [?row]\<rparr>"
  have ins: "insert_record ?row s = Inr ?u"
    using assms(7) by (simp add: insert_record_def index_admits_def binding_scope_def)
  obtain t where t: "insert_change e (?c\<lparr>c_metadata := am\<rparr>) summ ?u = Inr t"
    using insert_change_succeeds [of "?c\<lparr>c_metadata := am\<rparr>" act' j e ?u summ] assms(8-11) by (auto simp: change_of_def)
  have "store_create_body e d ?c ameta summ s = Inr t"
    using ins t assms(5,6,9) by (simp add: store_create_body_def serialize_metadata_eq del: all_finite.simps)
  then show ?thesis
    using assms store_create.write_op_eq [OF assms(1), of e e d ?c ameta summ "\<lambda>_. Inr (dr_id d)"]
    by (simp add: store_create_def bind_lift)
qed

lemma store_update_ok:
  assumes "repo_ok s" "\<not> read_only s" "validate_operation_id e op = Inr oid" "checked = Inr ()"
    and "get_record (rec_id current) s = Inr r" "revision r = expected" "rec_status r = ''active''"
    and "all_finite (JObj (rv_meta v))" "record_type r \<noteq> ''model_binding''"
    and "validate_token MAX_ACTION_LENGTH act = Inr act'" "ameta = Inr am" "serialize_metadata_strict am = Inr j"
    and "event_uuid e \<notin> event_id ` set (audit_events s)"
  shows "\<exists>t. store_update e x current expected v op checked actor act summ ameta s = (Inr (), t)"
proof -
  let ?c = "change_of oid actor act (record_type current) (rec_id current)"
  obtain q where q: "find_row (rec_id current) (records s) = Some q" using get_recordD [OF assms(5)] by blast
  have rq: "revision q = expected" "rec_status q = ''active''" "record_type q \<noteq> ''model_binding''"
    using get_record_row [OF assms(5) q] assms(6,7,9) by auto
  let ?u = "s\<lparr>records := replace_row (revised e v q) (records s)\<rparr>"
  have st: "store_record (revised e v q) s = Inr ?u"
    using rq(3) by (simp add: store_record_def index_admits_def binding_scope_def)
  obtain t where t: "insert_change e (?c\<lparr>c_metadata := am\<rparr>) summ ?u = Inr t"
    using insert_change_succeeds [of "?c\<lparr>c_metadata := am\<rparr>" act' j e ?u summ] assms(10-13) by (auto simp: change_of_def)
  have "store_update_body e x (rec_id current) expected v ?c ameta summ s = Inr t"
    using st t q rq assms(5-8,11)
    by (simp add: store_update_body_def serialize_metadata_eq del: all_finite.simps)
  then show ?thesis
    using assms store_update.write_op_eq [OF assms(1), of e e x "rec_id current" expected v ?c ameta summ "\<lambda>_. Inr ()"]
    by (simp add: store_update_def bind_lift)
qed

text \<open>Neither a stale revision nor a record that is not active is ever overwritten.\<close>

lemma store_update_guard:
  assumes "repo_ok s" "revising_ok v" "find_row (rec_id current) (records s) = Some r"
    and "revision r \<noteq> expected \<or> rec_status r \<noteq> ''active''"
  shows "isl (fst (store_update e x current expected v op checked actor act summ ameta s)) \<and>
    snd (store_update e x current expected v op checked actor act summ ameta s) = s"
  using store_update_cases [OF assms(1,2)] assms(3,4)
  by (metis changed_def option.inject prod.collapse)


section \<open>Validators return normal forms\<close>

interpretation field_text: normalizer "field_text x n" for x n
  by unfold_locales (auto simp: field_text_def Let_def)

interpretation field_utc: normalizer "field_utc x" for x
  by unfold_locales (auto simp: field_utc_def split: if_splits)

interpretation ref_id: normalizer "ref_id x" for x
  by unfold_locales (auto simp: ref_id_def uuid_fixpoint)

lemma text_items_eq:
  "text_items x k n vs = Inr ws \<longleftrightarrow> int (length vs) \<le> k \<and> map_res (field_text x n) vs = Inr ws \<and> distinct ws"
  by (auto simp: text_items_def)

interpretation text_items: normalizer "text_items x k n" for x k n
  by unfold_locales (auto simp: text_items_eq map_res_length field_text.norm_list_idem)

lemma collect_ids_eq:
  "distinct acc \<Longrightarrow> collect_ids x acc vs = Inr us \<longleftrightarrow>
     (\<exists>ws. map_res (ref_id x) vs = Inr ws \<and> us = acc @ ws \<and> distinct us)"
proof (induction vs arbitrary: acc)
  case (Cons v vs)
  show ?case
  proof (cases "ref_id x v")
    case (Inr u)
    show ?thesis
    proof (cases "u \<in> set acc")
      case False
      then have "distinct (acc @ [u])" using Cons.prems by simp
      with Inr False Cons.IH [of "acc @ [u]"] show ?thesis by auto
    qed (use Inr in auto)
  qed simp
qed auto

lemma ref_ids_eq:
  "ref_ids x n vs = Inr us \<longleftrightarrow> int (length vs) \<le> n \<and> map_res (ref_id x) vs = Inr us \<and> distinct us"
  using collect_ids_eq [of "[]" x vs us] by (auto simp: ref_ids_def)

interpretation ref_ids: normalizer "ref_ids x n" for x n
  by unfold_locales (auto simp: ref_ids_eq map_res_length ref_id.norm_list_idem)

lemma meta_ids_idem: "meta_ids x n m k = Inr us \<Longrightarrow> ref_ids x n us = Inr us"
  by (auto simp: meta_ids_def intro: ref_ids.norm_idem)

lemma field_text_nonempty: "field_text x n v = Inr t \<Longrightarrow> t \<noteq> []"
  by (auto simp: field_text_def Let_def)

text \<open>Reading back what a writer stored.\<close>

lemma as_text_list: "map_res (as_text x) (map JStr us) = Inr us"
  by (induction us) (auto simp: as_text_def)

lemma meta_strings_stored [simp]: "map_of m k = Some (str_list us) \<Longrightarrow> meta_strings x m k = Inr us"
  by (simp add: meta_strings_def meta_list_def as_text_list)

lemma meta_ids_stored [simp]: "map_of m k = Some (str_list us) \<Longrightarrow> meta_ids x n m k = ref_ids x n us"
  by (simp add: meta_ids_def)

lemma req_str_stored [simp]: "map_of m k = Some (JStr v) \<Longrightarrow> v \<noteq> [] \<Longrightarrow> req_str x m k = Inr v"
  by (simp add: req_str_def)

lemma opt_str_stored [simp]: "map_of m k = Some (opt_json v) \<Longrightarrow> v \<noteq> Some [] \<Longrightarrow> opt_str x m k = Inr v"
  by (cases v) (auto simp: opt_str_def opt_json_def)

text \<open>A stored object has the fields of a written one.\<close>

definition stored :: "dict \<Rightarrow> dict \<Rightarrow> bool" where
  "stored m d \<longleftrightarrow> (\<forall>(k, v) \<in> set d. map_of m k = Some v)"

lemma stored_canon: "distinct (map fst d) \<Longrightarrow> \<forall>(k, v) \<in> set d. canon v = v \<Longrightarrow> stored (canon_dict d) d"
  unfolding stored_def by (auto simp: map_of_canon_dict)

lemma stored_append: "stored m (c @ d) \<longleftrightarrow> stored m c \<and> stored m d"
  by (auto simp: stored_def)

lemma stored_Nil [simp]: "stored m []"
  by (simp add: stored_def)

lemma stored_Cons: "stored m ((k, v) # d) \<longleftrightarrow> map_of m k = Some v \<and> stored m d"
  by (auto simp: stored_def)

lemma req_strD: "req_str x m k = Inr v \<Longrightarrow> map_of m k = Some (JStr v) \<and> v \<noteq> []"
  by (auto simp: req_str_def split: option.splits json.splits if_splits)

lemma meta_list_stored [simp]: "map_of m k = Some (JList vs) \<Longrightarrow> meta_list x m k = Inr vs"
  by (simp add: meta_list_def)

lemma canon_str_list [simp]: "canon (str_list us) = str_list us"
  by (simp add: comp_def)

lemma canon_opt_json [simp]: "canon (opt_json v) = opt_json v"
  by (cases v) (simp_all add: opt_json_def)

lemma finite_str_list [simp]: "all_finite (str_list us)"
  by (simp add: list_all_iff)

lemma finite_opt_json [simp]: "all_finite (opt_json v)"
  by (cases v) (simp_all add: opt_json_def)

section \<open>Times\<close>

definition ts_le :: "string \<Rightarrow> string \<Rightarrow> bool" where
  "ts_le a b \<longleftrightarrow> (\<exists>m n. utc_micros a = Inr m \<and> utc_micros b = Inr n \<and> m \<le> n)"

lemma utc_micros_total: "is_utc t \<Longrightarrow> \<exists>n. utc_micros t = Inr n"
  by (auto simp: is_utc_def utc_micros_def split: option.splits)

lemma not_before_eq: "not_before x b a = Inr u \<longleftrightarrow> ts_le a b"
  by (auto simp: not_before_def ts_le_def)

lemma not_before_cases: "is_utc a \<Longrightarrow> is_utc b \<Longrightarrow> not_before x b a = (if ts_le a b then Inr () else Inl x)"
  using utc_micros_total [of a] utc_micros_total [of b] by (auto simp: not_before_def ts_le_def)

lemma ts_le_refl: "is_utc t \<Longrightarrow> ts_le t t"
  using utc_micros_total [of t] by (auto simp: ts_le_def)

lemma ts_le_trans: "ts_le a b \<Longrightarrow> ts_le b c \<Longrightarrow> ts_le a c"
  by (auto simp: ts_le_def)

lemma field_utc_eq [simp]: "field_utc x t = Inr v \<longleftrightarrow> is_utc t \<and> v = t"
  by (auto simp: field_utc_def)

lemma opt_utc_eq [simp]: "opt_res (field_utc x) t = Inr v \<longleftrightarrow> v = t \<and> (\<forall>u. t = Some u \<longrightarrow> is_utc u)"
  by (cases t) auto

lemma is_utc_nonempty: "is_utc t \<Longrightarrow> t \<noteq> []"
  by (auto simp: is_utc_def ends_with_def)


section \<open>The contract of a record reader\<close>

text \<open>
  A service reads a record with a function that validates everything again. A service can
  archive what it can read because the validation does not ask for the status, does not look the
  record itself up in the repository, and only wants the change time not to be before the
  creation time. \<open>prov\<close> is the provenance that the service writes when it archives.
\<close>

definition touched :: "string \<Rightarrow> string \<Rightarrow> RecordEnvelope \<Rightarrow> RecordEnvelope" where
  "touched now p r = r\<lparr>updated_at := now, revision := revision r + 1, rec_status := ''archived'', provenance := p\<rparr>"

definition others_same :: "string \<Rightarrow> repo \<Rightarrow> repo \<Rightarrow> bool" where
  "others_same i s t \<longleftrightarrow> filter (\<lambda>r. rec_id r \<noteq> i) (records t) = filter (\<lambda>r. rec_id r \<noteq> i) (records s)"

definition archiving :: "RecordEnvelope \<Rightarrow> string \<Rightarrow> revising" where
  "archiving r p = \<lparr>rv_version = None, rv_status = ''archived'', rv_prov = p,
     rv_title = (case rec_title r of None \<Rightarrow> [] | Some t \<Rightarrow> t), rv_meta = metadata r\<rparr>"

locale record_reader =
  fixes reader :: "RecordEnvelope \<Rightarrow> repo \<Rightarrow> 'i res" and prov :: "RecordEnvelope \<Rightarrow> string"
  assumes reads_title: "reader r s = Inr v \<Longrightarrow> \<exists>t. rec_title r = Some t"
    and reads_touched: "reader r s = Inr v \<Longrightarrow> is_utc now \<Longrightarrow> ts_le (created_at r) now \<Longrightarrow>
      \<exists>w. reader (touched now (prov r) r) s = Inr w"
    and reads_others: "reader r s = Inr v \<Longrightarrow> get_record (rec_id r) s = Inr q \<Longrightarrow> record_type q = record_type r \<Longrightarrow>
      others_same (rec_id r) s t \<Longrightarrow> reader r t = Inr v"
    and prov_allowed: "reader r s = Inr v \<Longrightarrow> prov r \<in> set ALLOWED_PROVENANCE"
begin

lemma archiving_ok: "reader r s = Inr v \<Longrightarrow> revising_ok (archiving r (prov r))"
  using prov_allowed by (auto simp: revising_ok_def archiving_def ALLOWED_STATUSES_def)

end

lemma find_row_filter: "j \<noteq> i \<Longrightarrow> find_row j (filter (\<lambda>r. rec_id r \<noteq> i) rows) = find_row j rows"
  by (induction rows) (auto simp: find_row_def)

lemma others_same_get: "others_same i s t \<Longrightarrow> j \<noteq> i \<Longrightarrow> get_record j t = get_record j s"
  using find_row_filter [of j i "records s"] find_row_filter [of j i "records t"]
  by (simp add: others_same_def get_record_def)

lemma filter_replace_row:
  "filter (\<lambda>q. rec_id q \<noteq> rec_id r) (replace_row r rows) = filter (\<lambda>q. rec_id q \<noteq> rec_id r) rows"
  by (induction rows) (auto simp: replace_row_def)

lemma others_same_replace: "rec_id r = i \<Longrightarrow> records t = replace_row r (records s) \<Longrightarrow> others_same i s t"
  using filter_replace_row by (auto simp: others_same_def)

lemma get_after_replace:
  assumes "records t = replace_row q (records s)" "find_row (rec_id q) (records s) = Some r"
    and "metadata q = Some (JObj m)"
  shows "get_record (rec_id q) t = Inr (with_metadata q m)"
  using assms by (simp add: get_record_def find_row_replace record_from_row_ok)

lemma get_after_append:
  assumes "records t = records s @ [q]" "find_row (rec_id q) (records s) = None" "metadata q = Some (JObj m)"
  shows "get_record (rec_id q) t = Inr (with_metadata q m)"
  using assms by (simp add: get_record_def find_row_append1 record_from_row_ok)

lemma created_get:
  assumes "created e d actor s t"
  shows "get_record (dr_id d) t = Inr (with_metadata (drafted e d) (canon_dict (dr_meta d))) \<and>
    (\<forall>j. j \<noteq> dr_id d \<longrightarrow> get_record j t = get_record j s)"
  using assms get_after_append [of t s "drafted e d"]
  by (auto simp: created_def get_record_def find_row_append1)

definition revised_env :: "env \<Rightarrow> revising \<Rightarrow> RecordEnvelope \<Rightarrow> RecordEnvelope" where
  "revised_env e v r =
     r\<lparr>rec_schema_version := (case rv_version v of None \<Rightarrow> rec_schema_version r | Some n \<Rightarrow> n),
       updated_at := utc_now e, revision := revision r + 1, rec_status := rv_status v,
       provenance := rv_prov v, rec_title := Some (rv_title v), metadata := canon_dict (rv_meta v)\<rparr>"

lemma changed_get:
  assumes "changed e i expected v actor ttype row s t" "get_record i s = Inr r"
  shows "get_record i t = Inr (revised_env e v r) \<and> revision r = expected \<and> rec_status r = ''active'' \<and>
    rec_id r = i \<and> others_same i s t"
proof -
  have c: "find_row i (records s) = Some row" "records t = replace_row (revised e v row) (records s)"
    using assms(1) by (auto simp: changed_def)
  have id: "rec_id row = i" using find_row_Some [OF c(1)] by simp
  have f: "rec_id r = i" "record_type r = record_type row" "rec_schema_version r = rec_schema_version row"
    "created_at r = created_at row" "sensitivity r = sensitivity row" "revision r = revision row"
    "rec_status r = rec_status row"
    using get_record_row [OF assms(2) c(1)] id by auto
  have "with_metadata (revised e v row) (canon_dict (rv_meta v)) = revised_env e v r"
    using f id by (cases r) (simp add: with_metadata_def revised_env_def revised_row_def split: option.splits)
  moreover have "get_record i t = Inr (with_metadata (revised e v row) (canon_dict (rv_meta v)))"
    using get_after_replace [OF c(2), of row "canon_dict (rv_meta v)"] c(1) id by simp
  moreover have "others_same i s t" by (rule others_same_replace [OF _ c(2)]) (simp add: id)
  ultimately show ?thesis using f assms(1) by (simp add: changed_def)
qed

text \<open>A service call that ends with a read of what it wrote.\<close>

lemma bind_op_read:
  "bind_op c (\<lambda>i. lift_op (g i)) s = (case c s of (Inl x, u) \<Rightarrow> (Inl x, u) | (Inr i, u) \<Rightarrow> (g i u, u))"
  by (simp add: bind_op_def lift_op_def split: prod.splits sum.splits)

section \<open>The shape of a service call\<close>

text \<open>Validation, then the transaction, then a read of the record.\<close>

lemma store_create_call:
  assumes "repo_ok s" "bind_op (lift_op prep) (\<lambda>w. bind_op (store_create e (d w) op actor act summ (am w))
      (\<lambda>i. lift_op (get i))) s = (res, t)"
  shows "(isl res \<and> t = s) \<or> (\<exists>w. prep s = Inr w \<and> res = get (dr_id (d w)) t \<and> created e (d w) actor s t)"
proof (cases "prep s")
  case (Inl x)
  then show ?thesis using assms(2) unfolding bind_lift by auto
next
  case (Inr w)
  obtain r1 u where c: "store_create e (d w) op actor act summ (am w) s = (r1, u)" by fastforce
  from store_create_cases [OF assms(1) c] show ?thesis
    using assms(2) Inr c unfolding bind_lift by (auto simp: bind_op_read split: sum.splits)
qed

lemma store_update_call:
  assumes "repo_ok s" "bind_op (lift_op prep) (\<lambda>w. bind_op (store_update e x (cur w) expected (v w) op (chk w) actor (act w) (summ w) (am w))
      (\<lambda>_. lift_op get)) s = (res, t)"
    and "\<forall>w. prep s = Inr w \<longrightarrow> revising_ok (v w)"
  shows "(isl res \<and> t = s) \<or> (\<exists>w row. prep s = Inr w \<and> res = get t \<and>
     changed e (rec_id (cur w)) expected (v w) actor (record_type (cur w)) row s t)"
proof (cases "prep s")
  case (Inl x)
  then show ?thesis using assms(2) unfolding bind_lift by auto
next
  case (Inr w)
  obtain r1 u where c: "store_update e x (cur w) expected (v w) op (chk w) actor (act w) (summ w) (am w) s = (r1, u)" by fastforce
  from store_update_cases [OF assms(1) assms(3) [rule_format, OF Inr] c] show ?thesis
    using assms(2) Inr c unfolding bind_lift by (fastforce simp: bind_op_read split: sum.splits)
qed

context record_reader
begin

text \<open>After a committed archive the record is readable and archived.\<close>

lemma archive_reads:
  assumes "repo_ok s" "get_record i s = Inr r" "reader r s = Inr v"
    and "changed e i expected (archiving r (prov r)) actor ttype row s t"
    and "is_utc (utc_now e)" "ts_le (created_at r) (utc_now e)"
  shows "\<exists>w. get_record i t = Inr (touched (utc_now e) (prov r) r) \<and>
    reader (touched (utc_now e) (prov r) r) t = Inr w"
proof -
  obtain q where q: "find_row i (records s) = Some q" "metadata q = Some (JObj (metadata r))"
    "r = with_metadata q (metadata r)" using get_recordD [OF assms(2)] by blast
  have row: "row = q" using assms(4) q(1) by (simp add: changed_def)
  have id: "rec_id q = i" using find_row_Some [OF q(1)] by simp
  have "canon (JObj (metadata r)) = JObj (metadata r)"
    using repo_ok_row [OF assms(1) q(1)] q(2) by (auto simp: row_ok_def simp del: canon.simps)
  then have c: "canon_dict (metadata r) = metadata r" by simp
  let ?q = "revised e (archiving r (prov r)) q"
  have rs: "records t = replace_row ?q (records s)" using assms(4) row by (simp add: changed_def)
  obtain ttl where ttl: "rec_title r = Some ttl" using reads_title [OF assms(3)] by blast
  have "with_metadata ?q (metadata r) = touched (utc_now e) (prov r) r"
    using ttl q(3)
    by (cases r) (auto simp: with_metadata_def touched_def archiving_def revised_row_def split: option.splits intro: sym)
  moreover have "get_record i t = Inr (with_metadata ?q (metadata r))"
    using get_after_replace [OF rs, of q "metadata r"] q(1) id c by (simp add: archiving_def)
  ultimately have g: "get_record i t = Inr (touched (utc_now e) (prov r) r)" by simp
  obtain w where "reader (touched (utc_now e) (prov r) r) s = Inr w"
    using reads_touched [OF assms(3,5,6)] by blast
  moreover have "rec_id (touched (utc_now e) (prov r) r) = i"
    using get_record_row [OF assms(2) q(1)] id by (simp add: touched_def)
  moreover have "others_same i s t" by (rule others_same_replace [OF _ rs]) (simp add: id)
  moreover have "record_type (touched (utc_now e) (prov r) r) = record_type r" by (simp add: touched_def)
  ultimately have "reader (touched (utc_now e) (prov r) r) t = Inr w"
    using assms(2) by (metis reads_others)
  with g show ?thesis by blast
qed

end

end
