(* ===== verification/Memory.thy ===== *)
theory Memory
  imports Record_Store
begin

text \<open>
  Confirmed long-term memory, \<open>memory.py\<close>. The keyword arguments of \<open>create\<close> and \<open>update\<close> are a
  \<open>memory_values\<close> record, the normalised values are one too, and \<open>memory_metadata\<close> is the stored
  object. A confidence is a JSON number; a float is its \<open>repr\<close> text, whose place in the unit
  interval can be read off the text.
\<close>

section \<open>Data\<close>

definition ALLOWED_SOURCE_TYPES :: "string list" where
  "ALLOWED_SOURCE_TYPES = [''user_statement'', ''accepted_suggestion'', ''approved_import'', ''migrated'', ''restored'']"

definition ALLOWED_MUTATION_ACTORS :: "string list" where
  "ALLOWED_MUTATION_ACTORS = [''user'']"

definition MAX_SUBJECT_LENGTH :: int where "MAX_SUBJECT_LENGTH = 240"
definition MAX_CONTENT_LENGTH :: int where "MAX_CONTENT_LENGTH = 6000"
definition MEMORY_IDENTIFIER_LENGTH :: int where "MEMORY_IDENTIFIER_LENGTH = 200"
definition MAX_REFERENCE_COUNT :: int where "MAX_REFERENCE_COUNT = 100"
definition MAX_MEMORY_LIMIT :: int where "MAX_MEMORY_LIMIT = 200"

record memory_values =
  mv_subject :: string
  mv_content :: string
  mv_source_type :: string
  mv_valid_from :: "string option"
  mv_valid_until :: "string option"
  mv_confidence :: json
  mv_related :: "string list"
  mv_contradicts :: "string list"
  mv_source_reference :: "string option"
  mv_model_manifest_id :: "string option"
  mv_runtime_adapter_id :: "string option"
  mv_session_id :: "string option"
  mv_origin_operation_id :: "string option"

record ConfirmedMemoryInfo = typed_info +
  i_provenance :: string
  memory_values :: memory_values

section \<open>Validators\<close>

abbreviation memory_text :: "int \<Rightarrow> string \<Rightarrow> string res" where
  "memory_text \<equiv> field_text MemoryValidationError"

definition validate_source_type :: "string \<Rightarrow> string res" where
  "validate_source_type value =
     bindr (require (List.member ALLOWED_SOURCE_TYPES value) MemoryValidationError) (\<lambda>_. Inr value)"

definition provenance_for_source :: "string \<Rightarrow> string" where
  "provenance_for_source t =
     (if t = ''user_statement'' \<or> t = ''accepted_suggestion'' then ''user-confirmed''
      else if t = ''approved_import'' then ''imported''
      else if t = ''migrated'' then ''migrated''
      else ''restored'')"

definition validate_validity_window :: "string option \<Rightarrow> string option \<Rightarrow> unit res" where
  "validate_validity_window valid_from valid_until =
     (case (valid_from, valid_until) of
        (Some a, Some b) \<Rightarrow>
          bindr (utc_micros a) (\<lambda>start. bindr (utc_micros b) (\<lambda>end.
          require (\<not> end \<le> start) MemoryValidationError))
      | _ \<Rightarrow> Inr ())"

text \<open>\<open>0.0 \<le> value \<le> 1.0\<close> for the shortest \<open>repr\<close> of a finite float: a negative exponent is
  only used below \<open>0.0001\<close>.\<close>

definition unit_float :: "string \<Rightarrow> bool" where
  "unit_float r \<longleftrightarrow> r = ''1.0'' \<or> r = ''-0.0'' \<or> starts_with ''0.'' r \<or>
     (\<not> starts_with ''-'' r \<and> contains_text ''e-'' r)"

text \<open>\<open>float(n)\<close> raises \<open>OverflowError\<close> from half a unit above the largest double on.\<close>

definition float_overflows :: "int \<Rightarrow> bool" where
  "float_overflows n \<longleftrightarrow> 2 ^ 1024 - 2 ^ 970 \<le> \<bar>n\<bar>"

definition validate_confidence :: "json \<Rightarrow> json res" where
  "validate_confidence v =
     (case v of
        JInt n \<Rightarrow> if float_overflows n then Inl OverflowError
                  else if n = 0 then Inr (JFloat ''0.0'')
                  else if n = 1 then Inr (JFloat ''1.0'')
                  else Inl MemoryValidationError
      | JFloat r \<Rightarrow> if finite_float r \<and> unit_float r then Inr v else Inl MemoryValidationError
      | _ \<Rightarrow> Inl MemoryValidationError)"

definition validate_memory_identifier :: "string \<Rightarrow> string res" where
  "validate_memory_identifier value =
     (let normalized = strip value in
      bindr (require (\<not> (normalized = [] \<or> MEMORY_IDENTIFIER_LENGTH < int (length normalized))) MemoryValidationError) (\<lambda>_.
      bindr (require (re_fullmatch TOKEN_PATTERN normalized) MemoryValidationError) (\<lambda>_.
      Inr normalized)))"

abbreviation memory_identifier :: "string option \<Rightarrow> string option res" where
  "memory_identifier \<equiv> opt_res validate_memory_identifier"

abbreviation memory_utc :: "string option \<Rightarrow> string option res" where
  "memory_utc \<equiv> opt_res (field_utc MemoryValidationError)"

definition require_memory_actor :: "string \<Rightarrow> unit res" where
  "require_memory_actor actor =
     require (List.member ALLOWED_MUTATION_ACTORS actor) ForbiddenMemoryMutationError"

section \<open>Reading\<close>

definition validate_memory_envelope :: "RecordEnvelope \<Rightarrow> unit res" where
  "validate_memory_envelope r =
     bindr (require (rec_schema_version r = 1) MemoryValidationError) (\<lambda>_.
     bindr (require (\<not> revision r < 1) MemoryValidationError) (\<lambda>_.
     bindr (require (List.member [''active'', ''archived''] (rec_status r)) MemoryValidationError) (\<lambda>_.
     bindr (require (List.member [''user-confirmed'', ''imported'', ''migrated'', ''restored''] (provenance r))
              MemoryValidationError) (\<lambda>_.
     bindr (require (List.member ALLOWED_SENSITIVITY (sensitivity r)) MemoryValidationError) (\<lambda>_.
     bindr (field_utc MemoryValidationError (created_at r)) (\<lambda>created.
     bindr (field_utc MemoryValidationError (updated_at r)) (\<lambda>updated.
     not_before MemoryValidationError updated created)))))))"

definition suggestion_complete :: "string \<Rightarrow> string option list \<Rightarrow> unit res" where
  "suggestion_complete source_type required =
     require (\<not> (source_type = ''accepted_suggestion'' \<and> list_ex (\<lambda>v. v = None) required)) MemoryValidationError"

definition is_malformed_memory :: "exc \<Rightarrow> bool" where
  "is_malformed_memory x \<longleftrightarrow> x = KeyError \<or> x = MemoryValidationError \<or> x = ValueError"

abbreviation memory_ids :: "dict \<Rightarrow> string \<Rightarrow> string list res" where
  "memory_ids \<equiv> meta_ids MemoryValidationError MAX_REFERENCE_COUNT"

text \<open>The fields of a stored record, with the title and the provenance of its envelope.\<close>

definition memory_fields :: "dict \<Rightarrow> string option \<Rightarrow> string \<Rightarrow> memory_values res" where
  "memory_fields m ttl prov =
    (let x = MemoryValidationError in
     bindr (req_str x m ''memory_class'') (\<lambda>memory_class.
     bindr (require (memory_class = ''confirmed'') x) (\<lambda>_.
     bindr (req_str x m ''confirmation_state'') (\<lambda>confirmation_state.
     bindr (require (confirmation_state = ''confirmed'') x) (\<lambda>_.
     bindr (bindr (req_str x m ''subject'') (memory_text MAX_SUBJECT_LENGTH)) (\<lambda>subject.
     bindr (bindr (req_str x m ''content'') (memory_text MAX_CONTENT_LENGTH)) (\<lambda>content.
     bindr (require (ttl = Some subject) x) (\<lambda>_.
     bindr (bindr (req_str x m ''source_type'') validate_source_type) (\<lambda>source_type.
     bindr (require (prov = provenance_for_source source_type) x) (\<lambda>_.
     bindr (bindr (opt_str x m ''valid_from'') memory_utc) (\<lambda>valid_from.
     bindr (bindr (opt_str x m ''valid_until'') memory_utc) (\<lambda>valid_until.
     bindr (validate_validity_window valid_from valid_until) (\<lambda>_.
     bindr (validate_confidence (case map_of m ''confidence'' of None \<Rightarrow> JNull | Some v \<Rightarrow> v)) (\<lambda>confidence.
     bindr (memory_ids m ''related_memory_ids'') (\<lambda>related.
     bindr (memory_ids m ''contradicts_memory_ids'') (\<lambda>contradicts.
     bindr (require (set related \<inter> set contradicts = {}) x) (\<lambda>_.
     bindr (bindr (opt_str x m ''source_reference'') memory_identifier) (\<lambda>source_reference.
     bindr (bindr (opt_str x m ''model_manifest_id'') memory_identifier) (\<lambda>model_manifest_id.
     bindr (bindr (opt_str x m ''runtime_adapter_id'') memory_identifier) (\<lambda>runtime_adapter_id.
     bindr (bindr (opt_str x m ''session_id'') memory_identifier) (\<lambda>session_id.
     bindr (bindr (opt_str x m ''origin_operation_id'') memory_identifier) (\<lambda>origin_operation_id.
     bindr (suggestion_complete source_type
              [model_manifest_id, runtime_adapter_id, session_id, origin_operation_id]) (\<lambda>_.
     Inr \<lparr>mv_subject = subject, mv_content = content, mv_source_type = source_type,
          mv_valid_from = valid_from, mv_valid_until = valid_until, mv_confidence = confidence,
          mv_related = related, mv_contradicts = contradicts,
          mv_source_reference = source_reference, mv_model_manifest_id = model_manifest_id,
          mv_runtime_adapter_id = runtime_adapter_id, mv_session_id = session_id,
          mv_origin_operation_id = origin_operation_id\<rparr>)))))))))))))))))))))))"

definition memory_info :: "RecordEnvelope \<Rightarrow> memory_values \<Rightarrow> ConfirmedMemoryInfo" where
  "memory_info r w =
     \<lparr>i_record_id = rec_id r, i_revision = revision r, i_status = rec_status r,
      i_sensitivity = sensitivity r, i_created_at = created_at r, i_updated_at = updated_at r,
      i_provenance = provenance r, memory_values = w\<rparr>"

definition memory_from_record :: "RecordEnvelope \<Rightarrow> ConfirmedMemoryInfo res" where
  "memory_from_record r =
     bindr (rescue is_malformed_memory MemoryCorruptError (
       bindr (validate_memory_envelope r) (\<lambda>_. memory_fields (metadata r) (rec_title r) (provenance r))))
     (\<lambda>values. Inr (memory_info r values))"

definition require_memory_record :: "string \<Rightarrow> repo \<Rightarrow> RecordEnvelope res" where
  "require_memory_record i s =
     bindr (get_record i s) (\<lambda>r. bindr (require (record_type r = ''memory'') KeyError) (\<lambda>_. Inr r))"

definition memory_get :: "string \<Rightarrow> repo \<Rightarrow> ConfirmedMemoryInfo res" where
  "memory_get i s = bindr (require_memory_record i s) memory_from_record"

definition memory_list :: "bool \<Rightarrow> int \<Rightarrow> repo \<Rightarrow> ConfirmedMemoryInfo list res" where
  "memory_list include_archived limit s =
     bindr (require (\<not> (limit < 1 \<or> MAX_MEMORY_LIMIT < limit)) MemoryValidationError) (\<lambda>_.
     map_res (\<lambda>r. memory_get (rec_id r) s) (listed ''memory'' include_archived limit s))"

definition memory_export_json :: "string \<Rightarrow> repo \<Rightarrow> string res" where
  "memory_export_json i s =
     bindr (memory_get i s) (\<lambda>memory.
     bindr (require (i_sensitivity memory \<noteq> ''secret'') MemoryExportError) (\<lambda>_.
     let v = memory_values memory in
     Inr (encode (JObj
       [(''export_schema'', JStr ''doll.confirmed-memory.v1''),
        (''record'', JObj
          [(''id'', JStr (i_record_id memory)), (''record_type'', JStr ''memory''), (''schema_version'', JInt 1),
           (''created_at'', JStr (i_created_at memory)), (''updated_at'', JStr (i_updated_at memory)),
           (''revision'', JInt (i_revision memory)), (''status'', JStr (i_status memory)),
           (''provenance'', JStr (i_provenance memory)), (''sensitivity'', JStr (i_sensitivity memory)),
           (''title'', JStr (mv_subject v)),
           (''memory'', JObj
             [(''memory_class'', JStr ''confirmed''), (''content'', JStr (mv_content v)),
              (''subject'', JStr (mv_subject v)), (''source_type'', JStr (mv_source_type v)),
              (''confirmation_state'', JStr ''confirmed''),
              (''valid_from'', opt_json (mv_valid_from v)), (''valid_until'', opt_json (mv_valid_until v)),
              (''confidence'', mv_confidence v),
              (''related_memory_ids'', str_list (mv_related v)),
              (''contradicts_memory_ids'', str_list (mv_contradicts v)),
              (''source_reference'', opt_json (mv_source_reference v)),
              (''model_manifest_id'', opt_json (mv_model_manifest_id v)),
              (''runtime_adapter_id'', opt_json (mv_runtime_adapter_id v)),
              (''session_id'', opt_json (mv_session_id v)),
              (''origin_operation_id'', opt_json (mv_origin_operation_id v))])])]) @ [CHR 0x0A])))"

section \<open>Writing\<close>

definition validate_memory_references :: "string list \<Rightarrow> string option \<Rightarrow> repo \<Rightarrow> unit res" where
  "validate_memory_references references self_id s =
     bindr (map_res (\<lambda>reference.
       bindr (require (self_id \<noteq> Some reference) MemoryValidationError) (\<lambda>_.
       bindr (rescue (\<lambda>x. x = KeyError) MemoryValidationError (get_record reference s)) (\<lambda>r.
       bindr (require (record_type r = ''memory'') MemoryValidationError) (\<lambda>_.
       memory_from_record r)))) references) (\<lambda>_. Inr ())"

definition validated_memory_values :: "memory_values \<Rightarrow> string option \<Rightarrow> repo \<Rightarrow> memory_values res" where
  "validated_memory_values v self_id s =
     bindr (memory_text MAX_SUBJECT_LENGTH (mv_subject v)) (\<lambda>subject.
     bindr (memory_text MAX_CONTENT_LENGTH (mv_content v)) (\<lambda>content.
     bindr (validate_source_type (mv_source_type v)) (\<lambda>source_type.
     bindr (memory_utc (mv_valid_from v)) (\<lambda>valid_from.
     bindr (memory_utc (mv_valid_until v)) (\<lambda>valid_until.
     bindr (validate_validity_window valid_from valid_until) (\<lambda>_.
     bindr (validate_confidence (mv_confidence v)) (\<lambda>confidence.
     bindr (ref_ids MemoryValidationError MAX_REFERENCE_COUNT (mv_related v)) (\<lambda>related.
     bindr (ref_ids MemoryValidationError MAX_REFERENCE_COUNT (mv_contradicts v)) (\<lambda>contradicts.
     bindr (require (set related \<inter> set contradicts = {}) MemoryValidationError) (\<lambda>_.
     bindr (validate_memory_references (related @ contradicts) self_id s) (\<lambda>_.
     bindr (memory_identifier (mv_source_reference v)) (\<lambda>source_reference.
     bindr (memory_identifier (mv_model_manifest_id v)) (\<lambda>model_manifest_id.
     bindr (memory_identifier (mv_runtime_adapter_id v)) (\<lambda>runtime_adapter_id.
     bindr (memory_identifier (mv_session_id v)) (\<lambda>session_id.
     bindr (memory_identifier (mv_origin_operation_id v)) (\<lambda>origin_operation_id.
     bindr (suggestion_complete source_type
              [model_manifest_id, runtime_adapter_id, session_id, origin_operation_id]) (\<lambda>_.
     Inr \<lparr>mv_subject = subject, mv_content = content, mv_source_type = source_type,
          mv_valid_from = valid_from, mv_valid_until = valid_until, mv_confidence = confidence,
          mv_related = related, mv_contradicts = contradicts,
          mv_source_reference = source_reference, mv_model_manifest_id = model_manifest_id,
          mv_runtime_adapter_id = runtime_adapter_id, mv_session_id = session_id,
          mv_origin_operation_id = origin_operation_id\<rparr>)))))))))))))))))"

definition memory_metadata :: "memory_values \<Rightarrow> dict" where
  "memory_metadata v =
     [(''memory_class'', JStr ''confirmed''), (''content'', JStr (mv_content v)),
      (''subject'', JStr (mv_subject v)), (''source_type'', JStr (mv_source_type v)),
      (''confirmation_state'', JStr ''confirmed''),
      (''valid_from'', opt_json (mv_valid_from v)), (''valid_until'', opt_json (mv_valid_until v)),
      (''confidence'', mv_confidence v),
      (''related_memory_ids'', str_list (mv_related v)),
      (''contradicts_memory_ids'', str_list (mv_contradicts v)),
      (''source_reference'', opt_json (mv_source_reference v)),
      (''model_manifest_id'', opt_json (mv_model_manifest_id v)),
      (''runtime_adapter_id'', opt_json (mv_runtime_adapter_id v)),
      (''session_id'', opt_json (mv_session_id v)),
      (''origin_operation_id'', opt_json (mv_origin_operation_id v))]"

definition memory_audit :: "dict \<Rightarrow> string \<Rightarrow> dict res" where
  "memory_audit m sens =
     bindr (case map_of m ''source_type'' of Some (JStr t) \<Rightarrow> Inr t | _ \<Rightarrow> Inl MemoryValidationError) (\<lambda>source_type.
     bindr (meta_list MemoryValidationError m ''related_memory_ids'') (\<lambda>related.
     bindr (meta_list MemoryValidationError m ''contradicts_memory_ids'') (\<lambda>contradicts.
     Inr [(''memory_class'', JStr ''confirmed''), (''source_type'', JStr source_type),
          (''sensitivity'', JStr sens), (''related_count'', JInt (int (length related))),
          (''contradiction_count'', JInt (int (length contradicts))),
          (''has_validity_window'', JBool (present m ''valid_from'' \<or> present m ''valid_until''))])))"

definition create_memory_record ::
  "env \<Rightarrow> string \<Rightarrow> dict \<Rightarrow> string \<Rightarrow> string \<Rightarrow> string option \<Rightarrow> (repo, string) op" where
  "create_memory_record e ttl m prov sens op =
     store_create e
       \<lparr>dr_id = new_uuid e, dr_type = ''memory'', dr_version = 1, dr_prov = prov, dr_sens = sens,
        dr_title = ttl, dr_meta = m\<rparr>
       op ''user'' ''memory.create'' ''Changed confirmed memory record'' (memory_audit m sens)"

definition update_memory_record ::
  "env \<Rightarrow> RecordEnvelope \<Rightarrow> int \<Rightarrow> string \<Rightarrow> dict \<Rightarrow> string \<Rightarrow> string \<Rightarrow> string option \<Rightarrow> string \<Rightarrow> (repo, unit) op" where
  "update_memory_record e current expected ttl m stat prov op act =
     store_update e MemoryValidationError current expected
       \<lparr>rv_version = None, rv_status = stat, rv_prov = prov, rv_title = ttl, rv_meta = m\<rparr>
       op (bindr (serialize_metadata m) (\<lambda>_. Inr ())) ''user'' act ''Changed confirmed memory record''
       (memory_audit m (sensitivity current))"

definition memory_create ::
  "env \<Rightarrow> memory_values \<Rightarrow> string option \<Rightarrow> string \<Rightarrow> string \<Rightarrow> (repo, ConfirmedMemoryInfo) op" where
  "memory_create e v op sens actor =
     bind_op (lift_op (\<lambda>s.
       bindr (require_memory_actor actor) (\<lambda>_. validated_memory_values v None s))) (\<lambda>w.
     bind_op (create_memory_record e (mv_subject w) (memory_metadata w)
                (provenance_for_source (mv_source_type w)) sens op) (\<lambda>i.
     lift_op (memory_get i)))"

definition memory_update ::
  "env \<Rightarrow> string \<Rightarrow> int \<Rightarrow> memory_values \<Rightarrow> string option \<Rightarrow> string \<Rightarrow> (repo, ConfirmedMemoryInfo) op" where
  "memory_update e i expected v op actor =
     bind_op (lift_op (\<lambda>s.
       bindr (require_memory_actor actor) (\<lambda>_.
       bindr (require_memory_record i s) (\<lambda>r.
       bindr (memory_from_record r) (\<lambda>current.
       bindr (require (i_status current = ''active'') MemoryValidationError) (\<lambda>_.
       bindr (validated_memory_values v (Some i) s) (\<lambda>w. Inr (r, w)))))))) (\<lambda>(r, w).
     bind_op (update_memory_record e r expected (mv_subject w) (memory_metadata w) ''active''
                (provenance_for_source (mv_source_type w)) op ''memory.update'') (\<lambda>_.
     lift_op (memory_get i)))"

definition memory_archive ::
  "env \<Rightarrow> string \<Rightarrow> int \<Rightarrow> string option \<Rightarrow> string \<Rightarrow> (repo, ConfirmedMemoryInfo) op" where
  "memory_archive e i expected op actor =
     bind_op (lift_op (\<lambda>s.
       bindr (require_memory_actor actor) (\<lambda>_.
       bindr (require_memory_record i s) (\<lambda>r.
       bindr (memory_from_record r) (\<lambda>current.
       bindr (require (i_status current = ''active'') MemoryValidationError) (\<lambda>_. Inr (r, current))))))) (\<lambda>(r, current).
     bind_op (update_memory_record e r expected (mv_subject (memory_values current)) (metadata r) ''archived''
                (i_provenance current) op ''memory.archive'') (\<lambda>_.
     lift_op (memory_get i)))"


section \<open>Stored values are normal forms\<close>

interpretation memory_identifier: normalizer validate_memory_identifier
  by unfold_locales (auto simp: validate_memory_identifier_def Let_def)

interpretation source_type: normalizer validate_source_type
  by unfold_locales (auto simp: validate_source_type_def)

interpretation confidence: normalizer validate_confidence
  by unfold_locales
    (auto simp: validate_confidence_def unit_float_def finite_float_def split: json.splits if_splits)

definition memory_normal :: "memory_values \<Rightarrow> bool" where
  "memory_normal w \<longleftrightarrow>
     memory_text MAX_SUBJECT_LENGTH (mv_subject w) = Inr (mv_subject w) \<and>
     memory_text MAX_CONTENT_LENGTH (mv_content w) = Inr (mv_content w) \<and>
     validate_source_type (mv_source_type w) = Inr (mv_source_type w) \<and>
     memory_utc (mv_valid_from w) = Inr (mv_valid_from w) \<and>
     memory_utc (mv_valid_until w) = Inr (mv_valid_until w) \<and>
     validate_validity_window (mv_valid_from w) (mv_valid_until w) = Inr () \<and>
     validate_confidence (mv_confidence w) = Inr (mv_confidence w) \<and>
     ref_ids MemoryValidationError MAX_REFERENCE_COUNT (mv_related w) = Inr (mv_related w) \<and>
     ref_ids MemoryValidationError MAX_REFERENCE_COUNT (mv_contradicts w) = Inr (mv_contradicts w) \<and>
     set (mv_related w) \<inter> set (mv_contradicts w) = {} \<and>
     memory_identifier (mv_source_reference w) = Inr (mv_source_reference w) \<and>
     memory_identifier (mv_model_manifest_id w) = Inr (mv_model_manifest_id w) \<and>
     memory_identifier (mv_runtime_adapter_id w) = Inr (mv_runtime_adapter_id w) \<and>
     memory_identifier (mv_session_id w) = Inr (mv_session_id w) \<and>
     memory_identifier (mv_origin_operation_id w) = Inr (mv_origin_operation_id w) \<and>
     suggestion_complete (mv_source_type w) [mv_model_manifest_id w, mv_runtime_adapter_id w,
       mv_session_id w, mv_origin_operation_id w] = Inr ()"

lemmas memory_idem = field_text.norm_idem source_type.norm_idem confidence.norm_idem ref_ids.norm_idem
  memory_identifier.norm_opt_idem field_utc.norm_opt_idem meta_ids_idem

lemma validated_memory_normal: "validated_memory_values v self_id s = Inr w \<Longrightarrow> memory_normal w"
  unfolding validated_memory_values_def memory_normal_def
  by (auto simp del: opt_utc_eq intro: memory_idem)

lemma memory_fields_normal:
  "memory_fields m ttl prov = Inr w \<Longrightarrow> memory_normal w \<and> ttl = Some (mv_subject w) \<and>
     prov = provenance_for_source (mv_source_type w)"
  unfolding memory_fields_def memory_normal_def Let_def
  by (auto simp del: opt_utc_eq intro: memory_idem)

lemma memory_from_record_eq:
  "memory_from_record r = Inr i \<longleftrightarrow> validate_memory_envelope r = Inr () \<and>
     (\<exists>w. memory_fields (metadata r) (rec_title r) (provenance r) = Inr w \<and> i = memory_info r w)"
  by (auto simp: memory_from_record_def)

lemma identifier_nonempty: "memory_identifier v = Inr v \<Longrightarrow> v \<noteq> Some []"
  by (auto simp: validate_memory_identifier_def opt_res_def strip_def lstrip_def rstrip_by_def)

lemma utc_opt_nonempty: "memory_utc v = Inr v \<Longrightarrow> v \<noteq> Some []"
  using is_utc_nonempty by auto

lemma memory_keys: "distinct (map fst (memory_metadata w))"
  by (simp add: memory_metadata_def)

lemma confidence_canon: "validate_confidence v = Inr v \<Longrightarrow> canon v = v \<and> all_finite v"
  by (auto simp: validate_confidence_def split: json.splits if_splits)

lemma memory_storedD:
  assumes "stored m (memory_metadata w)"
  shows "map_of m ''memory_class'' = Some (JStr ''confirmed'')" "map_of m ''content'' = Some (JStr (mv_content w))"
    "map_of m ''subject'' = Some (JStr (mv_subject w))" "map_of m ''source_type'' = Some (JStr (mv_source_type w))"
    "map_of m ''confirmation_state'' = Some (JStr ''confirmed'')"
    "map_of m ''valid_from'' = Some (opt_json (mv_valid_from w))" "map_of m ''valid_until'' = Some (opt_json (mv_valid_until w))"
    "map_of m ''confidence'' = Some (mv_confidence w)"
    "map_of m ''related_memory_ids'' = Some (str_list (mv_related w))"
    "map_of m ''contradicts_memory_ids'' = Some (str_list (mv_contradicts w))"
    "map_of m ''source_reference'' = Some (opt_json (mv_source_reference w))"
    "map_of m ''model_manifest_id'' = Some (opt_json (mv_model_manifest_id w))"
    "map_of m ''runtime_adapter_id'' = Some (opt_json (mv_runtime_adapter_id w))"
    "map_of m ''session_id'' = Some (opt_json (mv_session_id w))"
    "map_of m ''origin_operation_id'' = Some (opt_json (mv_origin_operation_id w))"
  using assms by (simp_all add: stored_Cons memory_metadata_def)

lemma memory_read_back:
  assumes "memory_normal w" "metadata r = canon_dict (memory_metadata w)" "validate_memory_envelope r = Inr ()"
    and "provenance r = provenance_for_source (mv_source_type w)" "rec_title r = Some (mv_subject w)"
  shows "memory_from_record r = Inr (memory_info r w)"
proof -
  have ne: "mv_subject w \<noteq> []" "mv_content w \<noteq> []" "mv_source_type w \<noteq> []"
    using assms(1) field_text_nonempty
    by (auto simp: memory_normal_def validate_source_type_def ALLOWED_SOURCE_TYPES_def)
  have opt: "mv_valid_from w \<noteq> Some []" "mv_valid_until w \<noteq> Some []" "mv_source_reference w \<noteq> Some []"
    "mv_model_manifest_id w \<noteq> Some []" "mv_runtime_adapter_id w \<noteq> Some []" "mv_session_id w \<noteq> Some []"
    "mv_origin_operation_id w \<noteq> Some []"
    using assms(1) identifier_nonempty utc_opt_nonempty unfolding memory_normal_def by blast+
  have "canon (mv_confidence w) = mv_confidence w"
    using assms(1) confidence_canon by (simp add: memory_normal_def)
  then have "stored (metadata r) (memory_metadata w)"
    unfolding assms(2) by (intro stored_canon [OF memory_keys]) (simp add: memory_metadata_def)
  note stored = memory_storedD [OF this]
  have "memory_fields (metadata r) (Some (mv_subject w)) (provenance_for_source (mv_source_type w)) = Inr w"
    using assms(1) unfolding memory_fields_def memory_normal_def Let_def
    by (simp add: stored ne opt del: opt_utc_eq)
  then show ?thesis using assms(3-5) by (auto simp: memory_from_record_eq)
qed


lemma memory_envelope_touched:
  assumes "validate_memory_envelope r = Inr ()" "is_utc now" "ts_le (created_at r) now"
  shows "validate_memory_envelope (touched now (provenance r) r) = Inr ()"
  using assms by (auto simp: validate_memory_envelope_def touched_def not_before_eq)

interpretation memory: record_reader "\<lambda>r s. memory_from_record r" provenance
proof
  fix r :: RecordEnvelope and s t :: repo and v and now
  assume v: "memory_from_record r = Inr v"
  then obtain w where w: "validate_memory_envelope r = Inr ()"
    "memory_fields (metadata r) (rec_title r) (provenance r) = Inr w" by (auto simp: memory_from_record_eq)
  show "\<exists>t. rec_title r = Some t" using memory_fields_normal [OF w(2)] by blast
  show "memory_from_record r = Inr v" by (rule v)
  show "provenance r \<in> set ALLOWED_PROVENANCE"
    using w(1) by (auto simp: validate_memory_envelope_def ALLOWED_PROVENANCE_def)
  assume "is_utc now" "ts_le (created_at r) now"
  then have "validate_memory_envelope (touched now (provenance r) r) = Inr ()"
    by (rule memory_envelope_touched [OF w(1)])
  then show "\<exists>w. memory_from_record (touched now (provenance r) r) = Inr w"
    using w(2) by (auto simp: memory_from_record_eq touched_def)
qed

section \<open>Every stored memory can be read\<close>

definition memories_readable :: "repo \<Rightarrow> bool" where
  "memories_readable s \<longleftrightarrow>
     (\<forall>i r. get_record i s = Inr r \<and> record_type r = ''memory'' \<longrightarrow> (\<exists>v. memory_from_record r = Inr v))"

lemma memory_envelope_new:
  assumes "draft_ok d" "dr_type d = ''memory''" "dr_version d = 1" "dr_prov d = provenance_for_source t" "is_utc (utc_now e)"
  shows "validate_memory_envelope (with_metadata (draft_row e d j) m) = Inr ()"
  using assms ts_le_refl
  by (auto simp: validate_memory_envelope_def draft_row_def draft_ok_def not_before_eq provenance_for_source_def)

lemma memory_create_shape:
  assumes "repo_ok s" "is_utc (utc_now e)" "memory_create e v op sens actor s = (res, t)"
  shows "(isl res \<and> t = s) \<or>
    (\<exists>w r d. validated_memory_values v None s = Inr w \<and> actor = ''user'' \<and> created e d ''user'' s t \<and> dr_id d = new_uuid e \<and>
       get_record (new_uuid e) t = Inr r \<and> record_type r = ''memory'' \<and> rec_status r = ''active'' \<and> revision r = 1 \<and>
       provenance r = provenance_for_source (mv_source_type w) \<and> sensitivity r = sens \<and>
       memory_from_record r = Inr (memory_info r w) \<and> res = Inr (memory_info r w))"
proof (cases "bindr (require_memory_actor actor) (\<lambda>_. validated_memory_values v None s)")
  case (Inl x)
  then have "(Inl x, s) = (res, t)" using assms(3) unfolding memory_create_def bind_lift by simp
  then show ?thesis by auto
next
  case (Inr w)
  let ?d = "\<lparr>dr_id = new_uuid e, dr_type = ''memory'', dr_version = 1,
      dr_prov = provenance_for_source (mv_source_type w), dr_sens = sens, dr_title = mv_subject w,
      dr_meta = memory_metadata w\<rparr>"
  have w: "validated_memory_values v None s = Inr w" "actor = ''user''"
    using Inr by (auto simp: require_memory_actor_def ALLOWED_MUTATION_ACTORS_def)
  have run: "bind_op (create_memory_record e (mv_subject w) (memory_metadata w)
      (provenance_for_source (mv_source_type w)) sens op) (\<lambda>i. lift_op (memory_get i)) s = (res, t)"
    using assms(3) Inr unfolding memory_create_def bind_lift by simp
  obtain r1 u where c: "create_memory_record e (mv_subject w) (memory_metadata w)
      (provenance_for_source (mv_source_type w)) sens op s = (r1, u)" by fastforce
  from store_create_cases [OF assms(1) c [unfolded create_memory_record_def]] show ?thesis
  proof
    assume "isl r1 \<and> u = s"
    then show ?thesis using run c by (auto simp: bind_op_def split: sum.splits)
  next
    assume "r1 = Inr (dr_id ?d) \<and> created e ?d ''user'' s u"
    then have u: "r1 = Inr (new_uuid e)" "created e ?d ''user'' s u" by simp_all
    let ?r = "with_metadata (drafted e ?d) (canon_dict (memory_metadata w))"
    have g: "get_record (new_uuid e) u = Inr ?r"
      using u(2) get_after_append [of u s "drafted e ?d"] by (auto simp: created_def)
    have "memory_from_record ?r = Inr (memory_info ?r w)"
      using u(2) assms(2) validated_memory_normal [OF w(1)]
      by (intro memory_read_back memory_envelope_new) (auto simp: created_def draft_row_def)
    moreover have "t = u" "res = memory_get (new_uuid e) u"
      using run c u(1) by (auto simp: bind_op_def lift_op_def)
    ultimately show ?thesis
      using g u(2) w
      by (intro disjI2 exI [of _ w] exI [of _ ?r] exI [of _ ?d])
        (simp add: memory_get_def require_memory_record_def draft_row_def)
  qed
qed


abbreviation memory_revising :: "memory_values \<Rightarrow> revising" where
  "memory_revising w \<equiv> \<lparr>rv_version = None, rv_status = ''active'',
     rv_prov = provenance_for_source (mv_source_type w), rv_title = mv_subject w, rv_meta = memory_metadata w\<rparr>"

lemma memory_revising_ok: "revising_ok (memory_revising w)"
  by (simp add: revising_ok_def provenance_for_source_def ALLOWED_STATUSES_def ALLOWED_PROVENANCE_def)

lemma memory_update_cases:
  assumes "repo_ok s" "memory_update e i expected v op actor s = (res, t)"
  shows "(isl res \<and> t = s) \<or>
    (\<exists>r c w row. actor = ''user'' \<and> get_record i s = Inr r \<and> record_type r = ''memory'' \<and> memory_from_record r = Inr c \<and>
       validated_memory_values v (Some i) s = Inr w \<and>
       changed e i expected (memory_revising w) ''user'' ''memory'' row s t \<and> res = memory_get i t)"
proof (cases "bindr (require_memory_actor actor) (\<lambda>_.
       bindr (require_memory_record i s) (\<lambda>r.
       bindr (memory_from_record r) (\<lambda>current.
       bindr (require (i_status current = ''active'') MemoryValidationError) (\<lambda>_.
       bindr (validated_memory_values v (Some i) s) (\<lambda>w. Inr (r, w))))))")
  case (Inl x)
  then have "(Inl x, s) = (res, t)" using assms(2) unfolding memory_update_def bind_lift by simp
  then show ?thesis by auto
next
  case (Inr p)
  then obtain r c w where w: "p = (r, w)" "actor = ''user''" "get_record i s = Inr r" "record_type r = ''memory''"
    "memory_from_record r = Inr c" "validated_memory_values v (Some i) s = Inr w"
    by (auto simp: require_memory_actor_def ALLOWED_MUTATION_ACTORS_def require_memory_record_def)
  let ?upd = "update_memory_record e r expected (mv_subject w) (memory_metadata w) ''active''
                (provenance_for_source (mv_source_type w)) op ''memory.update''"
  have run: "bind_op ?upd (\<lambda>_. lift_op (memory_get i)) s = (res, t)"
    using assms(2) Inr w(1) unfolding memory_update_def bind_lift by simp
  have id: "rec_id r = i" using get_recordD [OF w(3)] find_row_Some by (metis with_metadata_sel(1))
  obtain r1 u where c: "?upd s = (r1, u)" by fastforce
  from store_update_cases [OF assms(1) memory_revising_ok c [unfolded update_memory_record_def]] show ?thesis
    using run c w id unfolding bind_op_read by (fastforce split: sum.splits)
qed

lemma memory_archive_cases:
  assumes "repo_ok s" "memory_archive e i expected op actor s = (res, t)"
  shows "(isl res \<and> t = s) \<or>
    (\<exists>r c row. actor = ''user'' \<and> get_record i s = Inr r \<and> record_type r = ''memory'' \<and> memory_from_record r = Inr c \<and>
       changed e i expected (archiving r (provenance r)) ''user'' ''memory'' row s t \<and> res = memory_get i t)"
proof (cases "bindr (require_memory_actor actor) (\<lambda>_.
       bindr (require_memory_record i s) (\<lambda>r.
       bindr (memory_from_record r) (\<lambda>current.
       bindr (require (i_status current = ''active'') MemoryValidationError) (\<lambda>_. Inr (r, current)))))")
  case (Inl x)
  then have "(Inl x, s) = (res, t)" using assms(2) unfolding memory_archive_def bind_lift by simp
  then show ?thesis by auto
next
  case (Inr p)
  then obtain r c where w: "p = (r, c)" "actor = ''user''" "get_record i s = Inr r" "record_type r = ''memory''"
    "memory_from_record r = Inr c"
    by (auto simp: require_memory_actor_def ALLOWED_MUTATION_ACTORS_def require_memory_record_def)
  let ?upd = "update_memory_record e r expected (mv_subject (memory_values c)) (metadata r) ''archived''
                (i_provenance c) op ''memory.archive''"
  have run: "bind_op ?upd (\<lambda>_. lift_op (memory_get i)) s = (res, t)"
    using assms(2) Inr w(1) unfolding memory_archive_def bind_lift by simp
  have id: "rec_id r = i" using get_recordD [OF w(3)] find_row_Some by (metis with_metadata_sel(1))
  have arch: "\<lparr>rv_version = None, rv_status = ''archived'', rv_prov = i_provenance c,
      rv_title = mv_subject (memory_values c), rv_meta = metadata r\<rparr> = archiving r (provenance r)"
    using w(5) memory_fields_normal by (fastforce simp: memory_from_record_eq memory_info_def archiving_def)
  obtain r1 u where c: "?upd s = (r1, u)" by fastforce
  from store_update_cases [OF assms(1) memory.archiving_ok [OF w(5)] c [unfolded update_memory_record_def arch]] show ?thesis
    using run c w id unfolding bind_op_read by (fastforce split: sum.splits)
qed


lemma memory_envelope_revised:
  assumes "validate_memory_envelope r = Inr ()" "is_utc (utc_now e)"
  shows "validate_memory_envelope (revised_env e (memory_revising w) r) =
    (if ts_le (created_at r) (utc_now e) then Inr () else Inl MemoryValidationError)"
proof -
  have "provenance_for_source (mv_source_type w) \<in> {''user-confirmed'', ''imported'', ''migrated'', ''restored''}"
    by (simp add: provenance_for_source_def)
  then show ?thesis
    using assms not_before_cases [of "created_at r" "utc_now e"]
    by (auto simp: validate_memory_envelope_def revised_env_def field_utc_def split: if_splits)
qed

lemma memory_update_reads:
  assumes "memory_from_record r = Inr c" "validated_memory_values v sid s = Inr w" "is_utc (utc_now e)"
    and "ts_le (created_at r) (utc_now e)"
  shows "memory_from_record (revised_env e (memory_revising w) r) = Inr (memory_info (revised_env e (memory_revising w) r) w)"
  using assms validated_memory_normal [OF assms(2)]
  by (intro memory_read_back) (auto simp: memory_envelope_revised memory_from_record_eq, auto simp: revised_env_def)

lemma memories_readable_step:
  assumes "memories_readable s" "\<And>j. j \<noteq> i \<Longrightarrow> get_record j t = get_record j s"
    and "get_record i t = Inr r" "\<exists>v. memory_from_record r = Inr v"
  shows "memories_readable t"
  using assms unfolding memories_readable_def by (metis Inr_inject)

lemma others_same_getD: "others_same i s t \<Longrightarrow> (\<And>j. j \<noteq> i \<Longrightarrow> get_record j t = get_record j s)"
  by (rule others_same_get)

lemma memory_get_stored:
  "get_record i t = Inr r \<Longrightarrow> record_type r = ''memory'' \<Longrightarrow> memory_get i t = memory_from_record r"
  by (simp add: memory_get_def require_memory_record_def)

lemma memory_create_keeps:
  assumes "repo_ok s" "memories_readable s" "is_utc (utc_now e)" "memory_create e v op sens actor s = (res, t)"
  shows "memories_readable t \<and> (isl res \<longrightarrow> t = s)"
  using memory_create_shape [OF assms(1,3,4)]
proof
  assume "\<exists>w r d. validated_memory_values v None s = Inr w \<and> actor = ''user'' \<and> created e d ''user'' s t \<and> dr_id d = new_uuid e \<and>
       get_record (new_uuid e) t = Inr r \<and> record_type r = ''memory'' \<and> rec_status r = ''active'' \<and> revision r = 1 \<and>
       provenance r = provenance_for_source (mv_source_type w) \<and> sensitivity r = sens \<and>
       memory_from_record r = Inr (memory_info r w) \<and> res = Inr (memory_info r w)"
  then obtain r d w where "created e d ''user'' s t" "dr_id d = new_uuid e" "get_record (new_uuid e) t = Inr r"
    "memory_from_record r = Inr (memory_info r w)" "res = Inr (memory_info r w)" by blast
  then show ?thesis using memories_readable_step [OF assms(2), of "new_uuid e" t r] created_get by auto
qed (use assms(2) in auto)

lemma memory_update_keeps:
  assumes "repo_ok s" "memories_readable s" "is_utc (utc_now e)"
    and "\<And>r. get_record i s = Inr r \<Longrightarrow> ts_le (created_at r) (utc_now e)"
    and "memory_update e i expected v op actor s = (res, t)"
  shows "memories_readable t \<and> (isl res \<longrightarrow> t = s)"
  using memory_update_cases [OF assms(1,5)]
proof
  assume "\<exists>r c w row. actor = ''user'' \<and> get_record i s = Inr r \<and> record_type r = ''memory'' \<and> memory_from_record r = Inr c \<and>
       validated_memory_values v (Some i) s = Inr w \<and>
       changed e i expected (memory_revising w) ''user'' ''memory'' row s t \<and> res = memory_get i t"
  then obtain r c w row where r: "get_record i s = Inr r" "record_type r = ''memory''" "memory_from_record r = Inr c"
    "validated_memory_values v (Some i) s = Inr w" "changed e i expected (memory_revising w) ''user'' ''memory'' row s t"
    "res = memory_get i t" by blast
  note g = changed_get [OF r(5,1)]
  have v: "memory_from_record (revised_env e (memory_revising w) r) = Inr (memory_info (revised_env e (memory_revising w) r) w)"
    by (rule memory_update_reads [OF r(3,4) assms(3) assms(4) [OF r(1)]])
  have "record_type (revised_env e (memory_revising w) r) = ''memory''" using r(2) by (simp add: revised_env_def)
  then show ?thesis
    using g v r(6) memories_readable_step [OF assms(2) others_same_getD, of i] memory_get_stored by fastforce
qed (use assms(2) in auto)

lemma memory_archive_keeps:
  assumes "repo_ok s" "memories_readable s" "is_utc (utc_now e)"
    and "\<And>r. get_record i s = Inr r \<Longrightarrow> ts_le (created_at r) (utc_now e)"
    and "memory_archive e i expected op actor s = (res, t)"
  shows "memories_readable t \<and> (isl res \<longrightarrow> t = s)"
  using memory_archive_cases [OF assms(1,5)]
proof
  assume "\<exists>r c row. actor = ''user'' \<and> get_record i s = Inr r \<and> record_type r = ''memory'' \<and> memory_from_record r = Inr c \<and>
       changed e i expected (archiving r (provenance r)) ''user'' ''memory'' row s t \<and> res = memory_get i t"
  then obtain r c row where r: "get_record i s = Inr r" "record_type r = ''memory''" "memory_from_record r = Inr c"
    "changed e i expected (archiving r (provenance r)) ''user'' ''memory'' row s t" "res = memory_get i t" by blast
  let ?q = "touched (utc_now e) (provenance r) r"
  obtain w where w: "get_record i t = Inr ?q" "memory_from_record ?q = Inr w"
    using memory.archive_reads [OF assms(1) r(1,3,4) assms(3) assms(4) [OF r(1)]] by blast
  have o: "others_same i s t" using changed_get [OF r(4,1)] by blast
  have "res = Inr w" using r(2,5) w memory_get_stored by (simp add: touched_def)
  then show ?thesis
    using memories_readable_step [OF assms(2) others_same_getD [OF o]] w by simp
qed (use assms(2) in auto)

text \<open>C13: with a clock that does not run backwards, no operation of the memory service ever
  stores a memory that the service cannot read again, and a call that raises has changed
  nothing.\<close>

theorem memory_writes_readable:
  assumes "repo_ok s" and "memories_readable s" and "is_utc (utc_now e)"
    and "\<And>r. get_record i s = Inr r \<Longrightarrow> ts_le (created_at r) (utc_now e)"
    and "memory_create e v op sens actor s = (res, t) \<or> memory_update e i expected v op actor s = (res, t) \<or>
         memory_archive e i expected op actor s = (res, t)"
  shows "memories_readable t \<and> (isl res \<longrightarrow> t = s)"
  using assms(5) memory_create_keeps [OF assms(1-3)] memory_update_keeps [OF assms(1-4)]
    memory_archive_keeps [OF assms(1-4)] by blast

text \<open>A successful create stores exactly one new active memory with the normalised values, under
  the provenance of its source, on behalf of the user only, and returns what a read returns.\<close>

theorem memory_create_correct:
  assumes "repo_ok s" and "is_utc (utc_now e)" and "memory_create e v op sens actor s = (Inr info, t)"
  shows "actor = ''user'' \<and> memory_get (new_uuid e) t = Inr info \<and>
    validated_memory_values v None s = Inr (memory_values info) \<and> i_status info = ''active'' \<and> i_revision info = 1 \<and>
    i_provenance info = provenance_for_source (mv_source_type (memory_values info)) \<and> i_sensitivity info = sens \<and>
    length (records t) = length (records s) + 1 \<and> state_revision t = state_revision s + 1"
proof -
  obtain w r d where r: "validated_memory_values v None s = Inr w" "actor = ''user''" "created e d ''user'' s t"
    "get_record (new_uuid e) t = Inr r" "record_type r = ''memory''" "rec_status r = ''active''" "revision r = 1"
    "provenance r = provenance_for_source (mv_source_type w)" "sensitivity r = sens"
    "memory_from_record r = Inr (memory_info r w)" "info = memory_info r w"
    using memory_create_shape [OF assms] by auto
  then show ?thesis
    using memory_get_stored [OF r(4,5)] by (auto simp: memory_info_def created_def audited_def)
qed

text \<open>C14: the service compares the clock with the creation time only when it reads. An update made
  under a clock that is behind the creation time of the memory is committed and reported as
  \<open>MemoryCorruptError\<close>, and from then on the memory can be neither read nor repaired through
  the service.\<close>

theorem memory_clock_regression:
  assumes "repo_ok s" and "get_record i s = Inr r" and "is_utc (utc_now e)" and "\<not> ts_le (created_at r) (utc_now e)"
    and "memory_update e i expected v op actor s = (res, t)" and "t \<noteq> s"
  shows "res = Inl MemoryCorruptError \<and> memory_get i t = Inl MemoryCorruptError \<and>
    memory_update e' i expected' v' op' ''user'' t = (Inl MemoryCorruptError, t) \<and>
    memory_archive e' i expected' op' ''user'' t = (Inl MemoryCorruptError, t)"
proof -
  obtain c w row where c: "record_type r = ''memory''" "memory_from_record r = Inr c"
    "changed e i expected (memory_revising w) ''user'' ''memory'' row s t" "res = memory_get i t"
    using memory_update_cases [OF assms(1,5)] assms(2,6) by auto
  let ?q = "revised_env e (memory_revising w) r"
  have q: "get_record i t = Inr ?q" "record_type ?q = ''memory''"
    using changed_get [OF c(3) assms(2)] c(1) by (auto simp: revised_env_def)
  have "validate_memory_envelope ?q = Inl MemoryValidationError"
    using memory_envelope_revised [of r e w] c(2) assms(3,4) by (auto simp: memory_from_record_eq)
  then have "memory_from_record ?q = Inl MemoryCorruptError"
    by (simp add: memory_from_record_def is_malformed_memory_def)
  then show ?thesis
    using q c(4)
    by (simp add: memory_get_def memory_update_def memory_archive_def require_memory_record_def bind_lift
        require_memory_actor_def ALLOWED_MUTATION_ACTORS_def)
qed

section \<open>Concrete runs\<close>

definition sample_memory :: memory_values where
  "sample_memory = \<lparr>mv_subject = '' a'', mv_content = ''b'', mv_source_type = ''user_statement'',
     mv_valid_from = None, mv_valid_until = None, mv_confidence = JInt 1, mv_related = [], mv_contradicts = [],
     mv_source_reference = None, mv_model_manifest_id = None, mv_runtime_adapter_id = None, mv_session_id = None,
     mv_origin_operation_id = None\<rparr>"

definition sample_stored :: memory_values where
  "sample_stored = sample_memory\<lparr>mv_subject := ''a'', mv_confidence := JFloat ''1.0''\<rparr>"

definition clock_env :: "string \<Rightarrow> string \<Rightarrow> string \<Rightarrow> env" where
  "clock_env i v now = (sample_env i)\<lparr>event_uuid := v, utc_now := now\<rparr>"

lemma sample_validated: "validated_memory_values sample_memory sid s = Inr sample_stored"
proof -
  have "memory_text MAX_SUBJECT_LENGTH '' a'' = Inr ''a''" "memory_text MAX_CONTENT_LENGTH ''b'' = Inr ''b''"
    "validate_source_type ''user_statement'' = Inr ''user_statement''" "validate_confidence (JInt 1) = Inr (JFloat ''1.0'')"
    "ref_ids MemoryValidationError MAX_REFERENCE_COUNT [] = Inr []"
    by code_simp+
  then show ?thesis
    by (simp add: validated_memory_values_def sample_memory_def sample_stored_def validate_validity_window_def
        validate_memory_references_def suggestion_complete_def)
qed

lemma sample_memory_audit:
  "\<exists>am j. memory_audit (memory_metadata sample_stored) ''personal'' = Inr am \<and> serialize_metadata_strict am = Inr j"
proof -
  let ?m = "[(''memory_class'', JStr ''confirmed''), (''source_type'', JStr ''user_statement''),
          (''sensitivity'', JStr ''personal''), (''related_count'', JInt 0),
          (''contradiction_count'', JInt 0), (''has_validity_window'', JBool False)]"
  have "memory_audit (memory_metadata sample_stored) ''personal'' = Inr ?m" by code_simp
  moreover have "list_all plain_entry ?m" by code_simp
  moreover have "int (utf8_length (encode (JObj ?m))) \<le> MAX_METADATA_BYTES" by code_simp
  ultimately show ?thesis using serialize_plain [of ?m] by (simp add: MAX_METADATA_ITEMS_def)
qed

lemma memory_tokens:
  "validate_token MAX_ACTION_LENGTH ''memory.create'' = Inr ''memory.create''"
  "validate_token MAX_ACTION_LENGTH ''memory.update'' = Inr ''memory.update''"
proof -
  have "plain_alphabet ''memory.create'' \<and> plain_alphabet ''memory.update''" by code_simp
  then show "validate_token MAX_ACTION_LENGTH ''memory.create'' = Inr ''memory.create''"
     "validate_token MAX_ACTION_LENGTH ''memory.update'' = Inr ''memory.update''"
    by (auto intro!: plain_token_valid [OF _ subset_refl] simp: MAX_ACTION_LENGTH_def
      is_alnum_ascii_def is_lower_ascii_def is_upper_ascii_def is_digit_def token_char_def ord_def)
qed

lemma sample_operation: "validate_operation_id e (Some ''op1'') = Inr ''op1''"
  using action_tokens(3) by (simp add: validate_operation_id_def)

lemma sample_memory_finite: "all_finite (JObj (memory_metadata sample_stored))"
  by (simp add: memory_metadata_def sample_stored_def sample_memory_def opt_json_def finite_float_def)

lemma sample_memory_created:
  "\<exists>info t r a. memory_create (clock_env ''u1'' ''v1'' ''2026-01-01T00:00:00Z'') sample_memory (Some ''op1'') ''personal'' ''user'' sample_repo
      = (Inr info, t) \<and> repo_ok t \<and> \<not> read_only t \<and> audit_events t = [a] \<and> event_id a = ''v1'' \<and>
      get_record ''u1'' t = Inr r \<and> record_type r = ''memory'' \<and> rec_status r = ''active'' \<and> revision r = 1 \<and>
      sensitivity r = ''personal'' \<and> created_at r = ''2026-01-01T00:00:00Z'' \<and> memory_from_record r = Inr info"
proof -
  let ?e = "clock_env ''u1'' ''v1'' ''2026-01-01T00:00:00Z''"
  let ?d = "\<lparr>dr_id = new_uuid ?e, dr_type = ''memory'', dr_version = 1,
      dr_prov = provenance_for_source (mv_source_type sample_stored), dr_sens = ''personal'', dr_title = mv_subject sample_stored,
      dr_meta = memory_metadata sample_stored\<rparr>"
  have e: "new_uuid ?e = ''u1''" "event_uuid ?e = ''v1''" "utc_now ?e = ''2026-01-01T00:00:00Z''"
    by (simp_all add: clock_env_def sample_env_def)
  have utc: "is_utc (utc_now ?e)" by code_simp
  have f: "validate_record_fields ''memory'' 1 ''active'' (provenance_for_source (mv_source_type sample_stored)) ''personal'' = Inr ()"
    by code_simp
  obtain am j where am: "memory_audit (memory_metadata sample_stored) ''personal'' = Inr am" "serialize_metadata_strict am = Inr j"
    using sample_memory_audit by blast
  have empty: "\<not> read_only sample_repo" "records sample_repo = []" "audit_events sample_repo = []"
    by (simp_all add: sample_repo_def)
  obtain u where "store_create ?e ?d (Some ''op1'') ''user'' ''memory.create'' ''Changed confirmed memory record''
      (memory_audit (memory_metadata sample_stored) ''personal'') sample_repo = (Inr (dr_id ?d), u)"
    using store_create_ok [OF sample_repo_ok empty(1), of ?d ?e "Some ''op1''"] f sample_operation sample_memory_finite am
      memory_tokens(1) empty by (fastforce simp: find_row_def)
  then have "create_memory_record ?e (mv_subject sample_stored) (memory_metadata sample_stored)
      (provenance_for_source (mv_source_type sample_stored)) ''personal'' (Some ''op1'') sample_repo = (Inr ''u1'', u)"
    using e by (simp add: create_memory_record_def)
  then have run: "memory_create ?e sample_memory (Some ''op1'') ''personal'' ''user'' sample_repo = (memory_get ''u1'' u, u)"
    using sample_validated
    by (simp add: memory_create_def bind_lift require_memory_actor_def ALLOWED_MUTATION_ACTORS_def bind_op_read)
  have "u \<noteq> sample_repo"
    using store_create_cases [OF sample_repo_ok \<open>store_create _ _ _ _ _ _ _ _ = _\<close>] by (auto simp: created_def)
  then obtain w r d where r: "created ?e d ''user'' sample_repo u" "dr_id d = ''u1''" "get_record ''u1'' u = Inr r"
    "record_type r = ''memory''" "rec_status r = ''active''" "revision r = 1" "sensitivity r = ''personal''"
    "memory_from_record r = Inr (memory_info r w)" "memory_get ''u1'' u = Inr (memory_info r w)"
    using memory_create_shape [OF sample_repo_ok utc run] unfolding e by auto
  have "created_at r = ''2026-01-01T00:00:00Z''"
    using created_get [OF r(1)] r(2,3) e by (auto simp: draft_row_def)
  then show ?thesis
    using run r e empty by (fastforce simp: created_def audited_def evolves_def)
qed

theorem memory_create_correct_witness:
  "\<exists>info t. memory_create (clock_env ''u1'' ''v1'' ''2026-01-01T00:00:00Z'') sample_memory (Some ''op1'') ''personal'' ''user'' sample_repo
      = (Inr info, t) \<and> memory_get ''u1'' t = Inr info \<and> memory_values info = sample_stored"
proof -
  have utc: "is_utc (utc_now (clock_env ''u1'' ''v1'' ''2026-01-01T00:00:00Z''))" by code_simp
  obtain info t where c: "memory_create (clock_env ''u1'' ''v1'' ''2026-01-01T00:00:00Z'') sample_memory (Some ''op1'') ''personal'' ''user'' sample_repo
      = (Inr info, t)" using sample_memory_created by blast
  from memory_create_correct [OF sample_repo_ok utc c] show ?thesis
    using c sample_validated [of None sample_repo] by (auto simp: clock_env_def sample_env_def)
qed

theorem memory_writes_readable_witness:
  "\<exists>info t. memory_create (clock_env ''u1'' ''v1'' ''2026-01-01T00:00:00Z'') sample_memory (Some ''op1'') ''personal'' ''user'' sample_repo
      = (Inr info, t) \<and> memories_readable t"
proof -
  have utc: "is_utc (utc_now (clock_env ''u1'' ''v1'' ''2026-01-01T00:00:00Z''))" by code_simp
  obtain info t where c: "memory_create (clock_env ''u1'' ''v1'' ''2026-01-01T00:00:00Z'') sample_memory (Some ''op1'') ''personal'' ''user'' sample_repo
      = (Inr info, t)" using sample_memory_created by blast
  have "memories_readable sample_repo" and none: "\<And>r. get_record ''u1'' sample_repo = Inr r \<Longrightarrow> False"
    by (simp_all add: memories_readable_def sample_repo_def get_record_def find_row_def)
  from memory_writes_readable [OF sample_repo_ok this(1) utc _ disjI1 [OF c]] c none show ?thesis by blast
qed

theorem memory_clock_regression_witness:
  "\<exists>s t. memory_update (clock_env ''x'' ''v2'' ''2025-01-01T00:00:00Z'') ''u1'' 1 sample_memory (Some ''op1'') ''user'' s =
     (Inl MemoryCorruptError, t) \<and> (\<exists>info. memory_get ''u1'' s = Inr info) \<and> memory_get ''u1'' t = Inl MemoryCorruptError"
proof -
  let ?e = "clock_env ''x'' ''v2'' ''2025-01-01T00:00:00Z''"
  obtain info s r a where r: "repo_ok s" "\<not> read_only s" "audit_events s = [a]" "event_id a = ''v1''"
      "get_record ''u1'' s = Inr r" "record_type r = ''memory''" "rec_status r = ''active''" "revision r = 1"
      "sensitivity r = ''personal''" "created_at r = ''2026-01-01T00:00:00Z''" "memory_from_record r = Inr info"
    using sample_memory_created by blast
  have id: "rec_id r = ''u1''" using get_recordD [OF r(5)] find_row_Some by (metis with_metadata_sel(1))
  have utc: "is_utc (utc_now ?e)" "\<not> ts_le ''2026-01-01T00:00:00Z'' (utc_now ?e)"
  proof -
    show "is_utc (utc_now ?e)" by code_simp
    have "case (utc_micros ''2026-01-01T00:00:00Z'', utc_micros (utc_now ?e)) of (Inr m, Inr n) \<Rightarrow> n < m | _ \<Rightarrow> False"
      by code_simp
    then show "\<not> ts_le ''2026-01-01T00:00:00Z'' (utc_now ?e)" by (auto simp: ts_le_def split: sum.splits)
  qed
  obtain am j where am: "memory_audit (memory_metadata sample_stored) ''personal'' = Inr am" "serialize_metadata_strict am = Inr j"
    using sample_memory_audit by blast
  have ev: "event_uuid ?e \<notin> event_id ` set (audit_events s)" using r(3,4) by (simp add: clock_env_def sample_env_def)
  have ser: "bindr (serialize_metadata (memory_metadata sample_stored)) (\<lambda>_. Inr ()) = Inr ()"
    using sample_memory_finite by (simp add: serialize_metadata_def del: all_finite.simps canon.simps)
  obtain t where "store_update ?e MemoryValidationError r 1 (memory_revising sample_stored) (Some ''op1'')
      (bindr (serialize_metadata (memory_metadata sample_stored)) (\<lambda>_. Inr ())) ''user'' ''memory.update''
      ''Changed confirmed memory record'' (memory_audit (memory_metadata sample_stored) (sensitivity r)) s = (Inr (), t)"
    using store_update_ok [OF r(1,2) sample_operation ser, of r r 1 "memory_revising sample_stored"] id r am ev memory_tokens(2)
      sample_memory_finite by fastforce
  then have upd: "update_memory_record ?e r 1 (mv_subject sample_stored) (memory_metadata sample_stored) ''active''
                (provenance_for_source (mv_source_type sample_stored)) (Some ''op1'') ''memory.update'' s = (Inr (), t)"
    by (simp add: update_memory_record_def)
  have info: "memory_get ''u1'' s = Inr info" "i_status info = ''active''"
    using r memory_get_stored by (auto simp: memory_from_record_eq memory_info_def)
  have run: "memory_update ?e ''u1'' 1 sample_memory (Some ''op1'') ''user'' s = (memory_get ''u1'' t, t)"
    using sample_validated upd r info
    by (simp add: memory_update_def bind_lift require_memory_actor_def ALLOWED_MUTATION_ACTORS_def
        require_memory_record_def bind_op_read)
  have "t \<noteq> s"
    using store_update_cases [OF r(1) memory_revising_ok upd [unfolded update_memory_record_def]]
    by (auto simp: changed_def audited_def)
  from memory_clock_regression [OF r(1,5) utc(1) _ run this] utc(2) r(10)
  have "memory_get ''u1'' t = Inl MemoryCorruptError" by simp
  then show ?thesis using run info(1) by (intro exI [of _ s] exI [of _ t]) simp
qed

end
