(* ===== verification/Artifacts.thy ===== *)
theory Artifacts
  imports Record_Store
begin

text \<open>
  Managed artifacts: the portable path rules of \<open>workspace_files.py\<close> and the record side of
  \<open>artifact.py\<close>, that is its validators, its reader, \<open>get\<close> and \<open>list\<close>. Publication of the file
  itself is file-system input and output.
\<close>

section \<open>Managed paths\<close>

definition MAX_RELATIVE_PATH_LENGTH :: int where "MAX_RELATIVE_PATH_LENGTH = 512"
definition MAX_PATH_COMPONENT_LENGTH :: int where "MAX_PATH_COMPONENT_LENGTH = 120"

definition TEMP_PREFIX :: string where "TEMP_PREFIX = ''.doll-tmp-''"

definition WINDOWS_RESERVED_NAMES :: "string list" where
  "WINDOWS_RESERVED_NAMES = [''CON'', ''PRN'', ''AUX'', ''NUL''] @
     map (\<lambda>n. ''COM'' @ show_int n) [1..9] @ map (\<lambda>n. ''LPT'' @ show_int n) [1..9]"

definition WINDOWS_FORBIDDEN_CHARACTERS :: string where
  "WINDOWS_FORBIDDEN_CHARACTERS = [CHR ''<'', CHR ''>'', CHR '':'', CHR 0x22, CHR ''|'', CHR ''?'', CHR ''*'']"

text \<open>\<open>str.upper()\<close> as far as a reserved name can tell: only ASCII letters have an upper case in
  those names.\<close>

definition upper_ascii :: "char \<Rightarrow> char" where
  "upper_ascii c = (if is_lower_ascii c then char_of (ord c - 32) else c)"

definition component_ok :: "string \<Rightarrow> bool" where
  "component_ok component \<longleftrightarrow>
     \<not> MAX_PATH_COMPONENT_LENGTH < int (length component) \<and>
     \<not> (component \<noteq> strip component \<or> ends_with ''.'' component \<or> ends_with '' '' component) \<and>
     \<not> list_ex (\<lambda>c. ord c < 32) component \<and>
     \<not> list_ex (List.member WINDOWS_FORBIDDEN_CHARACTERS) component \<and>
     \<not> List.member WINDOWS_RESERVED_NAMES (takeWhile (\<lambda>c. c \<noteq> CHR ''.'') (map upper_ascii component)) \<and>
     \<not> starts_with TEMP_PREFIX component"

definition windows_drive :: "string \<Rightarrow> bool" where
  "windows_drive value \<longleftrightarrow> (case value of _ # c # _ \<Rightarrow> c = CHR '':'' | _ \<Rightarrow> False)"

definition validate_managed_path :: "string \<Rightarrow> string res" where
  "validate_managed_path value =
    (let x = UnsafeManagedPathError; components = split_on CHR ''/'' value in
     bindr (require (\<not> (value = [] \<or> MAX_RELATIVE_PATH_LENGTH < int (length value))) x) (\<lambda>_.
     bindr (require (\<not> (CHR 0x00 \<in> set value \<or> CHR 0x5C \<in> set value)) x) (\<lambda>_.
     bindr (require (\<not> starts_with ''/'' value) x) (\<lambda>_.
     bindr (require (\<not> (windows_drive value \<or> starts_with ''//'' value)) x) (\<lambda>_.
     bindr (require (\<not> list_ex (\<lambda>c. c = [] \<or> c = ''.'' \<or> c = ''..'') components) x) (\<lambda>_.
     bindr (require (list_all component_ok components) x) (\<lambda>_.
     Inr (join ''/'' components))))))))"

section \<open>Artifact records\<close>

definition ALLOWED_CREATORS :: "string list" where
  "ALLOWED_CREATORS = [''user'', ''system'', ''model'', ''runtime'', ''capability'']"

definition media_char :: "char \<Rightarrow> bool" where
  "media_char c \<longleftrightarrow> is_alnum_ascii c \<or> any_of [CHR ''!'', CHR ''#'', CHR ''$'', CHR ''&'', CHR 0x5E, CHR ''_'', CHR ''.'',
     CHR ''+'', CHR ''-''] c"

definition MEDIA_TYPE_PATTERN :: rx where
  "MEDIA_TYPE_PATTERN = rseq [RCls is_alnum_ascii, rstar (RCls media_char), rlit ''/'',
     RCls is_alnum_ascii, rstar (RCls media_char)]"

definition CONTENT_HASH_PATTERN :: rx where
  "CONTENT_HASH_PATTERN = RSeq (rlit ''sha256:'') (RRep 64 (Some 64) True (RCls lower_hex))"

definition MAX_ARTIFACT_TITLE_LENGTH :: int where "MAX_ARTIFACT_TITLE_LENGTH = 240"
definition MAX_ARTIFACT_TYPE_LENGTH :: int where "MAX_ARTIFACT_TYPE_LENGTH = 120"
definition MAX_FORMAT_LENGTH :: int where "MAX_FORMAT_LENGTH = 80"
definition MAX_ARTIFACT_LIST_LIMIT :: int where "MAX_ARTIFACT_LIST_LIMIT = 200"

record ArtifactInfo =
  artifact_id :: string
  a_title :: string
  artifact_type :: string
  managed_path :: string
  content_hash :: string
  size_bytes :: int
  created_by :: string
  a_operation_id :: string
  a_created_at :: string
  a_sensitivity :: string
  a_format :: "string option"
  media_type :: "string option"

definition validate_title :: "string \<Rightarrow> string res" where
  "validate_title value =
     (let normalized = norm_ws value in
      bindr (require (\<not> (normalized = [] \<or> MAX_ARTIFACT_TITLE_LENGTH < int (length normalized))) ArtifactValidationError) (\<lambda>_.
      bindr (require (\<not> list_ex (\<lambda>c. ord c < 32) normalized) ArtifactValidationError) (\<lambda>_.
      Inr normalized)))"

definition validate_artifact_identifier :: "int \<Rightarrow> string \<Rightarrow> string res" where
  "validate_artifact_identifier maximum value =
     (let normalized = strip value in
      bindr (require (\<not> (normalized = [] \<or> maximum < int (length normalized))) ArtifactValidationError) (\<lambda>_.
      bindr (require (re_fullmatch TOKEN_PATTERN normalized) ArtifactValidationError) (\<lambda>_.
      Inr normalized)))"

definition validate_media_type :: "string \<Rightarrow> string res" where
  "validate_media_type value =
     (let normalized = lower (strip value) in
      bindr (require (\<not> (120 < int (length normalized) \<or> \<not> re_fullmatch MEDIA_TYPE_PATTERN normalized))
               ArtifactValidationError) (\<lambda>_.
      Inr normalized))"

definition provenance_for_creator :: "string \<Rightarrow> string" where
  "provenance_for_creator creator =
     (if creator = ''user'' then ''user-created''
      else if creator = ''model'' then ''model-proposed''
      else ''system-generated'')"

definition artifact_from_record :: "RecordEnvelope \<Rightarrow> ArtifactInfo res" where
  "artifact_from_record r =
    (let m = metadata r; x = ArtifactCorruptError in
     rescue (\<lambda>y. y = ArtifactValidationError \<or> y = UnsafeManagedPathError \<or> is_StateError y \<or> y = KeyError \<or> y = ValueError) x (
     bindr (bindr (req_str x m ''artifact_type'') (validate_artifact_identifier MAX_ARTIFACT_TYPE_LENGTH)) (\<lambda>atype.
     bindr (bindr (req_str x m ''managed_path'') validate_managed_path) (\<lambda>path.
     bindr (req_str x m ''content_hash'') (\<lambda>hash.
     bindr (require (re_fullmatch CONTENT_HASH_PATTERN hash) x) (\<lambda>_.
     bindr (case map_of m ''size_bytes'' of
              None \<Rightarrow> Inl KeyError
            | Some (JInt n) \<Rightarrow> if n < 0 then Inl x else Inr n
            | Some _ \<Rightarrow> Inl x) (\<lambda>size.
     bindr (req_str x m ''created_by'') (\<lambda>creator.
     bindr (require (List.member ALLOWED_CREATORS creator) x) (\<lambda>_.
     bindr (req_str x m ''operation_id'') (\<lambda>op.
     bindr (validate_token MAX_IDENTIFIER_LENGTH op) (\<lambda>_.
     bindr (bindr (opt_str x m ''format'') (opt_res (validate_artifact_identifier MAX_FORMAT_LENGTH))) (\<lambda>fmt.
     bindr (bindr (opt_str x m ''media_type'') (opt_res validate_media_type)) (\<lambda>media.
     bindr (of_option x (rec_title r)) (\<lambda>raw_title.
     bindr (validate_title raw_title) (\<lambda>ttl.
     Inr \<lparr>artifact_id = rec_id r, a_title = ttl, artifact_type = atype, managed_path = path,
          content_hash = hash, size_bytes = size, created_by = creator, a_operation_id = op,
          a_created_at = created_at r, a_sensitivity = sensitivity r, a_format = fmt, media_type = media\<rparr>)))))))))))))))"

definition artifact_get :: "string \<Rightarrow> repo \<Rightarrow> ArtifactInfo res" where
  "artifact_get i s =
     bindr (get_record i s) (\<lambda>r.
     bindr (require (record_type r = ''artifact'') KeyError) (\<lambda>_. artifact_from_record r))"

definition artifact_list :: "int \<Rightarrow> repo \<Rightarrow> ArtifactInfo list res" where
  "artifact_list limit s =
     bindr (require (\<not> (limit < 1 \<or> MAX_ARTIFACT_LIST_LIMIT < limit)) ArtifactValidationError) (\<lambda>_.
     map_res (\<lambda>r. artifact_get (rec_id r) s) (listed ''artifact'' False limit s))"

section \<open>Confinement\<close>

text \<open>Resolution of a relative path below a directory: \<open>.\<close> stays, \<open>..\<close> goes up, an empty component
  is skipped.\<close>

fun walk :: "string list \<Rightarrow> string list \<Rightarrow> string list" where
  "walk dir [] = dir"
| "walk dir (c # cs) =
     (if c = [] \<or> c = ''.'' then walk dir cs
      else if c = ''..'' then walk (butlast dir) cs
      else walk (dir @ [c]) cs)"

lemma walk_plain: "\<forall>c \<in> set cs. c \<noteq> [] \<and> c \<noteq> ''.'' \<and> c \<noteq> ''..'' \<Longrightarrow> walk dir cs = dir @ cs"
  by (induction cs arbitrary: dir) auto

lemma split_on_nonempty: "split_on d s \<noteq> []"
  by (induction s) (auto split: list.splits)

lemma join_split_on: "join [d] (split_on d s) = s"
proof (induction s)
  case (Cons c s)
  then show ?case using split_on_nonempty [of d s] by (auto split: list.splits simp: join_Cons)
qed simp

lemma split_on_subset: "c \<in> set (split_on d s) \<Longrightarrow> set c \<subseteq> set s"
  by (induction s arbitrary: c) (fastforce split: list.splits if_splits)+

lemma validate_managed_pathD:
  assumes "validate_managed_path v = Inr p"
  shows "p = v \<and> (\<forall>c \<in> set (split_on CHR ''/'' v). c \<noteq> [] \<and> c \<noteq> ''.'' \<and> c \<noteq> ''..'' \<and> component_ok c)"
  using assms by (auto simp: validate_managed_path_def Let_def join_split_on list_ex_iff list_all_iff)


text \<open>C15: a managed path stays inside the artifacts directory: resolving it from the directory goes
  down along its components and never up, so the file lies strictly below; different accepted
  paths are different places. Every component is portable: it is not empty and not too long, has no
  character that Windows forbids, no backslash and no control character, does not end in a dot or a
  space, is no device name in any case with or without an extension, and is no staging file.\<close>

theorem managed_path_confined:
  assumes "validate_managed_path v = Inr p" and "validate_managed_path w = Inr q"
  shows "p = v \<and> length p \<le> 512 \<and> (\<exists>c cs. walk root (split_on CHR ''/'' p) = root @ c # cs) \<and>
    (walk root (split_on CHR ''/'' p) = walk root (split_on CHR ''/'' q) \<longleftrightarrow> p = q) \<and>
    (\<forall>c \<in> set (split_on CHR ''/'' p).
       c \<notin> {[], ''.'', ''..''} \<and> length c \<le> 120 \<and> strip c = c \<and> \<not> ends_with ''.'' c \<and> \<not> ends_with '' '' c \<and>
       (\<forall>x \<in> set c. x \<notin> {CHR ''<'', CHR ''>'', CHR '':'', CHR 0x22, CHR ''|'', CHR ''?'', CHR ''*'', CHR 0x5C} \<and> 32 \<le> ord x) \<and>
       takeWhile (\<lambda>x. x \<noteq> CHR ''.'') (map upper_ascii c) \<notin> set WINDOWS_RESERVED_NAMES \<and> \<not> starts_with TEMP_PREFIX c)"
proof -
  note v = validate_managed_pathD [OF assms(1)] and w = validate_managed_pathD [OF assms(2)]
  have whole: "length p \<le> 512" "CHR 0x5C \<notin> set p"
    using assms(1) v by (auto simp: validate_managed_path_def MAX_RELATIVE_PATH_LENGTH_def Let_def)
  have "walk root (split_on CHR ''/'' p) = root @ split_on CHR ''/'' p"
    "walk root (split_on CHR ''/'' q) = root @ split_on CHR ''/'' q"
    using v w by (auto intro!: walk_plain)
  moreover have "split_on CHR ''/'' p = split_on CHR ''/'' q \<Longrightarrow> p = q"
    by (metis join_split_on)
  moreover have "c \<notin> {[], ''.'', ''..''} \<and> component_ok c \<and> CHR 0x5C \<notin> set c" if "c \<in> set (split_on CHR ''/'' p)" for c
    using that v whole(2) split_on_subset [OF that] by auto
  ultimately show ?thesis
    using whole(1) v split_on_nonempty [of "CHR ''/''" p]
    by (fastforce simp: neq_Nil_conv component_ok_def list_ex_iff WINDOWS_FORBIDDEN_CHARACTERS_def MAX_PATH_COMPONENT_LENGTH_def not_le)
qed

theorem managed_path_confined_witness:
  "validate_managed_path ''a/b.txt'' = Inr ''a/b.txt'' \<and> walk [''ws''] (split_on CHR ''/'' ''a/b.txt'') = [''ws'', ''a'', ''b.txt'']"
proof -
  have p: "validate_managed_path ''a/b.txt'' = Inr ''a/b.txt''" by code_simp
  from managed_path_confined [OF p p, of "[''ws'']"] p show ?thesis by simp
qed

end
