(* ===== verification/Project_State.thy ===== *)
theory Project_State
  imports Memory Artifacts
begin

text \<open>
  Projects and decisions, \<open>project_state.py\<close>. A reader with a repository (\<open>project_from_record\<close>,
  \<open>decision_from_record\<close>) also validates every record that is linked; the linked projects and
  decisions are read without a repository (\<open>project_shallow\<close>, \<open>decision_shallow\<close>), so reading
  never recurses. Version 2 of a project adds a charter; for version 1 the source keeps the
  charter fields empty, here the charter is \<open>None\<close>.
\<close>

section \<open>Data\<close>

definition PROJECT_STATUSES :: "string list" where
  "PROJECT_STATUSES = [''planned'', ''active'', ''on_hold'', ''completed'', ''cancelled'']"

definition DECISION_STATUSES :: "string list" where
  "DECISION_STATUSES = [''accepted'', ''superseded'', ''reversed'']"

definition SUPPORTED_PROJECT_SCHEMA_VERSIONS :: "int list" where
  "SUPPORTED_PROJECT_SCHEMA_VERSIONS = [1, 2]"

definition MAX_NAME_LENGTH :: int where "MAX_NAME_LENGTH = 240"
definition MAX_DECISION_LENGTH :: int where "MAX_DECISION_LENGTH = 1000"
definition MAX_PROJECT_DESCRIPTION_LENGTH :: int where "MAX_PROJECT_DESCRIPTION_LENGTH = 6000"
definition MAX_REASON_LENGTH :: int where "MAX_REASON_LENGTH = 6000"
definition MAX_LIST_ITEM_LENGTH :: int where "MAX_LIST_ITEM_LENGTH = 1000"
definition MAX_LIST_ITEMS :: int where "MAX_LIST_ITEMS = 100"
definition MAX_LINKS :: int where "MAX_LINKS = 100"
definition MAX_PROJECT_LIST_LIMIT :: int where "MAX_PROJECT_LIST_LIMIT = 200"

record project_values =
  pj_name :: string
  pj_description :: string
  pj_status :: string
  pj_started_at :: string
  pj_ended_at :: "string option"
  pj_decisions :: "string list"
  pj_memories :: "string list"
  pj_artifacts :: "string list"

record charter_values =
  ch_objective :: string
  ch_in_scope :: "string list"
  ch_out_of_scope :: "string list"
  ch_success_criteria :: "string list"
  ch_policies :: "string list"

record ProjectInfo = typed_info +
  p_version :: int
  p_provenance :: string
  project_values :: project_values
  charter :: "charter_values option"

record decision_values =
  dc_decision :: string
  dc_reason :: string
  dc_status :: string
  dc_decided_at :: string
  dc_alternatives :: "string list"
  dc_constraints :: "string list"
  dc_review_after :: "string option"
  dc_supersedes :: "string option"
  dc_project :: "string option"
  dc_memories :: "string list"
  dc_artifacts :: "string list"

record DecisionInfo = typed_info +
  d_provenance :: string
  decision_values :: decision_values

section \<open>Validators\<close>

abbreviation pd_error :: exc where "pd_error \<equiv> ProjectDecisionValidationError"
abbreviation pd_text :: "int \<Rightarrow> string \<Rightarrow> string res" where "pd_text \<equiv> field_text pd_error"
abbreviation pd_items :: "string list \<Rightarrow> string list res" where
  "pd_items \<equiv> text_items pd_error MAX_LIST_ITEMS MAX_LIST_ITEM_LENGTH"
abbreviation pd_utc :: "string \<Rightarrow> string res" where "pd_utc \<equiv> field_utc pd_error"
abbreviation pd_ids :: "string list \<Rightarrow> string list res" where "pd_ids \<equiv> ref_ids pd_error MAX_LINKS"
abbreviation pd_opt_id :: "string option \<Rightarrow> string option res" where "pd_opt_id \<equiv> opt_res (ref_id pd_error)"

definition validate_project_status :: "string \<Rightarrow> string res" where
  "validate_project_status value = bindr (require (List.member PROJECT_STATUSES value) pd_error) (\<lambda>_. Inr value)"

definition validate_decision_status :: "string \<Rightarrow> string res" where
  "validate_decision_status value = bindr (require (List.member DECISION_STATUSES value) pd_error) (\<lambda>_. Inr value)"

definition opt_not_before :: "string option \<Rightarrow> string \<Rightarrow> unit res" where
  "opt_not_before later earlier = (case later of None \<Rightarrow> Inr () | Some t \<Rightarrow> not_before pd_error t earlier)"

definition require_user_actor :: "string \<Rightarrow> unit res" where
  "require_user_actor actor = require (actor = ''user'') ForbiddenAuthorityMutationError"

definition pd_require_active :: "string \<Rightarrow> unit res" where
  "pd_require_active stat = require (stat = ''active'') pd_error"

definition require_exportable :: "string \<Rightarrow> unit res" where
  "require_exportable sens = require (sens \<noteq> ''secret'') ProjectDecisionExportError"

definition deterministic_json :: "json \<Rightarrow> string" where
  "deterministic_json payload = encode payload @ [CHR 0x0A]"

section \<open>Reading one record\<close>

definition validate_envelope :: "RecordEnvelope \<Rightarrow> string \<Rightarrow> string \<Rightarrow> unit res" where
  "validate_envelope r rtype prov =
     bindr (require (record_type r = rtype) pd_error) (\<lambda>_.
     bindr (require (List.member (if rtype = ''project'' then SUPPORTED_PROJECT_SCHEMA_VERSIONS else [1]) (rec_schema_version r))
              pd_error) (\<lambda>_.
     bindr (require (\<not> revision r < 1) pd_error) (\<lambda>_.
     bindr (require (List.member [''active'', ''archived''] (rec_status r)) pd_error) (\<lambda>_.
     bindr (require (provenance r = prov) pd_error) (\<lambda>_.
     bindr (require (List.member ALLOWED_SENSITIVITY (sensitivity r)) pd_error) (\<lambda>_.
     bindr (pd_utc (created_at r)) (\<lambda>created.
     bindr (pd_utc (updated_at r)) (\<lambda>updated.
     not_before pd_error updated created))))))))"

definition project_fields :: "dict \<Rightarrow> string option \<Rightarrow> project_values res" where
  "project_fields m ttl =
     bindr (bindr (req_str pd_error m ''name'') (pd_text MAX_NAME_LENGTH)) (\<lambda>name.
     bindr (bindr (req_str pd_error m ''description'') (pd_text MAX_PROJECT_DESCRIPTION_LENGTH)) (\<lambda>description.
     bindr (require (ttl = Some name) pd_error) (\<lambda>_.
     bindr (bindr (req_str pd_error m ''status'') validate_project_status) (\<lambda>stat.
     bindr (bindr (req_str pd_error m ''started_at'') pd_utc) (\<lambda>started_at.
     bindr (bindr (opt_str pd_error m ''ended_at'') (opt_res pd_utc)) (\<lambda>ended_at.
     bindr (opt_not_before ended_at started_at) (\<lambda>_.
     bindr (meta_ids pd_error MAX_LINKS m ''decision_ids'') (\<lambda>decisions.
     bindr (meta_ids pd_error MAX_LINKS m ''memory_ids'') (\<lambda>memories.
     bindr (meta_ids pd_error MAX_LINKS m ''artifact_ids'') (\<lambda>artifacts.
     Inr \<lparr>pj_name = name, pj_description = description, pj_status = stat, pj_started_at = started_at,
          pj_ended_at = ended_at, pj_decisions = decisions, pj_memories = memories, pj_artifacts = artifacts\<rparr>))))))))))"

definition charter_fields :: "dict \<Rightarrow> charter_values res" where
  "charter_fields m =
     bindr (bindr (req_str pd_error m ''objective'') (pd_text MAX_PROJECT_DESCRIPTION_LENGTH)) (\<lambda>objective.
     bindr (bindr (meta_strings pd_error m ''in_scope'') pd_items) (\<lambda>in_scope.
     bindr (bindr (meta_strings pd_error m ''out_of_scope'') pd_items) (\<lambda>out_of_scope.
     bindr (bindr (meta_strings pd_error m ''success_criteria'') pd_items) (\<lambda>success_criteria.
     bindr (meta_ids pd_error MAX_LINKS m ''governing_policy_ids'') (\<lambda>policies.
     Inr \<lparr>ch_objective = objective, ch_in_scope = in_scope, ch_out_of_scope = out_of_scope,
          ch_success_criteria = success_criteria, ch_policies = policies\<rparr>)))))"

definition project_parts :: "RecordEnvelope \<Rightarrow> (project_values \<times> charter_values option) res" where
  "project_parts r =
     bindr (validate_envelope r ''project'' ''user-created'') (\<lambda>_.
     bindr (project_fields (metadata r) (rec_title r)) (\<lambda>v.
     bindr (if rec_schema_version r = 1 then Inr None
            else bindr (charter_fields (metadata r)) (\<lambda>c. Inr (Some c))) (\<lambda>c.
     Inr (v, c))))"

definition project_info :: "RecordEnvelope \<Rightarrow> project_values \<times> charter_values option \<Rightarrow> ProjectInfo" where
  "project_info r p =
     \<lparr>i_record_id = rec_id r, i_revision = revision r, i_status = rec_status r, i_sensitivity = sensitivity r,
      i_created_at = created_at r, i_updated_at = updated_at r, p_version = rec_schema_version r,
      p_provenance = provenance r, project_values = fst p, charter = snd p\<rparr>"

definition is_malformed_pd :: "exc \<Rightarrow> bool" where
  "is_malformed_pd x \<longleftrightarrow> x = KeyError \<or> x = ValueError \<or> x = ProjectDecisionValidationError"

definition project_shallow :: "RecordEnvelope \<Rightarrow> ProjectInfo res" where
  "project_shallow r =
     bindr (rescue is_malformed_pd ProjectDecisionCorruptError (project_parts r)) (\<lambda>p. Inr (project_info r p))"

definition decision_fields :: "dict \<Rightarrow> string option \<Rightarrow> decision_values res" where
  "decision_fields m ttl =
     bindr (bindr (req_str pd_error m ''decision'') (pd_text MAX_DECISION_LENGTH)) (\<lambda>decision.
     bindr (bindr (req_str pd_error m ''reason'') (pd_text MAX_REASON_LENGTH)) (\<lambda>reason.
     bindr (require (ttl = Some decision) pd_error) (\<lambda>_.
     bindr (bindr (req_str pd_error m ''status'') validate_decision_status) (\<lambda>stat.
     bindr (bindr (req_str pd_error m ''decided_at'') pd_utc) (\<lambda>decided_at.
     bindr (bindr (meta_strings pd_error m ''alternatives'') pd_items) (\<lambda>alternatives.
     bindr (bindr (meta_strings pd_error m ''constraints'') pd_items) (\<lambda>constraints.
     bindr (bindr (opt_str pd_error m ''review_after'') (opt_res pd_utc)) (\<lambda>review_after.
     bindr (opt_not_before review_after decided_at) (\<lambda>_.
     bindr (bindr (opt_str pd_error m ''supersedes_id'') pd_opt_id) (\<lambda>supersedes.
     bindr (bindr (opt_str pd_error m ''project_id'') pd_opt_id) (\<lambda>project.
     bindr (meta_ids pd_error MAX_LINKS m ''memory_ids'') (\<lambda>memories.
     bindr (meta_ids pd_error MAX_LINKS m ''artifact_ids'') (\<lambda>artifacts.
     Inr \<lparr>dc_decision = decision, dc_reason = reason, dc_status = stat, dc_decided_at = decided_at,
          dc_alternatives = alternatives, dc_constraints = constraints, dc_review_after = review_after,
          dc_supersedes = supersedes, dc_project = project, dc_memories = memories, dc_artifacts = artifacts\<rparr>)))))))))))))"

definition decision_parts :: "RecordEnvelope \<Rightarrow> decision_values res" where
  "decision_parts r =
     bindr (validate_envelope r ''decision'' ''user-confirmed'') (\<lambda>_.
     bindr (decision_fields (metadata r) (rec_title r)) (\<lambda>v.
     bindr (require (dc_supersedes v \<noteq> Some (rec_id r)) pd_error) (\<lambda>_.
     Inr v)))"

definition decision_info :: "RecordEnvelope \<Rightarrow> decision_values \<Rightarrow> DecisionInfo" where
  "decision_info r v =
     \<lparr>i_record_id = rec_id r, i_revision = revision r, i_status = rec_status r, i_sensitivity = sensitivity r,
      i_created_at = created_at r, i_updated_at = updated_at r, d_provenance = provenance r, decision_values = v\<rparr>"

definition decision_shallow :: "RecordEnvelope \<Rightarrow> DecisionInfo res" where
  "decision_shallow r =
     bindr (rescue is_malformed_pd ProjectDecisionCorruptError (decision_parts r)) (\<lambda>v. Inr (decision_info r v))"

section \<open>Links\<close>

definition require_pd_record :: "string \<Rightarrow> string \<Rightarrow> repo \<Rightarrow> RecordEnvelope res" where
  "require_pd_record i rtype s =
     bindr (get_record i s) (\<lambda>r. bindr (require (record_type r = rtype) KeyError) (\<lambda>_. Inr r))"

definition is_ProjectDecisionError :: "exc \<Rightarrow> bool" where
  "is_ProjectDecisionError x \<longleftrightarrow> x \<in> {ProjectDecisionValidationError, ForbiddenAuthorityMutationError,
     ProjectDecisionExportError, ProjectDecisionCorruptError}"

definition is_ConfirmedMemoryError :: "exc \<Rightarrow> bool" where
  "is_ConfirmedMemoryError x \<longleftrightarrow> x \<in> {MemoryValidationError, ForbiddenMemoryMutationError,
     MemoryExportError, MemoryCorruptError}"

definition project_link :: "repo \<Rightarrow> string \<Rightarrow> unit res" where
  "project_link s i = rescue (\<lambda>x. x = KeyError \<or> is_ProjectDecisionError x) pd_error
     (bindr (bindr (require_pd_record i ''project'' s) project_shallow) (\<lambda>_. Inr ()))"

definition decision_link :: "repo \<Rightarrow> string \<Rightarrow> unit res" where
  "decision_link s i = rescue (\<lambda>x. x = KeyError \<or> is_ProjectDecisionError x) pd_error
     (bindr (bindr (require_pd_record i ''decision'' s) decision_shallow) (\<lambda>_. Inr ()))"

definition memory_link :: "repo \<Rightarrow> string \<Rightarrow> unit res" where
  "memory_link s i = rescue (\<lambda>x. x = KeyError \<or> is_ConfirmedMemoryError x) pd_error
     (bindr (memory_get i s) (\<lambda>_. Inr ()))"

definition validate_artifact_link_envelope :: "RecordEnvelope \<Rightarrow> unit res" where
  "validate_artifact_link_envelope r =
     bindr (require (record_type r = ''artifact'') pd_error) (\<lambda>_.
     bindr (require (rec_schema_version r = 1) pd_error) (\<lambda>_.
     bindr (require (\<not> revision r < 1) pd_error) (\<lambda>_.
     bindr (require (rec_status r = ''active'') pd_error) (\<lambda>_.
     bindr (require (List.member ALLOWED_SENSITIVITY (sensitivity r)) pd_error) (\<lambda>_.
     bindr (pd_utc (created_at r)) (\<lambda>created.
     bindr (pd_utc (updated_at r)) (\<lambda>updated.
     not_before pd_error updated created)))))))"

definition artifact_link :: "repo \<Rightarrow> string \<Rightarrow> unit res" where
  "artifact_link s i =
     rescue (\<lambda>x. x = KeyError \<or> x = ArtifactValidationError \<or> x = ArtifactCorruptError \<or> x = pd_error) pd_error
       (bindr (get_record i s) (\<lambda>r.
        bindr (validate_artifact_link_envelope r) (\<lambda>_.
        bindr (artifact_get i s) (\<lambda>_. Inr ()))))"

definition policy_link :: "repo \<Rightarrow> string \<Rightarrow> unit res" where
  "policy_link s i =
     rescue (\<lambda>x. x = KeyError \<or> x = SettingsCorruptError \<or> x = pd_error) pd_error
       (bindr (get_record i s) (\<lambda>r.
        bindr (require (record_type r = ''policy'') pd_error) (\<lambda>_.
        bindr (policy_from_record r) (\<lambda>policy.
        require (i_status policy = ''active'') pd_error))))"

text \<open>The links of a record, in the order in which they are validated.\<close>

record links =
  l_project :: "string option"
  l_supersedes :: "string option"
  l_decisions :: "string list"
  l_memories :: "string list"
  l_artifacts :: "string list"
  l_policies :: "string list"

definition for_each :: "('a \<Rightarrow> unit res) \<Rightarrow> 'a list \<Rightarrow> unit res" where
  "for_each f xs = bindr (map_res f xs) (\<lambda>_. Inr ())"

definition validate_typed_links :: "links \<Rightarrow> repo \<Rightarrow> unit res" where
  "validate_typed_links l s =
     bindr (for_each (project_link s) (case l_project l of None \<Rightarrow> [] | Some i \<Rightarrow> [i])) (\<lambda>_.
     bindr (for_each (decision_link s) (case l_supersedes l of None \<Rightarrow> [] | Some i \<Rightarrow> [i])) (\<lambda>_.
     bindr (for_each (decision_link s) (l_decisions l)) (\<lambda>_.
     bindr (for_each (memory_link s) (l_memories l)) (\<lambda>_.
     bindr (for_each (artifact_link s) (l_artifacts l)) (\<lambda>_.
     for_each (policy_link s) (l_policies l))))))"

definition project_links :: "project_values \<Rightarrow> string list \<Rightarrow> links" where
  "project_links v policies = \<lparr>l_project = None, l_supersedes = None, l_decisions = pj_decisions v,
     l_memories = pj_memories v, l_artifacts = pj_artifacts v, l_policies = policies\<rparr>"

definition policy_links :: "string list \<Rightarrow> links" where
  "policy_links policies = \<lparr>l_project = None, l_supersedes = None, l_decisions = [],
     l_memories = [], l_artifacts = [], l_policies = policies\<rparr>"

definition decision_links :: "decision_values \<Rightarrow> links" where
  "decision_links v = \<lparr>l_project = dc_project v, l_supersedes = dc_supersedes v, l_decisions = [],
     l_memories = dc_memories v, l_artifacts = dc_artifacts v, l_policies = []\<rparr>"

definition charter_policies :: "charter_values option \<Rightarrow> string list" where
  "charter_policies c = (case c of None \<Rightarrow> [] | Some d \<Rightarrow> ch_policies d)"

definition project_from_record :: "RecordEnvelope \<Rightarrow> repo \<Rightarrow> ProjectInfo res" where
  "project_from_record r s =
     bindr (rescue is_malformed_pd ProjectDecisionCorruptError (
       bindr (project_parts r) (\<lambda>p.
       bindr (validate_typed_links (project_links (fst p) (charter_policies (snd p))) s) (\<lambda>_. Inr p))))
     (\<lambda>p. Inr (project_info r p))"

definition decision_from_record :: "RecordEnvelope \<Rightarrow> repo \<Rightarrow> DecisionInfo res" where
  "decision_from_record r s =
     bindr (rescue is_malformed_pd ProjectDecisionCorruptError (
       bindr (decision_parts r) (\<lambda>v.
       bindr (validate_typed_links (decision_links v) s) (\<lambda>_. Inr v))))
     (\<lambda>v. Inr (decision_info r v))"

definition project_get :: "string \<Rightarrow> repo \<Rightarrow> ProjectInfo res" where
  "project_get i s = bindr (require_pd_record i ''project'' s) (\<lambda>r. project_from_record r s)"

definition decision_get :: "string \<Rightarrow> repo \<Rightarrow> DecisionInfo res" where
  "decision_get i s = bindr (require_pd_record i ''decision'' s) (\<lambda>r. decision_from_record r s)"

definition list_record_ids :: "string \<Rightarrow> bool \<Rightarrow> int \<Rightarrow> repo \<Rightarrow> string list res" where
  "list_record_ids rtype include_archived limit s =
     bindr (require (\<not> (limit < 1 \<or> MAX_PROJECT_LIST_LIMIT < limit)) pd_error) (\<lambda>_.
     Inr (map rec_id (listed rtype include_archived limit s)))"

definition project_list :: "bool \<Rightarrow> int \<Rightarrow> repo \<Rightarrow> ProjectInfo list res" where
  "project_list include_archived limit s =
     bindr (list_record_ids ''project'' include_archived limit s) (map_res (\<lambda>i. project_get i s))"

definition decision_list :: "bool \<Rightarrow> int \<Rightarrow> repo \<Rightarrow> DecisionInfo list res" where
  "decision_list include_archived limit s =
     bindr (list_record_ids ''decision'' include_archived limit s) (map_res (\<lambda>i. decision_get i s))"


section \<open>Exports\<close>

definition project_payload :: "project_values \<Rightarrow> dict" where
  "project_payload v =
     [(''name'', JStr (pj_name v)), (''description'', JStr (pj_description v)), (''status'', JStr (pj_status v)),
      (''started_at'', JStr (pj_started_at v)), (''ended_at'', opt_json (pj_ended_at v)),
      (''decision_ids'', str_list (pj_decisions v)), (''memory_ids'', str_list (pj_memories v)),
      (''artifact_ids'', str_list (pj_artifacts v))]"

definition charter_payload :: "charter_values \<Rightarrow> dict" where
  "charter_payload c =
     [(''objective'', JStr (ch_objective c)), (''in_scope'', str_list (ch_in_scope c)),
      (''out_of_scope'', str_list (ch_out_of_scope c)),
      (''success_criteria'', str_list (ch_success_criteria c)),
      (''governing_policy_ids'', str_list (ch_policies c))]"

definition decision_payload :: "decision_values \<Rightarrow> dict" where
  "decision_payload v =
     [(''decision'', JStr (dc_decision v)), (''reason'', JStr (dc_reason v)), (''status'', JStr (dc_status v)),
      (''decided_at'', JStr (dc_decided_at v)), (''alternatives'', str_list (dc_alternatives v)),
      (''constraints'', str_list (dc_constraints v)), (''review_after'', opt_json (dc_review_after v)),
      (''supersedes_id'', opt_json (dc_supersedes v)), (''project_id'', opt_json (dc_project v)),
      (''memory_ids'', str_list (dc_memories v)), (''artifact_ids'', str_list (dc_artifacts v))]"

definition project_export_json :: "string \<Rightarrow> repo \<Rightarrow> string res" where
  "project_export_json i s =
     bindr (project_get i s) (\<lambda>project.
     bindr (require_exportable (i_sensitivity project)) (\<lambda>_.
     Inr (deterministic_json (JObj
       [(''export_schema'', JStr (''doll.project.v'' @ show_int (p_version project))),
        (''record'', JObj
          [(''id'', JStr (i_record_id project)), (''record_type'', JStr ''project''),
           (''schema_version'', JInt (p_version project)),
           (''created_at'', JStr (i_created_at project)), (''updated_at'', JStr (i_updated_at project)),
           (''revision'', JInt (i_revision project)), (''status'', JStr (i_status project)),
           (''provenance'', JStr (p_provenance project)), (''sensitivity'', JStr (i_sensitivity project)),
           (''title'', JStr (pj_name (project_values project))),
           (''project'', JObj (project_payload (project_values project) @
              (case charter project of None \<Rightarrow> [] | Some c \<Rightarrow> charter_payload c)))])]))))"

definition decision_export_json :: "string \<Rightarrow> repo \<Rightarrow> string res" where
  "decision_export_json i s =
     bindr (decision_get i s) (\<lambda>decision.
     bindr (require_exportable (i_sensitivity decision)) (\<lambda>_.
     Inr (deterministic_json (JObj
       [(''export_schema'', JStr ''doll.decision.v1''),
        (''record'', JObj
          [(''id'', JStr (i_record_id decision)), (''record_type'', JStr ''decision''), (''schema_version'', JInt 1),
           (''created_at'', JStr (i_created_at decision)), (''updated_at'', JStr (i_updated_at decision)),
           (''revision'', JInt (i_revision decision)), (''status'', JStr (i_status decision)),
           (''provenance'', JStr (d_provenance decision)), (''sensitivity'', JStr (i_sensitivity decision)),
           (''title'', JStr (dc_decision (decision_values decision))),
           (''decision'', JObj (decision_payload (decision_values decision)))])]))))"

section \<open>Writing\<close>

definition validated_project_values :: "project_values \<Rightarrow> repo \<Rightarrow> project_values res" where
  "validated_project_values v s =
     bindr (pd_text MAX_NAME_LENGTH (pj_name v)) (\<lambda>name.
     bindr (pd_text MAX_PROJECT_DESCRIPTION_LENGTH (pj_description v)) (\<lambda>description.
     bindr (validate_project_status (pj_status v)) (\<lambda>stat.
     bindr (pd_utc (pj_started_at v)) (\<lambda>started_at.
     bindr (opt_res pd_utc (pj_ended_at v)) (\<lambda>ended_at.
     bindr (opt_not_before ended_at started_at) (\<lambda>_.
     bindr (pd_ids (pj_decisions v)) (\<lambda>decisions.
     bindr (pd_ids (pj_memories v)) (\<lambda>memories.
     bindr (pd_ids (pj_artifacts v)) (\<lambda>artifacts.
     let w = \<lparr>pj_name = name, pj_description = description, pj_status = stat, pj_started_at = started_at,
              pj_ended_at = ended_at, pj_decisions = decisions, pj_memories = memories, pj_artifacts = artifacts\<rparr> in
     bindr (validate_typed_links (project_links w []) s) (\<lambda>_. Inr w))))))))))"

definition validated_project_v2_values ::
  "project_values \<Rightarrow> charter_values \<Rightarrow> repo \<Rightarrow> (project_values \<times> charter_values) res" where
  "validated_project_v2_values v c s =
     bindr (validated_project_values v s) (\<lambda>w.
     bindr (pd_text MAX_PROJECT_DESCRIPTION_LENGTH (ch_objective c)) (\<lambda>objective.
     bindr (pd_items (ch_in_scope c)) (\<lambda>in_scope.
     bindr (pd_items (ch_out_of_scope c)) (\<lambda>out_of_scope.
     bindr (pd_items (ch_success_criteria c)) (\<lambda>success_criteria.
     bindr (pd_ids (ch_policies c)) (\<lambda>policies.
     bindr (validate_typed_links (policy_links policies) s) (\<lambda>_.
     Inr (w, \<lparr>ch_objective = objective, ch_in_scope = in_scope, ch_out_of_scope = out_of_scope,
              ch_success_criteria = success_criteria, ch_policies = policies\<rparr>))))))))"

definition validated_decision_values :: "decision_values \<Rightarrow> string option \<Rightarrow> repo \<Rightarrow> decision_values res" where
  "validated_decision_values v self_id s =
     bindr (pd_text MAX_DECISION_LENGTH (dc_decision v)) (\<lambda>decision.
     bindr (pd_text MAX_REASON_LENGTH (dc_reason v)) (\<lambda>reason.
     bindr (validate_decision_status (dc_status v)) (\<lambda>stat.
     bindr (pd_utc (dc_decided_at v)) (\<lambda>decided_at.
     bindr (opt_res pd_utc (dc_review_after v)) (\<lambda>review_after.
     bindr (opt_not_before review_after decided_at) (\<lambda>_.
     bindr (pd_items (dc_alternatives v)) (\<lambda>alternatives.
     bindr (pd_items (dc_constraints v)) (\<lambda>constraints.
     bindr (pd_opt_id (dc_supersedes v)) (\<lambda>supersedes.
     bindr (pd_opt_id (dc_project v)) (\<lambda>project.
     bindr (pd_ids (dc_memories v)) (\<lambda>memories.
     bindr (pd_ids (dc_artifacts v)) (\<lambda>artifacts.
     bindr (require (\<not> (self_id \<noteq> None \<and> supersedes = self_id)) pd_error) (\<lambda>_.
     let w = \<lparr>dc_decision = decision, dc_reason = reason, dc_status = stat, dc_decided_at = decided_at,
              dc_alternatives = alternatives, dc_constraints = constraints, dc_review_after = review_after,
              dc_supersedes = supersedes, dc_project = project, dc_memories = memories, dc_artifacts = artifacts\<rparr> in
     bindr (validate_typed_links (decision_links w) s) (\<lambda>_. Inr w))))))))))))))"

definition pd_audit :: "string \<Rightarrow> dict \<Rightarrow> string \<Rightarrow> dict res" where
  "pd_audit rtype m sens =
     bindr (req_str pd_error m ''status'') (\<lambda>stat.
     bindr (meta_list pd_error m ''memory_ids'') (\<lambda>memories.
     bindr (meta_list pd_error m ''artifact_ids'') (\<lambda>artifacts.
     let base = [(''record_type'', JStr rtype), (''domain_status'', JStr stat), (''sensitivity'', JStr sens),
                 (''memory_count'', JInt (int (length memories))), (''artifact_count'', JInt (int (length artifacts)))] in
     if rtype = ''project'' then
       bindr (meta_list pd_error m ''decision_ids'') (\<lambda>decisions.
       Inr (base @ [(''decision_count'', JInt (int (length decisions))), (''has_ended_at'', JBool (present m ''ended_at''))]))
     else Inr (base @ [(''has_project'', JBool (present m ''project_id'')),
                       (''has_supersedes'', JBool (present m ''supersedes_id'')),
                       (''has_review_after'', JBool (present m ''review_after''))]))))"

definition pd_summary :: "string \<Rightarrow> string" where
  "pd_summary rtype = ''Changed authoritative '' @ rtype @ '' record''"

definition pd_create_record ::
  "env \<Rightarrow> string \<Rightarrow> string \<Rightarrow> dict \<Rightarrow> string \<Rightarrow> string \<Rightarrow> string option \<Rightarrow> string \<Rightarrow> int \<Rightarrow> (repo, string) op" where
  "pd_create_record e rtype ttl m prov sens op act version =
     store_create e
       \<lparr>dr_id = new_uuid e, dr_type = rtype, dr_version = version, dr_prov = prov, dr_sens = sens,
        dr_title = ttl, dr_meta = m\<rparr>
       op ''user'' act (pd_summary rtype) (pd_audit rtype m sens)"

definition pd_update_record ::
  "env \<Rightarrow> RecordEnvelope \<Rightarrow> int \<Rightarrow> string \<Rightarrow> dict \<Rightarrow> string \<Rightarrow> string \<Rightarrow> string option \<Rightarrow> string \<Rightarrow> int option \<Rightarrow> (repo, unit) op" where
  "pd_update_record e current expected ttl m stat prov op act version =
     store_update e pd_error current expected
       \<lparr>rv_version = Some (case version of None \<Rightarrow> rec_schema_version current | Some n \<Rightarrow> n), rv_status = stat,
        rv_prov = prov, rv_title = ttl, rv_meta = m\<rparr>
       op (Inr ()) ''user'' act (pd_summary (record_type current)) (pd_audit (record_type current) m (sensitivity current))"

definition project_create ::
  "env \<Rightarrow> project_values \<Rightarrow> string \<Rightarrow> string option \<Rightarrow> string \<Rightarrow> (repo, ProjectInfo) op" where
  "project_create e v sens op actor =
     bind_op (lift_op (\<lambda>s. bindr (require_user_actor actor) (\<lambda>_. validated_project_values v s))) (\<lambda>w.
     bind_op (pd_create_record e ''project'' (pj_name w) (project_payload w) ''user-created'' sens op ''project.create'' 1)
       (\<lambda>i. lift_op (project_get i)))"

definition project_create_v2 ::
  "env \<Rightarrow> project_values \<Rightarrow> charter_values \<Rightarrow> string \<Rightarrow> string option \<Rightarrow> string \<Rightarrow> (repo, ProjectInfo) op" where
  "project_create_v2 e v c sens op actor =
     bind_op (lift_op (\<lambda>s. bindr (require_user_actor actor) (\<lambda>_. validated_project_v2_values v c s))) (\<lambda>(w, d).
     bind_op (pd_create_record e ''project'' (pj_name w) (project_payload w @ charter_payload d) ''user-created'' sens op
                ''project.create_v2'' 2)
       (\<lambda>i. lift_op (project_get i)))"

definition current_project :: "string \<Rightarrow> string \<Rightarrow> repo \<Rightarrow> (RecordEnvelope \<times> ProjectInfo) res" where
  "current_project i actor s =
     bindr (require_user_actor actor) (\<lambda>_.
     bindr (require_pd_record i ''project'' s) (\<lambda>r.
     bindr (project_from_record r s) (\<lambda>current.
     bindr (pd_require_active (i_status current)) (\<lambda>_. Inr (r, current)))))"

definition project_update ::
  "env \<Rightarrow> string \<Rightarrow> int \<Rightarrow> project_values \<Rightarrow> string option \<Rightarrow> string \<Rightarrow> (repo, ProjectInfo) op" where
  "project_update e i expected v op actor =
     bind_op (lift_op (\<lambda>s.
       bindr (current_project i actor s) (\<lambda>(r, current).
       bindr (require (p_version current = 1) pd_error) (\<lambda>_.
       bindr (validated_project_values v s) (\<lambda>w. Inr (r, w)))))) (\<lambda>(r, w).
     bind_op (pd_update_record e r expected (pj_name w) (project_payload w) ''active'' ''user-created'' op ''project.update'' None)
       (\<lambda>_. lift_op (project_get i)))"

definition project_update_v2 ::
  "env \<Rightarrow> string \<Rightarrow> int \<Rightarrow> project_values \<Rightarrow> charter_values \<Rightarrow> string option \<Rightarrow> string \<Rightarrow> (repo, ProjectInfo) op" where
  "project_update_v2 e i expected v c op actor =
     bind_op (lift_op (\<lambda>s.
       bindr (current_project i actor s) (\<lambda>(r, current).
       bindr (validated_project_v2_values v c s) (\<lambda>w. Inr (r, w))))) (\<lambda>(r, w, d).
     bind_op (pd_update_record e r expected (pj_name w) (project_payload w @ charter_payload d) ''active'' ''user-created'' op
                ''project.update_v2'' (Some 2))
       (\<lambda>_. lift_op (project_get i)))"

definition project_archive ::
  "env \<Rightarrow> string \<Rightarrow> int \<Rightarrow> string option \<Rightarrow> string \<Rightarrow> (repo, ProjectInfo) op" where
  "project_archive e i expected op actor =
     bind_op (lift_op (current_project i actor)) (\<lambda>(r, current).
     bind_op (pd_update_record e r expected (pj_name (project_values current)) (metadata r) ''archived'' ''user-created'' op
                ''project.archive'' None)
       (\<lambda>_. lift_op (project_get i)))"

definition decision_create ::
  "env \<Rightarrow> decision_values \<Rightarrow> string \<Rightarrow> string option \<Rightarrow> string \<Rightarrow> (repo, DecisionInfo) op" where
  "decision_create e v sens op actor =
     bind_op (lift_op (\<lambda>s. bindr (require_user_actor actor) (\<lambda>_. validated_decision_values v None s))) (\<lambda>w.
     bind_op (pd_create_record e ''decision'' (dc_decision w) (decision_payload w) ''user-confirmed'' sens op ''decision.create'' 1)
       (\<lambda>i. lift_op (decision_get i)))"

definition current_decision :: "string \<Rightarrow> string \<Rightarrow> repo \<Rightarrow> (RecordEnvelope \<times> DecisionInfo) res" where
  "current_decision i actor s =
     bindr (require_user_actor actor) (\<lambda>_.
     bindr (require_pd_record i ''decision'' s) (\<lambda>r.
     bindr (decision_from_record r s) (\<lambda>current.
     bindr (pd_require_active (i_status current)) (\<lambda>_. Inr (r, current)))))"

definition decision_update ::
  "env \<Rightarrow> string \<Rightarrow> int \<Rightarrow> decision_values \<Rightarrow> string option \<Rightarrow> string \<Rightarrow> (repo, DecisionInfo) op" where
  "decision_update e i expected v op actor =
     bind_op (lift_op (\<lambda>s.
       bindr (current_decision i actor s) (\<lambda>(r, current).
       bindr (validated_decision_values v (Some i) s) (\<lambda>w. Inr (r, w))))) (\<lambda>(r, w).
     bind_op (pd_update_record e r expected (dc_decision w) (decision_payload w) ''active'' ''user-confirmed'' op ''decision.update'' None)
       (\<lambda>_. lift_op (decision_get i)))"

definition decision_archive ::
  "env \<Rightarrow> string \<Rightarrow> int \<Rightarrow> string option \<Rightarrow> string \<Rightarrow> (repo, DecisionInfo) op" where
  "decision_archive e i expected op actor =
     bind_op (lift_op (current_decision i actor)) (\<lambda>(r, current).
     bind_op (pd_update_record e r expected (dc_decision (decision_values current)) (metadata r) ''archived'' ''user-confirmed'' op
                ''decision.archive'' None)
       (\<lambda>_. lift_op (decision_get i)))"


section \<open>Links depend on the linked records only\<close>

definition link_ids :: "links \<Rightarrow> string list" where
  "link_ids l = (case l_project l of None \<Rightarrow> [] | Some i \<Rightarrow> [i]) @ (case l_supersedes l of None \<Rightarrow> [] | Some i \<Rightarrow> [i]) @
     l_decisions l @ l_memories l @ l_artifacts l @ l_policies l"

lemma map_res_cong [fundef_cong]: "xs = ys \<Longrightarrow> (\<And>x. x \<in> set ys \<Longrightarrow> f x = g x) \<Longrightarrow> map_res f xs = map_res g ys"
  by (induction xs arbitrary: ys) auto

lemma for_each_cong: "(\<And>x. x \<in> set xs \<Longrightarrow> f x = g x) \<Longrightarrow> for_each f xs = for_each g xs"
  by (simp add: for_each_def cong: map_res_cong)

lemma for_each_eq [simp]: "for_each f xs = Inr () \<longleftrightarrow> (\<forall>x \<in> set xs. f x = Inr ())"
  by (induction xs) (auto simp: for_each_def)

lemma link_cong:
  assumes "get_record j t = get_record j s"
  shows "project_link t j = project_link s j" "decision_link t j = decision_link s j" "memory_link t j = memory_link s j"
    "artifact_link t j = artifact_link s j" "policy_link t j = policy_link s j"
  using assms
  by (simp_all add: project_link_def decision_link_def memory_link_def artifact_link_def policy_link_def
      require_pd_record_def memory_get_def require_memory_record_def artifact_get_def)

lemma validate_links_cong:
  assumes "\<forall>j \<in> set (link_ids l). get_record j t = get_record j s"
  shows "validate_typed_links l t = validate_typed_links l s"
proof -
  have same: "for_each (f t) is = for_each (f s) is"
    if "set is \<subseteq> set (link_ids l)" "\<And>j. get_record j t = get_record j s \<Longrightarrow> f t j = f s j"
    for f :: "repo \<Rightarrow> string \<Rightarrow> unit res" and "is"
    using that assms by (intro for_each_cong) blast
  have "for_each (project_link t) (case l_project l of None \<Rightarrow> [] | Some i \<Rightarrow> [i]) =
      for_each (project_link s) (case l_project l of None \<Rightarrow> [] | Some i \<Rightarrow> [i])"
    "for_each (decision_link t) (case l_supersedes l of None \<Rightarrow> [] | Some i \<Rightarrow> [i]) =
      for_each (decision_link s) (case l_supersedes l of None \<Rightarrow> [] | Some i \<Rightarrow> [i])"
    "for_each (decision_link t) (l_decisions l) = for_each (decision_link s) (l_decisions l)"
    "for_each (memory_link t) (l_memories l) = for_each (memory_link s) (l_memories l)"
    "for_each (artifact_link t) (l_artifacts l) = for_each (artifact_link s) (l_artifacts l)"
    "for_each (policy_link t) (l_policies l) = for_each (policy_link s) (l_policies l)"
    by ((rule same; (erule link_cong)?), force simp: link_ids_def)+
  then show ?thesis by (simp only: validate_typed_links_def)
qed

lemma link_target:
  "project_link s j = Inr () \<Longrightarrow> \<exists>r. get_record j s = Inr r \<and> record_type r = ''project''"
  "decision_link s j = Inr () \<Longrightarrow> \<exists>r. get_record j s = Inr r \<and> record_type r = ''decision''"
  "memory_link s j = Inr () \<Longrightarrow> \<exists>r. get_record j s = Inr r \<and> record_type r = ''memory''"
  "artifact_link s j = Inr () \<Longrightarrow> \<exists>r. get_record j s = Inr r \<and> record_type r = ''artifact''"
  "policy_link s j = Inr () \<Longrightarrow> \<exists>r. get_record j s = Inr r \<and> record_type r = ''policy''"
  by (auto simp: project_link_def decision_link_def memory_link_def artifact_link_def policy_link_def
      require_pd_record_def memory_get_def require_memory_record_def artifact_get_def)

lemma validate_typed_links_eq:
  "validate_typed_links l s = Inr () \<longleftrightarrow>
     (\<forall>i. l_project l = Some i \<longrightarrow> project_link s i = Inr ()) \<and> (\<forall>i. l_supersedes l = Some i \<longrightarrow> decision_link s i = Inr ()) \<and>
     (\<forall>i \<in> set (l_decisions l). decision_link s i = Inr ()) \<and> (\<forall>i \<in> set (l_memories l). memory_link s i = Inr ()) \<and>
     (\<forall>i \<in> set (l_artifacts l). artifact_link s i = Inr ()) \<and> (\<forall>i \<in> set (l_policies l). policy_link s i = Inr ())"
  by (auto simp: validate_typed_links_def split: option.splits)

lemma link_ids_cases:
  assumes "j \<in> set (link_ids l)"
  obtains "l_project l = Some j" | "l_supersedes l = Some j" | "j \<in> set (l_decisions l)" | "j \<in> set (l_memories l)"
    | "j \<in> set (l_artifacts l)" | "j \<in> set (l_policies l)"
  using assms by (auto simp: link_ids_def split: option.splits)

lemma links_target:
  assumes "validate_typed_links l s = Inr ()" "j \<in> set (link_ids l)"
  shows "\<exists>r. get_record j s = Inr r \<and> (record_type r = ''project'' \<longrightarrow> l_project l = Some j) \<and>
    (record_type r = ''decision'' \<longrightarrow> l_supersedes l = Some j \<or> j \<in> set (l_decisions l)) \<and>
    record_type r \<in> {''project'', ''decision'', ''memory'', ''artifact'', ''policy''}"
  using assms(2)
proof (cases rule: link_ids_cases)
  case 1
  then show ?thesis using assms(1) link_target(1) [of s j] by (auto simp: validate_typed_links_eq)
next
  case 2
  then show ?thesis using assms(1) link_target(2) [of s j] by (auto simp: validate_typed_links_eq)
next
  case 3
  then show ?thesis using assms(1) link_target(2) [of s j] by (auto simp: validate_typed_links_eq)
next
  case 4
  then show ?thesis using assms(1) link_target(3) [of s j] by (auto simp: validate_typed_links_eq)
next
  case 5
  then show ?thesis using assms(1) link_target(4) [of s j] by (auto simp: validate_typed_links_eq)
next
  case 6
  then show ?thesis using assms(1) link_target(5) [of s j] by (auto simp: validate_typed_links_eq)
qed

lemma validate_links_create:
  assumes "validate_typed_links l s = Inr ()" "created e d actor s t"
  shows "validate_typed_links l t = Inr ()"
proof -
  have "get_record j t = get_record j s" if "j \<in> set (link_ids l)" for j
  proof -
    have "j \<noteq> dr_id d" using links_target [OF assms(1) that] assms(2) by (auto simp: created_def get_record_def)
    then show ?thesis using created_get [OF assms(2)] by blast
  qed
  then show ?thesis using validate_links_cong [of l t s] assms(1) by simp
qed

lemma validate_links_others:
  assumes "validate_typed_links l s = Inr ()" "others_same i s t" "i \<notin> set (link_ids l)"
  shows "validate_typed_links l t = Inr ()"
  using validate_links_cong [of l t s] assms others_same_get by metis

end
