(* ===== verification/Project_Laws.thy ===== *)
theory Project_Laws
  imports Project_State
begin

text \<open>
  What the project and decision services guarantee: stored values are normal forms that are read
  back unchanged, both readers meet the contract of a record reader, and a service call either
  raises without any change or returns what a read returns. The last section shows how a project
  becomes unreadable through a change of a record that it links.
\<close>

section \<open>Stored values are normal forms\<close>

interpretation project_status: normalizer validate_project_status
  by unfold_locales (auto simp: validate_project_status_def)

interpretation decision_status: normalizer validate_decision_status
  by unfold_locales (auto simp: validate_decision_status_def)

definition project_normal :: "project_values \<Rightarrow> bool" where
  "project_normal v \<longleftrightarrow>
     pd_text MAX_NAME_LENGTH (pj_name v) = Inr (pj_name v) \<and>
     pd_text MAX_PROJECT_DESCRIPTION_LENGTH (pj_description v) = Inr (pj_description v) \<and>
     validate_project_status (pj_status v) = Inr (pj_status v) \<and>
     pd_utc (pj_started_at v) = Inr (pj_started_at v) \<and> opt_res pd_utc (pj_ended_at v) = Inr (pj_ended_at v) \<and>
     opt_not_before (pj_ended_at v) (pj_started_at v) = Inr () \<and>
     pd_ids (pj_decisions v) = Inr (pj_decisions v) \<and> pd_ids (pj_memories v) = Inr (pj_memories v) \<and>
     pd_ids (pj_artifacts v) = Inr (pj_artifacts v)"

definition charter_normal :: "charter_values \<Rightarrow> bool" where
  "charter_normal c \<longleftrightarrow>
     pd_text MAX_PROJECT_DESCRIPTION_LENGTH (ch_objective c) = Inr (ch_objective c) \<and>
     pd_items (ch_in_scope c) = Inr (ch_in_scope c) \<and> pd_items (ch_out_of_scope c) = Inr (ch_out_of_scope c) \<and>
     pd_items (ch_success_criteria c) = Inr (ch_success_criteria c) \<and> pd_ids (ch_policies c) = Inr (ch_policies c)"

definition decision_normal :: "decision_values \<Rightarrow> bool" where
  "decision_normal v \<longleftrightarrow>
     pd_text MAX_DECISION_LENGTH (dc_decision v) = Inr (dc_decision v) \<and>
     pd_text MAX_REASON_LENGTH (dc_reason v) = Inr (dc_reason v) \<and>
     validate_decision_status (dc_status v) = Inr (dc_status v) \<and>
     pd_utc (dc_decided_at v) = Inr (dc_decided_at v) \<and> opt_res pd_utc (dc_review_after v) = Inr (dc_review_after v) \<and>
     opt_not_before (dc_review_after v) (dc_decided_at v) = Inr () \<and>
     pd_items (dc_alternatives v) = Inr (dc_alternatives v) \<and> pd_items (dc_constraints v) = Inr (dc_constraints v) \<and>
     pd_opt_id (dc_supersedes v) = Inr (dc_supersedes v) \<and> pd_opt_id (dc_project v) = Inr (dc_project v) \<and>
     pd_ids (dc_memories v) = Inr (dc_memories v) \<and> pd_ids (dc_artifacts v) = Inr (dc_artifacts v)"

lemmas pd_idem = field_text.norm_idem project_status.norm_idem decision_status.norm_idem ref_ids.norm_idem
  text_items.norm_idem ref_id.norm_opt_idem meta_ids_idem

lemma validated_project_normal:
  "validated_project_values v s = Inr w \<Longrightarrow> project_normal w \<and> validate_typed_links (project_links w []) s = Inr ()"
  unfolding validated_project_values_def project_normal_def Let_def by (auto intro: pd_idem)

lemma validated_project_v2_normal:
  "validated_project_v2_values v c s = Inr (w, d) \<Longrightarrow> project_normal w \<and> charter_normal d \<and>
     validate_typed_links (project_links w (ch_policies d)) s = Inr ()"
  unfolding validated_project_v2_values_def charter_normal_def
  by (auto intro: pd_idem dest!: validated_project_normal simp: validate_typed_links_eq project_links_def policy_links_def)

lemma validated_decision_normal:
  "validated_decision_values v sid s = Inr w \<Longrightarrow> decision_normal w \<and> (sid = None \<or> dc_supersedes w \<noteq> sid) \<and>
     validate_typed_links (decision_links w) s = Inr ()"
  unfolding validated_decision_values_def decision_normal_def Let_def by (auto intro: pd_idem)

lemma project_fields_normal: "project_fields m ttl = Inr v \<Longrightarrow> project_normal v \<and> ttl = Some (pj_name v)"
  unfolding project_fields_def project_normal_def by (auto intro: pd_idem)

lemma decision_fields_normal: "decision_fields m ttl = Inr v \<Longrightarrow> decision_normal v \<and> ttl = Some (dc_decision v)"
  unfolding decision_fields_def decision_normal_def by (auto intro: pd_idem)

lemma uuid_nonempty: "uuid v \<noteq> Some []"
  by (auto simp: uuid_def uuid_text_def Let_def split: option.splits if_splits)

lemma pd_opt_id_nonempty: "pd_opt_id v = Inr v \<Longrightarrow> v \<noteq> Some []"
  using uuid_nonempty by (auto simp: opt_res_def ref_id_def)

lemma opt_utc_nonempty: "opt_res pd_utc v = Inr v \<Longrightarrow> v \<noteq> Some []"
  using is_utc_nonempty by auto

lemma project_fields_back:
  assumes "project_normal v" "stored m (project_payload v)"
  shows "project_fields m (Some (pj_name v)) = Inr v"
proof -
  have "pj_name v \<noteq> []" "pj_description v \<noteq> []" "pj_status v \<noteq> []" "pj_started_at v \<noteq> []" "pj_ended_at v \<noteq> Some []"
    using assms(1) field_text_nonempty is_utc_nonempty opt_utc_nonempty
    by (auto simp: project_normal_def validate_project_status_def PROJECT_STATUSES_def)
  then show ?thesis
    using assms by (simp add: project_fields_def project_normal_def project_payload_def stored_Cons del: opt_utc_eq)
qed

lemma charter_fields_back:
  assumes "charter_normal c" "stored m (charter_payload c)"
  shows "charter_fields m = Inr c"
proof -
  have "ch_objective c \<noteq> []" using assms(1) field_text_nonempty by (auto simp: charter_normal_def)
  then show ?thesis using assms by (simp add: charter_fields_def charter_normal_def charter_payload_def stored_Cons)
qed

lemma decision_fields_back:
  assumes "decision_normal v" "stored m (decision_payload v)"
  shows "decision_fields m (Some (dc_decision v)) = Inr v"
proof -
  have "dc_decision v \<noteq> []" "dc_reason v \<noteq> []" "dc_status v \<noteq> []" "dc_decided_at v \<noteq> []" "dc_review_after v \<noteq> Some []"
    "dc_supersedes v \<noteq> Some []" "dc_project v \<noteq> Some []"
    using assms(1) field_text_nonempty is_utc_nonempty opt_utc_nonempty pd_opt_id_nonempty
    by (auto simp: decision_normal_def validate_decision_status_def DECISION_STATUSES_def)
  then show ?thesis
    using assms by (simp add: decision_fields_def decision_normal_def decision_payload_def stored_Cons del: opt_utc_eq)
qed

lemma payload_stored:
  "stored (canon_dict (project_payload v)) (project_payload v)"
  "stored (canon_dict (project_payload v @ charter_payload c)) (project_payload v @ charter_payload c)"
  "stored (canon_dict (decision_payload d)) (decision_payload d)"
  by (rule stored_canon; simp add: project_payload_def charter_payload_def decision_payload_def)+

section \<open>The readers meet the contract\<close>

lemma envelope_touched:
  assumes "validate_envelope r rtype prov = Inr ()" "is_utc now" "ts_le (created_at r) now"
  shows "validate_envelope (touched now prov r) rtype prov = Inr ()"
  using assms by (auto simp: validate_envelope_def touched_def not_before_eq)

lemma project_from_record_eq:
  "project_from_record r s = Inr i \<longleftrightarrow> (\<exists>p. project_parts r = Inr p \<and>
     validate_typed_links (project_links (fst p) (charter_policies (snd p))) s = Inr () \<and> i = project_info r p)"
  by (auto simp: project_from_record_def)

lemma decision_from_record_eq:
  "decision_from_record r s = Inr i \<longleftrightarrow> (\<exists>v. decision_parts r = Inr v \<and>
     validate_typed_links (decision_links v) s = Inr () \<and> i = decision_info r v)"
  by (auto simp: decision_from_record_def)

lemma project_parts_touched:
  assumes "project_parts r = Inr p" "is_utc now" "ts_le (created_at r) now"
  shows "project_parts (touched now ''user-created'' r) = Inr p"
  using assms envelope_touched [of r "''project''" "''user-created''" now]
  by (auto simp: project_parts_def) (simp_all add: touched_def)

lemma decision_parts_touched:
  assumes "decision_parts r = Inr v" "is_utc now" "ts_le (created_at r) now"
  shows "decision_parts (touched now ''user-confirmed'' r) = Inr v"
  using assms envelope_touched [of r "''decision''" "''user-confirmed''" now]
  by (auto simp: decision_parts_def) (simp_all add: touched_def)


lemma project_self_free:
  assumes "validate_typed_links (project_links v ps) s = Inr ()" "get_record i s = Inr q" "record_type q = ''project''"
  shows "i \<notin> set (link_ids (project_links v ps))"
  using links_target [OF assms(1), of i] assms(2,3) by (auto simp: project_links_def)

lemma decision_self_free:
  assumes "validate_typed_links (decision_links v) s = Inr ()" "get_record i s = Inr q" "record_type q = ''decision''"
    and "dc_supersedes v \<noteq> Some i"
  shows "i \<notin> set (link_ids (decision_links v))"
  using links_target [OF assms(1), of i] assms(2-4) by (auto simp: decision_links_def)

lemma project_parts_title: "project_parts r = Inr p \<Longrightarrow> rec_title r = Some (pj_name (fst p)) \<and> record_type r = ''project'' \<and>
    provenance r = ''user-created''"
  by (auto simp: project_parts_def validate_envelope_def dest: project_fields_normal)

lemma decision_parts_title: "decision_parts r = Inr v \<Longrightarrow> rec_title r = Some (dc_decision v) \<and> record_type r = ''decision'' \<and>
    provenance r = ''user-confirmed'' \<and> dc_supersedes v \<noteq> Some (rec_id r)"
  by (auto simp: decision_parts_def validate_envelope_def dest: decision_fields_normal)

interpretation project: record_reader project_from_record "\<lambda>r. ''user-created''"
proof
  fix r :: RecordEnvelope and s t :: repo and v now q
  assume v: "project_from_record r s = Inr v"
  then obtain p where p: "project_parts r = Inr p" "v = project_info r p"
    "validate_typed_links (project_links (fst p) (charter_policies (snd p))) s = Inr ()"
    by (auto simp: project_from_record_eq)
  note ttl = project_parts_title [OF p(1)]
  show "\<exists>t. rec_title r = Some t" using ttl by blast
  show "''user-created'' \<in> set ALLOWED_PROVENANCE" by (simp add: ALLOWED_PROVENANCE_def)
  { assume "is_utc now" "ts_le (created_at r) now"
    then show "\<exists>w. project_from_record (touched now ''user-created'' r) s = Inr w"
      using project_parts_touched [OF p(1)] p(3) by (auto simp: project_from_record_eq) }
  { assume "get_record (rec_id r) s = Inr q" "record_type q = record_type r" "others_same (rec_id r) s t"
    then show "project_from_record r t = Inr v"
      using p ttl project_self_free [OF p(3)] validate_links_others [OF p(3)] by (auto simp: project_from_record_eq) }
qed

interpretation decision: record_reader decision_from_record "\<lambda>r. ''user-confirmed''"
proof
  fix r :: RecordEnvelope and s t :: repo and v now q
  assume v: "decision_from_record r s = Inr v"
  then obtain p where p: "decision_parts r = Inr p" "v = decision_info r p"
    "validate_typed_links (decision_links p) s = Inr ()"
    by (auto simp: decision_from_record_eq)
  note ttl = decision_parts_title [OF p(1)]
  show "\<exists>t. rec_title r = Some t" using ttl by blast
  show "''user-confirmed'' \<in> set ALLOWED_PROVENANCE" by (simp add: ALLOWED_PROVENANCE_def)
  { assume "is_utc now" "ts_le (created_at r) now"
    then show "\<exists>w. decision_from_record (touched now ''user-confirmed'' r) s = Inr w"
      using decision_parts_touched [OF p(1)] p(3) by (auto simp: decision_from_record_eq) }
  { assume "get_record (rec_id r) s = Inr q" "record_type q = record_type r" "others_same (rec_id r) s t"
    then show "decision_from_record r t = Inr v"
      using p ttl decision_self_free [OF p(3)] validate_links_others [OF p(3)] by (auto simp: decision_from_record_eq) }
qed

section \<open>A call raises or returns what a read returns\<close>

text \<open>The two shapes of a service call: validation, then the transaction, then a read.\<close>

lemma create_call:
  assumes "repo_ok s" "bind_op (lift_op prep) (\<lambda>w. bind_op (pd_create_record e rtype (ttl w) (m w) prov sens op act version)
      (\<lambda>i. lift_op (get i))) s = (res, t)"
  shows "(isl res \<and> t = s) \<or> (\<exists>w. prep s = Inr w \<and> res = get (new_uuid e) t \<and>
     created e \<lparr>dr_id = new_uuid e, dr_type = rtype, dr_version = version, dr_prov = prov, dr_sens = sens,
        dr_title = ttl w, dr_meta = m w\<rparr> ''user'' s t)"
  using store_create_call [OF assms(1) assms(2) [unfolded pd_create_record_def]] by simp

lemma update_call:
  assumes "repo_ok s" "bind_op (lift_op prep) (\<lambda>w. bind_op (pd_update_record e (cur w) expected (ttl w) (m w) stat prov op act version)
      (\<lambda>_. lift_op get)) s = (res, t)"
    and "stat \<in> set ALLOWED_STATUSES" "prov \<in> set ALLOWED_PROVENANCE" "\<forall>n. version = Some n \<longrightarrow> 1 \<le> n"
    and "\<forall>w. prep s = Inr w \<longrightarrow> 1 \<le> rec_schema_version (cur w)"
  shows "(isl res \<and> t = s) \<or> (\<exists>w row. prep s = Inr w \<and> res = get t \<and>
     changed e (rec_id (cur w)) expected
       \<lparr>rv_version = Some (case version of None \<Rightarrow> rec_schema_version (cur w) | Some n \<Rightarrow> n), rv_status = stat,
        rv_prov = prov, rv_title = ttl w, rv_meta = m w\<rparr> ''user'' (record_type (cur w)) row s t)"
  by (rule store_update_call [OF assms(1) assms(2) [unfolded pd_update_record_def]])
    (use assms(3-6) in \<open>auto simp: revising_ok_def split: option.splits\<close>)

lemma envelope_new:
  assumes "draft_ok d" "is_utc (utc_now e)"
    and "dr_version d \<in> set (if dr_type d = ''project'' then SUPPORTED_PROJECT_SCHEMA_VERSIONS else [1])"
  shows "validate_envelope (with_metadata (draft_row e d j) m) (dr_type d) (dr_prov d) = Inr ()"
  using assms ts_le_refl by (simp add: validate_envelope_def draft_row_def draft_ok_def not_before_eq)

lemma envelope_revised:
  assumes "validate_envelope r rtype prov = Inr ()" "is_utc (utc_now e)" "ts_le (created_at r) (utc_now e)"
    and "rv_version v = Some n" "n \<in> set (if rtype = ''project'' then SUPPORTED_PROJECT_SCHEMA_VERSIONS else [1])"
    and "rv_status v = ''active''" "rv_prov v = prov"
  shows "validate_envelope (revised_env e v r) rtype prov = Inr ()"
  using assms by (auto simp: validate_envelope_def revised_env_def not_before_eq)

abbreviation returned :: "(string \<Rightarrow> repo \<Rightarrow> 'i res) \<Rightarrow> env \<Rightarrow> string \<Rightarrow> string \<Rightarrow> 'i res \<Rightarrow> repo \<Rightarrow> repo \<Rightarrow> bool" where
  "returned get e rtype i res s t \<equiv> \<not> isl res \<and> get i t = res \<and> audited e ''user'' rtype i s t"

lemma project_written:
  assumes "get_record i t = Inr r" "project_parts r = Inr p"
    and "validate_typed_links (project_links (fst p) (charter_policies (snd p))) t = Inr ()"
  shows "project_get i t = Inr (project_info r p)"
  using assms project_parts_title [OF assms(2)]
  by (simp add: project_get_def require_pd_record_def project_from_record_def)

lemma decision_written:
  assumes "get_record i t = Inr r" "decision_parts r = Inr v" "validate_typed_links (decision_links v) t = Inr ()"
  shows "decision_get i t = Inr (decision_info r v)"
  using assms decision_parts_title [OF assms(2)]
  by (simp add: decision_get_def require_pd_record_def decision_from_record_def)

lemma project_create_result:
  assumes "repo_ok s" "is_utc (utc_now e)" "project_create e v sens op actor s = (res, t)"
  shows "(isl res \<and> t = s) \<or> returned project_get e ''project'' (new_uuid e) res s t"
  using create_call [OF assms(1) assms(3) [unfolded project_create_def]]
proof (elim disjE exE conjE)
  fix w assume w: "bindr (require_user_actor actor) (\<lambda>_. validated_project_values v s) = Inr w" "res = project_get (new_uuid e) t"
    and c: "created e \<lparr>dr_id = new_uuid e, dr_type = ''project'', dr_version = 1, dr_prov = ''user-created'', dr_sens = sens,
        dr_title = pj_name w, dr_meta = project_payload w\<rparr> ''user'' s t" (is "created e ?d _ _ _")
  let ?r = "with_metadata (drafted e ?d) (canon_dict (project_payload w))"
  have n: "project_normal w" "validate_typed_links (project_links w []) s = Inr ()"
    using w(1) validated_project_normal by auto
  have g: "get_record (new_uuid e) t = Inr ?r" using created_get [OF c] by simp
  have "validate_envelope ?r ''project'' ''user-created'' = Inr ()"
    using envelope_new [of ?d e] c assms(2) by (simp add: created_def SUPPORTED_PROJECT_SCHEMA_VERSIONS_def)
  then have "project_parts ?r = Inr (w, None)"
    using project_fields_back [OF n(1) payload_stored(1)] by (simp add: project_parts_def draft_row_def)
  then show ?thesis
    using project_written [OF g] validate_links_create [OF n(2) c] w(2) c
    by (simp add: charter_policies_def created_def)
qed simp

lemma project_create_v2_result:
  assumes "repo_ok s" "is_utc (utc_now e)" "project_create_v2 e v ch sens op actor s = (res, t)"
  shows "(isl res \<and> t = s) \<or> returned project_get e ''project'' (new_uuid e) res s t"
  using create_call [OF assms(1) assms(3) [unfolded project_create_v2_def case_prod_beta]]
proof (elim disjE exE conjE)
  fix p assume w: "bindr (require_user_actor actor) (\<lambda>_. validated_project_v2_values v ch s) = Inr p"
    "res = project_get (new_uuid e) t"
    and c: "created e \<lparr>dr_id = new_uuid e, dr_type = ''project'', dr_version = 2, dr_prov = ''user-created'', dr_sens = sens,
        dr_title = pj_name (fst p), dr_meta = project_payload (fst p) @ charter_payload (snd p)\<rparr> ''user'' s t"
      (is "created e ?d _ _ _")
  let ?r = "with_metadata (drafted e ?d) (canon_dict (project_payload (fst p) @ charter_payload (snd p)))"
  have n: "project_normal (fst p)" "charter_normal (snd p)"
    "validate_typed_links (project_links (fst p) (ch_policies (snd p))) s = Inr ()"
    using w(1) validated_project_v2_normal [of v ch s "fst p" "snd p"] by auto
  have g: "get_record (new_uuid e) t = Inr ?r" using created_get [OF c] by simp
  have "validate_envelope ?r ''project'' ''user-created'' = Inr ()"
    using envelope_new [of ?d e] c assms(2) by (simp add: created_def SUPPORTED_PROJECT_SCHEMA_VERSIONS_def)
  moreover have "stored (metadata ?r) (project_payload (fst p))" "stored (metadata ?r) (charter_payload (snd p))"
    using payload_stored(2) by (simp_all only: with_metadata_sel stored_append)
  ultimately have "project_parts ?r = Inr (fst p, Some (snd p))"
    using project_fields_back [OF n(1)] charter_fields_back [OF n(2)] by (simp add: project_parts_def draft_row_def)
  then show ?thesis
    using project_written [OF g] validate_links_create [OF n(3) c] w(2) c
    by (simp add: charter_policies_def created_def)
qed simp

lemma current_projectD:
  assumes "current_project i actor s = Inr (r, c)"
  shows "\<exists>p. actor = ''user'' \<and> get_record i s = Inr r \<and> record_type r = ''project'' \<and> rec_id r = i \<and> project_parts r = Inr p \<and>
    c = project_info r p \<and> project_from_record r s = Inr c \<and> validate_envelope r ''project'' ''user-created'' = Inr () \<and>
    rec_schema_version r \<in> {1, 2}"
  using assms get_recordD [of i s r] find_row_Some [of i "records s"]
  by (auto simp: current_project_def require_user_actor_def require_pd_record_def project_from_record_eq project_parts_def
      validate_envelope_def SUPPORTED_PROJECT_SCHEMA_VERSIONS_def) (metis with_metadata_sel(1))+

lemma project_rewritten:
  assumes "changed e i expected v ''user'' ''project'' row s t" "get_record i s = Inr r" "record_type r = ''project''"
    and "project_parts (revised_env e v r) = Inr p"
    and "validate_typed_links (project_links (fst p) (charter_policies (snd p))) s = Inr ()"
  shows "project_get i t = Inr (project_info (revised_env e v r) p)"
proof -
  note g = changed_get [OF assms(1,2)]
  have "validate_typed_links (project_links (fst p) (charter_policies (snd p))) t = Inr ()"
    using project_self_free [OF assms(5,2,3)] g by (intro validate_links_others [OF assms(5)]) auto
  then show ?thesis using project_written assms(4) g by blast
qed


lemma pd_allowed:
  "''active'' \<in> set ALLOWED_STATUSES" "''archived'' \<in> set ALLOWED_STATUSES"
  "''user-created'' \<in> set ALLOWED_PROVENANCE" "''user-confirmed'' \<in> set ALLOWED_PROVENANCE"
  by (simp_all add: ALLOWED_STATUSES_def ALLOWED_PROVENANCE_def)

lemma pd_versions: "\<forall>n. None = Some n \<longrightarrow> (1::int) \<le> n" "\<forall>n. Some 2 = Some n \<longrightarrow> (1::int) \<le> n"
  by auto

lemma project_update_result:
  assumes "repo_ok s" "is_utc (utc_now e)" "\<forall>r. get_record i s = Inr r \<longrightarrow> ts_le (created_at r) (utc_now e)"
    and "project_update e i expected v op actor s = (res, t)"
  shows "(isl res \<and> t = s) \<or> returned project_get e ''project'' i res s t"
proof -
  let ?prep = "\<lambda>s. bindr (current_project i actor s) (\<lambda>p. bindr (require (p_version (snd p) = 1) pd_error) (\<lambda>_.
       bindr (validated_project_values v s) (\<lambda>w. Inr (fst p, w))))"
  have prep: "\<exists>c. current_project i actor s = Inr (fst p, c) \<and> p_version c = 1 \<and> validated_project_values v s = Inr (snd p)"
    if "?prep s = Inr p" for p using that by auto
  have ver: "\<forall>p. ?prep s = Inr p \<longrightarrow> 1 \<le> rec_schema_version (fst p)"
    using prep current_projectD [of i actor s] by fastforce
  from update_call [OF assms(1) assms(4) [unfolded project_update_def case_prod_beta] pd_allowed(1,3) pd_versions(1) ver]
  show ?thesis
  proof (elim disjE exE conjE)
    fix p row assume p: "?prep s = Inr p" "res = project_get i t"
      and c: "changed e (rec_id (fst p)) expected \<lparr>rv_version = Some (case None of None \<Rightarrow> rec_schema_version (fst p) | Some n \<Rightarrow> n),
        rv_status = ''active'', rv_prov = ''user-created'', rv_title = pj_name (snd p), rv_meta = project_payload (snd p)\<rparr>
        ''user'' (record_type (fst p)) row s t" (is "changed e _ _ ?v _ _ _ _ _")
    let ?r = "fst p" and ?w = "snd p"
    obtain cur where cur: "current_project i actor s = Inr (?r, cur)" "p_version cur = 1" "validated_project_values v s = Inr ?w"
      using prep [OF p(1)] by blast
    note d = current_projectD [OF cur(1)] and n = validated_project_normal [OF cur(3)]
    have one: "rec_schema_version ?r = 1" using d cur(2) by (auto simp: project_info_def)
    have g: "get_record i s = Inr ?r" "record_type ?r = ''project''" "rec_id ?r = i" using d by auto
    have "validate_envelope (revised_env e ?v ?r) ''project'' ''user-created'' = Inr ()"
      using d one assms(2) assms(3) [rule_format, OF g(1)]
      by (intro envelope_revised) (auto simp: SUPPORTED_PROJECT_SCHEMA_VERSIONS_def)
    then have "project_parts (revised_env e ?v ?r) = Inr (?w, None)"
      using project_fields_back [OF _ payload_stored(1)] n one by (simp add: project_parts_def revised_env_def)
    then have "project_get i t = Inr (project_info (revised_env e ?v ?r) (?w, None))"
      using project_rewritten [OF c [unfolded g(2,3)] g(1,2)] n by (auto simp: charter_policies_def)
    then show ?thesis using p(2) c g by (auto simp: changed_def)
  qed simp
qed

lemma project_update_v2_result:
  assumes "repo_ok s" "is_utc (utc_now e)" "\<forall>r. get_record i s = Inr r \<longrightarrow> ts_le (created_at r) (utc_now e)"
    and "project_update_v2 e i expected v ch op actor s = (res, t)"
  shows "(isl res \<and> t = s) \<or> returned project_get e ''project'' i res s t"
proof -
  let ?prep = "\<lambda>s. bindr (current_project i actor s) (\<lambda>p. bindr (validated_project_v2_values v ch s) (\<lambda>w. Inr (fst p, w)))"
  have prep: "\<exists>c. current_project i actor s = Inr (fst p, c) \<and> validated_project_v2_values v ch s = Inr (snd p)"
    if "?prep s = Inr p" for p using that by auto
  have ver: "\<forall>p. ?prep s = Inr p \<longrightarrow> 1 \<le> rec_schema_version (fst p)"
    using prep current_projectD [of i actor s] by fastforce
  from update_call [OF assms(1) assms(4) [unfolded project_update_v2_def case_prod_beta] pd_allowed(1,3) pd_versions(2) ver]
  show ?thesis
  proof (elim disjE exE conjE)
    fix p row assume p: "?prep s = Inr p" "res = project_get i t"
      and c: "changed e (rec_id (fst p)) expected \<lparr>rv_version = Some (case Some 2 of None \<Rightarrow> rec_schema_version (fst p) | Some n \<Rightarrow> n),
        rv_status = ''active'', rv_prov = ''user-created'', rv_title = pj_name (fst (snd p)),
        rv_meta = project_payload (fst (snd p)) @ charter_payload (snd (snd p))\<rparr>
        ''user'' (record_type (fst p)) row s t" (is "changed e _ _ ?v _ _ _ _ _")
    let ?r = "fst p" and ?w = "fst (snd p)" and ?d = "snd (snd p)"
    obtain cur where cur: "current_project i actor s = Inr (?r, cur)" "validated_project_v2_values v ch s = Inr (?w, ?d)"
      using prep [OF p(1)] by auto
    note d = current_projectD [OF cur(1)] and n = validated_project_v2_normal [OF cur(2)]
    have g: "get_record i s = Inr ?r" "record_type ?r = ''project''" "rec_id ?r = i" using d by auto
    have "validate_envelope (revised_env e ?v ?r) ''project'' ''user-created'' = Inr ()"
      using d assms(2) assms(3) [rule_format, OF g(1)]
      by (intro envelope_revised) (auto simp: SUPPORTED_PROJECT_SCHEMA_VERSIONS_def)
    moreover have m: "metadata (revised_env e ?v ?r) = canon_dict (project_payload ?w @ charter_payload ?d)"
      by (simp add: revised_env_def)
    then have "stored (metadata (revised_env e ?v ?r)) (project_payload ?w)" "stored (metadata (revised_env e ?v ?r)) (charter_payload ?d)"
      using payload_stored(2) [of ?w ?d] unfolding m by (simp_all only: stored_append)
    ultimately have "project_parts (revised_env e ?v ?r) = Inr (?w, Some ?d)"
      using project_fields_back [of ?w] charter_fields_back [of ?d] n by (simp add: project_parts_def revised_env_def)
    then have "project_get i t = Inr (project_info (revised_env e ?v ?r) (?w, Some ?d))"
      using project_rewritten [OF c [unfolded g(2,3)] g(1,2)] n by (auto simp: charter_policies_def)
    then show ?thesis using p(2) c g by (auto simp: changed_def)
  qed simp
qed


lemma changed_keeps_version:
  assumes "changed e i expected v actor ttype row s t" "rv_version v = Some (rec_schema_version r)" "get_record i s = Inr r"
  shows "changed e i expected (v\<lparr>rv_version := None\<rparr>) actor ttype row s t"
proof -
  have "find_row i (records s) = Some row" using assms(1) by (simp add: changed_def)
  then have "rec_schema_version r = rec_schema_version row" using get_record_row [OF assms(3)] by blast
  then show ?thesis using assms(1,2) by (simp add: changed_def revised_row_def)
qed

lemma project_archive_result:
  assumes "repo_ok s" "is_utc (utc_now e)" "\<forall>r. get_record i s = Inr r \<longrightarrow> ts_le (created_at r) (utc_now e)"
    and "project_archive e i expected op actor s = (res, t)"
  shows "(isl res \<and> t = s) \<or> returned project_get e ''project'' i res s t"
proof -
  have ver: "\<forall>p. current_project i actor s = Inr p \<longrightarrow> 1 \<le> rec_schema_version (fst p)"
    using current_projectD [of i actor s] by fastforce
  from update_call [OF assms(1) assms(4) [unfolded project_archive_def case_prod_beta] pd_allowed(2,3) pd_versions(1) ver]
  show ?thesis
  proof (elim disjE exE conjE)
    fix p row assume p: "current_project i actor s = Inr p" "res = project_get i t"
      and c: "changed e (rec_id (fst p)) expected \<lparr>rv_version = Some (case None of None \<Rightarrow> rec_schema_version (fst p) | Some n \<Rightarrow> n),
        rv_status = ''archived'', rv_prov = ''user-created'', rv_title = pj_name (project_values (snd p)), rv_meta = metadata (fst p)\<rparr>
        ''user'' (record_type (fst p)) row s t" (is "changed e _ _ ?v _ _ _ _ _")
    let ?r = "fst p"
    have "current_project i actor s = Inr (?r, snd p)" using p(1) by simp
    note d = current_projectD [OF this]
    have g: "get_record i s = Inr ?r" "record_type ?r = ''project''" "rec_id ?r = i" "project_from_record ?r s = Inr (snd p)" using d by auto
    have "?v\<lparr>rv_version := None\<rparr> = archiving ?r ''user-created''"
      using d by (auto simp: archiving_def project_info_def dest: project_parts_title)
    then have c': "changed e i expected (archiving ?r ''user-created'') ''user'' ''project'' row s t"
      using changed_keeps_version [OF c [unfolded g(2,3)] _ g(1)] by simp
    from project.archive_reads [OF assms(1) g(1,4) c' assms(2) assms(3) [rule_format, OF g(1)]] obtain w where
      "get_record i t = Inr (touched (utc_now e) ''user-created'' ?r)"
      "project_from_record (touched (utc_now e) ''user-created'' ?r) t = Inr w" by blast
    then have "project_get i t = Inr w" using g(2) by (simp add: project_get_def require_pd_record_def touched_def)
    then show ?thesis using p(2) c' by (auto simp: changed_def)
  qed simp
qed

lemma decision_create_result:
  assumes "repo_ok s" "is_utc (utc_now e)" "decision_create e v sens op actor s = (res, t)"
  shows "(isl res \<and> t = s) \<or> returned decision_get e ''decision'' (new_uuid e) res s t"
  using create_call [OF assms(1) assms(3) [unfolded decision_create_def]]
proof (elim disjE exE conjE)
  fix w assume w: "bindr (require_user_actor actor) (\<lambda>_. validated_decision_values v None s) = Inr w" "res = decision_get (new_uuid e) t"
    and c: "created e \<lparr>dr_id = new_uuid e, dr_type = ''decision'', dr_version = 1, dr_prov = ''user-confirmed'', dr_sens = sens,
        dr_title = dc_decision w, dr_meta = decision_payload w\<rparr> ''user'' s t" (is "created e ?d _ _ _")
  let ?r = "with_metadata (drafted e ?d) (canon_dict (decision_payload w))"
  have n: "decision_normal w" "validate_typed_links (decision_links w) s = Inr ()"
    using w(1) validated_decision_normal by auto
  have g: "get_record (new_uuid e) t = Inr ?r" using created_get [OF c] by simp
  have "dc_supersedes w \<noteq> Some (new_uuid e)"
  proof
    assume "dc_supersedes w = Some (new_uuid e)"
    then have "\<exists>r. get_record (new_uuid e) s = Inr r"
      using n(2) link_target(2) [of s "new_uuid e"] by (auto simp: validate_typed_links_eq decision_links_def)
    then show False using c by (auto simp: created_def get_record_def)
  qed
  moreover have "validate_envelope ?r ''decision'' ''user-confirmed'' = Inr ()"
    using envelope_new [of ?d e] c assms(2) by (simp add: created_def)
  ultimately have "decision_parts ?r = Inr w"
    using decision_fields_back [OF n(1) payload_stored(3)] by (simp add: decision_parts_def draft_row_def)
  then show ?thesis
    using decision_written [OF g] validate_links_create [OF n(2) c] w(2) c by (simp add: created_def)
qed simp

lemma current_decisionD:
  assumes "current_decision i actor s = Inr (r, c)"
  shows "\<exists>v. actor = ''user'' \<and> get_record i s = Inr r \<and> record_type r = ''decision'' \<and> rec_id r = i \<and> decision_parts r = Inr v \<and>
    c = decision_info r v \<and> decision_from_record r s = Inr c \<and> validate_envelope r ''decision'' ''user-confirmed'' = Inr () \<and>
    rec_schema_version r = 1"
  using assms get_recordD [of i s r] find_row_Some [of i "records s"]
  by (auto simp: current_decision_def require_user_actor_def require_pd_record_def decision_from_record_eq decision_parts_def
      validate_envelope_def) (metis with_metadata_sel(1))+

lemma decision_update_result:
  assumes "repo_ok s" "is_utc (utc_now e)" "\<forall>r. get_record i s = Inr r \<longrightarrow> ts_le (created_at r) (utc_now e)"
    and "decision_update e i expected v op actor s = (res, t)"
  shows "(isl res \<and> t = s) \<or> returned decision_get e ''decision'' i res s t"
proof -
  let ?prep = "\<lambda>s. bindr (current_decision i actor s) (\<lambda>p. bindr (validated_decision_values v (Some i) s) (\<lambda>w. Inr (fst p, w)))"
  have prep: "\<exists>c. current_decision i actor s = Inr (fst p, c) \<and> validated_decision_values v (Some i) s = Inr (snd p)"
    if "?prep s = Inr p" for p using that by auto
  have ver: "\<forall>p. ?prep s = Inr p \<longrightarrow> 1 \<le> rec_schema_version (fst p)"
    using prep current_decisionD [of i actor s] by fastforce
  from update_call [OF assms(1) assms(4) [unfolded decision_update_def case_prod_beta] pd_allowed(1,4) pd_versions(1) ver]
  show ?thesis
  proof (elim disjE exE conjE)
    fix p row assume p: "?prep s = Inr p" "res = decision_get i t"
      and c: "changed e (rec_id (fst p)) expected \<lparr>rv_version = Some (case None of None \<Rightarrow> rec_schema_version (fst p) | Some n \<Rightarrow> n),
        rv_status = ''active'', rv_prov = ''user-confirmed'', rv_title = dc_decision (snd p), rv_meta = decision_payload (snd p)\<rparr>
        ''user'' (record_type (fst p)) row s t" (is "changed e _ _ ?v _ _ _ _ _")
    let ?r = "fst p" and ?w = "snd p"
    obtain cur where cur: "current_decision i actor s = Inr (?r, cur)" "validated_decision_values v (Some i) s = Inr ?w"
      using prep [OF p(1)] by blast
    note d = current_decisionD [OF cur(1)]
    have n: "decision_normal ?w" "validate_typed_links (decision_links ?w) s = Inr ()" "dc_supersedes ?w \<noteq> Some i"
      using validated_decision_normal [OF cur(2)] by auto
    have g: "get_record i s = Inr ?r" "record_type ?r = ''decision''" "rec_id ?r = i" "rec_schema_version ?r = 1" using d by auto
    have "validate_envelope (revised_env e ?v ?r) ''decision'' ''user-confirmed'' = Inr ()"
      using d assms(2) assms(3) [rule_format, OF g(1)] by (intro envelope_revised) auto
    then have "decision_parts (revised_env e ?v ?r) = Inr ?w"
      using decision_fields_back [OF n(1) payload_stored(3)] n(3) g(3) by (simp add: decision_parts_def revised_env_def)
    moreover note h = changed_get [OF c [unfolded g(2,3)] g(1)]
    moreover have "validate_typed_links (decision_links ?w) t = Inr ()"
      using decision_self_free [OF n(2) g(1,2) n(3)] h by (intro validate_links_others [OF n(2)]) auto
    ultimately have "decision_get i t = Inr (decision_info (revised_env e ?v ?r) ?w)" using decision_written by blast
    then show ?thesis using p(2) c g by (auto simp: changed_def)
  qed simp
qed

lemma decision_archive_result:
  assumes "repo_ok s" "is_utc (utc_now e)" "\<forall>r. get_record i s = Inr r \<longrightarrow> ts_le (created_at r) (utc_now e)"
    and "decision_archive e i expected op actor s = (res, t)"
  shows "(isl res \<and> t = s) \<or> returned decision_get e ''decision'' i res s t"
proof -
  have ver: "\<forall>p. current_decision i actor s = Inr p \<longrightarrow> 1 \<le> rec_schema_version (fst p)"
    using current_decisionD [of i actor s] by fastforce
  from update_call [OF assms(1) assms(4) [unfolded decision_archive_def case_prod_beta] pd_allowed(2,4) pd_versions(1) ver]
  show ?thesis
  proof (elim disjE exE conjE)
    fix p row assume p: "current_decision i actor s = Inr p" "res = decision_get i t"
      and c: "changed e (rec_id (fst p)) expected \<lparr>rv_version = Some (case None of None \<Rightarrow> rec_schema_version (fst p) | Some n \<Rightarrow> n),
        rv_status = ''archived'', rv_prov = ''user-confirmed'', rv_title = dc_decision (decision_values (snd p)), rv_meta = metadata (fst p)\<rparr>
        ''user'' (record_type (fst p)) row s t" (is "changed e _ _ ?v _ _ _ _ _")
    let ?r = "fst p"
    have "current_decision i actor s = Inr (?r, snd p)" using p(1) by simp
    note d = current_decisionD [OF this]
    have g: "get_record i s = Inr ?r" "record_type ?r = ''decision''" "rec_id ?r = i" "decision_from_record ?r s = Inr (snd p)" using d by auto
    have "?v\<lparr>rv_version := None\<rparr> = archiving ?r ''user-confirmed''"
      using d by (auto simp: archiving_def decision_info_def dest: decision_parts_title)
    then have c': "changed e i expected (archiving ?r ''user-confirmed'') ''user'' ''decision'' row s t"
      using changed_keeps_version [OF c [unfolded g(2,3)] _ g(1)] by simp
    from decision.archive_reads [OF assms(1) g(1,4) c' assms(2) assms(3) [rule_format, OF g(1)]] obtain w where
      "get_record i t = Inr (touched (utc_now e) ''user-confirmed'' ?r)"
      "decision_from_record (touched (utc_now e) ''user-confirmed'' ?r) t = Inr w" by blast
    then have "decision_get i t = Inr w" using g(2) by (simp add: decision_get_def require_pd_record_def touched_def)
    then show ?thesis using p(2) c' by (auto simp: changed_def)
  qed simp
qed


text \<open>C16: a call of the project service, made under a clock that does not run backwards, either
  raises and has changed nothing, or it has written exactly one audit event about the project \<open>j\<close>
  (the new one, or the one that was updated or archived) and returns what a read of it returns.\<close>

theorem project_calls_atomic:
  assumes "repo_ok s" and "is_utc (utc_now e)" and "\<forall>r. get_record i s = Inr r \<longrightarrow> ts_le (created_at r) (utc_now e)"
    and "j = new_uuid e \<and> (project_create e v sens op actor s = (res, t) \<or> project_create_v2 e v ch sens op actor s = (res, t)) \<or>
         j = i \<and> (project_update e i expected v op actor s = (res, t) \<or> project_update_v2 e i expected v ch op actor s = (res, t) \<or>
           project_archive e i expected op actor s = (res, t))"
  shows "(isl res \<and> t = s) \<or> (\<exists>info. res = Inr info \<and> project_get j t = Inr info \<and> audited e ''user'' ''project'' j s t)"
proof -
  have "(isl res \<and> t = s) \<or> returned project_get e ''project'' j res s t"
    using assms(4)
  proof (elim disjE conjE)
    assume "j = new_uuid e" "project_create e v sens op actor s = (res, t)"
    with project_create_result [OF assms(1,2) this(2)] show ?thesis by argo
  next
    assume "j = new_uuid e" "project_create_v2 e v ch sens op actor s = (res, t)"
    with project_create_v2_result [OF assms(1,2) this(2)] show ?thesis by argo
  next
    assume "j = i" "project_update e i expected v op actor s = (res, t)"
    with project_update_result [OF assms(1-3) this(2)] show ?thesis by argo
  next
    assume "j = i" "project_update_v2 e i expected v ch op actor s = (res, t)"
    with project_update_v2_result [OF assms(1-3) this(2)] show ?thesis by argo
  next
    assume "j = i" "project_archive e i expected op actor s = (res, t)"
    with project_archive_result [OF assms(1-3) this(2)] show ?thesis by argo
  qed
  then show ?thesis by (cases res) auto
qed

text \<open>The same for the decision service.\<close>

lemma decision_calls_result:
  assumes "repo_ok s" and "is_utc (utc_now e)" and "\<forall>r. get_record i s = Inr r \<longrightarrow> ts_le (created_at r) (utc_now e)"
    and "j = new_uuid e \<and> decision_create e v sens op actor s = (res, t) \<or>
         j = i \<and> (decision_update e i expected v op actor s = (res, t) \<or> decision_archive e i expected op actor s = (res, t))"
  shows "(isl res \<and> t = s) \<or> (\<exists>info. res = Inr info \<and> decision_get j t = Inr info \<and> audited e ''user'' ''decision'' j s t)"
proof -
  have "(isl res \<and> t = s) \<or> returned decision_get e ''decision'' j res s t"
    using assms(4)
  proof (elim disjE conjE)
    assume "j = new_uuid e" "decision_create e v sens op actor s = (res, t)"
    with decision_create_result [OF assms(1,2) this(2)] show ?thesis by argo
  next
    assume "j = i" "decision_update e i expected v op actor s = (res, t)"
    with decision_update_result [OF assms(1-3) this(2)] show ?thesis by argo
  next
    assume "j = i" "decision_archive e i expected op actor s = (res, t)"
    with decision_archive_result [OF assms(1-3) this(2)] show ?thesis by argo
  qed
  then show ?thesis by (cases res) auto
qed

section \<open>A linked record can take a project with it\<close>

lemma for_each_fails:
  "x \<in> set xs \<Longrightarrow> f x = Inl y \<Longrightarrow> \<forall>z \<in> set xs. z \<noteq> x \<longrightarrow> f z = Inr () \<Longrightarrow> for_each f xs = Inl y"
proof (induction xs)
  case (Cons a xs)
  then show ?case
    by (cases "a = x") (auto simp: for_each_def bindr_eq_Inl)
qed simp

lemma policy_archive_effect:
  assumes "repo_ok s" "policy_archive e j expected op actor s = (Inr q, t)"
  shows "\<exists>r. get_record j t = Inr r \<and> record_type r = ''policy'' \<and> policy_from_record r = Inr q \<and> i_status q = ''archived'' \<and>
    others_same j s t"
proof -
  from lift_then [OF assms(2) [unfolded policy_archive_def]] obtain c r where
    c: "policy_get j s = Inr c" "get_record j s = Inr r"
    and "bind_op (update_typed_record e r expected (policy_fields (policy_key c) (policy_rule c) (policy_enabled c))
          ''archived'' op ''user'' ''policy.archive'' [(''policy_key'', JStr (policy_key c))])
       (\<lambda>_. lift_op (policy_get j)) s = (Inr q, t)" by auto
  then obtain r1 where u: "update_typed_record e r expected (policy_fields (policy_key c) (policy_rule c) (policy_enabled c))
          ''archived'' op ''user'' ''policy.archive'' [(''policy_key'', JStr (policy_key c))] s = (r1, t)"
    "\<not> isl r1" "policy_get j t = Inr q" by (auto dest!: then_read)
  obtain row where row: "find_row j (records s) = Some row" using get_recordD [OF c(2)] by blast
  have id: "rec_id row = j" "rec_id r = j" using find_row_Some [OF row] get_record_row [OF c(2) row] by auto
  let ?m = "canon_dict (policy_fields (policy_key c) (policy_rule c) (policy_enabled c))"
  have rs: "records t = replace_row (typed_row (utc_now e) ''archived'' (JObj ?m) row) (records s)"
    using update_typed_record_cases [OF assms(1) pd_allowed(2) u(1)] u(2) row id by auto
  have "get_record j t = Inr (with_metadata (typed_row (utc_now e) ''archived'' (JObj ?m) row) ?m)"
    using get_after_replace [OF rs, of row ?m] row id by (simp add: typed_row_def)
  moreover have "others_same j s t" by (rule others_same_replace [OF _ rs]) (simp add: id)
  ultimately show ?thesis
    using u(3) by (auto simp: policy_get_def require_record_type_def policy_from_record_def typed_row_def)
qed

lemma policy_not_other_link:
  assumes "validate_typed_links l s = Inr ()" "get_record j s = Inr r" "record_type r = ''policy''"
  shows "l_project l \<noteq> Some j" "l_supersedes l \<noteq> Some j" "j \<notin> set (l_decisions l)" "j \<notin> set (l_memories l)" "j \<notin> set (l_artifacts l)"
  using assms link_target [of s j] by (auto simp: validate_typed_links_eq)

lemma archived_policy_link:
  assumes "validate_typed_links (project_links v ps) s = Inr ()" "j \<in> set ps" "others_same j s t"
    and "get_record j t = Inr r" "record_type r = ''policy''" "policy_from_record r = Inr q" "i_status q = ''archived''"
  shows "validate_typed_links (project_links v ps) t = Inl pd_error"
proof -
  have pol: "policy_link s j = Inr ()" using assms(1,2) by (simp add: validate_typed_links_eq project_links_def)
  obtain r0 where r0: "get_record j s = Inr r0" "record_type r0 = ''policy''" using link_target(5) [OF pol] by blast
  note same = link_cong [OF others_same_get [OF assms(3)]]
  note no = policy_not_other_link [OF assms(1) r0, unfolded project_links_def, simplified]
  have ok: "\<forall>k \<in> set (pj_decisions v). decision_link s k = Inr ()" "\<forall>k \<in> set (pj_memories v). memory_link s k = Inr ()"
    "\<forall>k \<in> set (pj_artifacts v). artifact_link s k = Inr ()" "\<forall>k \<in> set ps. policy_link s k = Inr ()"
    using assms(1) by (auto simp: validate_typed_links_eq project_links_def)
  have bad: "policy_link t j = Inl pd_error" using assms(4-7) by (simp add: policy_link_def)
  have "\<forall>k \<in> set ps. k \<noteq> j \<longrightarrow> policy_link t k = Inr ()" using ok(4) same(5) by metis
  then have "for_each (policy_link t) ps = Inl pd_error" by (rule for_each_fails [where f = "policy_link t", OF assms(2) bad])
  moreover have "for_each (decision_link t) (pj_decisions v) = Inr ()" unfolding for_each_eq using ok(1) no same(2) by metis
  moreover have "for_each (memory_link t) (pj_memories v) = Inr ()" unfolding for_each_eq using ok(2) no same(3) by metis
  moreover have "for_each (artifact_link t) (pj_artifacts v) = Inr ()" unfolding for_each_eq using ok(3) no same(4) by metis
  moreover have "for_each f [] = Inr ()" for f :: "string \<Rightarrow> unit res" by (simp add: for_each_def)
  ultimately show ?thesis
    by (simp add: validate_typed_links_def project_links_def del: for_each_eq)
qed

text \<open>C17: reading a project requires its governing policies to be active, and archiving a policy
  does not ask who is governed by it. After the policy is archived the project cannot be read,
  updated or archived any more.\<close>

theorem archived_policy_breaks_project:
  assumes "repo_ok s" and "project_get i s = Inr info" and "charter info = Some c" and "j \<in> set (ch_policies c)"
    and "policy_archive e j expected op actor s = (Inr q, t)"
  shows "project_get i t = Inl ProjectDecisionCorruptError \<and>
    project_update_v2 e' i n v ch op' ''user'' t = (Inl ProjectDecisionCorruptError, t) \<and>
    project_archive e' i n op' ''user'' t = (Inl ProjectDecisionCorruptError, t)"
proof -
  obtain r p where r: "get_record i s = Inr r" "record_type r = ''project''" "project_parts r = Inr p" "info = project_info r p"
    "validate_typed_links (project_links (fst p) (charter_policies (snd p))) s = Inr ()"
    using assms(2) by (auto simp: project_get_def require_pd_record_def project_from_record_eq)
  have j: "j \<in> set (charter_policies (snd p))" using assms(3,4) r(4) by (auto simp: project_info_def charter_policies_def)
  obtain q0 where q: "get_record j t = Inr q0" "record_type q0 = ''policy''" "policy_from_record q0 = Inr q" "i_status q = ''archived''"
    "others_same j s t" using policy_archive_effect [OF assms(1,5)] by blast
  have "policy_link s j = Inr ()" using r(5) j by (simp add: validate_typed_links_eq project_links_def)
  then have "i \<noteq> j" using link_target(5) [of s j] r(1,2) by auto
  then have g: "get_record i t = Inr r" using others_same_get [OF q(5)] r(1) by simp
  have "validate_typed_links (project_links (fst p) (charter_policies (snd p))) t = Inl pd_error"
    by (rule archived_policy_link [OF r(5) j q(5,1,2,3,4)])
  then have bad: "project_from_record r t = Inl ProjectDecisionCorruptError"
    using r(3) by (simp add: project_from_record_def is_malformed_pd_def)
  then have "current_project i ''user'' t = Inl ProjectDecisionCorruptError"
    using g r(2) by (simp add: current_project_def require_user_actor_def require_pd_record_def)
  then show ?thesis
    using bad g r(2) by (simp add: project_get_def require_pd_record_def project_update_v2_def project_archive_def bind_lift)
qed

section \<open>Concrete runs\<close>

lemma pd_tokens:
  "validate_token MAX_ACTION_LENGTH ''policy.archive'' = Inr ''policy.archive''"
  "validate_token MAX_ACTION_LENGTH ''project.archive'' = Inr ''project.archive''"
  "validate_token MAX_ACTION_LENGTH ''decision.create'' = Inr ''decision.create''"
proof -
  have "plain_alphabet ''policy.archive'' \<and> plain_alphabet ''project.archive'' \<and> plain_alphabet ''decision.create''" by code_simp
  then show "validate_token MAX_ACTION_LENGTH ''policy.archive'' = Inr ''policy.archive''"
    "validate_token MAX_ACTION_LENGTH ''project.archive'' = Inr ''project.archive''"
    "validate_token MAX_ACTION_LENGTH ''decision.create'' = Inr ''decision.create''"
    by (auto intro!: plain_token_valid [OF _ subset_refl] simp: MAX_ACTION_LENGTH_def
      is_alnum_ascii_def is_lower_ascii_def is_upper_ascii_def is_digit_def token_char_def ord_def)
qed

text \<open>A workspace that holds one active policy and one chartered project which it governs.\<close>

definition policy_id :: string where "policy_id = ''00000000-0000-0000-0000-000000000001''"
definition governed_id :: string where "governed_id = ''00000000-0000-0000-0000-000000000002''"

definition sample_row_of :: "string \<Rightarrow> string \<Rightarrow> int \<Rightarrow> string \<Rightarrow> string \<Rightarrow> dict \<Rightarrow> RecordRow" where
  "sample_row_of i rtype version prov ttl m = draft_row (sample_env i)
     \<lparr>dr_id = i, dr_type = rtype, dr_version = version, dr_prov = prov, dr_sens = ''personal'', dr_title = ttl, dr_meta = m\<rparr>
     (JObj (canon_dict m))"

definition sample_project :: project_values where
  "sample_project = \<lparr>pj_name = ''a'', pj_description = ''b'', pj_status = ''active'', pj_started_at = ''2026-01-01T00:00:00Z'',
     pj_ended_at = None, pj_decisions = [], pj_memories = [], pj_artifacts = []\<rparr>"

definition sample_charter :: charter_values where
  "sample_charter = \<lparr>ch_objective = ''c'', ch_in_scope = [], ch_out_of_scope = [], ch_success_criteria = [],
     ch_policies = [policy_id]\<rparr>"

definition governed_repo :: repo where
  "governed_repo = sample_repo\<lparr>records :=
     [sample_row_of policy_id ''policy'' 1 ''user-created'' ''k'' (policy_fields ''k'' ''r'' True),
      sample_row_of governed_id ''project'' 2 ''user-created'' ''a'' (project_payload sample_project @ charter_payload sample_charter)]\<rparr>"

lemma serialized_ok: "all_finite (JObj m) \<Longrightarrow> json_ok (JObj (canon_dict m))"
  using serialize_metadata_ok [of m] by (auto simp: serialize_metadata_eq simp del: all_finite.simps)

lemma governed_repo_ok: "repo_ok governed_repo"
proof -
  have "draft_ok \<lparr>dr_id = i, dr_type = rtype, dr_version = n, dr_prov = ''user-created'', dr_sens = ''personal'', dr_title = ttl,
      dr_meta = m\<rparr>" if "1 \<le> n" for i rtype n ttl m
    using that by (simp add: draft_ok_def ALLOWED_PROVENANCE_def ALLOWED_SENSITIVITY_def)
  moreover have "json_ok (JObj (canon_dict (policy_fields ''k'' ''r'' True)))"
    "json_ok (JObj (canon_dict (project_payload sample_project @ charter_payload sample_charter)))"
    by (rule serialized_ok;
        simp add: policy_fields_def project_payload_def charter_payload_def sample_project_def sample_charter_def)+
  ultimately have "\<forall>r \<in> set (records governed_repo). row_ok r"
    by (auto simp: governed_repo_def sample_row_of_def intro!: draft_row_ok)
  moreover have "\<forall>r \<in> set (records governed_repo). binding_scope r = None"
    by (simp add: governed_repo_def sample_row_of_def binding_scope_def)
  moreover have "distinct (map rec_id (records governed_repo))" by code_simp
  ultimately show ?thesis using sample_repo_ok
    by (auto simp: repo_ok_def bindings_unique_def events_ok_def revision_ok_def governed_repo_def sample_repo_def)
qed

lemma governed_reads:
  "\<exists>info c. project_get governed_id governed_repo = Inr info \<and> charter info = Some c \<and> ch_policies c = [policy_id]"
  "\<exists>r q. get_record policy_id governed_repo = Inr r \<and> record_type r = ''policy'' \<and> revision r = 1 \<and> rec_id r = policy_id \<and>
    policy_from_record r = Inr q \<and> i_status q = ''active'' \<and> policy_key q = ''k'' \<and> policy_rule q = ''r'' \<and> policy_enabled q"
proof -
  have "case project_get governed_id governed_repo of Inl _ \<Rightarrow> False | Inr info \<Rightarrow>
    (case charter info of None \<Rightarrow> False | Some c \<Rightarrow> ch_policies c = [policy_id])" by code_simp
  then show "\<exists>info c. project_get governed_id governed_repo = Inr info \<and> charter info = Some c \<and> ch_policies c = [policy_id]"
    by (auto split: sum.splits option.splits)
  have "case get_record policy_id governed_repo of Inl _ \<Rightarrow> False | Inr r \<Rightarrow> record_type r = ''policy'' \<and> revision r = 1 \<and>
      rec_id r = policy_id \<and> (case policy_from_record r of Inl _ \<Rightarrow> False | Inr q \<Rightarrow> i_status q = ''active'' \<and>
      policy_key q = ''k'' \<and> policy_rule q = ''r'' \<and> policy_enabled q)" by code_simp
  then show "\<exists>r q. get_record policy_id governed_repo = Inr r \<and> record_type r = ''policy'' \<and> revision r = 1 \<and> rec_id r = policy_id \<and>
    policy_from_record r = Inr q \<and> i_status q = ''active'' \<and> policy_key q = ''k'' \<and> policy_rule q = ''r'' \<and> policy_enabled q"
    by (auto split: sum.splits)
qed

theorem archived_policy_breaks_project_witness:
  "\<exists>q t. policy_archive (clock_env ''x'' ''v2'' ''2026-01-02T00:00:00Z'') policy_id 1 (Some ''op1'') ''user'' governed_repo = (Inr q, t) \<and>
     (\<exists>info. project_get governed_id governed_repo = Inr info) \<and> project_get governed_id t = Inl ProjectDecisionCorruptError"
proof -
  let ?e = "clock_env ''x'' ''v2'' ''2026-01-02T00:00:00Z''"
  obtain info c where i: "project_get governed_id governed_repo = Inr info" "charter info = Some c" "ch_policies c = [policy_id]"
    using governed_reads(1) by blast
  obtain r p where r: "get_record policy_id governed_repo = Inr r" "record_type r = ''policy''" "revision r = 1" "rec_id r = policy_id"
    "policy_from_record r = Inr p" "i_status p = ''active''" "policy_key p = ''k''" "policy_rule p = ''r''" "policy_enabled p"
    using governed_reads(2) by blast
  have m: "list_all plain_entry [(''policy_key'', JStr ''k'')]"
    "int (utf8_length (encode (JObj [(''policy_key'', JStr ''k'')]))) \<le> MAX_METADATA_BYTES" by code_simp+
  have "\<exists>t. update_typed_record ?e r 1 (policy_fields ''k'' ''r'' True) ''archived'' (Some ''op1'') ''user'' ''policy.archive''
      [(''policy_key'', JStr ''k'')] governed_repo = (Inr (), t)"
    by (rule update_typed_record_ok [OF governed_repo_ok _ sample_operation _ r(1) [folded r(4)] r(3) _ pd_tokens(1) serialize_plain [OF m(1) _ _ m(2)]])
      (auto simp: governed_repo_def sample_repo_def policy_fields_def r(2) MAX_METADATA_ITEMS_def)
  then obtain t where t: "update_typed_record ?e r 1 (policy_fields ''k'' ''r'' True) ''archived'' (Some ''op1'') ''user'' ''policy.archive''
      [(''policy_key'', JStr ''k'')] governed_repo = (Inr (), t)" by blast
  have g: "policy_get policy_id governed_repo = Inr p" using r by (simp add: policy_get_def require_record_type_def)
  have run: "policy_archive ?e policy_id 1 (Some ''op1'') ''user'' governed_repo = (policy_get policy_id t, t)"
    using t g r by (simp add: policy_archive_def bind_lift bind_op_read require_user_management_def require_active_record_def
      ALLOWED_MANAGEMENT_ACTORS_def)
  let ?row = "sample_row_of policy_id ''policy'' 1 ''user-created'' ''k'' (policy_fields ''k'' ''r'' True)"
  let ?u = "governed_repo\<lparr>records := replace_row (typed_row ''2026-01-02T00:00:00Z'' ''archived''
      (JObj (canon_dict (policy_fields ''k'' ''r'' True))) ?row) (records governed_repo)\<rparr>"
  have "find_row policy_id (records governed_repo) = Some ?row" by code_simp
  then have "records t = records ?u"
    using update_typed_record_cases [OF governed_repo_ok pd_allowed(2) t] r(4) by (auto simp: clock_env_def)
  moreover have "\<not> isl (policy_get policy_id ?u)" by code_simp
  ultimately obtain q where q: "policy_get policy_id t = Inr q"
    by (cases "policy_get policy_id t") (auto simp: policy_get_def require_record_type_def get_record_def)
  show ?thesis
    using archived_policy_breaks_project [OF governed_repo_ok i(1,2) _ run [unfolded q]] i run q by auto
qed

lemma project_parts_version: "project_parts r = Inr p \<Longrightarrow> 1 \<le> rec_schema_version r"
  by (auto simp: project_parts_def validate_envelope_def SUPPORTED_PROJECT_SCHEMA_VERSIONS_def)

theorem project_calls_atomic_witness:
  "\<exists>info t. project_archive (clock_env ''x'' ''v2'' ''2026-01-02T00:00:00Z'') governed_id 1 (Some ''op1'') ''user'' governed_repo = (Inr info, t) \<and>
     project_get governed_id t = Inr info \<and> audited (clock_env ''x'' ''v2'' ''2026-01-02T00:00:00Z'') ''user'' ''project'' governed_id governed_repo t"
proof -
  let ?e = "clock_env ''x'' ''v2'' ''2026-01-02T00:00:00Z''"
  let ?m = "canon_dict (project_payload sample_project @ charter_payload sample_charter)"
  have "case get_record governed_id governed_repo of Inl _ \<Rightarrow> False | Inr r \<Rightarrow> record_type r = ''project'' \<and> revision r = 1 \<and>
      rec_id r = governed_id \<and> rec_status r = ''active'' \<and> metadata r = ?m \<and> sensitivity r = ''personal'' \<and>
      created_at r = ''2026-01-01T00:00:00Z''" by code_simp
  then obtain r where r: "get_record governed_id governed_repo = Inr r" "record_type r = ''project''" "revision r = 1"
    "rec_id r = governed_id" "rec_status r = ''active''" "metadata r = ?m" "sensitivity r = ''personal''"
    "created_at r = ''2026-01-01T00:00:00Z''" by (auto split: sum.splits)
  obtain info where i: "project_from_record r governed_repo = Inr info"
    using governed_reads(1) r(1,2) by (auto simp: project_get_def require_pd_record_def)
  then have st: "i_status info = ''active''" using r(5) by (auto simp: project_from_record_eq project_info_def)
  let ?am = "[(''record_type'', JStr ''project''), (''domain_status'', JStr ''active''), (''sensitivity'', JStr ''personal''),
    (''memory_count'', JInt 0), (''artifact_count'', JInt 0), (''decision_count'', JInt 0), (''has_ended_at'', JBool False)]"
  have am: "pd_audit ''project'' ?m ''personal'' = Inr ?am" "list_all plain_entry ?am"
    "int (utf8_length (encode (JObj ?am))) \<le> MAX_METADATA_BYTES" by code_simp+
  have fin: "all_finite (JObj ?m)" by (simp add: project_payload_def charter_payload_def sample_project_def sample_charter_def opt_json_def)
  have "\<exists>t. pd_update_record ?e r 1 (pj_name (project_values info)) ?m ''archived'' ''user-created'' (Some ''op1'') ''project.archive'' None
      governed_repo = (Inr (), t)"
    unfolding pd_update_record_def r(2,7)
    by (rule store_update_ok [OF governed_repo_ok _ sample_operation refl r(1) [folded r(4)] r(3,5) _ _ pd_tokens(2) am(1)
          serialize_plain [OF am(2) _ _ am(3)]])
      (use fin in \<open>auto simp: governed_repo_def sample_repo_def r(2) MAX_METADATA_ITEMS_def\<close>)
  then obtain t where t: "pd_update_record ?e r 1 (pj_name (project_values info)) ?m ''archived'' ''user-created'' (Some ''op1'')
      ''project.archive'' None governed_repo = (Inr (), t)" by blast
  have run: "project_archive ?e governed_id 1 (Some ''op1'') ''user'' governed_repo = (project_get governed_id t, t)"
    using t r i st by (simp add: project_archive_def current_project_def bind_lift bind_op_read require_user_actor_def
      require_pd_record_def pd_require_active_def)
  have utc: "is_utc (utc_now ?e)" "case (utc_micros ''2026-01-01T00:00:00Z'', utc_micros (utc_now ?e)) of
      (Inr m, Inr n) \<Rightarrow> m \<le> n | _ \<Rightarrow> False" by code_simp+
  then have "\<forall>q. get_record governed_id governed_repo = Inr q \<longrightarrow> ts_le (created_at q) (utc_now ?e)"
    using r(1,8) by (auto simp: ts_le_def split: sum.splits)
  from project_calls_atomic [OF governed_repo_ok utc(1) this disjI2 [OF conjI [OF refl disjI2 [OF disjI2 [OF run]]]]]
  have "t = governed_repo \<or> (\<exists>v. project_get governed_id t = Inr v \<and> audited ?e ''user'' ''project'' governed_id governed_repo t)"
    by auto
  moreover have "t \<noteq> governed_repo"
    using store_update_cases [OF governed_repo_ok _ t [unfolded pd_update_record_def]] pd_allowed project_parts_version i
    by (auto simp: revising_ok_def changed_def audited_def project_from_record_eq)
  ultimately show ?thesis using run by auto
qed

definition sample_decision :: decision_values where
  "sample_decision = \<lparr>dc_decision = ''a'', dc_reason = ''b'', dc_status = ''accepted'', dc_decided_at = ''2026-01-01T00:00:00Z'',
     dc_alternatives = [], dc_constraints = [], dc_review_after = None, dc_supersedes = None, dc_project = None,
     dc_memories = [], dc_artifacts = []\<rparr>"

lemma decision_calls_sample:
  "\<exists>info t. decision_create (clock_env ''u1'' ''v1'' ''2026-01-01T00:00:00Z'') sample_decision ''personal'' (Some ''op1'') ''user'' sample_repo
     = (Inr info, t) \<and> decision_get ''u1'' t = Inr info"
proof -
  let ?e = "clock_env ''u1'' ''v1'' ''2026-01-01T00:00:00Z''"
  let ?m = "decision_payload sample_decision"
  let ?am = "[(''record_type'', JStr ''decision''), (''domain_status'', JStr ''accepted''), (''sensitivity'', JStr ''personal''),
    (''memory_count'', JInt 0), (''artifact_count'', JInt 0), (''has_project'', JBool False), (''has_supersedes'', JBool False),
    (''has_review_after'', JBool False)]"
  have am: "pd_audit ''decision'' ?m ''personal'' = Inr ?am" "list_all plain_entry ?am"
    "int (utf8_length (encode (JObj ?am))) \<le> MAX_METADATA_BYTES" by code_simp+
  have e: "new_uuid ?e = ''u1''" "event_uuid ?e = ''v1''" by (simp_all add: clock_env_def sample_env_def)
  have f: "validate_record_fields ''decision'' 1 ''active'' ''user-confirmed'' ''personal'' = Inr ()" by code_simp
  have v: "validated_decision_values sample_decision None sample_repo = Inr sample_decision" by code_simp
  have empty: "\<not> read_only sample_repo" "records sample_repo = []" "audit_events sample_repo = []"
    by (simp_all add: sample_repo_def)
  have fin: "all_finite (JObj ?m)" by (simp add: decision_payload_def sample_decision_def)
  have "\<exists>t. pd_create_record ?e ''decision'' (dc_decision sample_decision) ?m ''user-confirmed'' ''personal'' (Some ''op1'')
      ''decision.create'' 1 sample_repo = (Inr ''u1'', t)"
    using store_create_ok [where e = ?e and d = "\<lparr>dr_id = ''u1'', dr_type = ''decision'', dr_version = 1, dr_prov = ''user-confirmed'',
        dr_sens = ''personal'', dr_title = dc_decision sample_decision, dr_meta = ?m\<rparr>" and actor = "''user''",
        OF sample_repo_ok empty(1) _ sample_operation _ _ _ pd_tokens(3) am(1) serialize_plain [OF am(2) _ _ am(3)]]
      f fin e empty
    by (simp add: pd_create_record_def find_row_def MAX_METADATA_ITEMS_def del: all_finite.simps)
  then obtain t where t: "pd_create_record ?e ''decision'' (dc_decision sample_decision) ?m ''user-confirmed'' ''personal'' (Some ''op1'')
      ''decision.create'' 1 sample_repo = (Inr ''u1'', t)" by blast
  have run: "decision_create ?e sample_decision ''personal'' (Some ''op1'') ''user'' sample_repo = (decision_get ''u1'' t, t)"
    using t v by (simp add: decision_create_def bind_lift bind_op_read require_user_actor_def)
  have utc: "is_utc (utc_now ?e)" by code_simp
  have "\<forall>r. get_record i sample_repo = Inr r \<longrightarrow> ts_le (created_at r) (utc_now ?e)" for i
    by (simp add: get_record_def find_row_def empty)
  from decision_calls_result [OF sample_repo_ok utc this disjI1 [OF conjI [OF refl run]]]
  have "t = sample_repo \<or> (\<exists>w. decision_get ''u1'' t = Inr w)" by auto
  moreover have "t \<noteq> sample_repo"
    using store_create_cases [OF sample_repo_ok t [unfolded pd_create_record_def]] by (auto simp: created_def audited_def)
  ultimately show ?thesis using run by auto
qed

end
