(* ===== verification/Timestamps.thy ===== *)
theory Timestamps
  imports Datetime Normalizer
begin

text \<open>
  The text of an instant, \<open>datetime.isoformat()\<close> of a UTC value with \<open>+00:00\<close> replaced by \<open>Z\<close>,
  as \<open>_utc_now()\<close> and the normalising time validators produce it, and its round trip through
  \<open>datetime.fromisoformat\<close>. An instant counts microseconds from day 0 of the proleptic Gregorian
  calendar.
\<close>

section \<open>From a day to its date\<close>

definition year_of_day :: "int \<Rightarrow> int" where
  "year_of_day n = (let y = ((n - 1) * 400) div 146097 + 1 in if days_before_year (y + 1) < n then y + 1 else y)"

definition month_of :: "int \<Rightarrow> int \<Rightarrow> int" where
  "month_of y k = (let before = days_before_month y in
     if k \<le> before 2 then 1 else if k \<le> before 3 then 2 else if k \<le> before 4 then 3
     else if k \<le> before 5 then 4 else if k \<le> before 6 then 5 else if k \<le> before 7 then 6
     else if k \<le> before 8 then 7 else if k \<le> before 9 then 8 else if k \<le> before 10 then 9
     else if k \<le> before 11 then 10 else if k \<le> before 12 then 11 else 12)"

lemma div_bounds: "0 < k \<Longrightarrow> k * (p div k) \<le> p \<and> p < k * (p div k) + k" for k p :: int
  using pos_mod_sign [of k p] pos_mod_bound [of k p] mult_div_mod_eq [of k p] by linarith

lemma div_pred: "0 < k \<Longrightarrow> y div k = (y - 1) div k + (if y mod k = 0 then 1 else 0)" for k y :: int
proof -
  assume k: "0 < k"
  have y: "y = k * (y div k) + y mod k" "0 \<le> y mod k" "y mod k < k" using k by simp_all
  show ?thesis
  proof (cases "y mod k = 0")
    case True
    have "(y - 1) div k = y div k - 1"
      by (rule int_div_pos_eq [of _ _ _ "k - 1"]) (use y True k in \<open>simp_all add: algebra_simps\<close>)
    then show ?thesis using True by simp
  next
    case False
    have "(y - 1) div k = y div k"
      by (rule int_div_pos_eq [of _ _ _ "y mod k - 1"]) (use y False in linarith)+
    then show ?thesis using False by simp
  qed
qed

lemma days_before_year_bounds:
  "146097 * (y - 1) - 699 \<le> 400 * days_before_year y" "400 * days_before_year y \<le> 146097 * (y - 1) + 396"
proof -
  define p a b c where d: "p = y - 1" "a = p div 4" "b = p div 100" "c = p div 400"
  have ab: "4 * a \<le> p" "p \<le> 4 * a + 3" "100 * b \<le> p" "p \<le> 100 * b + 99" "400 * c \<le> p" "p \<le> 400 * c + 399"
    using div_bounds [of 4 p] div_bounds [of 100 p] div_bounds [of 400 p] unfolding d by simp_all
  have "days_before_year y = p * 365 + a - b + c" by (simp add: days_before_year_def Let_def d)
  then have e: "400 * days_before_year y = 146000 * p + 400 * a - 400 * b + 400 * c" by simp
  show "146097 * (y - 1) - 699 \<le> 400 * days_before_year y" unfolding e d(1) [symmetric] using ab by linarith
  show "400 * days_before_year y \<le> 146097 * (y - 1) + 396" unfolding e d(1) [symmetric] using ab by linarith
qed

lemma days_before_next_year: "days_before_year (y + 1) = days_before_year y + (if is_leap y then 366 else 365)"
proof -
  define a b c where d: "a = (y - 1) div 4" "b = (y - 1) div 100" "c = (y - 1) div 400"
  have m: "y mod 100 = 0 \<Longrightarrow> y mod 4 = 0" "y mod 400 = 0 \<Longrightarrow> y mod 100 = 0"
    by (auto simp: mod_eq_0_iff_dvd elim: dvd_trans [rotated])
  have n: "y div 4 = a + (if y mod 4 = 0 then 1 else 0)" "y div 100 = b + (if y mod 100 = 0 then 1 else 0)"
    "y div 400 = c + (if y mod 400 = 0 then 1 else 0)" unfolding d by (rule div_pred; simp)+
  have "days_before_year (y + 1) = y * 365 + y div 4 - y div 100 + y div 400" "days_before_year y = (y - 1) * 365 + a - b + c"
    by (simp_all add: days_before_year_def Let_def d)
  then show ?thesis using m unfolding n is_leap_def by (cases "y mod 4 = 0"; cases "y mod 100 = 0"; cases "y mod 400 = 0") simp_all
qed

lemma year_of_day:
  assumes "1 \<le> n" "n \<le> 3652059"
  shows "1 \<le> year_of_day n \<and> year_of_day n \<le> 9999 \<and> days_before_year (year_of_day n) < n \<and>
    n \<le> days_before_year (year_of_day n + 1)"
proof -
  define m where "m = ((n - 1) * 400) div 146097"
  have m: "146097 * m \<le> (n - 1) * 400" "(n - 1) * 400 < 146097 * m + 146097" "0 \<le> m"
    using div_bounds [of 146097 "(n - 1) * 400"] assms unfolding m_def by (simp_all add: pos_imp_zdiv_nonneg_iff)
  have low: "days_before_year (m + 1) < n" using days_before_year_bounds(2) [of "m + 1"] m by simp
  have high: "n \<le> days_before_year (m + 3)" using days_before_year_bounds(1) [of "m + 3"] m by simp
  have y: "year_of_day n = (if days_before_year (m + 2) < n then m + 2 else m + 1)"
    unfolding year_of_day_def m_def [symmetric] Let_def by (simp add: add.commute)
  have last: "days_before_year 10000 = 3652059" by (simp add: days_before_year_def)
  have "146097 * m \<le> n * 400 - 400" using m(1) by simp
  then have "m + 1 \<le> 9999" using assms by linarith
  moreover have "m + 2 \<noteq> 10000" if "days_before_year (m + 2) < n" using that last assms by auto
  ultimately show ?thesis using y low high m(3) by (auto simp: algebra_simps split: if_splits)
qed

lemma days_before_month_values:
  "days_before_month y 1 = 0" "days_before_month y 2 = 31" "days_before_month y 3 = (if is_leap y then 60 else 59)"
  "days_before_month y 4 = (if is_leap y then 91 else 90)" "days_before_month y 5 = (if is_leap y then 121 else 120)"
  "days_before_month y 6 = (if is_leap y then 152 else 151)" "days_before_month y 7 = (if is_leap y then 182 else 181)"
  "days_before_month y 8 = (if is_leap y then 213 else 212)" "days_before_month y 9 = (if is_leap y then 244 else 243)"
  "days_before_month y 10 = (if is_leap y then 274 else 273)" "days_before_month y 11 = (if is_leap y then 305 else 304)"
  "days_before_month y 12 = (if is_leap y then 335 else 334)"
  by (simp_all add: days_before_month_def)

lemma month_of:
  assumes "1 \<le> k" "k \<le> (if is_leap y then 366 else 365)"
  shows "1 \<le> month_of y k \<and> month_of y k \<le> 12 \<and> 1 \<le> k - days_before_month y (month_of y k) \<and>
    k - days_before_month y (month_of y k) \<le> days_in_month y (month_of y k)"
  using assms
  by (cases "is_leap y") (simp_all add: month_of_def Let_def days_before_month_values days_in_month_def split del: if_split split: if_split)

lemma ymd_of_day:
  assumes "1 \<le> n" "n \<le> 3652059" "y = year_of_day n" "k = n - days_before_year y" "m = month_of y k"
  shows "ymd_ordinal y m (k - days_before_month y m) = Some n \<and> 1 \<le> y \<and> y \<le> 9999 \<and> 1 \<le> m \<and> m \<le> 12 \<and>
    1 \<le> k - days_before_month y m \<and> k - days_before_month y m \<le> 31"
proof -
  note y = year_of_day [OF assms(1,2)]
  have "1 \<le> k" "k \<le> (if is_leap y then 366 else 365)"
    using y assms(3,4) days_before_next_year [of y] by (auto split: if_splits)
  from month_of [OF this] show ?thesis
    using y assms(3-5) by (auto simp: ymd_ordinal_def days_in_month_def split: if_splits)
qed

section \<open>The text of an instant\<close>

fun dec :: "nat \<Rightarrow> int \<Rightarrow> string" where
  "dec 0 n = []"
| "dec (Suc k) n = dec k (n div 10) @ [digit_char (nat (n mod 10))]"

definition iso_local :: "int \<Rightarrow> string" where
  "iso_local n =
    (let day = n div 86400000000; t = n mod 86400000000; y = year_of_day day; k = day - days_before_year y; m = month_of y k;
         secs = t div 1000000; us = t mod 1000000
     in dec 4 y @ ''-'' @ dec 2 m @ ''-'' @ dec 2 (k - days_before_month y m) @ ''T'' @
        dec 2 (secs div 3600) @ '':'' @ dec 2 (secs div 60 mod 60) @ '':'' @ dec 2 (secs mod 60) @
        (if us = 0 then [] else ''.'' @ dec 6 us))"

definition iso_utc :: "int \<Rightarrow> string" where
  "iso_utc n = iso_local n @ ''Z''"

text \<open>The instants that a \<open>datetime\<close> can hold: the days 1 to 3652059.\<close>

definition instant_ok :: "int \<Rightarrow> bool" where
  "instant_ok n \<longleftrightarrow> 86400000000 \<le> n \<and> n < 3652060 * 86400000000"

lemma length_dec [simp]: "length (dec k n) = k"
  by (induction k arbitrary: n) auto

lemma dec_digits: "c \<in> set (dec k n) \<Longrightarrow> is_digit c"
  by (induction k arbitrary: n) (auto intro: is_digit_digit_char simp: nat_less_iff)

lemma digits_value_snoc:
  "digits_value acc (s @ [c]) =
     (case digits_value acc s of None \<Rightarrow> None | Some v \<Rightarrow> if is_digit c then Some (10 * v + (ord c - 48)) else None)"
  by (induction s arbitrary: acc) auto

lemma digits_value_dec: "0 \<le> n \<Longrightarrow> n < 10 ^ k \<Longrightarrow> digits_value 0 (dec k n) = Some n"
proof (induction k arbitrary: n)
  case (Suc k)
  have "n div 10 < 10 ^ k" using Suc.prems div_bounds [of 10 n] by simp
  then show ?case
    using Suc by (simp add: digits_value_snoc is_digit_digit_char ord_digit_char nat_less_iff pos_imp_zdiv_nonneg_iff)
qed simp

lemma take_digits_dec: "0 \<le> n \<Longrightarrow> n < 10 ^ k \<Longrightarrow> take_digits k (dec k n @ r) = Some (n, r)"
  by (simp add: take_digits_def digits_value_dec)

lemmas take_digits_2 = take_digits_dec [where k = 2, simplified]

lemma dec2: "\<exists>a b. dec 2 n = [a, b] \<and> is_digit a \<and> is_digit b"
  by (auto simp: numeral_2_eq_2 intro!: is_digit_digit_char simp: nat_less_iff)

lemma digit_not: "is_digit c \<Longrightarrow> c \<noteq> CHR ''W'' \<and> c \<noteq> CHR ''-'' \<and> c \<noteq> CHR ''+'' \<and> c \<noteq> CHR ''Z'' \<and> c \<noteq> CHR '':'' \<and> c \<noteq> CHR ''.''"
  by (auto simp: is_digit_def ord_def)

lemma parse_date_text:
  assumes "0 \<le> y" "y < 10000" "0 \<le> m" "m < 100" "0 \<le> d" "d < 100"
  shows "parse_date (dec 4 y @ CHR ''-'' # dec 2 m @ CHR ''-'' # dec 2 d) = ymd_ordinal y m d"
proof -
  obtain a b where ab: "dec 2 m = [a, b]" "is_digit a" using dec2 by blast
  have "take_digits 4 (dec 4 y @ CHR ''-'' # dec 2 m @ CHR ''-'' # dec 2 d) = Some (y, CHR ''-'' # dec 2 m @ CHR ''-'' # dec 2 d)"
    using assms by (intro take_digits_dec) auto
  moreover have "take_digits 2 (dec 2 m @ CHR ''-'' # dec 2 d) = Some (m, CHR ''-'' # dec 2 d)" "take_digits 2 (dec 2 d) = Some (d, [])"
    using assms take_digits_2 [of d "[]"] by (simp_all add: take_digits_2)
  moreover have "char_at (dec 2 m @ CHR ''-'' # dec 2 d) 0 \<noteq> Some CHR ''W''" using ab digit_not by (simp add: char_at_def)
  ultimately show ?thesis by (simp add: parse_date_def char_at_def)
qed

lemma parse_fraction_text:
  assumes "0 \<le> us" "us < 1000000"
  shows "parse_fraction (dec 6 us) = Some (us, False)"
  using take_digits_dec [of us 6 "[]"] assms by (simp add: parse_fraction_def pow10_def)

lemma parse_hms_text:
  assumes "0 \<le> h" "h < 100" "0 \<le> mi" "mi < 100" "0 \<le> sec" "sec < 100" "0 \<le> us" "us < 1000000"
  shows "parse_hms 3 None (dec 2 h @ CHR '':'' # dec 2 mi @ CHR '':'' # dec 2 sec @ (if us = 0 then [] else CHR ''.'' # dec 6 us)) =
    Some ([h, mi, sec], us, False)"
proof -
  have ne: "dec k n \<noteq> []" if "0 < k" for k n using length_dec [of k n] that by (metis length_greater_0_conv)
  have "parse_hms 1 (Some True) (dec 2 sec @ (if us = 0 then [] else CHR ''.'' # dec 6 us)) = Some ([sec], us, False)"
    using assms parse_fraction_text [of us] ne [of 6 us] take_digits_2 [of sec "[]"] by (auto simp: take_digits_2)
  then show ?thesis
    using assms ne by (simp add: numeral_3_eq_3 take_digits_2)
qed

lemma parse_time_text:
  assumes "0 \<le> h" "h < 24" "0 \<le> mi" "mi < 60" "0 \<le> sec" "sec < 60" "0 \<le> us" "us < 1000000"
  shows "parse_time (dec 2 h @ CHR '':'' # dec 2 mi @ CHR '':'' # dec 2 sec @ (if us = 0 then [] else CHR ''.'' # dec 6 us) @ ''+00:00'') =
    Some ((h * 3600 + mi * 60 + sec) * 1000000 + us, Some 0)" (is "parse_time ?t = _")
proof -
  define b where "b = dec 2 h @ CHR '':'' # dec 2 mi @ CHR '':'' # dec 2 sec @ (if us = 0 then [] else CHR ''.'' # dec 6 us)"
  let ?p = "\<lambda>c. \<not> (c = CHR ''+'' \<or> c = CHR ''-'' \<or> c = CHR ''Z'')"
  have "?p c" if "c \<in> set b" for c
    using that dec_digits [of c] digit_not [of c] by (auto simp: b_def split: if_splits)
  then have "takeWhile ?p (b @ ''+00:00'') = b" by (subst takeWhile_append2) auto
  moreover have t: "?t = b @ ''+00:00''" by (simp add: b_def)
  moreover have "parse_offset CHR ''+'' ''00:00'' = Some 0" by code_simp
  moreover have "time_micros [h, mi, sec] us = Some ((h * 3600 + mi * 60 + sec) * 1000000 + us)"
    using assms by (simp add: time_micros_def time_comp_def)
  moreover have "parse_hms 3 None b = Some ([h, mi, sec], us, False)"
    unfolding b_def using assms by (intro parse_hms_text) auto
  ultimately show ?thesis unfolding t parse_time_def Let_def by (simp del: de_Morgan_disj)
qed

lemma iso_fields:
  fixes t :: int
  assumes "0 \<le> t" "t < 86400000000" "q = t div 1000000"
  shows "0 \<le> q div 3600" "q div 3600 < 24" "(q div 3600 * 3600 + q div 60 mod 60 * 60 + q mod 60) * 1000000 + t mod 1000000 = t"
proof -
  have q: "0 \<le> q" "q < 86400" using assms div_bounds [of 1000000 t] by (simp_all add: pos_imp_zdiv_nonneg_iff)
  then show "0 \<le> q div 3600" "q div 3600 < 24" using div_bounds [of 3600 q] by (simp_all add: pos_imp_zdiv_nonneg_iff)
  have "q div 3600 = q div 60 div 60" using zdiv_zmult2_eq [of 60 q 60] by simp
  moreover have "b * 3600 + c * 60 + e = q" if "b * 60 + c = a" "a * 60 + e = q" for a b c e :: int using that by linarith
  ultimately have "q div 3600 * 3600 + q div 60 mod 60 * 60 + q mod 60 = q"
    using div_mult_mod_eq [of "q div 60" 60] div_mult_mod_eq [of q 60] by metis
  then show "(q div 3600 * 3600 + q div 60 mod 60 * 60 + q mod 60) * 1000000 + t mod 1000000 = t"
    using assms(3) by simp
qed

text \<open>Reading the text of an instant gives the instant.\<close>

lemma fromisoformat_iso:
  assumes "instant_ok n"
  shows "fromisoformat (iso_local n @ ''+00:00'') = Some (n, Some 0)"
proof -
  define day t where d: "day = n div 86400000000" "t = n mod 86400000000"
  define y where "y = year_of_day day"
  define k where "k = day - days_before_year y"
  define m where "m = month_of y k"
  define q where "q = t div 1000000"
  have day: "1 \<le> day" "day \<le> 3652059" "0 \<le> t" "t < 86400000000" "n = day * 86400000000 + t"
    using assms div_bounds [of 86400000000 n] unfolding d instant_ok_def by (simp_all add: pos_imp_zdiv_nonneg_iff)
  note date = ymd_of_day [OF day(1,2) y_def k_def m_def]
  note time = iso_fields [OF day(3,4) q_def]
  let ?date = "dec 4 y @ CHR ''-'' # dec 2 m @ CHR ''-'' # dec 2 (k - days_before_month y m)"
  let ?us = "t mod 1000000"
  let ?time = "dec 2 (q div 3600) @ CHR '':'' # dec 2 (q div 60 mod 60) @ CHR '':'' # dec 2 (q mod 60) @
    (if ?us = 0 then [] else CHR ''.'' # dec 6 ?us) @ ''+00:00''"
  have full: "iso_local n @ ''+00:00'' = ?date @ CHR ''T'' # ?time"
    by (simp add: iso_local_def Let_def d [symmetric] y_def [symmetric] k_def [symmetric] m_def [symmetric] q_def [symmetric])
  have pd: "parse_date ?date = Some day" using parse_date_text date by simp
  have "parse_time ?time = Some ((q div 3600 * 3600 + q div 60 mod 60 * 60 + q mod 60) * 1000000 + ?us, Some 0)"
    using time(1,2) by (intro parse_time_text) simp_all
  then have pt: "parse_time ?time = Some (t, Some 0)" by (simp only: time(3))
  obtain a b where ab: "dec 2 m = [a, b]" "is_digit a" using dec2 by blast
  have len: "length ?date = 10" by simp
  have sep: "separator_location (?date @ CHR ''T'' # ?time) = Some 10"
    using ab digit_not [of a] by (simp add: separator_location_def char_at_def nth_append)
  have "take 10 (?date @ CHR ''T'' # ?time) = ?date" "drop 11 (?date @ CHR ''T'' # ?time) = ?time"
    using len by (simp_all del: append_assoc append.simps)
  then show ?thesis unfolding full fromisoformat_def sep using pd pt day(5) by simp
qed

end
