(* ===== verification/Trust.thy ===== *)
theory Trust
  imports Memory Artifacts Timestamps
begin

text \<open>
  Claims, evidence, inferences and trust assessments, \<open>trust.py\<close>. The three kinds of statement
  share their confidence, uncertainty, review and source, which are one record here
  (\<open>truth_values\<close>); what a statement says is its \<open>truth_content\<close>. A \<open>TruthSource\<close> validates itself
  when it is constructed, so every call that takes one starts with \<open>truth_source\<close>. The text that
  \<open>_utc_now()\<close> returns for a review is the argument \<open>at\<close>.
\<close>

section \<open>Data\<close>

definition ALLOWED_RECORD_KINDS :: "string list" where
  "ALLOWED_RECORD_KINDS = [''claim'', ''evidence'', ''inference'', ''trust_assessment'']"

definition ALLOWED_ACTORS :: "string list" where
  "ALLOWED_ACTORS = [''user'', ''model'', ''runtime'', ''tool'', ''system'', ''importer'', ''migration'']"

definition ALLOWED_ORIGINS :: "string list" where
  "ALLOWED_ORIGINS = [''user_statement'', ''imported_content'', ''external_source'', ''tool_result'', ''runtime_output'',
     ''model_proposal'', ''system_observation'', ''migrated'', ''restored'', ''unknown'']"

definition ALLOWED_REVIEW_STATES :: "string list" where
  "ALLOWED_REVIEW_STATES = [''unreviewed'', ''reviewed'', ''disputed'', ''rejected'']"

definition ALLOWED_EVIDENCE_TYPES :: "string list" where
  "ALLOWED_EVIDENCE_TYPES = [''source'', ''observation'', ''record'', ''artifact'']"

definition ALLOWED_TRUST_LEVELS :: "string list" where
  "ALLOWED_TRUST_LEVELS = [''unknown'', ''distrusted'', ''limited'', ''trusted'']"

definition ALLOWED_TRUST_SUBJECTS :: "string list" where
  "ALLOWED_TRUST_SUBJECTS = [''claim'', ''evidence'', ''inference'', ''confirmed_fact'', ''source'']"

definition ALLOWED_TRUST_ASSESSORS :: "string list" where
  "ALLOWED_TRUST_ASSESSORS = [''user'', ''system'']"

definition ALLOWED_RECORD_PROVENANCE :: "string list" where
  "ALLOWED_RECORD_PROVENANCE = [''user-created'', ''imported'', ''model-proposed'', ''system-generated'', ''migrated'', ''restored'']"

definition MAX_TRUTH_TITLE_LENGTH :: int where "MAX_TRUTH_TITLE_LENGTH = 240"
definition MAX_BODY_LENGTH :: int where "MAX_BODY_LENGTH = 8000"
definition MAX_UNCERTAINTY_LENGTH :: int where "MAX_UNCERTAINTY_LENGTH = 2000"
definition MAX_METHOD_LENGTH :: int where "MAX_METHOD_LENGTH = 1000"
definition MAX_REVIEW_NOTE_LENGTH :: int where "MAX_REVIEW_NOTE_LENGTH = 2000"
definition MAX_TRUST_REASON_LENGTH :: int where "MAX_TRUST_REASON_LENGTH = 2000"
definition TRUTH_IDENTIFIER_LENGTH :: int where "TRUTH_IDENTIFIER_LENGTH = 300"
definition MAX_TRUTH_REFERENCES :: int where "MAX_TRUTH_REFERENCES = 100"
definition MAX_TRUTH_LIST_LIMIT :: int where "MAX_TRUTH_LIST_LIMIT = 200"

record TruthSource =
  ts_origin :: string
  ts_creator :: string
  ts_identifier :: "string option"
  ts_observed_at :: "string option"
  ts_hash :: "string option"
  ts_transformation :: "string option"
  ts_model :: "string option"
  ts_runtime :: "string option"
  ts_session :: "string option"
  ts_operation :: "string option"

record truth_review =
  rw_state :: string
  rw_at :: "string option"
  rw_reviewer :: "string option"
  rw_note :: "string option"

record truth_values =
  tv_confidence :: "json option"
  tv_uncertainty :: "string option"
  tv_review :: truth_review
  tv_source :: TruthSource

datatype truth_content =
    ClaimContent (statement: string)
  | EvidenceContent (evidence_summary: string) (evidence_type: string)
      (supports: "string list") (contradicts: "string list") (contextualizes: "string list")
  | InferenceContent (conclusion: string) (inference_method: string) (claim_ids: "string list") (evidence_ids: "string list")

record trust_values =
  tr_subject_type :: string
  tr_subject_id :: string
  tr_level :: string
  tr_reason :: string
  tr_assessor :: string
  tr_policy :: "string option"
  tr_evidence :: "string list"

datatype truth_payload = Statement string truth_content truth_values | Assessment trust_values

record TruthInfo = typed_info +
  t_provenance :: string
  t_payload :: truth_payload

section \<open>Validators\<close>

abbreviation truth_error :: exc where "truth_error \<equiv> TruthValidationError"

definition control_char :: "char \<Rightarrow> bool" where
  "control_char c \<longleftrightarrow> (let n = ord c in n \<le> 8 \<or> n = 11 \<or> n = 12 \<or> (14 \<le> n \<and> n \<le> 31) \<or> n = 127)"

definition truth_text :: "int \<Rightarrow> string \<Rightarrow> string res" where
  "truth_text maximum value =
     (let normalized = norm_ws value in
      bindr (require (normalized \<noteq> []) truth_error) (\<lambda>_.
      bindr (require (\<not> maximum < int (length normalized)) truth_error) (\<lambda>_.
      bindr (require (\<not> list_ex control_char normalized) truth_error) (\<lambda>_.
      bindr (rescue (\<lambda>_. True) truth_error
               (bindr (reject_secret_text normalized) (\<lambda>_. reject_local_path normalized))) (\<lambda>_.
      Inr normalized)))))"

definition truth_identifier :: "string \<Rightarrow> string res" where
  "truth_identifier = truth_text TRUTH_IDENTIFIER_LENGTH"

definition truth_uuid :: "string \<Rightarrow> string res" where
  "truth_uuid value =
     bindr (of_option truth_error (uuid value)) (\<lambda>normalized.
     bindr (require (normalized = lower value) truth_error) (\<lambda>_. Inr normalized))"

definition truth_ids :: "string list \<Rightarrow> string list res" where
  "truth_ids values =
     bindr (require (\<not> MAX_TRUTH_REFERENCES < int (length values)) truth_error) (\<lambda>_.
     bindr (map_res truth_uuid values) (\<lambda>result.
     bindr (require (distinct result) truth_error) (\<lambda>_. Inr result)))"

definition truth_confidence :: "json option \<Rightarrow> json option res" where
  "truth_confidence value =
     (case value of
        None \<Rightarrow> Inr None
      | Some JNull \<Rightarrow> Inr None
      | Some (JInt n) \<Rightarrow>
          if float_overflows n then Inl OverflowError
          else if n = 0 then Inr (Some (JFloat ''0.0''))
          else if n = 1 then Inr (Some (JFloat ''1.0''))
          else Inl truth_error
      | Some (JFloat r) \<Rightarrow> if finite_float r \<and> unit_float r then Inr (Some (JFloat r)) else Inl truth_error
      | _ \<Rightarrow> Inl truth_error)"

definition truth_hash :: "string \<Rightarrow> string res" where
  "truth_hash value =
     (let normalized = lower (strip value) in
      bindr (require (re_fullmatch CONTENT_HASH_PATTERN normalized) truth_error) (\<lambda>_. Inr normalized))"

text \<open>\<open>value.replace("Z", "+00:00")\<close>, and the conversion of an aware value to UTC, which fails when
  the instant leaves the years 1 to 9999.\<close>

definition zulu_offset :: "string \<Rightarrow> string" where
  "zulu_offset value = concat (map (\<lambda>c. if c = CHR ''Z'' then ''+00:00'' else [c]) value)"

definition truth_utc :: "string \<Rightarrow> string res" where
  "truth_utc value =
     (case fromisoformat (zulu_offset value) of
        None \<Rightarrow> Inl truth_error
      | Some (t, None) \<Rightarrow> Inl truth_error
      | Some (t, Some offset) \<Rightarrow>
          if instant_ok (instant (t, offset)) then Inr (iso_utc (instant (t, offset))) else Inl OverflowError)"

abbreviation truth_opt_text :: "int \<Rightarrow> string option \<Rightarrow> string option res" where
  "truth_opt_text maximum \<equiv> opt_res (truth_text maximum)"

abbreviation truth_opt_identifier :: "string option \<Rightarrow> string option res" where
  "truth_opt_identifier \<equiv> opt_res truth_identifier"

definition truth_listed :: "string list \<Rightarrow> string \<Rightarrow> string res" where
  "truth_listed allowed value = bindr (require (List.member allowed value) truth_error) (\<lambda>_. Inr value)"

definition trust_assessor :: "string \<Rightarrow> string res" where
  "trust_assessor value =
     bindr (require (List.member ALLOWED_TRUST_ASSESSORS value) ForbiddenTruthMutationError) (\<lambda>_. Inr value)"

definition truth_str :: "dict \<Rightarrow> string \<Rightarrow> string res" where
  "truth_str m key = (case map_of m key of Some (JStr value) \<Rightarrow> Inr value | _ \<Rightarrow> Inl truth_error)"

definition truth_opt_str :: "dict \<Rightarrow> string \<Rightarrow> string option res" where
  "truth_opt_str m key =
     (case map_of m key of None \<Rightarrow> Inr None | Some JNull \<Rightarrow> Inr None | Some (JStr value) \<Rightarrow> Inr (Some value) | _ \<Rightarrow> Inl truth_error)"

definition truth_meta_ids :: "dict \<Rightarrow> string \<Rightarrow> string list res" where
  "truth_meta_ids m key = bindr (meta_strings truth_error m key) truth_ids"

fun disjoint_relations :: "string list \<Rightarrow> string list list \<Rightarrow> unit res" where
  "disjoint_relations seen [] = Inr ()"
| "disjoint_relations seen (g # gs) =
     bindr (require (set seen \<inter> set g = {}) truth_error) (\<lambda>_. disjoint_relations (seen @ g) gs)"

section \<open>Sources and reviews\<close>

definition source_rules :: "TruthSource \<Rightarrow> unit res" where
  "source_rules v =
    (let x = truth_error; o1 = ts_origin v; c = ts_creator v in
     bindr (require (\<not> (o1 = ''user_statement'' \<and> c \<noteq> ''user'')) x) (\<lambda>_.
     bindr (require (\<not> (o1 = ''imported_content'' \<and> c \<noteq> ''importer'')) x) (\<lambda>_.
     bindr (require (\<not> (o1 = ''imported_content'' \<and> (ts_identifier v = None \<or> ts_operation v = None))) x) (\<lambda>_.
     bindr (require (\<not> (o1 = ''external_source'' \<and> ts_identifier v = None)) x) (\<lambda>_.
     bindr (require (\<not> (o1 = ''tool_result'' \<and> c \<noteq> ''tool'')) x) (\<lambda>_.
     bindr (require (\<not> (o1 = ''tool_result'' \<and> (ts_identifier v = None \<or> ts_operation v = None))) x) (\<lambda>_.
     bindr (require (\<not> (o1 = ''runtime_output'' \<and> c \<noteq> ''runtime'')) x) (\<lambda>_.
     bindr (require (\<not> (o1 = ''runtime_output'' \<and> (ts_runtime v = None \<or> ts_operation v = None))) x) (\<lambda>_.
     bindr (require (\<not> (o1 = ''model_proposal'' \<and> c \<noteq> ''model'')) x) (\<lambda>_.
     bindr (require (\<not> (o1 = ''model_proposal'' \<and>
              list_ex (\<lambda>w. w = None) [ts_model v, ts_runtime v, ts_session v, ts_operation v])) x) (\<lambda>_.
     bindr (require (\<not> (o1 = ''system_observation'' \<and> c \<noteq> ''system'')) x) (\<lambda>_.
     bindr (require (\<not> (o1 = ''migrated'' \<and> c \<noteq> ''migration'')) x) (\<lambda>_.
     bindr (require (\<not> (o1 = ''restored'' \<and> c \<noteq> ''system'')) x) (\<lambda>_.
     case map_of [(''model'', ''model_proposal''), (''runtime'', ''runtime_output''), (''tool'', ''tool_result''),
                  (''importer'', ''imported_content''), (''migration'', ''migrated'')] c of
       None \<Rightarrow> Inr ()
     | Some required \<Rightarrow> require (o1 = required) x))))))))))))))"

definition truth_source :: "TruthSource \<Rightarrow> TruthSource res" where
  "truth_source v =
     bindr (truth_listed ALLOWED_ORIGINS (ts_origin v)) (\<lambda>origin.
     bindr (truth_listed ALLOWED_ACTORS (ts_creator v)) (\<lambda>creator.
     bindr (truth_opt_identifier (ts_identifier v)) (\<lambda>ident.
     bindr (opt_res truth_utc (ts_observed_at v)) (\<lambda>observed.
     bindr (opt_res truth_hash (ts_hash v)) (\<lambda>hash.
     bindr (truth_opt_text MAX_METHOD_LENGTH (ts_transformation v)) (\<lambda>transformation.
     bindr (truth_opt_identifier (ts_model v)) (\<lambda>model.
     bindr (truth_opt_identifier (ts_runtime v)) (\<lambda>runtime.
     bindr (truth_opt_identifier (ts_session v)) (\<lambda>session.
     bindr (truth_opt_identifier (ts_operation v)) (\<lambda>operation.
     let w = \<lparr>ts_origin = origin, ts_creator = creator, ts_identifier = ident, ts_observed_at = observed, ts_hash = hash,
              ts_transformation = transformation, ts_model = model, ts_runtime = runtime, ts_session = session,
              ts_operation = operation\<rparr> in
     bindr (source_rules w) (\<lambda>_. Inr w)))))))))))"

definition source_metadata :: "TruthSource \<Rightarrow> dict" where
  "source_metadata v =
     [(''origin_type'', JStr (ts_origin v)), (''creator_actor_type'', JStr (ts_creator v)),
      (''source_identifier'', opt_json (ts_identifier v)), (''observed_at'', opt_json (ts_observed_at v)),
      (''source_content_hash'', opt_json (ts_hash v)), (''transformation_method'', opt_json (ts_transformation v)),
      (''model_manifest_id'', opt_json (ts_model v)), (''runtime_adapter_id'', opt_json (ts_runtime v)),
      (''session_id'', opt_json (ts_session v)), (''origin_operation_id'', opt_json (ts_operation v))]"

definition source_from_metadata :: "dict \<Rightarrow> TruthSource res" where
  "source_from_metadata m =
     bindr (truth_str m ''origin_type'') (\<lambda>origin.
     bindr (truth_str m ''creator_actor_type'') (\<lambda>creator.
     bindr (truth_opt_str m ''source_identifier'') (\<lambda>ident.
     bindr (truth_opt_str m ''observed_at'') (\<lambda>observed.
     bindr (truth_opt_str m ''source_content_hash'') (\<lambda>hash.
     bindr (truth_opt_str m ''transformation_method'') (\<lambda>transformation.
     bindr (truth_opt_str m ''model_manifest_id'') (\<lambda>model.
     bindr (truth_opt_str m ''runtime_adapter_id'') (\<lambda>runtime.
     bindr (truth_opt_str m ''session_id'') (\<lambda>session.
     bindr (truth_opt_str m ''origin_operation_id'') (\<lambda>operation.
     truth_source \<lparr>ts_origin = origin, ts_creator = creator, ts_identifier = ident, ts_observed_at = observed,
       ts_hash = hash, ts_transformation = transformation, ts_model = model, ts_runtime = runtime, ts_session = session,
       ts_operation = operation\<rparr>))))))))))"

definition record_provenance :: "TruthSource \<Rightarrow> string" where
  "record_provenance v =
     (if ts_origin v = ''migrated'' then ''migrated''
      else if ts_origin v = ''restored'' then ''restored''
      else if ts_origin v = ''imported_content'' \<or> ts_creator v = ''importer'' then ''imported''
      else if ts_origin v = ''model_proposal'' \<or> ts_creator v = ''model'' then ''model-proposed''
      else if ts_creator v = ''user'' then ''user-created''
      else ''system-generated'')"

definition initial_review_values :: "string \<Rightarrow> string \<Rightarrow> string \<Rightarrow> string option \<Rightarrow> truth_review res" where
  "initial_review_values at actor state note =
     bindr (truth_listed ALLOWED_REVIEW_STATES state) (\<lambda>safe_state.
     bindr (truth_opt_text MAX_REVIEW_NOTE_LENGTH note) (\<lambda>safe_note.
     bindr (require (\<not> (actor \<noteq> ''user'' \<and> safe_state \<noteq> ''unreviewed'')) ForbiddenTruthMutationError) (\<lambda>_.
     if safe_state = ''unreviewed'' then
       bindr (require (safe_note = None) truth_error) (\<lambda>_.
       Inr \<lparr>rw_state = ''unreviewed'', rw_at = None, rw_reviewer = None, rw_note = None\<rparr>)
     else Inr \<lparr>rw_state = safe_state, rw_at = Some at, rw_reviewer = Some ''user'', rw_note = safe_note\<rparr>)))"

definition review_metadata :: "truth_review \<Rightarrow> dict" where
  "review_metadata w =
     [(''review_state'', JStr (rw_state w)), (''reviewed_at'', opt_json (rw_at w)),
      (''reviewer_actor_type'', opt_json (rw_reviewer w)), (''review_note'', opt_json (rw_note w))]"

definition review_from_metadata :: "dict \<Rightarrow> truth_review res" where
  "review_from_metadata m =
     bindr (bindr (truth_str m ''review_state'') (truth_listed ALLOWED_REVIEW_STATES)) (\<lambda>state.
     bindr (bindr (truth_opt_str m ''reviewed_at'') (opt_res truth_utc)) (\<lambda>reviewed_at.
     bindr (truth_opt_str m ''reviewer_actor_type'') (\<lambda>reviewer.
     bindr (bindr (truth_opt_str m ''review_note'') (truth_opt_text MAX_REVIEW_NOTE_LENGTH)) (\<lambda>note.
     if state = ''unreviewed'' then
       bindr (require (\<not> (reviewed_at \<noteq> None \<or> reviewer \<noteq> None \<or> note \<noteq> None)) truth_error) (\<lambda>_.
       Inr \<lparr>rw_state = state, rw_at = None, rw_reviewer = None, rw_note = None\<rparr>)
     else
       bindr (require (\<not> (reviewed_at = None \<or> reviewer \<noteq> Some ''user'')) truth_error) (\<lambda>_.
       Inr \<lparr>rw_state = state, rw_at = reviewed_at, rw_reviewer = Some ''user'', rw_note = note\<rparr>)))))"

section \<open>Reading\<close>

definition validate_truth_envelope :: "RecordEnvelope \<Rightarrow> unit res" where
  "validate_truth_envelope r =
     bindr (require (List.member ALLOWED_RECORD_KINDS (record_type r)) truth_error) (\<lambda>_.
     bindr (require (rec_schema_version r = 1) truth_error) (\<lambda>_.
     bindr (require (\<not> revision r < 1) truth_error) (\<lambda>_.
     bindr (require (List.member [''active'', ''archived''] (rec_status r)) truth_error) (\<lambda>_.
     bindr (require (List.member ALLOWED_RECORD_PROVENANCE (provenance r)) truth_error) (\<lambda>_.
     require (List.member ALLOWED_SENSITIVITY (sensitivity r)) truth_error)))))"

definition record_title :: "dict \<Rightarrow> string option \<Rightarrow> string res" where
  "record_title m ttl =
     bindr (bindr (truth_str m ''title'') (truth_text MAX_TRUTH_TITLE_LENGTH)) (\<lambda>t.
     bindr (require (ttl = Some t) truth_error) (\<lambda>_. Inr t))"

definition common_fields :: "dict \<Rightarrow> string \<Rightarrow> truth_values res" where
  "common_fields m prov =
     bindr (truth_confidence (map_of m ''confidence'')) (\<lambda>confidence.
     bindr (bindr (truth_opt_str m ''uncertainty'') (truth_opt_text MAX_UNCERTAINTY_LENGTH)) (\<lambda>uncertainty.
     bindr (review_from_metadata m) (\<lambda>review.
     bindr (source_from_metadata m) (\<lambda>source.
     bindr (require (prov = record_provenance source) truth_error) (\<lambda>_.
     Inr \<lparr>tv_confidence = confidence, tv_uncertainty = uncertainty, tv_review = review, tv_source = source\<rparr>)))))"

definition claim_content :: "dict \<Rightarrow> truth_content res" where
  "claim_content m =
     bindr (bindr (truth_str m ''statement'') (truth_text MAX_BODY_LENGTH)) (\<lambda>t. Inr (ClaimContent t))"

definition evidence_content :: "dict \<Rightarrow> truth_content res" where
  "evidence_content m =
     bindr (bindr (truth_str m ''summary'') (truth_text MAX_BODY_LENGTH)) (\<lambda>t.
     bindr (bindr (truth_str m ''evidence_type'') (truth_listed ALLOWED_EVIDENCE_TYPES)) (\<lambda>etype.
     bindr (truth_meta_ids m ''supports_claim_ids'') (\<lambda>sups.
     bindr (truth_meta_ids m ''contradicts_claim_ids'') (\<lambda>con.
     bindr (truth_meta_ids m ''contextualizes_claim_ids'') (\<lambda>ctx.
     bindr (disjoint_relations [] [sups, con, ctx]) (\<lambda>_.
     bindr (require (sups \<noteq> [] \<or> con \<noteq> [] \<or> ctx \<noteq> []) truth_error) (\<lambda>_.
     Inr (EvidenceContent t etype sups con ctx))))))))"

definition inference_content :: "dict \<Rightarrow> truth_content res" where
  "inference_content m =
     bindr (bindr (truth_str m ''conclusion'') (truth_text MAX_BODY_LENGTH)) (\<lambda>t.
     bindr (bindr (truth_str m ''method'') (truth_text MAX_METHOD_LENGTH)) (\<lambda>method.
     bindr (truth_meta_ids m ''claim_ids'') (\<lambda>claims.
     bindr (truth_meta_ids m ''evidence_ids'') (\<lambda>evidence.
     bindr (require (claims \<noteq> [] \<or> evidence \<noteq> []) truth_error) (\<lambda>_.
     Inr (InferenceContent t method claims evidence))))))"

definition statement_fields :: "(dict \<Rightarrow> truth_content res) \<Rightarrow> dict \<Rightarrow> string option \<Rightarrow> string \<Rightarrow> truth_payload res" where
  "statement_fields content m ttl prov =
     bindr (record_title m ttl) (\<lambda>t.
     bindr (content m) (\<lambda>c.
     bindr (common_fields m prov) (\<lambda>v. Inr (Statement t c v))))"

definition trust_title :: "string \<Rightarrow> string" where
  "trust_title subject_type = ''Trust assessment: '' @ subject_type"

definition assessor_provenance :: "string \<Rightarrow> string" where
  "assessor_provenance assessor = (if assessor = ''user'' then ''user-created'' else ''system-generated'')"

definition trust_fields :: "dict \<Rightarrow> string option \<Rightarrow> string \<Rightarrow> truth_payload res" where
  "trust_fields m ttl prov =
     bindr (truth_str m ''subject_type'') (\<lambda>raw.
     bindr (require (ttl = Some (trust_title raw)) truth_error) (\<lambda>_.
     bindr (truth_listed ALLOWED_TRUST_SUBJECTS raw) (\<lambda>subject_type.
     bindr (bindr (truth_str m ''subject_id'') truth_identifier) (\<lambda>subject_id.
     bindr (bindr (truth_str m ''level'') (truth_listed ALLOWED_TRUST_LEVELS)) (\<lambda>level.
     bindr (bindr (truth_str m ''reason'') (truth_text MAX_TRUST_REASON_LENGTH)) (\<lambda>reason.
     bindr (bindr (truth_str m ''assessor_type'') trust_assessor) (\<lambda>assessor.
     bindr (bindr (truth_opt_str m ''policy_reference'') truth_opt_identifier) (\<lambda>policy.
     bindr (require (\<not> (assessor = ''system'' \<and> policy = None)) truth_error) (\<lambda>_.
     bindr (truth_meta_ids m ''evidence_ids'') (\<lambda>evidence.
     bindr (require (prov = assessor_provenance assessor) truth_error) (\<lambda>_.
     Inr (Assessment \<lparr>tr_subject_type = subject_type, tr_subject_id = subject_id, tr_level = level, tr_reason = reason,
       tr_assessor = assessor, tr_policy = policy, tr_evidence = evidence\<rparr>))))))))))))"

definition truth_fields :: "string \<Rightarrow> dict \<Rightarrow> string option \<Rightarrow> string \<Rightarrow> truth_payload res" where
  "truth_fields kind =
     (if kind = ''claim'' then statement_fields claim_content
      else if kind = ''evidence'' then statement_fields evidence_content
      else if kind = ''inference'' then statement_fields inference_content
      else if kind = ''trust_assessment'' then trust_fields
      else (\<lambda>_ _ _. Inl truth_error))"

definition truth_parts :: "RecordEnvelope \<Rightarrow> truth_payload res" where
  "truth_parts r =
     bindr (validate_truth_envelope r) (\<lambda>_.
     bindr (truth_str (metadata r) ''truth_kind'') (\<lambda>kind.
     bindr (require (kind = record_type r) truth_error) (\<lambda>_.
     truth_fields kind (metadata r) (rec_title r) (provenance r))))"

definition truth_info :: "RecordEnvelope \<Rightarrow> truth_payload \<Rightarrow> TruthInfo" where
  "truth_info r p =
     \<lparr>i_record_id = rec_id r, i_revision = revision r, i_status = rec_status r, i_sensitivity = sensitivity r,
      i_created_at = created_at r, i_updated_at = updated_at r, t_provenance = provenance r, t_payload = p\<rparr>"

definition is_malformed_truth :: "exc \<Rightarrow> bool" where
  "is_malformed_truth x \<longleftrightarrow> x = KeyError \<or> x = ValueError \<or> x = TruthValidationError"

definition parse_truth_record :: "RecordEnvelope \<Rightarrow> TruthInfo res" where
  "parse_truth_record r =
     bindr (rescue is_malformed_truth TruthCorruptError (truth_parts r)) (\<lambda>p. Inr (truth_info r p))"

definition evidence_from_record :: "RecordEnvelope \<Rightarrow> TruthInfo res" where
  "evidence_from_record r =
     bindr (parse_truth_record r) (\<lambda>info.
     case t_payload info of
       Statement _ (EvidenceContent _ _ _ _ _) _ \<Rightarrow> Inr info
     | _ \<Rightarrow> Inl TruthCorruptError)"

definition require_truth_type :: "string \<Rightarrow> string \<Rightarrow> repo \<Rightarrow> RecordEnvelope res" where
  "require_truth_type i expected s =
     bindr (truth_uuid i) (\<lambda>safe_id.
     bindr (rescue (\<lambda>x. x = KeyError) truth_error (get_record safe_id s)) (\<lambda>r.
     bindr (require (record_type r = expected) truth_error) (\<lambda>_. Inr r)))"

definition truth_get :: "string \<Rightarrow> string \<Rightarrow> repo \<Rightarrow> TruthInfo res" where
  "truth_get kind i s = bindr (require_truth_type i kind s) parse_truth_record"

definition truth_list :: "string \<Rightarrow> bool \<Rightarrow> int \<Rightarrow> repo \<Rightarrow> TruthInfo list res" where
  "truth_list kind include_archived limit s =
     bindr (require (List.member ALLOWED_RECORD_KINDS kind) truth_error) (\<lambda>_.
     bindr (require (1 \<le> limit \<and> limit \<le> MAX_TRUTH_LIST_LIMIT) truth_error) (\<lambda>_.
     map_res (\<lambda>r. bindr (get_record (rec_id r) s) parse_truth_record) (listed kind include_archived limit s)))"

definition validate_record_references :: "string list \<Rightarrow> string \<Rightarrow> repo \<Rightarrow> unit res" where
  "validate_record_references is expected s =
     bindr (map_res (\<lambda>i. bindr (require_truth_type i expected s) parse_truth_record) is) (\<lambda>_. Inr ())"

definition validate_trust_subject :: "string \<Rightarrow> string \<Rightarrow> repo \<Rightarrow> unit res" where
  "validate_trust_subject subject_type subject_id s =
     (if subject_type = ''source'' then Inr ()
      else bindr (require_truth_type subject_id (if subject_type = ''confirmed_fact'' then ''memory'' else subject_type) s) (\<lambda>r.
        if subject_type = ''confirmed_fact''
        then rescue (\<lambda>x. x = MemoryCorruptError) truth_error (bindr (memory_from_record r) (\<lambda>_. Inr ()))
        else bindr (parse_truth_record r) (\<lambda>_. Inr ())))"

section \<open>Writing\<close>

definition content_metadata :: "truth_content \<Rightarrow> dict" where
  "content_metadata c =
     (case c of
        ClaimContent t \<Rightarrow> [(''statement'', JStr t)]
      | EvidenceContent t etype sups con ctx \<Rightarrow>
          [(''summary'', JStr t), (''evidence_type'', JStr etype), (''supports_claim_ids'', str_list sups),
           (''contradicts_claim_ids'', str_list con), (''contextualizes_claim_ids'', str_list ctx)]
      | InferenceContent t method claims evidence \<Rightarrow>
          [(''conclusion'', JStr t), (''method'', JStr method), (''claim_ids'', str_list claims), (''evidence_ids'', str_list evidence)])"

definition content_kind :: "truth_content \<Rightarrow> string" where
  "content_kind c = (case c of ClaimContent _ \<Rightarrow> ''claim'' | EvidenceContent _ _ _ _ _ \<Rightarrow> ''evidence'' | InferenceContent _ _ _ _ \<Rightarrow> ''inference'')"

definition common_metadata :: "truth_values \<Rightarrow> dict" where
  "common_metadata v =
     [(''confidence'', case tv_confidence v of None \<Rightarrow> JNull | Some c \<Rightarrow> c), (''uncertainty'', opt_json (tv_uncertainty v))] @
     review_metadata (tv_review v) @ source_metadata (tv_source v)"

definition statement_metadata :: "string \<Rightarrow> truth_content \<Rightarrow> truth_values \<Rightarrow> dict" where
  "statement_metadata t c v =
     [(''truth_kind'', JStr (content_kind c)), (''title'', JStr t)] @ content_metadata c @ common_metadata v"

definition trust_metadata :: "trust_values \<Rightarrow> dict" where
  "trust_metadata v =
     [(''truth_kind'', JStr ''trust_assessment''), (''subject_type'', JStr (tr_subject_type v)), (''subject_id'', JStr (tr_subject_id v)),
      (''level'', JStr (tr_level v)), (''reason'', JStr (tr_reason v)), (''assessor_type'', JStr (tr_assessor v)),
      (''policy_reference'', opt_json (tr_policy v)), (''evidence_ids'', str_list (tr_evidence v))]"

definition meta_count :: "dict \<Rightarrow> string \<Rightarrow> json res" where
  "meta_count m key = bindr (meta_list truth_error m key) (\<lambda>xs. Inr (JInt (int (length xs))))"

definition truth_audit_metadata :: "dict \<Rightarrow> dict res" where
  "truth_audit_metadata m =
     bindr (truth_str m ''truth_kind'') (\<lambda>kind.
     bindr (if List.member [''claim'', ''evidence'', ''inference''] kind then
              bindr (truth_str m ''origin_type'') (\<lambda>origin.
              bindr (truth_str m ''review_state'') (\<lambda>state.
              Inr [(''origin_type'', JStr origin), (''review_state'', JStr state),
                   (''confidence_present'', JBool (present m ''confidence'')),
                   (''uncertainty_present'', JBool (present m ''uncertainty'')),
                   (''source_identifier_present'', JBool (present m ''source_identifier'')),
                   (''source_hash_present'', JBool (present m ''source_content_hash''))]))
            else Inr []) (\<lambda>base.
     bindr (if kind = ''evidence'' then
              bindr (meta_count m ''supports_claim_ids'') (\<lambda>a.
              bindr (meta_count m ''contradicts_claim_ids'') (\<lambda>b.
              bindr (meta_count m ''contextualizes_claim_ids'') (\<lambda>c.
              Inr [(''supports_count'', a), (''contradicts_count'', b), (''context_count'', c)])))
            else if kind = ''inference'' then
              bindr (meta_count m ''claim_ids'') (\<lambda>a.
              bindr (meta_count m ''evidence_ids'') (\<lambda>b. Inr [(''claim_count'', a), (''evidence_count'', b)]))
            else if kind = ''trust_assessment'' then
              bindr (truth_str m ''subject_type'') (\<lambda>subject_type.
              bindr (truth_str m ''level'') (\<lambda>level.
              bindr (truth_str m ''assessor_type'') (\<lambda>assessor.
              bindr (meta_count m ''evidence_ids'') (\<lambda>n.
              Inr [(''subject_type'', JStr subject_type), (''level'', JStr level), (''assessor_type'', JStr assessor),
                   (''evidence_count'', n), (''policy_reference_present'', JBool (present m ''policy_reference''))]))))
            else Inr []) (\<lambda>rest.
     Inr ((''truth_kind'', JStr kind) # base @ rest))))"

definition audit_actor :: "string \<Rightarrow> string" where
  "audit_actor actor = (if actor = ''tool'' then ''capability'' else if actor = ''importer'' then ''system'' else actor)"

definition truth_summary :: string where "truth_summary = ''Changed truth-status or trust record''"

definition create_truth_record ::
  "env \<Rightarrow> string \<Rightarrow> string \<Rightarrow> dict \<Rightarrow> string \<Rightarrow> string \<Rightarrow> string option \<Rightarrow> string \<Rightarrow> dict \<Rightarrow> (repo, string) op" where
  "create_truth_record e rtype ttl m prov sens op actor am =
     bind_op (lift_op (\<lambda>s.
       bindr (require (\<not> read_only s) ReadOnlyStateError) (\<lambda>_.
       bindr (validate_record_fields rtype 1 ''active'' prov sens) (\<lambda>_.
       validate_secret_boundary rtype sens m))))
     (\<lambda>_. store_create e
       \<lparr>dr_id = new_uuid e, dr_type = rtype, dr_version = 1, dr_prov = prov, dr_sens = sens, dr_title = ttl, dr_meta = m\<rparr>
       op (audit_actor actor) (''truth.'' @ rtype @ ''.create'') truth_summary (Inr am))"

text \<open>The \<open>UPDATE\<close> leaves provenance and title of the row as they are; a record that was parsed has
  a title.\<close>

definition update_truth_record ::
  "env \<Rightarrow> RecordEnvelope \<Rightarrow> int \<Rightarrow> dict \<Rightarrow> string \<Rightarrow> string option \<Rightarrow> string \<Rightarrow> string \<Rightarrow> dict \<Rightarrow> (repo, unit) op" where
  "update_truth_record e current expected m stat op actor act am =
     store_update e truth_error current expected
       \<lparr>rv_version = None, rv_status = stat, rv_prov = provenance current,
        rv_title = (case rec_title current of None \<Rightarrow> [] | Some t \<Rightarrow> t), rv_meta = m\<rparr>
       op (bindr (validate_secret_boundary (record_type current) (sensitivity current) m) (\<lambda>_.
           bindr (serialize_metadata m) (\<lambda>_. Inr ())))
       (audit_actor actor) act truth_summary (Inr am)"

record truth_request =
  rq_title :: string
  rq_source :: TruthSource
  rq_confidence :: "json option"
  rq_uncertainty :: "string option"
  rq_state :: string
  rq_note :: "string option"
  rq_operation :: "string option"
  rq_sensitivity :: string

definition common_values :: "string \<Rightarrow> truth_request \<Rightarrow> TruthSource \<Rightarrow> truth_values res" where
  "common_values at q source =
     bindr (truth_confidence (rq_confidence q)) (\<lambda>confidence.
     bindr (truth_opt_text MAX_UNCERTAINTY_LENGTH (rq_uncertainty q)) (\<lambda>uncertainty.
     bindr (initial_review_values at (ts_creator source) (rq_state q) (rq_note q)) (\<lambda>review.
     Inr \<lparr>tv_confidence = confidence, tv_uncertainty = uncertainty, tv_review = review, tv_source = source\<rparr>)))"

text \<open>The end of \<open>create_claim\<close>, \<open>create_evidence\<close> and \<open>create_inference\<close>: audit metadata, the
  transaction and the read.\<close>

definition create_statement ::
  "env \<Rightarrow> string \<Rightarrow> (repo \<Rightarrow> (string \<times> truth_content \<times> truth_values) res) \<Rightarrow> truth_request \<Rightarrow> (repo, TruthInfo) op" where
  "create_statement e kind prep q =
     bind_op (lift_op (\<lambda>s.
       bindr (prep s) (\<lambda>(t, c, v).
       bindr (truth_audit_metadata (statement_metadata t c v)) (\<lambda>am. Inr (t, c, v, am))))) (\<lambda>(t, c, v, am).
     bind_op (create_truth_record e kind t (statement_metadata t c v) (record_provenance (tv_source v))
                (rq_sensitivity q) (rq_operation q) (ts_creator (tv_source v)) am)
       (\<lambda>i. lift_op (truth_get kind i)))"

definition prepare_claim :: "string \<Rightarrow> truth_request \<Rightarrow> string \<Rightarrow> repo \<Rightarrow> (string \<times> truth_content \<times> truth_values) res" where
  "prepare_claim at q statement_text s =
     bindr (truth_source (rq_source q)) (\<lambda>source.
     bindr (truth_text MAX_TRUTH_TITLE_LENGTH (rq_title q)) (\<lambda>t.
     bindr (truth_text MAX_BODY_LENGTH statement_text) (\<lambda>body.
     bindr (common_values at q source) (\<lambda>v.
     Inr (t, ClaimContent body, v)))))"

definition create_claim :: "env \<Rightarrow> string \<Rightarrow> truth_request \<Rightarrow> string \<Rightarrow> (repo, TruthInfo) op" where
  "create_claim e at q statement_text = create_statement e ''claim'' (prepare_claim at q statement_text) q"

definition prepare_evidence ::
  "string \<Rightarrow> truth_request \<Rightarrow> string \<Rightarrow> string \<Rightarrow> string list \<Rightarrow> string list \<Rightarrow> string list \<Rightarrow> repo \<Rightarrow>
   (string \<times> truth_content \<times> truth_values) res" where
  "prepare_evidence at q body etype sups con ctx s =
     bindr (truth_source (rq_source q)) (\<lambda>source.
     bindr (truth_text MAX_TRUTH_TITLE_LENGTH (rq_title q)) (\<lambda>t.
     bindr (truth_text MAX_BODY_LENGTH body) (\<lambda>safe_body.
     bindr (truth_listed ALLOWED_EVIDENCE_TYPES etype) (\<lambda>safe_type.
     bindr (truth_ids sups) (\<lambda>supports.
     bindr (truth_ids con) (\<lambda>contradicts.
     bindr (truth_ids ctx) (\<lambda>contextualizes.
     bindr (disjoint_relations [] [supports, contradicts, contextualizes]) (\<lambda>_.
     bindr (require (supports \<noteq> [] \<or> contradicts \<noteq> [] \<or> contextualizes \<noteq> []) truth_error) (\<lambda>_.
     bindr (validate_record_references (supports @ contradicts @ contextualizes) ''claim'' s) (\<lambda>_.
     bindr (common_values at q source) (\<lambda>v.
     Inr (t, EvidenceContent safe_body safe_type supports contradicts contextualizes, v))))))))))))"

definition create_evidence ::
  "env \<Rightarrow> string \<Rightarrow> truth_request \<Rightarrow> string \<Rightarrow> string \<Rightarrow> string list \<Rightarrow> string list \<Rightarrow> string list \<Rightarrow> (repo, TruthInfo) op" where
  "create_evidence e at q body etype sups con ctx = create_statement e ''evidence'' (prepare_evidence at q body etype sups con ctx) q"

definition prepare_inference ::
  "string \<Rightarrow> truth_request \<Rightarrow> string \<Rightarrow> string \<Rightarrow> string list \<Rightarrow> string list \<Rightarrow> repo \<Rightarrow>
   (string \<times> truth_content \<times> truth_values) res" where
  "prepare_inference at q body method claims evidence s =
     bindr (truth_source (rq_source q)) (\<lambda>source.
     bindr (truth_text MAX_TRUTH_TITLE_LENGTH (rq_title q)) (\<lambda>t.
     bindr (truth_text MAX_BODY_LENGTH body) (\<lambda>safe_body.
     bindr (truth_text MAX_METHOD_LENGTH method) (\<lambda>safe_method.
     bindr (truth_ids claims) (\<lambda>safe_claims.
     bindr (truth_ids evidence) (\<lambda>safe_evidence.
     bindr (require (safe_claims \<noteq> [] \<or> safe_evidence \<noteq> []) truth_error) (\<lambda>_.
     bindr (validate_record_references safe_claims ''claim'' s) (\<lambda>_.
     bindr (validate_record_references safe_evidence ''evidence'' s) (\<lambda>_.
     bindr (common_values at q source) (\<lambda>v.
     Inr (t, InferenceContent safe_body safe_method safe_claims safe_evidence, v)))))))))))"

definition create_inference ::
  "env \<Rightarrow> string \<Rightarrow> truth_request \<Rightarrow> string \<Rightarrow> string \<Rightarrow> string list \<Rightarrow> string list \<Rightarrow> (repo, TruthInfo) op" where
  "create_inference e at q body method claims evidence =
     create_statement e ''inference'' (prepare_inference at q body method claims evidence) q"

definition prepare_trust :: "trust_values \<Rightarrow> repo \<Rightarrow> trust_values res" where
  "prepare_trust v s =
     bindr (truth_listed ALLOWED_TRUST_SUBJECTS (tr_subject_type v)) (\<lambda>subject_type.
     bindr (truth_identifier (tr_subject_id v)) (\<lambda>subject_id.
     bindr (validate_trust_subject subject_type subject_id s) (\<lambda>_.
     bindr (truth_listed ALLOWED_TRUST_LEVELS (tr_level v)) (\<lambda>level.
     bindr (truth_text MAX_TRUST_REASON_LENGTH (tr_reason v)) (\<lambda>reason.
     bindr (trust_assessor (tr_assessor v)) (\<lambda>assessor.
     bindr (truth_opt_identifier (tr_policy v)) (\<lambda>policy.
     bindr (require (\<not> (assessor = ''system'' \<and> policy = None)) truth_error) (\<lambda>_.
     bindr (truth_ids (tr_evidence v)) (\<lambda>evidence.
     bindr (validate_record_references evidence ''evidence'' s) (\<lambda>_.
     Inr \<lparr>tr_subject_type = subject_type, tr_subject_id = subject_id, tr_level = level, tr_reason = reason,
       tr_assessor = assessor, tr_policy = policy, tr_evidence = evidence\<rparr>))))))))))"

definition assess_trust :: "env \<Rightarrow> trust_values \<Rightarrow> string option \<Rightarrow> string \<Rightarrow> (repo, TruthInfo) op" where
  "assess_trust e v op sens =
     bind_op (lift_op (\<lambda>s.
       bindr (prepare_trust v s) (\<lambda>w.
       bindr (truth_audit_metadata (trust_metadata w)) (\<lambda>am. Inr (w, am))))) (\<lambda>(w, am).
     bind_op (create_truth_record e ''trust_assessment'' (trust_title (tr_subject_type w)) (trust_metadata w)
                (assessor_provenance (tr_assessor w)) sens op (tr_assessor w) am)
       (\<lambda>i. lift_op (truth_get ''trust_assessment'' i)))"

definition truth_reread :: "string \<Rightarrow> repo \<Rightarrow> TruthInfo res" where
  "truth_reread i s = bindr (get_record i s) parse_truth_record"

definition put_all :: "dict \<Rightarrow> dict \<Rightarrow> dict" where
  "put_all new m = fold (\<lambda>(k, v). dict_put k v) new m"

definition truth_review_op ::
  "env \<Rightarrow> string \<Rightarrow> string \<Rightarrow> int \<Rightarrow> string \<Rightarrow> string option \<Rightarrow> string option \<Rightarrow> string \<Rightarrow> (repo, TruthInfo) op" where
  "truth_review_op e at i expected state note op actor =
     bind_op (lift_op (\<lambda>s.
       bindr (require (actor = ''user'') ForbiddenTruthMutationError) (\<lambda>_.
       bindr (get_record i s) (\<lambda>r.
       bindr (require (List.member [''claim'', ''evidence'', ''inference''] (record_type r)) KeyError) (\<lambda>_.
       bindr (parse_truth_record r) (\<lambda>_.
       bindr (require (rec_status r = ''active'') truth_error) (\<lambda>_.
       bindr (initial_review_values at ''user'' state note) (\<lambda>w.
       let m = put_all (review_metadata w) (metadata r) in
       bindr (truth_audit_metadata m) (\<lambda>am. Inr (r, m, am)))))))))) (\<lambda>(r, m, am).
     bind_op (update_truth_record e r expected m ''active'' op ''user'' (''truth.'' @ record_type r @ ''.review'') am)
       (\<lambda>_. lift_op (truth_reread i)))"

definition truth_archive ::
  "env \<Rightarrow> string \<Rightarrow> int \<Rightarrow> string option \<Rightarrow> string \<Rightarrow> (repo, TruthInfo) op" where
  "truth_archive e i expected op actor =
     bind_op (lift_op (\<lambda>s.
       bindr (require (actor = ''user'') ForbiddenTruthMutationError) (\<lambda>_.
       bindr (get_record i s) (\<lambda>r.
       bindr (require (List.member ALLOWED_RECORD_KINDS (record_type r)) KeyError) (\<lambda>_.
       bindr (parse_truth_record r) (\<lambda>parsed.
       bindr (require (rec_status r = ''active'') truth_error) (\<lambda>_.
       bindr (truth_audit_metadata (metadata r)) (\<lambda>am. Inr (r, parsed, am))))))))) (\<lambda>(r, parsed, am).
     bind_op (update_truth_record e r expected (metadata r) ''archived'' op ''user'' (''truth.'' @ record_type r @ ''.archive'') am)
       (\<lambda>_. lift_op (truth_reread (i_record_id parsed))))"

end
