(* ===== verification/Trust_Laws.thy ===== *)
theory Trust_Laws
  imports Trust
begin

text \<open>
  What the claim, evidence and trust service guarantees: its validators return normal forms, a
  stored record is read back unchanged, only the user gives a review, the provenance of a record
  tells who made it, and a call either raises without any change or returns what a read returns.
\<close>

section \<open>Normal forms\<close>

interpretation truth_text: normalizer "truth_text n" for n
  by unfold_locales (auto simp: truth_text_def Let_def)

interpretation truth_identifier: normalizer truth_identifier
  unfolding truth_identifier_def by (rule truth_text.normalizer_axioms)

interpretation truth_uuid: normalizer truth_uuid
  by unfold_locales (auto simp: truth_uuid_def uuid_fixpoint)

lemma truth_ids_eq:
  "truth_ids vs = Inr ws \<longleftrightarrow> int (length vs) \<le> MAX_TRUTH_REFERENCES \<and> map_res truth_uuid vs = Inr ws \<and> distinct ws"
  by (auto simp: truth_ids_def)

interpretation truth_ids: normalizer truth_ids
  by unfold_locales (auto simp: truth_ids_eq map_res_length truth_uuid.norm_list_idem)

interpretation truth_listed: normalizer "truth_listed allowed" for allowed
  by unfold_locales (auto simp: truth_listed_def)

interpretation trust_assessor: normalizer trust_assessor
  by unfold_locales (auto simp: trust_assessor_def)

interpretation truth_confidence: normalizer truth_confidence
  by unfold_locales
    (auto simp: truth_confidence_def finite_float_def unit_float_def split: option.splits json.splits if_splits)

lemma is_space_lower_char: "is_space (lower_char c) = is_space c"
  by (auto simp: is_space_def lower_char_def Let_def ord_char_of split: if_splits)

lemma stripped_lower: "stripped (lower s) = stripped s"
  by (cases "s = []") (auto simp: stripped_def lower_def is_space_lower_char hd_map last_map)

interpretation truth_hash: normalizer truth_hash
proof
  fix v w assume v: "truth_hash v = Inr w"
  then have w: "w = lower (strip v)" by (auto simp: truth_hash_def Let_def)
  have "strip (lower (strip v)) = lower (strip v)" by (rule strip_fix) (simp add: stripped_lower)
  then show "truth_hash w = Inr w" using v unfolding w by (simp add: truth_hash_def Let_def)
qed

section \<open>Times\<close>

lemma zulu_offset_plain: "CHR ''Z'' \<notin> set v \<Longrightarrow> zulu_offset v = v"
  by (induction v) (auto simp: zulu_offset_def)

lemma iso_local_plain: "c \<in> set (iso_local n) \<Longrightarrow> is_digit c \<or> c \<in> set ''-T:.''"
  unfolding iso_local_def Let_def by (auto dest: dec_digits split: if_splits)

lemma zulu_iso: "zulu_offset (iso_utc n) = iso_local n @ ''+00:00''"
proof -
  have "CHR ''Z'' \<notin> set (iso_local n)" using iso_local_plain [of "CHR ''Z''" n] by (auto simp: is_digit_def ord_def)
  then have "zulu_offset (iso_local n) = iso_local n" by (rule zulu_offset_plain)
  then show ?thesis by (simp add: iso_utc_def zulu_offset_def)
qed

lemma truth_utc_iso: "instant_ok n \<Longrightarrow> truth_utc (iso_utc n) = Inr (iso_utc n)"
  by (simp add: truth_utc_def zulu_iso fromisoformat_iso instant_def)

lemma truth_utcD: "truth_utc v = Inr w \<Longrightarrow> \<exists>t off. fromisoformat (zulu_offset v) = Some (t, Some off) \<and>
    instant_ok (t - off) \<and> w = iso_utc (t - off)"
  by (auto simp: truth_utc_def instant_def split: option.splits if_splits)

interpretation truth_utc: normalizer truth_utc
  by unfold_locales (auto dest!: truth_utcD simp: truth_utc_iso)

lemma iso_is_utc: "instant_ok n \<Longrightarrow> is_utc (iso_utc n) \<and> utc_micros (iso_utc n) = Inr n"
  using fromisoformat_iso [of n] by (simp add: is_utc_def utc_micros_def iso_utc_def ends_with_iff instant_def)

text \<open>C21: a timestamp that the truth model accepts is rewritten to the canonical UTC text of the
  same instant. That text is accepted unchanged, also by the strict UTC validators of the
  other services, and it determines the instant.\<close>

theorem truth_utc_roundtrip:
  assumes "truth_utc v = Inr w"
  shows "truth_utc w = Inr w \<and> is_utc w \<and>
    (\<exists>t off. fromisoformat (zulu_offset v) = Some (t, Some off) \<and> utc_micros w = Inr (t - off) \<and> w = iso_utc (t - off))"
  using truth_utcD [OF assms] truth_utc_iso iso_is_utc by auto

theorem truth_utc_roundtrip_witness:
  "truth_utc ''2026-01-01T01:30:00+01:30'' = Inr ''2026-01-01T00:00:00Z'' \<and> is_utc ''2026-01-01T00:00:00Z''"
proof -
  have "truth_utc ''2026-01-01T01:30:00+01:30'' = Inr ''2026-01-01T00:00:00Z''" by code_simp
  with truth_utc_roundtrip [OF this] show ?thesis by blast
qed

section \<open>A stored record is read back\<close>

lemma truth_str_stored [simp]: "map_of m k = Some (JStr v) \<Longrightarrow> truth_str m k = Inr v"
  by (simp add: truth_str_def)

lemma truth_opt_str_stored [simp]: "map_of m k = Some (opt_json v) \<Longrightarrow> truth_opt_str m k = Inr v"
  by (cases v) (auto simp: truth_opt_str_def opt_json_def)

lemma truth_meta_ids_stored [simp]: "map_of m k = Some (str_list us) \<Longrightarrow> truth_meta_ids m k = truth_ids us"
  by (simp add: truth_meta_ids_def)

lemmas truth_idem = truth_text.norm_idem truth_text.norm_opt_idem truth_identifier.norm_idem truth_identifier.norm_opt_idem
  truth_uuid.norm_idem truth_ids.norm_idem truth_listed.norm_idem trust_assessor.norm_idem truth_confidence.norm_idem
  truth_hash.norm_opt_idem truth_utc.norm_opt_idem

interpretation truth_source: normalizer truth_source
  by unfold_locales (auto simp: truth_source_def Let_def intro: truth_idem)

lemma source_back: "truth_source v = Inr v \<Longrightarrow> stored m (source_metadata v) \<Longrightarrow> source_from_metadata m = Inr v"
  by (cases v) (simp add: source_from_metadata_def source_metadata_def stored_Cons)

definition review_normal :: "truth_review \<Rightarrow> bool" where
  "review_normal w \<longleftrightarrow> truth_listed ALLOWED_REVIEW_STATES (rw_state w) = Inr (rw_state w) \<and>
     opt_res truth_utc (rw_at w) = Inr (rw_at w) \<and> truth_opt_text MAX_REVIEW_NOTE_LENGTH (rw_note w) = Inr (rw_note w) \<and>
     (if rw_state w = ''unreviewed'' then rw_at w = None \<and> rw_reviewer w = None \<and> rw_note w = None
      else rw_at w \<noteq> None \<and> rw_reviewer w = Some ''user'')"

lemma initial_review_normal:
  assumes "initial_review_values at actor state note = Inr w" "truth_utc at = Inr at"
  shows "review_normal w \<and> (rw_state w \<noteq> ''unreviewed'' \<longrightarrow> actor = ''user'') \<and> rw_state w = state"
  using assms by (auto simp: initial_review_values_def review_normal_def truth_listed_def intro: truth_idem split: if_splits)

lemma review_back: "review_normal w \<Longrightarrow> stored m (review_metadata w) \<Longrightarrow> review_from_metadata m = Inr w"
  by (cases "rw_state w = ''unreviewed''")
    (auto simp: review_from_metadata_def review_metadata_def stored_Cons review_normal_def)

lemma review_from_metadata_normal: "review_from_metadata m = Inr w \<Longrightarrow> review_normal w"
  by (auto simp: review_from_metadata_def review_normal_def intro: truth_idem split: if_splits)

definition common_normal :: "truth_values \<Rightarrow> bool" where
  "common_normal v \<longleftrightarrow> truth_confidence (tv_confidence v) = Inr (tv_confidence v) \<and>
     truth_opt_text MAX_UNCERTAINTY_LENGTH (tv_uncertainty v) = Inr (tv_uncertainty v) \<and>
     review_normal (tv_review v) \<and> truth_source (tv_source v) = Inr (tv_source v)"

lemma common_values_normal:
  assumes "common_values at q src = Inr v" "truth_utc at = Inr at" "truth_source src = Inr src"
  shows "common_normal v \<and> tv_source v = src \<and> rw_state (tv_review v) = rq_state q \<and>
    (rq_state q \<noteq> ''unreviewed'' \<longrightarrow> ts_creator src = ''user'')"
  using assms initial_review_normal [of at "ts_creator src" "rq_state q" "rq_note q"]
  by (auto simp: common_values_def common_normal_def intro: truth_idem)

lemma truth_confidence_json: "truth_confidence c = Inr c \<Longrightarrow> truth_confidence (Some (case c of None \<Rightarrow> JNull | Some v \<Rightarrow> v)) = Inr c"
  by (cases c) (simp_all add: truth_confidence_def)

lemma common_back:
  assumes "common_normal v" "stored m (common_metadata v)"
  shows "common_fields m (record_provenance (tv_source v)) = Inr v"
proof -
  have "stored m (review_metadata (tv_review v))" "stored m (source_metadata (tv_source v))"
    "map_of m ''confidence'' = Some (case tv_confidence v of None \<Rightarrow> JNull | Some c \<Rightarrow> c)"
    "map_of m ''uncertainty'' = Some (opt_json (tv_uncertainty v))"
    using assms(2) by (simp_all add: common_metadata_def stored_append stored_Cons)
  then show ?thesis
    using assms(1) truth_confidence_json [of "tv_confidence v"] review_back [of "tv_review v" m] source_back [of "tv_source v" m]
    by (simp add: common_fields_def common_normal_def)
qed

definition content_reader :: "string \<Rightarrow> dict \<Rightarrow> truth_content res" where
  "content_reader kind = (if kind = ''claim'' then claim_content else if kind = ''evidence'' then evidence_content else inference_content)"

definition content_normal :: "truth_content \<Rightarrow> bool" where
  "content_normal c \<longleftrightarrow>
     (case c of
        ClaimContent t \<Rightarrow> truth_text MAX_BODY_LENGTH t = Inr t
      | EvidenceContent t etype a b d \<Rightarrow> truth_text MAX_BODY_LENGTH t = Inr t \<and> truth_listed ALLOWED_EVIDENCE_TYPES etype = Inr etype \<and>
          truth_ids a = Inr a \<and> truth_ids b = Inr b \<and> truth_ids d = Inr d \<and> disjoint_relations [] [a, b, d] = Inr () \<and>
          (a \<noteq> [] \<or> b \<noteq> [] \<or> d \<noteq> [])
      | InferenceContent t method a b \<Rightarrow> truth_text MAX_BODY_LENGTH t = Inr t \<and> truth_text MAX_METHOD_LENGTH method = Inr method \<and>
          truth_ids a = Inr a \<and> truth_ids b = Inr b \<and> (a \<noteq> [] \<or> b \<noteq> []))"

lemma content_back:
  assumes "content_normal c" "stored m (content_metadata c)"
  shows "content_reader (content_kind c) m = Inr c"
  using assms
  by (cases c) (auto simp: content_normal_def content_metadata_def content_kind_def content_reader_def stored_Cons claim_content_def
      evidence_content_def inference_content_def)

lemma truth_fields_statement:
  "truth_fields (content_kind c) = statement_fields (content_reader (content_kind c))"
  by (cases c) (simp_all add: content_kind_def truth_fields_def content_reader_def)

lemma statement_back:
  assumes "truth_text MAX_TRUTH_TITLE_LENGTH t = Inr t" "content_normal c" "common_normal v" "stored m (statement_metadata t c v)"
  shows "truth_fields (content_kind c) m (Some t) (record_provenance (tv_source v)) = Inr (Statement t c v)"
proof -
  have "map_of m ''title'' = Some (JStr t)" "stored m (content_metadata c)" "stored m (common_metadata v)"
    using assms(4) by (simp_all add: statement_metadata_def stored_append stored_Cons)
  then show ?thesis
    using assms(1) content_back [OF assms(2)] common_back [OF assms(3)]
    by (simp add: truth_fields_statement statement_fields_def record_title_def)
qed

definition trust_normal :: "trust_values \<Rightarrow> bool" where
  "trust_normal v \<longleftrightarrow> truth_listed ALLOWED_TRUST_SUBJECTS (tr_subject_type v) = Inr (tr_subject_type v) \<and>
     truth_identifier (tr_subject_id v) = Inr (tr_subject_id v) \<and> truth_listed ALLOWED_TRUST_LEVELS (tr_level v) = Inr (tr_level v) \<and>
     truth_text MAX_TRUST_REASON_LENGTH (tr_reason v) = Inr (tr_reason v) \<and> trust_assessor (tr_assessor v) = Inr (tr_assessor v) \<and>
     truth_opt_identifier (tr_policy v) = Inr (tr_policy v) \<and> (tr_assessor v = ''system'' \<longrightarrow> tr_policy v \<noteq> None) \<and>
     truth_ids (tr_evidence v) = Inr (tr_evidence v)"

lemma trust_back:
  assumes "trust_normal v" "stored m (trust_metadata v)"
  shows "trust_fields m (Some (trust_title (tr_subject_type v))) (assessor_provenance (tr_assessor v)) = Inr (Assessment v)"
  using assms by (auto simp: trust_fields_def trust_normal_def trust_metadata_def stored_Cons)

lemma prepare_trust_normal: "prepare_trust v s = Inr w \<Longrightarrow> trust_normal w"
  by (auto simp: prepare_trust_def trust_normal_def intro: truth_idem)

lemma prepare_statement_normal:
  assumes "truth_utc at = Inr at"
    and "prepare_claim at q body s = Inr (t, c, v) \<or> prepare_evidence at q body etype as bs ds s = Inr (t, c, v) \<or>
      prepare_inference at q body method as bs s = Inr (t, c, v)"
  shows "truth_text MAX_TRUTH_TITLE_LENGTH t = Inr t \<and> content_normal c \<and> common_normal v \<and>
    truth_source (rq_source q) = Inr (tv_source v) \<and> rw_state (tv_review v) = rq_state q \<and>
    (rq_state q \<noteq> ''unreviewed'' \<longrightarrow> ts_creator (tv_source v) = ''user'')"
  using assms(2)
  by (auto simp: prepare_claim_def prepare_evidence_def prepare_inference_def content_normal_def
      dest!: common_values_normal [OF _ assms(1)] intro: truth_idem truth_source.norm_idem)

section \<open>Creation\<close>

lemma content_kind_allowed: "List.member [''claim'', ''evidence'', ''inference''] (content_kind c)"
  by (cases c) (simp_all add: content_kind_def)

lemma provenance_allowed: "record_provenance v \<in> set ALLOWED_RECORD_PROVENANCE" "assessor_provenance a \<in> set ALLOWED_RECORD_PROVENANCE"
  by (simp_all add: record_provenance_def assessor_provenance_def ALLOWED_RECORD_PROVENANCE_def)

lemma truth_created:
  assumes "created e d actor s t" "dr_version d = 1" "dr_prov d \<in> set ALLOWED_RECORD_PROVENANCE" "dr_type d \<in> set ALLOWED_RECORD_KINDS"
    and "truth_str (canon_dict (dr_meta d)) ''truth_kind'' = Inr (dr_type d)"
    and "truth_fields (dr_type d) (canon_dict (dr_meta d)) (Some (dr_title d)) (dr_prov d) = Inr p"
  shows "\<exists>r. get_record (dr_id d) t = Inr r \<and> record_type r = dr_type d \<and> parse_truth_record r = Inr (truth_info r p)"
proof -
  let ?r = "with_metadata (drafted e d) (canon_dict (dr_meta d))"
  have "get_record (dr_id d) t = Inr ?r" using created_get [OF assms(1)] by simp
  moreover have "validate_truth_envelope ?r = Inr ()"
    using assms(1-4) by (auto simp: validate_truth_envelope_def draft_row_def created_def draft_ok_def)
  ultimately show ?thesis
    using assms(5,6) by (auto simp: parse_truth_record_def truth_parts_def draft_row_def)
qed

lemma create_truth_cases:
  assumes "repo_ok s" "create_truth_record e rtype ttl m prov sens op actor am s = (res, t)"
  shows "(isl res \<and> t = s) \<or> (res = Inr (new_uuid e) \<and>
     created e \<lparr>dr_id = new_uuid e, dr_type = rtype, dr_version = 1, dr_prov = prov, dr_sens = sens, dr_title = ttl, dr_meta = m\<rparr>
       (audit_actor actor) s t)"
proof (cases "bindr (require (\<not> read_only s) ReadOnlyStateError) (\<lambda>_. bindr (validate_record_fields rtype 1 ''active'' prov sens) (\<lambda>_.
       validate_secret_boundary rtype sens m))")
  case (Inl x)
  then have "(Inl x, s) = (res, t)" using assms(2) unfolding create_truth_record_def bind_lift by simp
  then show ?thesis by auto
next
  case (Inr u)
  then have "store_create e
       \<lparr>dr_id = new_uuid e, dr_type = rtype, dr_version = 1, dr_prov = prov, dr_sens = sens, dr_title = ttl, dr_meta = m\<rparr>
       op (audit_actor actor) (''truth.'' @ rtype @ ''.create'') truth_summary (Inr am) s = (res, t)"
    using assms(2) unfolding create_truth_record_def bind_lift by simp
  from store_create_cases [OF assms(1) this] show ?thesis by auto
qed

abbreviation truth_returned :: "env \<Rightarrow> string \<Rightarrow> string \<Rightarrow> string \<Rightarrow> TruthInfo res \<Rightarrow> repo \<Rightarrow> repo \<Rightarrow> bool" where
  "truth_returned e actor kind i res s t \<equiv> \<not> isl res \<and> truth_reread i t = res \<and> audited e actor kind i s t"

lemma statement_stored:
  "stored (canon_dict (statement_metadata t c v)) (statement_metadata t c v)" if "truth_confidence (tv_confidence v) = Inr (tv_confidence v)"
proof (rule stored_canon)
  show "distinct (map fst (statement_metadata t c v))"
    by (cases c) (simp_all add: statement_metadata_def content_metadata_def common_metadata_def review_metadata_def source_metadata_def)
  have "canon (case tv_confidence v of None \<Rightarrow> JNull | Some j \<Rightarrow> j) = (case tv_confidence v of None \<Rightarrow> JNull | Some j \<Rightarrow> j)"
    using that by (auto simp: truth_confidence_def split: option.splits json.splits if_splits)
  then show "\<forall>(k, j) \<in> set (statement_metadata t c v). canon j = j"
    by (cases c) (auto simp: statement_metadata_def content_metadata_def common_metadata_def review_metadata_def source_metadata_def
        simp del: canon.simps(5))
qed

lemma trust_stored: "stored (canon_dict (trust_metadata v)) (trust_metadata v)"
  by (rule stored_canon) (simp_all add: trust_metadata_def)

lemma create_statement_result:
  assumes "repo_ok s" "truth_uuid (new_uuid e) = Inr (new_uuid e)"
    and "\<forall>t c v. prep s = Inr (t, c, v) \<longrightarrow> content_kind c = kind \<and> truth_text MAX_TRUTH_TITLE_LENGTH t = Inr t \<and> content_normal c \<and> common_normal v"
    and "create_statement e kind prep q s = (res, t)"
  shows "(isl res \<and> t = s) \<or> (\<exists>n c v r. prep s = Inr (n, c, v) \<and> get_record (new_uuid e) t = Inr r \<and>
    res = Inr (truth_info r (Statement n c v)) \<and> truth_returned e (audit_actor (ts_creator (tv_source v))) kind (new_uuid e) res s t)"
proof (cases "bindr (prep s) (\<lambda>(t, c, v). bindr (truth_audit_metadata (statement_metadata t c v)) (\<lambda>am. Inr (t, c, v, am)))")
  case (Inl x)
  then have "(Inl x, s) = (res, t)" using assms(4) unfolding create_statement_def bind_lift by simp
  then show ?thesis by auto
next
  case (Inr w)
  obtain n c v am where w: "w = (n, c, v, am)" by (cases w)
  have p: "prep s = Inr (n, c, v)" using Inr w by auto
  note k = assms(3) [rule_format, OF p]
  let ?d = "\<lparr>dr_id = new_uuid e, dr_type = kind, dr_version = 1, dr_prov = record_provenance (tv_source v), dr_sens = rq_sensitivity q,
    dr_title = n, dr_meta = statement_metadata n c v\<rparr>"
  obtain r1 u where c1: "create_truth_record e kind n (statement_metadata n c v) (record_provenance (tv_source v))
      (rq_sensitivity q) (rq_operation q) (ts_creator (tv_source v)) am s = (r1, u)" by fastforce
  have run: "(case (r1, u) of (Inl x, u) \<Rightarrow> (Inl x, u) | (Inr i, u) \<Rightarrow> (truth_get kind i u, u)) = (res, t)"
    using assms(4) Inr c1 w unfolding create_statement_def bind_lift by (simp add: bind_op_read)
  from create_truth_cases [OF assms(1) c1] show ?thesis
  proof (elim disjE conjE)
    assume new: "r1 = Inr (new_uuid e)" "created e ?d (audit_actor (ts_creator (tv_source v))) s u"
    have st: "stored (canon_dict (statement_metadata n c v)) (statement_metadata n c v)"
      using statement_stored k by (simp add: common_normal_def)
    have "\<exists>r. get_record (dr_id ?d) u = Inr r \<and> record_type r = dr_type ?d \<and> parse_truth_record r = Inr (truth_info r (Statement n c v))"
    proof (rule truth_created [OF new(2)])
      show "dr_type ?d \<in> set ALLOWED_RECORD_KINDS"
        using k content_kind_allowed [of c] by (auto simp: ALLOWED_RECORD_KINDS_def)
      show "truth_str (canon_dict (dr_meta ?d)) ''truth_kind'' = Inr (dr_type ?d)"
        using st k by (simp add: statement_metadata_def stored_Cons)
      show "truth_fields (dr_type ?d) (canon_dict (dr_meta ?d)) (Some (dr_title ?d)) (dr_prov ?d) = Inr (Statement n c v)"
        using statement_back [OF _ _ _ st] k by auto
    qed (use provenance_allowed in simp_all)
    then obtain r where r: "get_record (new_uuid e) u = Inr r" "record_type r = kind" "parse_truth_record r = Inr (truth_info r (Statement n c v))"
      by auto
    have "res = Inr (truth_info r (Statement n c v))" "t = u"
      using run new(1) r assms(2) by (simp_all add: truth_get_def require_truth_type_def)
    then show ?thesis
      using p r new(2) by (auto simp: truth_reread_def created_def)
  qed (use run in \<open>auto split: sum.splits\<close>)
qed

lemma assess_trust_result:
  assumes "repo_ok s" "truth_uuid (new_uuid e) = Inr (new_uuid e)" "assess_trust e v op sens s = (res, t)"
  shows "(isl res \<and> t = s) \<or> (\<exists>w r. prepare_trust v s = Inr w \<and> get_record (new_uuid e) t = Inr r \<and>
    res = Inr (truth_info r (Assessment w)) \<and> truth_returned e (audit_actor (tr_assessor w)) ''trust_assessment'' (new_uuid e) res s t)"
proof (cases "bindr (prepare_trust v s) (\<lambda>w. bindr (truth_audit_metadata (trust_metadata w)) (\<lambda>am. Inr (w, am)))")
  case (Inl x)
  then have "(Inl x, s) = (res, t)" using assms(3) unfolding assess_trust_def bind_lift by simp
  then show ?thesis by auto
next
  case (Inr p)
  obtain w am where w: "p = (w, am)" by (cases p)
  have pr: "prepare_trust v s = Inr w" using Inr w by auto
  let ?d = "\<lparr>dr_id = new_uuid e, dr_type = ''trust_assessment'', dr_version = 1, dr_prov = assessor_provenance (tr_assessor w),
    dr_sens = sens, dr_title = trust_title (tr_subject_type w), dr_meta = trust_metadata w\<rparr>"
  obtain r1 u where c1: "create_truth_record e ''trust_assessment'' (trust_title (tr_subject_type w)) (trust_metadata w)
                (assessor_provenance (tr_assessor w)) sens op (tr_assessor w) am s = (r1, u)" by fastforce
  have run: "(case (r1, u) of (Inl x, u) \<Rightarrow> (Inl x, u) | (Inr i, u) \<Rightarrow> (truth_get ''trust_assessment'' i u, u)) = (res, t)"
    using assms(3) Inr c1 w unfolding assess_trust_def bind_lift by (simp add: bind_op_read)
  from create_truth_cases [OF assms(1) c1] show ?thesis
  proof (elim disjE conjE)
    assume new: "r1 = Inr (new_uuid e)" "created e ?d (audit_actor (tr_assessor w)) s u"
    have "\<exists>r. get_record (dr_id ?d) u = Inr r \<and> record_type r = dr_type ?d \<and> parse_truth_record r = Inr (truth_info r (Assessment w))"
    proof (rule truth_created [OF new(2)])
      show "truth_str (canon_dict (dr_meta ?d)) ''truth_kind'' = Inr (dr_type ?d)"
        using trust_stored [of w] by (simp add: trust_metadata_def stored_Cons)
      show "truth_fields (dr_type ?d) (canon_dict (dr_meta ?d)) (Some (dr_title ?d)) (dr_prov ?d) = Inr (Assessment w)"
        using trust_back [OF prepare_trust_normal [OF pr] trust_stored] by (simp add: truth_fields_def)
    qed (use provenance_allowed in \<open>simp_all add: ALLOWED_RECORD_KINDS_def\<close>)
    then obtain r where r: "get_record (new_uuid e) u = Inr r" "record_type r = ''trust_assessment''"
      "parse_truth_record r = Inr (truth_info r (Assessment w))" by auto
    have "res = Inr (truth_info r (Assessment w))" "t = u"
      using run new(1) r assms(2) by (simp_all add: truth_get_def require_truth_type_def)
    then show ?thesis using pr r new(2) by (auto simp: truth_reread_def created_def)
  qed (use run in \<open>auto split: sum.splits\<close>)
qed

section \<open>Review and archive\<close>

lemma parse_truth_record_eq: "parse_truth_record r = Inr i \<longleftrightarrow> (\<exists>p. truth_parts r = Inr p \<and> i = truth_info r p)"
  by (auto simp: parse_truth_record_def)

lemma truth_parts_title: "truth_parts r = Inr p \<Longrightarrow> \<exists>t. rec_title r = Some t"
  by (auto simp: truth_parts_def truth_fields_def statement_fields_def record_title_def trust_fields_def split: if_splits)

lemma truth_parts_envelope:
  "truth_parts r = Inr p \<longleftrightarrow> validate_truth_envelope r = Inr () \<and> truth_str (metadata r) ''truth_kind'' = Inr (record_type r) \<and>
     truth_fields (record_type r) (metadata r) (rec_title r) (provenance r) = Inr p"
  by (auto simp: truth_parts_def)

interpretation truth: record_reader "\<lambda>r s. parse_truth_record r" provenance
proof
  fix r :: RecordEnvelope and s t :: repo and v now q
  assume v: "parse_truth_record r = Inr v"
  then obtain p where p: "truth_parts r = Inr p" by (auto simp: parse_truth_record_eq)
  show "\<exists>t. rec_title r = Some t" using truth_parts_title [OF p] .
  show "provenance r \<in> set ALLOWED_PROVENANCE"
    using p by (auto simp: truth_parts_envelope validate_truth_envelope_def ALLOWED_RECORD_PROVENANCE_def ALLOWED_PROVENANCE_def)
  have "truth_parts (touched now (provenance r) r) = Inr p"
    using p by (auto simp: truth_parts_envelope validate_truth_envelope_def touched_def)
  then show "\<exists>w. parse_truth_record (touched now (provenance r) r) = Inr w" by (auto simp: parse_truth_record_eq)
  show "parse_truth_record r = Inr v" by (rule v)
qed

lemma map_of_replace:
  "map_of (map (\<lambda>(j, w). if j = k then (j, v) else (j, w)) d) j =
     (if j = k then (if k \<in> fst ` set d then Some v else None) else map_of d j)"
  by (induction d) (auto, force)

lemma map_of_put: "map_of (dict_put k v d) j = (if j = k then Some v else map_of d j)"
proof (cases "k \<in> fst ` set d")
  case False
  then have "map_of d k = None" by (simp add: map_of_eq_None_iff)
  then show ?thesis using False by (simp add: dict_put_def map_add_def split: option.splits)
qed (simp add: dict_put_def map_of_replace)

lemma map_of_filter_key: "map_of d k = map_of (filter (\<lambda>p. fst p = k) d) k"
  by (induction d) auto

lemma map_of_canon_any: "map_of (canon_dict d) k = map_option canon (map_of d k)"
proof -
  have "map_of (sort_key fst c) k = map_of c k" for c :: dict
    using map_of_filter_key [of "sort_key fst c" k] map_of_filter_key [of c k] sort_key_stable [of fst k c] by simp
  moreover have "map_of (map (\<lambda>(k, v). (k, canon v)) d) k = map_option canon (map_of d k)" by (induction d) auto
  ultimately show ?thesis by simp
qed

definition review_keys :: "string list" where
  "review_keys = [''review_state'', ''reviewed_at'', ''reviewer_actor_type'', ''review_note'']"

lemma put_review:
  assumes "canon_dict m = m"
  shows "stored (canon_dict (put_all (review_metadata w) m)) (review_metadata w)"
    "k \<notin> set review_keys \<Longrightarrow> map_of (canon_dict (put_all (review_metadata w) m)) k = map_of m k"
proof -
  have "map_option canon (map_of m k) = map_of m k" for k using map_of_canon_any [of m k] assms by simp
  then show "stored (canon_dict (put_all (review_metadata w) m)) (review_metadata w)"
    "k \<notin> set review_keys \<Longrightarrow> map_of (canon_dict (put_all (review_metadata w) m)) k = map_of m k"
    unfolding map_of_canon_any stored_def
    by (auto simp: put_all_def review_metadata_def review_keys_def map_of_put)
qed

lemma lookup_cong:
  assumes "map_of m k = map_of n k"
  shows "truth_str m k = truth_str n k" "truth_opt_str m k = truth_opt_str n k" "truth_meta_ids m k = truth_meta_ids n k"
    "meta_count m k = meta_count n k"
  using assms by (simp_all add: truth_str_def truth_opt_str_def truth_meta_ids_def meta_strings_def meta_list_def meta_count_def)

lemma reviewed_fields:
  assumes "truth_fields kind m ttl prov = Inr (Statement n c v)" "kind \<in> set [''claim'', ''evidence'', ''inference'']"
    and "review_normal w" "stored m' (review_metadata w)" "\<forall>k. k \<notin> set review_keys \<longrightarrow> map_of m' k = map_of m k"
  shows "truth_fields kind m' ttl prov = Inr (Statement n c (v\<lparr>tv_review := w\<rparr>))"
proof -
  note look = lookup_cong [OF assms(5) [rule_format]]
  have conf: "map_of m' ''confidence'' = map_of m ''confidence''" using assms(5) by (simp add: review_keys_def)
  have same: "claim_content m' = claim_content m" "evidence_content m' = evidence_content m"
    "inference_content m' = inference_content m" "record_title m' ttl = record_title m ttl"
    "source_from_metadata m' = source_from_metadata m" "truth_opt_str m' ''uncertainty'' = truth_opt_str m ''uncertainty''"
    by (simp_all add: claim_content_def evidence_content_def inference_content_def record_title_def source_from_metadata_def
        look review_keys_def)
  have f: "truth_fields kind = statement_fields (content_reader kind)" "content_reader kind m' = content_reader kind m"
    using assms(2) same by (auto simp: truth_fields_def content_reader_def)
  have "common_fields m prov = Inr v" "record_title m ttl = Inr n" "content_reader kind m = Inr c"
    using assms(1) unfolding f by (auto simp: statement_fields_def)
  moreover from this(1) have "common_fields m' prov = Inr (v\<lparr>tv_review := w\<rparr>)"
    unfolding common_fields_def review_back [OF assms(3,4)] conf same by auto
  ultimately show ?thesis unfolding f(1) statement_fields_def f(2) same by simp
qed

lemma update_truth_cases:
  assumes "repo_ok s" "parse_truth_record r = Inr i" "stat \<in> set ALLOWED_STATUSES"
    and "update_truth_record e r expected m stat op actor act am s = (res, t)"
  shows "(isl res \<and> t = s) \<or> (res = Inr () \<and> (\<exists>row. changed e (rec_id r) expected
     \<lparr>rv_version = None, rv_status = stat, rv_prov = provenance r, rv_title = (case rec_title r of None \<Rightarrow> [] | Some t \<Rightarrow> t), rv_meta = m\<rparr>
     (audit_actor actor) (record_type r) row s t))"
proof -
  have "revising_ok \<lparr>rv_version = None, rv_status = stat, rv_prov = provenance r,
      rv_title = (case rec_title r of None \<Rightarrow> [] | Some t \<Rightarrow> t), rv_meta = m\<rparr>"
    using assms(3) truth.prov_allowed [OF assms(2)] by (simp add: revising_ok_def)
  from store_update_cases [OF assms(1) this assms(4) [unfolded update_truth_record_def]] show ?thesis .
qed

lemma stored_metadata_canon:
  assumes "repo_ok s" "get_record i s = Inr r"
  shows "canon_dict (metadata r) = metadata r" "rec_id r = i"
proof -
  obtain q where q: "find_row i (records s) = Some q" "metadata q = Some (JObj (metadata r))" "r = with_metadata q (metadata r)"
    using get_recordD [OF assms(2)] by blast
  have "canon (JObj (metadata r)) = JObj (metadata r)"
    using repo_ok_row [OF assms(1) q(1)] q(2) by (auto simp: row_ok_def simp del: canon.simps)
  then show "canon_dict (metadata r) = metadata r" by simp
  show "rec_id r = i" using q(1,3) find_row_Some [OF q(1)] by (metis with_metadata_sel(1))
qed

lemma reviewed_parts:
  assumes "truth_parts r = Inr (Statement n c v)" "record_type r \<in> set [''claim'', ''evidence'', ''inference'']"
    and "canon_dict (metadata r) = metadata r" "review_normal w" "rec_title r = Some ttl"
    and "q = revised_env e \<lparr>rv_version = None, rv_status = ''active'', rv_prov = provenance r, rv_title = ttl,
      rv_meta = put_all (review_metadata w) (metadata r)\<rparr> r"
  shows "truth_parts q = Inr (Statement n c (v\<lparr>tv_review := w\<rparr>))"
proof -
  note put = put_review [OF assms(3), where w = w]
  have "metadata q = canon_dict (put_all (review_metadata w) (metadata r))" by (simp add: assms(6) revised_env_def)
  moreover have "truth_str (canon_dict (put_all (review_metadata w) (metadata r))) ''truth_kind'' = truth_str (metadata r) ''truth_kind''"
    using put(2) by (intro lookup_cong) (simp add: review_keys_def)
  moreover have "truth_fields (record_type r) (canon_dict (put_all (review_metadata w) (metadata r))) (rec_title r) (provenance r) =
      Inr (Statement n c (v\<lparr>tv_review := w\<rparr>))"
    using assms(1) put by (intro reviewed_fields [OF _ assms(2,4)]) (auto simp: truth_parts_envelope)
  ultimately show ?thesis
    using assms(1,5) by (auto simp: truth_parts_envelope assms(6) revised_env_def validate_truth_envelope_def)
qed

lemma statement_payload:
  "truth_parts r = Inr p \<Longrightarrow> record_type r \<in> set [''claim'', ''evidence'', ''inference''] \<Longrightarrow> \<exists>n c v. p = Statement n c v"
  by (auto simp: truth_parts_envelope truth_fields_def statement_fields_def)

lemma truth_review_result:
  assumes "repo_ok s" "truth_utc at = Inr at" "truth_review_op e at i expected state note op actor s = (res, t)"
  shows "(isl res \<and> t = s) \<or> (\<exists>r n c v w. actor = ''user'' \<and> get_record i s = Inr r \<and> truth_parts r = Inr (Statement n c v) \<and>
     rec_status r = ''active'' \<and> revision r = expected \<and> rw_state w = state \<and> review_normal w \<and>
     (\<exists>q. get_record i t = Inr q \<and> res = Inr (truth_info q (Statement n c (v\<lparr>tv_review := w\<rparr>)))) \<and>
     truth_returned e ''user'' (record_type r) i res s t)"
  (is "_ \<or> ?done")
proof (cases "bindr (require (actor = ''user'') ForbiddenTruthMutationError) (\<lambda>_. bindr (get_record i s) (\<lambda>r.
       bindr (require (List.member [''claim'', ''evidence'', ''inference''] (record_type r)) KeyError) (\<lambda>_.
       bindr (parse_truth_record r) (\<lambda>_. bindr (require (rec_status r = ''active'') truth_error) (\<lambda>_.
       bindr (initial_review_values at ''user'' state note) (\<lambda>w.
       let m = put_all (review_metadata w) (metadata r) in
       bindr (truth_audit_metadata m) (\<lambda>am. Inr (r, m, am))))))))")
  case (Inl x)
  then have "(Inl x, s) = (res, t)" using assms(3) unfolding truth_review_op_def bind_lift by simp
  then show ?thesis by auto
next
  case (Inr x)
  then obtain r j w am where r: "actor = ''user''" "get_record i s = Inr r" "record_type r \<in> set [''claim'', ''evidence'', ''inference'']"
    "parse_truth_record r = Inr j" "rec_status r = ''active''" "initial_review_values at ''user'' state note = Inr w"
    "truth_audit_metadata (put_all (review_metadata w) (metadata r)) = Inr am" by (auto simp: Let_def)
  let ?m = "put_all (review_metadata w) (metadata r)"
  obtain n c v where p: "truth_parts r = Inr (Statement n c v)"
    using statement_payload r(3,4) by (fastforce simp: parse_truth_record_eq)
  obtain ttl where ttl: "rec_title r = Some ttl" using truth_parts_title [OF p] by blast
  note m = stored_metadata_canon [OF assms(1) r(2)] and w = initial_review_normal [OF r(6) assms(2)]
  obtain r1 u where u: "update_truth_record e r expected ?m ''active'' op ''user'' (''truth.'' @ record_type r @ ''.review'') am s = (r1, u)"
    by fastforce
  have run: "(case (r1, u) of (Inl x, u) \<Rightarrow> (Inl x, u) | (Inr _, u) \<Rightarrow> (truth_reread i u, u)) = (res, t)"
    using assms(3) r u by (simp add: truth_review_op_def bind_lift bind_op_read Let_def)
  from update_truth_cases [OF assms(1) r(4) active_allowed(1) u] show ?thesis
  proof (elim disjE conjE exE)
    fix row assume c1: "r1 = Inr ()" "changed e (rec_id r) expected
     \<lparr>rv_version = None, rv_status = ''active'', rv_prov = provenance r, rv_title = (case rec_title r of None \<Rightarrow> [] | Some t \<Rightarrow> t), rv_meta = ?m\<rparr>
     (audit_actor ''user'') (record_type r) row s u" (is "changed _ _ _ ?v _ _ _ _ _")
    note g = changed_get [OF c1(2) [unfolded m(2)] r(2)]
    have "truth_parts (revised_env e ?v r) = Inr (Statement n c (v\<lparr>tv_review := w\<rparr>))"
      using reviewed_parts [OF p r(3) m(1) _ ttl] w ttl by simp
    then have "truth_reread i u = Inr (truth_info (revised_env e ?v r) (Statement n c (v\<lparr>tv_review := w\<rparr>)))"
      using g by (auto simp: truth_reread_def parse_truth_record_eq)
    moreover have "audited e ''user'' (record_type r) i s u" using c1(2) m(2) by (simp add: changed_def audit_actor_def)
    moreover have "res = truth_reread i u" "t = u" using run c1(1) by auto
    ultimately have ?done
      using r(1,2,5) p w g by (intro exI [of _ r] exI [of _ n] exI [of _ c] exI [of _ v] exI [of _ w]) auto
    then show ?thesis ..
  qed (use run in \<open>auto split: sum.splits\<close>)
qed

lemma truth_archive_result:
  assumes "repo_ok s" "truth_archive e i expected op actor s = (res, t)"
  shows "(isl res \<and> t = s) \<or> (\<exists>r p. actor = ''user'' \<and> get_record i s = Inr r \<and> truth_parts r = Inr p \<and>
     rec_status r = ''active'' \<and> revision r = expected \<and> (\<exists>q. get_record i t = Inr q \<and> rec_status q = ''archived'' \<and> res = Inr (truth_info q p)) \<and>
     truth_returned e ''user'' (record_type r) i res s t)"
  (is "_ \<or> ?done")
proof (cases "bindr (require (actor = ''user'') ForbiddenTruthMutationError) (\<lambda>_. bindr (get_record i s) (\<lambda>r.
       bindr (require (List.member ALLOWED_RECORD_KINDS (record_type r)) KeyError) (\<lambda>_.
       bindr (parse_truth_record r) (\<lambda>parsed. bindr (require (rec_status r = ''active'') truth_error) (\<lambda>_.
       bindr (truth_audit_metadata (metadata r)) (\<lambda>am. Inr (r, parsed, am)))))))")
  case (Inl x)
  then have "(Inl x, s) = (res, t)" using assms(2) unfolding truth_archive_def bind_lift by simp
  then show ?thesis by auto
next
  case (Inr x)
  then obtain r j am where r: "actor = ''user''" "get_record i s = Inr r" "List.member ALLOWED_RECORD_KINDS (record_type r)"
    "parse_truth_record r = Inr j" "rec_status r = ''active''" "truth_audit_metadata (metadata r) = Inr am" by auto
  obtain p where p: "truth_parts r = Inr p" "j = truth_info r p" using r(4) by (auto simp: parse_truth_record_eq)
  obtain ttl where ttl: "rec_title r = Some ttl" using truth_parts_title [OF p(1)] by blast
  note m = stored_metadata_canon [OF assms(1) r(2)]
  have j: "i_record_id j = i" using p(2) m(2) by (simp add: truth_info_def)
  obtain r1 u where u: "update_truth_record e r expected (metadata r) ''archived'' op ''user'' (''truth.'' @ record_type r @ ''.archive'') am s = (r1, u)"
    by fastforce
  have run: "(case (r1, u) of (Inl x, u) \<Rightarrow> (Inl x, u) | (Inr _, u) \<Rightarrow> (truth_reread i u, u)) = (res, t)"
    using assms(2) r u j by (simp add: truth_archive_def bind_lift bind_op_read)
  from update_truth_cases [OF assms(1) r(4) active_allowed(2) u] show ?thesis
  proof (elim disjE conjE exE)
    fix row assume c1: "r1 = Inr ()" "changed e (rec_id r) expected
     \<lparr>rv_version = None, rv_status = ''archived'', rv_prov = provenance r, rv_title = (case rec_title r of None \<Rightarrow> [] | Some t \<Rightarrow> t),
      rv_meta = metadata r\<rparr> (audit_actor ''user'') (record_type r) row s u" (is "changed _ _ _ ?v _ _ _ _ _")
    note g = changed_get [OF c1(2) [unfolded m(2)] r(2)]
    have "truth_parts (revised_env e ?v r) = Inr p" "rec_status (revised_env e ?v r) = ''archived''"
      using p(1) ttl m(1) by (auto simp: truth_parts_envelope validate_truth_envelope_def revised_env_def)
    moreover from this(1) have "truth_reread i u = Inr (truth_info (revised_env e ?v r) p)"
      using g by (auto simp: truth_reread_def parse_truth_record_eq)
    moreover have "audited e ''user'' (record_type r) i s u" using c1(2) m(2) by (simp add: changed_def audit_actor_def)
    moreover have "res = truth_reread i u" "t = u" using run c1(1) by auto
    ultimately have ?done using r(1,2,5) p g by (intro exI [of _ r] exI [of _ p]) auto
    then show ?thesis ..
  qed (use run in \<open>auto split: sum.splits\<close>)
qed

section \<open>Properties\<close>

lemma prepared_kind:
  "prepare_claim at q body s = Inr (n, c, v) \<Longrightarrow> content_kind c = ''claim''"
  "prepare_evidence at q body etype as bs ds s = Inr (n, c, v) \<Longrightarrow> content_kind c = ''evidence''"
  "prepare_inference at q body method as bs s = Inr (n, c, v) \<Longrightarrow> content_kind c = ''inference''"
  by (auto simp: prepare_claim_def prepare_evidence_def prepare_inference_def content_kind_def)

lemma create_truth_result:
  assumes "repo_ok s" "truth_uuid (new_uuid e) = Inr (new_uuid e)" "truth_utc at = Inr at"
    and "kind = ''claim'' \<and> create_claim e at q body s = (res, t) \<or> kind = ''evidence'' \<and> create_evidence e at q body etype as bs ds s = (res, t) \<or>
      kind = ''inference'' \<and> create_inference e at q body method as bs s = (res, t)"
  shows "(isl res \<and> t = s) \<or> (\<exists>n c v r. get_record (new_uuid e) t = Inr r \<and> res = Inr (truth_info r (Statement n c v)) \<and>
    content_kind c = kind \<and> truth_source (rq_source q) = Inr (tv_source v) \<and> rw_state (tv_review v) = rq_state q \<and>
    (rq_state q \<noteq> ''unreviewed'' \<longrightarrow> ts_creator (tv_source v) = ''user'') \<and>
    truth_returned e (audit_actor (ts_creator (tv_source v))) kind (new_uuid e) res s t)"
proof -
  obtain prep where run: "create_statement e kind prep q s = (res, t)"
    and prep: "prep s = Inr (n, c, v) \<Longrightarrow> content_kind c = kind \<and> (prepare_claim at q body s = Inr (n, c, v) \<or>
      prepare_evidence at q body etype as bs ds s = Inr (n, c, v) \<or> prepare_inference at q body method as bs s = Inr (n, c, v))" for n c v
    using assms(4) prepared_kind unfolding create_claim_def create_evidence_def create_inference_def by metis
  have "\<forall>n c v. prep s = Inr (n, c, v) \<longrightarrow> content_kind c = kind \<and> truth_text MAX_TRUTH_TITLE_LENGTH n = Inr n \<and> content_normal c \<and> common_normal v"
    using prep prepare_statement_normal [OF assms(3)] by metis
  from create_statement_result [OF assms(1,2) this run] show ?thesis
    using prep prepare_statement_normal [OF assms(3)] by metis
qed

text \<open>C18: a call of the truth service either raises and has changed nothing, or it has written exactly
  one audit event about the record \<open>j\<close> (the new one, or the one that was reviewed or archived) and
  returns what a read of it returns. New identifiers are canonical UUID texts, and the clock
  yields canonical UTC texts.\<close>

theorem truth_calls_atomic:
  assumes "repo_ok s" and "truth_uuid (new_uuid e) = Inr (new_uuid e)" and "truth_utc at = Inr at"
    and "j = new_uuid e \<and> (create_claim e at q body s = (res, t) \<or> create_evidence e at q body etype as bs ds s = (res, t) \<or>
           create_inference e at q body method as bs s = (res, t) \<or> assess_trust e v op sens s = (res, t)) \<or>
         j = i \<and> (truth_review_op e at i expected state note op actor s = (res, t) \<or> truth_archive e i expected op actor s = (res, t))"
  shows "(isl res \<and> t = s) \<or> (\<exists>info actor' kind. res = Inr info \<and> truth_reread j t = Inr info \<and> audited e actor' kind j s t)"
proof -
  have "(isl res \<and> t = s) \<or> (\<exists>actor' kind. truth_returned e actor' kind j res s t)"
    using assms(4)
  proof (elim disjE conjE)
    assume a: "j = new_uuid e" "create_claim e at q body s = (res, t)"
    have "''claim'' = ''claim'' \<and> create_claim e at q body s = (res, t)" using a by simp
    from create_truth_result [OF assms(1-3) disjI1 [OF this]] a(1) show ?thesis by metis
  next
    assume a: "j = new_uuid e" "create_evidence e at q body etype as bs ds s = (res, t)"
    have "''evidence'' = ''evidence'' \<and> create_evidence e at q body etype as bs ds s = (res, t)" using a by simp
    from create_truth_result [OF assms(1-3) disjI2 [OF disjI1 [OF this]]] a(1) show ?thesis by metis
  next
    assume a: "j = new_uuid e" "create_inference e at q body method as bs s = (res, t)"
    have "''inference'' = ''inference'' \<and> create_inference e at q body method as bs s = (res, t)" using a by simp
    from create_truth_result [OF assms(1-3) disjI2 [OF disjI2 [OF this]]] a(1) show ?thesis by metis
  next
    assume a: "j = new_uuid e" "assess_trust e v op sens s = (res, t)"
    from assess_trust_result [OF assms(1,2) a(2)] a(1) show ?thesis by metis
  next
    assume a: "j = i" "truth_review_op e at i expected state note op actor s = (res, t)"
    from truth_review_result [OF assms(1,3) a(2)] a(1) show ?thesis by metis
  next
    assume a: "j = i" "truth_archive e i expected op actor s = (res, t)"
    from truth_archive_result [OF assms(1) a(2)] a(1) show ?thesis by metis
  qed
  then show ?thesis by (cases res) auto
qed

lemma parsed_review:
  assumes "truth_parts r = Inr (Statement n c v)"
  shows "review_normal (tv_review v) \<and> truth_source (tv_source v) = Inr (tv_source v) \<and> provenance r = record_provenance (tv_source v)"
proof -
  have "common_fields (metadata r) (provenance r) = Inr v"
    using assms by (auto simp: truth_parts_envelope truth_fields_def statement_fields_def trust_fields_def split: if_splits)
  then show ?thesis
    by (auto simp: common_fields_def source_from_metadata_def intro: review_from_metadata_normal truth_source.norm_idem)
qed

lemma source_creator: "truth_source v = Inr w \<Longrightarrow> ts_creator w = ts_creator v"
  by (auto simp: truth_source_def Let_def truth_listed_def)

text \<open>C19: only the user gives a review. When a call leaves a statement whose review state is not
  \<open>unreviewed\<close>, the user made it: as the creator of the statement, or as the actor of the review.
  The stored review names the user.\<close>

theorem reviews_by_user_only:
  assumes "repo_ok s" and "truth_uuid (new_uuid e) = Inr (new_uuid e)" and "truth_utc at = Inr at"
    and "who = ts_creator (rq_source q) \<and> (create_claim e at q body s = (Inr info, t) \<or>
           create_evidence e at q body etype as bs ds s = (Inr info, t) \<or> create_inference e at q body method as bs s = (Inr info, t)) \<or>
         who = actor \<and> truth_review_op e at i expected state note op actor s = (Inr info, t)"
    and "t_payload info = Statement n c v" and "rw_state (tv_review v) \<noteq> ''unreviewed''"
  shows "who = ''user'' \<and> rw_reviewer (tv_review v) = Some ''user''"
proof -
  have user: "who = ''user''"
    using assms(4)
  proof (elim disjE conjE)
    assume a: "who = ts_creator (rq_source q)" "create_claim e at q body s = (Inr info, t)"
    have "''claim'' = ''claim'' \<and> create_claim e at q body s = (Inr info, t)" using a by simp
    from create_truth_result [OF assms(1-3) disjI1 [OF this]] a(1) assms(5,6) source_creator show ?thesis
      by (auto simp: truth_info_def)
  next
    assume a: "who = ts_creator (rq_source q)" "create_evidence e at q body etype as bs ds s = (Inr info, t)"
    have "''evidence'' = ''evidence'' \<and> create_evidence e at q body etype as bs ds s = (Inr info, t)" using a by simp
    from create_truth_result [OF assms(1-3) disjI2 [OF disjI1 [OF this]]] a(1) assms(5,6) source_creator show ?thesis
      by (auto simp: truth_info_def)
  next
    assume a: "who = ts_creator (rq_source q)" "create_inference e at q body method as bs s = (Inr info, t)"
    have "''inference'' = ''inference'' \<and> create_inference e at q body method as bs s = (Inr info, t)" using a by simp
    from create_truth_result [OF assms(1-3) disjI2 [OF disjI2 [OF this]]] a(1) assms(5,6) source_creator show ?thesis
      by (auto simp: truth_info_def)
  next
    assume a: "who = actor" "truth_review_op e at i expected state note op actor s = (Inr info, t)"
    from truth_review_result [OF assms(1,3) a(2)] a(1) show ?thesis by auto
  qed
  obtain j where "truth_reread j t = Inr info"
    using assms(4) create_truth_result [OF assms(1-3), of _ q body "Inr info" t etype as bs ds "method"]
      truth_review_result [OF assms(1,3)] by (metis sum.disc(2))
  then obtain r where "truth_parts r = Inr (Statement n c v)"
    using assms(5) by (auto simp: truth_reread_def parse_truth_record_eq truth_info_def)
  then show ?thesis using user assms(6) parsed_review by (fastforce simp: review_normal_def)
qed

text \<open>C20: the provenance of a readable statement tells who made it. It is \<open>user-created\<close> exactly for
  statements of the user and \<open>model-proposed\<close> exactly for those of the model, which then carry model,
  runtime, session and operation; imported, migrated and restored statements are marked as such.\<close>

theorem provenance_tells_creator:
  assumes "parse_truth_record r = Inr info" and "t_payload info = Statement n c v"
  shows "(provenance r = ''user-created'' \<longleftrightarrow> ts_creator (tv_source v) = ''user'') \<and>
    (provenance r = ''model-proposed'' \<longleftrightarrow> ts_creator (tv_source v) = ''model'') \<and>
    (provenance r = ''imported'' \<longleftrightarrow> ts_creator (tv_source v) = ''importer'') \<and>
    (provenance r = ''migrated'' \<longleftrightarrow> ts_creator (tv_source v) = ''migration'') \<and>
    (provenance r = ''restored'' \<longrightarrow> ts_creator (tv_source v) = ''system'') \<and>
    (provenance r = ''model-proposed'' \<longrightarrow> None \<notin> {ts_model (tv_source v), ts_runtime (tv_source v), ts_session (tv_source v),
       ts_operation (tv_source v)})"
proof -
  have "truth_parts r = Inr (Statement n c v)" using assms by (auto simp: parse_truth_record_eq truth_info_def)
  note p = parsed_review [OF this]
  then have rules: "source_rules (tv_source v) = Inr ()" "ts_creator (tv_source v) \<in> set ALLOWED_ACTORS"
    by (auto simp: truth_source_def Let_def truth_listed_def)
  then show ?thesis
    using p unfolding record_provenance_def source_rules_def Let_def ALLOWED_ACTORS_def
    by (auto split: if_splits)
qed


section \<open>Concrete runs\<close>

lemma truth_text_plain:
  assumes "plain_alphabet w" "is_word_text w" "\<not> list_ex control_char w" "int (length w) \<le> n" "int (length w) \<le> MAX_CONFIGURED_SCAN_CHARS"
  shows "truth_text n w = Inr w"
proof -
  have "reject_unsafe_identifier_text w = Inr ()"
    using assms by (intro plain_identifier_safe [OF _ subset_refl]) (auto simp: is_word_text_def)
  then show ?thesis
    using assms by (simp add: truth_text_def Let_def norm_ws_word reject_unsafe_identifier_text_def is_word_text_def)
qed

definition sample_claim :: truth_request where
  "sample_claim = \<lparr>rq_title = ''a'', rq_source = \<lparr>ts_origin = ''user_statement'', ts_creator = ''user'', ts_identifier = None,
     ts_observed_at = None, ts_hash = None, ts_transformation = None, ts_model = None, ts_runtime = None, ts_session = None,
     ts_operation = None\<rparr>, rq_confidence = Some (JInt 1), rq_uncertainty = None, rq_state = ''reviewed'', rq_note = None,
     rq_operation = Some ''op1'', rq_sensitivity = ''personal''\<rparr>"

definition sample_time :: string where "sample_time = ''2026-01-01T00:00:00Z''"
definition claim_id :: string where "claim_id = ''00000000-0000-0000-0000-000000000003''"
definition claim_env :: env where "claim_env = clock_env claim_id ''v1'' sample_time"

definition sample_truth :: truth_values where
  "sample_truth = \<lparr>tv_confidence = Some (JFloat ''1.0''), tv_uncertainty = None,
     tv_review = \<lparr>rw_state = ''reviewed'', rw_at = Some sample_time, rw_reviewer = Some ''user'', rw_note = None\<rparr>,
     tv_source = rq_source sample_claim\<rparr>"

lemma truth_token: "validate_token MAX_ACTION_LENGTH ''truth.claim.create'' = Inr ''truth.claim.create''"
proof -
  have "plain_alphabet ''truth.claim.create''" by code_simp
  then show ?thesis
    by (auto intro!: plain_token_valid [OF _ subset_refl] simp: MAX_ACTION_LENGTH_def
      is_alnum_ascii_def is_lower_ascii_def is_upper_ascii_def is_digit_def token_char_def ord_def)
qed

lemma sample_claim_prepared: "prepare_claim sample_time sample_claim ''b'' s = Inr (''a'', ClaimContent ''b'', sample_truth)"
proof -
  have "plain_alphabet ''a''" "plain_alphabet ''b''" by code_simp+
  then have "truth_text MAX_TRUTH_TITLE_LENGTH ''a'' = Inr ''a''" "truth_text MAX_BODY_LENGTH ''b'' = Inr ''b''"
    by (auto intro!: truth_text_plain simp: is_word_text_def is_space_def control_char_def ord_def MAX_TRUTH_TITLE_LENGTH_def
        MAX_BODY_LENGTH_def MAX_CONFIGURED_SCAN_CHARS_def)
  moreover have "truth_source (rq_source sample_claim) = Inr (rq_source sample_claim)" by code_simp
  moreover have "common_values sample_time sample_claim (rq_source sample_claim) = Inr sample_truth" by code_simp
  ultimately show ?thesis by (simp add: prepare_claim_def sample_claim_def)
qed

lemma sample_claim_clock: "truth_uuid (new_uuid claim_env) = Inr (new_uuid claim_env)" "truth_utc sample_time = Inr sample_time"
  by code_simp+

lemma sample_claim_created: "\<exists>info t. create_claim claim_env sample_time sample_claim ''b'' sample_repo = (Inr info, t) \<and> t \<noteq> sample_repo"
proof -
  let ?m = "statement_metadata ''a'' (ClaimContent ''b'') sample_truth"
  let ?am = "[(''truth_kind'', JStr ''claim''), (''origin_type'', JStr ''user_statement''), (''review_state'', JStr ''reviewed''),
    (''confidence_present'', JBool True), (''uncertainty_present'', JBool False), (''source_identifier_present'', JBool False),
    (''source_hash_present'', JBool False)]"
  have am: "truth_audit_metadata ?m = Inr ?am" "list_all plain_entry ?am"
    "int (utf8_length (encode (JObj ?am))) \<le> MAX_METADATA_BYTES" by code_simp+
  have e: "new_uuid claim_env = claim_id" "event_uuid claim_env = ''v1''" by (simp_all add: claim_env_def clock_env_def sample_env_def)
  have f: "validate_record_fields ''claim'' 1 ''active'' ''user-created'' ''personal'' = Inr ()"
    "validate_secret_boundary ''claim'' ''personal'' ?m = Inr ()" "record_provenance (tv_source sample_truth) = ''user-created''"
    "audit_actor (ts_creator (tv_source sample_truth)) = ''user''" by code_simp+
  have empty: "\<not> read_only sample_repo" "records sample_repo = []" "audit_events sample_repo = []"
    by (simp_all add: sample_repo_def)
  have fin: "all_finite (JObj ?m)" by code_simp
  have "\<exists>t. store_create claim_env \<lparr>dr_id = claim_id, dr_type = ''claim'', dr_version = 1, dr_prov = ''user-created'', dr_sens = ''personal'',
        dr_title = ''a'', dr_meta = ?m\<rparr> (Some ''op1'') ''user'' ''truth.claim.create'' truth_summary (Inr ?am) sample_repo = (Inr claim_id, t)"
    using store_create_ok [where e = claim_env and d = "\<lparr>dr_id = claim_id, dr_type = ''claim'', dr_version = 1, dr_prov = ''user-created'',
        dr_sens = ''personal'', dr_title = ''a'', dr_meta = ?m\<rparr>" and actor = "''user''",
        OF sample_repo_ok empty(1) _ sample_operation _ _ _ truth_token refl serialize_plain [OF am(2) _ _ am(3)]]
      f fin e empty
    by (simp add: find_row_def MAX_METADATA_ITEMS_def del: all_finite.simps)
  then obtain t where t: "store_create claim_env \<lparr>dr_id = claim_id, dr_type = ''claim'', dr_version = 1, dr_prov = ''user-created'',
        dr_sens = ''personal'', dr_title = ''a'', dr_meta = ?m\<rparr> (Some ''op1'') ''user'' ''truth.claim.create'' truth_summary (Inr ?am)
        sample_repo = (Inr claim_id, t)" by blast
  have "create_truth_record claim_env ''claim'' ''a'' ?m ''user-created'' ''personal'' (Some ''op1'')
      (ts_creator (tv_source sample_truth)) ?am sample_repo = (Inr claim_id, t)"
    using t f e empty(1) by (simp add: create_truth_record_def bind_lift)
  then have run: "create_claim claim_env sample_time sample_claim ''b'' sample_repo = (truth_get ''claim'' claim_id t, t)"
    using sample_claim_prepared am(1) f(3) e
    by (simp add: create_claim_def create_statement_def bind_lift bind_op_read sample_claim_def)
  have ne: "t \<noteq> sample_repo" using store_create_cases [OF sample_repo_ok t] by (auto simp: created_def audited_def)
  have "''claim'' = ''claim'' \<and> create_claim claim_env sample_time sample_claim ''b'' sample_repo = (truth_get ''claim'' claim_id t, t)"
    using run by simp
  from create_truth_result [OF sample_repo_ok sample_claim_clock disjI1 [OF this]] ne
  have "\<not> isl (truth_get ''claim'' claim_id t)" by metis
  then show ?thesis using run ne by (cases "truth_get ''claim'' claim_id t") auto
qed

theorem truth_calls_atomic_witness:
  "\<exists>info t. create_claim claim_env sample_time sample_claim ''b'' sample_repo = (Inr info, t) \<and> truth_reread claim_id t = Inr info"
proof -
  obtain info t where c: "create_claim claim_env sample_time sample_claim ''b'' sample_repo = (Inr info, t)"
    using sample_claim_created by blast
  have "claim_id = new_uuid claim_env" by (simp add: claim_env_def clock_env_def sample_env_def)
  from truth_calls_atomic [OF sample_repo_ok sample_claim_clock disjI1 [OF conjI [OF this disjI1 [OF c]]]] c show ?thesis by auto
qed

lemma sample_claim_result:
  "\<exists>info t r n c v. create_claim claim_env sample_time sample_claim ''b'' sample_repo = (Inr info, t) \<and>
     t_payload info = Statement n c v \<and> rw_state (tv_review v) = ''reviewed'' \<and> ts_creator (tv_source v) = ''user'' \<and> parse_truth_record r = Inr info"
proof -
  obtain info t where c: "create_claim claim_env sample_time sample_claim ''b'' sample_repo = (Inr info, t)"
    using sample_claim_created by blast
  then have "''claim'' = ''claim'' \<and> create_claim claim_env sample_time sample_claim ''b'' sample_repo = (Inr info, t)" by simp
  from create_truth_result [OF sample_repo_ok sample_claim_clock disjI1 [OF this]] c show ?thesis
    using source_creator [of "rq_source sample_claim"] by (auto simp: truth_info_def truth_reread_def sample_claim_def)
qed

theorem reviews_by_user_only_witness:
  "\<exists>info t n c v. create_claim claim_env sample_time sample_claim ''b'' sample_repo = (Inr info, t) \<and> t_payload info = Statement n c v \<and>
     rw_reviewer (tv_review v) = Some ''user''"
proof -
  obtain info t r n c v where c: "create_claim claim_env sample_time sample_claim ''b'' sample_repo = (Inr info, t)"
    "t_payload info = Statement n c v" "rw_state (tv_review v) = ''reviewed''" using sample_claim_result by blast
  from reviews_by_user_only [OF sample_repo_ok sample_claim_clock disjI1 [OF conjI [OF refl disjI1 [OF c(1)]]] c(2)] c
  show ?thesis by auto
qed

theorem provenance_tells_creator_witness:
  "\<exists>r info t n c v. create_claim claim_env sample_time sample_claim ''b'' sample_repo = (Inr info, t) \<and>
     parse_truth_record r = Inr info \<and> t_payload info = Statement n c v \<and> ts_creator (tv_source v) = ''user'' \<and>
     provenance r = ''user-created''"
proof -
  obtain info t r n c v where c: "create_claim claim_env sample_time sample_claim ''b'' sample_repo = (Inr info, t)"
    "t_payload info = Statement n c v" "ts_creator (tv_source v) = ''user''" "parse_truth_record r = Inr info"
    using sample_claim_result by blast
  with provenance_tells_creator [OF c(4,2)] show ?thesis by blast
qed

end
