(* ===== verification/Dependency_Graph.thy ===== *)
theory Dependency_Graph
  imports Prelude
begin

text \<open>
  The depth-first search of \<open>_validate_dependency_graph\<close> in \<open>work_item.py\<close>, on a graph given as the
  Python dictionary from a node to its dependencies. The recursive \<open>visit\<close> keeps the set
  \<open>visiting\<close> of the nodes on the current path and the set \<open>visited\<close> of finished nodes; the model
  passes \<open>visiting\<close> down, where the source removes the node again on the way back, and returns
  the new \<open>visited\<close>. The search is total, and it succeeds exactly on acyclic graphs.
\<close>

type_synonym 'n digraph = "('n \<times> 'n list) list"

definition nodes :: "'n digraph \<Rightarrow> 'n list" where
  "nodes g = map fst g"

definition successors :: "'n digraph \<Rightarrow> 'n \<Rightarrow> 'n list" where
  "successors g n = filter (\<lambda>d. d \<in> set (nodes g)) (case map_of g n of None \<Rightarrow> [] | Some ds \<Rightarrow> ds)"

lemma bindr_cong [fundef_cong]:
  "r = r' \<Longrightarrow> (\<And>x. r' = Inr x \<Longrightarrow> f x = h x) \<Longrightarrow> bindr r f = bindr r' h"
  by (cases r') auto

text \<open>\<open>visit_all g visiting ns visited\<close> is the loop \<open>for n in ns: visit(n)\<close>.\<close>

function visit_all :: "'n digraph \<Rightarrow> 'n list \<Rightarrow> 'n list \<Rightarrow> 'n list \<Rightarrow> 'n list res" where
  "visit_all g visiting [] visited = Inr visited"
| "visit_all g visiting (n # ns) visited =
     (if n \<in> set visiting then Inl WorkItemValidationError
      else if n \<in> set visited then visit_all g visiting ns visited
      else if n \<notin> set (nodes g) then visit_all g visiting ns visited
      else bindr (visit_all g (n # visiting) (successors g n) visited) (\<lambda>visited'.
           visit_all g visiting ns (n # visited')))"
  by pat_completeness auto

termination
proof (relation "inv_image (finite_psubset <*lex*> less_than) (\<lambda>(g, visiting, ns, visited). (set (nodes g) - set visiting, length ns))")
  show "wf (inv_image (finite_psubset <*lex*> less_than)
    (\<lambda>(g, visiting, ns, visited). (set (nodes g) - set visiting, length ns)))"
    by (intro wf_inv_image wf_lex_prod wf_finite_psubset wf_less_than)
qed (auto simp: finite_psubset_def)

definition find_cycle :: "'n digraph \<Rightarrow> unit res" where
  "find_cycle g = bindr (visit_all g [] (nodes g) []) (\<lambda>_. Inr ())"

section \<open>The search decides acyclicity\<close>

definition edges :: "'n digraph \<Rightarrow> ('n \<times> 'n) set" where
  "edges g = {(a, b). a \<in> set (nodes g) \<and> b \<in> set (successors g a)}"

text \<open>The list of finished nodes is in reverse topological order: the successors of a node were
  finished before it.\<close>

fun topological :: "'n digraph \<Rightarrow> 'n list \<Rightarrow> bool" where
  "topological g [] \<longleftrightarrow> True"
| "topological g (n # ns) \<longleftrightarrow> set (successors g n) \<subseteq> set ns \<and> n \<notin> set ns \<and> topological g ns"

lemma successors_nodes: "set (successors g n) \<subseteq> set (nodes g)"
  by (auto simp: successors_def)

lemma visit_all_finished:
  assumes "visit_all g visiting ns visited = Inr finished" "topological g visited" "set visited \<inter> set visiting = {}"
    and "set ns \<subseteq> set (nodes g)"
  shows "topological g finished \<and> set ns \<subseteq> set finished \<and> set visited \<subseteq> set finished \<and> set finished \<inter> set visiting = {}"
  using assms
proof (induction g visiting ns visited arbitrary: finished rule: visit_all.induct)
  case (2 g visiting n ns visited)
  note prems = "2.prems"
  show ?case
  proof (cases "n \<in> set visited")
    case True
    then have "n \<notin> set visiting" using prems(3) by auto
    then show ?thesis using "2.IH"(1) True prems by auto
  next
    case False
    have n: "n \<notin> set visiting" "n \<in> set (nodes g)" using prems(1,4) False by (auto split: if_splits)
    then obtain mid where mid: "visit_all g (n # visiting) (successors g n) visited = Inr mid"
      "visit_all g visiting ns (n # mid) = Inr finished" using prems(1) False by auto
    have inner: "topological g mid \<and> set (successors g n) \<subseteq> set mid \<and> set visited \<subseteq> set mid \<and> set mid \<inter> set (n # visiting) = {}"
      using "2.IH"(3) [OF n(1) False _ mid(1)] n(2) prems(2,3) False successors_nodes by fastforce
    then have "topological g (n # mid)" "set (n # mid) \<inter> set visiting = {}" using n(1) by auto
    from "2.IH"(4) [OF n(1) False _ mid(1) mid(2) this] n(2) prems(4) inner show ?thesis by auto
  qed
qed auto

lemma topological_closed:
  assumes "topological g ns" "(a, b) \<in> (edges g)\<^sup>+" "a \<in> set ns"
  shows "b \<in> set ns"
proof -
  have step: "d \<in> set ns" if "(c, d) \<in> edges g" "c \<in> set ns" for c d
    using assms(1) that by (induction ns) (auto simp: edges_def)
  show ?thesis using assms(2,3) by (induction rule: trancl_induct) (auto intro: step)
qed

lemma topological_no_cycle: "topological g ns \<Longrightarrow> a \<in> set ns \<Longrightarrow> (a, a) \<notin> (edges g)\<^sup>+"
proof (induction ns)
  case (Cons n ns)
  show ?case
  proof (cases "a = n")
    case True
    have "b \<in> set ns" if "(n, b) \<in> (edges g)\<^sup>+" for b
      using that Cons.prems(1)
    proof (induction rule: trancl_induct)
      case (step b c)
      then show ?case using topological_closed [of g ns b c] by auto
    qed (auto simp: edges_def)
    then show ?thesis using True Cons.prems(1) by auto
  qed (use Cons in auto)
qed simp

lemma visit_all_cycle:
  assumes "visit_all g visiting ns visited = Inl x" "set ns \<subseteq> set (nodes g)"
    and "\<forall>v \<in> set visiting. \<forall>n \<in> set ns. (v, n) \<in> (edges g)\<^sup>+"
  shows "x = WorkItemValidationError \<and> \<not> acyclic (edges g)"
  using assms
proof (induction g visiting ns visited rule: visit_all.induct)
  case (2 g visiting n ns visited)
  consider "n \<in> set visiting" | "n \<notin> set visiting" "n \<in> set visited" | "n \<notin> set visiting" "n \<notin> set visited" by blast
  then show ?case
  proof cases
    case 1
    then show ?thesis using "2.prems" by (auto simp: acyclic_def)
  next
    case 2
    then show ?thesis using "2.IH"(1) "2.prems" by auto
  next
    case 3
    have n: "n \<in> set (nodes g)" using "2.prems"(2) by simp
    have path: "\<forall>v \<in> set (n # visiting). \<forall>d \<in> set (successors g n). (v, d) \<in> (edges g)\<^sup>+"
    proof (intro ballI)
      fix v d assume v: "v \<in> set (n # visiting)" "d \<in> set (successors g n)"
      then have e: "(n, d) \<in> edges g" using n by (simp add: edges_def)
      show "(v, d) \<in> (edges g)\<^sup>+"
        using v(1) e "2.prems"(3) by (cases "v = n") (auto intro: trancl_into_trancl)
    qed
    show ?thesis
    proof (cases "visit_all g (n # visiting) (successors g n) visited")
      case (Inl y)
      then have "visit_all g (n # visiting) (successors g n) visited = Inl x" using "2.prems"(1) n 3 by simp
      from "2.IH"(3) [OF 3 _ this successors_nodes path] n show ?thesis by simp
    next
      case (Inr mid)
      then have "visit_all g visiting ns (n # mid) = Inl x" using "2.prems"(1) n 3 by simp
      from "2.IH"(4) [OF 3 _ Inr this] n "2.prems"(2,3) show ?thesis by simp
    qed
  qed
qed simp

lemma edges_nodes: "(a, b) \<in> edges g \<Longrightarrow> a \<in> set (nodes g)"
  by (simp add: edges_def)

lemma find_cycle_correct:
  "find_cycle g = (if acyclic (edges g) then Inr () else Inl WorkItemValidationError)"
proof (cases "visit_all g [] (nodes g) []")
  case (Inl x)
  then show ?thesis using visit_all_cycle [OF Inl] by (simp add: find_cycle_def)
next
  case (Inr finished)
  then have t: "topological g finished" "set (nodes g) \<subseteq> set finished" using visit_all_finished [OF Inr] by auto
  have "(a, a) \<notin> (edges g)\<^sup>+" for a
    using topological_no_cycle [OF t(1), of a] t(2) edges_nodes [of a _ g] by (meson subsetD tranclD)
  then show ?thesis using Inr by (simp add: find_cycle_def acyclic_def)
qed

end
