(* ===== verification/Work_Item.thy ===== *)
theory Work_Item
  imports Project_Laws Trust Dependency_Graph
begin

text \<open>
  Project work items, \<open>work_item.py\<close>. As for projects, the reader without a repository
  (\<open>work_shallow\<close>) looks at the record alone, and the one with a repository (\<open>work_from_record\<close>)
  also validates the project, the related work items, the dependency graph of the project and the
  linked decisions, evidence, artifacts and sources. The text that \<open>_utc_now()\<close> returns for a
  transition is the argument \<open>at\<close>; the recursion of \<open>visit\<close> is not bounded here, where Python gives
  up with \<open>RecursionError\<close> on a dependency chain of about a thousand items.
\<close>

section \<open>Data\<close>

definition WORK_ITEM_KINDS :: "string list" where
  "WORK_ITEM_KINDS = [''task'', ''milestone'', ''investigation'', ''maintenance'', ''review'']"

definition WORK_ITEM_STATUSES :: "string list" where
  "WORK_ITEM_STATUSES = [''proposed'', ''ready'', ''in_progress'', ''blocked'', ''completed'', ''cancelled'']"

definition VERIFICATION_STATES :: "string list" where
  "VERIFICATION_STATES = [''not_verified'', ''pending'', ''passed'', ''failed'', ''not_applicable'']"

definition ALLOWED_TRANSITIONS :: "(string \<times> string list) list" where
  "ALLOWED_TRANSITIONS =
     [(''proposed'', [''ready'', ''cancelled'']),
      (''ready'', [''in_progress'', ''blocked'', ''cancelled'']),
      (''in_progress'', [''blocked'', ''completed'', ''cancelled'']),
      (''blocked'', [''ready'', ''in_progress'', ''cancelled'']),
      (''completed'', []),
      (''cancelled'', [])]"

definition MAX_WORK_TITLE_LENGTH :: int where "MAX_WORK_TITLE_LENGTH = 240"
definition MAX_WORK_DESCRIPTION_LENGTH :: int where "MAX_WORK_DESCRIPTION_LENGTH = 6000"
definition MAX_CRITERION_LENGTH :: int where "MAX_CRITERION_LENGTH = 2000"
definition MAX_CRITERIA :: int where "MAX_CRITERIA = 100"
definition MAX_WORK_LINKS :: int where "MAX_WORK_LINKS = 100"
definition MAX_WORK_LIST_LIMIT :: int where "MAX_WORK_LIST_LIMIT = 500"

record AcceptanceCriterion =
  ac_id :: string
  ac_description :: string
  ac_evidence_kind :: "string option"
  ac_blocking :: bool

record work_values =
  wi_project :: string
  wi_kind :: string
  wi_title :: string
  wi_description :: string
  wi_status :: string
  wi_priority :: int
  wi_started_at :: "string option"
  wi_completed_at :: "string option"
  wi_depends_on :: "string list"
  wi_blocked_by :: "string list"
  wi_criteria :: "AcceptanceCriterion list"
  wi_verification :: string
  wi_evidence :: "string list"
  wi_decisions :: "string list"
  wi_artifacts :: "string list"
  wi_sources :: "string list"

record WorkItemInfo = typed_info +
  w_provenance :: string
  work_values :: work_values

section \<open>Validators\<close>

abbreviation work_error :: exc where "work_error \<equiv> WorkItemValidationError"

definition work_text :: "int \<Rightarrow> string \<Rightarrow> string res" where
  "work_text maximum value =
     (let normalized = norm_ws value in
      bindr (require (\<not> (normalized = [] \<or> maximum < int (length normalized))) work_error) (\<lambda>_.
      bindr (require (\<not> (re_search POSIX_PATH_PATTERN normalized \<or> re_search WINDOWS_ROOT_PATTERN normalized)) work_error) (\<lambda>_.
      Inr normalized)))"

definition work_token :: "string \<Rightarrow> string res" where
  "work_token value = bindr (require (re_fullmatch TOKEN_PATTERN value) work_error) (\<lambda>_. Inr value)"

definition work_listed :: "string list \<Rightarrow> string \<Rightarrow> string res" where
  "work_listed allowed value = bindr (require (List.member allowed value) work_error) (\<lambda>_. Inr value)"

definition work_kind :: "string \<Rightarrow> string res" where
  "work_kind = work_listed WORK_ITEM_KINDS"

definition work_status :: "string \<Rightarrow> string res" where
  "work_status = work_listed WORK_ITEM_STATUSES"

definition verification_state :: "string \<Rightarrow> string res" where
  "verification_state = work_listed VERIFICATION_STATES"

definition work_priority :: "json option \<Rightarrow> int res" where
  "work_priority value =
     (case value of Some (JInt n) \<Rightarrow> bindr (require (0 \<le> n \<and> n \<le> 100) work_error) (\<lambda>_. Inr n) | _ \<Rightarrow> Inl work_error)"

abbreviation work_uuid :: "string \<Rightarrow> string res" where "work_uuid \<equiv> ref_id work_error"
abbreviation work_ids :: "string list \<Rightarrow> string list res" where "work_ids \<equiv> ref_ids work_error MAX_WORK_LINKS"
abbreviation work_str :: "dict \<Rightarrow> string \<Rightarrow> string res" where "work_str \<equiv> req_str work_error"
abbreviation work_opt_utc :: "string option \<Rightarrow> string option res" where "work_opt_utc \<equiv> opt_res (field_utc work_error)"
abbreviation work_meta_ids :: "dict \<Rightarrow> string \<Rightarrow> string list res" where
  "work_meta_ids \<equiv> meta_ids work_error MAX_WORK_LINKS"

definition work_meta_utc :: "dict \<Rightarrow> string \<Rightarrow> string option res" where
  "work_meta_utc m key =
     (case map_of m key of
        None \<Rightarrow> Inr None
      | Some JNull \<Rightarrow> Inr None
      | Some (JStr value) \<Rightarrow> work_opt_utc (Some value)
      | _ \<Rightarrow> Inl work_error)"

fun collect_criteria :: "AcceptanceCriterion list \<Rightarrow> AcceptanceCriterion list \<Rightarrow> AcceptanceCriterion list res" where
  "collect_criteria acc [] = Inr acc"
| "collect_criteria acc (c # cs) =
     bindr (work_token (ac_id c)) (\<lambda>i.
     bindr (require (\<not> List.member (map ac_id acc) i) work_error) (\<lambda>_.
     bindr (work_text MAX_CRITERION_LENGTH (ac_description c)) (\<lambda>description.
     bindr (opt_res work_token (ac_evidence_kind c)) (\<lambda>kind.
     collect_criteria (acc @ [\<lparr>ac_id = i, ac_description = description, ac_evidence_kind = kind,
        ac_blocking = ac_blocking c\<rparr>]) cs))))"

definition criteria :: "AcceptanceCriterion list \<Rightarrow> AcceptanceCriterion list res" where
  "criteria values =
     bindr (require (\<not> MAX_CRITERIA < int (length values)) work_error) (\<lambda>_. collect_criteria [] values)"

definition raw_criterion :: "json \<Rightarrow> AcceptanceCriterion res" where
  "raw_criterion v =
     (case v of
        JObj m \<Rightarrow>
          bindr (case map_of m ''required_evidence_kind'' of
                   None \<Rightarrow> Inr None | Some JNull \<Rightarrow> Inr None | Some (JStr k) \<Rightarrow> Inr (Some k) | _ \<Rightarrow> Inl work_error) (\<lambda>kind.
          bindr (case map_of m ''blocking'' of Some (JBool b) \<Rightarrow> Inr b | _ \<Rightarrow> Inl work_error) (\<lambda>blocking.
          bindr (work_str m ''criterion_id'') (\<lambda>i.
          bindr (work_str m ''description'') (\<lambda>description.
          Inr \<lparr>ac_id = i, ac_description = description, ac_evidence_kind = kind, ac_blocking = blocking\<rparr>))))
      | _ \<Rightarrow> Inl work_error)"

definition metadata_criteria :: "dict \<Rightarrow> string \<Rightarrow> AcceptanceCriterion list res" where
  "metadata_criteria m key = bindr (bindr (meta_list work_error m key) (map_res raw_criterion)) criteria"

definition criterion_payload :: "AcceptanceCriterion \<Rightarrow> json" where
  "criterion_payload c = JObj
     [(''criterion_id'', JStr (ac_id c)), (''description'', JStr (ac_description c)),
      (''required_evidence_kind'', opt_json (ac_evidence_kind c)), (''blocking'', JBool (ac_blocking c))]"

section \<open>The rules of a work item\<close>

definition completion_after_start :: "string option \<Rightarrow> string option \<Rightarrow> unit res" where
  "completion_after_start started completed =
     (case completed of
        None \<Rightarrow> Inr ()
      | Some c \<Rightarrow> (case started of None \<Rightarrow> Inl work_error | Some a \<Rightarrow> not_before work_error c a))"

definition completion_rule :: "string \<Rightarrow> string option \<Rightarrow> unit res" where
  "completion_rule stat completed =
     bindr (require (\<not> (stat = ''completed'' \<and> completed = None)) work_error) (\<lambda>_.
     require (\<not> (stat \<noteq> ''completed'' \<and> completed \<noteq> None)) work_error)"

definition blocker_rule :: "string \<Rightarrow> string list \<Rightarrow> unit res" where
  "blocker_rule stat blockers =
     bindr (require (\<not> (stat = ''blocked'' \<and> blockers = [])) work_error) (\<lambda>_.
     require (\<not> (stat \<noteq> ''blocked'' \<and> blockers \<noteq> [])) work_error)"

definition evidence_rule :: "string \<Rightarrow> string list \<Rightarrow> unit res" where
  "evidence_rule verification evidence =
     bindr (require (\<not> (List.member [''passed'', ''failed''] verification \<and> evidence = [])) work_error) (\<lambda>_.
     require (\<not> (List.member [''not_verified'', ''not_applicable''] verification \<and> evidence \<noteq> [])) work_error)"

definition validate_persisted_semantics :: "string \<Rightarrow> work_values \<Rightarrow> unit res" where
  "validate_persisted_semantics self_id v =
     bindr (completion_rule (wi_status v) (wi_completed_at v)) (\<lambda>_.
     bindr (completion_after_start (wi_started_at v) (wi_completed_at v)) (\<lambda>_.
     bindr (blocker_rule (wi_status v) (wi_blocked_by v)) (\<lambda>_.
     bindr (require (\<not> (List.member (wi_depends_on v) self_id \<or> List.member (wi_blocked_by v) self_id \<or>
              List.member (wi_sources v) self_id)) work_error) (\<lambda>_.
     bindr (require (set (wi_depends_on v) \<inter> set (wi_blocked_by v) = {}) work_error) (\<lambda>_.
     evidence_rule (wi_verification v) (wi_evidence v))))))"

section \<open>Reading one record\<close>

definition work_envelope :: "RecordEnvelope \<Rightarrow> unit res" where
  "work_envelope r =
     bindr (require (record_type r = ''work_item'' \<and> rec_schema_version r = 1) work_error) (\<lambda>_.
     bindr (require (List.member [''active'', ''archived''] (rec_status r)) work_error) (\<lambda>_.
     require (\<not> revision r < 1) work_error))"

definition work_fields :: "dict \<Rightarrow> string option \<Rightarrow> string \<Rightarrow> work_values res" where
  "work_fields m ttl prov =
     bindr (bindr (work_str m ''project_id'') work_uuid) (\<lambda>project.
     bindr (bindr (work_str m ''kind'') work_kind) (\<lambda>kind.
     bindr (bindr (work_str m ''title'') (work_text MAX_WORK_TITLE_LENGTH)) (\<lambda>t.
     bindr (require (ttl = Some t) work_error) (\<lambda>_.
     bindr (bindr (work_str m ''description'') (work_text MAX_WORK_DESCRIPTION_LENGTH)) (\<lambda>description.
     bindr (bindr (work_str m ''status'') work_status) (\<lambda>stat.
     bindr (require (\<not> (stat \<noteq> ''proposed'' \<and> \<not> List.member [''user-created'', ''user-confirmed''] prov)) work_error) (\<lambda>_.
     bindr (work_priority (map_of m ''priority'')) (\<lambda>priority.
     bindr (work_meta_utc m ''started_at'') (\<lambda>started.
     bindr (work_meta_utc m ''completed_at'') (\<lambda>completed.
     bindr (work_meta_ids m ''depends_on_ids'') (\<lambda>depends.
     bindr (work_meta_ids m ''blocked_by_ids'') (\<lambda>blockers.
     bindr (metadata_criteria m ''acceptance_criteria'') (\<lambda>crits.
     bindr (bindr (work_str m ''verification_state'') verification_state) (\<lambda>verification.
     bindr (work_meta_ids m ''verification_evidence_ids'') (\<lambda>evidence.
     bindr (work_meta_ids m ''source_decision_ids'') (\<lambda>decisions.
     bindr (work_meta_ids m ''artifact_ids'') (\<lambda>artifacts.
     bindr (work_meta_ids m ''source_ids'') (\<lambda>sources.
     Inr \<lparr>wi_project = project, wi_kind = kind, wi_title = t, wi_description = description, wi_status = stat,
          wi_priority = priority, wi_started_at = started, wi_completed_at = completed, wi_depends_on = depends,
          wi_blocked_by = blockers, wi_criteria = crits, wi_verification = verification, wi_evidence = evidence,
          wi_decisions = decisions, wi_artifacts = artifacts, wi_sources = sources\<rparr>))))))))))))))))))"

definition work_parts :: "RecordEnvelope \<Rightarrow> work_values res" where
  "work_parts r =
     bindr (work_envelope r) (\<lambda>_.
     bindr (work_fields (metadata r) (rec_title r) (provenance r)) (\<lambda>v.
     bindr (validate_persisted_semantics (rec_id r) v) (\<lambda>_. Inr v)))"

definition work_info :: "RecordEnvelope \<Rightarrow> work_values \<Rightarrow> WorkItemInfo" where
  "work_info r v =
     \<lparr>i_record_id = rec_id r, i_revision = revision r, i_status = rec_status r, i_sensitivity = sensitivity r,
      i_created_at = created_at r, i_updated_at = updated_at r, w_provenance = provenance r, work_values = v\<rparr>"

definition is_malformed_work :: "exc \<Rightarrow> bool" where
  "is_malformed_work x \<longleftrightarrow> x = KeyError \<or> x = ValueError \<or> x = WorkItemValidationError"

definition work_shallow :: "RecordEnvelope \<Rightarrow> WorkItemInfo res" where
  "work_shallow r =
     bindr (rescue is_malformed_work WorkItemCorruptError (work_parts r)) (\<lambda>v. Inr (work_info r v))"

section \<open>Links\<close>

definition work_project_link :: "repo \<Rightarrow> string \<Rightarrow> unit res" where
  "work_project_link s i =
     rescue (\<lambda>x. x = KeyError \<or> x = ProjectDecisionCorruptError \<or> x = work_error) work_error
       (bindr (get_record i s) (\<lambda>r.
        bindr (require (\<not> (record_type r \<noteq> ''project'' \<or> rec_status r \<noteq> ''active'')) work_error) (\<lambda>_.
        bindr (project_from_record r s) (\<lambda>_. Inr ()))))"

definition linked_item :: "repo \<Rightarrow> string \<Rightarrow> string \<Rightarrow> WorkItemInfo res" where
  "linked_item s project i =
     bindr (rescue (\<lambda>x. x = KeyError \<or> x = WorkItemCorruptError \<or> x = work_error) work_error
       (bindr (get_record i s) (\<lambda>r.
        bindr (require (rec_status r = ''active'') work_error) (\<lambda>_. work_shallow r)))) (\<lambda>item.
     bindr (require (wi_project (work_values item) = project) work_error) (\<lambda>_. Inr item))"

definition graph_rows :: "repo \<Rightarrow> string \<Rightarrow> RecordRow list" where
  "graph_rows s candidate =
     filter (\<lambda>r. record_type r = ''work_item'' \<and> rec_status r = ''active'' \<and> rec_id r \<noteq> candidate) (records s)"

definition dependency_graph :: "repo \<Rightarrow> string \<Rightarrow> string \<Rightarrow> string list \<Rightarrow> string digraph res" where
  "dependency_graph s project candidate depends =
     bindr (map_res (\<lambda>row. bindr (bindr (get_record (rec_id row) s) work_shallow) (\<lambda>item. Inr (rec_id row, item)))
              (graph_rows s candidate)) (\<lambda>items.
     Inr ((candidate, depends) #
          map (\<lambda>(i, item). (i, wi_depends_on (work_values item)))
            (filter (\<lambda>(i, item). wi_project (work_values item) = project) items)))"

definition validate_dependency_graph :: "repo \<Rightarrow> string \<Rightarrow> string \<Rightarrow> string list \<Rightarrow> unit res" where
  "validate_dependency_graph s project candidate depends =
     bindr (dependency_graph s project candidate depends) find_cycle"

definition validate_work_item_relations :: "repo \<Rightarrow> string \<Rightarrow> string \<Rightarrow> string list \<Rightarrow> string list \<Rightarrow> unit res" where
  "validate_work_item_relations s self_id project depends blockers =
     bindr (map_res (linked_item s project) (depends @ blockers)) (\<lambda>items.
     bindr (for_each (\<lambda>b. case map_of (zip (depends @ blockers) items) b of
                None \<Rightarrow> Inl KeyError
              | Some item \<Rightarrow> require (\<not> List.member [''completed'', ''cancelled''] (wi_status (work_values item))) work_error)
            blockers) (\<lambda>_.
     validate_dependency_graph s project self_id depends))"

definition work_decision_link :: "repo \<Rightarrow> string \<Rightarrow> unit res" where
  "work_decision_link s i =
     rescue (\<lambda>x. x = KeyError \<or> x = ProjectDecisionCorruptError \<or> x = work_error) work_error
       (bindr (get_record i s) (\<lambda>r.
        bindr (require (\<not> (record_type r \<noteq> ''decision'' \<or> rec_status r \<noteq> ''active'')) work_error) (\<lambda>_.
        bindr (decision_from_record r s) (\<lambda>_. Inr ()))))"

definition work_evidence_link :: "repo \<Rightarrow> string \<Rightarrow> unit res" where
  "work_evidence_link s i =
     rescue (\<lambda>x. x = KeyError \<or> x = TruthCorruptError \<or> x = work_error) work_error
       (bindr (get_record i s) (\<lambda>r.
        bindr (require (\<not> (record_type r \<noteq> ''evidence'' \<or> rec_status r \<noteq> ''active'')) work_error) (\<lambda>_.
        bindr (evidence_from_record r) (\<lambda>_. Inr ()))))"

definition work_artifact_link :: "repo \<Rightarrow> string \<Rightarrow> unit res" where
  "work_artifact_link s i =
     rescue (\<lambda>x. x = KeyError \<or> x = ArtifactCorruptError \<or> x = work_error) work_error
       (bindr (get_record i s) (\<lambda>r.
        bindr (require (\<not> (record_type r \<noteq> ''artifact'' \<or> rec_status r \<noteq> ''active'')) work_error) (\<lambda>_.
        bindr (artifact_from_record r) (\<lambda>_. Inr ()))))"

definition work_source_link :: "repo \<Rightarrow> string \<Rightarrow> unit res" where
  "work_source_link s i =
     bindr (rescue (\<lambda>x. x = KeyError) work_error (get_record i s)) (\<lambda>r.
     require (\<not> (rec_status r \<noteq> ''active'' \<or> sensitivity r = ''secret'')) work_error)"

definition validate_work_links :: "repo \<Rightarrow> work_values \<Rightarrow> unit res" where
  "validate_work_links s v =
     bindr (for_each (work_decision_link s) (wi_decisions v)) (\<lambda>_.
     bindr (for_each (work_evidence_link s) (wi_evidence v)) (\<lambda>_.
     bindr (for_each (work_artifact_link s) (wi_artifacts v)) (\<lambda>_.
     for_each (work_source_link s) (wi_sources v))))"

text \<open>What the reader and the writer check in the repository, in this order.\<close>

definition work_context :: "string \<Rightarrow> work_values \<Rightarrow> repo \<Rightarrow> unit res" where
  "work_context self_id v s =
     bindr (work_project_link s (wi_project v)) (\<lambda>_.
     bindr (validate_work_item_relations s self_id (wi_project v) (wi_depends_on v) (wi_blocked_by v)) (\<lambda>_.
     validate_work_links s v))"

definition work_from_record :: "RecordEnvelope \<Rightarrow> repo \<Rightarrow> WorkItemInfo res" where
  "work_from_record r s =
     bindr (rescue is_malformed_work WorkItemCorruptError (
       bindr (work_parts r) (\<lambda>v. bindr (work_context (rec_id r) v s) (\<lambda>_. Inr v))))
     (\<lambda>v. Inr (work_info r v))"

definition require_work_record :: "string \<Rightarrow> repo \<Rightarrow> RecordEnvelope res" where
  "require_work_record i s =
     bindr (work_uuid i) (\<lambda>safe_id.
     bindr (rescue (\<lambda>x. x = KeyError) work_error (get_record safe_id s)) (\<lambda>r.
     bindr (require (record_type r = ''work_item'') work_error) (\<lambda>_. Inr r)))"

definition work_get :: "string \<Rightarrow> repo \<Rightarrow> WorkItemInfo res" where
  "work_get i s = bindr (require_work_record i s) (\<lambda>r. work_from_record r s)"

text \<open>The listing reads every item, in creation order, until the limit is reached.\<close>

fun collect_items :: "repo \<Rightarrow> string option \<Rightarrow> bool \<Rightarrow> int \<Rightarrow> WorkItemInfo list \<Rightarrow> RecordRow list \<Rightarrow> WorkItemInfo list res" where
  "collect_items s project include_archived limit acc [] = Inr acc"
| "collect_items s project include_archived limit acc (row # rows) =
     bindr (work_get (rec_id row) s) (\<lambda>item.
     if \<not> include_archived \<and> i_status item \<noteq> ''active'' then collect_items s project include_archived limit acc rows
     else if project \<noteq> None \<and> project \<noteq> Some (wi_project (work_values item))
     then collect_items s project include_archived limit acc rows
     else if limit \<le> int (length (acc @ [item])) then Inr (acc @ [item])
     else collect_items s project include_archived limit (acc @ [item]) rows)"

definition work_list :: "string option \<Rightarrow> bool \<Rightarrow> int \<Rightarrow> repo \<Rightarrow> WorkItemInfo list res" where
  "work_list project include_archived limit s =
     bindr (require (1 \<le> limit \<and> limit \<le> MAX_WORK_LIST_LIMIT) work_error) (\<lambda>_.
     bindr (opt_res work_uuid project) (\<lambda>safe_project.
     collect_items s safe_project include_archived limit []
       (sort_key (\<lambda>r. (created_at r, rec_id r)) (filter (\<lambda>r. record_type r = ''work_item'') (records s)))))"

definition work_record_payload :: "RecordEnvelope \<Rightarrow> json" where
  "work_record_payload r = JObj
     [(''id'', JStr (rec_id r)), (''record_type'', JStr (record_type r)), (''schema_version'', JInt (rec_schema_version r)),
      (''created_at'', JStr (created_at r)), (''updated_at'', JStr (updated_at r)), (''revision'', JInt (revision r)),
      (''status'', JStr (rec_status r)), (''provenance'', JStr (provenance r)), (''sensitivity'', JStr (sensitivity r)),
      (''title'', opt_json (rec_title r)), (''metadata'', JObj (metadata r))]"

definition work_canonical_json :: "json \<Rightarrow> string res" where
  "work_canonical_json v = bindr (require (all_finite v) work_error) (\<lambda>_. Inr (encode v))"

definition work_export_json :: "string \<Rightarrow> repo \<Rightarrow> string res" where
  "work_export_json i s =
     bindr (work_get i s) (\<lambda>item.
     bindr (require (i_sensitivity item \<noteq> ''secret'') work_error) (\<lambda>_.
     bindr (require_work_record i s) (\<lambda>r.
     work_canonical_json (JObj [(''export_schema'', JStr ''doll.work-item.v1''), (''record'', work_record_payload r)]))))"

section \<open>Writing\<close>

definition validated_work_item_values :: "string \<Rightarrow> work_values \<Rightarrow> repo \<Rightarrow> work_values res" where
  "validated_work_item_values self_id v s =
     bindr (work_uuid self_id) (\<lambda>safe_self_id.
     bindr (work_uuid (wi_project v)) (\<lambda>project.
     bindr (work_kind (wi_kind v)) (\<lambda>kind.
     bindr (work_text MAX_WORK_TITLE_LENGTH (wi_title v)) (\<lambda>t.
     bindr (work_text MAX_WORK_DESCRIPTION_LENGTH (wi_description v)) (\<lambda>description.
     bindr (work_status (wi_status v)) (\<lambda>stat.
     bindr (work_priority (Some (JInt (wi_priority v)))) (\<lambda>priority.
     bindr (work_opt_utc (wi_started_at v)) (\<lambda>started.
     bindr (work_opt_utc (wi_completed_at v)) (\<lambda>completed.
     bindr (completion_after_start started completed) (\<lambda>_.
     bindr (completion_rule stat completed) (\<lambda>_.
     bindr (work_ids (wi_depends_on v)) (\<lambda>depends.
     bindr (work_ids (wi_blocked_by v)) (\<lambda>blockers.
     bindr (blocker_rule stat blockers) (\<lambda>_.
     bindr (require (\<not> (List.member depends safe_self_id \<or> List.member blockers safe_self_id)) work_error) (\<lambda>_.
     bindr (require (set depends \<inter> set blockers = {}) work_error) (\<lambda>_.
     bindr (criteria (wi_criteria v)) (\<lambda>crits.
     bindr (verification_state (wi_verification v)) (\<lambda>verification.
     bindr (work_ids (wi_evidence v)) (\<lambda>evidence.
     bindr (evidence_rule verification evidence) (\<lambda>_.
     bindr (work_ids (wi_decisions v)) (\<lambda>decisions.
     bindr (work_ids (wi_artifacts v)) (\<lambda>artifacts.
     bindr (work_ids (wi_sources v)) (\<lambda>sources.
     bindr (require (\<not> List.member sources safe_self_id) work_error) (\<lambda>_.
     let w = \<lparr>wi_project = project, wi_kind = kind, wi_title = t, wi_description = description, wi_status = stat,
          wi_priority = priority, wi_started_at = started, wi_completed_at = completed, wi_depends_on = depends,
          wi_blocked_by = blockers, wi_criteria = crits, wi_verification = verification, wi_evidence = evidence,
          wi_decisions = decisions, wi_artifacts = artifacts, wi_sources = sources\<rparr> in
     bindr (work_context safe_self_id w s) (\<lambda>_. Inr w)))))))))))))))))))))))))"

definition work_payload :: "work_values \<Rightarrow> dict" where
  "work_payload v =
     [(''project_id'', JStr (wi_project v)), (''kind'', JStr (wi_kind v)), (''title'', JStr (wi_title v)),
      (''description'', JStr (wi_description v)), (''status'', JStr (wi_status v)), (''priority'', JInt (wi_priority v)),
      (''started_at'', opt_json (wi_started_at v)), (''completed_at'', opt_json (wi_completed_at v)),
      (''depends_on_ids'', str_list (wi_depends_on v)), (''blocked_by_ids'', str_list (wi_blocked_by v)),
      (''acceptance_criteria'', JList (map criterion_payload (wi_criteria v))),
      (''verification_state'', JStr (wi_verification v)), (''verification_evidence_ids'', str_list (wi_evidence v)),
      (''source_decision_ids'', str_list (wi_decisions v)), (''artifact_ids'', str_list (wi_artifacts v)),
      (''source_ids'', str_list (wi_sources v))]"

text \<open>The \<open>CHECK\<close> on the actor of an audit event is a database error.\<close>

definition AUDIT_EVENT_ACTORS :: "string list" where
  "AUDIT_EVENT_ACTORS = [''user'', ''system'', ''model'', ''runtime'', ''capability'', ''migration'']"

definition work_audit :: "string \<Rightarrow> dict \<Rightarrow> string \<Rightarrow> dict res" where
  "work_audit actor m sens =
     bindr (work_str m ''status'') (\<lambda>stat.
     bindr (work_str m ''kind'') (\<lambda>kind.
     bindr (meta_list work_error m ''depends_on_ids'') (\<lambda>depends.
     bindr (meta_list work_error m ''blocked_by_ids'') (\<lambda>blockers.
     bindr (meta_list work_error m ''acceptance_criteria'') (\<lambda>crits.
     bindr (require (List.member AUDIT_EVENT_ACTORS actor) DatabaseError) (\<lambda>_.
     Inr [(''record_type'', JStr ''work_item''), (''domain_status'', JStr stat), (''kind'', JStr kind), (''sensitivity'', JStr sens),
          (''dependency_count'', JInt (int (length depends))), (''blocker_count'', JInt (int (length blockers))),
          (''criterion_count'', JInt (int (length crits)))]))))))"

definition work_summary :: string where "work_summary = ''Changed authoritative work-item record''"

definition create_work_item ::
  "env \<Rightarrow> work_values \<Rightarrow> string \<Rightarrow> string \<Rightarrow> string option \<Rightarrow> string \<Rightarrow> string \<Rightarrow> (repo, string) op" where
  "create_work_item e v prov sens op act actor =
     store_create e
       \<lparr>dr_id = new_uuid e, dr_type = ''work_item'', dr_version = 1, dr_prov = prov, dr_sens = sens,
        dr_title = wi_title v, dr_meta = work_payload v\<rparr>
       op actor act work_summary (work_audit actor (work_payload v) sens)"

definition update_work_item ::
  "env \<Rightarrow> RecordEnvelope \<Rightarrow> int \<Rightarrow> string \<Rightarrow> dict \<Rightarrow> string \<Rightarrow> string option \<Rightarrow> string \<Rightarrow> (repo, unit) op" where
  "update_work_item e current expected ttl m stat op act =
     store_update e work_error current expected
       \<lparr>rv_version = None, rv_status = stat, rv_prov = ''user-confirmed'', rv_title = ttl, rv_meta = m\<rparr>
       op (Inr ()) ''user'' act work_summary (work_audit ''user'' m (sensitivity current))"

definition proposal_provenance :: "string \<Rightarrow> string" where
  "proposal_provenance actor =
     (if actor = ''user'' then ''user-created'' else if actor = ''model'' then ''model-proposed'' else ''system-generated'')"

definition work_require_user :: "string \<Rightarrow> unit res" where
  "work_require_user actor = require (actor = ''user'') work_error"

definition work_require_active :: "WorkItemInfo \<Rightarrow> unit res" where
  "work_require_active item = require (i_status item = ''active'') work_error"

text \<open>A new item has no times, no blockers and no verification: \<open>fresh_values\<close> is what \<open>propose\<close> and
  \<open>create\<close> make of the arguments that they do take.\<close>

definition fresh_values :: "string \<Rightarrow> work_values \<Rightarrow> work_values" where
  "fresh_values stat v = v\<lparr>wi_status := stat, wi_started_at := None, wi_completed_at := None, wi_blocked_by := [],
     wi_verification := ''not_verified'', wi_evidence := []\<rparr>"

definition work_propose :: "env \<Rightarrow> work_values \<Rightarrow> string \<Rightarrow> string option \<Rightarrow> string \<Rightarrow> (repo, WorkItemInfo) op" where
  "work_propose e v sens op actor =
     bind_op (lift_op (validated_work_item_values (new_uuid e) (fresh_values ''proposed'' v))) (\<lambda>w.
     bind_op (create_work_item e w (proposal_provenance actor) sens op ''work-item.propose'' actor)
       (\<lambda>i. lift_op (work_get i)))"

definition work_create :: "env \<Rightarrow> work_values \<Rightarrow> string \<Rightarrow> string option \<Rightarrow> string \<Rightarrow> (repo, WorkItemInfo) op" where
  "work_create e v sens op actor =
     bind_op (lift_op (\<lambda>s. bindr (work_require_user actor) (\<lambda>_.
       validated_work_item_values (new_uuid e) (fresh_values ''ready'' v) s))) (\<lambda>w.
     bind_op (create_work_item e w ''user-created'' sens op ''work-item.create'' ''user'')
       (\<lambda>i. lift_op (work_get i)))"

definition current_work :: "string \<Rightarrow> string \<Rightarrow> repo \<Rightarrow> (RecordEnvelope \<times> WorkItemInfo) res" where
  "current_work i actor s =
     bindr (work_require_user actor) (\<lambda>_.
     bindr (require_work_record i s) (\<lambda>r.
     bindr (work_from_record r s) (\<lambda>current.
     bindr (work_require_active current) (\<lambda>_. Inr (r, current)))))"

text \<open>The three changes that validate new values for the current item: \<open>plan\<close> is what a change makes
  of the current values, and the action it records.\<close>

definition revise_work ::
  "env \<Rightarrow> string \<Rightarrow> int \<Rightarrow> string option \<Rightarrow> string \<Rightarrow> (work_values \<Rightarrow> (work_values \<times> string) res) \<Rightarrow> (repo, WorkItemInfo) op" where
  "revise_work e i expected op actor plan =
     bind_op (lift_op (\<lambda>s.
       bindr (current_work i actor s) (\<lambda>(r, current).
       bindr (plan (work_values current)) (\<lambda>(v, act).
       bindr (validated_work_item_values (i_record_id current) v s) (\<lambda>w. Inr (r, w, act)))))) (\<lambda>(r, w, act).
     bind_op (update_work_item e r expected (wi_title w) (work_payload w) ''active'' op act)
       (\<lambda>_. lift_op (work_get i)))"

definition definition_plan :: "work_values \<Rightarrow> work_values \<Rightarrow> (work_values \<times> string) res" where
  "definition_plan u v = Inr (v\<lparr>wi_title := wi_title u, wi_description := wi_description u, wi_priority := wi_priority u,
     wi_depends_on := wi_depends_on u, wi_criteria := wi_criteria u, wi_decisions := wi_decisions u,
     wi_artifacts := wi_artifacts u, wi_sources := wi_sources u\<rparr>, ''work-item.update'')"

definition work_update_definition ::
  "env \<Rightarrow> string \<Rightarrow> int \<Rightarrow> work_values \<Rightarrow> string option \<Rightarrow> string \<Rightarrow> (repo, WorkItemInfo) op" where
  "work_update_definition e i expected u op actor = revise_work e i expected op actor (definition_plan u)"

definition transition_plan ::
  "string \<Rightarrow> string \<Rightarrow> string option \<Rightarrow> string list option \<Rightarrow> work_values \<Rightarrow> (work_values \<times> string) res" where
  "transition_plan at to_status occurred_text blocked_by v =
     bindr (work_status to_status) (\<lambda>stat.
     bindr (of_option KeyError (map_of ALLOWED_TRANSITIONS (wi_status v))) (\<lambda>allowed.
     bindr (require (List.member allowed stat) work_error) (\<lambda>_.
     bindr (work_opt_utc occurred_text) (\<lambda>occurred.
     let timestamp = (case occurred of None \<Rightarrow> at | Some t \<Rightarrow> t);
         started = (if wi_started_at v = None \<and> (stat = ''in_progress'' \<or> stat = ''completed'') then Some timestamp
                    else wi_started_at v);
         completed = (if stat = ''completed'' then Some timestamp else None) in
     bindr (if stat = ''blocked'' then Inr (case blocked_by of None \<Rightarrow> wi_blocked_by v | Some is \<Rightarrow> is)
            else if blocked_by \<noteq> None \<and> blocked_by \<noteq> Some [] then Inl work_error else Inr []) (\<lambda>blockers.
     Inr (v\<lparr>wi_status := stat, wi_started_at := started, wi_completed_at := completed, wi_blocked_by := blockers\<rparr>,
          ''work-item.'' @ stat))))))"

definition work_transition ::
  "env \<Rightarrow> string \<Rightarrow> string \<Rightarrow> int \<Rightarrow> string \<Rightarrow> string option \<Rightarrow> string list option \<Rightarrow> string option \<Rightarrow> string \<Rightarrow>
   (repo, WorkItemInfo) op" where
  "work_transition e at i expected to_status occurred_text blocked_by op actor =
     revise_work e i expected op actor (transition_plan at to_status occurred_text blocked_by)"

definition verification_plan :: "string \<Rightarrow> string list \<Rightarrow> work_values \<Rightarrow> (work_values \<times> string) res" where
  "verification_plan state evidence v = Inr (v\<lparr>wi_verification := state, wi_evidence := evidence\<rparr>, ''work-item.verify'')"

definition work_set_verification ::
  "env \<Rightarrow> string \<Rightarrow> int \<Rightarrow> string \<Rightarrow> string list \<Rightarrow> string option \<Rightarrow> string \<Rightarrow> (repo, WorkItemInfo) op" where
  "work_set_verification e i expected state evidence op actor =
     revise_work e i expected op actor (verification_plan state evidence)"

text \<open>Archiving writes the title of the stored metadata into the row as it stands there.\<close>

definition stored_title :: "dict \<Rightarrow> string" where
  "stored_title m = (case map_of m ''title'' of Some (JStr t) \<Rightarrow> t | _ \<Rightarrow> [])"

definition work_archive :: "env \<Rightarrow> string \<Rightarrow> int \<Rightarrow> string option \<Rightarrow> string \<Rightarrow> (repo, WorkItemInfo) op" where
  "work_archive e i expected op actor =
     bind_op (lift_op (current_work i actor)) (\<lambda>(r, current).
     bind_op (update_work_item e r expected (stored_title (metadata r)) (metadata r) ''archived'' op ''work-item.archive'')
       (\<lambda>_. lift_op (work_get i)))"

end
