(* ===== verification/Work_Laws.thy ===== *)
theory Work_Laws
  imports Work_Item Trust_Laws
begin

text \<open>
  The laws of the work-item service that its guarantees rest on: its validators return normal
  forms, stored values are read back unchanged, the context in which an item is validated does not
  contain the item itself, and each call either raises without any change or commits and returns
  what a read returns.
\<close>

section \<open>Normal forms\<close>

interpretation work_text: normalizer "work_text n" for n
  by unfold_locales (auto simp: work_text_def Let_def)

interpretation work_token: normalizer work_token
  by unfold_locales (auto simp: work_token_def)

interpretation work_listed: normalizer "work_listed allowed" for allowed
  by unfold_locales (auto simp: work_listed_def)

definition criterion :: "AcceptanceCriterion \<Rightarrow> AcceptanceCriterion res" where
  "criterion c =
     bindr (work_token (ac_id c)) (\<lambda>i.
     bindr (work_text MAX_CRITERION_LENGTH (ac_description c)) (\<lambda>description.
     bindr (opt_res work_token (ac_evidence_kind c)) (\<lambda>kind.
     Inr \<lparr>ac_id = i, ac_description = description, ac_evidence_kind = kind, ac_blocking = ac_blocking c\<rparr>)))"

interpretation criterion: normalizer criterion
  by unfold_locales
    (auto simp: criterion_def intro: work_token.norm_idem work_text.norm_idem work_token.norm_opt_idem)

lemma criterion_bounds:
  "criterion c = Inr d \<Longrightarrow> ac_description d \<noteq> [] \<and> int (length (ac_description d)) \<le> MAX_CRITERION_LENGTH \<and>
     re_fullmatch TOKEN_PATTERN (ac_id d)"
  by (auto simp: criterion_def work_text_def work_token_def Let_def)

lemma criterion_id: "criterion c = Inr d \<Longrightarrow> ac_id d = ac_id c"
  by (auto simp: criterion_def work_token_def)

lemma collect_criteria_eq:
  "distinct (map ac_id acc) \<Longrightarrow> collect_criteria acc cs = Inr ds \<longleftrightarrow>
     (\<exists>es. map_res criterion cs = Inr es \<and> ds = acc @ es \<and> distinct (map ac_id ds))"
proof (induction cs arbitrary: acc)
  case (Cons c cs)
  show ?case
  proof (cases "criterion c")
    case (Inl x)
    then show ?thesis by (auto simp: criterion_def)
  next
    case (Inr d)
    then obtain i t k where d: "work_token (ac_id c) = Inr i" "work_text MAX_CRITERION_LENGTH (ac_description c) = Inr t"
      "opt_res work_token (ac_evidence_kind c) = Inr k"
      "d = \<lparr>ac_id = i, ac_description = t, ac_evidence_kind = k, ac_blocking = ac_blocking c\<rparr>"
      by (auto simp: criterion_def)
    have eq: "collect_criteria acc (c # cs) = (if i \<in> set (map ac_id acc) then Inl work_error else collect_criteria (acc @ [d]) cs)"
      using d by (auto simp: require_def)
    show ?thesis
    proof (cases "i \<in> set (map ac_id acc)")
      case False
      then have "distinct (map ac_id (acc @ [d]))" using Cons.prems d(4) by simp
      from Cons.IH [OF this] show ?thesis using eq False Inr by auto
    qed (use eq Inr d(4) in auto)
  qed
qed auto

lemma criteria_eq:
  "criteria cs = Inr ds \<longleftrightarrow> int (length cs) \<le> MAX_CRITERIA \<and> map_res criterion cs = Inr ds \<and> distinct (map ac_id ds)"
  using collect_criteria_eq [of "[]" cs ds] by (auto simp: criteria_def)

interpretation criteria: normalizer criteria
  by unfold_locales (auto simp: criteria_eq map_res_length criterion.norm_list_idem)

definition work_normal :: "work_values \<Rightarrow> bool" where
  "work_normal v \<longleftrightarrow>
     work_uuid (wi_project v) = Inr (wi_project v) \<and> work_kind (wi_kind v) = Inr (wi_kind v) \<and>
     work_text MAX_WORK_TITLE_LENGTH (wi_title v) = Inr (wi_title v) \<and>
     work_text MAX_WORK_DESCRIPTION_LENGTH (wi_description v) = Inr (wi_description v) \<and>
     work_status (wi_status v) = Inr (wi_status v) \<and>
     work_priority (Some (JInt (wi_priority v))) = Inr (wi_priority v) \<and>
     work_opt_utc (wi_started_at v) = Inr (wi_started_at v) \<and> work_opt_utc (wi_completed_at v) = Inr (wi_completed_at v) \<and>
     work_ids (wi_depends_on v) = Inr (wi_depends_on v) \<and> work_ids (wi_blocked_by v) = Inr (wi_blocked_by v) \<and>
     criteria (wi_criteria v) = Inr (wi_criteria v) \<and>
     verification_state (wi_verification v) = Inr (wi_verification v) \<and>
     work_ids (wi_evidence v) = Inr (wi_evidence v) \<and> work_ids (wi_decisions v) = Inr (wi_decisions v) \<and>
     work_ids (wi_artifacts v) = Inr (wi_artifacts v) \<and> work_ids (wi_sources v) = Inr (wi_sources v)"

lemma work_priority_idem: "work_priority v = Inr n \<Longrightarrow> work_priority (Some (JInt n)) = Inr n"
  by (auto simp: work_priority_def split: option.splits json.splits)

lemmas work_idem = ref_id.norm_idem work_text.norm_idem work_listed.norm_idem work_priority_idem ref_ids.norm_idem
  criteria.norm_idem

lemma validated_work_normal:
  "validated_work_item_values i v s = Inr w \<Longrightarrow> \<exists>j. work_uuid i = Inr j \<and> work_normal w \<and>
     validate_persisted_semantics j w = Inr () \<and> work_context j w s = Inr ()"
  unfolding validated_work_item_values_def work_normal_def validate_persisted_semantics_def Let_def work_kind_def work_status_def
    verification_state_def
  by (auto intro: work_idem)

section \<open>Stored values are read back\<close>

lemma work_text_nonempty: "work_text n v = Inr t \<Longrightarrow> t \<noteq> []"
  by (auto simp: work_text_def Let_def)

lemma work_token_nonempty: "work_token v = Inr t \<Longrightarrow> t \<noteq> []"
  by (auto simp: work_token_def fullmatch_TOKEN_PATTERN)

lemma work_listed_nonempty: "work_listed allowed v = Inr w \<Longrightarrow> [] \<notin> set allowed \<Longrightarrow> w \<noteq> []"
  by (auto simp: work_listed_def)

lemma work_meta_utc_stored: "map_of m k = Some (opt_json v) \<Longrightarrow> work_opt_utc v = Inr v \<Longrightarrow> work_meta_utc m k = Inr v"
  by (cases v) (auto simp: work_meta_utc_def opt_json_def simp del: opt_utc_eq)

text \<open>The objects of the criteria are stored with sorted keys.\<close>

lemma raw_criterion_payload:
  assumes "criterion c = Inr c"
  shows "raw_criterion (canon (criterion_payload c)) = Inr c"
proof -
  have "ac_id c \<noteq> []" "ac_description c \<noteq> []"
    using assms work_token_nonempty [of "ac_id c" "ac_id c"] work_text_nonempty [of _ _ "ac_description c"]
    by (auto simp: criterion_def work_token_def) (metis AcceptanceCriterion.select_convs(2))
  moreover obtain m where m: "canon (criterion_payload c) = JObj m"
    "m = canon_dict [(''criterion_id'', JStr (ac_id c)), (''description'', JStr (ac_description c)),
      (''required_evidence_kind'', opt_json (ac_evidence_kind c)), (''blocking'', JBool (ac_blocking c))]"
    by (simp add: criterion_payload_def)
  have "map_of m ''criterion_id'' = Some (JStr (ac_id c))" "map_of m ''description'' = Some (JStr (ac_description c))"
    "map_of m ''required_evidence_kind'' = Some (opt_json (ac_evidence_kind c))"
    "map_of m ''blocking'' = Some (JBool (ac_blocking c))"
    unfolding m(2) by (subst map_of_canon_any; simp)+
  ultimately show ?thesis
    unfolding m(1) by (cases c) (auto simp: raw_criterion_def opt_json_def split: option.splits)
qed

lemma raw_criteria_payload:
  "map_res criterion cs = Inr cs \<Longrightarrow> map_res raw_criterion (map (canon \<circ> criterion_payload) cs) = Inr cs"
  by (induction cs) (auto simp: raw_criterion_payload)

lemma metadata_criteria_stored:
  "map_of m k = Some (canon (JList (map criterion_payload cs))) \<Longrightarrow> criteria cs = Inr cs \<Longrightarrow> metadata_criteria m k = Inr cs"
  by (simp add: metadata_criteria_def raw_criteria_payload criteria_eq)

definition canon_items :: "dict \<Rightarrow> dict" where
  "canon_items d = map (\<lambda>(k, v). (k, canon v)) d"

lemma stored_canon_items: "distinct (map fst d) \<Longrightarrow> stored (canon_dict d) (canon_items d)"
  unfolding stored_def canon_items_def by (auto simp: map_of_canon_any)

lemma work_fields_back:
  assumes "work_normal v" "stored m (canon_items (work_payload v))"
    and "wi_status v = ''proposed'' \<or> prov \<in> {''user-created'', ''user-confirmed''}"
  shows "work_fields m (Some (wi_title v)) prov = Inr v"
proof -
  have "wi_project v \<noteq> []" "wi_kind v \<noteq> []" "wi_title v \<noteq> []" "wi_description v \<noteq> []" "wi_status v \<noteq> []" "wi_verification v \<noteq> []"
    using assms(1) work_text_nonempty uuid_nonempty
    by (auto simp: work_normal_def ref_id_def work_kind_def work_status_def verification_state_def
        dest!: work_listed_nonempty) (auto simp: WORK_ITEM_KINDS_def WORK_ITEM_STATUSES_def VERIFICATION_STATES_def)
  then show ?thesis
    using assms
    by (simp add: work_fields_def work_normal_def work_payload_def canon_items_def stored_Cons work_meta_utc_stored
        metadata_criteria_stored del: opt_utc_eq canon.simps(1))
qed

lemma work_payload_stored: "stored (canon_dict (work_payload v)) (canon_items (work_payload v))"
  by (rule stored_canon_items) (simp add: work_payload_def)

lemma work_fields_normal:
  assumes "work_fields m ttl prov = Inr v"
  shows "work_normal v" "ttl = Some (wi_title v)" "wi_status v = ''proposed'' \<or> prov \<in> {''user-created'', ''user-confirmed''}"
proof -
  note idem = work_idem meta_ids_idem
  show "ttl = Some (wi_title v)" "wi_status v = ''proposed'' \<or> prov \<in> {''user-created'', ''user-confirmed''}"
    using assms by (auto simp: work_fields_def)
  have utc: "work_opt_utc t = Inr t" if "work_meta_utc m k = Inr t" for k t
    using that by (auto simp: work_meta_utc_def split: option.splits json.splits)
  have crit: "criteria cs = Inr cs" if "metadata_criteria m k = Inr cs" for k cs
    using that by (auto simp: metadata_criteria_def intro: criteria.norm_idem)
  show "work_normal v"
    using assms unfolding work_fields_def work_normal_def work_kind_def work_status_def verification_state_def
    by (auto intro: idem simp del: opt_utc_eq dest: utc crit)
qed

section \<open>The context of an item does not contain the item\<close>

text \<open>A change of the work item \<open>i\<close> alone.\<close>

definition only_item :: "string \<Rightarrow> repo \<Rightarrow> repo \<Rightarrow> bool" where
  "only_item i s t \<longleftrightarrow> (\<forall>j. j \<noteq> i \<longrightarrow> get_record j t = get_record j s) \<and> graph_rows t i = graph_rows s i \<and>
     (\<forall>r. get_record i s = Inr r \<longrightarrow> record_type r = ''work_item'')"

lemma graph_rows_others: "graph_rows s i =
    filter (\<lambda>r. record_type r = ''work_item'' \<and> rec_status r = ''active'') (filter (\<lambda>r. rec_id r \<noteq> i) (records s))"
  by (induction "records s" arbitrary: s) (simp_all add: graph_rows_def conj_ac)

lemma only_item_created: "created e d actor s t \<Longrightarrow> only_item (dr_id d) s t"
  using created_get [of e d actor s t]
  by (auto simp: only_item_def graph_rows_others created_def get_record_def)

lemma only_item_changed: "others_same i s t \<Longrightarrow> get_record i s = Inr r \<Longrightarrow> record_type r = ''work_item'' \<Longrightarrow> only_item i s t"
  using others_same_get [of i s t] by (auto simp: only_item_def graph_rows_others others_same_def)

lemma only_item_links:
  assumes "only_item i s t" "validate_typed_links l s = Inr ()"
  shows "validate_typed_links l t = Inr ()"
proof -
  have "get_record j t = get_record j s" if "j \<in> set (link_ids l)" for j
  proof -
    have "j \<noteq> i" using links_target [OF assms(2) that] assms(1) by (auto simp: only_item_def)
    then show ?thesis using assms(1) by (simp add: only_item_def)
  qed
  then show ?thesis using validate_links_cong [of l t s] assms(2) by simp
qed

lemma only_item_link:
  assumes "only_item i s t"
  shows "work_project_link s j = Inr () \<Longrightarrow> work_project_link t j = Inr ()"
    "work_decision_link s j = Inr () \<Longrightarrow> work_decision_link t j = Inr ()"
    "work_evidence_link s j = Inr () \<Longrightarrow> work_evidence_link t j = Inr ()"
    "work_artifact_link s j = Inr () \<Longrightarrow> work_artifact_link t j = Inr ()"
    "work_source_link s j = Inr () \<Longrightarrow> j \<noteq> i \<Longrightarrow> work_source_link t j = Inr ()"
proof -
  have other: "get_record j t = Inr r" if "get_record j s = Inr r" "record_type r \<noteq> ''work_item''" for r
    using assms that by (cases "j = i") (auto simp: only_item_def)
  note links = only_item_links [OF assms]
  show "work_project_link s j = Inr () \<Longrightarrow> work_project_link t j = Inr ()"
    using other links by (force simp: work_project_link_def project_from_record_eq)
  show "work_decision_link s j = Inr () \<Longrightarrow> work_decision_link t j = Inr ()"
    using other links by (force simp: work_decision_link_def decision_from_record_eq)
  show "work_evidence_link s j = Inr () \<Longrightarrow> work_evidence_link t j = Inr ()"
    using other by (force simp: work_evidence_link_def)
  show "work_artifact_link s j = Inr () \<Longrightarrow> work_artifact_link t j = Inr ()"
    using other by (force simp: work_artifact_link_def)
  show "work_source_link s j = Inr () \<Longrightarrow> j \<noteq> i \<Longrightarrow> work_source_link t j = Inr ()"
    using assms by (simp add: work_source_link_def only_item_def)
qed

lemma only_item_relations:
  assumes "only_item i s t" "i \<notin> set (depends @ blockers)"
  shows "validate_work_item_relations t i project depends blockers = validate_work_item_relations s i project depends blockers"
proof -
  have "linked_item t project j = linked_item s project j" if "j \<in> set (depends @ blockers)" for j
    using assms that by (auto simp: linked_item_def only_item_def)
  then have "map_res (linked_item t project) (depends @ blockers) = map_res (linked_item s project) (depends @ blockers)"
    by (intro map_res_cong) simp_all
  moreover have "dependency_graph t project i depends = dependency_graph s project i depends"
  proof -
    have "get_record (rec_id row) t = get_record (rec_id row) s" if "row \<in> set (graph_rows s i)" for row
      using assms(1) that by (auto simp: only_item_def graph_rows_def)
    then have "map_res (\<lambda>row. bindr (bindr (get_record (rec_id row) t) work_shallow) (\<lambda>item. Inr (rec_id row, item))) (graph_rows s i) =
      map_res (\<lambda>row. bindr (bindr (get_record (rec_id row) s) work_shallow) (\<lambda>item. Inr (rec_id row, item))) (graph_rows s i)"
      by (intro map_res_cong) simp_all
    then show ?thesis using assms(1) by (simp add: dependency_graph_def only_item_def)
  qed
  ultimately show ?thesis
    unfolding validate_work_item_relations_def validate_dependency_graph_def by simp
qed

lemma only_item_context:
  assumes "only_item i s t" "work_context i v s = Inr ()" "validate_persisted_semantics i v = Inr ()"
  shows "work_context i v t = Inr ()"
proof -
  have self: "i \<notin> set (wi_depends_on v @ wi_blocked_by v)" "i \<notin> set (wi_sources v)"
    using assms(3) by (auto simp: validate_persisted_semantics_def)
  have "work_source_link t j = Inr ()" if "work_source_link s j = Inr ()" "j \<in> set (wi_sources v)" for j
    using only_item_link(5) [OF assms(1) that(1)] that(2) self(2) by blast
  then show ?thesis
    using assms(2) only_item_link(1-4) [OF assms(1)] only_item_relations [OF assms(1) self(1)]
    by (auto simp: work_context_def validate_work_links_def)
qed

lemma work_from_record_eq:
  "work_from_record r s = Inr j \<longleftrightarrow> (\<exists>v. work_parts r = Inr v \<and> work_context (rec_id r) v s = Inr () \<and> j = work_info r v)"
  by (auto simp: work_from_record_def)

lemma work_partsD:
  assumes "work_parts r = Inr v"
  shows "record_type r = ''work_item''" "rec_schema_version r = 1" "rec_title r = Some (wi_title v)" "work_normal v"
    "validate_persisted_semantics (rec_id r) v = Inr ()" "1 \<le> revision r" "rec_status r \<in> {''active'', ''archived''}"
    "wi_status v = ''proposed'' \<or> provenance r \<in> {''user-created'', ''user-confirmed''}"
  using assms work_fields_normal [of "metadata r" "rec_title r" "provenance r"]
  by (auto simp: work_parts_def work_envelope_def)

text \<open>A record made from normal values that satisfy the rules is well formed.\<close>

lemma work_parts_back:
  assumes "work_envelope r = Inr ()" "metadata r = canon_dict (work_payload v)" "rec_title r = Some (wi_title v)"
    and "work_normal v" "validate_persisted_semantics (rec_id r) v = Inr ()"
    and "wi_status v = ''proposed'' \<or> provenance r \<in> {''user-created'', ''user-confirmed''}"
  shows "work_parts r = Inr v"
  using assms work_fields_back [OF assms(4) work_payload_stored [of v] assms(6)] by (simp add: work_parts_def)

section \<open>A call raises or returns what a read returns\<close>

lemma work_written:
  assumes "work_uuid i = Inr (rec_id r)" "get_record (rec_id r) t = Inr r" "work_parts r = Inr w" "work_context (rec_id r) w t = Inr ()"
  shows "work_get i t = Inr (work_info r w)"
  using assms work_partsD(1) [OF assms(3)] by (simp add: work_get_def require_work_record_def work_from_record_def)

lemma work_status_kept: "work_status v = Inr w \<Longrightarrow> w = v"
  by (auto simp: work_status_def work_listed_def)

lemma validated_status: "validated_work_item_values i v s = Inr w \<Longrightarrow> wi_status w = wi_status v"
  unfolding validated_work_item_values_def Let_def by (auto dest!: work_status_kept)

lemma work_created:
  assumes "uuid (new_uuid e) = Some (new_uuid e)" "validated_work_item_values (new_uuid e) v s = Inr w"
    and "created e \<lparr>dr_id = new_uuid e, dr_type = ''work_item'', dr_version = 1, dr_prov = prov, dr_sens = sens,
        dr_title = wi_title w, dr_meta = work_payload w\<rparr> actor s t" (is "created e ?d _ _ _")
    and "wi_status v = ''proposed'' \<or> prov \<in> {''user-created'', ''user-confirmed''}"
  shows "\<exists>item. work_get (new_uuid e) t = Inr item \<and> work_values item = w \<and> w_provenance item = prov \<and> i_revision item = 1"
proof -
  let ?r = "with_metadata (drafted e ?d) (canon_dict (work_payload w))"
  have n: "work_normal w" "validate_persisted_semantics (new_uuid e) w = Inr ()" "work_context (new_uuid e) w s = Inr ()"
    using validated_work_normal [OF assms(2)] assms(1) by (auto simp: ref_id_def of_option_def)
  have g: "get_record (new_uuid e) t = Inr ?r" using created_get [OF assms(3)] by simp
  have sel: "rec_id ?r = new_uuid e" "provenance ?r = prov" "revision ?r = 1" by (simp_all add: draft_row_def)
  have "work_parts ?r = Inr w"
    by (rule work_parts_back) (use n validated_status [OF assms(2)] assms(4) in \<open>simp_all add: work_envelope_def draft_row_def\<close>)
  moreover have "work_context (new_uuid e) w t = Inr ()"
    using only_item_context [OF only_item_created [OF assms(3)]] n by simp
  ultimately have "work_get (new_uuid e) t = Inr (work_info ?r w)"
    using work_written [of "new_uuid e" ?r t w] assms(1) g sel by (simp add: ref_id_def of_option_def)
  then show ?thesis using sel by (simp add: work_info_def)
qed

abbreviation work_returned :: "env \<Rightarrow> string \<Rightarrow> string \<Rightarrow> WorkItemInfo res \<Rightarrow> repo \<Rightarrow> repo \<Rightarrow> bool" where
  "work_returned e actor i res s t \<equiv> \<not> isl res \<and> work_get i t = res \<and> (\<exists>j. uuid i = Some j \<and> audited e actor ''work_item'' j s t)"

lemma proposed_fresh: "wi_status (fresh_values stat v) = stat"
  by (simp add: fresh_values_def)

lemma work_propose_result:
  assumes "repo_ok s" "uuid (new_uuid e) = Some (new_uuid e)" "work_propose e v sens op actor s = (res, t)"
  shows "(isl res \<and> t = s) \<or> (work_returned e actor (new_uuid e) res s t \<and>
    (\<forall>item. res = Inr item \<longrightarrow> wi_status (work_values item) = ''proposed'' \<and> w_provenance item = proposal_provenance actor \<and> i_revision item = 1))"
  using store_create_call [OF assms(1) assms(3) [unfolded work_propose_def create_work_item_def], unfolded draft.select_convs]
proof (elim disjE exE conjE)
  fix w assume w: "validated_work_item_values (new_uuid e) (fresh_values ''proposed'' v) s = Inr w"
    and c: "created e \<lparr>dr_id = new_uuid e, dr_type = ''work_item'', dr_version = 1, dr_prov = proposal_provenance actor, dr_sens = sens,
        dr_title = wi_title w, dr_meta = work_payload w\<rparr> actor s t" (is "created e ?d _ _ _")
    and g: "res = work_get (new_uuid e) t"
  from work_created [OF assms(2) w c] validated_status [OF w] g c assms(2) show ?thesis
    by (auto simp: proposed_fresh created_def)
qed simp

lemma work_create_result:
  assumes "repo_ok s" "uuid (new_uuid e) = Some (new_uuid e)" "work_create e v sens op actor s = (res, t)"
  shows "(isl res \<and> t = s) \<or> (actor = ''user'' \<and> work_returned e ''user'' (new_uuid e) res s t \<and>
    (\<forall>item. res = Inr item \<longrightarrow> wi_status (work_values item) = ''ready'' \<and> w_provenance item = ''user-created'' \<and> i_revision item = 1))"
  using store_create_call [OF assms(1) assms(3) [unfolded work_create_def create_work_item_def], unfolded draft.select_convs]
proof (elim disjE exE conjE)
  fix w assume w: "bindr (work_require_user actor) (\<lambda>_. validated_work_item_values (new_uuid e) (fresh_values ''ready'' v) s) = Inr w"
    and c: "created e \<lparr>dr_id = new_uuid e, dr_type = ''work_item'', dr_version = 1, dr_prov = ''user-created'', dr_sens = sens,
        dr_title = wi_title w, dr_meta = work_payload w\<rparr> ''user'' s t" (is "created e ?d _ _ _")
    and g: "res = work_get (new_uuid e) t"
  have v: "actor = ''user''" "validated_work_item_values (new_uuid e) (fresh_values ''ready'' v) s = Inr w"
    using w by (auto simp: work_require_user_def)
  from work_created [OF assms(2) v(2) c] validated_status [OF v(2)] g c assms(2) v(1) show ?thesis
    by (auto simp: proposed_fresh created_def)
qed simp

lemma current_workD:
  assumes "current_work i actor s = Inr (r, c)"
  shows "actor = ''user''" "uuid i = Some (rec_id r)" "uuid (rec_id r) = Some (rec_id r)" "get_record (rec_id r) s = Inr r"
    "work_parts r = Inr (work_values c)" "work_context (rec_id r) (work_values c) s = Inr ()" "c = work_info r (work_values c)"
    "rec_status r = ''active''" "work_get i s = Inr c"
proof -
  obtain j where j: "actor = ''user''" "uuid i = Some j" "get_record j s = Inr r" "record_type r = ''work_item''"
    "work_from_record r s = Inr c" "i_status c = ''active''"
    using assms by (auto simp: current_work_def work_require_user_def require_work_record_def ref_id_def of_option_def
        work_require_active_def split: option.splits)
  have id: "rec_id r = j" using get_recordD [OF j(3)] find_row_Some [of j "records s"] by (metis with_metadata_sel(1))
  show "actor = ''user''" "uuid i = Some (rec_id r)" "uuid (rec_id r) = Some (rec_id r)" "get_record (rec_id r) s = Inr r"
    using j uuid_fixpoint [OF j(2)] by (simp_all add: id)
  show "work_parts r = Inr (work_values c)" "work_context (rec_id r) (work_values c) s = Inr ()" "c = work_info r (work_values c)"
    "rec_status r = ''active''"
    using j(5,6) by (auto simp: work_from_record_eq work_info_def)
  show "work_get i s = Inr c"
    using j id by (simp add: work_get_def require_work_record_def ref_id_def of_option_def)
qed

lemma work_rewritten:
  assumes "uuid i = Some (rec_id r)" "get_record (rec_id r) s = Inr r" "record_type r = ''work_item''"
    and "changed e (rec_id r) expected v ''user'' ''work_item'' row s t"
    and "work_parts (revised_env e v r) = Inr w" "work_context (rec_id r) w s = Inr ()"
  shows "work_get i t = Inr (work_info (revised_env e v r) w)"
proof -
  note g = changed_get [OF assms(4,2)]
  have id: "rec_id (revised_env e v r) = rec_id r" by (simp add: revised_env_def)
  have "only_item (rec_id r) s t" using only_item_changed g assms(2,3) by blast
  then have "work_context (rec_id r) w t = Inr ()"
    using only_item_context assms(6) work_partsD(5) [OF assms(5)] id by metis
  then show ?thesis using work_written [of i "revised_env e v r" t w] assms(1,5) g id by (simp add: ref_id_def of_option_def)
qed

lemma work_revising_ok:
  "\<forall>w. p w \<longrightarrow> revising_ok \<lparr>rv_version = None, rv_status = ''active'', rv_prov = ''user-confirmed'', rv_title = ttl w, rv_meta = m w\<rparr>"
  "\<forall>w. p w \<longrightarrow> revising_ok \<lparr>rv_version = None, rv_status = ''archived'', rv_prov = ''user-confirmed'', rv_title = ttl w, rv_meta = m w\<rparr>"
  using pd_allowed by (auto simp: revising_ok_def)

text \<open>What a successful change did: the new item has the validated values of the plan, one revision
  on, and its predecessor was current at the expected revision.\<close>

definition revised_item :: "repo \<Rightarrow> string \<Rightarrow> string \<Rightarrow> int \<Rightarrow> (work_values \<Rightarrow> (work_values \<times> string) res) \<Rightarrow> WorkItemInfo \<Rightarrow> bool" where
  "revised_item s i actor expected plan item \<longleftrightarrow> (\<exists>current v act. actor = ''user'' \<and> work_get i s = Inr current \<and>
     i_revision current = expected \<and> i_status current = ''active'' \<and> plan (work_values current) = Inr (v, act) \<and>
     validated_work_item_values (i_record_id current) v s = Inr (work_values item) \<and>
     i_revision item = expected + 1 \<and> i_status item = ''active'' \<and> i_record_id item = i_record_id current \<and>
     w_provenance item = ''user-confirmed'')"

lemma revise_work_result:
  assumes "repo_ok s" "revise_work e i expected op actor plan s = (res, t)"
  shows "(isl res \<and> t = s) \<or> (work_returned e ''user'' i res s t \<and> (\<forall>item. res = Inr item \<longrightarrow> revised_item s i actor expected plan item \<and> others_same (i_record_id item) s t))"
proof -
  let ?prep = "\<lambda>s. bindr (current_work i actor s) (\<lambda>p. bindr (plan (work_values (snd p))) (\<lambda>q.
       bindr (validated_work_item_values (i_record_id (snd p)) (fst q) s) (\<lambda>w. Inr (fst p, w, snd q))))"
  from store_update_call [OF assms(1) assms(2) [unfolded revise_work_def update_work_item_def case_prod_beta] work_revising_ok(1)]
  show ?thesis
  proof (elim disjE exE conjE)
    fix p row assume p: "?prep s = Inr p" "res = work_get i t"
      and c: "changed e (rec_id (fst p)) expected \<lparr>rv_version = None, rv_status = ''active'', rv_prov = ''user-confirmed'',
        rv_title = wi_title (fst (snd p)), rv_meta = work_payload (fst (snd p))\<rparr> ''user'' (record_type (fst p)) row s t"
        (is "changed _ _ _ ?v _ _ _ _ _")
    let ?r = "fst p" and ?w = "fst (snd p)"
    obtain cur v act where q: "current_work i actor s = Inr (?r, cur)" "plan (work_values cur) = Inr (v, act)"
      "validated_work_item_values (i_record_id cur) v s = Inr ?w" using p(1) by auto
    note d = current_workD [OF q(1)]
    note k = work_partsD [OF d(5)]
    have id: "i_record_id cur = rec_id ?r" "i_revision cur = revision ?r" "i_status cur = rec_status ?r"
      by (subst d(7), simp add: work_info_def)+
    have n: "work_normal ?w" "validate_persisted_semantics (rec_id ?r) ?w = Inr ()" "work_context (rec_id ?r) ?w s = Inr ()"
      using validated_work_normal [OF q(3)] d(3) unfolding id(1) by (auto simp: ref_id_def of_option_def)
    have "work_parts (revised_env e ?v ?r) = Inr ?w"
      by (rule work_parts_back) (use n k in \<open>simp_all add: work_envelope_def revised_env_def\<close>)
    from work_rewritten [OF d(2,4) k(1) c [unfolded k(1)] this n(3)] have
      g: "work_get i t = Inr (work_info (revised_env e ?v ?r) ?w)" .
    have rev: "revision ?r = expected" using changed_get [OF c d(4)] by simp
    have "revised_item s i actor expected plan (work_info (revised_env e ?v ?r) ?w)"
      unfolding revised_item_def
      by (rule exI [of _ cur], rule exI [of _ v], rule exI [of _ act])
        (use q(2,3) d(1,8,9) rev id in \<open>auto simp: work_info_def revised_env_def\<close>)
    moreover have "others_same (rec_id ?r) s t" using changed_get [OF c d(4)] by simp
    ultimately show ?thesis using g p(2) c d(2) k(1) by (auto simp: changed_def) (simp add: work_info_def revised_env_def)
  qed auto
qed

text \<open>The title of the row is compared with the normalised title of the metadata. The one of the stored
  metadata need not be normal: a reader accepts it, and archiving then copies it into the row.\<close>

definition raw_title_stored :: "repo \<Rightarrow> string \<Rightarrow> bool" where
  "raw_title_stored s i \<longleftrightarrow> (\<exists>item r. work_get i s = Inr item \<and> get_record (i_record_id item) s = Inr r \<and>
     stored_title (metadata r) \<noteq> wi_title (work_values item))"

lemma work_fields_wrong_title:
  "work_fields m ttl prov = Inr v \<Longrightarrow> ttl' \<noteq> Some (wi_title v) \<Longrightarrow> work_fields m ttl' prov' = Inl work_error"
  by (auto simp: work_fields_def)

lemma work_archive_result:
  assumes "repo_ok s" "work_archive e i expected op actor s = (res, t)"
  shows "(isl res \<and> t = s) \<or>
    (raw_title_stored s i \<and> res = Inl WorkItemCorruptError \<and> work_get i t = Inl WorkItemCorruptError \<and>
      (\<exists>k. uuid i = Some k \<and> audited e ''user'' ''work_item'' k s t)) \<or>
    (\<not> raw_title_stored s i \<and> work_returned e ''user'' i res s t \<and>
    (\<forall>item. res = Inr item \<longrightarrow> i_status item = ''archived'' \<and> i_revision item = expected + 1 \<and>
       (\<exists>current. work_get i s = Inr current \<and> work_values item = work_values current)))"
proof -
  from store_update_call [OF assms(1) assms(2) [unfolded work_archive_def update_work_item_def case_prod_beta] work_revising_ok(2)]
  show ?thesis
  proof (elim disjE exE conjE)
    fix p row assume p: "current_work i actor s = Inr p" "res = work_get i t"
      and c: "changed e (rec_id (fst p)) expected \<lparr>rv_version = None, rv_status = ''archived'', rv_prov = ''user-confirmed'',
        rv_title = stored_title (metadata (fst p)), rv_meta = metadata (fst p)\<rparr> ''user'' (record_type (fst p)) row s t"
        (is "changed _ _ _ ?v _ _ _ _ _")
    let ?r = "fst p" and ?w = "work_values (snd p)"
    have q: "current_work i actor s = Inr (?r, snd p)" using p(1) by simp
    note d = current_workD [OF q]
    note k = work_partsD [OF d(5)]
    have id: "i_record_id (snd p) = rec_id ?r" by (subst d(7)) (simp add: work_info_def)
    have f: "work_fields (metadata ?r) (Some (wi_title ?w)) (provenance ?r) = Inr ?w"
      using d(5) k(3) by (auto simp: work_parts_def)
    have m: "metadata (revised_env e ?v ?r) = metadata ?r"
      using stored_metadata_canon [OF assms(1) d(4)] by (simp add: revised_env_def)
    show ?thesis
    proof (cases "stored_title (metadata ?r) = wi_title ?w")
      case ttl: True
      have "work_fields (metadata ?r) (Some (wi_title ?w)) ''user-confirmed'' = Inr ?w"
        using f unfolding work_fields_def by (auto simp del: opt_utc_eq)
      then have "work_parts (revised_env e ?v ?r) = Inr ?w"
        using k m ttl by (simp add: work_parts_def work_envelope_def revised_env_def)
      from work_rewritten [OF d(2,4) k(1) c [unfolded k(1)] this d(6)] have
        g: "work_get i t = Inr (work_info (revised_env e ?v ?r) ?w)" .
      have "revision ?r = expected" using changed_get [OF c d(4)] by simp
      moreover have "\<not> raw_title_stored s i" using d(4,9) id ttl unfolding raw_title_stored_def by auto
      ultimately show ?thesis using g p(2) c d(2,9) k(1) by (auto simp: changed_def work_info_def revised_env_def)
    next
      case raw: False
      have "work_fields (metadata ?r) (Some (stored_title (metadata ?r))) ''user-confirmed'' = Inl work_error"
        by (rule work_fields_wrong_title [OF f]) (use raw in simp)
      then have "work_parts (revised_env e ?v ?r) = Inl work_error"
        using k m by (simp add: work_parts_def work_envelope_def revised_env_def)
      moreover have "record_type (revised_env e ?v ?r) = ''work_item''" using k(1) by (simp add: revised_env_def)
      ultimately have "work_get i t = Inl WorkItemCorruptError"
        using changed_get [OF c d(4)] d(2)
        by (simp add: work_get_def require_work_record_def work_from_record_def ref_id_def is_malformed_work_def)
      moreover have "raw_title_stored s i" using d(4,9) id raw unfolding raw_title_stored_def by auto
      ultimately show ?thesis using p(2) c d(2) k(1) by (auto simp: changed_def)
    qed
  qed auto
qed

lemma raw_title_archive_locks:
  assumes "repo_ok s" "work_archive e i expected op actor s = (res, t)" "raw_title_stored s i" "t \<noteq> s"
  shows "res = Inl WorkItemCorruptError \<and> work_get i t = Inl WorkItemCorruptError \<and>
    (\<exists>k. uuid i = Some k \<and> audited e ''user'' ''work_item'' k s t)"
  using work_archive_result [OF assms(1,2)] assms(3,4) by blast

end
