(* ===== verification/Work_Lifecycle.thy ===== *)
theory Work_Lifecycle
  imports Work_Laws
begin

text \<open>
  What the work-item service guarantees: its calls are atomic, a readable item satisfies the rules of
  a work item, the dependency check decides acyclicity, a status moves along the allowed
  transitions only, only the user accepts or changes work, a listing is the selection that it
  describes, and an unfinished item can be cancelled as long as it can be read. Finishing a blocker,
  however, makes the items that it blocks unreadable for good. The concrete states at the end show
  that the hypotheses can be met.
\<close>

section \<open>Calls\<close>

lemmas work_op_defs = work_update_definition_def work_transition_def work_set_verification_def

text \<open>C28: a call of the work-item service either raises and has changed nothing, or it has
  written exactly one audit event about the item \<open>j\<close>, in the name of its actor, and returns what a
  read of it returns. There is one exception: when the title in the stored metadata is not normalised,
  as a writer other than the service can leave it, \<open>archive\<close> commits the record and its event, raises
  \<open>WorkItemCorruptError\<close>, and the item cannot be read any more. The identifiers that \<open>uuid4()\<close> draws
  are in canonical form.\<close>

theorem work_calls_atomic:
  assumes "repo_ok s" and "uuid (new_uuid e) = Some (new_uuid e)"
    and "j = new_uuid e \<and> (work_propose e v sens op actor s = (res, t) \<or> work_create e v sens op actor s = (res, t)) \<or>
         j = i \<and> actor = ''user'' \<and> (work_update_definition e i expected v op actor s = (res, t) \<or>
           work_transition e at i expected to_status occurred blocked_by op actor s = (res, t) \<or>
           work_set_verification e i expected state evidence op actor s = (res, t) \<or>
           work_archive e i expected op actor s = (res, t))"
  shows "(isl res \<and> t = s) \<or>
    (\<exists>item k. res = Inr item \<and> work_get j t = Inr item \<and> uuid j = Some k \<and> audited e actor ''work_item'' k s t) \<or>
    (work_archive e i expected op actor s = (res, t) \<and> j = i \<and> raw_title_stored s i \<and> res = Inl WorkItemCorruptError \<and>
      work_get i t = Inl WorkItemCorruptError \<and> (\<exists>k. uuid i = Some k \<and> audited e actor ''work_item'' k s t))"
proof -
  have "(isl res \<and> t = s) \<or> work_returned e actor j res s t \<or>
    (work_archive e i expected op actor s = (res, t) \<and> j = i \<and> raw_title_stored s i \<and> res = Inl WorkItemCorruptError \<and>
      work_get i t = Inl WorkItemCorruptError \<and> (\<exists>k. uuid i = Some k \<and> audited e actor ''work_item'' k s t))"
    using assms(3)
  proof (elim disjE conjE)
    assume "j = new_uuid e" "work_propose e v sens op actor s = (res, t)"
    with work_propose_result [OF assms(1,2) this(2)] show ?thesis by auto
  next
    assume "j = new_uuid e" "work_create e v sens op actor s = (res, t)"
    with work_create_result [OF assms(1,2) this(2)] show ?thesis by auto
  next
    assume "j = i" "actor = ''user''" "work_update_definition e i expected v op actor s = (res, t)"
    with revise_work_result [OF assms(1) this(3) [unfolded work_op_defs]] show ?thesis by auto
  next
    assume "j = i" "actor = ''user''" "work_transition e at i expected to_status occurred blocked_by op actor s = (res, t)"
    with revise_work_result [OF assms(1) this(3) [unfolded work_op_defs]] show ?thesis by auto
  next
    assume "j = i" "actor = ''user''" "work_set_verification e i expected state evidence op actor s = (res, t)"
    with revise_work_result [OF assms(1) this(3) [unfolded work_op_defs]] show ?thesis by auto
  next
    assume "j = i" "actor = ''user''" "work_archive e i expected op actor s = (res, t)"
    with work_archive_result [OF assms(1) this(3)] show ?thesis by auto
  qed
  then show ?thesis by (cases res) auto
qed

section \<open>What a readable item is\<close>

text \<open>C34: every item that a read returns satisfies the rules of a work item. Its texts, its criteria and
  each of its lists of links are within their limits; its relations and links are lists of distinct
  identifiers, dependencies and blockers do not overlap, and neither they nor the sources contain the
  item. It is blocked exactly when it has blockers, completed exactly when it has a completion time,
  which is not before its start; a verdict has evidence and the absence of one has none; and it was
  accepted by the user unless it is a proposal.\<close>

theorem work_item_well_formed:
  assumes "work_get i s = Inr item"
  shows "wi_status (work_values item) \<in> set WORK_ITEM_STATUSES \<and> wi_kind (work_values item) \<in> set WORK_ITEM_KINDS \<and>
    wi_verification (work_values item) \<in> set VERIFICATION_STATES \<and>
    0 \<le> wi_priority (work_values item) \<and> wi_priority (work_values item) \<le> 100 \<and>
    wi_title (work_values item) \<noteq> [] \<and> int (length (wi_title (work_values item))) \<le> MAX_WORK_TITLE_LENGTH \<and>
    wi_description (work_values item) \<noteq> [] \<and>
    int (length (wi_description (work_values item))) \<le> MAX_WORK_DESCRIPTION_LENGTH \<and>
    int (length (wi_criteria (work_values item))) \<le> MAX_CRITERIA \<and>
    (\<forall>c \<in> set (wi_criteria (work_values item)). ac_description c \<noteq> [] \<and>
       int (length (ac_description c)) \<le> MAX_CRITERION_LENGTH \<and> re_fullmatch TOKEN_PATTERN (ac_id c)) \<and>
    distinct (map ac_id (wi_criteria (work_values item))) \<and>
    (\<forall>links \<in> {wi_depends_on, wi_blocked_by, wi_evidence, wi_decisions, wi_artifacts, wi_sources}.
       distinct (links (work_values item)) \<and> int (length (links (work_values item))) \<le> MAX_WORK_LINKS) \<and>
    set (wi_depends_on (work_values item)) \<inter> set (wi_blocked_by (work_values item)) = {} \<and>
    i_record_id item \<notin> set (wi_depends_on (work_values item)) \<union> set (wi_blocked_by (work_values item)) \<union>
      set (wi_sources (work_values item)) \<and>
    (wi_status (work_values item) = ''blocked'' \<longleftrightarrow> wi_blocked_by (work_values item) \<noteq> []) \<and>
    (wi_status (work_values item) = ''completed'' \<longleftrightarrow> wi_completed_at (work_values item) \<noteq> None) \<and>
    (\<forall>c. wi_completed_at (work_values item) = Some c \<longrightarrow> (\<exists>a. wi_started_at (work_values item) = Some a \<and> ts_le a c)) \<and>
    (wi_verification (work_values item) \<in> {''passed'', ''failed''} \<longrightarrow> wi_evidence (work_values item) \<noteq> []) \<and>
    (wi_verification (work_values item) \<in> {''not_verified'', ''not_applicable''} \<longrightarrow> wi_evidence (work_values item) = []) \<and>
    (wi_status (work_values item) = ''proposed'' \<or> w_provenance item \<in> {''user-created'', ''user-confirmed''})"
proof -
  obtain r where r: "work_parts r = Inr (work_values item)" "i_record_id item = rec_id r" "w_provenance item = provenance r"
    using assms by (auto simp: work_get_def work_from_record_eq work_info_def)
  note k = work_partsD [OF r(1)]
  let ?v = "work_values item"
  have sem: "completion_rule (wi_status ?v) (wi_completed_at ?v) = Inr ()"
    "completion_after_start (wi_started_at ?v) (wi_completed_at ?v) = Inr ()" "blocker_rule (wi_status ?v) (wi_blocked_by ?v) = Inr ()"
    "rec_id r \<notin> set (wi_depends_on ?v) \<union> set (wi_blocked_by ?v) \<union> set (wi_sources ?v)"
    "set (wi_depends_on ?v) \<inter> set (wi_blocked_by ?v) = {}" "evidence_rule (wi_verification ?v) (wi_evidence ?v) = Inr ()"
    using k(5) by (auto simp: validate_persisted_semantics_def)
  have crit: "criterion c = Inr c" if "c \<in> set (wi_criteria ?v)" for c
    using k(4) that by (auto simp: work_normal_def criteria_eq map_res_eq_Inr list_all2_same)
  show ?thesis
  proof (intro conjI)
    show "wi_status ?v \<in> set WORK_ITEM_STATUSES" "wi_kind ?v \<in> set WORK_ITEM_KINDS" "wi_verification ?v \<in> set VERIFICATION_STATES"
      "0 \<le> wi_priority ?v" "wi_priority ?v \<le> 100" "int (length (wi_criteria ?v)) \<le> MAX_CRITERIA" "distinct (map ac_id (wi_criteria ?v))"
      using k(4) by (auto simp: work_normal_def work_status_def work_kind_def verification_state_def work_listed_def work_priority_def criteria_eq)
    show "\<forall>links \<in> {wi_depends_on, wi_blocked_by, wi_evidence, wi_decisions, wi_artifacts, wi_sources}.
        distinct (links ?v) \<and> int (length (links ?v)) \<le> MAX_WORK_LINKS"
      using k(4) by (simp add: work_normal_def ref_ids_eq)
    show "wi_title ?v \<noteq> []" "int (length (wi_title ?v)) \<le> MAX_WORK_TITLE_LENGTH"
      "wi_description ?v \<noteq> []" "int (length (wi_description ?v)) \<le> MAX_WORK_DESCRIPTION_LENGTH"
      using k(4) by (auto simp: work_normal_def work_text_def Let_def)
    show "\<forall>c \<in> set (wi_criteria ?v). ac_description c \<noteq> [] \<and>
       int (length (ac_description c)) \<le> MAX_CRITERION_LENGTH \<and> re_fullmatch TOKEN_PATTERN (ac_id c)"
      using crit criterion_bounds by blast
    show "wi_status ?v = ''blocked'' \<longleftrightarrow> wi_blocked_by ?v \<noteq> []" using sem(3) by (auto simp: blocker_rule_def)
    show "wi_status ?v = ''completed'' \<longleftrightarrow> wi_completed_at ?v \<noteq> None" using sem(1) by (auto simp: completion_rule_def)
    show "\<forall>c. wi_completed_at ?v = Some c \<longrightarrow> (\<exists>a. wi_started_at ?v = Some a \<and> ts_le a c)"
      using sem(2) by (auto simp: completion_after_start_def not_before_eq split: option.splits)
    show "wi_verification ?v \<in> {''passed'', ''failed''} \<longrightarrow> wi_evidence ?v \<noteq> []"
      "wi_verification ?v \<in> {''not_verified'', ''not_applicable''} \<longrightarrow> wi_evidence ?v = []"
      using sem(6) by (auto simp: evidence_rule_def)
  qed (use sem(4,5) k(8) r in auto)
qed

section \<open>Dependencies\<close>

text \<open>C31: the recursive search for a dependency cycle always ends, and its verdict is acyclicity: for
  every graph that could be read, the check passes exactly if no item reaches itself through the
  dependencies of the items of the project, whatever the order of the rows.\<close>

theorem dependency_check_decides:
  "validate_dependency_graph s project candidate depends =
     (case dependency_graph s project candidate depends of
        Inl x \<Rightarrow> Inl x
      | Inr g \<Rightarrow> if acyclic (edges g) then Inr () else Inl WorkItemValidationError)"
  by (simp add: validate_dependency_graph_def find_cycle_correct split: sum.splits)

lemma readable_acyclic:
  assumes "work_get i s = Inr item"
  shows "\<exists>g. dependency_graph s (wi_project (work_values item)) (i_record_id item) (wi_depends_on (work_values item)) = Inr g \<and> acyclic (edges g)"
  using assms
  by (auto simp: work_get_def work_from_record_eq work_info_def work_context_def validate_work_item_relations_def
      validate_dependency_graph_def find_cycle_correct split: if_splits)

section \<open>The life cycle\<close>

text \<open>The status of a stored item, without any validation of the rest of the record.\<close>

definition stored_status :: "repo \<Rightarrow> string \<Rightarrow> string option" where
  "stored_status s j =
     (case get_record j s of
        Inl _ \<Rightarrow> None
      | Inr r \<Rightarrow> if record_type r = ''work_item'' then
                   (case map_of (metadata r) ''status'' of Some (JStr x) \<Rightarrow> Some x | _ \<Rightarrow> None)
                 else None)"

inductive lifecycle :: "string \<Rightarrow> string \<Rightarrow> bool" where
  "map_of ALLOWED_TRANSITIONS a = Some bs \<Longrightarrow> b \<in> set bs \<Longrightarrow> lifecycle a b"

inductive_cases lifecycleE: "lifecycle a b"

text \<open>One call of the service, with any arguments and any outcome.\<close>

inductive work_step :: "repo \<Rightarrow> repo \<Rightarrow> bool" where
  propose: "work_propose e v sens op actor s = (res, t) \<Longrightarrow> work_step s t"
| create: "work_create e v sens op actor s = (res, t) \<Longrightarrow> work_step s t"
| update: "work_update_definition e i expected v op actor s = (res, t) \<Longrightarrow> work_step s t"
| transition: "work_transition e at i expected to_status occurred blocked_by op actor s = (res, t) \<Longrightarrow> work_step s t"
| verify: "work_set_verification e i expected state evidence op actor s = (res, t) \<Longrightarrow> work_step s t"
| archive: "work_archive e i expected op actor s = (res, t) \<Longrightarrow> work_step s t"

lemma terminal_lifecycle: "a \<in> {''completed'', ''cancelled''} \<Longrightarrow> \<not> lifecycle a b"
  by (auto elim!: lifecycleE simp: ALLOWED_TRANSITIONS_def)

lemma plan_lifecycle:
  "definition_plan u v = Inr (w, act) \<Longrightarrow> wi_status w = wi_status v"
  "verification_plan st ev v = Inr (w, act) \<Longrightarrow> wi_status w = wi_status v"
  by (auto simp: definition_plan_def verification_plan_def)

lemma transition_lifecycle:
  assumes "transition_plan at to_status occ bs v = Inr (w, act)"
  shows "wi_status w = to_status" "lifecycle (wi_status v) (wi_status w)" "wi_project w = wi_project v"
proof -
  obtain stat allowed where p: "work_status to_status = Inr stat" "map_of ALLOWED_TRANSITIONS (wi_status v) = Some allowed"
    "stat \<in> set allowed" "wi_status w = stat" "wi_project w = wi_project v"
    using assms by (auto simp: transition_plan_def of_option_def split: option.splits simp del: opt_utc_eq)
  then show "wi_status w = to_status" using work_status_kept by simp
  show "lifecycle (wi_status v) (wi_status w)" "wi_project w = wi_project v" using p by (auto intro: lifecycle.intros)
qed

lemma work_parts_status: "work_parts r = Inr v \<Longrightarrow> map_of (metadata r) ''status'' = Some (JStr (wi_status v))"
  by (auto simp: work_parts_def work_fields_def dest!: work_status_kept req_strD)

lemma readable_status:
  assumes "work_get i s = Inr item"
  shows "stored_status s (i_record_id item) = Some (wi_status (work_values item))" "i_record_id item = the (uuid i)"
proof -
  obtain j r where r: "uuid i = Some j" "get_record j s = Inr r" "record_type r = ''work_item''" "work_parts r = Inr (work_values item)"
    "i_record_id item = rec_id r"
    using assms by (auto simp: work_get_def require_work_record_def ref_id_def of_option_def work_from_record_eq work_info_def
        split: option.splits)
  have id: "rec_id r = j" using get_recordD [OF r(2)] find_row_Some [of j "records s"] by (metis with_metadata_sel(1))
  then show "i_record_id item = the (uuid i)" using r(1,5) by simp
  have "map_of (metadata r) ''status'' = Some (JStr (wi_status (work_values item)))"
    using work_parts_status [OF r(4)] .
  then show "stored_status s (i_record_id item) = Some (wi_status (work_values item))"
    using r id by (simp add: stored_status_def)
qed

lemma stored_status_other: "get_record j t = get_record j s \<Longrightarrow> stored_status t j = stored_status s j"
  by (simp add: stored_status_def)

lemma created_status:
  assumes "created e d actor s t" "stored_status s j = Some a"
  shows "repo_ok t \<and> stored_status t j = Some a"
proof -
  have "j \<noteq> dr_id d" using assms by (auto simp: created_def stored_status_def get_record_def)
  moreover have "repo_ok t" using assms(1) by (simp add: created_def audited_def)
  ultimately show ?thesis using created_get [OF assms(1)] assms(2) stored_status_other by metis
qed

lemma revise_status:
  assumes "repo_ok s" "revise_work e i expected op actor plan s = (res, t)" "stored_status s j = Some a"
    and "\<forall>v w act. plan v = Inr (w, act) \<longrightarrow> wi_status w = wi_status v \<or> lifecycle (wi_status v) (wi_status w)"
  shows "repo_ok t \<and> (\<exists>b. stored_status t j = Some b \<and> (b = a \<or> lifecycle a b))"
proof (cases res)
  case (Inl x)
  then show ?thesis using revise_work_result [OF assms(1,2)] assms(1,3) by auto
next
  case (Inr item)
  have d: "revised_item s i actor expected plan item" "others_same (i_record_id item) s t" "work_get i t = Inr item" "repo_ok t"
    using revise_work_result [OF assms(1,2)] Inr by (auto simp: audited_def)
  obtain cur v act where c: "work_get i s = Inr cur" "plan (work_values cur) = Inr (v, act)" "i_record_id item = i_record_id cur"
    "validated_work_item_values (i_record_id cur) v s = Inr (work_values item)" using d(1) by (auto simp: revised_item_def)
  have new: "wi_status (work_values item) = wi_status (work_values cur) \<or> lifecycle (wi_status (work_values cur)) (wi_status (work_values item))"
    using assms(4) c(2) validated_status [OF c(4)] by metis
  show ?thesis
  proof (cases "j = i_record_id item")
    case True
    then show ?thesis using readable_status(1) [OF c(1)] readable_status(1) [OF d(3)] c(3) assms(3) new d(4) by auto
  next
    case False
    then show ?thesis using others_same_get [OF d(2) False] assms(3) d(4) stored_status_other by metis
  qed
qed

lemma archive_status:
  assumes "repo_ok s" "work_archive e i expected op actor s = (res, t)" "stored_status s j = Some a"
  shows "repo_ok t \<and> stored_status t j = Some a"
proof -
  from store_update_call [OF assms(1) assms(2) [unfolded work_archive_def update_work_item_def case_prod_beta] work_revising_ok(2)]
  show ?thesis
  proof (elim disjE exE conjE)
    fix p row assume p: "current_work i actor s = Inr p" and c: "changed e (rec_id (fst p)) expected \<lparr>rv_version = None,
        rv_status = ''archived'', rv_prov = ''user-confirmed'', rv_title = stored_title (metadata (fst p)), rv_meta = metadata (fst p)\<rparr>
        ''user'' (record_type (fst p)) row s t" (is "changed _ _ _ ?v _ _ _ _ _")
    have g0: "get_record (rec_id (fst p)) s = Inr (fst p)" using current_workD(4) [of i actor s "fst p" "snd p"] p by simp
    note g = changed_get [OF c g0]
    have "map_of (metadata (revised_env e ?v (fst p))) k = map_of (metadata (fst p)) k" for k
      using stored_metadata_canon(1) [OF assms(1) g0] by (simp add: revised_env_def)
    then have "stored_status t (rec_id (fst p)) = stored_status s (rec_id (fst p))"
      using g g0 by (simp add: stored_status_def) (simp add: revised_env_def)
    moreover have "stored_status t j = stored_status s j" if "j \<noteq> rec_id (fst p)"
      using others_same_get [of "rec_id (fst p)" s t j] that g stored_status_other by metis
    ultimately show ?thesis using assms(3) c by (cases "j = rec_id (fst p)") (auto simp: changed_def audited_def)
  qed (use assms in auto)
qed

lemma work_step_status:
  assumes "work_step s t" "repo_ok s" "stored_status s j = Some a"
  shows "repo_ok t \<and> (\<exists>b. stored_status t j = Some b \<and> (b = a \<or> lifecycle a b))"
  using assms
proof (cases rule: work_step.cases)
  case (propose e v sens op actor res)
  from store_create_call [OF assms(2) this [unfolded work_propose_def create_work_item_def]] assms(2,3)
  show ?thesis using created_status by blast
next
  case (create e v sens op actor res)
  from store_create_call [OF assms(2) this [unfolded work_create_def create_work_item_def]] assms(2,3)
  show ?thesis using created_status by blast
next
  case (archive e i expected op actor res)
  then show ?thesis using archive_status assms(2,3) by blast
next
  case (update e i expected v op actor res)
  show ?thesis by (rule revise_status [OF assms(2) update [unfolded work_op_defs] assms(3)]) (auto dest: plan_lifecycle)
next
  case (transition e at i expected to_status occurred blocked_by op actor res)
  show ?thesis
    by (rule revise_status [OF assms(2) transition [unfolded work_op_defs] assms(3)]) (auto dest: transition_lifecycle(2))
next
  case (verify e i expected state evidence op actor res)
  show ?thesis by (rule revise_status [OF assms(2) verify [unfolded work_op_defs] assms(3)]) (auto dest: plan_lifecycle)
qed

lemma work_run_status:
  assumes "work_step\<^sup>*\<^sup>* s t" "repo_ok s" "stored_status s j = Some a"
  shows "repo_ok t \<and> (\<exists>b. stored_status t j = Some b \<and> lifecycle\<^sup>*\<^sup>* a b)"
  using assms
proof (induction rule: rtranclp_induct)
  case (step t u)
  then obtain b where "repo_ok t" "stored_status t j = Some b" "lifecycle\<^sup>*\<^sup>* a b" by blast
  then show ?case using work_step_status [OF step.hyps(2)] by (metis rtranclp.rtrancl_into_rtrancl)
qed auto

text \<open>C29: over any sequence of calls of the service, by any actors and with any outcomes, a stored
  work item never disappears and its status moves along the allowed transitions only; an item that is
  completed or cancelled stays so.\<close>

theorem work_lifecycle:
  assumes "repo_ok s" and "work_step\<^sup>*\<^sup>* s t" and "stored_status s j = Some a"
  shows "\<exists>b. stored_status t j = Some b \<and> lifecycle\<^sup>*\<^sup>* a b \<and> (a \<in> {''completed'', ''cancelled''} \<longrightarrow> b = a)"
proof -
  obtain b where b: "stored_status t j = Some b" "lifecycle\<^sup>*\<^sup>* a b" using work_run_status [OF assms(2,1,3)] by blast
  have "b = a" if "a \<in> {''completed'', ''cancelled''}"
    using b(2) terminal_lifecycle [OF that] by (metis converse_rtranclpE)
  then show ?thesis using b by blast
qed

section \<open>Who may change what\<close>

lemma current_work_user: "actor \<noteq> ''user'' \<Longrightarrow> current_work i actor s = Inl work_error"
  by (simp add: current_work_def work_require_user_def require_def)

text \<open>C30: an actor other than the user can only propose. Whatever call it makes, every record that
  was there is unchanged, and if anything was written it is one new item with the status
  \<open>proposed\<close> whose provenance is not the user's.\<close>

theorem others_only_propose:
  assumes "repo_ok s" and "uuid (new_uuid e) = Some (new_uuid e)" and "actor \<noteq> ''user''"
    and "work_propose e v sens op actor s = (res, t) \<or> work_create e v sens op actor s = (res, t) \<or>
         work_update_definition e i expected v op actor s = (res, t) \<or>
         work_transition e at i expected to_status occurred blocked_by op actor s = (res, t) \<or>
         work_set_verification e i expected state evidence op actor s = (res, t) \<or> work_archive e i expected op actor s = (res, t)"
  shows "t = s \<or>
    (\<exists>item. res = Inr item \<and> work_get (new_uuid e) t = Inr item \<and> wi_status (work_values item) = ''proposed'' \<and>
       w_provenance item \<in> {''model-proposed'', ''system-generated''} \<and> get_record (new_uuid e) s = Inl KeyError \<and>
       (\<forall>j. j \<noteq> new_uuid e \<longrightarrow> get_record j t = get_record j s))"
  using assms(4)
proof (elim disjE)
  assume p: "work_propose e v sens op actor s = (res, t)"
  from store_create_call [OF assms(1) p [unfolded work_propose_def create_work_item_def]] show ?thesis
  proof (elim disjE exE conjE)
    fix w assume "created e \<lparr>dr_id = new_uuid e, dr_type = ''work_item'', dr_version = 1, dr_prov = proposal_provenance actor,
        dr_sens = sens, dr_title = wi_title w, dr_meta = work_payload w\<rparr> actor s t" (is "created _ ?d _ _ _")
    note c = created_get [OF this] and k = this
    have "get_record (new_uuid e) s = Inl KeyError" using k by (simp add: created_def get_record_def)
    moreover have "t \<noteq> s" using k by (auto simp: created_def)
    ultimately show ?thesis
      using work_propose_result [OF assms(1,2) p] c assms(3) by (cases res) (auto simp: proposal_provenance_def)
  qed simp
next
  assume "work_create e v sens op actor s = (res, t)"
  from work_create_result [OF assms(1,2) this] assms(3) show ?thesis by auto
qed (use current_work_user [OF assms(3)] in
     \<open>auto simp: work_op_defs revise_work_def work_archive_def bind_lift\<close>)

section \<open>Completing a blocker\<close>

lemma for_each_Cons: "for_each f (x # xs) = bindr (f x) (\<lambda>_. for_each f xs)"
  by (cases "f x"; cases "map_res f xs") (simp_all add: for_each_def)

lemma for_each_Inl: "for_each f xs \<noteq> Inr () \<Longrightarrow> \<exists>x \<in> set xs. \<exists>y. f x = Inl y \<and> for_each f xs = Inl y"
proof (induction xs)
  case (Cons x xs)
  then show ?case by (cases "f x") (auto simp: for_each_Cons)
qed (simp add: for_each_def)

lemma map_res_Inl: "map_res f xs = Inl y \<Longrightarrow> \<exists>x \<in> set xs. f x = Inl y"
proof (induction xs)
  case (Cons x xs)
  then show ?case by (cases "f x"; cases "map_res f xs") auto
qed simp

lemma map_res_zip:
  assumes "map_res f xs = Inr ys" "x \<in> set xs"
  shows "\<exists>y. map_of (zip xs ys) x = Some y \<and> f x = Inr y"
  using assms
proof (induction xs arbitrary: ys)
  case (Cons a xs)
  then show ?case by (cases "f a"; cases "map_res f xs") auto
qed simp

text \<open>An item whose blocker has a terminal status fails the check of its relations.\<close>

lemma terminal_blocker:
  assumes "b \<in> set blockers" "linked_item t project b = Inr it" "wi_status (work_values it) \<in> {''completed'', ''cancelled''}"
    and "\<forall>k \<in> set (depends @ blockers). \<exists>y. linked_item t project k = Inr y"
  shows "\<exists>x \<in> {KeyError, work_error}. validate_work_item_relations t i project depends blockers = Inl x"
proof (cases "map_res (linked_item t project) (depends @ blockers)")
  case (Inl x)
  then have False using map_res_Inl [OF Inl] assms(4) by (metis sum.distinct(1))
  then show ?thesis ..
next
  case (Inr items)
  let ?f = "\<lambda>b. case map_of (zip (depends @ blockers) items) b of
                None \<Rightarrow> Inl KeyError
              | Some item \<Rightarrow> require (\<not> List.member [''completed'', ''cancelled''] (wi_status (work_values item))) work_error"
  have "?f b = Inl work_error"
    using map_res_zip [OF Inr, of b] assms(1-3) by (auto simp: require_def)
  then have "for_each ?f blockers \<noteq> Inr ()" using assms(1) unfolding for_each_eq by force
  then obtain k y where y: "?f k = Inl y" "for_each ?f blockers = Inl y" using for_each_Inl by blast
  then have "y \<in> {KeyError, work_error}" by (auto simp: require_def split: option.splits if_splits)
  then show ?thesis using Inr y(2) by (simp add: validate_work_item_relations_def)
qed

lemma linked_item_eq:
  "linked_item s project k = Inr it \<longleftrightarrow> (\<exists>r v. get_record k s = Inr r \<and> rec_status r = ''active'' \<and> work_parts r = Inr v \<and>
     it = work_info r v \<and> wi_project v = project)"
  by (auto simp: linked_item_def work_shallow_def work_info_def)

lemma validated_project: "validated_work_item_values i v s = Inr w \<Longrightarrow> uuid (wi_project v) = Some (wi_project w)"
  unfolding validated_work_item_values_def Let_def by (auto simp: ref_id_def of_option_def split: option.splits)

lemma revise_locked:
  assumes "work_get i t = Inl WorkItemCorruptError" "require_work_record i t = Inr r"
  shows "revise_work e i expected op ''user'' plan t = (Inl WorkItemCorruptError, t)"
    "work_archive e i expected op ''user'' t = (Inl WorkItemCorruptError, t)"
  using assms by (simp_all add: work_get_def revise_work_def work_archive_def current_work_def work_require_user_def bind_lift)

lemma work_getD:
  assumes "work_get i s = Inr item"
  obtains r where "require_work_record i s = Inr r" "get_record (rec_id r) s = Inr r" "record_type r = ''work_item''"
    "work_parts r = Inr (work_values item)" "work_context (rec_id r) (work_values item) s = Inr ()" "item = work_info r (work_values item)"
    "uuid i = Some (rec_id r)"
proof -
  obtain j r where r: "uuid i = Some j" "get_record j s = Inr r" "record_type r = ''work_item''" "work_from_record r s = Inr item"
    using assms by (auto simp: work_get_def require_work_record_def ref_id_def of_option_def split: option.splits)
  have id: "rec_id r = j" using get_recordD [OF r(2)] find_row_Some [of j "records s"] by (metis with_metadata_sel(1))
  obtain v where v: "work_parts r = Inr v" "work_context (rec_id r) v s = Inr ()" "item = work_info r v"
    using r(4) by (auto simp: work_from_record_eq)
  then have "work_values item = v" by (simp add: work_info_def)
  then show thesis
    using r v id by (intro that [of r]) (auto simp: require_work_record_def ref_id_def of_option_def)
qed

lemma blocker_transition:
  assumes "repo_ok s" "uuid b = Some b" "linked_item s project b = Inr it"
    and "work_transition e at b expected to_status occ bs op actor s = (Inr fin, t)"
  shows "only_item b s t" "linked_item t project b = Inr fin" "wi_status (work_values fin) = to_status"
proof -
  have d: "revised_item s b actor expected (transition_plan at to_status occ bs) fin" "others_same (i_record_id fin) s t"
    "work_get b t = Inr fin"
    using revise_work_result [OF assms(1) assms(4) [unfolded work_op_defs]] by auto
  obtain cur v act where c: "work_get b s = Inr cur" "transition_plan at to_status occ bs (work_values cur) = Inr (v, act)"
    "validated_work_item_values (i_record_id cur) v s = Inr (work_values fin)" "i_status fin = ''active''"
    using d(1) by (auto simp: revised_item_def)
  have id: "i_record_id fin = b" using readable_status(2) [OF d(3)] assms(2) by simp
  obtain q where q: "get_record b s = Inr q" "record_type q = ''work_item''" "work_parts q = Inr (work_values cur)"
    using work_getD [OF c(1)] assms(2) by (metis option.inject)
  show "only_item b s t" using only_item_changed [OF _ q(1,2)] d(2) id by simp
  show "wi_status (work_values fin) = to_status"
    using validated_status [OF c(3)] transition_lifecycle(1) [OF c(2)] by simp
  have "wi_project (work_values cur) = project" using assms(3) q by (auto simp: linked_item_eq)
  moreover have "uuid (wi_project (work_values cur)) = Some (wi_project (work_values cur))"
    using work_partsD(4) [OF q(3)] by (auto simp: work_normal_def ref_id_def of_option_def split: option.splits)
  ultimately have "wi_project (work_values fin) = project"
    using validated_project [OF c(3)] transition_lifecycle(3) [OF c(2)] by simp
  moreover obtain r where "get_record b t = Inr r" "work_parts r = Inr (work_values fin)" "fin = work_info r (work_values fin)"
    using work_getD [OF d(3)] assms(2) by (metis option.inject)
  ultimately show "linked_item t project b = Inr fin"
    using c(4) unfolding linked_item_eq by (auto simp: work_info_def) (metis typed_info.select_convs(3))
qed

text \<open>C33: finishing a blocker locks the item that it blocks. Once the user has completed or cancelled
  a work item on which a readable item waits, that item can no longer be read, and neither a
  transition (to \<open>ready\<close>, say) nor archiving can repair it: every one of these calls reads it first
  and raises \<open>WorkItemCorruptError\<close>.\<close>

theorem finished_blocker_locks_item:
  assumes "repo_ok s" and "work_get i s = Inr item" and "b \<in> set (wi_blocked_by (work_values item))"
    and "work_transition e at b expected to_status occ bs op actor s = (Inr fin, t)" and "to_status \<in> {''completed'', ''cancelled''}"
  shows "work_get i t = Inl WorkItemCorruptError \<and>
    work_transition e' at' i expected' to_status' occ' bs' op' ''user'' t = (Inl WorkItemCorruptError, t) \<and>
    work_archive e' i expected' op' ''user'' t = (Inl WorkItemCorruptError, t)"
proof -
  obtain r where r: "get_record (rec_id r) s = Inr r" "record_type r = ''work_item''" "work_parts r = Inr (work_values item)"
    "work_context (rec_id r) (work_values item) s = Inr ()" "uuid i = Some (rec_id r)"
    using work_getD [OF assms(2)] by metis
  let ?v = "work_values item"
  note k = work_partsD [OF r(3)]
  have b: "uuid b = Some b"
    using k(4) assms(3) map_res_image [of work_uuid "wi_blocked_by ?v" "wi_blocked_by ?v" b]
    by (auto simp: work_normal_def ref_ids_eq map_res_eq_Inr ref_id_def of_option_def list_all2_same split: option.splits)
  have rel: "\<exists>items. map_res (linked_item s (wi_project ?v)) (wi_depends_on ?v @ wi_blocked_by ?v) = Inr items"
    and proj: "work_project_link s (wi_project ?v) = Inr ()"
    using r(4) by (auto simp: work_context_def validate_work_item_relations_def)
  then have linked: "\<exists>y. linked_item s (wi_project ?v) j = Inr y" if "j \<in> set (wi_depends_on ?v @ wi_blocked_by ?v)" for j
    using map_res_zip that by metis
  obtain it where it: "linked_item s (wi_project ?v) b = Inr it" using linked assms(3) by auto
  note f = blocker_transition [OF assms(1) b it assms(4)]
  have ne: "rec_id r \<noteq> b" using k(5) assms(3) by (auto simp: validate_persisted_semantics_def)
  then have g: "get_record (rec_id r) t = Inr r" using f(1) r(1) by (simp add: only_item_def)
  have "\<forall>j \<in> set (wi_depends_on ?v @ wi_blocked_by ?v). \<exists>y. linked_item t (wi_project ?v) j = Inr y"
  proof
    fix j assume "j \<in> set (wi_depends_on ?v @ wi_blocked_by ?v)"
    then show "\<exists>y. linked_item t (wi_project ?v) j = Inr y"
      using linked f(1,2) by (cases "j = b") (auto simp: linked_item_def only_item_def)
  qed
  from terminal_blocker [OF assms(3) f(2) _ this, of "rec_id r"] obtain x where
    "x \<in> {KeyError, work_error}" "validate_work_item_relations t (rec_id r) (wi_project ?v) (wi_depends_on ?v) (wi_blocked_by ?v) = Inl x"
    using f(3) assms(5) by auto
  moreover have req: "require_work_record i t = Inr r"
    using g r(2,5) by (simp add: require_work_record_def ref_id_def of_option_def)
  ultimately have "work_get i t = Inl WorkItemCorruptError"
    using only_item_link(1) [OF f(1) proj] r(3)
    by (auto simp: work_get_def work_from_record_def work_context_def rescue_def is_malformed_work_def)
  then show ?thesis using revise_locked [OF _ req] by (simp add: work_transition_def)
qed

section \<open>Listing\<close>

definition wanted :: "string option \<Rightarrow> bool \<Rightarrow> WorkItemInfo \<Rightarrow> bool" where
  "wanted project include_archived item \<longleftrightarrow> (include_archived \<or> i_status item = ''active'') \<and>
     (project = None \<or> project = Some (wi_project (work_values item)))"

abbreviation work_rows :: "repo \<Rightarrow> RecordRow list" where
  "work_rows s \<equiv> sort_key (\<lambda>r. (created_at r, rec_id r)) (filter (\<lambda>r. record_type r = ''work_item'') (records s))"

lemma collect_items_take:
  assumes "map_res (\<lambda>r. work_get (rec_id r) s) rows = Inr items" "int (length acc) < limit"
  shows "collect_items s project arch limit acc rows = Inr (acc @ take (nat limit - length acc) (filter (wanted project arch) items))"
  using assms
proof (induction rows arbitrary: items acc)
  case (Cons row rows)
  then obtain item rest where r: "work_get (rec_id row) s = Inr item" "map_res (\<lambda>r. work_get (rec_id r) s) rows = Inr rest"
    "items = item # rest" by auto
  show ?case
  proof (cases "wanted project arch item")
    case False
    then have "collect_items s project arch limit acc (row # rows) = collect_items s project arch limit acc rows"
      using r(1) by (auto simp: wanted_def)
    then show ?thesis using Cons.IH [OF r(2) Cons.prems(2)] False r(3) by simp
  next
    case True
    show ?thesis
    proof (cases "limit \<le> int (length (acc @ [item]))")
      case reached: True
      then have "nat limit - length acc = 1" using Cons.prems(2) by auto
      then show ?thesis using r reached True by (auto simp: wanted_def)
    next
      case False
      then have l: "int (length (acc @ [item])) < limit" "nat limit - length acc = Suc (nat limit - length (acc @ [item]))" by auto
      have "collect_items s project arch limit acc (row # rows) = collect_items s project arch limit (acc @ [item]) rows"
        using r(1) False True by (auto simp: wanted_def)
      then show ?thesis using Cons.IH [OF r(2) l(1)] True r(3) l(2) by simp
    qed
  qed
qed simp

lemma collect_items_bound:
  assumes "collect_items s project arch limit acc rows = Inr items" "int (length acc) < limit"
  shows "int (length items) \<le> limit \<and> (\<forall>item \<in> set items. item \<in> set acc \<or> wanted project arch item \<and> (\<exists>i. work_get i s = Inr item))"
  using assms
proof (induction rows arbitrary: acc)
  case (Cons row rows)
  then obtain item where r: "work_get (rec_id row) s = Inr item" by auto
  show ?case
  proof (cases "wanted project arch item")
    case False
    then have "collect_items s project arch limit acc rows = Inr items"
      using r Cons.prems(1) by (auto simp: wanted_def split: if_splits)
    then show ?thesis using Cons.IH Cons.prems(2) by blast
  next
    case True
    show ?thesis
    proof (cases "limit \<le> int (length (acc @ [item]))")
      case reached: True
      then have "items = acc @ [item]" using r True Cons.prems(1) by (auto simp: wanted_def)
      then show ?thesis using Cons.prems(2) reached True r by auto
    next
      case False
      then have "collect_items s project arch limit (acc @ [item]) rows = Inr items"
        using r True Cons.prems(1) by (auto simp: wanted_def)
      then show ?thesis using Cons.IH [of "acc @ [item]"] False True r by fastforce
    qed
  qed
qed simp

text \<open>C35: when every work item can be read, a listing is the beginning of the selection of all items
  in creation order: those of the project that are active, or archived if asked for, and as many
  as the limit says.\<close>

theorem work_list_selects:
  assumes "1 \<le> limit" and "limit \<le> MAX_WORK_LIST_LIMIT" and "opt_res work_uuid project = Inr p"
    and "map_res (\<lambda>r. work_get (rec_id r) s) (work_rows s) = Inr items"
  shows "work_list project arch limit s = Inr (take (nat limit) (filter (wanted p arch) items))"
  using assms collect_items_take [OF assms(4), of "[]" limit p arch] by (simp add: work_list_def)

text \<open>C36: whatever it can read, a listing never exceeds its limit, which is at most 500, and
  contains only items that were asked for, as a read of them returns them.\<close>

theorem work_list_bounded:
  assumes "work_list project arch limit s = Inr items"
  shows "int (length items) \<le> limit \<and> limit \<le> 500 \<and>
    (\<forall>item \<in> set items. (arch \<or> i_status item = ''active'') \<and> (\<exists>i. work_get i s = Inr item) \<and>
       (\<forall>q. project = Some q \<longrightarrow> uuid q = Some (wi_project (work_values item))))"
proof -
  obtain p where p: "opt_res work_uuid project = Inr p" "1 \<le> limit" "limit \<le> 500" "collect_items s p arch limit [] (work_rows s) = Inr items"
    using assms by (auto simp: work_list_def MAX_WORK_LIST_LIMIT_def)
  have "uuid q = p \<and> p \<noteq> None" if "project = Some q" for q
    using p(1) that by (cases "uuid q") (auto simp: ref_id_def of_option_def)
  then show ?thesis using collect_items_bound [OF p(4)] p(2,3) by (auto simp: wanted_def)
qed

section \<open>Unfinished work can be cancelled\<close>

lemma validated_fixed:
  assumes "uuid i = Some i" "work_normal v" "validate_persisted_semantics i v = Inr ()" "work_context i v s = Inr ()"
  shows "validated_work_item_values i v s = Inr v"
  using assms
  by (cases v) (auto simp: validated_work_item_values_def work_normal_def validate_persisted_semantics_def Let_def ref_id_def of_option_def
      require_def simp del: opt_utc_eq split: option.splits)

text \<open>The audit entries of a work item always fit into an audit event.\<close>

abbreviation work_audit_entries :: "string \<Rightarrow> string \<Rightarrow> string \<Rightarrow> int \<Rightarrow> int \<Rightarrow> int \<Rightarrow> dict" where
  "work_audit_entries stat kind sens a b c \<equiv>
     [(''record_type'', JStr ''work_item''), (''domain_status'', JStr stat), (''kind'', JStr kind), (''sensitivity'', JStr sens),
      (''dependency_count'', JInt a), (''blocker_count'', JInt b), (''criterion_count'', JInt c)]"

lemma plain_words: "list_all (\<lambda>w. plain_value (JStr w) \<and> utf8_length (json_string w) \<le> 20)
    (''work_item'' # WORK_ITEM_STATUSES @ WORK_ITEM_KINDS @ ALLOWED_SENSITIVITY)"
  by code_simp

lemma plain_names: "list_all (\<lambda>k. plain_entry (k, JInt 0))
    [''record_type'', ''domain_status'', ''kind'', ''sensitivity'', ''dependency_count'', ''blocker_count'', ''criterion_count'']"
  by code_simp

lemma small_numbers: "list_all (\<lambda>n. utf8_length (show_int n) \<le> 3) [0..100]"
  by code_simp

lemma encode_entries: "encode (JObj (work_audit_entries stat kind sens a b c)) =
   ''{'' @ json_string ''blocker_count'' @ '':'' @ show_int b @ '','' @ json_string ''criterion_count'' @ '':'' @ show_int c @ '','' @
   json_string ''dependency_count'' @ '':'' @ show_int a @ '','' @ json_string ''domain_status'' @ '':'' @ json_string stat @ '','' @
   json_string ''kind'' @ '':'' @ json_string kind @ '','' @ json_string ''record_type'' @ '':'' @ json_string ''work_item'' @ '','' @
   json_string ''sensitivity'' @ '':'' @ json_string sens @ ''}''"
proof -
  have "canon (JObj (work_audit_entries stat kind sens a b c)) = JObj [(''blocker_count'', JInt b), (''criterion_count'', JInt c),
    (''dependency_count'', JInt a), (''domain_status'', JStr stat), (''kind'', JStr kind), (''record_type'', JStr ''work_item''), (''sensitivity'', JStr sens)]"
    by code_simp
  then show ?thesis by (simp add: encode_def join_Cons)
qed

lemma utf8_Nil: "utf8_length [] = 0"
  by (simp add: utf8_length_def)

lemma work_entries_serialize:
  assumes "stat \<in> set WORK_ITEM_STATUSES" "kind \<in> set WORK_ITEM_KINDS" "sens \<in> set ALLOWED_SENSITIVITY"
    and "a \<in> {0..100}" "b \<in> {0..100}" "c \<in> {0..100}"
  shows "\<exists>j. serialize_metadata_strict (work_audit_entries stat kind sens a b c) = Inr j"
proof -
  have words: "plain_value (JStr w) \<and> utf8_length (json_string w) \<le> 20" if "w \<in> {stat, kind, sens}" for w
    using plain_words that assms(1-3) by (auto simp: list_all_iff)
  have "utf8_length (show_int n) \<le> 3" if "n \<in> {a, b, c}" for n
    using small_numbers that assms(4-6) by (auto simp: list_all_iff)
  then have n: "utf8_length (show_int a) \<le> 3" "utf8_length (show_int b) \<le> 3" "utf8_length (show_int c) \<le> 3" by auto
  have k: "utf8_length (json_string ''blocker_count'') + utf8_length (json_string ''criterion_count'') +
     utf8_length (json_string ''dependency_count'') + utf8_length (json_string ''domain_status'') + utf8_length (json_string ''kind'') +
     utf8_length (json_string ''record_type'') + utf8_length (json_string ''work_item'') + utf8_length (json_string ''sensitivity'') \<le> 200"
    by code_simp
  have "utf8_length (encode (JObj (work_audit_entries stat kind sens a b c))) \<le> 1000"
    using n k words [of stat] words [of kind] words [of sens] utf8_Nil unfolding encode_entries utf8_append by (simp add: ord_def)
  moreover have "list_all plain_entry (work_audit_entries stat kind sens a b c)"
    using plain_names words plain_words by (simp add: plain_entry_def plain_value_def)
  ultimately show ?thesis using serialize_plain [of "work_audit_entries stat kind sens a b c"]
    by (auto simp: MAX_METADATA_BYTES_def MAX_METADATA_ITEMS_def)
qed

lemma cancel_token: "validate_token MAX_ACTION_LENGTH ''work-item.cancelled'' = Inr ''work-item.cancelled''"
proof -
  have "plain_alphabet ''work-item.cancelled''" by code_simp
  then show ?thesis
    by (auto intro!: plain_token_valid [OF _ subset_refl] simp: MAX_ACTION_LENGTH_def
      is_alnum_ascii_def is_lower_ascii_def is_upper_ascii_def is_digit_def token_char_def ord_def)
qed

text \<open>Cancelling takes the blockers away and asks for nothing new.\<close>

definition cancelled_values :: "work_values \<Rightarrow> work_values" where
  "cancelled_values v = v\<lparr>wi_status := ''cancelled'', wi_completed_at := None, wi_blocked_by := []\<rparr>"

lemma map_res_append: "map_res f (xs @ ys) = Inr zs \<Longrightarrow> \<exists>us. map_res f xs = Inr us"
  by (induction xs arbitrary: zs) auto

lemma cancelled_ok:
  assumes "work_normal v" "validate_persisted_semantics i v = Inr ()" "work_context i v s = Inr ()"
  shows "work_normal (cancelled_values v)" "validate_persisted_semantics i (cancelled_values v) = Inr ()"
    "work_context i (cancelled_values v) s = Inr ()"
proof -
  show "work_normal (cancelled_values v)"
    using assms(1) by (auto simp: work_normal_def cancelled_values_def work_status_def work_listed_def WORK_ITEM_STATUSES_def
        ref_ids_eq MAX_WORK_LINKS_def)
  show "validate_persisted_semantics i (cancelled_values v) = Inr ()"
    using assms(2) by (auto simp: validate_persisted_semantics_def cancelled_values_def completion_rule_def blocker_rule_def
        completion_after_start_def require_def split: if_splits)
  show "work_context i (cancelled_values v) s = Inr ()"
    using assms(3) map_res_append [of "linked_item s (wi_project v)" "wi_depends_on v" "wi_blocked_by v"]
    by (auto simp: work_context_def cancelled_values_def validate_work_item_relations_def validate_work_links_def)
qed

lemma finite_work_payload: "all_finite (JObj (work_payload v))"
  by (auto simp: work_payload_def list_all_iff criterion_payload_def opt_json_def split: option.splits)

lemma work_counts:
  assumes "work_normal v"
  shows "int (length (wi_depends_on v)) \<in> {0..100}" "int (length (wi_criteria v)) \<in> {0..100}" "wi_kind v \<in> set WORK_ITEM_KINDS"
  using assms by (auto simp: work_normal_def ref_ids_eq criteria_eq MAX_WORK_LINKS_def MAX_CRITERIA_def work_kind_def work_listed_def)

lemma record_sensitivity: "repo_ok s \<Longrightarrow> get_record i s = Inr r \<Longrightarrow> sensitivity r \<in> set ALLOWED_SENSITIVITY"
  using get_recordD [of i s r] repo_ok_row [of s i] by (auto simp: row_ok_def) (metis with_metadata_sel(9))

lemma cancel_written:
  assumes "repo_ok s" "\<not> read_only s" "validate_operation_id e op = Inr oid" "event_uuid e \<notin> event_id ` set (audit_events s)"
    and "get_record (rec_id r) s = Inr r" "work_parts r = Inr v" "rec_status r = ''active''" "work_normal (cancelled_values v)"
  shows "\<exists>t. update_work_item e r (revision r) ttl (work_payload (cancelled_values v)) ''active'' op ''work-item.cancelled'' s = (Inr (), t)"
proof -
  let ?w = "cancelled_values v"
  have am: "work_audit ''user'' (work_payload ?w) (sensitivity r) = Inr (work_audit_entries ''cancelled'' (wi_kind v) (sensitivity r)
      (int (length (wi_depends_on v))) 0 (int (length (wi_criteria v))))"
    using work_counts(3) [OF assms(8)]
    by (auto simp: work_audit_def work_payload_def cancelled_values_def AUDIT_EVENT_ACTORS_def WORK_ITEM_KINDS_def req_str_def meta_list_def)
  obtain j where j: "serialize_metadata_strict (work_audit_entries ''cancelled'' (wi_kind v) (sensitivity r)
      (int (length (wi_depends_on v))) 0 (int (length (wi_criteria v)))) = Inr j"
    using work_entries_serialize [of "''cancelled''" "wi_kind v" "sensitivity r" "int (length (wi_depends_on v))" 0
        "int (length (wi_criteria v))"] work_counts [OF assms(8)]
      record_sensitivity [OF assms(1,5)] by (auto simp: cancelled_values_def WORK_ITEM_STATUSES_def)
  show ?thesis
    unfolding update_work_item_def
    by (rule store_update_ok [OF assms(1-3) refl assms(5) refl assms(7) _ _ cancel_token am j assms(4)])
      (use finite_work_payload work_partsD(1) [OF assms(6)] in \<open>auto simp del: all_finite.simps\<close>)
qed

lemma cancel_succeeds:
  assumes "repo_ok s" and "\<not> read_only s" and "validate_operation_id e op = Inr oid"
    and "event_uuid e \<notin> event_id ` set (audit_events s)" and "work_get i s = Inr item" and "i_status item = ''active''"
    and "wi_status (work_values item) \<in> {''proposed'', ''ready'', ''in_progress'', ''blocked''}"
  shows "\<exists>fin t. work_transition e at i (i_revision item) ''cancelled'' None None op ''user'' s = (Inr fin, t) \<and>
    wi_status (work_values fin) = ''cancelled'' \<and> i_revision fin = i_revision item + 1 \<and> work_get i t = Inr fin"
proof -
  let ?v = "work_values item" and ?w = "cancelled_values (work_values item)" and ?plan = "transition_plan at ''cancelled'' None None"
  obtain r where r: "require_work_record i s = Inr r" "get_record (rec_id r) s = Inr r" "work_parts r = Inr ?v"
    "work_context (rec_id r) ?v s = Inr ()" "item = work_info r ?v" "uuid i = Some (rec_id r)"
    using work_getD [OF assms(5)] by metis
  note k = work_partsD [OF r(3)]
  note ok = cancelled_ok [OF k(4,5) r(4)]
  have sel: "i_record_id item = rec_id r" "i_revision item = revision r" "i_status item = rec_status r"
    by (subst r(5), simp add: work_info_def)+
  have val: "validated_work_item_values (rec_id r) ?w s = Inr ?w"
    using validated_fixed ok uuid_fixpoint [OF r(6)] by blast
  have plan: "?plan ?v = Inr (?w, ''work-item.cancelled'')"
    using assms(7) by (auto simp: transition_plan_def ALLOWED_TRANSITIONS_def work_status_def work_listed_def WORK_ITEM_STATUSES_def
        cancelled_values_def of_option_def opt_res_def)
  have cur: "current_work i ''user'' s = Inr (r, item)"
    using r(1) assms(5,6) by (simp add: current_work_def work_require_user_def work_require_active_def work_get_def)
  obtain t where t: "update_work_item e r (revision r) (wi_title ?w) (work_payload ?w) ''active'' op ''work-item.cancelled'' s = (Inr (), t)"
    using cancel_written [OF assms(1-4) r(2,3) _ ok(1)] sel(3) assms(6) by fastforce
  have run: "revise_work e i (revision r) op ''user'' ?plan s = (work_get i t, t)"
    using cur plan val t sel(1) by (simp add: revise_work_def bind_lift bind_op_read)
  have "t \<noteq> s"
    using store_update_cases [OF assms(1) work_revising_ok(1) [of "\<lambda>_. True" "\<lambda>_. wi_title ?w" "\<lambda>_. work_payload ?w", simplified]
        t [unfolded update_work_item_def]]
    by (auto simp: changed_def audited_def)
  then obtain fin where fin: "work_get i t = Inr fin" "revised_item s i ''user'' (revision r) ?plan fin"
    using revise_work_result [OF assms(1) run] by (cases "work_get i t") auto
  have "work_values fin = ?w" "i_revision fin = revision r + 1"
    using fin(2) assms(5) plan val sel(1) by (auto simp: revised_item_def)
  then show ?thesis using run fin(1) sel(2) by (auto simp: work_transition_def cancelled_values_def)
qed

text \<open>C32: unfinished work can be finished. As long as the user can read an active item that is
  proposed, ready, in progress or blocked, and the repository is writable, cancelling it at its
  current revision succeeds; in particular no state of its links can prevent this without also
  preventing the read.\<close>

theorem readable_work_can_be_cancelled:
  assumes "repo_ok s" and "\<not> read_only s" and "validate_operation_id e op = Inr oid"
    and "event_uuid e \<notin> event_id ` set (audit_events s)" and "work_get i s = Inr item" and "i_status item = ''active''"
    and "wi_status (work_values item) \<in> {''proposed'', ''ready'', ''in_progress'', ''blocked''}"
  shows "\<exists>fin t. work_transition e at i (i_revision item) ''cancelled'' None None op ''user'' s = (Inr fin, t) \<and>
    wi_status (work_values fin) = ''cancelled'' \<and> i_revision fin = i_revision item + 1 \<and> work_get i t = Inr fin"
  by (rule cancel_succeeds [OF assms])

section \<open>A project with a blocked item\<close>

definition home_id :: string where "home_id = ''00000000-0000-0000-0000-00000000000a''"
definition blocker_id :: string where "blocker_id = ''00000000-0000-0000-0000-00000000000b''"
definition blocked_id :: string where "blocked_id = ''00000000-0000-0000-0000-00000000000c''"

definition sample_item :: "string \<Rightarrow> string list \<Rightarrow> work_values" where
  "sample_item stat blockers = \<lparr>wi_project = home_id, wi_kind = ''task'', wi_title = ''a'', wi_description = ''b'', wi_status = stat,
     wi_priority = 50, wi_started_at = None, wi_completed_at = None, wi_depends_on = [], wi_blocked_by = blockers, wi_criteria = [],
     wi_verification = ''not_verified'', wi_evidence = [], wi_decisions = [], wi_artifacts = [], wi_sources = []\<rparr>"

definition item_row :: "string \<Rightarrow> work_values \<Rightarrow> RecordRow" where
  "item_row i v = sample_row_of i ''work_item'' 1 ''user-created'' (wi_title v) (work_payload v)"

definition work_repo :: repo where
  "work_repo = sample_repo\<lparr>records :=
     [sample_row_of home_id ''project'' 1 ''user-created'' ''a'' (project_payload sample_project),
      item_row blocker_id (sample_item ''ready'' []), item_row blocked_id (sample_item ''blocked'' [blocker_id])]\<rparr>"

lemma work_repo_reads:
  "case work_get blocker_id work_repo of Inl _ \<Rightarrow> False | Inr item \<Rightarrow> i_status item = ''active'' \<and> i_revision item = 1 \<and>
     i_record_id item = blocker_id \<and> work_values item = sample_item ''ready'' []"
  "case work_get blocked_id work_repo of Inl _ \<Rightarrow> False | Inr item \<Rightarrow> i_status item = ''active'' \<and> i_revision item = 1 \<and>
     i_record_id item = blocked_id \<and> work_values item = sample_item ''blocked'' [blocker_id]"
  by code_simp+

lemma work_repo_ok: "repo_ok work_repo"
proof -
  have d: "draft_ok \<lparr>dr_id = i, dr_type = rtype, dr_version = 1, dr_prov = ''user-created'', dr_sens = ''personal'', dr_title = ttl,
      dr_meta = m\<rparr>" for i rtype ttl m
    by (simp add: draft_ok_def ALLOWED_PROVENANCE_def ALLOWED_SENSITIVITY_def)
  have "all_finite (JObj (project_payload sample_project))" by (simp add: project_payload_def sample_project_def)
  then have "\<forall>r \<in> set (records work_repo). row_ok r"
    using d finite_work_payload
    by (auto simp: work_repo_def item_row_def sample_row_of_def simp del: all_finite.simps canon.simps intro!: draft_row_ok serialized_ok)
  moreover have "\<forall>r \<in> set (records work_repo). binding_scope r = None"
    by (simp add: work_repo_def item_row_def sample_row_of_def binding_scope_def)
  moreover have "distinct (map rec_id (records work_repo))" by code_simp
  ultimately show ?thesis using sample_repo_ok
    by (auto simp: repo_ok_def bindings_unique_def events_ok_def revision_ok_def work_repo_def sample_repo_def)
qed

lemma work_repo_items:
  obtains a b where "work_get blocker_id work_repo = Inr a" "i_status a = ''active''" "i_revision a = 1" "i_record_id a = blocker_id"
    "work_values a = sample_item ''ready'' []" "work_get blocked_id work_repo = Inr b" "i_status b = ''active''"
    "work_values b = sample_item ''blocked'' [blocker_id]" "i_record_id b = blocked_id"
  using work_repo_reads by (auto split: sum.splits)

abbreviation work_clock :: env where
  "work_clock \<equiv> clock_env ''00000000-0000-0000-0000-00000000000d'' ''v2'' ''2026-01-02T00:00:00Z''"

lemma work_repo_writable: "\<not> read_only work_repo" "audit_events work_repo = []"
  by (simp_all add: work_repo_def sample_repo_def)

text \<open>The blocker is cancelled.\<close>

lemma blocker_cancelled:
  obtains fin t where "work_transition work_clock at blocker_id 1 ''cancelled'' None None (Some ''op1'') ''user'' work_repo = (Inr fin, t)"
    "wi_status (work_values fin) = ''cancelled''" "work_get blocker_id t = Inr fin"
proof -
  obtain a b where r: "work_get blocker_id work_repo = Inr a" "i_status a = ''active''" "i_revision a = 1"
    "work_values a = sample_item ''ready'' []" by (rule work_repo_items)
  have st: "wi_status (work_values a) \<in> {''proposed'', ''ready'', ''in_progress'', ''blocked''}" by (simp add: r(4) sample_item_def)
  from cancel_succeeds [OF work_repo_ok work_repo_writable(1) sample_operation _ r(1,2) st, of work_clock at] r(3) work_repo_writable(2) that
  show thesis by auto
qed

theorem readable_work_can_be_cancelled_witness:
  "\<exists>item fin t. work_get blocker_id work_repo = Inr item \<and>
     work_transition work_clock ''x'' blocker_id (i_revision item) ''cancelled'' None None (Some ''op1'') ''user'' work_repo = (Inr fin, t) \<and>
     wi_status (work_values fin) = ''cancelled''"
proof -
  obtain a b where r: "work_get blocker_id work_repo = Inr a" "i_status a = ''active''"
    "work_values a = sample_item ''ready'' []" by (rule work_repo_items)
  have "wi_status (work_values a) \<in> {''proposed'', ''ready'', ''in_progress'', ''blocked''}" by (simp add: r(3) sample_item_def)
  from readable_work_can_be_cancelled [OF work_repo_ok work_repo_writable(1) sample_operation _ r(1,2) this, of work_clock "''x''"]
    r(1) work_repo_writable(2) show ?thesis by auto
qed

theorem finished_blocker_locks_item_witness:
  "\<exists>fin t item. work_get blocked_id work_repo = Inr item \<and>
     work_transition work_clock ''x'' blocker_id 1 ''cancelled'' None None (Some ''op1'') ''user'' work_repo = (Inr fin, t) \<and>
     work_get blocked_id t = Inl WorkItemCorruptError \<and>
     work_transition work_clock ''x'' blocked_id 1 ''ready'' None None (Some ''op2'') ''user'' t = (Inl WorkItemCorruptError, t)"
proof -
  obtain a b where b: "work_get blocked_id work_repo = Inr b" "work_values b = sample_item ''blocked'' [blocker_id]"
    by (rule work_repo_items)
  obtain fin t where t: "work_transition work_clock ''x'' blocker_id 1 ''cancelled'' None None (Some ''op1'') ''user'' work_repo = (Inr fin, t)"
    by (rule blocker_cancelled)
  have "blocker_id \<in> set (wi_blocked_by (work_values b))" by (simp add: b(2) sample_item_def)
  from finished_blocker_locks_item [OF work_repo_ok b(1) this t] b(1) t show ?thesis by blast
qed

theorem work_item_well_formed_witness:
  "\<exists>item. work_get blocked_id work_repo = Inr item \<and> wi_blocked_by (work_values item) = [blocker_id] \<and>
     wi_status (work_values item) = ''blocked'' \<and> blocked_id \<notin> set (wi_blocked_by (work_values item))"
proof -
  obtain a b where b: "work_get blocked_id work_repo = Inr b" "work_values b = sample_item ''blocked'' [blocker_id]"
    "i_record_id b = blocked_id" by (rule work_repo_items)
  have "wi_blocked_by (work_values b) = [blocker_id]" by (simp add: b(2) sample_item_def)
  then show ?thesis using work_item_well_formed [OF b(1)] b(1,3) by auto
qed

theorem work_lifecycle_witness:
  "\<exists>t. work_step\<^sup>*\<^sup>* work_repo t \<and> stored_status work_repo blocker_id = Some ''ready'' \<and> stored_status t blocker_id = Some ''cancelled'' \<and>
     lifecycle\<^sup>*\<^sup>* ''ready'' ''cancelled''"
proof -
  obtain fin t where t: "work_transition work_clock ''x'' blocker_id 1 ''cancelled'' None None (Some ''op1'') ''user'' work_repo = (Inr fin, t)"
    "wi_status (work_values fin) = ''cancelled''" "work_get blocker_id t = Inr fin" by (rule blocker_cancelled)
  obtain a b where a: "work_get blocker_id work_repo = Inr a" "i_record_id a = blocker_id" "work_values a = sample_item ''ready'' []"
    by (rule work_repo_items)
  have s0: "stored_status work_repo blocker_id = Some ''ready''"
    using readable_status(1) [OF a(1)] a(2,3) by (simp add: sample_item_def)
  have s1: "stored_status t blocker_id = Some ''cancelled''"
    using readable_status [OF t(3)] readable_status(2) [OF a(1)] a(2) t(2) by simp
  have run: "work_step\<^sup>*\<^sup>* work_repo t" using work_step.transition [OF t(1)] by blast
  from work_lifecycle [OF work_repo_ok run s0] s0 s1 run show ?thesis by auto
qed

theorem work_calls_atomic_witness:
  "\<exists>fin t. work_transition work_clock ''x'' blocker_id 1 ''cancelled'' None None (Some ''op1'') ''user'' work_repo = (Inr fin, t) \<and>
     work_get blocker_id t = Inr fin \<and> audited work_clock ''user'' ''work_item'' blocker_id work_repo t"
proof -
  obtain fin t where t: "work_transition work_clock ''x'' blocker_id 1 ''cancelled'' None None (Some ''op1'') ''user'' work_repo = (Inr fin, t)"
    by (rule blocker_cancelled)
  obtain a b where a: "work_get blocker_id work_repo = Inr a" "i_record_id a = blocker_id" "work_values a = sample_item ''ready'' []"
    by (rule work_repo_items)
  have u: "uuid (new_uuid work_clock) = Some (new_uuid work_clock)" "uuid blocker_id = Some blocker_id" by code_simp+
  from work_calls_atomic [OF work_repo_ok u(1) disjI2 [OF conjI [OF refl conjI [OF refl disjI2 [OF disjI1 [OF t]]]]]] t u(2)
  show ?thesis by auto
qed

lemma propose_token: "validate_token MAX_ACTION_LENGTH ''work-item.propose'' = Inr ''work-item.propose''"
  by code_simp

theorem others_only_propose_witness:
  "\<exists>item t. work_propose work_clock (sample_item ''ready'' []) ''personal'' (Some ''op1'') ''model'' work_repo = (Inr item, t) \<and>
     wi_status (work_values item) = ''proposed'' \<and> w_provenance item = ''model-proposed'' \<and>
     get_record blocker_id t = get_record blocker_id work_repo"
proof -
  let ?id = "''00000000-0000-0000-0000-00000000000d''" and ?w = "sample_item ''proposed'' []"
  have v: "validated_work_item_values ?id (fresh_values ''proposed'' (sample_item ''ready'' [])) work_repo = Inr ?w" by code_simp
  have e: "new_uuid work_clock = ?id" by (simp add: clock_env_def sample_env_def)
  have am: "work_audit ''model'' (work_payload ?w) ''personal'' = Inr (work_audit_entries ''proposed'' ''task'' ''personal'' 0 0 0)" by code_simp
  obtain j where j: "serialize_metadata_strict (work_audit_entries ''proposed'' ''task'' ''personal'' 0 0 0) = Inr j"
    using work_entries_serialize [of "''proposed''" "''task''" "''personal''" 0 0 0]
    by (auto simp: WORK_ITEM_STATUSES_def WORK_ITEM_KINDS_def ALLOWED_SENSITIVITY_def)
  have f: "validate_record_fields ''work_item'' 1 ''active'' ''model-proposed'' ''personal'' = Inr ()"
    "find_row ?id (records work_repo) = None" by code_simp+
  have "\<exists>t. create_work_item work_clock ?w ''model-proposed'' ''personal'' (Some ''op1'') ''work-item.propose'' ''model'' work_repo = (Inr ?id, t)"
    using store_create_ok [where e = work_clock and d = "\<lparr>dr_id = ?id, dr_type = ''work_item'', dr_version = 1, dr_prov = ''model-proposed'',
        dr_sens = ''personal'', dr_title = wi_title ?w, dr_meta = work_payload ?w\<rparr>" and actor = "''model''",
        OF work_repo_ok work_repo_writable(1) _ sample_operation _ _ _ propose_token am j]
      f finite_work_payload e work_repo_writable(2)
    by (simp add: create_work_item_def del: all_finite.simps)
  then obtain t where t: "create_work_item work_clock ?w ''model-proposed'' ''personal'' (Some ''op1'') ''work-item.propose'' ''model'' work_repo
      = (Inr ?id, t)" by blast
  have run: "work_propose work_clock (sample_item ''ready'' []) ''personal'' (Some ''op1'') ''model'' work_repo = (work_get ?id t, t)"
    using t v e by (simp add: work_propose_def bind_lift bind_op_read proposal_provenance_def)
  have ne: "t \<noteq> work_repo"
    using store_create_cases [OF work_repo_ok t [unfolded create_work_item_def]] by (auto simp: created_def)
  have u: "uuid (new_uuid work_clock) = Some (new_uuid work_clock)" "blocker_id \<noteq> ?id" by code_simp+
  from others_only_propose [OF work_repo_ok u(1) _ disjI1 [OF run]] ne obtain item where
    i: "work_get ?id t = Inr item" "wi_status (work_values item) = ''proposed''"
    "\<forall>j. j \<noteq> ?id \<longrightarrow> get_record j t = get_record j work_repo" unfolding e by auto
  have "w_provenance item = ''model-proposed''"
    using work_propose_result [OF work_repo_ok u(1) run] i(1) by (simp add: proposal_provenance_def)
  then show ?thesis using run i u(2) by auto
qed

lemma map_res_comp: "map_res (\<lambda>r. f (g r)) xs = map_res f (map g xs)"
  by (induction xs) auto

lemma work_repo_rows: "map rec_id (work_rows work_repo) = [blocker_id, blocked_id]"
  by code_simp

theorem work_list_selects_witness:
  "\<exists>a. work_get blocker_id work_repo = Inr a \<and> work_list (Some home_id) False 1 work_repo = Inr [a]"
proof -
  obtain a b where r: "work_get blocker_id work_repo = Inr a" "i_status a = ''active''" "work_values a = sample_item ''ready'' []"
    "work_get blocked_id work_repo = Inr b" by (rule work_repo_items)
  have all: "map_res (\<lambda>r. work_get (rec_id r) work_repo) (work_rows work_repo) = Inr [a, b]"
    using r(1,4) by (simp only: map_res_comp [of "\<lambda>i. work_get i work_repo" rec_id] work_repo_rows) simp
  have p: "opt_res work_uuid (Some home_id) = Inr (Some home_id)" by code_simp
  have "wanted (Some home_id) False a" using r(2,3) by (simp add: wanted_def sample_item_def)
  then show ?thesis using work_list_selects [OF _ _ p all, of 1 False] r(1) by (simp add: MAX_WORK_LIST_LIMIT_def)
qed

theorem work_list_bounded_witness:
  "\<exists>items. work_list None False 500 work_repo = Inr items \<and> length items \<le> 500"
proof -
  obtain a b where r: "work_get blocker_id work_repo = Inr a" "work_get blocked_id work_repo = Inr b" by (rule work_repo_items)
  have all: "map_res (\<lambda>r. work_get (rec_id r) work_repo) (work_rows work_repo) = Inr [a, b]"
    using r by (simp only: map_res_comp [of "\<lambda>i. work_get i work_repo" rec_id] work_repo_rows) simp
  obtain items where items: "work_list None False 500 work_repo = Inr items"
    using collect_items_take [OF all, of "[]" 500 None False] by (simp add: work_list_def MAX_WORK_LIST_LIMIT_def opt_res_def)
  then show ?thesis using work_list_bounded [OF items] by auto
qed

end
