(* ===== verification/Conversations.thy ===== *)
theory Conversations
  imports Record_Store
begin

text \<open>
  Canonical conversations: the dataclasses \<open>ConversationRecord\<close> and \<open>ConversationEventRecord\<close> of
  \<open>state.py\<close> with their validation, and the operations of \<open>state_repository.py\<close> that save, read and
  list them.

  The fields of a dataclass are JSON values before validation (\<open>JNull\<close> for \<open>None\<close>), because a
  read hands over whatever the stored metadata holds; \<open>parent_event_ids\<close> is a tuple and
  \<open>extensions\<close> a dictionary with text keys on every path. The nine attribution fields that the
  source validates in one loop are one association list, in the order of that loop.
\<close>

section \<open>Validation\<close>

definition ALLOWED_CONVERSATION_EVENT_KINDS :: "string list" where
  "ALLOWED_CONVERSATION_EVENT_KINDS = [''user_message'', ''assistant_message'', ''system_context_snapshot'',
     ''model_runtime_change'', ''tool_request'', ''tool_result'', ''attachment_reference'', ''branch_creation'',
     ''edit_regeneration'', ''citation_reference'', ''error'', ''imported_unknown_event'']"

definition ALLOWED_CONVERSATION_ACTORS :: "string list" where
  "ALLOWED_CONVERSATION_ACTORS = [''user'', ''assistant'', ''system'', ''model'', ''runtime'', ''tool'', ''importer'', ''unknown'']"

definition ALLOWED_CONVERSATION_ORIGINS :: "string list" where
  "ALLOWED_CONVERSATION_ORIGINS = [''current_user_instruction'', ''external_content'', ''imported_data'', ''tool_result'',
     ''runtime_output'', ''model_proposal'', ''unknown'']"

definition MAX_CONVERSATION_TITLE :: int where "MAX_CONVERSATION_TITLE = 240"
definition MAX_CONVERSATION_IDENTIFIER :: int where "MAX_CONVERSATION_IDENTIFIER = 1024"
definition MAX_CONVERSATION_CONTENT_REFERENCE :: int where "MAX_CONVERSATION_CONTENT_REFERENCE = 2048"
definition MAX_CONVERSATION_PARENTS :: int where "MAX_CONVERSATION_PARENTS = 64"
definition MAX_CONVERSATION_EXTENSIONS :: int where "MAX_CONVERSATION_EXTENSIONS = 64"
definition MAX_CONVERSATION_LIST_LIMIT :: int where "MAX_CONVERSATION_LIST_LIMIT = 500"

abbreviation conversation_error :: exc where "conversation_error \<equiv> ConversationValidationError"

definition validate_conversation_uuid :: "json \<Rightarrow> string res" where
  "validate_conversation_uuid value =
     (case value of JStr t \<Rightarrow> of_option conversation_error (uuid t) | _ \<Rightarrow> Inl conversation_error)"

definition validate_conversation_text :: "int \<Rightarrow> json \<Rightarrow> string option res" where
  "validate_conversation_text maximum value =
     (case value of
        JNull \<Rightarrow> Inr None
      | JStr t \<Rightarrow>
          let normalized = strip t in
          bindr (require (normalized \<noteq> []) conversation_error) (\<lambda>_.
          bindr (require (\<not> maximum < int (length normalized)) conversation_error) (\<lambda>_.
          bindr (require (\<not> list_ex (\<lambda>c. ord c < 32 \<or> ord c = 127) normalized) conversation_error) (\<lambda>_.
          Inr (Some normalized))))
      | _ \<Rightarrow> Inl conversation_error)"

definition replace_zulu :: "string \<Rightarrow> string" where
  "replace_zulu s = concat (map (\<lambda>c. if c = CHR ''Z'' then ''+00:00'' else [c]) s)"

definition aware_time :: "string \<Rightarrow> bool" where
  "aware_time s = (case fromisoformat (replace_zulu s) of None \<Rightarrow> False | Some (_, offset) \<Rightarrow> offset \<noteq> None)"

definition validate_conversation_timestamp :: "json \<Rightarrow> string option res" where
  "validate_conversation_timestamp value =
     bindr (validate_conversation_text MAX_CONVERSATION_IDENTIFIER value) (\<lambda>normalized.
     case normalized of
       None \<Rightarrow> Inr None
     | Some t \<Rightarrow> bindr (require (aware_time t) conversation_error) (\<lambda>_. Inr (Some t)))"

definition validate_conversation_parents :: "string \<Rightarrow> json list \<Rightarrow> string list res" where
  "validate_conversation_parents event value =
     bindr (require (\<not> MAX_CONVERSATION_PARENTS < int (length value)) conversation_error) (\<lambda>_.
     bindr (map_res validate_conversation_uuid value) (\<lambda>parents.
     bindr (require (event \<notin> set parents) conversation_error) (\<lambda>_.
     bindr (require (distinct parents) conversation_error) (\<lambda>_.
     Inr parents))))"

definition extension_char :: "char \<Rightarrow> bool" where
  "extension_char c \<longleftrightarrow> is_lower_ascii c \<or> is_digit c"

definition extension_key :: "string \<Rightarrow> bool" where
  "extension_key k =
     (case k of [] \<Rightarrow> False
      | c # cs \<Rightarrow> extension_char c \<and> length cs \<le> 127 \<and> list_all (\<lambda>d. extension_char d \<or> d \<in> set ''_.-'') cs)"

fun collect_extensions :: "dict \<Rightarrow> dict \<Rightarrow> dict res" where
  "collect_extensions normalized [] = Inr normalized"
| "collect_extensions normalized ((key, item) # rest) =
     (let normalized_key = lower (strip key) in
      bindr (require (extension_key normalized_key) conversation_error) (\<lambda>_.
      collect_extensions (dict_put normalized_key item normalized) rest))"

definition validate_conversation_extensions :: "dict \<Rightarrow> dict res" where
  "validate_conversation_extensions value =
     bindr (require (\<not> MAX_CONVERSATION_EXTENSIONS < int (length value)) conversation_error) (\<lambda>_.
     bindr (collect_extensions [] value) (\<lambda>normalized.
     bindr (require (all_finite (JObj normalized)) conversation_error) (\<lambda>_.
     Inr normalized)))"

text \<open>Membership in a frozen set hashes the value first: a list or a dictionary raises
  \<open>TypeError\<close>, which no caller catches.\<close>

definition frozenset_member :: "string list \<Rightarrow> json \<Rightarrow> string res" where
  "frozenset_member allowed value =
     (case value of
        JStr t \<Rightarrow> if List.member allowed t then Inr t else Inl conversation_error
      | JList _ \<Rightarrow> Inl TypeError
      | JObj _ \<Rightarrow> Inl TypeError
      | _ \<Rightarrow> Inl conversation_error)"

definition sequence_hint_value :: "json \<Rightarrow> int option res" where
  "sequence_hint_value value =
     (case value of
        JNull \<Rightarrow> Inr None
      | JInt n \<Rightarrow> if n < 0 then Inl conversation_error else Inr (Some n)
      | _ \<Rightarrow> Inl conversation_error)"

section \<open>Records\<close>

record conversation =
  cv_id :: string
  cv_title :: "string option"
  cv_environment :: "string option"
  cv_source :: "string option"

definition ConversationRecord :: "json \<Rightarrow> json \<Rightarrow> json \<Rightarrow> json \<Rightarrow> conversation res" where
  "ConversationRecord conversation_id title0 environment source =
     bindr (validate_conversation_uuid conversation_id) (\<lambda>i.
     bindr (validate_conversation_text MAX_CONVERSATION_TITLE title0) (\<lambda>ttl.
     bindr (validate_conversation_text MAX_CONVERSATION_IDENTIFIER environment) (\<lambda>env.
     bindr (validate_conversation_text MAX_CONVERSATION_IDENTIFIER source) (\<lambda>src.
     Inr \<lparr>cv_id = i, cv_title = ttl, cv_environment = env, cv_source = src\<rparr>))))"

definition conversation_metadata :: "conversation \<Rightarrow> dict" where
  "conversation_metadata c =
     [(''source_environment_id'', opt_json (cv_environment c)), (''source_conversation_id'', opt_json (cv_source c))]"

definition ATTRIBUTION_FIELDS :: "string list" where
  "ATTRIBUTION_FIELDS = [''source_event_kind'', ''source_environment_id'', ''source_object_id'', ''provider_id'',
     ''application_id'', ''interface_id'', ''model_manifest_id'', ''runtime_adapter_id'', ''operation_id'']"

record raw_event =
  raw_id :: json
  raw_conversation :: json
  raw_kind :: json
  raw_actor :: json
  raw_origin :: json
  raw_parents :: "json list"
  raw_hint :: json
  raw_content :: json
  raw_occurred :: json
  raw_attribution :: dict
  raw_extensions :: dict

record conversation_event =
  ev_id :: string
  ev_conversation :: string
  ev_kind :: string
  ev_actor :: string
  ev_origin :: string
  ev_parents :: "string list"
  ev_hint :: "int option"
  ev_content :: "string option"
  ev_occurred :: "string option"
  ev_attribution :: "(string \<times> string option) list"
  ev_extensions :: dict

definition field_or_null :: "dict \<Rightarrow> string \<Rightarrow> json" where
  "field_or_null d k = (case map_of d k of None \<Rightarrow> JNull | Some v \<Rightarrow> v)"

definition attribution_values :: "dict \<Rightarrow> (string \<times> string option) list res" where
  "attribution_values d = map_res (\<lambda>f.
     bindr (validate_conversation_text MAX_CONVERSATION_IDENTIFIER (field_or_null d f)) (\<lambda>v. Inr (f, v))) ATTRIBUTION_FIELDS"

definition ConversationEventRecord :: "raw_event \<Rightarrow> conversation_event res" where
  "ConversationEventRecord r =
     bindr (validate_conversation_uuid (raw_id r)) (\<lambda>i.
     bindr (validate_conversation_uuid (raw_conversation r)) (\<lambda>conv.
     bindr (frozenset_member ALLOWED_CONVERSATION_EVENT_KINDS (raw_kind r)) (\<lambda>kind.
     bindr (frozenset_member ALLOWED_CONVERSATION_ACTORS (raw_actor r)) (\<lambda>actor.
     bindr (frozenset_member ALLOWED_CONVERSATION_ORIGINS (raw_origin r)) (\<lambda>origin.
     bindr (validate_conversation_parents i (raw_parents r)) (\<lambda>parents.
     bindr (sequence_hint_value (raw_hint r)) (\<lambda>hint.
     bindr (validate_conversation_text MAX_CONVERSATION_CONTENT_REFERENCE (raw_content r)) (\<lambda>content.
     bindr (validate_conversation_timestamp (raw_occurred r)) (\<lambda>occurred.
     bindr (attribution_values (raw_attribution r)) (\<lambda>attribution.
     bindr (require (\<not> (kind = ''imported_unknown_event'' \<and> map_of attribution ''source_event_kind'' = Some None)) conversation_error) (\<lambda>_.
     bindr (validate_conversation_extensions (raw_extensions r)) (\<lambda>extensions.
     Inr \<lparr>ev_id = i, ev_conversation = conv, ev_kind = kind, ev_actor = actor, ev_origin = origin, ev_parents = parents,
       ev_hint = hint, ev_content = content, ev_occurred = occurred, ev_attribution = attribution,
       ev_extensions = extensions\<rparr>))))))))))))"

definition hint_json :: "int option \<Rightarrow> json" where
  "hint_json h = (case h of None \<Rightarrow> JNull | Some n \<Rightarrow> JInt n)"

definition event_metadata_dict :: "conversation_event \<Rightarrow> dict" where
  "event_metadata_dict ev =
     [(''conversation_id'', JStr (ev_conversation ev)), (''event_kind'', JStr (ev_kind ev)), (''actor_type'', JStr (ev_actor ev)),
      (''origin_class'', JStr (ev_origin ev)), (''parent_event_ids'', str_list (ev_parents ev)),
      (''sequence_hint'', hint_json (ev_hint ev)), (''content_reference'', opt_json (ev_content ev)),
      (''occurred_at'', opt_json (ev_occurred ev))] @
     map (\<lambda>(f, v). (f, opt_json v)) (ev_attribution ev) @
     [(''extensions'', JObj (ev_extensions ev))]"

section \<open>Reading\<close>

definition CONVERSATION_METADATA_KEYS :: "string list" where
  "CONVERSATION_METADATA_KEYS = [''source_environment_id'', ''source_conversation_id'']"

definition CONVERSATION_EVENT_METADATA_KEYS :: "string list" where
  "CONVERSATION_EVENT_METADATA_KEYS = [''conversation_id'', ''event_kind'', ''actor_type'', ''origin_class'',
     ''parent_event_ids'', ''sequence_hint'', ''content_reference'', ''occurred_at'', ''source_event_kind'',
     ''source_environment_id'', ''source_object_id'', ''provider_id'', ''application_id'', ''interface_id'',
     ''model_manifest_id'', ''runtime_adapter_id'', ''operation_id'', ''extensions'']"

abbreviation is_conversation_error :: "exc \<Rightarrow> bool" where
  "is_conversation_error x \<equiv> x = conversation_error"

definition conversation_from_envelope :: "RecordEnvelope \<Rightarrow> conversation res" where
  "conversation_from_envelope r =
     bindr (require (\<not> (record_type r \<noteq> ''conversation'' \<or> rec_schema_version r \<noteq> 1)) StateCorruptError) (\<lambda>_.
     bindr (require (set (map fst (metadata r)) = set CONVERSATION_METADATA_KEYS) StateCorruptError) (\<lambda>_.
     rescue is_conversation_error StateCorruptError
       (ConversationRecord (JStr (rec_id r)) (opt_json (rec_title r)) (field_or_null (metadata r) ''source_environment_id'')
          (field_or_null (metadata r) ''source_conversation_id''))))"

definition raw_from_metadata :: "string \<Rightarrow> dict \<Rightarrow> json list \<Rightarrow> dict \<Rightarrow> raw_event" where
  "raw_from_metadata i m parents extensions =
     \<lparr>raw_id = JStr i, raw_conversation = field_or_null m ''conversation_id'', raw_kind = field_or_null m ''event_kind'',
      raw_actor = field_or_null m ''actor_type'', raw_origin = field_or_null m ''origin_class'', raw_parents = parents,
      raw_hint = field_or_null m ''sequence_hint'', raw_content = field_or_null m ''content_reference'',
      raw_occurred = field_or_null m ''occurred_at'', raw_attribution = map (\<lambda>f. (f, field_or_null m f)) ATTRIBUTION_FIELDS,
      raw_extensions = extensions\<rparr>"

definition is_JStr :: "json \<Rightarrow> bool" where
  "is_JStr v = (case v of JStr _ \<Rightarrow> True | _ \<Rightarrow> False)"

definition conversation_event_from_envelope :: "RecordEnvelope \<Rightarrow> conversation_event res" where
  "conversation_event_from_envelope r =
     bindr (require (\<not> (record_type r \<noteq> ''conversation_event'' \<or> rec_schema_version r \<noteq> 1)) StateCorruptError) (\<lambda>_.
     bindr (require (set (map fst (metadata r)) = set CONVERSATION_EVENT_METADATA_KEYS) StateCorruptError) (\<lambda>_.
     bindr (case field_or_null (metadata r) ''parent_event_ids'' of
              JList vs \<Rightarrow> if list_all is_JStr vs then Inr vs else Inl StateCorruptError
            | _ \<Rightarrow> Inl StateCorruptError) (\<lambda>parents.
     bindr (case field_or_null (metadata r) ''extensions'' of JObj d \<Rightarrow> Inr d | _ \<Rightarrow> Inl StateCorruptError) (\<lambda>extensions.
     rescue is_conversation_error StateCorruptError
       (ConversationEventRecord (raw_from_metadata (rec_id r) (metadata r) parents extensions))))))"

definition get_conversation :: "string \<Rightarrow> repo \<Rightarrow> conversation res" where
  "get_conversation i s = bindr (get_record i s) conversation_from_envelope"

definition unchecked_event :: "string \<Rightarrow> repo \<Rightarrow> conversation_event res" where
  "unchecked_event i s = bindr (get_record i s) conversation_event_from_envelope"

abbreviation is_KeyError :: "exc \<Rightarrow> bool" where "is_KeyError x \<equiv> x = KeyError"

definition validate_persisted_parents :: "conversation_event \<Rightarrow> repo \<Rightarrow> unit res" where
  "validate_persisted_parents ev s =
     bindr (map_res (\<lambda>p.
       bindr (rescue is_KeyError StateCorruptError (unchecked_event p s)) (\<lambda>parent.
       require (ev_conversation parent = ev_conversation ev) StateCorruptError)) (ev_parents ev)) (\<lambda>_. Inr ())"

definition get_conversation_event :: "string \<Rightarrow> repo \<Rightarrow> conversation_event res" where
  "get_conversation_event i s =
     bindr (unchecked_event i s) (\<lambda>ev.
     bindr (rescue is_KeyError StateCorruptError (get_conversation (ev_conversation ev) s)) (\<lambda>_.
     bindr (validate_persisted_parents ev s) (\<lambda>_.
     Inr ev)))"

definition validate_parents :: "conversation_event \<Rightarrow> repo \<Rightarrow> unit res" where
  "validate_parents ev s =
     bindr (map_res (\<lambda>p.
       bindr (rescue is_KeyError conversation_error (get_conversation_event p s)) (\<lambda>parent.
       require (ev_conversation parent = ev_conversation ev) conversation_error)) (ev_parents ev)) (\<lambda>_. Inr ())"

definition validate_conversation_limit :: "int \<Rightarrow> unit res" where
  "validate_conversation_limit value = require (1 \<le> value \<and> value \<le> MAX_CONVERSATION_LIST_LIMIT) conversation_error"

definition rows_of_type :: "string \<Rightarrow> repo \<Rightarrow> RecordRow list" where
  "rows_of_type rtype s = sort_key (\<lambda>r. (created_at r, rec_id r)) (filter (\<lambda>r. record_type r = rtype) (records s))"

definition list_conversations :: "int \<Rightarrow> repo \<Rightarrow> conversation list res" where
  "list_conversations limit s =
     bindr (validate_conversation_limit limit) (\<lambda>_.
     map_res (\<lambda>r. get_conversation (rec_id r) s) (take (nat limit) (rows_of_type ''conversation'' s)))"

definition event_order_key :: "conversation_event \<Rightarrow> bool \<times> int \<times> string \<times> string" where
  "event_order_key ev =
     (ev_hint ev = None, (case ev_hint ev of None \<Rightarrow> 0 | Some n \<Rightarrow> n),
      (case ev_occurred ev of None \<Rightarrow> [] | Some t \<Rightarrow> t), ev_id ev)"

definition list_conversation_events :: "string \<Rightarrow> int \<Rightarrow> repo \<Rightarrow> conversation_event list res" where
  "list_conversation_events i limit s =
     bindr (get_conversation i s) (\<lambda>_.
     bindr (validate_conversation_limit limit) (\<lambda>_.
     bindr (map_res (\<lambda>r. get_conversation_event (rec_id r) s) (rows_of_type ''conversation_event'' s)) (\<lambda>events.
     Inr (take (nat limit) (sort_key event_order_key (filter (\<lambda>ev. ev_conversation ev = i) events))))))"

section \<open>Writing\<close>

definition save_conversation :: "env \<Rightarrow> conversation \<Rightarrow> string \<Rightarrow> string \<Rightarrow> (repo, conversation) op" where
  "save_conversation e c prov sens =
     bind_op (create_record e ''conversation'' 1 ''active'' prov sens (cv_title c) (Some (conversation_metadata c)) (Some (cv_id c)))
       (\<lambda>_. lift_op (get_conversation (cv_id c)))"

definition save_conversation_event :: "env \<Rightarrow> conversation_event \<Rightarrow> string \<Rightarrow> string \<Rightarrow> (repo, conversation_event) op" where
  "save_conversation_event e ev prov sens =
     bind_op (lift_op (\<lambda>s.
       bindr (get_conversation (ev_conversation ev) s) (\<lambda>_. validate_parents ev s))) (\<lambda>_.
     bind_op (create_record e ''conversation_event'' 1 ''active'' prov sens None (Some (event_metadata_dict ev)) (Some (ev_id ev)))
       (\<lambda>_. lift_op (get_conversation_event (ev_id ev))))"

end
