(* ===== verification/Conversation_Laws.thy ===== *)
theory Conversation_Laws
  imports Conversations
begin

text \<open>
  What the conversation operations guarantee: a constructed record is in normal form and is read back
  as it was saved, with its extensions in canonical form; saving is atomic; and the events that were
  saved form a graph without cycles inside each conversation.
\<close>

section \<open>Validation returns normal forms\<close>

lemma conversation_uuid_idem: "validate_conversation_uuid v = Inr i \<Longrightarrow> uuid i = Some i"
  by (auto simp: validate_conversation_uuid_def uuid_fixpoint split: json.splits)

lemma conversation_uuid_stored [simp]: "validate_conversation_uuid (JStr i) = Inr j \<longleftrightarrow> uuid i = Some j"
  by (simp add: validate_conversation_uuid_def)

lemma conversation_text_idem:
  "validate_conversation_text n v = Inr w \<Longrightarrow> validate_conversation_text n (opt_json w) = Inr w"
  by (auto simp: validate_conversation_text_def opt_json_def Let_def split: json.splits)

lemma conversation_timestamp_eq:
  "validate_conversation_timestamp v = Inr w \<longleftrightarrow>
     validate_conversation_text MAX_CONVERSATION_IDENTIFIER v = Inr w \<and> (\<forall>t. w = Some t \<longrightarrow> aware_time t)"
proof (cases "validate_conversation_text MAX_CONVERSATION_IDENTIFIER v")
  case (Inr u)
  then show ?thesis by (cases u) (auto simp: validate_conversation_timestamp_def)
qed (simp add: validate_conversation_timestamp_def)

lemma conversation_timestamp_idem:
  "validate_conversation_timestamp v = Inr w \<Longrightarrow> validate_conversation_timestamp (opt_json w) = Inr w"
  using conversation_text_idem by (auto simp: conversation_timestamp_eq)

lemma conversation_parents_idem:
  assumes "validate_conversation_parents i vs = Inr ps"
  shows "validate_conversation_parents i (map JStr ps) = Inr ps"
proof -
  have m: "map_res validate_conversation_uuid vs = Inr ps" "int (length vs) \<le> MAX_CONVERSATION_PARENTS" "i \<notin> set ps" "distinct ps"
    using assms by (auto simp: validate_conversation_parents_def)
  have "uuid p = Some p" if "p \<in> set ps" for p
    using m(1) that conversation_uuid_idem by (fastforce simp: map_res_eq_Inr list_all2_conv_all_nth in_set_conv_nth)
  then have "map_res validate_conversation_uuid (map JStr ps) = Inr ps" by (induction ps) auto
  then show ?thesis using m map_res_length [OF m(1)] by (simp add: validate_conversation_parents_def)
qed

definition extensions_normal :: "dict \<Rightarrow> bool" where
  "extensions_normal d \<longleftrightarrow> distinct (map fst d) \<and> (\<forall>k \<in> fst ` set d. extension_key k)"

lemma key_char_plain:
  assumes "extension_char c \<or> c \<in> set ''_.-''"
  shows "\<not> is_space c" "lower_char c = c"
proof -
  have "ord c \<in> {45, 46, 95} \<or> 48 \<le> ord c \<and> ord c \<le> 57 \<or> 97 \<le> ord c \<and> ord c \<le> 122"
    using assms by (auto simp: extension_char_def is_lower_ascii_def is_digit_def ord_def)
  then show "\<not> is_space c" "lower_char c = c" by (auto simp: is_space_def lower_char_def Let_def)
qed

lemma extension_key_fix:
  assumes "extension_key k"
  shows "lower (strip k) = k"
proof -
  have c: "extension_char c \<or> c \<in> set ''_.-''" if "c \<in> set k" for c
    using assms that unfolding extension_key_def list_all_iff by (cases k) fastforce+
  have "stripped k"
    unfolding stripped_def using key_char_plain(1) [OF c [OF hd_in_set]] key_char_plain(1) [OF c [OF last_in_set]] by blast
  then have "strip k = k" by (rule strip_fix)
  moreover have "lower k = k" unfolding lower_def using c key_char_plain(2) by (intro map_idI) blast
  ultimately show ?thesis by simp
qed

lemma collect_extensions_normal:
  "collect_extensions acc d = Inr r \<Longrightarrow> extensions_normal acc \<Longrightarrow>
     extensions_normal r \<and> length r \<le> length acc + length d"
proof (induction d arbitrary: acc)
  case (Cons kv rest)
  obtain k v where kv: "kv = (k, v)" by (cases kv)
  let ?k = "lower (strip k)"
  have ok: "extension_key ?k" and r: "collect_extensions (dict_put ?k v acc) rest = Inr r"
    using Cons.prems(1) kv by (auto simp: Let_def)
  have "extensions_normal (dict_put ?k v acc) \<and> length (dict_put ?k v acc) \<le> Suc (length acc)"
  proof (cases "?k \<in> fst ` set acc")
    case True
    have keys: "map fst (dict_put ?k v acc) = map fst acc" by (rule dict_put_keys [OF True])
    have "extensions_normal (dict_put ?k v acc)"
      using Cons.prems(2) keys unfolding extensions_normal_def list.set_map [symmetric] by simp
    moreover have "length (dict_put ?k v acc) = length acc" using arg_cong [OF keys, of length] by simp
    ultimately show ?thesis by simp
  next
    case False
    with Cons.prems(2) ok show ?thesis by (auto simp: extensions_normal_def dict_put_def)
  qed
  with Cons.IH [OF r] show ?case by auto
qed auto

lemma collect_extensions_fix: "extensions_normal (acc @ d) \<Longrightarrow> collect_extensions acc d = Inr (acc @ d)"
proof (induction d arbitrary: acc)
  case (Cons kv rest)
  obtain k v where kv: "kv = (k, v)" by (cases kv)
  have "extension_key k" "k \<notin> fst ` set acc" using Cons.prems kv by (auto simp: extensions_normal_def)
  then show ?case using Cons.IH [of "acc @ [kv]"] Cons.prems kv extension_key_fix by (simp add: dict_put_def)
qed simp

lemma extensions_idem:
  assumes "validate_conversation_extensions v = Inr d"
  shows "validate_conversation_extensions d = Inr d \<and> validate_conversation_extensions (canon_dict d) = Inr (canon_dict d) \<and>
    distinct (map fst d)"
proof -
  have d: "extensions_normal d" "length d \<le> length v" "all_finite (JObj d)" "int (length v) \<le> MAX_CONVERSATION_EXTENSIONS"
    using assms collect_extensions_normal [of "[]" v d]
    by (auto simp: validate_conversation_extensions_def extensions_normal_def simp del: all_finite.simps)
  have keys: "map fst (map (\<lambda>(k, v). (k, canon v)) d) = map fst d" by (simp add: case_prod_beta comp_def)
  have "distinct (map fst (canon_dict d))" using d(1) by (simp only: distinct_map_sort_key keys extensions_normal_def)
  moreover have "fst ` set (canon_dict d) = fst ` set d" by force
  ultimately have c: "extensions_normal (canon_dict d)" using d(1) unfolding extensions_normal_def by metis
  show ?thesis
    using d c collect_extensions_fix [of "[]" d] collect_extensions_fix [of "[]" "canon_dict d"] canon_dict_finite [of d]
    by (simp add: validate_conversation_extensions_def extensions_normal_def del: all_finite.simps)
qed

definition conversation_normal :: "conversation \<Rightarrow> bool" where
  "conversation_normal c \<longleftrightarrow> ConversationRecord (JStr (cv_id c)) (opt_json (cv_title c)) (opt_json (cv_environment c))
     (opt_json (cv_source c)) = Inr c"

lemma conversation_idem: "ConversationRecord i ttl env src = Inr c \<Longrightarrow> conversation_normal c"
  by (auto simp: conversation_normal_def ConversationRecord_def intro: conversation_uuid_idem conversation_text_idem)

definition event_normal :: "conversation_event \<Rightarrow> bool" where
  "event_normal ev \<longleftrightarrow> uuid (ev_id ev) = Some (ev_id ev) \<and> uuid (ev_conversation ev) = Some (ev_conversation ev) \<and>
     ev_kind ev \<in> set ALLOWED_CONVERSATION_EVENT_KINDS \<and> ev_actor ev \<in> set ALLOWED_CONVERSATION_ACTORS \<and>
     ev_origin ev \<in> set ALLOWED_CONVERSATION_ORIGINS \<and>
     validate_conversation_parents (ev_id ev) (map JStr (ev_parents ev)) = Inr (ev_parents ev) \<and>
     sequence_hint_value (hint_json (ev_hint ev)) = Inr (ev_hint ev) \<and>
     validate_conversation_text MAX_CONVERSATION_CONTENT_REFERENCE (opt_json (ev_content ev)) = Inr (ev_content ev) \<and>
     validate_conversation_timestamp (opt_json (ev_occurred ev)) = Inr (ev_occurred ev) \<and>
     map fst (ev_attribution ev) = ATTRIBUTION_FIELDS \<and>
     (\<forall>(f, v) \<in> set (ev_attribution ev). validate_conversation_text MAX_CONVERSATION_IDENTIFIER (opt_json v) = Inr v) \<and>
     \<not> (ev_kind ev = ''imported_unknown_event'' \<and> map_of (ev_attribution ev) ''source_event_kind'' = Some None) \<and>
     validate_conversation_extensions (ev_extensions ev) = Inr (ev_extensions ev)"

lemma frozenset_member_eq: "frozenset_member allowed v = Inr t \<longleftrightarrow> v = JStr t \<and> t \<in> set allowed"
  by (cases v) (auto simp: frozenset_member_def)

lemma hint_idem: "sequence_hint_value v = Inr h \<Longrightarrow> sequence_hint_value (hint_json h) = Inr h"
  by (auto simp: sequence_hint_value_def hint_json_def split: json.splits if_splits)

lemma map_res_tagged:
  assumes "map_res (\<lambda>f. bindr (g f) (\<lambda>v. Inr (f, v))) fs = Inr a"
  shows "map fst a = fs \<and> (\<forall>(f, v) \<in> set a. g f = Inr v)"
  using assms by (induction fs arbitrary: a) auto

lemma map_res_retagged: "\<forall>(f, v) \<in> set a. g f = Inr v \<Longrightarrow> map_res (\<lambda>f. bindr (g f) (\<lambda>v. Inr (f, v))) (map fst a) = Inr a"
  by (induction a) auto

lemma event_idem:
  assumes "ConversationEventRecord r = Inr ev"
  shows "event_normal ev"
proof -
  obtain i conv kind actor origin parents hint content occurred attribution extensions where e:
    "validate_conversation_uuid (raw_id r) = Inr i" "validate_conversation_uuid (raw_conversation r) = Inr conv"
    "frozenset_member ALLOWED_CONVERSATION_EVENT_KINDS (raw_kind r) = Inr kind"
    "frozenset_member ALLOWED_CONVERSATION_ACTORS (raw_actor r) = Inr actor"
    "frozenset_member ALLOWED_CONVERSATION_ORIGINS (raw_origin r) = Inr origin"
    "validate_conversation_parents i (raw_parents r) = Inr parents" "sequence_hint_value (raw_hint r) = Inr hint"
    "validate_conversation_text MAX_CONVERSATION_CONTENT_REFERENCE (raw_content r) = Inr content"
    "validate_conversation_timestamp (raw_occurred r) = Inr occurred" "attribution_values (raw_attribution r) = Inr attribution"
    "\<not> (kind = ''imported_unknown_event'' \<and> map_of attribution ''source_event_kind'' = Some None)"
    "validate_conversation_extensions (raw_extensions r) = Inr extensions"
    and ev: "ev = \<lparr>ev_id = i, ev_conversation = conv, ev_kind = kind, ev_actor = actor, ev_origin = origin, ev_parents = parents,
       ev_hint = hint, ev_content = content, ev_occurred = occurred, ev_attribution = attribution,
       ev_extensions = extensions\<rparr>"
    using assms unfolding ConversationEventRecord_def bindr_eq_Inr require_eq_Inr by blast
  have a: "map fst attribution = ATTRIBUTION_FIELDS"
    "\<forall>(f, v) \<in> set attribution. validate_conversation_text MAX_CONVERSATION_IDENTIFIER (opt_json v) = Inr v"
    using map_res_tagged [OF e(10) [unfolded attribution_values_def]] conversation_text_idem by fastforce+
  show ?thesis
    unfolding event_normal_def ev conversation_event.select_convs
    using a e(11) e(3-5) [unfolded frozenset_member_eq] conversation_uuid_idem [OF e(1)] conversation_uuid_idem [OF e(2)]
      conversation_parents_idem [OF e(6)] hint_idem [OF e(7)] conversation_text_idem [OF e(8)]
      conversation_timestamp_idem [OF e(9)] extensions_idem [OF e(12)]
    by blast
qed

section \<open>A stored record is read back\<close>

abbreviation canon_event :: "conversation_event \<Rightarrow> conversation_event" where
  "canon_event ev \<equiv> ev\<lparr>ev_extensions := canon_dict (ev_extensions ev)\<rparr>"

lemma field_or_null_canon:
  "distinct (map fst d) \<Longrightarrow> map_of d k = Some v \<Longrightarrow> field_or_null (canon_dict d) k = canon v"
  by (simp add: field_or_null_def map_of_canon_dict)

lemma set_keys_canon: "set (map fst (canon_dict d)) = set (map fst d)"
  by force

lemma conversation_read_back:
  assumes "conversation_normal c" "rec_id r = cv_id c" "record_type r = ''conversation''" "rec_schema_version r = 1"
    and "rec_title r = cv_title c" "metadata r = canon_dict (conversation_metadata c)"
  shows "conversation_from_envelope r = Inr c"
proof -
  have d: "distinct (map fst (conversation_metadata c))" by (simp add: conversation_metadata_def)
  have keys: "set (map fst (metadata r)) = set CONVERSATION_METADATA_KEYS"
    unfolding assms(6) set_keys_canon by (simp add: conversation_metadata_def CONVERSATION_METADATA_KEYS_def)
  have "field_or_null (metadata r) ''source_environment_id'' = opt_json (cv_environment c)"
    "field_or_null (metadata r) ''source_conversation_id'' = opt_json (cv_source c)"
    unfolding assms(6) by (subst field_or_null_canon [OF d], simp add: conversation_metadata_def, simp)+
  then show ?thesis
    using assms(1-5) keys unfolding conversation_from_envelope_def conversation_normal_def by simp
qed

lemma event_keys: "map fst (ev_attribution ev) = ATTRIBUTION_FIELDS \<Longrightarrow>
    map fst (event_metadata_dict ev) = CONVERSATION_EVENT_METADATA_KEYS"
  by (simp add: event_metadata_dict_def CONVERSATION_EVENT_METADATA_KEYS_def case_prod_beta comp_def ATTRIBUTION_FIELDS_def)

lemma attribution_lookup:
  assumes "map fst a = ATTRIBUTION_FIELDS" "(f, v) \<in> set a"
  shows "map_of a f = Some v" "f \<in> set ATTRIBUTION_FIELDS"
proof -
  have "distinct (map fst a)" unfolding assms(1) by (simp add: ATTRIBUTION_FIELDS_def)
  then show "map_of a f = Some v" using assms(2) by simp
  show "f \<in> set ATTRIBUTION_FIELDS" unfolding assms(1) [symmetric] using assms(2) by force
qed

lemma map_of_opt_json: "map_of (map (\<lambda>(f, v). (f, opt_json v)) a) f = map_option opt_json (map_of a f)"
  by (induction a) auto

lemma stored_field:
  assumes "map fst (ev_attribution ev) = ATTRIBUTION_FIELDS" "(k, v) \<in> set (event_metadata_dict ev)"
  shows "field_or_null (canon_dict (event_metadata_dict ev)) k = canon v"
proof -
  have d: "distinct (map fst (event_metadata_dict ev))"
    unfolding event_keys [OF assms(1)] by (simp add: CONVERSATION_EVENT_METADATA_KEYS_def)
  then have "map_of (event_metadata_dict ev) k = Some v" using assms(2) by simp
  then show ?thesis by (rule field_or_null_canon [OF d])
qed

lemma map_of_tabulate: "map_of (map (\<lambda>k. (k, g k)) ks) k = (if k \<in> set ks then Some (g k) else None)"
  by (induction ks) auto

lemma event_read_back:
  assumes "event_normal ev" "rec_id r = ev_id ev" "record_type r = ''conversation_event''" "rec_schema_version r = 1"
    and "metadata r = canon_dict (event_metadata_dict ev)"
  shows "conversation_event_from_envelope r = Inr (canon_event ev)"
proof -
  note n = assms(1) [unfolded event_normal_def]
  have a: "map fst (ev_attribution ev) = ATTRIBUTION_FIELDS" using n by blast
  have keys: "set (map fst (metadata r)) = set CONVERSATION_EVENT_METADATA_KEYS"
    unfolding assms(5) set_keys_canon event_keys [OF a] ..
  let ?m = "metadata r"
  note f = stored_field [OF a, folded assms(5)]
  have g: "(k, v) \<in> set (event_metadata_dict ev) \<Longrightarrow> canon v = v \<Longrightarrow> field_or_null ?m k = v" for k v using f by simp
  have fields: "field_or_null ?m ''conversation_id'' = JStr (ev_conversation ev)" "field_or_null ?m ''event_kind'' = JStr (ev_kind ev)"
    "field_or_null ?m ''actor_type'' = JStr (ev_actor ev)" "field_or_null ?m ''origin_class'' = JStr (ev_origin ev)"
    "field_or_null ?m ''parent_event_ids'' = str_list (ev_parents ev)" "field_or_null ?m ''sequence_hint'' = hint_json (ev_hint ev)"
    "field_or_null ?m ''content_reference'' = opt_json (ev_content ev)" "field_or_null ?m ''occurred_at'' = opt_json (ev_occurred ev)"
    by (rule g; simp add: event_metadata_dict_def hint_json_def comp_def split: option.split)+
  have ext: "field_or_null ?m ''extensions'' = JObj (canon_dict (ev_extensions ev))"
    by (subst f [where v = "JObj (ev_extensions ev)"]) (simp_all add: event_metadata_dict_def)
  have attr: "field_or_null ?m k = opt_json v" if "(k, v) \<in> set (ev_attribution ev)" for k v
  proof -
    have "(k, opt_json v) \<in> (\<lambda>(f, v). (f, opt_json v)) ` set (ev_attribution ev)" using that by force
    then have "(k, opt_json v) \<in> set (event_metadata_dict ev)"
      unfolding event_metadata_dict_def set_append list.set_map by blast
    from g [OF this] show ?thesis by simp
  qed
  have look: "field_or_null (map (\<lambda>f. (f, field_or_null ?m f)) ATTRIBUTION_FIELDS) k = field_or_null ?m k"
    if "k \<in> set ATTRIBUTION_FIELDS" for k
    using that by (simp add: field_or_null_def [of "map _ _"] map_of_tabulate)
  have "\<forall>(k, v) \<in> set (ev_attribution ev). validate_conversation_text MAX_CONVERSATION_IDENTIFIER
      (field_or_null (map (\<lambda>f. (f, field_or_null ?m f)) ATTRIBUTION_FIELDS) k) = Inr v"
    using n attr look attribution_lookup(2) [OF a] by fastforce
  then have "attribution_values (map (\<lambda>f. (f, field_or_null ?m f)) ATTRIBUTION_FIELDS) = Inr (ev_attribution ev)"
    unfolding attribution_values_def a [symmetric] by (rule map_res_retagged)
  then have "ConversationEventRecord (raw_from_metadata (ev_id ev) ?m (map JStr (ev_parents ev)) (canon_dict (ev_extensions ev))) =
      Inr (canon_event ev)"
    using n extensions_idem [of "ev_extensions ev" "ev_extensions ev"]
    unfolding ConversationEventRecord_def raw_from_metadata_def raw_event.select_convs fields
    by (simp add: frozenset_member_def del: canon.simps)
  then show ?thesis
    using assms(2-4) keys unfolding conversation_event_from_envelope_def fields ext by (simp add: list_all_iff is_JStr_def)
qed

section \<open>Saving\<close>

definition conversation_row :: "env \<Rightarrow> string \<Rightarrow> string \<Rightarrow> string option \<Rightarrow> string \<Rightarrow> string \<Rightarrow> dict \<Rightarrow> RecordRow" where
  "conversation_row e i rtype ttl prov sens m =
     \<lparr>rec_id = i, record_type = rtype, rec_schema_version = 1, created_at = utc_now e, updated_at = utc_now e,
      revision = 1, rec_status = ''active'', provenance = prov, sensitivity = sens, rec_title = ttl,
      metadata = Some (JObj (canon_dict m))\<rparr>"

definition saved :: "RecordRow \<Rightarrow> repo \<Rightarrow> repo \<Rightarrow> bool" where
  "saved row s t \<longleftrightarrow> find_row (rec_id row) (records s) = None \<and> records t = records s @ [row] \<and>
     audit_events t = audit_events s \<and> repo_ok t \<and> state_revision t = state_revision s + 1 \<and>
     workspace_revision t = state_revision t"

lemma create_saves:
  assumes "repo_ok s" "i \<noteq> []"
    and "create_record e rtype 1 ''active'' prov sens ttl (Some m) (Some i) s = (res, t)"
  shows "(isl res \<and> t = s) \<or> (saved (conversation_row e i rtype ttl prov sens m) s t \<and> \<not> isl res)"
proof (cases "prepare_create e rtype 1 ''active'' prov sens ttl (Some m) (Some i) s")
  case (Inl x)
  with assms(3) show ?thesis by (auto simp: create_record_def bind_lift)
next
  case (Inr row)
  have row: "row = conversation_row e i rtype ttl prov sens m"
    using Inr assms(2)
    by (auto simp: prepare_create_def Let_def serialize_metadata_eq validate_record_id_def conversation_row_def
        simp del: canon.simps all_finite.simps split: option.splits if_splits)
  have w: "write_op e (create_body row) (get_record (rec_id row)) s = (res, t)"
    using assms(3) Inr by (simp add: create_record_def bind_lift)
  from create.write_op_cases [OF assms(1) w] show ?thesis
  proof
    assume "\<exists>u. create_body row s = Inr u \<and> t = advance e u \<and> res = get_record (rec_id row) t \<and>
      state_revision t = state_revision s + 1 \<and> workspace_revision t = state_revision t"
    then obtain u where u: "create_body row s = Inr u" "t = advance e u" "res = get_record (rec_id row) t"
      "state_revision t = state_revision s + 1" "workspace_revision t = state_revision t" by blast
    have ok: "repo_ok t" using create.write_op_ok [OF _ assms(1) w] prepare_create_row [OF Inr] by simp
    have c: "find_row (rec_id row) (records s) = None" "records t = records s @ [row]" "audit_events t = audit_events s"
      using create_bodyD [OF u(1)] u(2) by auto
    have "\<not> isl res"
      using get_after_append [OF c(2,1), of "canon_dict m"] u(3) row by (simp add: conversation_row_def)
    then show ?thesis using c u ok row by (simp add: saved_def)
  qed auto
qed

lemma saved_get:
  assumes "saved (conversation_row e i rtype ttl prov sens m) s t"
  shows "get_record i t = Inr (with_metadata (conversation_row e i rtype ttl prov sens m) (canon_dict m))"
    and "get_record j s = Inr r \<Longrightarrow> get_record j t = Inr r"
    and "get_record j t = Inr r \<Longrightarrow> j \<noteq> i \<Longrightarrow> get_record j s = Inr r"
    and "get_record i s = Inl KeyError"
  using assms get_after_append [of t s "conversation_row e i rtype ttl prov sens m" "canon_dict m"]
  by (auto simp: saved_def conversation_row_def get_record_def find_row_append1 split: option.splits if_splits)

lemma saved_keeps:
  assumes "saved (conversation_row e i rtype ttl prov sens m) s t"
  shows "get_conversation j s = Inr c \<Longrightarrow> get_conversation j t = Inr c"
    and "unchecked_event j s = Inr ev \<Longrightarrow> unchecked_event j t = Inr ev"
  using saved_get(2) [OF assms] by (auto simp: get_conversation_def unchecked_event_def)

lemma unit_map_res: "bindr (map_res f xs) (\<lambda>_. Inr ()) = Inr () \<longleftrightarrow> (\<forall>x \<in> set xs. \<exists>y. f x = Inr y)" for f :: "'a \<Rightarrow> unit res"
  by (induction xs) (auto simp: bindr_eq_Inr)

lemma persisted_parents_eq:
  "validate_persisted_parents ev s = Inr () \<longleftrightarrow>
     (\<forall>p \<in> set (ev_parents ev). \<exists>q. unchecked_event p s = Inr q \<and> ev_conversation q = ev_conversation ev)"
  unfolding validate_persisted_parents_def unit_map_res by auto

lemma checked_event_eq:
  "get_conversation_event i s = Inr ev \<longleftrightarrow> unchecked_event i s = Inr ev \<and>
     (\<exists>c. get_conversation (ev_conversation ev) s = Inr c) \<and>
     (\<forall>p \<in> set (ev_parents ev). \<exists>q. unchecked_event p s = Inr q \<and> ev_conversation q = ev_conversation ev)"
  unfolding get_conversation_event_def persisted_parents_eq [symmetric] by auto

lemma validate_parents_eq:
  "validate_parents ev s = Inr () \<longleftrightarrow>
     (\<forall>p \<in> set (ev_parents ev). \<exists>q. get_conversation_event p s = Inr q \<and> ev_conversation q = ev_conversation ev)"
  unfolding validate_parents_def unit_map_res by auto

lemma event_uuid_nonempty: "uuid i = Some i \<Longrightarrow> i \<noteq> []"
proof -
  have "uuid [] = None" by code_simp
  then show "uuid i = Some i \<Longrightarrow> i \<noteq> []" by auto
qed

lemma save_conversation_result:
  assumes "repo_ok s" "conversation_normal c" "save_conversation e c prov sens s = (res, t)"
  shows "(isl res \<and> t = s) \<or> (res = Inr c \<and> get_conversation (cv_id c) t = Inr c \<and>
    saved (conversation_row e (cv_id c) ''conversation'' (cv_title c) prov sens (conversation_metadata c)) s t)"
proof -
  obtain r1 u where c: "create_record e ''conversation'' 1 ''active'' prov sens (cv_title c)
      (Some (conversation_metadata c)) (Some (cv_id c)) s = (r1, u)" by fastforce
  have id: "cv_id c \<noteq> []"
    using assms(2) event_uuid_nonempty by (auto simp: conversation_normal_def ConversationRecord_def)
  from create_saves [OF assms(1) id c] show ?thesis
  proof
    assume "isl r1 \<and> u = s"
    then show ?thesis using assms(3) c unfolding save_conversation_def bind_op_read by (auto split: sum.splits)
  next
    assume s: "saved (conversation_row e (cv_id c) ''conversation'' (cv_title c) prov sens (conversation_metadata c)) s u \<and> \<not> isl r1"
    have "get_conversation (cv_id c) u = Inr c"
      unfolding get_conversation_def saved_get(1) [OF conjunct1 [OF s]] bindr_Inr
      by (rule conversation_read_back [OF assms(2)]) (simp_all add: conversation_row_def)
    then show ?thesis using s assms(3) c unfolding save_conversation_def bind_op_read by (auto split: sum.splits)
  qed
qed

lemma save_event_result:
  assumes "repo_ok s" "event_normal ev" "save_conversation_event e ev prov sens s = (res, t)"
  shows "(isl res \<and> t = s) \<or> (res = Inr (canon_event ev) \<and> get_conversation_event (ev_id ev) t = res \<and>
    (\<exists>c. get_conversation (ev_conversation ev) s = Inr c) \<and> validate_parents ev s = Inr () \<and>
    saved (conversation_row e (ev_id ev) ''conversation_event'' None prov sens (event_metadata_dict ev)) s t)"
proof (cases "bindr (get_conversation (ev_conversation ev) s) (\<lambda>_. validate_parents ev s)")
  case (Inl x)
  then have "(Inl x, s) = (res, t)" using assms(3) unfolding save_conversation_event_def bind_lift by simp
  then show ?thesis by auto
next
  case (Inr w)
  then obtain c where pre: "get_conversation (ev_conversation ev) s = Inr c" "validate_parents ev s = Inr ()" by auto
  obtain r1 u where c: "create_record e ''conversation_event'' 1 ''active'' prov sens None
      (Some (event_metadata_dict ev)) (Some (ev_id ev)) s = (r1, u)" by fastforce
  have run: "(case (r1, u) of (Inl x, u) \<Rightarrow> (Inl x, u) | (Inr i, u) \<Rightarrow> (get_conversation_event (ev_id ev) u, u)) = (res, t)"
    using assms(3) Inr unfolding save_conversation_event_def bind_lift c [symmetric] bind_op_read by simp
  have id: "ev_id ev \<noteq> []" using assms(2) event_uuid_nonempty by (simp add: event_normal_def)
  from create_saves [OF assms(1) id c] show ?thesis
  proof
    assume "isl r1 \<and> u = s"
    then show ?thesis using run by (auto split: sum.splits)
  next
    assume s: "saved (conversation_row e (ev_id ev) ''conversation_event'' None prov sens (event_metadata_dict ev)) s u \<and> \<not> isl r1"
    note keep = saved_keeps [OF conjunct1 [OF s]]
    have "unchecked_event (ev_id ev) u = Inr (canon_event ev)"
      unfolding unchecked_event_def saved_get(1) [OF conjunct1 [OF s]] bindr_Inr
      by (rule event_read_back [OF assms(2)]) (simp_all add: conversation_row_def)
    then have "get_conversation_event (ev_id ev) u = Inr (canon_event ev)"
      using keep pre unfolding checked_event_eq validate_parents_eq by fastforce
    then show ?thesis using s run pre by (auto split: sum.splits)
  qed
qed

text \<open>C37: saving an event is atomic and loses nothing. The call either raises and has changed nothing,
  or it returns what a read returns from then on: the event as it was given, with its extensions
  in canonical form. The identifier was free, every conversation and event that could be read is
  read as before, no audit event is written, and the state revision moves by one.\<close>

theorem save_event_round_trip:
  assumes "repo_ok s" and "ConversationEventRecord raw = Inr ev"
    and "save_conversation_event e ev prov sens s = (res, t)"
  shows "(isl res \<and> t = s) \<or>
    (res = Inr (ev\<lparr>ev_extensions := canon_dict (ev_extensions ev)\<rparr>) \<and> get_conversation_event (ev_id ev) t = res \<and>
     get_record (ev_id ev) s = Inl KeyError \<and>
     (\<forall>j x. get_conversation_event j s = Inr x \<longrightarrow> get_conversation_event j t = Inr x) \<and>
     (\<forall>j c. get_conversation j s = Inr c \<longrightarrow> get_conversation j t = Inr c) \<and>
     audit_events t = audit_events s \<and> state_revision t = state_revision s + 1)"
  using save_event_result [OF assms(1) event_idem [OF assms(2)] assms(3)]
proof
  assume s: "res = Inr (canon_event ev) \<and> get_conversation_event (ev_id ev) t = res \<and>
    (\<exists>c. get_conversation (ev_conversation ev) s = Inr c) \<and> validate_parents ev s = Inr () \<and>
    saved (conversation_row e (ev_id ev) ''conversation_event'' None prov sens (event_metadata_dict ev)) s t"
  then have sv: "saved (conversation_row e (ev_id ev) ''conversation_event'' None prov sens (event_metadata_dict ev)) s t" by blast
  note keep = saved_keeps [OF sv]
  have "get_conversation_event j t = Inr x" if "get_conversation_event j s = Inr x" for j x
    using that keep unfolding checked_event_eq by blast
  then show ?thesis using s keep(1) saved_get(4) [OF sv] sv by (auto simp: saved_def)
qed simp

section \<open>The graph of events\<close>

inductive conversation_step :: "repo \<Rightarrow> repo \<Rightarrow> bool" where
  "ConversationRecord i ttl environment src = Inr c \<Longrightarrow> conversation_step s (snd (save_conversation e c prov sens s))"
| "ConversationEventRecord raw = Inr ev \<Longrightarrow> conversation_step s (snd (save_conversation_event e ev prov sens s))"

definition position :: "string \<Rightarrow> repo \<Rightarrow> nat" where
  "position i s = length (takeWhile (\<lambda>r. rec_id r \<noteq> i) (records s))"

definition graph_ok :: "repo \<Rightarrow> bool" where
  "graph_ok s \<longleftrightarrow> (\<forall>i ev. unchecked_event i s = Inr ev \<longrightarrow>
     (\<exists>c. get_conversation (ev_conversation ev) s = Inr c) \<and>
     (\<forall>p \<in> set (ev_parents ev). position p s < position i s \<and>
        (\<exists>q. unchecked_event p s = Inr q \<and> ev_conversation q = ev_conversation ev)))"

lemma stored_row: "get_record i s = Inr r \<Longrightarrow> \<exists>q \<in> set (records s). rec_id q = i"
  using get_recordD [of i s r] find_row_Some by blast

lemma takeWhile_stops: "x \<in> set xs \<Longrightarrow> \<not> P x \<Longrightarrow> length (takeWhile P xs) < length xs"
  by (induction xs) auto

lemma stored_position: "get_record i s = Inr r \<Longrightarrow> position i s < length (records s)"
proof -
  assume "get_record i s = Inr r"
  then obtain q where q: "q \<in> set (records s)" "rec_id q = i" using stored_row by blast
  show ?thesis unfolding position_def by (rule takeWhile_stops [OF q(1)]) (simp add: q(2))
qed

lemma saved_position:
  assumes "saved row s t"
  shows "get_record i s = Inr r \<Longrightarrow> position i t = position i s" "position (rec_id row) t = length (records s)"
proof -
  have rs: "records t = records s @ [row]" "find_row (rec_id row) (records s) = None" using assms by (auto simp: saved_def)
  show "position i t = position i s" if g: "get_record i s = Inr r"
  proof -
    obtain q where "q \<in> set (records s)" "rec_id q = i" using stored_row [OF g] by blast
    then show ?thesis unfolding position_def rs(1) by (subst takeWhile_append1 [where x = q]) auto
  qed
  have "\<forall>r \<in> set (records s). rec_id r \<noteq> rec_id row" using rs(2) unfolding find_row_None by (metis image_eqI)
  then show "position (rec_id row) t = length (records s)" unfolding position_def rs(1) by (subst takeWhile_append2) auto
qed

lemma unchecked_stored: "unchecked_event i s = Inr ev \<Longrightarrow> \<exists>r. get_record i s = Inr r"
  by (auto simp: unchecked_event_def)

lemma graph_ok_saved:
  assumes "graph_ok s" "saved (conversation_row e i rtype ttl prov sens m) s t"
    and "\<And>ev. unchecked_event i t = Inr ev \<Longrightarrow> (\<exists>c. get_conversation (ev_conversation ev) s = Inr c) \<and>
      (\<forall>p \<in> set (ev_parents ev). \<exists>q. unchecked_event p s = Inr q \<and> ev_conversation q = ev_conversation ev)"
  shows "graph_ok t"
  unfolding graph_ok_def
proof (intro allI impI)
  note keep = saved_keeps [OF assms(2)]
  note pos = saved_position [OF assms(2)]
  fix j ev assume j: "unchecked_event j t = Inr ev"
  have "(\<exists>c. get_conversation (ev_conversation ev) s = Inr c) \<and>
    (\<forall>p \<in> set (ev_parents ev). position p s < position j t \<and> (\<exists>q. unchecked_event p s = Inr q \<and> ev_conversation q = ev_conversation ev))"
  proof (cases "j = i")
    case True
    have "position j t = length (records s)" using pos(2) True by (simp add: conversation_row_def)
    then show ?thesis using assms(3) j True stored_position unchecked_stored by metis
  next
    case False
    then have js: "unchecked_event j s = Inr ev" using j saved_get(3) [OF assms(2)] by (auto simp: unchecked_event_def)
    then obtain r where "get_record j s = Inr r" using unchecked_stored by blast
    then have "position j t = position j s" by (rule pos(1))
    then show ?thesis using assms(1) js unfolding graph_ok_def by simp
  qed
  then show "(\<exists>c. get_conversation (ev_conversation ev) t = Inr c) \<and>
    (\<forall>p \<in> set (ev_parents ev). position p t < position j t \<and> (\<exists>q. unchecked_event p t = Inr q \<and> ev_conversation q = ev_conversation ev))"
    using keep pos(1) unchecked_stored by metis
qed

lemma conversation_step_graph:
  assumes "conversation_step s t" "repo_ok s" "graph_ok s"
  shows "repo_ok t \<and> graph_ok t"
  using assms
proof (induction rule: conversation_step.induct)
  case (1 i ttl environment src c s e prov sens)
  obtain res t where run: "save_conversation e c prov sens s = (res, t)" by fastforce
  from save_conversation_result [OF 1(2) conversation_idem [OF 1(1)] run] show ?case
  proof
    assume s: "res = Inr c \<and> get_conversation (cv_id c) t = Inr c \<and>
      saved (conversation_row e (cv_id c) ''conversation'' (cv_title c) prov sens (conversation_metadata c)) s t"
    have "unchecked_event (cv_id c) t \<noteq> Inr ev" for ev
      using saved_get(1) [OF conjunct2 [OF conjunct2 [OF s]]]
      by (auto simp: unchecked_event_def conversation_event_from_envelope_def conversation_row_def)
    then have "graph_ok t" using graph_ok_saved [OF 1(3) conjunct2 [OF conjunct2 [OF s]]] by blast
    then show ?thesis using s run by (simp add: saved_def)
  qed (use 1 run in simp)
next
  case (2 raw ev s e prov sens)
  obtain res t where run: "save_conversation_event e ev prov sens s = (res, t)" by fastforce
  from save_event_result [OF 2(2) event_idem [OF 2(1)] run] show ?case
  proof
    assume s: "res = Inr (canon_event ev) \<and> get_conversation_event (ev_id ev) t = res \<and>
      (\<exists>c. get_conversation (ev_conversation ev) s = Inr c) \<and> validate_parents ev s = Inr () \<and>
      saved (conversation_row e (ev_id ev) ''conversation_event'' None prov sens (event_metadata_dict ev)) s t"
    then have sv: "saved (conversation_row e (ev_id ev) ''conversation_event'' None prov sens (event_metadata_dict ev)) s t" by blast
    have "get_conversation_event (ev_id ev) t = Inr (canon_event ev)" using s by simp
    then have u: "unchecked_event (ev_id ev) t = Inr (canon_event ev)" unfolding checked_event_eq by blast
    have "(\<exists>c. get_conversation (ev_conversation ev) s = Inr c) \<and>
        (\<forall>p \<in> set (ev_parents ev). \<exists>q. unchecked_event p s = Inr q \<and> ev_conversation q = ev_conversation ev)"
      using s unfolding validate_parents_eq checked_event_eq by blast
    then have "graph_ok t" by (intro graph_ok_saved [OF 2(3) sv]) (auto simp: u)
    then show ?thesis using sv run by (simp add: saved_def)
  qed (use 2 run in simp)
qed

lemma graph_ok_acyclic:
  assumes "graph_ok s"
  shows "acyclic {(p, i). \<exists>ev. get_conversation_event i s = Inr ev \<and> p \<in> set (ev_parents ev)}"
proof (rule acyclicI_order [where f = "\<lambda>i. - int (position i s)"])
  fix p i assume "(p, i) \<in> {(p, i). \<exists>ev. get_conversation_event i s = Inr ev \<and> p \<in> set (ev_parents ev)}"
  then show "- int (position i s) < - int (position p s)" using assms unfolding graph_ok_def checked_event_eq by fastforce
qed

text \<open>C38: the events that were saved form a graph. In a workspace that held no events, after any sequence
  of saves, every stored event can be read with its relations checked, its conversation and its
  parents can be read too, the parents belong to the same conversation, and no event is among its
  own ancestors.\<close>

theorem saved_events_form_dag:
  assumes "repo_ok s" and "\<forall>i ev. unchecked_event i s \<noteq> Inr ev" and "conversation_step\<^sup>*\<^sup>* s t"
  shows "(\<forall>i ev. unchecked_event i t = Inr ev \<longrightarrow> get_conversation_event i t = Inr ev \<and>
      (\<exists>c. get_conversation (ev_conversation ev) t = Inr c) \<and>
      (\<forall>p \<in> set (ev_parents ev). \<exists>q. get_conversation_event p t = Inr q \<and> ev_conversation q = ev_conversation ev)) \<and>
    acyclic {(p, i). \<exists>ev. get_conversation_event i t = Inr ev \<and> p \<in> set (ev_parents ev)}"
proof -
  have "repo_ok t \<and> graph_ok t"
    using assms(3)
  proof (induction rule: rtranclp_induct)
    case base
    then show ?case using assms(1,2) by (simp add: graph_ok_def)
  qed (use conversation_step_graph in blast)
  then have g: "graph_ok t" by blast
  have all: "get_conversation_event i t = Inr ev" if "unchecked_event i t = Inr ev" for i ev
    using g that unfolding graph_ok_def checked_event_eq by blast
  show ?thesis using g all graph_ok_acyclic [OF g] unfolding graph_ok_def by blast
qed

text \<open>A listing is in presentation order, holds readable events of the conversation only, and never
  more than its limit.\<close>

lemma list_events_ordered:
  assumes "list_conversation_events i limit s = Inr evs"
  shows "sorted (map event_order_key evs) \<and> int (length evs) \<le> limit \<and> limit \<le> MAX_CONVERSATION_LIST_LIMIT \<and>
    (\<forall>ev \<in> set evs. ev_conversation ev = i \<and> (\<exists>j. get_conversation_event j s = Inr ev))"
proof -
  obtain events where e: "map_res (\<lambda>r. get_conversation_event (rec_id r) s) (rows_of_type ''conversation_event'' s) = Inr events"
    "1 \<le> limit" "limit \<le> MAX_CONVERSATION_LIST_LIMIT"
    "evs = take (nat limit) (sort_key event_order_key (filter (\<lambda>ev. ev_conversation ev = i) events))"
    using assms by (auto simp: list_conversation_events_def validate_conversation_limit_def)
  have "sorted (map event_order_key evs)" unfolding e(4) take_map [symmetric] by (intro sorted_wrt_take) simp
  moreover have "int (length evs) \<le> limit" unfolding e(4) using e(2) by simp
  moreover have "ev_conversation ev = i \<and> (\<exists>j. get_conversation_event j s = Inr ev)" if "ev \<in> set evs" for ev
    using that set_take_subset map_res_member [OF e(1), of ev] unfolding e(4) by fastforce
  ultimately show ?thesis using e(3) by blast
qed

section \<open>A concrete conversation\<close>

definition talk_id :: string where "talk_id = ''00000000-0000-4000-8000-00000000000a''"
definition first_id :: string where "first_id = ''00000000-0000-4000-8000-00000000000b''"
definition second_id :: string where "second_id = ''00000000-0000-4000-8000-00000000000c''"

definition sample_talk :: conversation where
  "sample_talk = \<lparr>cv_id = talk_id, cv_title = Some ''Talk'', cv_environment = None, cv_source = None\<rparr>"

definition sample_raw :: "string \<Rightarrow> string list \<Rightarrow> raw_event" where
  "sample_raw i parents = \<lparr>raw_id = JStr i, raw_conversation = JStr talk_id, raw_kind = JStr ''user_message'',
     raw_actor = JStr ''user'', raw_origin = JStr ''current_user_instruction'', raw_parents = map JStr parents, raw_hint = JInt 1,
     raw_content = JNull, raw_occurred = JStr ''2026-01-01T00:00:00Z'', raw_attribution = [], raw_extensions = [('' Tag '', JInt 1)]\<rparr>"

definition sample_event :: "string \<Rightarrow> string list \<Rightarrow> conversation_event" where
  "sample_event i parents = \<lparr>ev_id = i, ev_conversation = talk_id, ev_kind = ''user_message'', ev_actor = ''user'',
     ev_origin = ''current_user_instruction'', ev_parents = parents, ev_hint = Some 1, ev_content = None,
     ev_occurred = Some ''2026-01-01T00:00:00Z'', ev_attribution = map (\<lambda>f. (f, None)) ATTRIBUTION_FIELDS,
     ev_extensions = [(''tag'', JInt 1)]\<rparr>"

lemma sample_talk_constructed: "ConversationRecord (JStr talk_id) (JStr '' Talk '') JNull JNull = Inr sample_talk"
  by code_simp

lemma sample_event_constructed:
  "ConversationEventRecord (sample_raw first_id []) = Inr (sample_event first_id [])"
  "ConversationEventRecord (sample_raw second_id [first_id]) = Inr (sample_event second_id [first_id])"
  by code_simp+

definition talk_repo :: repo where
  "talk_repo = snd (save_conversation (sample_env ''-'') sample_talk ''user-created'' ''personal'' sample_repo)"

lemma talk_saved: "\<not> isl (fst (save_conversation (sample_env ''-'') sample_talk ''user-created'' ''personal'' sample_repo))"
  by code_simp

lemma first_saved: "\<not> isl (fst (save_conversation_event (sample_env ''-'') (sample_event first_id []) ''user-created'' ''personal'' talk_repo))"
  by code_simp

definition first_repo :: repo where
  "first_repo = snd (save_conversation_event (sample_env ''-'') (sample_event first_id []) ''user-created'' ''personal'' talk_repo)"

lemma second_saved: "\<not> isl (fst (save_conversation_event (sample_env ''-'') (sample_event second_id [first_id]) ''user-created'' ''personal'' first_repo))"
  by code_simp

lemma talk_repo_ok: "repo_ok talk_repo"
proof -
  obtain res t where run: "save_conversation (sample_env ''-'') sample_talk ''user-created'' ''personal'' sample_repo = (res, t)" by fastforce
  from save_conversation_result [OF sample_repo_ok conversation_idem [OF sample_talk_constructed] run] show ?thesis
    using talk_saved run by (auto simp: talk_repo_def saved_def)
qed

theorem save_event_round_trip_witness:
  "\<exists>t. save_conversation_event (sample_env ''-'') (sample_event first_id []) ''user-created'' ''personal'' talk_repo =
      (Inr (sample_event first_id []), t) \<and> get_conversation_event first_id t = Inr (sample_event first_id []) \<and>
     state_revision t = state_revision talk_repo + 1"
proof -
  obtain r t where c: "save_conversation_event (sample_env ''-'') (sample_event first_id []) ''user-created'' ''personal'' talk_repo = (Inr r, t)"
    using op_succeeds [where f = "save_conversation_event (sample_env ''-'') (sample_event first_id []) ''user-created'' ''personal''",
      OF first_saved] by blast
  have "(sample_event first_id [])\<lparr>ev_extensions := canon_dict (ev_extensions (sample_event first_id []))\<rparr> = sample_event first_id []"
    "ev_id (sample_event first_id []) = first_id"
    by (simp_all add: sample_event_def)
  with save_event_round_trip [OF talk_repo_ok sample_event_constructed(1) c] c show ?thesis by simp
qed

theorem saved_events_form_dag_witness:
  "\<exists>t ev. conversation_step\<^sup>*\<^sup>* sample_repo t \<and> unchecked_event second_id t = Inr ev \<and> ev_parents ev = [first_id] \<and>
     (\<exists>q. get_conversation_event first_id t = Inr q \<and> ev_conversation q = talk_id) \<and>
     acyclic {(p, i). \<exists>ev. get_conversation_event i t = Inr ev \<and> p \<in> set (ev_parents ev)}"
proof -
  let ?t = "snd (save_conversation_event (sample_env ''-'') (sample_event second_id [first_id]) ''user-created'' ''personal'' first_repo)"
  have "conversation_step sample_repo talk_repo" unfolding talk_repo_def by (rule conversation_step.intros(1) [OF sample_talk_constructed])
  moreover have "conversation_step talk_repo first_repo"
    unfolding first_repo_def by (rule conversation_step.intros(2) [OF sample_event_constructed(1)])
  moreover have "conversation_step first_repo ?t" by (rule conversation_step.intros(2) [OF sample_event_constructed(2)])
  ultimately have run: "conversation_step\<^sup>*\<^sup>* sample_repo ?t" by (meson converse_rtranclp_into_rtranclp rtranclp.rtrancl_refl)
  have none: "\<forall>i ev. unchecked_event i sample_repo \<noteq> Inr ev"
    by (simp add: unchecked_event_def get_record_def find_row_def sample_repo_def)
  have u: "unchecked_event second_id ?t = Inr (sample_event second_id [first_id])" by code_simp
  note dag = saved_events_form_dag [OF sample_repo_ok none run]
  have sel: "ev_parents (sample_event second_id [first_id]) = [first_id]" "ev_conversation (sample_event second_id [first_id]) = talk_id"
    by (simp_all add: sample_event_def)
  have "\<exists>q. get_conversation_event first_id ?t = Inr q \<and> ev_conversation q = talk_id"
    using conjunct1 [OF dag, rule_format, OF u] unfolding sel by simp
  with run u sel(1) conjunct2 [OF dag] show ?thesis by blast
qed

end
