(* ===== verification/Url.thy ===== *)
theory Url
  imports Normalizer
begin

text \<open>
  The part of the standard library that \<open>capabilities.py\<close> uses on addresses: \<open>urlsplit\<close>,
  \<open>urlunsplit\<close> and the accessors of \<open>SplitResult\<close> from \<open>urllib.parse\<close>, \<open>ip_address\<close> and the
  address predicates from \<open>ipaddress\<close>, and the \<open>idna\<close> codec, all as in Python 3.12. The NFKC
  check of \<open>urlsplit\<close> never fires on code points below U+0100. The codec is written out for ASCII
  names; what it returns for other names rests on the Unicode tables, which are a parameter.
\<close>

section \<open>Splitting text\<close>

definition before_first :: "char \<Rightarrow> string \<Rightarrow> string" where
  "before_first c s = takeWhile (\<lambda>d. d \<noteq> c) s"

definition after_first :: "char \<Rightarrow> string \<Rightarrow> string" where
  "after_first c s = drop 1 (dropWhile (\<lambda>d. d \<noteq> c) s)"

text \<open>\<open>text.rpartition(c)[2]\<close>.\<close>

definition after_last :: "char \<Rightarrow> string \<Rightarrow> string" where
  "after_last c s = rev (takeWhile (\<lambda>d. d \<noteq> c) (rev s))"

definition is_ascii :: "string \<Rightarrow> bool" where
  "is_ascii s = list_all (\<lambda>c. ord c < 128) s"

section \<open>IP addresses\<close>

datatype ip = IPv4Address int | IPv6Address int

fun octet_values :: "string list \<Rightarrow> int option" where
  "octet_values [] = Some 0"
| "octet_values (t # ts) =
     (if t \<noteq> [] \<and> list_all is_digit t \<and> length t \<le> 3 \<and> (t = ''0'' \<or> hd t \<noteq> CHR ''0'') \<and> read_nat t \<le> 255
      then map_option (\<lambda>n. int (read_nat t) * 256 ^ length ts + n) (octet_values ts) else None)"

definition ipv4 :: "string \<Rightarrow> int option" where
  "ipv4 s = (let parts = split_on CHR ''.'' s in
     if CHR ''/'' \<in> set s \<or> s = [] \<or> length parts \<noteq> 4 then None else octet_values parts)"

definition hextet :: "string \<Rightarrow> int option" where
  "hextet t =
     (if list_all (\<lambda>c. hex_value c \<noteq> None) t \<and> length t \<le> 4 \<and> t \<noteq> [] then read_hex 0 False t else None)"

fun hextets :: "int \<Rightarrow> string list \<Rightarrow> int option" where
  "hextets acc [] = Some acc"
| "hextets acc (t # ts) = (case hextet t of None \<Rightarrow> None | Some h \<Rightarrow> hextets (acc * 65536 + h) ts)"

text \<open>The positions of empty parts between the end points.\<close>

definition inner_gaps :: "string list \<Rightarrow> nat list" where
  "inner_gaps parts = filter (\<lambda>i. parts ! i = []) [1..<length parts - 1]"

definition ipv6_parts :: "string list \<Rightarrow> int option" where
  "ipv6_parts parts =
     (case inner_gaps parts of
        [] \<Rightarrow> if length parts \<noteq> 8 \<or> hd parts = [] \<or> last parts = [] then None else hextets 0 parts
      | [skip] \<Rightarrow>
          (let hi = (if hd parts = [] then skip - 1 else skip);
               lo0 = length parts - skip - 1;
               lo = (if last parts = [] then lo0 - 1 else lo0)
           in if (hd parts = [] \<and> hi \<noteq> 0) \<or> (last parts = [] \<and> lo \<noteq> 0) \<or> 8 < hi + lo + 1 then None
              else case hextets 0 (take hi parts) of
                     None \<Rightarrow> None
                   | Some a \<Rightarrow> hextets (a * 65536 ^ (8 - (hi + lo))) (drop (length parts - lo) parts))
      | _ \<Rightarrow> None)"

text \<open>A dotted suffix stands for two parts; its value is written back in hexadecimal.\<close>

fun hex_text :: "nat \<Rightarrow> string" where
  "hex_text n = (if n < 16 then [hex_char (int n)] else hex_text (n div 16) @ [hex_char (int (n mod 16))])"

declare hex_text.simps [simp del]

definition ipv6_text :: "string \<Rightarrow> int option" where
  "ipv6_text s =
     (let parts = split_on CHR '':'' s in
      if s = [] \<or> length parts < 3 then None
      else case (if CHR ''.'' \<in> set (last parts)
                 then map_option (\<lambda>n. butlast parts @ [hex_text (nat (n div 65536)), hex_text (nat (n mod 65536))])
                        (ipv4 (last parts))
                 else Some parts) of
             None \<Rightarrow> None
           | Some ps \<Rightarrow> if 9 < length ps then None else ipv6_parts ps)"

definition ipv6 :: "string \<Rightarrow> int option" where
  "ipv6 s =
     (let zone = after_first CHR ''%'' s in
      if CHR ''/'' \<in> set s \<or> (CHR ''%'' \<in> set s \<and> (zone = [] \<or> CHR ''%'' \<in> set zone)) then None
      else ipv6_text (before_first CHR ''%'' s))"

definition ip_address :: "string \<Rightarrow> ip option" where
  "ip_address s =
     (case ipv4 s of Some n \<Rightarrow> Some (IPv4Address n) | None \<Rightarrow> map_option IPv6Address (ipv6 s))"

section \<open>Address ranges\<close>

definition in_net :: "nat \<Rightarrow> int \<Rightarrow> int \<times> nat \<Rightarrow> bool" where
  "in_net width n net = (n div 2 ^ (width - snd net) = fst net div 2 ^ (width - snd net))"

definition v4 :: "int \<Rightarrow> int \<Rightarrow> int \<Rightarrow> int \<Rightarrow> int" where
  "v4 a b c d = ((a * 256 + b) * 256 + c) * 256 + d"

text \<open>The address whose first parts are given and whose other parts are zero.\<close>

definition v6 :: "int list \<Rightarrow> int" where
  "v6 hs = foldl (\<lambda>n h. n * 65536 + h) 0 (take 8 (hs @ replicate 8 0))"

definition v4_private :: "(int \<times> nat) list" where
  "v4_private = [(v4 0 0 0 0, 8), (v4 10 0 0 0, 8), (v4 127 0 0 0, 8), (v4 169 254 0 0, 16),
     (v4 172 16 0 0, 12), (v4 192 0 0 0, 24), (v4 192 0 0 170, 31), (v4 192 0 2 0, 24),
     (v4 192 168 0 0, 16), (v4 198 18 0 0, 15), (v4 198 51 100 0, 24), (v4 203 0 113 0, 24),
     (v4 240 0 0 0, 4), (v4 255 255 255 255, 32)]"

definition v4_public_exceptions :: "(int \<times> nat) list" where
  "v4_public_exceptions = [(v4 192 0 0 9, 32), (v4 192 0 0 10, 32)]"

definition v4_is_private :: "int \<Rightarrow> bool" where
  "v4_is_private n \<longleftrightarrow> list_ex (in_net 32 n) v4_private \<and> \<not> list_ex (in_net 32 n) v4_public_exceptions"

definition v6_private :: "(int \<times> nat) list" where
  "v6_private = [(v6 [0, 0, 0, 0, 0, 0, 0, 1], 128), (v6 [], 128), (v6 [0, 0, 0, 0, 0, 0xFFFF], 96),
     (v6 [0x64, 0xFF9B, 1], 48), (v6 [0x100], 64), (v6 [0x2001], 23), (v6 [0x2001, 0xDB8], 32),
     (v6 [0x2002], 16), (v6 [0xFC00], 7), (v6 [0xFE80], 10)]"

definition v6_public_exceptions :: "(int \<times> nat) list" where
  "v6_public_exceptions = [(v6 [0x2001, 1, 0, 0, 0, 0, 0, 1], 128), (v6 [0x2001, 1, 0, 0, 0, 0, 0, 2], 128),
     (v6 [0x2001, 3], 32), (v6 [0x2001, 4, 0x112], 48), (v6 [0x2001, 0x20], 28), (v6 [0x2001, 0x30], 28)]"

definition v6_reserved :: "(int \<times> nat) list" where
  "v6_reserved = [(v6 [], 8), (v6 [0x100], 8), (v6 [0x200], 7), (v6 [0x400], 6), (v6 [0x800], 5),
     (v6 [0x1000], 4), (v6 [0x4000], 3), (v6 [0x6000], 3), (v6 [0x8000], 3), (v6 [0xA000], 3),
     (v6 [0xC000], 3), (v6 [0xE000], 4), (v6 [0xF000], 5), (v6 [0xF800], 6), (v6 [0xFE00], 9)]"

definition v6_is_private :: "int \<Rightarrow> bool" where
  "v6_is_private n \<longleftrightarrow>
     (if n div 2 ^ 32 = 0xFFFF then v4_is_private (n mod 2 ^ 32)
      else list_ex (in_net 128 n) v6_private \<and> \<not> list_ex (in_net 128 n) v6_public_exceptions)"

text \<open>\<open>is_private\<close>, \<open>is_loopback\<close>, \<open>is_link_local\<close>, \<open>is_multicast\<close>, \<open>is_reserved\<close> or
  \<open>is_unspecified\<close>.\<close>

fun ip_not_public :: "ip \<Rightarrow> bool" where
  "ip_not_public (IPv4Address n) \<longleftrightarrow>
     v4_is_private n \<or> in_net 32 n (v4 127 0 0 0, 8) \<or> in_net 32 n (v4 169 254 0 0, 16) \<or>
     in_net 32 n (v4 224 0 0 0, 4) \<or> in_net 32 n (v4 240 0 0 0, 4) \<or> n = 0"
| "ip_not_public (IPv6Address n) \<longleftrightarrow>
     v6_is_private n \<or> n = 1 \<or> in_net 128 n (v6 [0xFE80], 10) \<or> in_net 128 n (v6 [0xFF00], 8) \<or>
     list_ex (in_net 128 n) v6_reserved \<or> n = 0"

section \<open>URLs\<close>

record SplitResult =
  url_scheme :: string
  url_netloc :: string
  url_path :: string
  url_query :: string
  url_fragment :: string

definition is_scheme_char :: "char \<Rightarrow> bool" where
  "is_scheme_char c = (is_alnum_ascii c \<or> any_of ''+-.'' c)"

definition IP_FUTURE_PATTERN :: rx where
  "IP_FUTURE_PATTERN = rseq [rlit ''v'', rplus (RCls (\<lambda>c. hex_value c \<noteq> None)), rlit ''.'',
     rplus (RCls (\<lambda>c. c \<noteq> CHR 0x0A))]"

definition check_bracketed_netloc :: "string \<Rightarrow> unit res" where
  "check_bracketed_netloc netloc =
     (let host_and_port = after_last CHR ''@'' netloc;
          bracketed = after_first CHR ''['' host_and_port;
          has_bracket = CHR ''['' \<in> set host_and_port;
          hostname = (if has_bracket then before_first CHR '']'' bracketed
                      else before_first CHR '':'' host_and_port);
          port = after_first CHR '']'' bracketed
      in bindr (require (\<not> (has_bracket \<and> before_first CHR ''['' host_and_port \<noteq> [])) ValueError) (\<lambda>_.
         bindr (require (\<not> (has_bracket \<and> port \<noteq> [] \<and> hd port \<noteq> CHR '':'')) ValueError) (\<lambda>_.
         if starts_with ''v'' hostname then require (re_fullmatch IP_FUTURE_PATTERN hostname) ValueError
         else case ip_address hostname of
                Some (IPv6Address n) \<Rightarrow> Inr ()
              | _ \<Rightarrow> Inl ValueError)))"

definition split_scheme :: "string \<Rightarrow> string \<times> string" where
  "split_scheme url =
     (let name = before_first CHR '':'' url in
      if CHR '':'' \<in> set url \<and> name \<noteq> [] \<and> (is_upper_ascii (hd url) \<or> is_lower_ascii (hd url)) \<and>
         list_all is_scheme_char name
      then (lower name, after_first CHR '':'' url) else ([], url))"

definition urlsplit :: "string \<Rightarrow> SplitResult res" where
  "urlsplit value =
     (let url = filter (\<lambda>c. c \<noteq> CHR 0x09 \<and> c \<noteq> CHR 0x0D \<and> c \<noteq> CHR 0x0A) (dropWhile (\<lambda>c. ord c \<le> 32) value);
          (scheme, rest) = split_scheme url;
          has_netloc = starts_with ''//'' rest;
          netloc = (if has_netloc then takeWhile (\<lambda>c. \<not> any_of ''/?#'' c) (drop 2 rest) else []);
          tail = (if has_netloc then dropWhile (\<lambda>c. \<not> any_of ''/?#'' c) (drop 2 rest) else rest);
          opens = CHR ''['' \<in> set netloc; closes = CHR '']'' \<in> set netloc;
          no_fragment = before_first CHR ''#'' tail
      in bindr (require (opens = closes) ValueError) (\<lambda>_.
         bindr (if opens then check_bracketed_netloc netloc else Inr ()) (\<lambda>_.
         Inr \<lparr>url_scheme = scheme, url_netloc = netloc, url_path = before_first CHR ''?'' no_fragment,
              url_query = after_first CHR ''?'' no_fragment, url_fragment = after_first CHR ''#'' tail\<rparr>)))"

text \<open>\<open>username is not None or password is not None\<close>.\<close>

definition has_userinfo :: "SplitResult \<Rightarrow> bool" where
  "has_userinfo u \<longleftrightarrow> CHR ''@'' \<in> set (url_netloc u)"

definition host_and_port :: "SplitResult \<Rightarrow> string \<times> string" where
  "host_and_port u =
     (let hostinfo = after_last CHR ''@'' (url_netloc u);
          bracketed = after_first CHR ''['' hostinfo
      in if CHR ''['' \<in> set hostinfo
         then (before_first CHR '']'' bracketed, after_first CHR '':'' (after_first CHR '']'' bracketed))
         else (before_first CHR '':'' hostinfo, after_first CHR '':'' hostinfo))"

definition url_hostname :: "SplitResult \<Rightarrow> string option" where
  "url_hostname u =
     (let host = fst (host_and_port u) in
      if host = [] then None
      else Some (lower (before_first CHR ''%'' host) @ dropWhile (\<lambda>c. c \<noteq> CHR ''%'') host))"

definition url_port :: "SplitResult \<Rightarrow> nat option res" where
  "url_port u =
     (let port = snd (host_and_port u) in
      if port = [] then Inr None
      else bindr (require (list_all is_digit port) ValueError) (\<lambda>_.
           bindr (require (read_nat port \<le> 65535) ValueError) (\<lambda>_. Inr (Some (read_nat port)))))"

text \<open>\<open>urlunsplit\<close> of a result without fragment whose scheme is \<open>http\<close> or \<open>https\<close>; these two
  schemes always get the two slashes.\<close>

definition urlunsplit :: "SplitResult \<Rightarrow> string" where
  "urlunsplit u =
     (let path = (if url_path u \<noteq> [] \<and> \<not> starts_with ''/'' (url_path u) then CHR ''/'' # url_path u else url_path u);
          url = url_scheme u @ '':'' @ ''//'' @ url_netloc u @ path
      in if url_query u = [] then url else url @ ''?'' @ url_query u)"

section \<open>The \<open>idna\<close> codec\<close>

definition idna_ascii :: "string \<Rightarrow> string option" where
  "idna_ascii s =
     (let labels = split_on CHR ''.'' s in
      if s = [] then Some []
      else if list_ex (\<lambda>t. t = [] \<or> 64 \<le> length t) (butlast labels) \<or> 64 \<le> length (last labels) then None
      else Some s)"

definition idna_encode :: "(string \<Rightarrow> string option) \<Rightarrow> string \<Rightarrow> string option" where
  "idna_encode unicode_idna s = (if is_ascii s then idna_ascii s else unicode_idna s)"

lemma idna_ascii_text:
  assumes "\<And>t u. unicode_idna t = Some u \<Longrightarrow> is_ascii u" "idna_encode unicode_idna s = Some t"
  shows "is_ascii t"
  using assms by (auto simp: idna_encode_def idna_ascii_def Let_def split: if_splits)

end
