(* ===== verification/Capabilities.thy ===== *)
theory Capabilities
  imports Settings Url "HOL-Library.Product_Lexorder"
begin

text \<open>
  The capability boundary of \<open>capabilities.py\<close>: reviewed definitions sealed in a registry, the
  validation of an untrusted request, and the preflight that authorises a request or names the
  reason for denying it. The permission resolver and the audit recorder are the two interfaces
  of the preflight service and are arguments of \<open>preflight\<close>; \<open>default_preflight\<close> connects the
  permission service and the audit service.

  A frozen set is a \<open>set\<close>; the enumeration of risk tiers is a datatype, the literal types are
  texts, because the code checks their membership at run time. SHA-256 and the \<open>idna\<close> codec on
  non-ASCII names are the parameters \<open>sha256_hex\<close> and \<open>unicode_idna\<close>.
\<close>

section \<open>Constants\<close>

definition REGISTRY_SCHEMA_VERSION :: int where "REGISTRY_SCHEMA_VERSION = 1"
definition MAX_CAPABILITY_DEFINITIONS :: int where "MAX_CAPABILITY_DEFINITIONS = 256"
definition MAX_ARGUMENT_FIELDS :: int where "MAX_ARGUMENT_FIELDS = 32"
definition MAX_CAPABILITY_ID_LENGTH :: int where "MAX_CAPABILITY_ID_LENGTH = 120"
definition MAX_VERSION_LENGTH :: int where "MAX_VERSION_LENGTH = 32"
definition MAX_OPERATION_ID_LENGTH :: int where "MAX_OPERATION_ID_LENGTH = 200"
definition MAX_SESSION_ID_LENGTH :: int where "MAX_SESSION_ID_LENGTH = 200"
definition MAX_CANCELLATION_ID_LENGTH :: int where "MAX_CANCELLATION_ID_LENGTH = 200"
definition MAX_ARGUMENT_NAME_LENGTH :: int where "MAX_ARGUMENT_NAME_LENGTH = 80"
definition MAX_ARGUMENT_TEXT_LENGTH :: int where "MAX_ARGUMENT_TEXT_LENGTH = 16000"
definition MAX_ARGUMENT_JSON_BYTES :: int where "MAX_ARGUMENT_JSON_BYTES = 32 * 1024"
definition MAX_TARGET_IDENTIFIER_LENGTH :: int where "MAX_TARGET_IDENTIFIER_LENGTH = 2048"
definition MAX_PERMISSION_SCOPE_BYTES :: int where "MAX_PERMISSION_SCOPE_BYTES = 4096"
definition MAX_TIMEOUT_SECONDS :: int where "MAX_TIMEOUT_SECONDS = 3600"

definition VERSION_PATTERN :: rx where
  "VERSION_PATTERN = rseq [rplus (RCls is_digit), rbetween 0 2 (RSeq (rlit ''.'') (rplus (RCls is_digit)))]"

definition HOST_LABEL_PATTERN :: rx where
  "HOST_LABEL_PATTERN =
     (let edge = RCls (\<lambda>c. is_lower_ascii c \<or> is_digit c);
          inner = RCls (\<lambda>c. is_lower_ascii c \<or> is_digit c \<or> c = CHR ''-'')
      in RSeq edge (ropt (RSeq (rbetween 0 61 inner) edge)))"

definition PROHIBITED_ARGUMENT_NAMES :: "string list" where
  "PROHIBITED_ARGUMENT_NAMES = [''argv'', ''command'', ''command_line'', ''executable'', ''permission'',
     ''permission_mode'', ''registry'', ''risk_tier'', ''shell'']"

text \<open>The end of the text counts as a separator: \<open>prohibited_capability\<close> searches the identifier
  with a separator appended.\<close>

definition PROHIBITED_CAPABILITY_PATTERN :: rx where
  "PROHIBITED_CAPABILITY_PATTERN =
     (let separator = RCls (any_of ''._:-'') in
      rseq [RNotBehind (\<lambda>c. \<not> any_of ''._:-'' c),
            RAlt (rlit ''shell'') (RSeq (rlit ''command'') (ropt (RSeq (ropt separator) (rlit ''runner'')))),
            separator])"

definition PROHIBITED_CAPABILITY_MARKERS :: "string list" where
  "PROHIBITED_CAPABILITY_MARKERS = [''arbitrary-command'', ''arbitrary_command'', ''command-runner'',
     ''command_runner'', ''generic-shell'', ''generic_shell'', ''unrestricted-shell'', ''unrestricted_shell'']"

definition prohibited_capability :: "string \<Rightarrow> bool" where
  "prohibited_capability lowered_id \<longleftrightarrow>
     re_search PROHIBITED_CAPABILITY_PATTERN (lowered_id @ ''.'') \<or>
     list_ex (\<lambda>marker. contains_text marker lowered_id) PROHIBITED_CAPABILITY_MARKERS"

definition ALLOWED_REQUEST_ORIGINS :: "string set" where
  "ALLOWED_REQUEST_ORIGINS =
     {''system_policy'', ''current_user_instruction'', ''user_management_action'', ''model_proposal''}"

definition ORIGIN_ACTORS :: "(string \<times> string list) list" where
  "ORIGIN_ACTORS =
     [(''system_policy'', [''system'']), (''current_user_instruction'', [''user'']),
      (''durable_user_policy'', [''user'']), (''user_management_action'', [''user'']),
      (''external_content'', [''retriever'', ''extractor'']), (''imported_data'', [''importer'']),
      (''tool_result'', [''tool'']), (''runtime_output'', [''runtime'']), (''model_proposal'', [''model'']),
      (''unknown'', [''unknown''])]"

definition REQUEST_ACTORS :: "string list" where
  "REQUEST_ACTORS = [''system'', ''user'', ''retriever'', ''extractor'', ''importer'', ''tool'', ''runtime'',
     ''model'', ''unknown'']"

definition TARGET_KINDS :: "string list" where
  "TARGET_KINDS = [''provided_data'', ''state_record'', ''managed_artifact'', ''url'']"

definition allowed_side_effects :: "string set" where
  "allowed_side_effects = {''read_state'', ''create_managed_artifact'', ''network_read'', ''process_execution''}"

section \<open>Data\<close>

datatype CapabilityRiskTier =
    PURE_COMPUTATION | BOUNDED_READ_OR_REVERSIBLE_CREATE | SCOPED_MODIFICATION_OR_EXTERNAL_READ | HIGH_RISK

fun tier_number :: "CapabilityRiskTier \<Rightarrow> int" where
  "tier_number PURE_COMPUTATION = 0"
| "tier_number BOUNDED_READ_OR_REVERSIBLE_CREATE = 1"
| "tier_number SCOPED_MODIFICATION_OR_EXTERNAL_READ = 2"
| "tier_number HIGH_RISK = 3"

record CapabilityArgument =
  arg_name :: string
  arg_kind :: string
  arg_required :: bool
  maximum_length :: "int option"
  minimum_integer :: "int option"
  maximum_integer :: "int option"
  maximum_items :: "int option"

record CapabilityTargetContract =
  contract_kind :: string
  maximum_identifier_length :: int

record CapabilityResourceLimits =
  max_input_chars :: int
  max_output_bytes :: int
  max_items :: int

record CapabilityResourceContract = CapabilityResourceLimits +
  max_timeout_seconds :: int

record CapabilityDefinition =
  def_capability_id :: string
  def_version :: string
  def_risk_tier :: CapabilityRiskTier
  def_arguments :: "CapabilityArgument list"
  def_target :: CapabilityTargetContract
  def_side_effects :: "string set"
  permission_scope_kind :: string
  network_mode :: string
  binding_mode :: string
  allowed_request_origins :: "string set"
  release_available :: bool
  resource_contract :: CapabilityResourceContract
  cancellation_required :: bool
  def_description :: string

record CapabilityTarget =
  target_kind :: string
  target_identifier :: string

record CapabilityRequest =
  rq_capability_id :: string
  rq_version :: string
  rq_operation_id :: string
  rq_actor_type :: string
  rq_origin_class :: string
  rq_arguments :: dict
  rq_target :: CapabilityTarget
  rq_destination :: "string option"
  rq_side_effects :: "string set"
  rq_risk_tier :: int
  rq_scope :: dict
  rq_limits :: CapabilityResourceLimits
  rq_timeout :: int
  rq_session_id :: "string option"
  rq_cancellation_id :: "string option"

record OutboundNetworkPolicy =
  net_enabled :: bool
  allowed_schemes :: "string set"
  allowed_hosts :: "string set"
  allow_subdomains :: bool

record CapabilityPreflightDecision =
  authorized :: bool
  decision_reason :: string
  decided_capability_id :: string
  decided_version :: string
  decided_operation_id :: string
  decided_risk_tier :: "CapabilityRiskTier option"
  registry_fingerprint :: string
  permission_mode :: "string option"
  normalized_destination :: "string option"

record CapabilityRegistry =
  registered :: "((string \<times> string) \<times> CapabilityDefinition) list"
  fingerprint :: string

section \<open>Validators\<close>

definition capability_token :: "exc \<Rightarrow> int \<Rightarrow> string \<Rightarrow> string res" where
  "capability_token err maximum value =
     (let normalized = strip value in
      bindr (require (\<not> (normalized = [] \<or> maximum < int (length normalized) \<or>
                       \<not> re_fullmatch TOKEN_PATTERN normalized)) err) (\<lambda>_. Inr normalized))"

definition capability_version :: "exc \<Rightarrow> string \<Rightarrow> string res" where
  "capability_version err value =
     (let normalized = strip value in
      bindr (require (\<not> (MAX_VERSION_LENGTH < int (length normalized) \<or> \<not> re_fullmatch VERSION_PATTERN normalized))
               err) (\<lambda>_. Inr normalized))"

definition request_text :: "int \<Rightarrow> string \<Rightarrow> string res" where
  "request_text maximum value =
     (let normalized = strip value in
      bindr (require (\<not> (normalized = [] \<or> maximum < int (length normalized) \<or> contains_control normalized))
               CapabilityRequestValidationError) (\<lambda>_. Inr normalized))"

definition capability_description :: "string \<Rightarrow> string res" where
  "capability_description value =
     (let normalized = norm_ws value in
      bindr (require (\<not> (normalized = [] \<or> 500 < int (length normalized) \<or> contains_control normalized))
               CapabilityRegistryError) (\<lambda>_. Inr normalized))"

definition positive_integer :: "exc \<Rightarrow> int \<Rightarrow> int res" where
  "positive_integer err value = bindr (require (\<not> value < 1) err) (\<lambda>_. Inr value)"

text \<open>\<open>_safe_mapping\<close> and \<open>_validate_json_value\<close>: what is returned is parsed from the canonical
  text.\<close>

fun request_json_ok :: "int \<Rightarrow> json \<Rightarrow> bool" where
  "request_json_ok depth (JObj kvs) \<longleftrightarrow> \<not> 8 < depth \<and>
     list_all (\<lambda>(key, item). key \<noteq> [] \<and> \<not> contains_control key \<and> request_json_ok (depth + 1) item) kvs"
| "request_json_ok depth (JList xs) \<longleftrightarrow> \<not> 8 < depth \<and> list_all (request_json_ok (depth + 1)) xs"
| "request_json_ok depth (JStr value) \<longleftrightarrow> \<not> 8 < depth \<and>
     \<not> (MAX_ARGUMENT_TEXT_LENGTH < int (length value) \<or> contains_control value)"
| "request_json_ok depth v \<longleftrightarrow> \<not> 8 < depth"

definition safe_mapping :: "int \<Rightarrow> dict \<Rightarrow> dict res" where
  "safe_mapping maximum_bytes value =
     bindr (require (list_all (\<lambda>(key, item).
              \<not> (key = [] \<or> MAX_ARGUMENT_NAME_LENGTH < int (length key)) \<and> \<not> contains_control key \<and>
              request_json_ok 0 item) value) CapabilityRequestValidationError) (\<lambda>_.
     bindr (require (all_finite (JObj value)) CapabilityRequestValidationError) (\<lambda>_.
     bindr (require (\<not> maximum_bytes < int (utf8_length (encode (JObj value))))
              CapabilityRequestValidationError) (\<lambda>_.
     Inr (canon_dict value))))"

definition validate_request_limits :: "CapabilityResourceLimits \<Rightarrow> CapabilityResourceLimits res" where
  "validate_request_limits limits =
     bindr (positive_integer CapabilityRequestValidationError (max_input_chars limits)) (\<lambda>chars.
     bindr (positive_integer CapabilityRequestValidationError (max_output_bytes limits)) (\<lambda>bytes.
     bindr (positive_integer CapabilityRequestValidationError (max_items limits)) (\<lambda>items.
     Inr \<lparr>max_input_chars = chars, max_output_bytes = bytes, max_items = items\<rparr>)))"

definition validate_request_envelope :: "CapabilityRequest \<Rightarrow> CapabilityRequest res" where
  "validate_request_envelope rq =
     (let err = CapabilityRequestValidationError in
     bindr (capability_token err MAX_CAPABILITY_ID_LENGTH (rq_capability_id rq)) (\<lambda>cap.
     bindr (capability_version err (rq_version rq)) (\<lambda>version.
     bindr (capability_token err MAX_OPERATION_ID_LENGTH (rq_operation_id rq)) (\<lambda>op.
     bindr (opt_res (capability_token err MAX_SESSION_ID_LENGTH) (rq_session_id rq)) (\<lambda>session.
     bindr (opt_res (capability_token err MAX_CANCELLATION_ID_LENGTH) (rq_cancellation_id rq)) (\<lambda>cancellation.
     bindr (require (List.member REQUEST_ACTORS (rq_actor_type rq)) err) (\<lambda>_.
     bindr (require (map_of ORIGIN_ACTORS (rq_origin_class rq) \<noteq> None) err) (\<lambda>_.
     bindr (safe_mapping MAX_ARGUMENT_JSON_BYTES (rq_arguments rq)) (\<lambda>args.
     bindr (require (List.member TARGET_KINDS (target_kind (rq_target rq))) err) (\<lambda>_.
     bindr (request_text MAX_TARGET_IDENTIFIER_LENGTH (target_identifier (rq_target rq))) (\<lambda>ident.
     bindr (opt_res (request_text MAX_TARGET_IDENTIFIER_LENGTH) (rq_destination rq)) (\<lambda>destination.
     bindr (require (rq_side_effects rq \<subseteq> allowed_side_effects) err) (\<lambda>_.
     bindr (require (List.member [0, 1, 2, 3] (rq_risk_tier rq)) err) (\<lambda>_.
     bindr (safe_mapping MAX_PERMISSION_SCOPE_BYTES (rq_scope rq)) (\<lambda>scp.
     bindr (validate_request_limits (rq_limits rq)) (\<lambda>limits.
     bindr (positive_integer err (rq_timeout rq)) (\<lambda>timeout.
     bindr (require (\<not> MAX_TIMEOUT_SECONDS < timeout) err) (\<lambda>_.
     Inr \<lparr>rq_capability_id = cap, rq_version = version, rq_operation_id = op, rq_actor_type = rq_actor_type rq,
          rq_origin_class = rq_origin_class rq, rq_arguments = args,
          rq_target = \<lparr>target_kind = target_kind (rq_target rq), target_identifier = ident\<rparr>,
          rq_destination = destination, rq_side_effects = rq_side_effects rq,
          rq_risk_tier = rq_risk_tier rq, rq_scope = scp, rq_limits = limits, rq_timeout = timeout,
          rq_session_id = session, rq_cancellation_id = cancellation\<rparr>))))))))))))))))))"

section \<open>Destinations\<close>

definition normalize_host :: "(string \<Rightarrow> string option) \<Rightarrow> string \<Rightarrow> string option" where
  "normalize_host unicode_idna host =
     (let normalized = lower (rstrip_by (\<lambda>c. c = CHR ''.'') host) in
      if normalized = [] \<or> 253 < length normalized then None
      else if ip_address normalized \<noteq> None then Some normalized
      else (case idna_encode unicode_idna normalized of
              None \<Rightarrow> None
            | Some encoded \<Rightarrow>
                if list_ex (\<lambda>label. \<not> re_fullmatch HOST_LABEL_PATTERN label) (split_on CHR ''.'' encoded)
                then None else Some encoded))"

definition is_private_or_local_host :: "string \<Rightarrow> bool" where
  "is_private_or_local_host host =
     (let normalized = lower (rstrip_by (\<lambda>c. c = CHR ''.'') host) in
      normalized = ''localhost'' \<or> ends_with ''.localhost'' normalized \<or> ends_with ''.local'' normalized \<or>
      (case ip_address normalized of None \<Rightarrow> False | Some address \<Rightarrow> ip_not_public address))"

definition is_v6 :: "ip option \<Rightarrow> bool" where
  "is_v6 address = (case address of Some (IPv6Address n) \<Rightarrow> True | _ \<Rightarrow> False)"

definition normalize_url :: "(string \<Rightarrow> string option) \<Rightarrow> string \<Rightarrow> string option" where
  "normalize_url unicode_idna value =
     (if MAX_TARGET_IDENTIFIER_LENGTH < int (length value) then None
      else case bindr (urlsplit (strip value)) (\<lambda>parsed. bindr (url_port parsed) (\<lambda>port. Inr (parsed, port))) of
             Inl e \<Rightarrow> None
           | Inr (parsed, port) \<Rightarrow>
               (let scheme = lower (url_scheme parsed) in
                if \<not> List.member [''http'', ''https''] scheme \<or> has_userinfo parsed \<or> url_fragment parsed \<noteq> [] then None
                else case url_hostname parsed of
                       None \<Rightarrow> None
                     | Some host \<Rightarrow>
                         (case normalize_host unicode_idna host of
                            None \<Rightarrow> None
                          | Some normalized_host \<Rightarrow>
                              if port \<noteq> None \<and> port \<noteq> Some (if scheme = ''https'' then 443 else 80) then None
                              else Some (urlunsplit
                                \<lparr>url_scheme = scheme,
                                 url_netloc = (if is_v6 (ip_address normalized_host)
                                               then ''['' @ normalized_host @ '']'' else normalized_host),
                                 url_path = (if url_path parsed = [] then ''/'' else url_path parsed),
                                 url_query = url_query parsed, url_fragment = []\<rparr>))))"

definition safe_relative_artifact :: "string \<Rightarrow> bool" where
  "safe_relative_artifact value =
     (if value = [] \<or> starts_with ''/'' value \<or> starts_with [CHR 0x5C] value \<or> CHR 0x5C \<in> set value \<or>
         contains_control value \<or> re_match (RSeq (RCls (\<lambda>c. is_upper_ascii c \<or> is_lower_ascii c)) (rlit '':'')) value
      then False
      else if list_ex (\<lambda>part. List.member [[], ''.'', ''..''] part) (split_on CHR ''/'' value) then False
      else \<not> starts_with ''/'' value)"

section \<open>Matching a request against its definition\<close>

definition actor_matches_origin :: "string \<Rightarrow> string \<Rightarrow> bool" where
  "actor_matches_origin actor origin =
     (case map_of ORIGIN_ACTORS origin of None \<Rightarrow> False | Some actors \<Rightarrow> List.member actors actor)"

definition argument_text_ok :: "int \<Rightarrow> string \<Rightarrow> bool" where
  "argument_text_ok maximum value \<longleftrightarrow>
     strip value \<noteq> [] \<and> int (length value) \<le> maximum \<and> \<not> contains_control value"

definition argument_value_matches :: "CapabilityArgument \<Rightarrow> json \<Rightarrow> bool" where
  "argument_value_matches field value =
     (if arg_kind field = ''text'' then
        (case (value, maximum_length field) of (JStr t, Some n) \<Rightarrow> argument_text_ok n t | _ \<Rightarrow> False)
      else if arg_kind field = ''integer'' then
        (case value of
           JInt i \<Rightarrow> (case minimum_integer field of None \<Rightarrow> True | Some n \<Rightarrow> n \<le> i) \<and>
                     (case maximum_integer field of None \<Rightarrow> True | Some n \<Rightarrow> i \<le> n)
         | _ \<Rightarrow> False)
      else if arg_kind field = ''boolean'' then (case value of JBool b \<Rightarrow> True | _ \<Rightarrow> False)
      else if arg_kind field = ''string_list'' then
        (case (value, maximum_items field, maximum_length field) of
           (JList xs, Some items, Some n) \<Rightarrow> int (length xs) \<le> items \<and>
             list_all (\<lambda>item. case item of JStr t \<Rightarrow> argument_text_ok n t | _ \<Rightarrow> False) xs
         | _ \<Rightarrow> False)
      else False)"

definition arguments_match :: "CapabilityDefinition \<Rightarrow> dict \<Rightarrow> bool" where
  "arguments_match d args \<longleftrightarrow>
     list_all (\<lambda>(name, v). List.member (map arg_name (def_arguments d)) name) args \<and>
     list_all (\<lambda>field. case map_of args (arg_name field) of
                        None \<Rightarrow> \<not> arg_required field
                      | Some v \<Rightarrow> argument_value_matches field v) (def_arguments d)"

definition target_matches :: "(string \<Rightarrow> string option) \<Rightarrow> CapabilityTargetContract \<Rightarrow> CapabilityTarget \<Rightarrow> bool" where
  "target_matches unicode_idna contract target =
     (let ident = target_identifier target; kind = contract_kind contract in
      if target_kind target \<noteq> kind \<or> maximum_identifier_length contract < int (length ident) then False
      else if kind = ''provided_data'' \<or> kind = ''state_record'' then re_fullmatch TOKEN_PATTERN ident
      else if kind = ''managed_artifact'' then safe_relative_artifact ident
      else if kind = ''url'' then normalize_url unicode_idna ident \<noteq> None
      else False)"

text \<open>\<open>None\<close> is the \<open>_DESTINATION_MISMATCH\<close> of the code, \<open>Some None\<close> a capability without a
  destination.\<close>

definition destination_for ::
  "(string \<Rightarrow> string option) \<Rightarrow> CapabilityDefinition \<Rightarrow> CapabilityRequest \<Rightarrow> string option option" where
  "destination_for unicode_idna d rq =
     (if network_mode d = ''none'' then (if rq_destination rq = None then Some None else None)
      else case (rq_destination rq, map_of (rq_arguments rq) ''url'') of
             (Some destination, Some (JStr argument)) \<Rightarrow>
               (case (normalize_url unicode_idna (target_identifier (rq_target rq)),
                      normalize_url unicode_idna destination, normalize_url unicode_idna argument) of
                  (Some t, Some u, Some a) \<Rightarrow> if t = u \<and> u = a then Some (Some u) else None
                | _ \<Rightarrow> None)
           | _ \<Rightarrow> None)"

fun json_input_usage :: "json \<Rightarrow> int \<times> int"
and items_input_usage :: "dict \<Rightarrow> int \<times> int"
and list_input_usage :: "json list \<Rightarrow> int \<times> int" where
  "json_input_usage (JObj kvs) = items_input_usage kvs"
| "json_input_usage (JList xs) = (fst (list_input_usage xs), int (length xs) + snd (list_input_usage xs))"
| "json_input_usage (JStr s) = (int (length s), 0)"
| "json_input_usage JNull = (0, 0)"
| "json_input_usage (JBool b) = (if b then 4 else 5, 0)"
| "json_input_usage (JInt i) = (int (length (show_int i)), 0)"
| "json_input_usage (JFloat r) = (int (length r), 0)"
| "items_input_usage [] = (0, 0)"
| "items_input_usage ((k, v) # kvs) =
     (int (length k) + fst (json_input_usage v) + fst (items_input_usage kvs),
      snd (json_input_usage v) + snd (items_input_usage kvs))"
| "list_input_usage [] = (0, 0)"
| "list_input_usage (v # vs) =
     (fst (json_input_usage v) + fst (list_input_usage vs), snd (json_input_usage v) + snd (list_input_usage vs))"

definition request_input_usage :: "CapabilityRequest \<Rightarrow> int \<times> int" where
  "request_input_usage rq =
     (let (characters, items) = json_input_usage (JObj (rq_arguments rq)) in
      (characters + int (length (target_identifier (rq_target rq))) +
         (case rq_destination rq of None \<Rightarrow> 0 | Some t \<Rightarrow> int (length t)), items))"

definition declared_limits_cover_request :: "CapabilityRequest \<Rightarrow> bool" where
  "declared_limits_cover_request rq \<longleftrightarrow>
     fst (request_input_usage rq) \<le> max_input_chars (rq_limits rq) \<and>
     max 1 (snd (request_input_usage rq)) \<le> max_items (rq_limits rq)"

definition resource_limits_match :: "CapabilityResourceContract \<Rightarrow> CapabilityResourceLimits \<Rightarrow> bool" where
  "resource_limits_match contract limits \<longleftrightarrow>
     0 < max_input_chars limits \<and> max_input_chars limits \<le> max_input_chars contract \<and>
     0 < max_output_bytes limits \<and> max_output_bytes limits \<le> max_output_bytes contract \<and>
     0 < max_items limits \<and> max_items limits \<le> max_items contract"

definition timeout_matches :: "CapabilityResourceContract \<Rightarrow> int \<Rightarrow> bool" where
  "timeout_matches contract timeout \<longleftrightarrow> 0 < timeout \<and> timeout \<le> max_timeout_seconds contract"

definition cancellation_matches :: "CapabilityDefinition \<Rightarrow> string option \<Rightarrow> bool" where
  "cancellation_matches d cancellation = (if cancellation_required d then cancellation \<noteq> None else cancellation = None)"

definition scope_of_request :: "dict \<Rightarrow> dict option" where
  "scope_of_request scp =
     (case map_of scp ''kind'' of
        Some (JStr kind) \<Rightarrow> if re_fullmatch TOKEN_PATTERN kind then Some scp else None
      | _ \<Rightarrow> None)"

definition bindings_match ::
  "(string \<Rightarrow> string option) \<Rightarrow> CapabilityDefinition \<Rightarrow> CapabilityRequest \<Rightarrow> string option \<Rightarrow> dict \<Rightarrow> bool res" where
  "bindings_match unicode_idna d rq destination scp =
     (let ident = target_identifier (rq_target rq) in
      if binding_mode d = ''none'' then Inr (dict_eq scp [(''kind'', JStr ''none'')])
      else if binding_mode d = ''record_identity'' then
        Inr (case map_of (rq_arguments rq) ''record_id'' of
           Some (JStr record_id) \<Rightarrow> ident = record_id \<and>
             dict_eq scp [(''kind'', JStr ''record''), (''record_id'', JStr record_id)]
         | _ \<Rightarrow> False)
      else if binding_mode d = ''project_artifact'' then
        Inr (case (map_of (rq_arguments rq) ''project_id'', map_of (rq_arguments rq) ''name'') of
           (Some (JStr project_id), Some (JStr name)) \<Rightarrow>
             re_fullmatch TOKEN_PATTERN project_id \<and> re_fullmatch TOKEN_PATTERN name \<and>
             ident = project_id @ ''/'' @ name \<and>
             dict_eq scp [(''kind'', JStr ''project''), (''project_id'', JStr project_id)]
         | _ \<Rightarrow> False)
      else
        (case destination of
           None \<Rightarrow> Inr False
         | Some text \<Rightarrow> bindr (urlsplit text) (\<lambda>parsed. Inr
             (case map_of scp ''host'' of
                Some (JStr scope_host) \<Rightarrow>
                  url_hostname parsed \<noteq> None \<and> normalize_host unicode_idna scope_host = url_hostname parsed \<and>
                  dict_eq scp [(''kind'', JStr ''destination''), (''host'', JStr scope_host)]
              | _ \<Rightarrow> False))))"

section \<open>Outbound network policy\<close>

definition validate_scheme :: "string \<Rightarrow> string res" where
  "validate_scheme value =
     (let normalized = lower (strip value) in
      bindr (require (List.member [''http'', ''https''] normalized) CapabilityRequestValidationError) (\<lambda>_.
      Inr normalized))"

definition validate_policy_host :: "(string \<Rightarrow> string option) \<Rightarrow> string \<Rightarrow> string res" where
  "validate_policy_host unicode_idna value =
     (case normalize_host unicode_idna value of
        None \<Rightarrow> Inl CapabilityRequestValidationError
      | Some normalized \<Rightarrow>
          if is_private_or_local_host normalized then Inl CapabilityRequestValidationError else Inr normalized)"

text \<open>\<open>OutboundNetworkPolicy.__post_init__\<close>. Every failing member raises the same exception, so
  the order in which a set is visited does not matter; it is visited in ascending order.\<close>

definition make_network_policy ::
  "(string \<Rightarrow> string option) \<Rightarrow> bool \<Rightarrow> string set \<Rightarrow> string set \<Rightarrow> bool \<Rightarrow> OutboundNetworkPolicy res" where
  "make_network_policy unicode_idna enabled schemes hosts subdomains =
     bindr (require (\<not> (2 < card schemes \<or> 256 < card hosts)) CapabilityRegistryError) (\<lambda>_.
     bindr (map_res validate_scheme (sorted_list_of_set schemes)) (\<lambda>safe_schemes.
     bindr (map_res (validate_policy_host unicode_idna) (sorted_list_of_set hosts)) (\<lambda>safe_hosts.
     Inr \<lparr>net_enabled = enabled, allowed_schemes = set safe_schemes, allowed_hosts = set safe_hosts,
          allow_subdomains = subdomains\<rparr>)))"

definition network_allowed :: "OutboundNetworkPolicy \<Rightarrow> string \<Rightarrow> bool res" where
  "network_allowed policy destination =
     (if \<not> net_enabled policy then Inr False
      else bindr (urlsplit destination) (\<lambda>parsed. Inr
             (url_scheme parsed \<in> allowed_schemes policy \<and>
              (case url_hostname parsed of
                 None \<Rightarrow> False
               | Some host \<Rightarrow> \<not> is_private_or_local_host host \<and>
                   (allowed_hosts policy = {} \<or> host \<in> allowed_hosts policy \<or>
                    (allow_subdomains policy \<and>
                     (\<exists>allowed \<in> allowed_hosts policy. ends_with (''.'' @ allowed) host)))))))"

section \<open>The registry\<close>

definition validate_argument_definition :: "CapabilityArgument \<Rightarrow> CapabilityArgument res" where
  "validate_argument_definition a =
     (let err = CapabilityRegistryError in
     bindr (capability_token err MAX_ARGUMENT_NAME_LENGTH (arg_name a)) (\<lambda>name.
     bindr (require (\<not> List.member PROHIBITED_ARGUMENT_NAMES (lower name)) err) (\<lambda>_.
     bindr (require (List.member [''text'', ''integer'', ''boolean'', ''string_list''] (arg_kind a)) err) (\<lambda>_.
     bindr (opt_res (positive_integer err) (maximum_length a)) (\<lambda>len.
     bindr (opt_res (positive_integer err) (maximum_items a)) (\<lambda>items.
     bindr (require (case (minimum_integer a, maximum_integer a) of
                       (Some least, Some greatest) \<Rightarrow> \<not> greatest < least | _ \<Rightarrow> True) err) (\<lambda>_.
     bindr (require (\<not> (arg_kind a = ''text'' \<and> len = None)) err) (\<lambda>_.
     bindr (require (\<not> (arg_kind a = ''string_list'' \<and> (len = None \<or> items = None))) err) (\<lambda>_.
     Inr \<lparr>arg_name = name, arg_kind = arg_kind a, arg_required = arg_required a, maximum_length = len,
          minimum_integer = minimum_integer a, maximum_integer = maximum_integer a,
          maximum_items = items\<rparr>)))))))))"

definition validate_target_contract :: "CapabilityTargetContract \<Rightarrow> CapabilityTargetContract res" where
  "validate_target_contract c =
     bindr (require (List.member TARGET_KINDS (contract_kind c)) CapabilityRegistryError) (\<lambda>_.
     bindr (positive_integer CapabilityRegistryError (maximum_identifier_length c)) (\<lambda>maximum.
     bindr (require (\<not> MAX_TARGET_IDENTIFIER_LENGTH < maximum) CapabilityRegistryError) (\<lambda>_.
     Inr \<lparr>contract_kind = contract_kind c, maximum_identifier_length = maximum\<rparr>)))"

definition validate_resource_contract :: "CapabilityResourceContract \<Rightarrow> CapabilityResourceContract res" where
  "validate_resource_contract c =
     (let positive = positive_integer CapabilityRegistryError in
     bindr (positive (max_timeout_seconds c)) (\<lambda>timeout.
     bindr (require (\<not> MAX_TIMEOUT_SECONDS < timeout) CapabilityRegistryError) (\<lambda>_.
     bindr (positive (max_input_chars c)) (\<lambda>chars.
     bindr (positive (max_output_bytes c)) (\<lambda>bytes.
     bindr (positive (max_items c)) (\<lambda>items.
     Inr \<lparr>max_input_chars = chars, max_output_bytes = bytes, max_items = items,
          max_timeout_seconds = timeout\<rparr>))))))"

definition binding_contract_ok ::
  "string \<Rightarrow> CapabilityTargetContract \<Rightarrow> CapabilityArgument list \<Rightarrow> string \<Rightarrow> string \<Rightarrow> bool" where
  "binding_contract_ok binding target args kind_of_scope network \<longleftrightarrow>
     (let fields = map arg_name args in
      if binding = ''none'' then kind_of_scope = ''none''
      else if binding = ''record_identity'' then
        contract_kind target = ''state_record'' \<and> List.member fields ''record_id'' \<and> kind_of_scope = ''record''
      else if binding = ''project_artifact'' then
        contract_kind target = ''managed_artifact'' \<and> List.member fields ''project_id'' \<and>
        List.member fields ''name'' \<and> kind_of_scope = ''project''
      else contract_kind target = ''url'' \<and> List.member fields ''url'' \<and> kind_of_scope = ''destination'' \<and>
        network = ''explicit_url'')"

fun validate_argument_list :: "string list \<Rightarrow> CapabilityArgument list \<Rightarrow> CapabilityArgument list res" where
  "validate_argument_list names [] = Inr []"
| "validate_argument_list names (a # rest) =
     bindr (validate_argument_definition a) (\<lambda>safe.
     bindr (require (\<not> List.member names (arg_name safe)) CapabilityRegistryError) (\<lambda>_.
     bindr (validate_argument_list (arg_name safe # names) rest) (\<lambda>more. Inr (safe # more))))"

definition validate_definition :: "CapabilityDefinition \<Rightarrow> CapabilityDefinition res" where
  "validate_definition d =
     (let err = CapabilityRegistryError; effects = def_side_effects d; origins = allowed_request_origins d in
     bindr (capability_token err MAX_CAPABILITY_ID_LENGTH (def_capability_id d)) (\<lambda>cap.
     bindr (require (\<not> prohibited_capability (lower cap)) err) (\<lambda>_.
     bindr (capability_version err (def_version d)) (\<lambda>version.
     bindr (require (def_arguments d \<noteq> []) err) (\<lambda>_.
     bindr (require (\<not> MAX_ARGUMENT_FIELDS < int (length (def_arguments d))) err) (\<lambda>_.
     bindr (validate_argument_list [] (def_arguments d)) (\<lambda>args.
     bindr (validate_target_contract (def_target d)) (\<lambda>target.
     bindr (require (effects \<subseteq> allowed_side_effects) err) (\<lambda>_.
     bindr (capability_token err 80 (permission_scope_kind d)) (\<lambda>kind_of_scope.
     bindr (require (\<not> (''process_execution'' \<in> effects \<and> def_risk_tier d \<noteq> HIGH_RISK)) err) (\<lambda>_.
     bindr (require (List.member [''none'', ''explicit_url''] (network_mode d)) err) (\<lambda>_.
     bindr (require (List.member [''none'', ''record_identity'', ''project_artifact'', ''destination_host'']
              (binding_mode d)) err) (\<lambda>_.
     bindr (require (binding_contract_ok (binding_mode d) target args kind_of_scope (network_mode d)) err) (\<lambda>_.
     bindr (require (origins \<noteq> {} \<and> origins \<subseteq> ALLOWED_REQUEST_ORIGINS) err) (\<lambda>_.
     bindr (require (if network_mode d = ''explicit_url''
                     then contract_kind target = ''url'' \<and> ''network_read'' \<in> effects
                     else ''network_read'' \<notin> effects) err) (\<lambda>_.
     bindr (validate_resource_contract (resource_contract d)) (\<lambda>resources.
     bindr (capability_description (def_description d)) (\<lambda>descr.
     Inr \<lparr>def_capability_id = cap, def_version = version, def_risk_tier = def_risk_tier d, def_arguments = args,
          def_target = target, def_side_effects = effects, permission_scope_kind = kind_of_scope,
          network_mode = network_mode d, binding_mode = binding_mode d, allowed_request_origins = origins,
          release_available = release_available d, resource_contract = resources,
          cancellation_required = cancellation_required d, def_description = descr\<rparr>))))))))))))))))))"

definition opt_int_json :: "int option \<Rightarrow> json" where
  "opt_int_json v = (case v of None \<Rightarrow> JNull | Some n \<Rightarrow> JInt n)"

definition argument_payload :: "CapabilityArgument \<Rightarrow> json" where
  "argument_payload a = JObj
     [(''name'', JStr (arg_name a)), (''kind'', JStr (arg_kind a)), (''required'', JBool (arg_required a)),
      (''maximum_length'', opt_int_json (maximum_length a)), (''minimum_integer'', opt_int_json (minimum_integer a)),
      (''maximum_integer'', opt_int_json (maximum_integer a)), (''maximum_items'', opt_int_json (maximum_items a))]"

definition set_json :: "string set \<Rightarrow> json" where
  "set_json xs = JList (map JStr (sorted_list_of_set xs))"

definition definition_payload :: "CapabilityDefinition \<Rightarrow> dict" where
  "definition_payload d = (let c = resource_contract d in
     [(''capability_id'', JStr (def_capability_id d)), (''version'', JStr (def_version d)),
      (''risk_tier'', JInt (tier_number (def_risk_tier d))),
      (''arguments'', JList (map argument_payload (def_arguments d))),
      (''target'', JObj [(''kind'', JStr (contract_kind (def_target d))),
         (''maximum_identifier_length'', JInt (maximum_identifier_length (def_target d)))]),
      (''side_effects'', set_json (def_side_effects d)),
      (''permission_scope_kind'', JStr (permission_scope_kind d)), (''network_mode'', JStr (network_mode d)),
      (''binding_mode'', JStr (binding_mode d)),
      (''allowed_request_origins'', set_json (allowed_request_origins d)),
      (''release_available'', JBool (release_available d)),
      (''resource_contract'', JObj [(''max_input_chars'', JInt (max_input_chars c)),
         (''max_output_bytes'', JInt (max_output_bytes c)), (''max_items'', JInt (max_items c)),
         (''max_timeout_seconds'', JInt (max_timeout_seconds c))]),
      (''cancellation_required'', JBool (cancellation_required d)), (''description'', JStr (def_description d))])"

definition registry_payload :: "CapabilityDefinition list \<Rightarrow> json" where
  "registry_payload ds = JObj
     [(''schema_version'', JInt REGISTRY_SCHEMA_VERSION), (''definitions'', JList (map (JObj \<circ> definition_payload) ds))]"

definition make_fingerprint :: "(string \<Rightarrow> string) \<Rightarrow> json \<Rightarrow> string" where
  "make_fingerprint sha256_hex payload = ''sha256:'' @ sha256_hex (encode payload)"

fun register_all ::
  "((string \<times> string) \<times> CapabilityDefinition) list \<Rightarrow> CapabilityDefinition list \<Rightarrow>
   ((string \<times> string) \<times> CapabilityDefinition) list res" where
  "register_all acc [] = Inr acc"
| "register_all acc (d # rest) =
     bindr (validate_definition d) (\<lambda>safe.
     let key = (def_capability_id safe, def_version safe) in
     bindr (require (map_of acc key = None) CapabilityRegistryError) (\<lambda>_.
     register_all (acc @ [(key, safe)]) rest))"

definition make_registry :: "(string \<Rightarrow> string) \<Rightarrow> CapabilityDefinition list \<Rightarrow> CapabilityRegistry res" where
  "make_registry sha256_hex definitions =
     bindr (require (\<not> MAX_CAPABILITY_DEFINITIONS < int (length definitions)) CapabilityRegistryError) (\<lambda>_.
     bindr (register_all [] definitions) (\<lambda>entries.
     bindr (require (entries \<noteq> []) CapabilityRegistryError) (\<lambda>_.
     let ordered = sort_key fst entries in
     Inr \<lparr>registered = ordered,
          fingerprint = make_fingerprint sha256_hex (registry_payload (map snd ordered))\<rparr>)))"

definition registry_get :: "CapabilityRegistry \<Rightarrow> string \<Rightarrow> string \<Rightarrow> CapabilityDefinition option" where
  "registry_get registry cap version = map_of (registered registry) (cap, version)"

definition registry_versions :: "CapabilityRegistry \<Rightarrow> string \<Rightarrow> string list" where
  "registry_versions registry cap = map (snd \<circ> fst) (filter (\<lambda>e. fst (fst e) = cap) (registered registry))"

definition registry_definitions :: "CapabilityRegistry \<Rightarrow> CapabilityDefinition list" where
  "registry_definitions registry = map snd (registered registry)"

section \<open>Preflight\<close>

text \<open>The decision is computed first; every path of the code ends with one audit append, which
  happens in \<open>preflight\<close>. \<open>resolve\<close> is \<open>PermissionResolver.resolve\<close>.\<close>

definition make_decision ::
  "CapabilityRegistry \<Rightarrow> CapabilityRequest \<Rightarrow> bool \<Rightarrow> string \<Rightarrow> CapabilityRiskTier option \<Rightarrow> string option \<Rightarrow>
   string option \<Rightarrow> CapabilityPreflightDecision" where
  "make_decision registry rq ok reason tier permission destination =
     \<lparr>authorized = ok, decision_reason = reason, decided_capability_id = rq_capability_id rq,
      decided_version = rq_version rq, decided_operation_id = rq_operation_id rq, decided_risk_tier = tier,
      registry_fingerprint = fingerprint registry, permission_mode = permission,
      normalized_destination = destination\<rparr>"

definition deny :: "CapabilityRegistry \<Rightarrow> CapabilityRequest \<Rightarrow> string \<Rightarrow> CapabilityRiskTier option \<Rightarrow>
    string option \<Rightarrow> CapabilityPreflightDecision res" where
  "deny registry rq reason tier permission = Inr (make_decision registry rq False reason tier permission None)"

text \<open>The checks after the permission: the network policy, then the authorisation.\<close>

definition decide_network ::
  "CapabilityRegistry \<Rightarrow> OutboundNetworkPolicy \<Rightarrow> CapabilityDefinition \<Rightarrow> CapabilityRequest \<Rightarrow> string option \<Rightarrow>
   string option \<Rightarrow> CapabilityPreflightDecision res" where
  "decide_network registry policy d rq destination permission =
     bindr (if network_mode d = ''explicit_url''
            then (case destination of None \<Rightarrow> Inl AssertionError | Some text \<Rightarrow> network_allowed policy text)
            else Inr True) (\<lambda>ok.
     if \<not> ok then deny registry rq ''network_denied'' (Some (def_risk_tier d)) permission
     else Inr (make_decision registry rq True ''authorized'' (Some (def_risk_tier d)) permission destination))"

definition decide_permission ::
  "CapabilityRegistry \<Rightarrow> OutboundNetworkPolicy \<Rightarrow> (string \<Rightarrow> dict \<Rightarrow> PermissionDecision res) \<Rightarrow>
   CapabilityDefinition \<Rightarrow> CapabilityRequest \<Rightarrow> string option \<Rightarrow> dict \<Rightarrow> CapabilityPreflightDecision res" where
  "decide_permission registry policy resolve d rq destination scp =
     (let tier = Some (def_risk_tier d) in
      if permission_scope_kind d = ''none'' then decide_network registry policy d rq destination None
      else case resolve (def_capability_id d) scp of
             Inl e \<Rightarrow> if is_SettingsError e \<or> is_StateError e
                       then deny registry rq ''permission_denied'' tier None else Inl e
           | Inr permission \<Rightarrow>
               (let granted = effective_mode permission in
                if granted = ''ask'' then deny registry rq ''permission_requires_user_action'' tier (Some granted)
                else if \<not> List.member [''allow_once'', ''scoped''] granted
                then deny registry rq ''permission_denied'' tier (Some granted)
                else decide_network registry policy d rq destination (Some granted)))"

text \<open>The checks of a request against the definition that it names.\<close>

definition decide_request ::
  "(string \<Rightarrow> string option) \<Rightarrow> CapabilityRegistry \<Rightarrow> OutboundNetworkPolicy \<Rightarrow>
   (string \<Rightarrow> dict \<Rightarrow> PermissionDecision res) \<Rightarrow> CapabilityDefinition \<Rightarrow> CapabilityRequest \<Rightarrow>
   CapabilityPreflightDecision res" where
  "decide_request unicode_idna registry policy resolve d rq =
     (let no = (\<lambda>reason. deny registry rq reason (Some (def_risk_tier d)) None) in
      if \<not> actor_matches_origin (rq_actor_type rq) (rq_origin_class rq) \<or>
         rq_origin_class rq \<notin> allowed_request_origins d then no ''actor_origin_mismatch''
      else if \<not> arguments_match d (rq_arguments rq) then no ''argument_schema_mismatch''
      else if \<not> target_matches unicode_idna (def_target d) (rq_target rq) then no ''target_mismatch''
      else case destination_for unicode_idna d rq of
        None \<Rightarrow> no ''destination_mismatch''
      | Some destination \<Rightarrow>
          if rq_side_effects rq \<noteq> def_side_effects d then no ''side_effect_mismatch''
          else if rq_risk_tier rq \<noteq> tier_number (def_risk_tier d) then no ''risk_tier_mismatch''
          else if \<not> resource_limits_match (resource_contract d) (rq_limits rq) \<or>
                  \<not> declared_limits_cover_request rq then no ''resource_limit_mismatch''
          else if \<not> timeout_matches (resource_contract d) (rq_timeout rq) then no ''timeout_mismatch''
          else if \<not> cancellation_matches d (rq_cancellation_id rq) then no ''cancellation_mismatch''
          else case scope_of_request (rq_scope rq) of
            None \<Rightarrow> no ''permission_denied''
          | Some scp \<Rightarrow>
              if map_of scp ''kind'' \<noteq> Some (JStr (permission_scope_kind d)) then no ''permission_denied''
              else bindr (bindings_match unicode_idna d rq destination scp) (\<lambda>bound.
                   if \<not> bound then no ''binding_mismatch''
                   else if \<not> release_available d then no ''release_excluded''
                   else if def_risk_tier d = HIGH_RISK then no ''tier3_confirmation_unavailable''
                   else decide_permission registry policy resolve d rq destination scp))"

definition decide ::
  "(string \<Rightarrow> string option) \<Rightarrow> CapabilityRegistry \<Rightarrow> OutboundNetworkPolicy \<Rightarrow>
   (string \<Rightarrow> dict \<Rightarrow> PermissionDecision res) \<Rightarrow> CapabilityRequest \<Rightarrow> CapabilityPreflightDecision res" where
  "decide unicode_idna registry policy resolve rq =
     (if registry_versions registry (rq_capability_id rq) = [] then deny registry rq ''unknown_capability'' None None
      else case registry_get registry (rq_capability_id rq) (rq_version rq) of
             None \<Rightarrow> deny registry rq ''unsupported_version'' None None
           | Some d \<Rightarrow> decide_request unicode_idna registry policy resolve d rq)"

definition capability_audit_actor :: "string \<Rightarrow> string" where
  "capability_audit_actor actor = (if List.member [''user'', ''system'', ''model'', ''runtime''] actor then actor else ''capability'')"

text \<open>What \<open>_audit_decision\<close> asks the audit recorder to append.\<close>

definition decision_audit :: "CapabilityRequest \<Rightarrow> CapabilityPreflightDecision \<Rightarrow> audit_request" where
  "decision_audit rq decision =
     \<lparr>q_action = ''capability.preflight'',
      q_result = (if authorized decision then ''success'' else ''denied''),
      q_actor_type = capability_audit_actor (rq_actor_type rq), q_operation_id = Some (rq_operation_id rq),
      q_actor_id = None, q_target_type = Some ''capability_request'', q_target_id = Some (rq_operation_id rq),
      q_summary = Some (if authorized decision then ''Capability preflight authorized'' else ''Capability preflight denied''),
      q_error = None,
      q_metadata = Some
        [(''capability_id'', JStr (rq_capability_id rq)), (''capability_version'', JStr (rq_version rq)),
         (''origin_class'', JStr (rq_origin_class rq)), (''target_kind'', JStr (target_kind (rq_target rq))),
         (''risk_tier'', (case decided_risk_tier decision of None \<Rightarrow> JNull | Some t \<Rightarrow> JInt (tier_number t))),
         (''decision_reason'', JStr (decision_reason decision)),
         (''side_effect_count'', JInt (int (card (rq_side_effects rq))))]\<rparr>"

definition rescue_op :: "exc \<Rightarrow> ('s, 'a) op \<Rightarrow> ('s, 'a) op" where
  "rescue_op e m s = (case m s of (Inl x, s') \<Rightarrow> (Inl e, s') | (Inr v, s') \<Rightarrow> (Inr v, s'))"

definition preflight ::
  "(string \<Rightarrow> string option) \<Rightarrow> CapabilityRegistry \<Rightarrow> OutboundNetworkPolicy \<Rightarrow>
   (string \<Rightarrow> dict \<Rightarrow> 's \<Rightarrow> PermissionDecision res) \<Rightarrow> (audit_request \<Rightarrow> ('s, 'e) op) \<Rightarrow>
   CapabilityRequest \<Rightarrow> ('s, CapabilityPreflightDecision) op" where
  "preflight unicode_idna registry policy resolve record_audit request =
     bind_op (lift_op (\<lambda>s.
       bindr (validate_request_envelope request) (\<lambda>rq.
       bindr (decide unicode_idna registry policy (\<lambda>cap scp. resolve cap scp s) rq) (\<lambda>decision.
       Inr (rq, decision)))))
     (\<lambda>(rq, decision). bind_op (rescue_op CapabilityAuditError (record_audit (decision_audit rq decision)))
       (\<lambda>_. lift_op (\<lambda>_. Inr decision)))"

text \<open>\<open>default_capability_preflight_service\<close>, for any registry: the permission service and the
  audit service over one repository.\<close>

definition default_preflight ::
  "(string \<Rightarrow> string option) \<Rightarrow> env \<Rightarrow> int \<Rightarrow> CapabilityRegistry \<Rightarrow> OutboundNetworkPolicy \<Rightarrow> CapabilityRequest \<Rightarrow>
   (repo, CapabilityPreflightDecision) op" where
  "default_preflight unicode_idna e clock registry policy =
     preflight unicode_idna registry policy (permission_resolve clock) (audit_append e)"

section \<open>The built-in registry\<close>

definition text_argument :: "string \<Rightarrow> int \<Rightarrow> CapabilityArgument" where
  "text_argument name maximum = \<lparr>arg_name = name, arg_kind = ''text'', arg_required = True,
     maximum_length = Some maximum, minimum_integer = None, maximum_integer = None, maximum_items = None\<rparr>"

definition built_in_definitions :: "CapabilityDefinition list" where
  "built_in_definitions =
    [\<lparr>def_capability_id = ''compute.transform'', def_version = ''1.0'', def_risk_tier = PURE_COMPUTATION,
      def_arguments = [text_argument ''text'' 16000, text_argument ''operation'' 80],
      def_target = \<lparr>contract_kind = ''provided_data'', maximum_identifier_length = 120\<rparr>,
      def_side_effects = {}, permission_scope_kind = ''none'', network_mode = ''none'', binding_mode = ''none'',
      allowed_request_origins = ALLOWED_REQUEST_ORIGINS, release_available = True,
      resource_contract = \<lparr>max_input_chars = 16000, max_output_bytes = 64 * 1024, max_items = 16,
        max_timeout_seconds = 30\<rparr>, cancellation_required = False,
      def_description = ''Deterministic transformation of data already supplied by the caller.''\<rparr>,
     \<lparr>def_capability_id = ''state.read'', def_version = ''1.0'', def_risk_tier = BOUNDED_READ_OR_REVERSIBLE_CREATE,
      def_arguments = [text_argument ''record_id'' 200],
      def_target = \<lparr>contract_kind = ''state_record'', maximum_identifier_length = 200\<rparr>,
      def_side_effects = {''read_state''}, permission_scope_kind = ''record'', network_mode = ''none'',
      binding_mode = ''record_identity'', allowed_request_origins = ALLOWED_REQUEST_ORIGINS,
      release_available = True,
      resource_contract = \<lparr>max_input_chars = 2000, max_output_bytes = 256 * 1024, max_items = 100,
        max_timeout_seconds = 30\<rparr>, cancellation_required = False,
      def_description = ''Read one explicitly scoped managed state record.''\<rparr>,
     \<lparr>def_capability_id = ''artifact.create'', def_version = ''1.0'', def_risk_tier = BOUNDED_READ_OR_REVERSIBLE_CREATE,
      def_arguments = [text_argument ''project_id'' 120, text_argument ''name'' 240, text_argument ''content'' 16000],
      def_target = \<lparr>contract_kind = ''managed_artifact'', maximum_identifier_length = 500\<rparr>,
      def_side_effects = {''create_managed_artifact''}, permission_scope_kind = ''project'', network_mode = ''none'',
      binding_mode = ''project_artifact'', allowed_request_origins = ALLOWED_REQUEST_ORIGINS,
      release_available = True,
      resource_contract = \<lparr>max_input_chars = 16000, max_output_bytes = 1024 * 1024, max_items = 16,
        max_timeout_seconds = 60\<rparr>, cancellation_required = True,
      def_description = ''Create a new managed artifact without overwrite.''\<rparr>,
     \<lparr>def_capability_id = ''network.fetch_url'', def_version = ''1.0'',
      def_risk_tier = SCOPED_MODIFICATION_OR_EXTERNAL_READ, def_arguments = [text_argument ''url'' 2048],
      def_target = \<lparr>contract_kind = ''url'', maximum_identifier_length = 2048\<rparr>,
      def_side_effects = {''network_read''}, permission_scope_kind = ''destination'', network_mode = ''explicit_url'',
      binding_mode = ''destination_host'', allowed_request_origins = ALLOWED_REQUEST_ORIGINS,
      release_available = True,
      resource_contract = \<lparr>max_input_chars = 4096, max_output_bytes = 2 * 1024 * 1024, max_items = 8,
        max_timeout_seconds = 60\<rparr>, cancellation_required = True,
      def_description = ''Retrieve one explicit URL within outbound policy.''\<rparr>,
     \<lparr>def_capability_id = ''adapter.fixed_process.example'', def_version = ''1.0'', def_risk_tier = HIGH_RISK,
      def_arguments = [text_argument ''project_id'' 120, text_argument ''name'' 240, text_argument ''input_record_id'' 200],
      def_target = \<lparr>contract_kind = ''managed_artifact'', maximum_identifier_length = 500\<rparr>,
      def_side_effects = {''process_execution'', ''create_managed_artifact''}, permission_scope_kind = ''project'',
      network_mode = ''none'', binding_mode = ''project_artifact'', allowed_request_origins = ALLOWED_REQUEST_ORIGINS,
      release_available = False,
      resource_contract = \<lparr>max_input_chars = 4096, max_output_bytes = 1024 * 1024, max_items = 4,
        max_timeout_seconds = 60\<rparr>, cancellation_required = True,
      def_description = ''Release-excluded example of a dedicated fixed adapter; no command string is accepted.''\<rparr>]"

definition built_in_capability_registry :: "(string \<Rightarrow> string) \<Rightarrow> CapabilityRegistry res" where
  "built_in_capability_registry sha256_hex = make_registry sha256_hex built_in_definitions"

end
