(* ===== verification/Confirmation.thy ===== *)
theory Confirmation
  imports Capabilities Timestamps
begin

text \<open>
  The append-only ledger of user decisions on operations of the highest risk tier:
  \<open>confirmation.py\<close> with its value contracts (\<open>_confirmation_types.py\<close>) and its lifecycle
  validation (\<open>_confirmation_validation.py\<close>). A confirmation is its history: the audit events
  about it. The three operations append one event each inside a transaction.

  A call of the injected clock is a value of type \<open>clock_value\<close>: \<open>None\<close> when the clock raises or
  returns no \<open>datetime\<close>, otherwise the local time and the offset as in \<open>fromisoformat\<close>. The
  injected identifier factory returns a text or raises (\<open>None\<close>).
\<close>

section \<open>Constants and data\<close>

definition DEFAULT_CONFIRMATION_TTL_SECONDS :: int where "DEFAULT_CONFIRMATION_TTL_SECONDS = 120"
definition MAX_CONFIRMATION_TTL_SECONDS :: int where "MAX_CONFIRMATION_TTL_SECONDS = 600"
definition MAX_CONFIRMATION_EVENTS :: int where "MAX_CONFIRMATION_EVENTS = 32"
definition MAX_PREVIEW_TEXT_LENGTH :: int where "MAX_PREVIEW_TEXT_LENGTH = 500"
definition MAX_CREDENTIAL_CLASS_LENGTH :: int where "MAX_CREDENTIAL_CLASS_LENGTH = 120"
definition MAX_CONFIRMATION_ID_LENGTH :: int where "MAX_CONFIRMATION_ID_LENGTH = 200"

definition FINGERPRINT_PATTERN :: rx where
  "FINGERPRINT_PATTERN = RSeq (rlit ''sha256:'')
     (rbetween 64 64 (RCls (\<lambda>c. is_digit c \<or> List.member ''abcdef'' c)))"

definition ALLOWED_CONFIRMATION_CONSUMERS :: "string list" where
  "ALLOWED_CONFIRMATION_CONSUMERS = [''capability'', ''system'']"

definition CONFIRMATION_ACTIONS :: "string list" where
  "CONFIRMATION_ACTIONS = [''confirmation.issue'', ''confirmation.consume'', ''confirmation.revoke'']"

type_synonym clock_value = "(int \<times> int option) option"

record ConfirmationPreview =
  pv_effect_summary :: string
  pv_irreversible :: bool
  pv_recovery_description :: "string option"
  pv_credential_class :: "string option"
  pv_account_label :: "string option"

record ConfirmationInfo =
  ci_confirmation_id :: string
  ci_operation_id :: string
  ci_capability_id :: string
  ci_capability_version :: string
  ci_request_fingerprint :: string
  ci_registry_fingerprint :: string
  ci_decision :: string
  ci_issued_at :: string
  ci_expires_at :: string
  ci_target_kind :: string
  ci_destination_host :: "string option"
  ci_side_effects :: "string list"
  ci_credential_class :: "string option"
  ci_data_leaves_machine :: bool
  ci_irreversible :: bool
  ci_recovery_available :: bool
  ci_effect_summary :: string
  ci_account_label :: "string option"
  ci_recovery_description :: "string option"

record ConfirmationResolution =
  cr_confirmation_id :: "string option"
  cr_reason :: string
  cr_request_fingerprint :: string
  cr_info :: "ConfirmationInfo option"

definition resolution_approved :: "ConfirmationResolution \<Rightarrow> bool" where
  "resolution_approved r \<longleftrightarrow> cr_reason r = ''approved''"

section \<open>Value contracts\<close>

definition require_user_confirmation :: "string \<Rightarrow> string \<Rightarrow> unit res" where
  "require_user_confirmation actor origin =
     require (\<not> (actor \<noteq> ''user'' \<or> origin \<noteq> ''user_management_action'')) ForbiddenConfirmationMutationError"

definition validate_ttl :: "int \<Rightarrow> int res" where
  "validate_ttl value =
     bindr (require (\<not> (value < 1 \<or> MAX_CONFIRMATION_TTL_SECONDS < value)) ConfirmationValidationError) (\<lambda>_.
     Inr value)"

text \<open>\<open>value.astimezone(UTC)\<close> of an aware value.\<close>

definition to_utc :: "int \<Rightarrow> int \<Rightarrow> int res" where
  "to_utc t offset = bindr (require (instant_ok (instant (t, offset))) OverflowError) (\<lambda>_. Inr (instant (t, offset)))"

definition safe_now :: "clock_value \<Rightarrow> int res" where
  "safe_now clock =
     (case clock of
        None \<Rightarrow> Inl ConfirmationValidationError
      | Some (t, None) \<Rightarrow> Inl ConfirmationValidationError
      | Some (t, Some offset) \<Rightarrow> to_utc t offset)"

text \<open>\<open>expires_at = safe_now(clock) + timedelta(seconds=ttl)\<close>.\<close>

definition expiry :: "clock_value \<Rightarrow> int \<Rightarrow> int res" where
  "expiry clock ttl =
     bindr (safe_now clock) (\<lambda>now.
     bindr (require (instant_ok (now + ttl * 1000000)) OverflowError) (\<lambda>_. Inr (now + ttl * 1000000)))"

definition parse_utc :: "string \<Rightarrow> int res" where
  "parse_utc value =
     (case fromisoformat (concat (map (\<lambda>c. if c = CHR ''Z'' then ''+00:00'' else [c]) value)) of
        None \<Rightarrow> Inl ConfirmationCorruptError
      | Some (t, None) \<Rightarrow> Inl ConfirmationCorruptError
      | Some (t, Some offset) \<Rightarrow> to_utc t offset)"

definition confirmation_token :: "int \<Rightarrow> string \<Rightarrow> string res" where
  "confirmation_token maximum value =
     (let normalized = strip value in
      bindr (require (\<not> (normalized = [] \<or> maximum < int (length normalized) \<or>
                       \<not> re_fullmatch TOKEN_PATTERN normalized)) ConfirmationValidationError) (\<lambda>_. Inr normalized))"

definition validate_fingerprint :: "string \<Rightarrow> string res" where
  "validate_fingerprint value =
     bindr (require (re_fullmatch FINGERPRINT_PATTERN value) ConfirmationValidationError) (\<lambda>_. Inr value)"

definition preview_text :: "bool \<Rightarrow> string option \<Rightarrow> string option res" where
  "preview_text required value =
     (let absent = (if required then Inl ConfirmationValidationError else Inr None) in
      case value of
        None \<Rightarrow> absent
      | Some text \<Rightarrow>
          (let normalized = norm_ws text in
           if normalized = [] then absent
           else bindr (require (\<not> MAX_PREVIEW_TEXT_LENGTH < int (length normalized)) ConfirmationValidationError) (\<lambda>_.
                bindr (rescue is_StateError ConfirmationValidationError
                         (serialize_metadata_strict [(''value'', JStr normalized)])) (\<lambda>_.
                Inr (Some normalized)))))"

definition validate_preview :: "ConfirmationPreview \<Rightarrow> ConfirmationPreview res" where
  "validate_preview p =
     bindr (preview_text True (Some (pv_effect_summary p))) (\<lambda>effect.
     bindr (preview_text False (pv_recovery_description p)) (\<lambda>recovery.
     bindr (opt_res (confirmation_token MAX_CREDENTIAL_CLASS_LENGTH) (pv_credential_class p)) (\<lambda>credential.
     bindr (preview_text False (pv_account_label p)) (\<lambda>account.
     Inr \<lparr>pv_effect_summary = the effect, pv_irreversible = pv_irreversible p,
          pv_recovery_description = recovery, pv_credential_class = credential, pv_account_label = account\<rparr>))))"

section \<open>The fingerprint of an exact operation\<close>

text \<open>\<open>_reject_secret_strings\<close>: the exception of a rejected key is passed on, that of a rejected
  text is translated.\<close>

fun reject_secret_strings :: "json \<Rightarrow> unit res"
and reject_secret_items :: "dict \<Rightarrow> unit res"
and reject_secret_elements :: "json list \<Rightarrow> unit res" where
  "reject_secret_strings (JObj kvs) = reject_secret_items kvs"
| "reject_secret_strings (JList xs) = reject_secret_elements xs"
| "reject_secret_strings (JStr s) = rescue is_StateError ConfirmationValidationError (reject_secret_text s)"
| "reject_secret_strings JNull = Inr ()"
| "reject_secret_strings (JBool b) = Inr ()"
| "reject_secret_strings (JInt i) = Inr ()"
| "reject_secret_strings (JFloat r) = Inr ()"
| "reject_secret_items [] = Inr ()"
| "reject_secret_items ((key, nested) # rest) =
     bindr (reject_secret_text key) (\<lambda>_.
     bindr (reject_secret_strings nested) (\<lambda>_. reject_secret_items rest))"
| "reject_secret_elements [] = Inr ()"
| "reject_secret_elements (item # rest) =
     bindr (reject_secret_strings item) (\<lambda>_. reject_secret_elements rest)"

fun has_float :: "json \<Rightarrow> bool" where
  "has_float (JObj kvs) = list_ex (\<lambda>(k, v). has_float v) kvs"
| "has_float (JList xs) = list_ex has_float xs"
| "has_float (JFloat r) = True"
| "has_float v = False"

text \<open>\<open>_canonical_value\<close> sorts the keys and accepts no floating-point number.\<close>

definition canonical_value :: "json \<Rightarrow> json res" where
  "canonical_value v = bindr (require (\<not> has_float v) ConfirmationValidationError) (\<lambda>_. Inr (canon v))"

definition opt_text_json :: "string option \<Rightarrow> json" where
  "opt_text_json v = (case v of None \<Rightarrow> JNull | Some t \<Rightarrow> JStr t)"

definition operation_payload ::
  "CapabilityRequest \<Rightarrow> string \<Rightarrow> string option \<Rightarrow> string option \<Rightarrow> json \<Rightarrow> json \<Rightarrow> dict" where
  "operation_payload rq registry destination credential args scp =
     [(''schema_version'', JInt 1), (''registry_fingerprint'', JStr registry),
      (''capability_id'', JStr (rq_capability_id rq)), (''capability_version'', JStr (rq_version rq)),
      (''operation_id'', JStr (rq_operation_id rq)), (''session_id'', opt_text_json (rq_session_id rq)),
      (''actor_type'', JStr (rq_actor_type rq)), (''origin_class'', JStr (rq_origin_class rq)),
      (''arguments'', args),
      (''target'', JObj [(''kind'', JStr (target_kind (rq_target rq))),
                         (''identifier'', JStr (target_identifier (rq_target rq)))]),
      (''destination'', opt_text_json destination), (''side_effects'', set_json (rq_side_effects rq)),
      (''risk_tier'', JInt (rq_risk_tier rq)), (''permission_scope'', scp),
      (''resource_limits'', JObj [(''max_input_chars'', JInt (max_input_chars (rq_limits rq))),
         (''max_output_bytes'', JInt (max_output_bytes (rq_limits rq))), (''max_items'', JInt (max_items (rq_limits rq)))]),
      (''timeout_seconds'', JInt (rq_timeout rq)), (''cancellation_id'', opt_text_json (rq_cancellation_id rq)),
      (''credential_class'', opt_text_json credential)]"

definition confirmation_payload ::
  "CapabilityRequest \<Rightarrow> string \<Rightarrow> string option \<Rightarrow> string option \<Rightarrow> json res" where
  "confirmation_payload request registry destination credential =
     bindr (validate_request_envelope request) (\<lambda>rq.
     bindr (validate_fingerprint registry) (\<lambda>safe_registry.
     bindr (opt_res (confirmation_token MAX_CREDENTIAL_CLASS_LENGTH) credential) (\<lambda>safe_credential.
     bindr (reject_secret_strings (JObj (rq_arguments rq))) (\<lambda>_.
     bindr (reject_secret_strings (JObj (rq_scope rq))) (\<lambda>_.
     bindr (canonical_value (JObj (rq_arguments rq))) (\<lambda>args.
     bindr (canonical_value (JObj (rq_scope rq))) (\<lambda>scp.
     Inr (JObj (operation_payload rq safe_registry destination safe_credential args scp)))))))))"

definition confirmation_fingerprint ::
  "(string \<Rightarrow> string) \<Rightarrow> CapabilityRequest \<Rightarrow> string \<Rightarrow> string option \<Rightarrow> string option \<Rightarrow> string res" where
  "confirmation_fingerprint sha256_hex request registry destination credential =
     bindr (confirmation_payload request registry destination credential) (\<lambda>payload.
     Inr (make_fingerprint sha256_hex payload))"

section \<open>The request behind a confirmation\<close>

text \<open>\<open>validated_high_risk_binding\<close>: the envelope, its definition and the normalised destination.\<close>

definition high_risk_binding ::
  "(string \<Rightarrow> string option) \<Rightarrow> CapabilityRequest \<Rightarrow> CapabilityRegistry \<Rightarrow>
   (CapabilityRequest \<times> CapabilityDefinition \<times> string option) res" where
  "high_risk_binding unicode_idna request registry =
     (let err = ConfirmationValidationError in
     bindr (validate_request_envelope request) (\<lambda>rq.
     bindr (of_option err (registry_get registry (rq_capability_id rq) (rq_version rq))) (\<lambda>d.
     bindr (require (def_risk_tier d = HIGH_RISK) err) (\<lambda>_.
     bindr (require (release_available d) err) (\<lambda>_.
     bindr (require (\<not> (\<not> actor_matches_origin (rq_actor_type rq) (rq_origin_class rq) \<or>
                      rq_origin_class rq \<notin> allowed_request_origins d)) err) (\<lambda>_.
     bindr (require (arguments_match d (rq_arguments rq)) err) (\<lambda>_.
     bindr (require (target_matches unicode_idna (def_target d) (rq_target rq)) err) (\<lambda>_.
     bindr (of_option err (destination_for unicode_idna d rq)) (\<lambda>destination.
     bindr (require (rq_side_effects rq = def_side_effects d) err) (\<lambda>_.
     bindr (require (rq_risk_tier rq = 3) err) (\<lambda>_.
     bindr (require (\<not> (\<not> resource_limits_match (resource_contract d) (rq_limits rq) \<or>
                      \<not> declared_limits_cover_request rq)) err) (\<lambda>_.
     bindr (require (timeout_matches (resource_contract d) (rq_timeout rq)) err) (\<lambda>_.
     bindr (require (cancellation_matches d (rq_cancellation_id rq)) err) (\<lambda>_.
     bindr (of_option err (scope_of_request (rq_scope rq))) (\<lambda>scp.
     bindr (require (map_of scp ''kind'' = Some (JStr (permission_scope_kind d))) err) (\<lambda>_.
     bindr (bindings_match unicode_idna d rq destination scp) (\<lambda>bound.
     bindr (require bound err) (\<lambda>_.
     Inr (rq, d, destination)))))))))))))))))))"

definition confirmation_metadata ::
  "string \<Rightarrow> CapabilityRequest \<Rightarrow> CapabilityDefinition \<Rightarrow> string \<Rightarrow> string \<Rightarrow> string option \<Rightarrow> string \<Rightarrow> string \<Rightarrow>
   ConfirmationPreview \<Rightarrow> dict res" where
  "confirmation_metadata i rq d request_fp registry_fp destination decision expires p =
     bindr (case destination of None \<Rightarrow> Inr None
            | Some text \<Rightarrow> bindr (urlsplit text) (\<lambda>parsed. Inr (url_hostname parsed))) (\<lambda>host. Inr
     [(''confirmation_schema_version'', JInt 1), (''confirmation_id'', JStr i), (''decision'', JStr decision),
      (''request_fingerprint'', JStr request_fp), (''registry_fingerprint'', JStr registry_fp),
      (''capability_id'', JStr (rq_capability_id rq)), (''capability_version'', JStr (rq_version rq)),
      (''risk_tier'', JInt 3), (''target_kind'', JStr (target_kind (rq_target rq))),
      (''destination_host'', opt_text_json host), (''side_effects'', set_json (def_side_effects d)),
      (''auth_material_class'', opt_text_json (pv_credential_class p)),
      (''data_leaves_machine'', JBool (destination \<noteq> None)), (''irreversible'', JBool (pv_irreversible p)),
      (''recovery_available'', JBool (pv_recovery_description p \<noteq> None)), (''expires_at'', JStr expires),
      (''effect_summary'', JStr (pv_effect_summary p)), (''account_label'', opt_text_json (pv_account_label p)),
      (''recovery_description'', opt_text_json (pv_recovery_description p))])"

section \<open>Reading a history\<close>

definition metadata_string :: "dict \<Rightarrow> string \<Rightarrow> string res" where
  "metadata_string m key =
     (case map_of m key of
        None \<Rightarrow> Inl KeyError
      | Some (JStr value) \<Rightarrow> if value = [] then Inl ValueError else Inr value
      | Some _ \<Rightarrow> Inl ValueError)"

definition metadata_optional_string :: "dict \<Rightarrow> string \<Rightarrow> string option res" where
  "metadata_optional_string m key =
     (case map_of m key of
        None \<Rightarrow> Inr None
      | Some JNull \<Rightarrow> Inr None
      | Some (JStr value) \<Rightarrow> if value = [] then Inl ValueError else Inr (Some value)
      | Some _ \<Rightarrow> Inl ValueError)"

definition metadata_bool :: "dict \<Rightarrow> string \<Rightarrow> bool res" where
  "metadata_bool m key =
     (case map_of m key of None \<Rightarrow> Inl KeyError | Some (JBool b) \<Rightarrow> Inr b | Some _ \<Rightarrow> Inl ValueError)"

definition metadata_number :: "dict \<Rightarrow> string \<Rightarrow> int \<Rightarrow> unit res" where
  "metadata_number m key n =
     bindr (of_option KeyError (map_of m key)) (\<lambda>v. require (py_eq v (JInt n)) ValueError)"

definition metadata_effects :: "dict \<Rightarrow> string list res" where
  "metadata_effects m =
     bindr (of_option KeyError (map_of m ''side_effects'')) (\<lambda>v.
     case v of
       JList items \<Rightarrow> map_res (\<lambda>item. case item of JStr t \<Rightarrow> Inr t | _ \<Rightarrow> Inl ValueError) items
     | _ \<Rightarrow> Inl ValueError)"

definition is_issue_error :: "exc \<Rightarrow> bool" where
  "is_issue_error x \<longleftrightarrow> x = KeyError \<or> x = TypeError \<or> x = ValueError \<or> x = ConfirmationValidationError"

definition info_from_issue :: "AuditEvent \<Rightarrow> ConfirmationInfo res" where
  "info_from_issue ev = rescue is_issue_error ConfirmationCorruptError (
     let m = event_metadata ev in
     bindr (metadata_number m ''confirmation_schema_version'' 1) (\<lambda>_.
     bindr (metadata_string m ''confirmation_id'') (\<lambda>i.
     bindr (metadata_string m ''decision'') (\<lambda>decision.
     bindr (require (List.member [''approved'', ''denied''] decision) ValueError) (\<lambda>_.
     bindr (bindr (metadata_string m ''request_fingerprint'') validate_fingerprint) (\<lambda>request_fp.
     bindr (bindr (metadata_string m ''registry_fingerprint'') validate_fingerprint) (\<lambda>registry_fp.
     bindr (metadata_number m ''risk_tier'' 3) (\<lambda>_.
     bindr (metadata_effects m) (\<lambda>effects.
     bindr (metadata_string m ''capability_id'') (\<lambda>cap.
     bindr (metadata_string m ''capability_version'') (\<lambda>version.
     bindr (metadata_string m ''expires_at'') (\<lambda>expires.
     bindr (metadata_string m ''target_kind'') (\<lambda>kind.
     bindr (metadata_optional_string m ''destination_host'') (\<lambda>host.
     bindr (metadata_optional_string m ''auth_material_class'') (\<lambda>credential.
     bindr (metadata_bool m ''data_leaves_machine'') (\<lambda>leaves.
     bindr (metadata_bool m ''irreversible'') (\<lambda>irreversible.
     bindr (metadata_bool m ''recovery_available'') (\<lambda>recoverable.
     bindr (metadata_string m ''effect_summary'') (\<lambda>effect.
     bindr (metadata_optional_string m ''account_label'') (\<lambda>account.
     bindr (metadata_optional_string m ''recovery_description'') (\<lambda>recovery.
     Inr \<lparr>ci_confirmation_id = i, ci_operation_id = operation_id ev, ci_capability_id = cap,
          ci_capability_version = version, ci_request_fingerprint = request_fp,
          ci_registry_fingerprint = registry_fp, ci_decision = decision, ci_issued_at = occurred_at ev,
          ci_expires_at = expires, ci_target_kind = kind, ci_destination_host = host,
          ci_side_effects = effects, ci_credential_class = credential, ci_data_leaves_machine = leaves,
          ci_irreversible = irreversible, ci_recovery_available = recoverable, ci_effect_summary = effect,
          ci_account_label = account, ci_recovery_description = recovery\<rparr>)))))))))))))))))))))"

abbreviation events_of :: "string \<Rightarrow> AuditEvent list \<Rightarrow> AuditEvent list" where
  "events_of act events \<equiv> filter (\<lambda>ev. action ev = act) events"

definition lifecycle_event_ok :: "ConfirmationInfo \<Rightarrow> AuditEvent \<Rightarrow> bool" where
  "lifecycle_event_ok info ev \<longleftrightarrow>
     target_type ev = Some ''confirmation'' \<and> target_id ev = Some (ci_confirmation_id info) \<and>
     (if action ev = ''confirmation.issue'' then True
      else if action ev = ''confirmation.consume'' then
        List.member [''capability'', ''system''] (actor_type ev) \<and> result ev = ''success'' \<and>
        map_of (event_metadata ev) ''request_fingerprint'' = Some (JStr (ci_request_fingerprint info))
      else action ev = ''confirmation.revoke'' \<and> actor_type ev = ''user'' \<and> result ev = ''success'')"

definition validate_lifecycle_events :: "AuditEvent list \<Rightarrow> ConfirmationInfo \<Rightarrow> unit res" where
  "validate_lifecycle_events events info =
     bindr (require (\<not> (1 < length (events_of ''confirmation.consume'' events) \<or>
                      1 < length (events_of ''confirmation.revoke'' events))) ConfirmationCorruptError) (\<lambda>_.
     require (list_all (lifecycle_event_ok info) events) ConfirmationCorruptError)"

definition resolution_from_events ::
  "string \<Rightarrow> AuditEvent list \<Rightarrow> string \<Rightarrow> string \<Rightarrow> int \<Rightarrow> ConfirmationResolution res" where
  "resolution_from_events i events expected_op expected_fp now =
     (let answer = (\<lambda>reason info. Inr \<lparr>cr_confirmation_id = Some i, cr_reason = reason,
                      cr_request_fingerprint = expected_fp, cr_info = info\<rparr>) in
      if events = [] then answer ''missing'' None
      else case events_of ''confirmation.issue'' events of
        [issue] \<Rightarrow>
          bindr (require (\<not> (actor_type issue \<noteq> ''user'' \<or> target_id issue \<noteq> Some i)) ConfirmationCorruptError) (\<lambda>_.
          bindr (info_from_issue issue) (\<lambda>info.
          bindr (validate_lifecycle_events events info) (\<lambda>_.
          if operation_id issue \<noteq> expected_op \<or> ci_request_fingerprint info \<noteq> expected_fp
          then answer ''mismatch'' (Some info)
          else if events_of ''confirmation.revoke'' events \<noteq> [] then answer ''revoked'' (Some info)
          else if events_of ''confirmation.consume'' events \<noteq> [] then answer ''consumed'' (Some info)
          else if ci_decision info = ''denied'' \<or> result issue = ''denied'' then answer ''denied'' (Some info)
          else bindr (parse_utc (ci_expires_at info)) (\<lambda>expires.
               if expires \<le> now then answer ''expired'' (Some info)
               else answer ''approved'' (Some info)))))
      | _ \<Rightarrow> Inl ConfirmationCorruptError)"

section \<open>The service\<close>

definition confirmation_rows :: "string \<Rightarrow> repo \<Rightarrow> AuditRow list" where
  "confirmation_rows i s =
     sort_key sequence (filter (\<lambda>a. target_type a = Some ''confirmation'' \<and> target_id a = Some i \<and>
       List.member CONFIRMATION_ACTIONS (action a)) (audit_events s))"

definition confirmation_events :: "string \<Rightarrow> repo \<Rightarrow> AuditEvent list res" where
  "confirmation_events i s =
     (let rows = take (nat (MAX_CONFIRMATION_EVENTS + 1)) (confirmation_rows i s) in
      bindr (require (\<not> MAX_CONFIRMATION_EVENTS < int (length rows)) ConfirmationCorruptError) (\<lambda>_.
      rescue is_StateError ConfirmationCorruptError (map_res event_from_row rows)))"

definition require_confirmation_writable :: "repo \<Rightarrow> unit res" where
  "require_confirmation_writable s = require (\<not> read_only s) ConfirmationValidationError"

definition confirmation_row ::
  "env \<Rightarrow> string \<Rightarrow> string \<Rightarrow> string \<Rightarrow> string \<Rightarrow> string \<Rightarrow> json \<Rightarrow> AuditRow" where
  "confirmation_row e i op act res actor j =
     \<lparr>sequence = 0, event_id = event_uuid e, operation_id = op, occurred_at = event_now e,
      actor_type = actor, actor_id = None, action = act, target_type = Some ''confirmation'',
      target_id = Some i, result = res, summary = Some ''High-risk confirmation decision recorded'',
      error_class = None, event_metadata = Some j\<rparr>"

definition insert_confirmation_event ::
  "env \<Rightarrow> string \<Rightarrow> string \<Rightarrow> string \<Rightarrow> string \<Rightarrow> string \<Rightarrow> dict \<Rightarrow> repo \<Rightarrow> repo res" where
  "insert_confirmation_event e i op act res actor m s =
     bindr (confirmation_token 200 op) (\<lambda>safe_op.
     bindr (serialize_metadata_for_write m) (\<lambda>j.
     insert_event (confirmation_row e i safe_op act res actor j) s))"

text \<open>The common shape of the three writers: a transaction whose body reads the history, appends one
  event and advances the state revision, then the synchronisation of the workspace revision.\<close>

definition confirmation_write :: "env \<Rightarrow> (repo \<Rightarrow> ('a \<times> repo) res) \<Rightarrow> (repo, 'a) op" where
  "confirmation_write e body =
     bind_op (transaction (\<lambda>s. bindr (body s) (\<lambda>(v, t).
                bindr (commit_state_revision e t) (\<lambda>(n, u). Inr ((v, n), u)))))
       (\<lambda>(v, n). bind_op (sync_after_commit n) (\<lambda>_. lift_op (\<lambda>_. Inr v)))"

definition issue_body :: "env \<Rightarrow> string \<Rightarrow> string \<Rightarrow> string \<Rightarrow> dict \<Rightarrow> repo \<Rightarrow> (unit \<times> repo) res" where
  "issue_body e i op res m s =
     bindr (confirmation_events i s) (\<lambda>events.
     bindr (require (events = []) ConfirmationValidationError) (\<lambda>_.
     bindr (insert_confirmation_event e i op ''confirmation.issue'' res ''user'' m s) (\<lambda>t. Inr ((), t))))"

definition append_unique_issue :: "env \<Rightarrow> string \<Rightarrow> string \<Rightarrow> string \<Rightarrow> dict \<Rightarrow> (repo, unit) op" where
  "append_unique_issue e i op res m = confirmation_write e (issue_body e i op res m)"

definition confirmation_resolve ::
  "(string \<Rightarrow> string) \<Rightarrow> clock_value \<Rightarrow> string option \<Rightarrow> CapabilityRequest \<Rightarrow> string \<Rightarrow> string option \<Rightarrow>
   string option \<Rightarrow> repo \<Rightarrow> ConfirmationResolution res" where
  "confirmation_resolve sha256_hex clock confirmation request registry destination credential s =
     bindr (validate_request_envelope request) (\<lambda>rq.
     bindr (confirmation_fingerprint sha256_hex rq registry destination credential) (\<lambda>fp.
     case confirmation of
       None \<Rightarrow> Inr \<lparr>cr_confirmation_id = None, cr_reason = ''missing'', cr_request_fingerprint = fp, cr_info = None\<rparr>
     | Some i \<Rightarrow>
         bindr (confirmation_token MAX_CONFIRMATION_ID_LENGTH i) (\<lambda>safe.
         (case bindr (confirmation_events safe s) (\<lambda>events.
               bindr (safe_now clock) (\<lambda>now.
               resolution_from_events safe events (rq_operation_id rq) fp now)) of
            Inl x \<Rightarrow> if x = ConfirmationCorruptError
                      then Inr \<lparr>cr_confirmation_id = Some safe, cr_reason = ''corrupt'',
                                cr_request_fingerprint = fp, cr_info = None\<rparr>
                      else Inl x
          | Inr r \<Rightarrow> Inr r))))"

text \<open>What \<open>issue\<close> has determined before it writes.\<close>

definition prepare_issue ::
  "(string \<Rightarrow> string option) \<Rightarrow> (string \<Rightarrow> string) \<Rightarrow> clock_value \<Rightarrow> string option \<Rightarrow> CapabilityRequest \<Rightarrow>
   CapabilityRegistry \<Rightarrow> ConfirmationPreview \<Rightarrow> string \<Rightarrow> int \<Rightarrow> string \<Rightarrow> string \<Rightarrow> repo \<Rightarrow>
   (string \<times> CapabilityRequest \<times> string option \<times> string option \<times> dict) res" where
  "prepare_issue unicode_idna sha256_hex clock new_id request registry preview decision ttl actor origin s =
     bindr (require_user_confirmation actor origin) (\<lambda>_.
     bindr (require_confirmation_writable s) (\<lambda>_.
     bindr (high_risk_binding unicode_idna request registry) (\<lambda>(rq, d, destination).
     bindr (validate_preview preview) (\<lambda>safe_preview.
     bindr (require (List.member [''approved'', ''denied''] decision) ConfirmationValidationError) (\<lambda>_.
     bindr (validate_ttl ttl) (\<lambda>safe_ttl.
     bindr (expiry clock safe_ttl) (\<lambda>expires.
     bindr (confirmation_fingerprint sha256_hex rq (fingerprint registry) destination
              (pv_credential_class safe_preview)) (\<lambda>fp.
     bindr (case new_id of None \<Rightarrow> Inl ConfirmationValidationError
            | Some i \<Rightarrow> confirmation_token MAX_CONFIRMATION_ID_LENGTH i) (\<lambda>i.
     bindr (confirmation_metadata i rq d fp (fingerprint registry) destination decision (iso_utc expires)
              safe_preview) (\<lambda>m.
     Inr (i, rq, destination, pv_credential_class safe_preview, m)))))))))))"

text \<open>\<open>reload_clock\<close> is the clock call of the \<open>resolve\<close> with which \<open>issue\<close> ends.\<close>

definition confirmation_issue ::
  "(string \<Rightarrow> string option) \<Rightarrow> (string \<Rightarrow> string) \<Rightarrow> env \<Rightarrow> clock_value \<Rightarrow> clock_value \<Rightarrow> string option \<Rightarrow>
   CapabilityRequest \<Rightarrow> CapabilityRegistry \<Rightarrow> ConfirmationPreview \<Rightarrow> string \<Rightarrow> int \<Rightarrow> string \<Rightarrow> string \<Rightarrow>
   (repo, ConfirmationInfo) op" where
  "confirmation_issue unicode_idna sha256_hex e clock reload_clock new_id request registry preview decision ttl
       actor origin =
     bind_op (lift_op (prepare_issue unicode_idna sha256_hex clock new_id request registry preview decision ttl
                         actor origin))
     (\<lambda>(i, rq, destination, credential, m).
        bind_op (append_unique_issue e i (rq_operation_id rq)
                   (if decision = ''approved'' then ''success'' else ''denied'') m)
        (\<lambda>_. lift_op (\<lambda>s.
           bindr (confirmation_resolve sha256_hex reload_clock (Some i) rq (fingerprint registry) destination
                    credential s) (\<lambda>r.
           of_option ConfirmationCorruptError (cr_info r)))))"

definition consume_metadata :: "string \<Rightarrow> string \<Rightarrow> CapabilityRequest \<Rightarrow> dict" where
  "consume_metadata i fp rq =
     [(''confirmation_id'', JStr i), (''request_fingerprint'', JStr fp),
      (''capability_id'', JStr (rq_capability_id rq)), (''capability_version'', JStr (rq_version rq)),
      (''risk_tier'', JInt 3)]"

definition consume_body ::
  "env \<Rightarrow> clock_value \<Rightarrow> string \<Rightarrow> CapabilityRequest \<Rightarrow> string \<Rightarrow> string \<Rightarrow> repo \<Rightarrow> (ConfirmationInfo \<times> repo) res" where
  "consume_body e clock i rq fp actor s =
     bindr (confirmation_events i s) (\<lambda>events.
     bindr (safe_now clock) (\<lambda>now.
     bindr (resolution_from_events i events (rq_operation_id rq) fp now) (\<lambda>r.
     case (resolution_approved r, cr_info r) of
       (True, Some info) \<Rightarrow>
         bindr (insert_confirmation_event e i (rq_operation_id rq) ''confirmation.consume'' ''success'' actor
                  (consume_metadata i fp rq) s) (\<lambda>t. Inr (info, t))
     | _ \<Rightarrow> Inl ConfirmationUnavailableError)))"

definition confirmation_consume ::
  "(string \<Rightarrow> string) \<Rightarrow> env \<Rightarrow> clock_value \<Rightarrow> string \<Rightarrow> CapabilityRequest \<Rightarrow> string \<Rightarrow> string option \<Rightarrow>
   string option \<Rightarrow> string \<Rightarrow> (repo, ConfirmationInfo) op" where
  "confirmation_consume sha256_hex e clock confirmation request registry destination credential actor =
     bind_op (lift_op (\<lambda>s.
       bindr (require (List.member ALLOWED_CONFIRMATION_CONSUMERS actor) ForbiddenConfirmationMutationError) (\<lambda>_.
       bindr (require_confirmation_writable s) (\<lambda>_.
       bindr (validate_request_envelope request) (\<lambda>rq.
       bindr (confirmation_token MAX_CONFIRMATION_ID_LENGTH confirmation) (\<lambda>i.
       bindr (confirmation_fingerprint sha256_hex rq registry destination credential) (\<lambda>fp.
       Inr (i, rq, fp))))))))
     (\<lambda>(i, rq, fp). confirmation_write e (consume_body e clock i rq fp actor))"

definition revoke_body :: "env \<Rightarrow> string \<Rightarrow> string \<Rightarrow> repo \<Rightarrow> (unit \<times> repo) res" where
  "revoke_body e i op s =
     bindr (confirmation_events i s) (\<lambda>events.
     bindr (require (events \<noteq> []) KeyError) (\<lambda>_.
     bindr (require (events_of ''confirmation.revoke'' events = []) ConfirmationUnavailableError) (\<lambda>_.
     bindr (insert_confirmation_event e i op ''confirmation.revoke'' ''success'' ''user''
              [(''confirmation_id'', JStr i)] s) (\<lambda>t. Inr ((), t)))))"

definition confirmation_revoke :: "env \<Rightarrow> string \<Rightarrow> string \<Rightarrow> string \<Rightarrow> string \<Rightarrow> (repo, unit) op" where
  "confirmation_revoke e confirmation operation actor origin =
     bind_op (lift_op (\<lambda>s.
       bindr (require_user_confirmation actor origin) (\<lambda>_.
       bindr (require_confirmation_writable s) (\<lambda>_.
       bindr (confirmation_token MAX_CONFIRMATION_ID_LENGTH confirmation) (\<lambda>i.
       bindr (confirmation_token 200 operation) (\<lambda>op.
       Inr (i, op)))))))
     (\<lambda>(i, op). confirmation_write e (revoke_body e i op))"

end
