(* ===== verification/Capability_Laws.thy ===== *)
theory Capability_Laws
  imports Capabilities
begin

text \<open>
  What the capability boundary guarantees: a sealed registry holds only reviewed definitions and
  its fingerprint determines them, an authorised request meets every clause of the definition it
  names and rests on a stored permission, and every decision is audited.
\<close>

section \<open>The registry\<close>

lemma deny_not_authorized [simp]: "deny registry rq reason tier permission = Inr dec \<Longrightarrow> \<not> authorized dec"
  by (auto simp: deny_def make_decision_def)

definition definition_safe :: "CapabilityDefinition \<Rightarrow> bool" where
  "definition_safe d \<longleftrightarrow>
     (''process_execution'' \<in> def_side_effects d \<longrightarrow> def_risk_tier d = HIGH_RISK) \<and>
     (''network_read'' \<in> def_side_effects d \<longleftrightarrow> network_mode d = ''explicit_url'') \<and>
     def_side_effects d \<subseteq> allowed_side_effects \<and> allowed_request_origins d \<subseteq> ALLOWED_REQUEST_ORIGINS \<and>
     \<not> prohibited_capability (lower (def_capability_id d)) \<and>
     distinct (map arg_name (def_arguments d)) \<and>
     (\<forall>a \<in> set (def_arguments d). \<not> List.member PROHIBITED_ARGUMENT_NAMES (lower (arg_name a))) \<and>
     (binding_mode d = ''none'' \<longleftrightarrow> permission_scope_kind d = ''none'')"

lemma validate_argument_definitionD:
  "validate_argument_definition a = Inr b \<Longrightarrow> \<not> List.member PROHIBITED_ARGUMENT_NAMES (lower (arg_name b))"
  by (auto simp: validate_argument_definition_def Let_def)

lemma validate_argument_listD:
  "validate_argument_list names xs = Inr ys \<Longrightarrow>
     distinct (map arg_name ys) \<and> set names \<inter> set (map arg_name ys) = {} \<and>
     (\<forall>a \<in> set ys. \<not> List.member PROHIBITED_ARGUMENT_NAMES (lower (arg_name a)))"
proof (induction names xs arbitrary: ys rule: validate_argument_list.induct)
  case (2 names a rest)
  then show ?case by (fastforce dest: validate_argument_definitionD)
qed auto

lemma binding_contract_none:
  "binding_contract_ok b t args k n \<Longrightarrow> b = ''none'' \<longleftrightarrow> k = ''none''"
  by (auto simp: binding_contract_ok_def Let_def split: if_splits)

lemma validate_definition_safe:
  assumes "validate_definition d = Inr v"
  shows "definition_safe v"
proof -
  from assms obtain cap version args target kind resources descr where
    args: "validate_argument_list [] (def_arguments d) = Inr args"
    and d: "\<not> prohibited_capability (lower cap)" "def_side_effects d \<subseteq> allowed_side_effects"
      "\<not> (''process_execution'' \<in> def_side_effects d \<and> def_risk_tier d \<noteq> HIGH_RISK)"
      "binding_contract_ok (binding_mode d) target args kind (network_mode d)"
      "allowed_request_origins d \<subseteq> ALLOWED_REQUEST_ORIGINS"
      "if network_mode d = ''explicit_url'' then contract_kind target = ''url'' \<and> ''network_read'' \<in> def_side_effects d
       else ''network_read'' \<notin> def_side_effects d"
    and v: "\<lparr>def_capability_id = cap, def_version = version, def_risk_tier = def_risk_tier d, def_arguments = args,
          def_target = target, def_side_effects = def_side_effects d, permission_scope_kind = kind,
          network_mode = network_mode d, binding_mode = binding_mode d,
          allowed_request_origins = allowed_request_origins d, release_available = release_available d,
          resource_contract = resources, cancellation_required = cancellation_required d, def_description = descr\<rparr> = v"
    unfolding validate_definition_def Let_def bindr_eq_Inr require_eq_Inr sum.inject
    by (elim exE conjE) (rule that; assumption)
  show ?thesis
    using validate_argument_listD [OF args] d binding_contract_none [OF d(4)] unfolding v [symmetric]
    by (simp add: definition_safe_def split: if_splits)
qed

lemma register_allD:
  assumes "register_all acc ds = Inr entries" "distinct (map fst acc)"
    and "\<And>k v. (k, v) \<in> set acc \<Longrightarrow> k = (def_capability_id v, def_version v) \<and> definition_safe v"
  shows "distinct (map fst entries) \<and> length entries = length acc + length ds \<and>
    (\<forall>(k, v) \<in> set entries. k = (def_capability_id v, def_version v) \<and> definition_safe v)"
  using assms
proof (induction acc ds rule: register_all.induct)
  case (2 acc d rest)
  from "2.prems"(1) obtain safe where safe: "validate_definition d = Inr safe"
    "map_of acc (def_capability_id safe, def_version safe) = None"
    "register_all (acc @ [((def_capability_id safe, def_version safe), safe)]) rest = Inr entries"
    by (auto simp: Let_def)
  have "(def_capability_id safe, def_version safe) \<notin> fst ` set acc"
    using safe(2) by (simp add: map_of_eq_None_iff)
  then show ?case
    using "2.IH" [OF refl safe(3)] "2.prems"(2,3) safe(1,2) validate_definition_safe by fastforce
qed auto

lemma registry_entries:
  assumes "make_registry sha256_hex ds = Inr registry"
  shows "sorted (map fst (registered registry)) \<and> distinct (map fst (registered registry)) \<and>
    length (registered registry) = length ds \<and>
    (\<forall>(k, d) \<in> set (registered registry). k = (def_capability_id d, def_version d) \<and> definition_safe d)"
proof -
  obtain entries where e: "register_all [] ds = Inr entries" "registered registry = sort_key fst entries"
    using assms by (auto simp: make_registry_def Let_def)
  from register_allD [OF e(1)] show ?thesis
    by (auto simp: e(2) distinct_map_sort_key)
qed

lemma registry_get_iff:
  assumes "make_registry sha256_hex ds = Inr registry"
  shows "registry_get registry cap version = Some d \<longleftrightarrow>
    d \<in> set (registry_definitions registry) \<and> def_capability_id d = cap \<and> def_version d = version"
proof -
  note r = registry_entries [OF assms]
  have "registry_get registry cap version = Some d \<longleftrightarrow> ((cap, version), d) \<in> set (registered registry)"
    using r by (simp add: registry_get_def)
  then show ?thesis using r by (force simp: registry_definitions_def)
qed

text \<open>C24: a registry that has been built is sealed and holds only reviewed definitions. It has
  exactly the given number of entries, in strictly ascending order of identifier and version,
  and a lookup finds exactly the definition with that identifier and version. In every
  definition process execution means the highest risk tier, a network read means the explicit
  URL contract and conversely, the unbound scope means an unbound capability, no argument has
  an authority-changing name and no identifier names a generic shell or command runner.\<close>

theorem registry_sealed:
  assumes "make_registry sha256_hex ds = Inr registry"
  shows "sorted_wrt (<) (map fst (registered registry)) \<and> length (registry_definitions registry) = length ds \<and>
    (\<forall>d \<in> set (registry_definitions registry). definition_safe d) \<and>
    (\<forall>cap version d. registry_get registry cap version = Some d \<longleftrightarrow>
       d \<in> set (registry_definitions registry) \<and> def_capability_id d = cap \<and> def_version d = version)"
proof -
  note r = registry_entries [OF assms]
  have "sorted_wrt (<) (map fst (registered registry))" using r by (simp add: strict_sorted_iff)
  moreover have "\<forall>d \<in> set (registry_definitions registry). definition_safe d"
    using r by (force simp: registry_definitions_def)
  moreover have "length (registry_definitions registry) = length ds" using r by (simp add: registry_definitions_def)
  ultimately show ?thesis using registry_get_iff [OF assms] by blast
qed

section \<open>The fingerprint\<close>

text \<open>Two objects with the same canonical form agree field by field.\<close>

lemma canon_field:
  assumes "canon (JObj d) = canon (JObj e)" "distinct (map fst d)" "distinct (map fst e)"
  shows "map_option canon (map_of d k) = map_option canon (map_of e k)"
  using assms map_of_canon_dict [of d k] map_of_canon_dict [of e k] by simp

lemma opt_int_json_inject: "canon (opt_int_json a) = canon (opt_int_json b) \<longleftrightarrow> a = b"
  by (auto simp: opt_int_json_def split: option.splits)

lemma argument_payload_inject:
  assumes "canon (argument_payload a) = canon (argument_payload b)"
  shows "a = b"
proof -
  note f = canon_field [OF assms [unfolded argument_payload_def], simplified]
  show ?thesis
    using f [of "''name''"] f [of "''kind''"] f [of "''required''"] f [of "''maximum_length''"]
      f [of "''minimum_integer''"] f [of "''maximum_integer''"] f [of "''maximum_items''"]
    by (cases a, cases b) (simp add: opt_int_json_inject)
qed

lemma set_json_inject: "finite A \<Longrightarrow> finite B \<Longrightarrow> canon (set_json A) = canon (set_json B) \<Longrightarrow> A = B"
proof -
  assume fin: "finite A" "finite B" and eq: "canon (set_json A) = canon (set_json B)"
  have "map JStr (sorted_list_of_set A) = map JStr (sorted_list_of_set B)"
    using eq by (simp add: set_json_def comp_def)
  then have "sorted_list_of_set A = sorted_list_of_set B" by (simp add: inj_map_eq_map inj_def)
  then show "A = B" using fin by (metis set_sorted_list_of_set)
qed

lemma tier_number_inject: "tier_number a = tier_number b \<longleftrightarrow> a = b"
  by (cases a; cases b) simp_all

lemma definition_payload_keys: "distinct (map fst (definition_payload d))"
  by (simp add: definition_payload_def Let_def)

lemmas definition_payload_field = canon_field [OF _ definition_payload_keys definition_payload_keys]

lemma definition_payload_inject:
  assumes "canon (JObj (definition_payload d)) = canon (JObj (definition_payload e))" "definition_safe d" "definition_safe e"
  shows "d = e"
proof -
  have fin: "finite (def_side_effects x) \<and> finite (allowed_request_origins x)" if "definition_safe x" for x
    using that by (auto simp: definition_safe_def allowed_side_effects_def ALLOWED_REQUEST_ORIGINS_def intro: finite_subset)
  note f = definition_payload_field [OF assms(1)]
  have "canon (JList (map argument_payload (def_arguments d))) = canon (JList (map argument_payload (def_arguments e)))"
    using f [of "''arguments''"] by (simp add: definition_payload_def Let_def del: canon.simps)
  then have "map (\<lambda>a. canon (argument_payload a)) (def_arguments d) = map (\<lambda>a. canon (argument_payload a)) (def_arguments e)"
    by (simp add: comp_def)
  then have args: "def_arguments d = def_arguments e"
    by (rule map_injective) (auto intro: injI argument_payload_inject)
  have effects: "def_side_effects d = def_side_effects e"
    by (rule set_json_inject) (use f [of "''side_effects''"] fin assms(2,3) in
      \<open>simp_all add: definition_payload_def Let_def del: canon.simps\<close>)
  have origins: "allowed_request_origins d = allowed_request_origins e"
    by (rule set_json_inject) (use f [of "''allowed_request_origins''"] fin assms(2,3) in
      \<open>simp_all add: definition_payload_def Let_def del: canon.simps\<close>)
  have tc: "canon (JObj [(''kind'', JStr (contract_kind (def_target d))),
        (''maximum_identifier_length'', JInt (maximum_identifier_length (def_target d)))]) =
      canon (JObj [(''kind'', JStr (contract_kind (def_target e))),
        (''maximum_identifier_length'', JInt (maximum_identifier_length (def_target e)))])"
    using f [of "''target''"] by (simp add: definition_payload_def Let_def del: canon.simps)
  have target: "def_target d = def_target e"
    using canon_field [OF tc, of "''kind''"] canon_field [OF tc, of "''maximum_identifier_length''"]
    by (cases "def_target d", cases "def_target e") simp
  have rc: "canon (JObj [(''max_input_chars'', JInt (max_input_chars (resource_contract d))),
        (''max_output_bytes'', JInt (max_output_bytes (resource_contract d))),
        (''max_items'', JInt (max_items (resource_contract d))),
        (''max_timeout_seconds'', JInt (max_timeout_seconds (resource_contract d)))]) =
      canon (JObj [(''max_input_chars'', JInt (max_input_chars (resource_contract e))),
        (''max_output_bytes'', JInt (max_output_bytes (resource_contract e))),
        (''max_items'', JInt (max_items (resource_contract e))),
        (''max_timeout_seconds'', JInt (max_timeout_seconds (resource_contract e)))])"
    using f [of "''resource_contract''"] by (simp add: definition_payload_def Let_def del: canon.simps)
  have resources: "resource_contract d = resource_contract e"
    using canon_field [OF rc, of "''max_input_chars''"] canon_field [OF rc, of "''max_output_bytes''"]
      canon_field [OF rc, of "''max_items''"] canon_field [OF rc, of "''max_timeout_seconds''"]
    by (cases "resource_contract d", cases "resource_contract e") simp
  show ?thesis
    using args effects origins target resources f [of "''capability_id''"] f [of "''version''"] f [of "''risk_tier''"]
      f [of "''permission_scope_kind''"] f [of "''network_mode''"] f [of "''binding_mode''"]
      f [of "''release_available''"] f [of "''cancellation_required''"] f [of "''description''"]
    by (cases d, cases e) (simp add: tier_number_inject definition_payload_def Let_def)
qed

lemma definition_payload_wf: "wf_json (JObj (definition_payload d))"
  by (auto simp: definition_payload_def Let_def argument_payload_def opt_int_json_def set_json_def list_all_iff
      split: option.splits)

lemma make_fingerprint_inject:
  "make_fingerprint h a = make_fingerprint h b \<Longrightarrow> (h (encode a) = h (encode b) \<Longrightarrow> encode a = encode b) \<Longrightarrow>
     wf_json a \<Longrightarrow> wf_json b \<Longrightarrow> canon a = canon b"
  by (auto simp: make_fingerprint_def intro: encode_inject)

text \<open>C25: the fingerprint covers every field of every definition. Two registries with the same
  fingerprint hold the same definitions under the same keys, unless the hash function has a
  collision between their two payload texts.\<close>

theorem registry_fingerprint_binds:
  assumes "make_registry sha256_hex ds = Inr r" and "make_registry sha256_hex es = Inr q"
    and "fingerprint r = fingerprint q"
    and "sha256_hex (encode (registry_payload (registry_definitions r))) =
         sha256_hex (encode (registry_payload (registry_definitions q))) \<Longrightarrow>
       encode (registry_payload (registry_definitions r)) = encode (registry_payload (registry_definitions q))"
  shows "registered r = registered q"
proof -
  have fp: "fingerprint x = make_fingerprint sha256_hex (registry_payload (registry_definitions x))"
    if "make_registry sha256_hex xs = Inr x" for x xs
    using that by (auto simp: make_registry_def Let_def registry_definitions_def)
  have "wf_json (registry_payload (registry_definitions x))" for x
    using definition_payload_wf by (simp add: registry_payload_def list_all_iff)
  then have eq: "canon (registry_payload (registry_definitions r)) = canon (registry_payload (registry_definitions q))"
    using make_fingerprint_inject assms(3,4) fp [OF assms(1)] fp [OF assms(2)] by metis
  have "canon (JList (map (JObj \<circ> definition_payload) (registry_definitions r))) =
      canon (JList (map (JObj \<circ> definition_payload) (registry_definitions q)))"
    using canon_field [OF eq [unfolded registry_payload_def], of "''definitions''"] by (simp del: canon.simps)
  then have m: "map (\<lambda>d. canon (JObj (definition_payload d))) (registry_definitions r) =
      map (\<lambda>d. canon (JObj (definition_payload d))) (registry_definitions q)"
    by (simp add: comp_def del: canon.simps(2))
  have safe: "definition_safe d" if "d \<in> set (registry_definitions r) \<union> set (registry_definitions q)" for d
    using that registry_entries [OF assms(1)] registry_entries [OF assms(2)]
    by (force simp: registry_definitions_def)
  have same: "registry_definitions r = registry_definitions q"
    by (rule map_inj_on [OF m]) (auto intro!: inj_onI definition_payload_inject safe)
  have keys: "registered x = map (\<lambda>d. ((def_capability_id d, def_version d), d)) (registry_definitions x)"
    if "make_registry sha256_hex xs = Inr x" for x xs
    using registry_entries [OF that] unfolding registry_definitions_def map_map
    by (intro map_idI [symmetric]) auto
  show ?thesis unfolding keys [OF assms(1)] keys [OF assms(2)] same ..
qed

section \<open>Preflight\<close>

text \<open>What a request that names \<open>d\<close> has to satisfy, apart from permission and network policy.\<close>

definition meets_definition ::
  "(string \<Rightarrow> string option) \<Rightarrow> CapabilityDefinition \<Rightarrow> CapabilityRequest \<Rightarrow> string option \<Rightarrow> bool" where
  "meets_definition unicode_idna d rq destination \<longleftrightarrow>
     actor_matches_origin (rq_actor_type rq) (rq_origin_class rq) \<and>
     rq_origin_class rq \<in> allowed_request_origins d \<and> arguments_match d (rq_arguments rq) \<and>
     target_matches unicode_idna (def_target d) (rq_target rq) \<and>
     destination_for unicode_idna d rq = Some destination \<and>
     rq_side_effects rq = def_side_effects d \<and> rq_risk_tier rq = tier_number (def_risk_tier d) \<and>
     resource_limits_match (resource_contract d) (rq_limits rq) \<and> declared_limits_cover_request rq \<and>
     timeout_matches (resource_contract d) (rq_timeout rq) \<and>
     cancellation_matches d (rq_cancellation_id rq) \<and>
     map_of (rq_scope rq) ''kind'' = Some (JStr (permission_scope_kind d)) \<and>
     bindings_match unicode_idna d rq destination (rq_scope rq) = Inr True"

lemma deny_eq: "deny registry rq reason tier permission = Inr dec \<longleftrightarrow>
    dec = make_decision registry rq False reason tier permission None"
  unfolding deny_def sum.inject by (rule eq_commute)

lemma make_decision_sel [simp]:
  "authorized (make_decision registry rq ok reason tier permission destination) = ok"
  "permission_mode (make_decision registry rq ok reason tier permission destination) = permission"
  "normalized_destination (make_decision registry rq ok reason tier permission destination) = destination"
  "decided_risk_tier (make_decision registry rq ok reason tier permission destination) = tier"
  "decided_operation_id (make_decision registry rq ok reason tier permission destination) = rq_operation_id rq"
  by (simp_all add: make_decision_def)

lemma decide_networkD:
  assumes "decide_network registry policy d rq destination permission = Inr dec" "authorized dec"
  shows "dec = make_decision registry rq True ''authorized'' (Some (def_risk_tier d)) permission destination \<and>
    (network_mode d = ''explicit_url'' \<longrightarrow> (\<exists>u. destination = Some u \<and> network_allowed policy u = Inr True))"
  using assms by (auto simp: decide_network_def deny_eq split: if_splits option.splits)

lemma decide_permissionD:
  assumes "decide_permission registry policy resolve d rq destination scp = Inr dec" "authorized dec"
  shows "\<exists>permission. decide_network registry policy d rq destination permission = Inr dec \<and>
    (permission_scope_kind d \<noteq> ''none'' \<longrightarrow>
      (\<exists>p. resolve (def_capability_id d) scp = Inr p \<and> permission = Some (effective_mode p) \<and>
           effective_mode p \<in> {''allow_once'', ''scoped''}))"
  using assms by (auto simp: decide_permission_def Let_def deny_eq split: if_splits sum.splits)

lemma decide_requestD:
  assumes "decide_request unicode_idna registry policy resolve d rq = Inr dec" "authorized dec"
  shows "\<exists>destination. meets_definition unicode_idna d rq destination \<and> release_available d \<and>
    def_risk_tier d \<noteq> HIGH_RISK \<and>
    decide_permission registry policy resolve d rq destination (rq_scope rq) = Inr dec"
  using assms
  by (auto simp: decide_request_def meets_definition_def Let_def deny_eq scope_of_request_def
      split: if_splits option.splits json.splits)

lemma preflight_eq:
  "preflight unicode_idna registry policy resolve record_audit request s =
    (case validate_request_envelope request of
       Inl x \<Rightarrow> (Inl x, s)
     | Inr rq \<Rightarrow>
         (case decide unicode_idna registry policy (\<lambda>cap scp. resolve cap scp s) rq of
            Inl x \<Rightarrow> (Inl x, s)
          | Inr decision \<Rightarrow>
              (case record_audit (decision_audit rq decision) s of
                 (Inl x, t) \<Rightarrow> (Inl CapabilityAuditError, t)
               | (Inr ev, t) \<Rightarrow> (Inr decision, t))))"
  by (simp add: preflight_def bind_op_def lift_op_def rescue_op_def bindr_def split: sum.split prod.split)

lemma preflight_cases:
  assumes "preflight unicode_idna registry policy resolve record_audit request s = (res, t)"
  shows "(\<exists>x. res = Inl x \<and> t = s) \<or> (\<exists>rq dec r. validate_request_envelope request = Inr rq \<and>
    decide unicode_idna registry policy (\<lambda>cap scp. resolve cap scp s) rq = Inr dec \<and>
    record_audit (decision_audit rq dec) s = (r, t) \<and>
    res = (case r of Inl x \<Rightarrow> Inl CapabilityAuditError | Inr ev \<Rightarrow> Inr dec))"
proof (cases "validate_request_envelope request")
  case rq: (Inr rq)
  show ?thesis
  proof (cases "decide unicode_idna registry policy (\<lambda>cap scp. resolve cap scp s) rq")
    case dec: (Inr dec)
    obtain r u where a: "record_audit (decision_audit rq dec) s = (r, u)" by fastforce
    have "res = (case r of Inl x \<Rightarrow> Inl CapabilityAuditError | Inr ev \<Rightarrow> Inr dec)" "u = t"
      using assms unfolding preflight_eq rq dec a sum.case prod.case by (cases r; simp)+
    with rq dec a show ?thesis by blast
  next
    case dec: (Inl x)
    show ?thesis using assms unfolding preflight_eq rq dec sum.case by (intro disjI1) auto
  qed
next
  case rq: (Inl x)
  show ?thesis using assms unfolding preflight_eq rq sum.case by (intro disjI1) auto
qed

lemma preflight_result:
  assumes "preflight unicode_idna registry policy resolve record_audit request s = (Inr dec, t)"
  shows "\<exists>rq ev. validate_request_envelope request = Inr rq \<and>
    decide unicode_idna registry policy (\<lambda>cap scp. resolve cap scp s) rq = Inr dec \<and>
    record_audit (decision_audit rq dec) s = (Inr ev, t)"
  using assms by (auto simp: preflight_eq split: prod.splits sum.splits)

lemma capability_token_normal: "capability_token err n v = Inr w \<Longrightarrow> strip w = w \<and> w \<noteq> [] \<and> is_token w"
  by (auto simp: capability_token_def Let_def fullmatch_TOKEN_PATTERN)

lemma validate_request_envelopeD:
  assumes "validate_request_envelope request = Inr rq"
  shows "strip (rq_operation_id rq) = rq_operation_id rq \<and> rq_operation_id rq \<noteq> [] \<and>
    is_token (rq_operation_id rq) \<and> List.member REQUEST_ACTORS (rq_actor_type rq)"
  using assms by (auto simp: validate_request_envelope_def Let_def dest: capability_token_normal)

lemma decide_operation:
  assumes "decide unicode_idna registry policy resolve rq = Inr dec"
  shows "decided_operation_id dec = rq_operation_id rq"
  using assms
  by (auto simp: decide_def decide_request_def decide_permission_def decide_network_def Let_def deny_eq
      split: if_splits option.splits sum.splits)

section \<open>The two interfaces of the preflight service\<close>

text \<open>\<open>PermissionResolver\<close> and \<open>AuditRecorder\<close>. The resolver promises that a mode other than \<open>denied\<close>
  is granted in the state, the recorder that it appends what it is asked to or fails without an
  effect. What the preflight guarantees rests on these two laws only.\<close>

locale preflight_ports =
  fixes resolve :: "string \<Rightarrow> dict \<Rightarrow> 's \<Rightarrow> PermissionDecision res"
    and record_audit :: "audit_request \<Rightarrow> ('s, 'e) op"
    and well_formed :: "'s \<Rightarrow> bool"
    and granted :: "'s \<Rightarrow> string \<Rightarrow> dict \<Rightarrow> string \<Rightarrow> bool"
    and appended :: "audit_request \<Rightarrow> 's \<Rightarrow> 's \<Rightarrow> bool"
  assumes resolve_grants: "well_formed s \<Longrightarrow> resolve cap scp s = Inr p \<Longrightarrow> effective_mode p \<noteq> ''denied'' \<Longrightarrow>
      granted s cap scp (effective_mode p)"
    and record_appends: "well_formed s \<Longrightarrow> record_audit q s = (res, t) \<Longrightarrow> (isl res \<and> t = s) \<or> appended q s t"
begin

lemma authorized_request:
  assumes "well_formed s" "preflight unicode_idna registry policy resolve record_audit request s = (Inr dec, t)"
    and "authorized dec"
  shows "\<exists>rq d. validate_request_envelope request = Inr rq \<and>
    registry_get registry (rq_capability_id rq) (rq_version rq) = Some d \<and>
    meets_definition unicode_idna d rq (normalized_destination dec) \<and> release_available d \<and>
    def_risk_tier d \<noteq> HIGH_RISK \<and>
    (permission_scope_kind d \<noteq> ''none'' \<longrightarrow> (\<exists>m. permission_mode dec = Some m \<and> m \<in> {''allow_once'', ''scoped''} \<and>
       granted s (def_capability_id d) (rq_scope rq) m)) \<and>
    (network_mode d = ''explicit_url'' \<longrightarrow>
      (\<exists>u. normalized_destination dec = Some u \<and> network_allowed policy u = Inr True))"
proof -
  let ?resolve = "\<lambda>cap scp. resolve cap scp s"
  obtain rq where rq: "validate_request_envelope request = Inr rq"
    "decide unicode_idna registry policy ?resolve rq = Inr dec"
    using preflight_result [OF assms(2)] by blast
  obtain d where d: "registry_get registry (rq_capability_id rq) (rq_version rq) = Some d"
    "decide_request unicode_idna registry policy ?resolve d rq = Inr dec"
    using rq(2) assms(3) by (auto simp: decide_def deny_eq split: if_splits option.splits)
  obtain destination where m: "meets_definition unicode_idna d rq destination" "release_available d"
    "def_risk_tier d \<noteq> HIGH_RISK"
    "decide_permission registry policy ?resolve d rq destination (rq_scope rq) = Inr dec"
    using decide_requestD [OF d(2) assms(3)] by blast
  obtain permission where n: "decide_network registry policy d rq destination permission = Inr dec"
    "permission_scope_kind d \<noteq> ''none'' \<longrightarrow>
      (\<exists>p. ?resolve (def_capability_id d) (rq_scope rq) = Inr p \<and> permission = Some (effective_mode p) \<and>
           effective_mode p \<in> {''allow_once'', ''scoped''})"
    using decide_permissionD [OF m(4) assms(3)] by blast
  note net = decide_networkD [OF n(1) assms(3)]
  have "granted s (def_capability_id d) (rq_scope rq) (effective_mode p)"
    if "?resolve (def_capability_id d) (rq_scope rq) = Inr p" "effective_mode p \<in> {''allow_once'', ''scoped''}" for p
    using resolve_grants [OF assms(1) that(1)] that(2) by auto
  then show ?thesis using rq(1) d(1) m n(2) net by (intro exI [of _ rq] exI [of _ d]) auto
qed

lemma decision_recorded:
  assumes "well_formed s" "preflight unicode_idna registry policy resolve record_audit request s = (res, t)"
  shows "t = s \<and> isl res \<or> (\<exists>rq dec. validate_request_envelope request = Inr rq \<and>
    decided_operation_id dec = rq_operation_id rq \<and> appended (decision_audit rq dec) s t \<and>
    res \<in> {Inl CapabilityAuditError, Inr dec})"
  using preflight_cases [OF assms(2)]
proof
  assume "\<exists>rq dec r. validate_request_envelope request = Inr rq \<and>
    decide unicode_idna registry policy (\<lambda>cap scp. resolve cap scp s) rq = Inr dec \<and>
    record_audit (decision_audit rq dec) s = (r, t) \<and>
    res = (case r of Inl x \<Rightarrow> Inl CapabilityAuditError | Inr ev \<Rightarrow> Inr dec)"
  then obtain rq dec r where r: "validate_request_envelope request = Inr rq"
    "decide unicode_idna registry policy (\<lambda>cap scp. resolve cap scp s) rq = Inr dec"
    "record_audit (decision_audit rq dec) s = (r, t)"
    "res = (case r of Inl x \<Rightarrow> Inl CapabilityAuditError | Inr ev \<Rightarrow> Inr dec)"
    by blast
  have "decided_operation_id dec = rq_operation_id rq" by (rule decide_operation [OF r(2)])
  with record_appends [OF assms(1) r(3)] r show ?thesis by (cases r) auto
qed auto

end

text \<open>The permission service and the audit service provide the interfaces.\<close>

definition stored_grant :: "int \<Rightarrow> repo \<Rightarrow> string \<Rightarrow> dict \<Rightarrow> string \<Rightarrow> bool" where
  "stored_grant clock s cap scp m \<longleftrightarrow>
     (\<exists>row p sc. row \<in> set (records s) \<and> record_type row = ''permission'' \<and> rec_status row = ''active'' \<and>
        permission_get (rec_id row) s = Inr p \<and> validate_key cap = Inr (capability_id p) \<and>
        validate_scope scp = Inr sc \<and> dict_eq (scope p) sc \<and> mode p = m \<and>
        (\<forall>x. expires_at p = Some x \<longrightarrow> (\<exists>us. utc_micros x = Inr us \<and> clock < us)))"

definition audit_appended :: "env \<Rightarrow> audit_request \<Rightarrow> repo \<Rightarrow> repo \<Rightarrow> bool" where
  "audit_appended e q s t \<longleftrightarrow>
     (\<exists>row. prepare_append e q s = Inr row \<and> audit_events t = audit_events s @ [numbered row s] \<and>
        records t = records s \<and> state_revision t = state_revision s + 1)"

interpretation ports: preflight_ports "permission_resolve clock" "audit_append e" repo_ok "stored_grant clock"
    "audit_appended e" for clock e
proof unfold_locales
  fix s cap scp p
  assume "repo_ok s" "permission_resolve clock cap scp s = Inr p" "effective_mode p \<noteq> ''denied''"
  from resolve_granted [OF this] show "stored_grant clock s cap scp (effective_mode p)"
    unfolding stored_grant_def by blast
next
  fix s q res t
  assume "repo_ok s" "audit_append e q s = (res, t)"
  from audit_append_cases [OF this] show "(isl res \<and> t = s) \<or> audit_appended e q s t"
    unfolding audit_appended_def by blast
qed

lemma decision_row:
  assumes "validate_request_envelope request = Inr rq" "prepare_append e (decision_audit rq dec) s = Inr row"
  shows "action row = ''capability.preflight'' \<and> target_type row = Some ''capability_request'' \<and>
    result row = (if authorized dec then ''success'' else ''denied'') \<and> operation_id row = rq_operation_id rq"
proof -
  have tokens: "validate_token MAX_ACTION_LENGTH ''capability.preflight'' = Inr ''capability.preflight''"
    "validate_token MAX_ACTION_LENGTH ''capability_request'' = Inr ''capability_request''"
    by (rule plain_token_valid [OF _ subset_refl]; code_simp)+
  show ?thesis
    using assms(2) validate_request_envelopeD [OF assms(1)] tokens
    by (auto simp: prepare_append_def decision_audit_def Let_def validate_token_def)
qed

section \<open>What the default preflight guarantees\<close>

text \<open>C22: an authorised request is one that a reviewed, released definition below the highest tier
  describes exactly: origin, arguments, target, destination, side effects, tier, limits,
  timeout, cancellation and binding all match. No process execution is authorised. If the
  definition needs a permission, an active stored permission with mode \<open>allow_once\<close> or \<open>scoped\<close>,
  the same capability and an equal scope grants it and is not expired; if it uses the network,
  the policy admits the normalised destination.\<close>

theorem preflight_authorizes_exactly:
  assumes "repo_ok s" and "make_registry sha256_hex ds = Inr registry"
    and "default_preflight unicode_idna e clock registry policy request s = (Inr dec, t)" and "authorized dec"
  shows "\<exists>rq d. validate_request_envelope request = Inr rq \<and> d \<in> set (registry_definitions registry) \<and>
    def_capability_id d = rq_capability_id rq \<and> def_version d = rq_version rq \<and>
    release_available d \<and> def_risk_tier d \<noteq> HIGH_RISK \<and> ''process_execution'' \<notin> rq_side_effects rq \<and>
    meets_definition unicode_idna d rq (normalized_destination dec) \<and>
    (permission_scope_kind d \<noteq> ''none'' \<longrightarrow>
      (\<exists>m. permission_mode dec = Some m \<and> m \<in> {''allow_once'', ''scoped''} \<and>
         stored_grant clock s (rq_capability_id rq) (rq_scope rq) m)) \<and>
    (network_mode d = ''explicit_url'' \<longrightarrow>
      (\<exists>u. normalized_destination dec = Some u \<and> network_allowed policy u = Inr True))"
proof -
  obtain rq d where a: "validate_request_envelope request = Inr rq"
    "registry_get registry (rq_capability_id rq) (rq_version rq) = Some d"
    "meets_definition unicode_idna d rq (normalized_destination dec)" "release_available d" "def_risk_tier d \<noteq> HIGH_RISK"
    "permission_scope_kind d \<noteq> ''none'' \<longrightarrow> (\<exists>m. permission_mode dec = Some m \<and> m \<in> {''allow_once'', ''scoped''} \<and>
       stored_grant clock s (def_capability_id d) (rq_scope rq) m)"
    "network_mode d = ''explicit_url'' \<longrightarrow>
      (\<exists>u. normalized_destination dec = Some u \<and> network_allowed policy u = Inr True)"
    using ports.authorized_request [OF assms(1) assms(3) [unfolded default_preflight_def] assms(4)] by blast
  have reg: "d \<in> set (registry_definitions registry)" "def_capability_id d = rq_capability_id rq"
    "def_version d = rq_version rq" "definition_safe d"
    using registry_get_iff [OF assms(2)] registry_entries [OF assms(2)] a(2)
    by (force simp: registry_definitions_def)+
  have "''process_execution'' \<notin> rq_side_effects rq"
    using a(3,5) reg(4) by (auto simp: meets_definition_def definition_safe_def)
  with a reg show ?thesis by (intro exI [of _ rq] exI [of _ d]) simp
qed

text \<open>C23: every decision is audited. A call of the preflight that returns has appended exactly one
  event about the operation, \<open>success\<close> for an authorised request and \<open>denied\<close> otherwise. A call
  that raises has changed nothing, or the event was written and could not be read back. No
  record changes in any case.\<close>

theorem preflight_decisions_audited:
  assumes "repo_ok s" and "default_preflight unicode_idna e clock registry policy request s = (res, t)"
  shows "case res of
      Inl x \<Rightarrow> t = s \<or> (x = CapabilityAuditError \<and> records t = records s \<and>
        (\<exists>row. audit_events t = audit_events s @ [row] \<and> action row = ''capability.preflight''))
    | Inr dec \<Rightarrow> (\<exists>row. audit_events t = audit_events s @ [row] \<and> action row = ''capability.preflight'' \<and>
        result row = (if authorized dec then ''success'' else ''denied'') \<and>
        operation_id row = decided_operation_id dec \<and> target_type row = Some ''capability_request'' \<and>
        records t = records s \<and> state_revision t = state_revision s + 1)"
proof -
  from ports.decision_recorded [OF assms(1) assms(2) [unfolded default_preflight_def]] show ?thesis
  proof
    assume "\<exists>rq dec. validate_request_envelope request = Inr rq \<and> decided_operation_id dec = rq_operation_id rq \<and>
      audit_appended e (decision_audit rq dec) s t \<and> res \<in> {Inl CapabilityAuditError, Inr dec}"
    then obtain rq dec row where r: "validate_request_envelope request = Inr rq"
      "decided_operation_id dec = rq_operation_id rq" "prepare_append e (decision_audit rq dec) s = Inr row"
      "audit_events t = audit_events s @ [numbered row s]" "records t = records s"
      "state_revision t = state_revision s + 1" "res \<in> {Inl CapabilityAuditError, Inr dec}"
      unfolding audit_appended_def by blast
    with decision_row [OF r(1,3)] show ?thesis by auto
  qed (auto split: sum.splits)
qed

section \<open>Outbound policy and numeric hosts\<close>

text \<open>The restrictions on private and loopback destinations look at \<open>localhost\<close>, \<open>.local\<close> names and the
  texts that \<open>ipaddress\<close> reads. A host that is one decimal number, or has fewer than four
  parts, passes as a name, although resolvers read it as an IPv4 address: the two destinations
  here are \<open>127.0.0.1\<close>.\<close>

lemma numeric_loopback_passes:
  "\<exists>policy. make_network_policy (\<lambda>_. None) True {''https''} {} False = Inr policy \<and>
     network_allowed policy ''https://127.0.0.1/'' = Inr False \<and>
     normalize_url (\<lambda>_. None) ''https://127.1/'' = Some ''https://127.1/'' \<and>
     network_allowed policy ''https://127.1/'' = Inr True \<and>
     normalize_url (\<lambda>_. None) ''https://2130706433/'' = Some ''https://2130706433/'' \<and>
     network_allowed policy ''https://2130706433/'' = Inr True"
proof -
  let ?p = "\<lparr>net_enabled = True, allowed_schemes = {''https''}, allowed_hosts = {}, allow_subdomains = False\<rparr>"
  have "make_network_policy (\<lambda>_. None) True {''https''} {} False = Inr ?p" by code_simp
  moreover have "network_allowed ?p ''https://127.0.0.1/'' = Inr False" by code_simp
  moreover have "normalize_url (\<lambda>_. None) ''https://127.1/'' = Some ''https://127.1/''"
    "network_allowed ?p ''https://127.1/'' = Inr True" by code_simp+
  moreover have "normalize_url (\<lambda>_. None) ''https://2130706433/'' = Some ''https://2130706433/''"
    "network_allowed ?p ''https://2130706433/'' = Inr True" by code_simp+
  ultimately show ?thesis by blast
qed

section \<open>Concrete runs\<close>

definition sample_capability :: CapabilityDefinition where
  "sample_capability = hd built_in_definitions"

definition sample_registry :: CapabilityRegistry where
  "sample_registry =
     \<lparr>registered = [((''compute.transform'', ''1.0''), sample_capability)],
      fingerprint = make_fingerprint (\<lambda>text. text) (registry_payload [sample_capability])\<rparr>"

definition sample_operation :: CapabilityRequest where
  "sample_operation = \<lparr>rq_capability_id = ''compute.transform'', rq_version = ''1.0'', rq_operation_id = ''op1'',
     rq_actor_type = ''user'', rq_origin_class = ''current_user_instruction'',
     rq_arguments = [(''operation'', JStr ''b''), (''text'', JStr ''a'')],
     rq_target = \<lparr>target_kind = ''provided_data'', target_identifier = ''t''\<rparr>, rq_destination = None,
     rq_side_effects = {}, rq_risk_tier = 0, rq_scope = [(''kind'', JStr ''none'')],
     rq_limits = \<lparr>max_input_chars = 100, max_output_bytes = 10, max_items = 1\<rparr>, rq_timeout = 5,
     rq_session_id = None, rq_cancellation_id = None\<rparr>"

definition sample_policy :: OutboundNetworkPolicy where
  "sample_policy = \<lparr>net_enabled = False, allowed_schemes = {}, allowed_hosts = {}, allow_subdomains = False\<rparr>"

definition sample_verdict :: CapabilityPreflightDecision where
  "sample_verdict = make_decision sample_registry sample_operation True ''authorized'' (Some PURE_COMPUTATION) None None"

lemma sample_definition_valid:
  "validate_definition sample_capability = Inr sample_capability"
  "validate_definition (sample_capability\<lparr>def_capability_id := '' compute.transform ''\<rparr>) = Inr sample_capability"
  "(def_capability_id sample_capability, def_version sample_capability) = (''compute.transform'', ''1.0'')"
  by code_simp+

lemma sample_registry_made:
  "validate_definition d = Inr sample_capability \<Longrightarrow> make_registry (\<lambda>text. text) [d] = Inr sample_registry"
  using sample_definition_valid(3)
  by (simp add: make_registry_def sample_registry_def require_def MAX_CAPABILITY_DEFINITIONS_def Let_def)

lemma sample_request_decided:
  "validate_request_envelope sample_operation = Inr sample_operation"
  "decide_request (\<lambda>_. None) registry policy resolve sample_capability sample_operation =
     Inr (make_decision registry sample_operation True ''authorized'' (Some PURE_COMPUTATION) None None)"
  by code_simp+

lemma sample_decides: "decide (\<lambda>_. None) sample_registry policy resolve sample_operation = Inr sample_verdict"
proof -
  have "registry_get sample_registry (rq_capability_id sample_operation) (rq_version sample_operation) =
      Some sample_capability"
    "registry_versions sample_registry (rq_capability_id sample_operation) \<noteq> []"
    by (simp_all add: registry_get_def registry_versions_def sample_registry_def sample_operation_def)
  then show ?thesis by (simp add: decide_def sample_request_decided(2) sample_verdict_def)
qed

definition sample_metadata :: dict where
  "sample_metadata = [(''capability_id'', JStr ''compute.transform''), (''capability_version'', JStr ''1.0''),
     (''decision_reason'', JStr ''authorized''), (''origin_class'', JStr ''current_user_instruction''),
     (''risk_tier'', JInt 0), (''side_effect_count'', JInt 0), (''target_kind'', JStr ''provided_data'')]"

definition sample_decision_row :: AuditRow where
  "sample_decision_row = \<lparr>sequence = 0, event_id = sample_uuid, operation_id = ''op1'',
     occurred_at = ''2026-01-01T00:00:00Z'', actor_type = ''user'', actor_id = None,
     action = ''capability.preflight'', target_type = Some ''capability_request'', target_id = Some ''op1'',
     result = ''success'', summary = Some ''Capability preflight authorized'', error_class = None,
     event_metadata = Some (JObj sample_metadata)\<rparr>"

text \<open>A text in which no detector can find anything is a fixed point of the sanitiser.\<close>

definition quiet_text :: "string \<Rightarrow> bool" where
  "quiet_text s \<longleftrightarrow>
     list_all (\<lambda>d. if dead s (d_pattern d) then True else re_finditer (d_pattern d) s = []) DETECTORS \<and> re_finditer BARE_BEARER_PATTERN s = [] \<and> dead s REDACTION_MARKER_PATTERN \<and>
     dead s PRIVATE_ENVIRONMENT_ASSIGNMENT_PATTERN \<and> dead s POSIX_PATH_PATTERN \<and> dead s WINDOWS_PATH_PATTERN \<and>
     norm_ws s = s \<and> s \<noteq> [] \<and> length s \<le> 500"

lemma quiet_free_text:
  assumes "quiet_text s" "500 \<le> n"
  shows "sanitize_free_text s n = Inr s"
proof -
  note q = assms(1) [unfolded quiet_text_def]
  have len: "int (length s) \<le> MAX_CONFIGURED_SCAN_CHARS" using q by (simp add: MAX_CONFIGURED_SCAN_CHARS_def)
  have "list_all (\<lambda>d. re_finditer (d_pattern d) s = []) DETECTORS"
    using q dead_finditer [OF _ subset_refl] by (auto simp: list_all_iff split: if_splits)
  then obtain r where "redact_text s (max (int (length s)) 1) DEFAULT_MAX_FINDINGS = Inr r" "redacted_text r = s"
    using redact_text_quiet [OF _ _ len] q by auto
  then have "redact_unmarked_secret_text s = Inr s"
    using q by (simp add: redact_unmarked_secret_text_def re_sub_def)
  then show ?thesis
    using q assms(2) by (simp add: sanitize_free_text_def sanitize_secret_text_def dead_finditer [where A = s]
        dead_sub [where A = s] Let_def)
qed

lemma quiet_summary:
  assumes "quiet_text s"
  shows "sanitize_summary (Some s) = Inr (Some s)" "validate_stored_summary (Some s) = Inr (Some s)"
proof -
  note q = assms [unfolded quiet_text_def]
  have len: "int (length s) \<le> MAX_SUMMARY_LENGTH" using q by (simp add: MAX_SUMMARY_LENGTH_def)
  have "sanitize_free_text s MAX_SUMMARY_LENGTH = Inr s" by (rule quiet_free_text [OF assms]) (simp add: MAX_SUMMARY_LENGTH_def)
  then show "sanitize_summary (Some s) = Inr (Some s)" using q len by (simp add: sanitize_summary_def Let_def require_def)
  then show "validate_stored_summary (Some s) = Inr (Some s)"
    using q by (simp add: validate_stored_summary_def Let_def require_def)
qed

lemma sample_decision_parts:
  "validate_token MAX_ACTION_LENGTH ''capability.preflight'' = Inr ''capability.preflight''"
  "validate_token MAX_ACTION_LENGTH ''capability_request'' = Inr ''capability_request''"
  "validate_token MAX_IDENTIFIER_LENGTH ''op1'' = Inr ''op1''"
  by (rule plain_token_valid [OF _ subset_refl]; code_simp)+

lemma sample_decision_summary:
  "sanitize_summary (Some ''Capability preflight authorized'') = Inr (Some ''Capability preflight authorized'')"
  "validate_stored_summary (Some ''Capability preflight authorized'') = Inr (Some ''Capability preflight authorized'')"
  by (rule quiet_summary; code_simp)+

lemma sample_identifier: "validate_identifier ''op1'' = Inr ''op1''"
  by code_simp

lemma sample_metadata_plain:
  "list_all plain_entry sample_metadata" "distinct (map fst sample_metadata)"
  "int (length sample_metadata) \<le> MAX_METADATA_ITEMS" "all_finite (JObj sample_metadata)"
  "canon_dict sample_metadata = sample_metadata"
  "int (utf8_length (encode (JObj sample_metadata))) \<le> MAX_METADATA_BYTES"
  by code_simp+

lemma sample_audit_metadata:
  "\<exists>m. q_metadata (decision_audit sample_operation sample_verdict) = Some m \<and>
     serialize_metadata_for_write m = Inr (JObj sample_metadata)"
proof -
  let ?m = "[(''capability_id'', JStr ''compute.transform''), (''capability_version'', JStr ''1.0''),
     (''origin_class'', JStr ''current_user_instruction''), (''target_kind'', JStr ''provided_data''),
     (''risk_tier'', JInt 0), (''decision_reason'', JStr ''authorized''), (''side_effect_count'', JInt 0)]"
  have "q_metadata (decision_audit sample_operation sample_verdict) = Some ?m"
    by (simp add: decision_audit_def sample_verdict_def make_decision_def sample_operation_def)
  moreover have "set ?m \<subseteq> set sample_metadata" by (simp add: sample_metadata_def)
  then have "list_all plain_entry ?m" using sample_metadata_plain(1) by (auto simp: list_all_iff)
  then have "sanitize_metadata ?m = Inr ?m" by (rule sanitize_metadata_plain) (simp_all add: MAX_METADATA_ITEMS_def)
  moreover have "canon (JObj ?m) = JObj sample_metadata" by code_simp
  then have "canon (JObj ?m) = JObj sample_metadata" "encode (JObj ?m) = encode (JObj sample_metadata)"
    using encode_canon [of "JObj ?m"] by simp_all
  ultimately show ?thesis
    using sample_metadata_plain(6)
    by (simp add: serialize_metadata_for_write_def encode_metadata_def require_def del: canon.simps)
qed

lemma sample_prepare_decision:
  "prepare_append (sample_env sample_uuid) (decision_audit sample_operation sample_verdict) sample_repo =
     Inr sample_decision_row"
proof -
  obtain m where m: "q_metadata (decision_audit sample_operation sample_verdict) = Some m"
    "serialize_metadata_for_write m = Inr (JObj sample_metadata)"
    using sample_audit_metadata by blast
  have "require_audit_schema sample_repo = Inr ()" "\<not> read_only sample_repo" by code_simp+
  with m show ?thesis
    using sample_decision_parts sample_decision_summary sample_identifier
    by (simp add: prepare_append_def decision_audit_def sample_operation_def sample_verdict_def
        sample_decision_row_def sample_env_def make_decision_def capability_audit_actor_def safe_error_class_def
        validate_optional_identifier_def ALLOWED_ACTOR_TYPES_def ALLOWED_RESULTS_def require_def)
qed

lemma sample_preflight:
  "\<exists>t. default_preflight (\<lambda>_. None) (sample_env sample_uuid) 0 sample_registry sample_policy sample_operation sample_repo =
     (Inr sample_verdict, t)"
proof -
  have stored: "validate_stored_metadata sample_metadata = Inr sample_metadata"
    using sample_metadata_plain sanitize_metadata_plain [of sample_metadata]
    by (simp add: validate_stored_metadata_def encode_metadata_def dict_eq_def require_def del: canon.simps all_finite.simps)
  have row: "\<not> isl (event_from_row (numbered sample_decision_row sample_repo))"
    by (subst event_from_rowI [OF _ _ _ _ _ _ _ _ _ _ _ _ _ stored])
      (use sample_decision_parts sample_decision_summary sample_identifier sample_uuid_ok sample_clock_ok in
        \<open>simp_all add: sample_decision_row_def sample_repo_def validate_optional_identifier_def
           ALLOWED_ACTOR_TYPES_def ALLOWED_RESULTS_def\<close>)
  have env: "new_uuid (sample_env sample_uuid) = sample_uuid" "audit_events sample_repo = []"
    by (simp_all add: sample_env_def sample_repo_def)
  obtain t where "audit_append (sample_env sample_uuid) (decision_audit sample_operation sample_verdict) sample_repo =
      (event_from_row (numbered sample_decision_row sample_repo), t)"
    using audit_append_new [OF sample_repo_ok sample_prepare_decision] env sample_uuid_ok by auto
  with row show ?thesis
    unfolding default_preflight_def preflight_eq sample_request_decided(1) sample_decides sum.case
    by (cases "event_from_row (numbered sample_decision_row sample_repo)") auto
qed

theorem registry_sealed_witness:
  "\<exists>registry. built_in_capability_registry (\<lambda>text. text) = Inr registry \<and>
     length (registry_definitions registry) = 5 \<and> sorted_wrt (<) (map fst (registered registry)) \<and>
     (\<forall>d \<in> set (registry_definitions registry). definition_safe d)"
proof -
  have "\<not> isl (register_all [] built_in_definitions)" by code_simp
  then obtain entries where e: "register_all [] built_in_definitions = Inr entries"
    by (cases "register_all [] built_in_definitions") auto
  have len: "length built_in_definitions = 5" by (simp add: built_in_definitions_def)
  have "entries \<noteq> []" using register_allD [OF e] len by auto
  then obtain registry where "make_registry (\<lambda>text. text) built_in_definitions = Inr registry"
    using e len by (simp add: make_registry_def require_def MAX_CAPABILITY_DEFINITIONS_def Let_def)
  from registry_sealed [OF this] this show ?thesis using len by (auto simp: built_in_capability_registry_def)
qed

theorem registry_fingerprint_binds_witness:
  "\<exists>r q. make_registry (\<lambda>text. text) [sample_capability] = Inr r \<and>
     make_registry (\<lambda>text. text) [sample_capability\<lparr>def_capability_id := '' compute.transform ''\<rparr>] = Inr q \<and>
     registered r = registered q"
  using registry_fingerprint_binds [OF sample_registry_made [OF sample_definition_valid(1)]
      sample_registry_made [OF sample_definition_valid(2)] refl]
    sample_registry_made [OF sample_definition_valid(1)] sample_registry_made [OF sample_definition_valid(2)]
  by blast

theorem preflight_authorizes_exactly_witness:
  "\<exists>dec t d. default_preflight (\<lambda>_. None) (sample_env sample_uuid) 0 sample_registry sample_policy sample_operation
       sample_repo = (Inr dec, t) \<and> authorized dec \<and> d \<in> set (registry_definitions sample_registry) \<and>
     release_available d \<and> def_risk_tier d \<noteq> HIGH_RISK"
proof -
  obtain t where t: "default_preflight (\<lambda>_. None) (sample_env sample_uuid) 0 sample_registry sample_policy
      sample_operation sample_repo = (Inr sample_verdict, t)"
    using sample_preflight by blast
  have "authorized sample_verdict" by (simp add: sample_verdict_def)
  from preflight_authorizes_exactly [OF sample_repo_ok sample_registry_made [OF sample_definition_valid(1)] t this]
    t this show ?thesis by blast
qed

theorem preflight_decisions_audited_witness:
  "\<exists>dec t row. default_preflight (\<lambda>_. None) (sample_env sample_uuid) 0 sample_registry sample_policy sample_operation
       sample_repo = (Inr dec, t) \<and> audit_events t = [row] \<and> operation_id row = ''op1'' \<and> result row = ''success''"
proof -
  obtain t where t: "default_preflight (\<lambda>_. None) (sample_env sample_uuid) 0 sample_registry sample_policy
      sample_operation sample_repo = (Inr sample_verdict, t)"
    using sample_preflight by blast
  have "authorized sample_verdict" "decided_operation_id sample_verdict = ''op1''" "audit_events sample_repo = []"
    by (simp_all add: sample_verdict_def sample_operation_def sample_repo_def)
  with preflight_decisions_audited [OF sample_repo_ok t] t show ?thesis by auto
qed

end
