(* ===== verification/Confirmation_Laws.thy ===== *)
theory Confirmation_Laws
  imports Confirmation Capability_Laws
begin

text \<open>
  What the confirmation ledger guarantees: only the user opens a confirmation, and only for a
  released operation of the highest tier; a successful consumption rests on an approval of
  exactly this operation that is neither expired nor used; a confirmation that has been consumed
  or revoked stays closed in every later state; the fingerprint determines the operation. The
  samples at the end run a confirmation through its life.
\<close>

section \<open>One event for each call\<close>

text \<open>The state \<open>t\<close> differs from \<open>s\<close> by one event on the confirmation \<open>i\<close>.\<close>

definition recorded ::
  "env \<Rightarrow> string \<Rightarrow> string \<Rightarrow> string \<Rightarrow> string \<Rightarrow> string \<Rightarrow> repo \<Rightarrow> repo \<Rightarrow> bool" where
  "recorded e i op act res actor s t \<longleftrightarrow>
     (\<exists>safe j. confirmation_token 200 op = Inr safe \<and>
        audit_events t = audit_events s @ [numbered (confirmation_row e i safe act res actor j) s] \<and>
        records t = records s \<and> repo_ok t \<and> evolves s t \<and> state_revision t = state_revision s + 1)"

lemma confirmation_write_eq:
  "confirmation_write e body s =
     (case body s of
        Inl x \<Rightarrow> (Inl x, s)
      | Inr (v, u) \<Rightarrow> write_op e (\<lambda>s. bindr (body s) (\<lambda>(v, t). Inr t)) (\<lambda>_. Inr v) s)"
  by (simp add: confirmation_write_def write_op_def bind_op_def transaction_def bindr_def split: sum.split prod.split)

text \<open>The contract of the three bodies: whatever a body checks, all that it does is to append
  its event.\<close>

locale event_body =
  fixes body :: "repo \<Rightarrow> ('a \<times> repo) res" and e :: env and i op act res actor :: string
  assumes inserts: "body s = Inr (v, u) \<Longrightarrow> \<exists>m. insert_confirmation_event e i op act res actor m s = Inr u"
begin

lemma inserted_row:
  assumes "body s = Inr (v, u)"
  shows "\<exists>safe j. confirmation_token 200 op = Inr safe \<and>
    insert_event (confirmation_row e i safe act res actor j) s = Inr u"
  using inserts [OF assms] by (auto simp: insert_confirmation_event_def)

lemma write_cases:
  assumes "repo_ok s" "confirmation_write e body s = (r, t)"
  shows "(\<exists>x. body s = Inl x \<and> r = Inl x \<and> t = s) \<or>
    (\<exists>v u. body s = Inr (v, u) \<and> r = Inr v \<and> recorded e i op act res actor s t)"
proof (cases "body s")
  case (Inl x)
  with assms(2) show ?thesis by (simp add: confirmation_write_eq)
next
  case (Inr p)
  obtain v u where p: "p = (v, u)" by (cases p)
  obtain safe j where row: "confirmation_token 200 op = Inr safe"
    "insert_event (confirmation_row e i safe act res actor j) s = Inr u"
    using inserted_row Inr p by blast
  let ?row = "confirmation_row e i safe act res actor j"
  have w: "write_op e (insert_event ?row) (\<lambda>_. Inr v) s = (r, t)"
    using assms Inr p row(2)
    by (simp add: confirmation_write_eq append.write_op_eq write_op_def bind_op_def transaction_def)
  have "t = advance e u" "r = Inr v" using w row(2) by (auto simp: append.write_op_eq [OF assms(1)])
  moreover have "repo_ok t" "evolves s t"
    using append.write_op_ok [OF TrueI assms(1) w] append.write_op_evolves [OF assms(1) w] .
  moreover have "state_revision t = state_revision s + 1" using append.write_op_cases [OF assms(1) w] row(2) by auto
  ultimately show ?thesis
    using Inr p row insert_eventD [OF row(2)] unfolding recorded_def by auto
qed

end

interpretation issuing: event_body "issue_body e i op res m" e i op "''confirmation.issue''" res "''user''"
  for e i op res m
  by unfold_locales (auto simp: issue_body_def)

interpretation consuming: event_body "consume_body e clock i rq fp actor" e i "rq_operation_id rq"
    "''confirmation.consume''" "''success''" actor for e clock i rq fp actor
  by unfold_locales (auto simp: consume_body_def split: bool.splits option.splits)

interpretation revoking: event_body "revoke_body e i op" e i op "''confirmation.revoke''" "''success''" "''user''"
  for e i op
  by unfold_locales (auto simp: revoke_body_def)

section \<open>Reading a history\<close>

lemma confirmation_eventsD:
  assumes "confirmation_events i s = Inr events"
  shows "map_res event_from_row (confirmation_rows i s) = Inr events"
proof -
  have "length (take 33 (confirmation_rows i s)) \<le> 32"
    "map_res event_from_row (take 33 (confirmation_rows i s)) = Inr events"
    using assms by (auto simp: confirmation_events_def MAX_CONFIRMATION_EVENTS_def Let_def)
  then show ?thesis by (cases "length (confirmation_rows i s) \<le> 33") auto
qed

definition about_confirmation :: "string \<Rightarrow> AuditRow \<Rightarrow> bool" where
  "about_confirmation i row \<longleftrightarrow> target_type row = Some ''confirmation'' \<and> target_id row = Some i \<and>
     List.member CONFIRMATION_ACTIONS (action row)"

lemma set_confirmation_rows: "set (confirmation_rows i s) = {row \<in> set (audit_events s). about_confirmation i row}"
  by (auto simp: confirmation_rows_def about_confirmation_def)

lemma validate_token_strip: "validate_token n s = Inr t \<Longrightarrow> t = strip s"
  by (auto simp: validate_token_def Let_def)

lemma event_from_row_action: "event_from_row row = Inr ev \<Longrightarrow> action ev = strip (action row)"
  by (auto simp: event_from_row_def dest: validate_token_strip)

lemma strip_actions: "List.member CONFIRMATION_ACTIONS a \<Longrightarrow> strip a = a"
proof -
  have "list_all (\<lambda>a. strip a = a) CONFIRMATION_ACTIONS" by code_simp
  then show "List.member CONFIRMATION_ACTIONS a \<Longrightarrow> strip a = a" by (simp add: list_all_iff)
qed

lemma map_res_total: "map_res f xs = Inr ys \<Longrightarrow> x \<in> set xs \<Longrightarrow> \<exists>y. f x = Inr y"
  by (induction xs arbitrary: ys) auto

lemma set_map_res: "map_res f xs = Inr ys \<Longrightarrow> set ys = {y. \<exists>x \<in> set xs. f x = Inr y}"
  by (induction xs arbitrary: ys) auto

lemma confirmation_history:
  assumes "confirmation_events i s = Inr events"
  shows "(\<forall>row \<in> set (audit_events s). about_confirmation i row \<longrightarrow>
      (\<exists>ev \<in> set events. event_from_row row = Inr ev \<and> action ev = action row)) \<and>
    (\<forall>ev \<in> set events. \<exists>row \<in> set (audit_events s). about_confirmation i row \<and>
      event_from_row row = Inr ev \<and> action ev = action row)"
proof -
  note r = confirmation_eventsD [OF assms]
  have act: "action ev = action row" if "about_confirmation i row" "event_from_row row = Inr ev" for row ev
    using that event_from_row_action strip_actions by (simp add: about_confirmation_def)
  have "\<exists>ev. event_from_row row = Inr ev" if "row \<in> set (confirmation_rows i s)" for row
    using map_res_total [OF r that] .
  then show ?thesis
    using act set_map_res [OF r] unfolding set_confirmation_rows by blast
qed

text \<open>A closed confirmation has a consumption or a revocation among its events.\<close>

definition closed :: "string \<Rightarrow> repo \<Rightarrow> bool" where
  "closed i s \<longleftrightarrow> (\<exists>row \<in> set (audit_events s). about_confirmation i row \<and>
     action row \<in> {''confirmation.consume'', ''confirmation.revoke''})"

lemma closed_evolves: "closed i s \<Longrightarrow> evolves s t \<Longrightarrow> closed i t"
  by (auto simp: closed_def evolves_def)

lemma recorded_closes:
  "recorded e i op act res actor s t \<Longrightarrow> act \<in> {''confirmation.consume'', ''confirmation.revoke''} \<Longrightarrow> closed i t"
  by (auto simp: recorded_def closed_def about_confirmation_def confirmation_row_def CONFIRMATION_ACTIONS_def)

text \<open>What an approved resolution says about the history.\<close>

lemma approvedD:
  assumes "resolution_from_events i events op fp now = Inr r" "resolution_approved r"
  shows "\<exists>issue info expires. issue \<in> set events \<and> action issue = ''confirmation.issue'' \<and>
    actor_type issue = ''user'' \<and> target_id issue = Some i \<and> result issue \<noteq> ''denied'' \<and> operation_id issue = op \<and>
    info_from_issue issue = Inr info \<and> cr_info r = Some info \<and> ci_request_fingerprint info = fp \<and>
    ci_decision info \<noteq> ''denied'' \<and> parse_utc (ci_expires_at info) = Inr expires \<and> now < expires \<and>
    (\<forall>ev \<in> set events. action ev \<notin> {''confirmation.consume'', ''confirmation.revoke''})"
proof -
  have "events \<noteq> []" using assms by (auto simp: resolution_from_events_def resolution_approved_def)
  then obtain issue where i: "events_of ''confirmation.issue'' events = [issue]"
    using assms(1) by (auto simp: resolution_from_events_def split: list.splits)
  have "issue \<in> set (events_of ''confirmation.issue'' events)" unfolding i by simp
  then have issue: "issue \<in> set events" "action issue = ''confirmation.issue''" by simp_all
  obtain info where info: "actor_type issue = ''user''" "target_id issue = Some i" "info_from_issue issue = Inr info"
    using assms(1) \<open>events \<noteq> []\<close> unfolding resolution_from_events_def i by auto
  have r: "operation_id issue = op \<and> ci_request_fingerprint info = fp \<and>
    events_of ''confirmation.revoke'' events = [] \<and> events_of ''confirmation.consume'' events = [] \<and>
    ci_decision info \<noteq> ''denied'' \<and> result issue \<noteq> ''denied'' \<and>
    (\<exists>x. parse_utc (ci_expires_at info) = Inr x \<and> now < x) \<and> cr_info r = Some info"
    using assms \<open>events \<noteq> []\<close> info unfolding resolution_from_events_def i resolution_approved_def
    by (auto split: if_splits)
  then have "\<forall>ev \<in> set events. action ev \<notin> {''confirmation.consume'', ''confirmation.revoke''}"
    by (auto simp: filter_empty_conv)
  with r issue info show ?thesis by blast
qed

lemma closed_not_approved:
  assumes "closed i s" "confirmation_events i s = Inr events" "resolution_from_events i events op fp now = Inr r"
  shows "\<not> resolution_approved r"
  using approvedD [OF assms(3)] assms(1) confirmation_history [OF assms(2)] unfolding closed_def by fastforce

lemma info_decision: "info_from_issue ev = Inr info \<Longrightarrow> ci_decision info \<in> {''approved'', ''denied''}"
  by (auto simp: info_from_issue_def Let_def)

section \<open>What is checked before the event\<close>

lemma high_risk_bindingD:
  assumes "high_risk_binding unicode_idna request registry = Inr (rq, d, destination)"
  shows "validate_request_envelope request = Inr rq \<and>
    registry_get registry (rq_capability_id rq) (rq_version rq) = Some d \<and> def_risk_tier d = HIGH_RISK \<and>
    release_available d \<and> meets_definition unicode_idna d rq destination"
proof -
  have scp: "x = scp" if "scope_of_request scp = Some x" for scp x
    using that by (auto simp: scope_of_request_def split: option.splits json.splits if_splits)
  show ?thesis
    using assms unfolding high_risk_binding_def Let_def bindr_eq_Inr require_eq_Inr of_option_eq_Inr sum.inject prod.inject
    by (elim exE conjE) (frule scp, simp add: meets_definition_def)
qed

lemma prepare_issueD:
  assumes "prepare_issue unicode_idna sha256_hex clock new_id request registry preview decision ttl actor origin s =
      Inr (i, rq, destination, credential, m)"
  shows "actor = ''user'' \<and> origin = ''user_management_action'' \<and> \<not> read_only s \<and>
    decision \<in> {''approved'', ''denied''} \<and> 1 \<le> ttl \<and> ttl \<le> MAX_CONFIRMATION_TTL_SECONDS \<and>
    (\<exists>raw. new_id = Some raw \<and> confirmation_token MAX_CONFIRMATION_ID_LENGTH raw = Inr i) \<and>
    (\<exists>d. high_risk_binding unicode_idna request registry = Inr (rq, d, destination))"
  using assms
  by (auto simp: prepare_issue_def require_user_confirmation_def require_confirmation_writable_def validate_ttl_def
      split: option.splits)

lemma no_history: "confirmation_events i s = Inr [] \<Longrightarrow> row \<in> set (audit_events s) \<Longrightarrow> \<not> about_confirmation i row"
  using confirmation_history by fastforce

lemma bind_op_right: "bind_op m (\<lambda>_. lift_op f) s = (case m s of (Inl x, t) \<Rightarrow> (Inl x, t) | (Inr v, t) \<Rightarrow> (f t, t))"
  by (simp add: bind_op_def lift_op_def split: prod.split sum.split)

lemma confirmation_issue_cases:
  assumes "repo_ok s" and "confirmation_issue unicode_idna sha256_hex e clock reload_clock new_id request registry
      preview decision ttl actor origin s = (res, t)"
  shows "isl res \<and> t = s \<or> (\<exists>i rq destination credential m.
    prepare_issue unicode_idna sha256_hex clock new_id request registry preview decision ttl actor origin s =
      Inr (i, rq, destination, credential, m) \<and> confirmation_events i s = Inr [] \<and>
    recorded e i (rq_operation_id rq) ''confirmation.issue'' (if decision = ''approved'' then ''success'' else ''denied'')
      ''user'' s t)"
proof (cases "prepare_issue unicode_idna sha256_hex clock new_id request registry preview decision ttl actor origin s")
  case (Inl x)
  with assms(2) show ?thesis by (auto simp: confirmation_issue_def bind_lift)
next
  case (Inr p)
  obtain i rq destination credential m where p: "p = (i, rq, destination, credential, m)" by (cases p)
  let ?res = "if decision = ''approved'' then ''success'' else ''denied''"
  obtain r u where w: "confirmation_write e (issue_body e i (rq_operation_id rq) ?res m) s = (r, u)" by fastforce
  have t: "u = t" "isl r \<longrightarrow> isl res"
    using assms(2) Inr p w
    by (auto simp: confirmation_issue_def bind_lift append_unique_issue_def bind_op_right split: sum.splits)
  have "isl r \<and> t = s \<or> (confirmation_events i s = Inr [] \<and>
      recorded e i (rq_operation_id rq) ''confirmation.issue'' ?res ''user'' s t)"
    using issuing.write_cases [OF assms(1) w [unfolded t(1)]] by (auto simp: issue_body_def)
  then show ?thesis using Inr p t(2) by blast
qed

text \<open>Only the user opens a confirmation. A call of \<open>issue\<close> has changed nothing and raised, or it
  was made by the user as a management action, for an identifier without any history, for a
  request that a registered, released definition of the highest tier describes exactly, with a
  lifetime of at most ten minutes, and it has appended one event with the decision in the name of the
  user. No record changes.\<close>

theorem confirmation_issued_by_user:
  assumes "repo_ok s" and "confirmation_issue unicode_idna sha256_hex e clock reload_clock new_id request registry
      preview decision ttl actor origin s = (res, t)"
  shows "isl res \<and> t = s \<or>
    actor = ''user'' \<and> origin = ''user_management_action'' \<and> \<not> read_only s \<and> 1 \<le> ttl \<and> ttl \<le> 600 \<and>
    (\<exists>i rq d destination. validate_request_envelope request = Inr rq \<and>
      registry_get registry (rq_capability_id rq) (rq_version rq) = Some d \<and> def_risk_tier d = HIGH_RISK \<and>
      release_available d \<and> meets_definition unicode_idna d rq destination \<and>
      (\<forall>row \<in> set (audit_events s). \<not> about_confirmation i row) \<and>
      (decision = ''approved'' \<and> recorded e i (rq_operation_id rq) ''confirmation.issue'' ''success'' ''user'' s t \<or>
       decision = ''denied'' \<and> recorded e i (rq_operation_id rq) ''confirmation.issue'' ''denied'' ''user'' s t))"
  using confirmation_issue_cases [OF assms]
proof
  assume "\<exists>i rq destination credential m.
    prepare_issue unicode_idna sha256_hex clock new_id request registry preview decision ttl actor origin s =
      Inr (i, rq, destination, credential, m) \<and> confirmation_events i s = Inr [] \<and>
    recorded e i (rq_operation_id rq) ''confirmation.issue'' (if decision = ''approved'' then ''success'' else ''denied'')
      ''user'' s t"
  then obtain i rq destination credential m where
    p: "prepare_issue unicode_idna sha256_hex clock new_id request registry preview decision ttl actor origin s =
      Inr (i, rq, destination, credential, m)" "confirmation_events i s = Inr []"
      "recorded e i (rq_operation_id rq) ''confirmation.issue'' (if decision = ''approved'' then ''success'' else ''denied'')
        ''user'' s t"
    by blast
  note q = prepare_issueD [OF p(1)]
  then obtain d where "high_risk_binding unicode_idna request registry = Inr (rq, d, destination)" by blast
  with q p(3) no_history [OF p(2)] show ?thesis
    by (intro disjI2) (auto dest!: high_risk_bindingD simp: MAX_CONFIRMATION_TTL_SECONDS_def split: if_splits)
qed blast

section \<open>Consumption and revocation\<close>

lemma confirmation_consume_cases:
  assumes "repo_ok s" and "confirmation_consume sha256_hex e clock confirmation request registry destination credential
      actor s = (res, t)"
  shows "isl res \<and> t = s \<or> (\<exists>i rq fp info. res = Inr info \<and>
    List.member ALLOWED_CONFIRMATION_CONSUMERS actor \<and> \<not> read_only s \<and>
    validate_request_envelope request = Inr rq \<and>
    confirmation_token MAX_CONFIRMATION_ID_LENGTH confirmation = Inr i \<and>
    confirmation_fingerprint sha256_hex rq registry destination credential = Inr fp \<and>
    (\<exists>u. consume_body e clock i rq fp actor s = Inr (info, u)) \<and>
    recorded e i (rq_operation_id rq) ''confirmation.consume'' ''success'' actor s t)"
proof -
  let ?checks = "\<lambda>s. bindr (require (List.member ALLOWED_CONFIRMATION_CONSUMERS actor) ForbiddenConfirmationMutationError) (\<lambda>_.
       bindr (require_confirmation_writable s) (\<lambda>_.
       bindr (validate_request_envelope request) (\<lambda>rq.
       bindr (confirmation_token MAX_CONFIRMATION_ID_LENGTH confirmation) (\<lambda>i.
       bindr (confirmation_fingerprint sha256_hex rq registry destination credential) (\<lambda>fp.
       Inr (i, rq, fp))))))"
  show ?thesis
  proof (cases "?checks s")
    case (Inl x)
    with assms(2) show ?thesis by (auto simp: confirmation_consume_def bind_lift)
  next
    case (Inr p)
    obtain i rq fp where p: "p = (i, rq, fp)" by (cases p)
    have "confirmation_write e (consume_body e clock i rq fp actor) s = (res, t)"
      using assms(2) Inr p by (simp add: confirmation_consume_def bind_lift)
    from consuming.write_cases [OF assms(1) this] show ?thesis
      using Inr p by (auto simp: require_confirmation_writable_def)
  qed
qed

lemma confirmation_revoke_cases:
  assumes "repo_ok s" and "confirmation_revoke e confirmation operation actor origin s = (res, t)"
  shows "isl res \<and> t = s \<or> (\<exists>i op. actor = ''user'' \<and> origin = ''user_management_action'' \<and> \<not> read_only s \<and>
    confirmation_token MAX_CONFIRMATION_ID_LENGTH confirmation = Inr i \<and>
    recorded e i op ''confirmation.revoke'' ''success'' ''user'' s t)"
proof -
  let ?checks = "\<lambda>s. bindr (require_user_confirmation actor origin) (\<lambda>_.
       bindr (require_confirmation_writable s) (\<lambda>_.
       bindr (confirmation_token MAX_CONFIRMATION_ID_LENGTH confirmation) (\<lambda>i.
       bindr (confirmation_token 200 operation) (\<lambda>op.
       Inr (i, op)))))"
  show ?thesis
  proof (cases "?checks s")
    case (Inl x)
    with assms(2) show ?thesis by (auto simp: confirmation_revoke_def bind_lift)
  next
    case (Inr p)
    obtain i op where p: "p = (i, op)" by (cases p)
    have "confirmation_write e (revoke_body e i op) s = (res, t)"
      using assms(2) Inr p by (simp add: confirmation_revoke_def bind_lift)
    from revoking.write_cases [OF assms(1) this] show ?thesis
      using Inr p by (auto simp: require_confirmation_writable_def require_user_confirmation_def)
  qed
qed

lemma consume_bodyD:
  assumes "consume_body e clock i rq fp actor s = Inr (info, u)"
  shows "\<exists>events now r. confirmation_events i s = Inr events \<and> safe_now clock = Inr now \<and>
    resolution_from_events i events (rq_operation_id rq) fp now = Inr r \<and> resolution_approved r \<and> cr_info r = Some info"
  using assms by (auto simp: consume_body_def split: bool.splits option.splits)

lemma consumed_open: "consume_body e clock i rq fp actor s = Inr (info, u) \<Longrightarrow> \<not> closed i s"
  using consume_bodyD closed_not_approved by blast

text \<open>C26: a consumption rests on an exact approval. When \<open>consume\<close> returns, the caller was the
  capability broker or the core system, and the table holds one approval of the user for this
  identifier whose stored fingerprint is that of the given request, for the operation that the request
  names; it has not expired and was neither consumed nor revoked. The call has appended the
  consumption, and changed no record.\<close>

theorem consume_needs_exact_approval:
  assumes "repo_ok s" and "confirmation_consume sha256_hex e clock confirmation request registry destination credential
      actor s = (Inr info, t)"
  shows "\<exists>i rq fp row issue now expires.
    actor \<in> {''capability'', ''system''} \<and> confirmation_token MAX_CONFIRMATION_ID_LENGTH confirmation = Inr i \<and>
    validate_request_envelope request = Inr rq \<and>
    confirmation_fingerprint sha256_hex rq registry destination credential = Inr fp \<and>
    row \<in> set (audit_events s) \<and> event_from_row row = Inr issue \<and> target_id issue = Some i \<and>
    action issue = ''confirmation.issue'' \<and> actor_type issue = ''user'' \<and> operation_id issue = rq_operation_id rq \<and>
    info_from_issue issue = Inr info \<and> ci_decision info = ''approved'' \<and> ci_request_fingerprint info = fp \<and>
    safe_now clock = Inr now \<and> parse_utc (ci_expires_at info) = Inr expires \<and> now < expires \<and> \<not> closed i s \<and>
    recorded e i (rq_operation_id rq) ''confirmation.consume'' ''success'' actor s t"
proof -
  obtain i rq fp u where c: "List.member ALLOWED_CONFIRMATION_CONSUMERS actor" "validate_request_envelope request = Inr rq"
    "confirmation_token MAX_CONFIRMATION_ID_LENGTH confirmation = Inr i"
    "confirmation_fingerprint sha256_hex rq registry destination credential = Inr fp"
    "consume_body e clock i rq fp actor s = Inr (info, u)"
    "recorded e i (rq_operation_id rq) ''confirmation.consume'' ''success'' actor s t"
    using confirmation_consume_cases [OF assms] by auto
  obtain events now r where h: "confirmation_events i s = Inr events" "safe_now clock = Inr now"
    "resolution_from_events i events (rq_operation_id rq) fp now = Inr r" "resolution_approved r" "cr_info r = Some info"
    using consume_bodyD [OF c(5)] by blast
  obtain issue expires where a: "issue \<in> set events" "action issue = ''confirmation.issue''" "actor_type issue = ''user''"
    "target_id issue = Some i" "operation_id issue = rq_operation_id rq" "info_from_issue issue = Inr info"
    "ci_request_fingerprint info = fp" "ci_decision info \<noteq> ''denied''" "parse_utc (ci_expires_at info) = Inr expires"
    "now < expires"
    using approvedD [OF h(3,4)] h(5) by auto
  obtain row where "row \<in> set (audit_events s)" "event_from_row row = Inr issue"
    using confirmation_history [OF h(1)] a(1) by blast
  moreover have "actor \<in> {''capability'', ''system''}" "ci_decision info = ''approved''"
    using c(1) info_decision [OF a(6)] a(8) by (auto simp: ALLOWED_CONFIRMATION_CONSUMERS_def)
  ultimately show ?thesis using a c h(2) consumed_open [OF c(5)] by blast
qed

lemma resolve_closed:
  assumes "closed i s" "confirmation_token MAX_CONFIRMATION_ID_LENGTH confirmation = Inr i"
    and "confirmation_resolve sha256_hex clock (Some confirmation) request registry destination credential s = Inr r"
  shows "\<not> resolution_approved r"
proof -
  have no: "cr_reason r \<noteq> ''approved''"
    if "confirmation_events i s = Inr events" "resolution_from_events i events op fp now = Inr r" for events op fp now r
    using closed_not_approved [OF assms(1) that] by (simp add: resolution_approved_def)
  let ?read = "\<lambda>(rq :: CapabilityRequest) fp. bindr (confirmation_events i s) (\<lambda>events.
    bindr (safe_now clock) (\<lambda>now. resolution_from_events i events (rq_operation_id rq) fp now))"
  obtain rq fp where q: "(case ?read rq fp of
      Inl x \<Rightarrow> if x = ConfirmationCorruptError
               then Inr \<lparr>cr_confirmation_id = Some i, cr_reason = ''corrupt'', cr_request_fingerprint = fp, cr_info = None\<rparr>
               else Inl x
    | Inr r \<Rightarrow> Inr r) = Inr r"
    using assms(3) unfolding confirmation_resolve_def option.case assms(2) bindr_Inr bindr_eq_Inr
    by (elim exE conjE) (erule that)
  show ?thesis
  proof (cases "?read rq fp")
    case (Inr x)
    with q no show ?thesis by (auto simp: resolution_approved_def)
  qed (use q in \<open>auto simp: resolution_approved_def split: if_splits\<close>)
qed

text \<open>C27: a confirmation is used at most once. After a successful consumption or revocation, in every
  well-formed state whose tables have evolved from the result (records kept with growing revisions,
  events only appended, which is all that any modelled call can do to them), the identifier is never
  resolved as approved, no further consumption succeeds, whatever request it names, and no call of
  \<open>issue\<close> can open it again; the refused calls change nothing.\<close>

theorem closed_confirmation_stays_closed:
  assumes "repo_ok s"
    and "confirmation_consume sha256_hex e clock confirmation request registry destination credential actor s =
           (Inr info, t) \<or>
         confirmation_revoke e confirmation operation actor origin s = (Inr (), t)"
    and "repo_ok u" and "evolves t u"
  shows "(confirmation_resolve sha256_hex' clock' (Some confirmation) request' registry' destination' credential' u = Inr r
       \<longrightarrow> \<not> resolution_approved r) \<and>
    (confirmation_consume sha256_hex' e' clock' confirmation request' registry' destination' credential' actor' u = (res, v)
       \<longrightarrow> isl res \<and> v = u) \<and>
    (confirmation_issue unicode_idna' sha256_hex' e' clock' reload' (Some confirmation) request' reg' preview' decision'
         ttl' actor' origin' u = (ires, w) \<longrightarrow> isl ires \<and> w = u)"
proof -
  have "\<exists>i. confirmation_token MAX_CONFIRMATION_ID_LENGTH confirmation = Inr i \<and> closed i t"
    using assms(2)
  proof
    assume "confirmation_consume sha256_hex e clock confirmation request registry destination credential actor s = (Inr info, t)"
    from confirmation_consume_cases [OF assms(1) this] show ?thesis by (auto dest: recorded_closes)
  next
    assume "confirmation_revoke e confirmation operation actor origin s = (Inr (), t)"
    from confirmation_revoke_cases [OF assms(1) this] show ?thesis by (auto dest: recorded_closes)
  qed
  then obtain i where i: "confirmation_token MAX_CONFIRMATION_ID_LENGTH confirmation = Inr i" "closed i u"
    using closed_evolves assms(4) by blast
  have "isl res \<and> v = u" if "confirmation_consume sha256_hex' e' clock' confirmation request' registry' destination'
      credential' actor' u = (res, v)"
    using confirmation_consume_cases [OF assms(3) that] consumed_open i by fastforce
  moreover have "isl ires \<and> w = u" if "confirmation_issue unicode_idna' sha256_hex' e' clock' reload' (Some confirmation)
      request' reg' preview' decision' ttl' actor' origin' u = (ires, w)"
    using confirmation_issue_cases [OF assms(3) that]
  proof
    assume "\<exists>i rq destination credential m. prepare_issue unicode_idna' sha256_hex' clock' (Some confirmation) request' reg'
        preview' decision' ttl' actor' origin' u = Inr (i, rq, destination, credential, m) \<and>
      confirmation_events i u = Inr [] \<and> recorded e' i (rq_operation_id rq) ''confirmation.issue''
        (if decision' = ''approved'' then ''success'' else ''denied'') ''user'' u w"
    then have "confirmation_events i u = Inr []" using prepare_issueD i(1) by fastforce
    then show ?thesis using i(2) no_history unfolding closed_def by blast
  qed
  ultimately show ?thesis using resolve_closed [OF i(2,1)] by blast
qed

section \<open>The fingerprint of an operation\<close>

lemma no_float_wf: "\<not> has_float v \<Longrightarrow> wf_json v"
  by (induction v rule: has_float.induct) (auto simp: list_all_iff list_ex_iff)

lemma opt_text_json_inject: "canon (opt_text_json a) = canon (opt_text_json b) \<longleftrightarrow> a = b"
  by (auto simp: opt_text_json_def split: option.splits)

lemma operation_payload_wf:
  "wf_json args \<Longrightarrow> wf_json scp \<Longrightarrow> wf_json (JObj (operation_payload rq registry destination credential args scp))"
  by (auto simp: operation_payload_def opt_text_json_def set_json_def list_all_iff split: option.splits)

lemma operation_payload_inject:
  assumes "canon (JObj (operation_payload a reg dest cred (canon args) (canon scp))) =
      canon (JObj (operation_payload b reg' dest' cred' (canon args') (canon scp')))"
    and "finite (rq_side_effects a)" "finite (rq_side_effects b)"
  shows "reg = reg' \<and> dest = dest' \<and> cred = cred' \<and> canon args = canon args' \<and> canon scp = canon scp' \<and>
    b = a\<lparr>rq_arguments := rq_arguments b, rq_scope := rq_scope b, rq_destination := rq_destination b\<rparr>"
proof -
  have keys: "distinct (map fst (operation_payload rq r d c x y))" for rq r d c x y
    by (simp add: operation_payload_def)
  note f = canon_field [OF assms(1) keys keys]
  have t: "canon (JObj [(''kind'', JStr (target_kind (rq_target a))), (''identifier'', JStr (target_identifier (rq_target a)))]) =
      canon (JObj [(''kind'', JStr (target_kind (rq_target b))), (''identifier'', JStr (target_identifier (rq_target b)))])"
    using f [of "''target''"] by (simp add: operation_payload_def del: canon.simps)
  have target: "rq_target a = rq_target b"
    using canon_field [OF t, of "''kind''"] canon_field [OF t, of "''identifier''"]
    by (cases "rq_target a", cases "rq_target b") simp
  have l: "canon (JObj [(''max_input_chars'', JInt (max_input_chars (rq_limits a))),
        (''max_output_bytes'', JInt (max_output_bytes (rq_limits a))), (''max_items'', JInt (max_items (rq_limits a)))]) =
      canon (JObj [(''max_input_chars'', JInt (max_input_chars (rq_limits b))),
        (''max_output_bytes'', JInt (max_output_bytes (rq_limits b))), (''max_items'', JInt (max_items (rq_limits b)))])"
    using f [of "''resource_limits''"] by (simp add: operation_payload_def del: canon.simps)
  have limits: "rq_limits a = rq_limits b"
    using canon_field [OF l, of "''max_input_chars''"] canon_field [OF l, of "''max_output_bytes''"]
      canon_field [OF l, of "''max_items''"]
    by (cases "rq_limits a", cases "rq_limits b") simp
  have effects: "rq_side_effects a = rq_side_effects b"
    by (rule set_json_inject) (use f [of "''side_effects''"] assms(2,3) in
      \<open>simp_all add: operation_payload_def del: canon.simps\<close>)
  have opts: "rq_session_id a = rq_session_id b" "dest = dest'" "rq_cancellation_id a = rq_cancellation_id b" "cred = cred'"
    using f [of "''session_id''"] f [of "''destination''"] f [of "''cancellation_id''"] f [of "''credential_class''"]
    by (simp_all add: operation_payload_def opt_text_json_inject del: canon.simps)
  have "canon args = canon args'" "canon scp = canon scp'"
    using f [of "''arguments''"] f [of "''permission_scope''"] by (simp_all add: operation_payload_def del: canon.simps)
  then show ?thesis
    using target limits effects opts f [of "''registry_fingerprint''"] f [of "''capability_id''"]
      f [of "''capability_version''"] f [of "''operation_id''"] f [of "''actor_type''"] f [of "''origin_class''"]
      f [of "''risk_tier''"] f [of "''timeout_seconds''"]
    by (cases a, cases b) (simp add: operation_payload_def)
qed

lemma confirmation_payloadD:
  assumes "confirmation_payload request registry destination credential = Inr p"
  shows "\<exists>rq cred. validate_request_envelope request = Inr rq \<and>
    opt_res (confirmation_token MAX_CREDENTIAL_CLASS_LENGTH) credential = Inr cred \<and> finite (rq_side_effects rq) \<and>
    p = JObj (operation_payload rq registry destination cred (canon (JObj (rq_arguments rq))) (canon (JObj (rq_scope rq)))) \<and>
    wf_json p"
proof -
  obtain rq cred where r: "validate_request_envelope request = Inr rq"
    "opt_res (confirmation_token MAX_CREDENTIAL_CLASS_LENGTH) credential = Inr cred"
    "\<not> has_float (JObj (rq_arguments rq))" "\<not> has_float (JObj (rq_scope rq))"
    "p = JObj (operation_payload rq registry destination cred (canon (JObj (rq_arguments rq))) (canon (JObj (rq_scope rq))))"
    using assms by (auto simp: confirmation_payload_def canonical_value_def validate_fingerprint_def simp del: canon.simps has_float.simps)
  moreover have "rq_side_effects rq \<subseteq> allowed_side_effects"
    using r(1) by (auto simp: validate_request_envelope_def Let_def)
  then have "finite (rq_side_effects rq)" by (rule finite_subset) (simp add: allowed_side_effects_def)
  moreover have "wf_json p" unfolding r(5)
    by (rule operation_payload_wf) (simp_all only: wf_json_canon no_float_wf [OF r(3)] no_float_wf [OF r(4)])
  ultimately show ?thesis by blast
qed

text \<open>The fingerprint of a confirmation determines the operation. When two requests have the same
  fingerprint and the hash function has no collision between their two payload texts, the
  registry fingerprint, the normalised destination and the credential class are the same, and
  the validated requests agree in every field; arguments and permission scope agree up to the order
  of their keys, and the raw destination is bound through its normal form.\<close>

theorem confirmation_fingerprint_binds:
  assumes "confirmation_fingerprint sha256_hex request registry destination credential = Inr fp"
    and "confirmation_fingerprint sha256_hex request' registry' destination' credential' = Inr fp"
    and "\<And>p q. confirmation_payload request registry destination credential = Inr p \<Longrightarrow>
           confirmation_payload request' registry' destination' credential' = Inr q \<Longrightarrow>
           sha256_hex (encode p) = sha256_hex (encode q) \<Longrightarrow> encode p = encode q"
  shows "\<exists>a b. validate_request_envelope request = Inr a \<and> validate_request_envelope request' = Inr b \<and>
    registry = registry' \<and> destination = destination' \<and>
    opt_res (confirmation_token MAX_CREDENTIAL_CLASS_LENGTH) credential =
      opt_res (confirmation_token MAX_CREDENTIAL_CLASS_LENGTH) credential' \<and>
    canon (JObj (rq_arguments a)) = canon (JObj (rq_arguments b)) \<and>
    canon (JObj (rq_scope a)) = canon (JObj (rq_scope b)) \<and>
    b = a\<lparr>rq_arguments := rq_arguments b, rq_scope := rq_scope b, rq_destination := rq_destination b\<rparr>"
proof -
  obtain p q where p: "confirmation_payload request registry destination credential = Inr p"
    "confirmation_payload request' registry' destination' credential' = Inr q"
    "make_fingerprint sha256_hex p = make_fingerprint sha256_hex q"
    using assms(1,2) by (auto simp: confirmation_fingerprint_def)
  obtain a cred where a: "validate_request_envelope request = Inr a"
    "opt_res (confirmation_token MAX_CREDENTIAL_CLASS_LENGTH) credential = Inr cred" "finite (rq_side_effects a)"
    "p = JObj (operation_payload a registry destination cred (canon (JObj (rq_arguments a))) (canon (JObj (rq_scope a))))"
    "wf_json p"
    using confirmation_payloadD [OF p(1)] by blast
  obtain b cred' where b: "validate_request_envelope request' = Inr b"
    "opt_res (confirmation_token MAX_CREDENTIAL_CLASS_LENGTH) credential' = Inr cred'" "finite (rq_side_effects b)"
    "q = JObj (operation_payload b registry' destination' cred' (canon (JObj (rq_arguments b))) (canon (JObj (rq_scope b))))"
    "wf_json q"
    using confirmation_payloadD [OF p(2)] by blast
  have "canon p = canon q"
    by (rule make_fingerprint_inject [OF p(3) assms(3) [OF p(1,2)] a(5) b(5)])
  from operation_payload_inject [OF this [unfolded a(4) b(4)] a(3) b(3)] show ?thesis
    using a(1,2) b(1,2) by (intro exI [of _ a] exI [of _ b]) simp
qed

section \<open>Concrete runs\<close>

definition guarded_capability :: CapabilityDefinition where
  "guarded_capability = sample_capability\<lparr>def_risk_tier := HIGH_RISK\<rparr>"

definition sample_digest :: string where
  "sample_digest = replicate 64 (CHR ''a'')"

definition sample_fingerprint :: string where
  "sample_fingerprint = ''sha256:'' @ sample_digest"

definition guarded_registry :: CapabilityRegistry where
  "guarded_registry = \<lparr>registered = [((''compute.transform'', ''1.0''), guarded_capability)],
     fingerprint = sample_fingerprint\<rparr>"

definition guarded_operation :: CapabilityRequest where
  "guarded_operation = sample_operation\<lparr>rq_risk_tier := 3\<rparr>"

definition sample_preview :: ConfirmationPreview where
  "sample_preview = \<lparr>pv_effect_summary = ''transform'', pv_irreversible = False, pv_recovery_description = None,
     pv_credential_class = None, pv_account_label = None\<rparr>"

definition sample_instant :: clock_value where
  "sample_instant = Some (63902908800000000, Some 0)"

definition issue_metadata :: dict where
  "issue_metadata =
     [(''confirmation_schema_version'', JInt 1), (''confirmation_id'', JStr ''c1''), (''decision'', JStr ''approved''),
      (''request_fingerprint'', JStr sample_fingerprint),
      (''registry_fingerprint'', JStr sample_fingerprint),
      (''capability_id'', JStr ''compute.transform''), (''capability_version'', JStr ''1.0''),
      (''risk_tier'', JInt 3), (''target_kind'', JStr ''provided_data''),
      (''destination_host'', JNull), (''side_effects'', JList []), (''auth_material_class'', JNull),
      (''data_leaves_machine'', JBool False), (''irreversible'', JBool False),
      (''recovery_available'', JBool False), (''expires_at'', JStr ''2026-01-01T00:02:00Z''),
      (''effect_summary'', JStr ''transform''), (''account_label'', JNull), (''recovery_description'', JNull)]"

lemma guarded_binding:
  "high_risk_binding (\<lambda>_. None) guarded_operation guarded_registry = Inr (guarded_operation, guarded_capability, None)"
  "validate_request_envelope guarded_operation = Inr guarded_operation"
  by code_simp+

lemma guarded_fingerprint:
  "confirmation_fingerprint (\<lambda>_. sample_digest) guarded_operation (fingerprint guarded_registry) None None =
     Inr sample_fingerprint"
  by code_simp

lemma sample_preview_valid: "validate_preview sample_preview = Inr sample_preview"
  by code_simp

lemma sample_times:
  "expiry sample_instant 120 = Inr 63902908920000000" "iso_utc 63902908920000000 = ''2026-01-01T00:02:00Z''"
  "parse_utc ''2026-01-01T00:02:00Z'' = Inr 63902908920000000" "safe_now sample_instant = Inr 63902908800000000"
  by code_simp+

lemma sample_confirmation_token: "confirmation_token MAX_CONFIRMATION_ID_LENGTH ''c1'' = Inr ''c1''"
  "confirmation_token 200 ''op1'' = Inr ''op1''"
  by code_simp+

lemma sample_prepare_issue:
  "prepare_issue (\<lambda>_. None) (\<lambda>_. sample_digest) sample_instant (Some ''c1'') guarded_operation guarded_registry
     sample_preview ''approved'' 120 ''user'' ''user_management_action'' sample_repo =
     Inr (''c1'', guarded_operation, None, None, issue_metadata)"
proof -
  have "confirmation_metadata ''c1'' guarded_operation guarded_capability sample_fingerprint
      (fingerprint guarded_registry) None ''approved'' ''2026-01-01T00:02:00Z'' sample_preview = Inr issue_metadata"
    by code_simp
  then show ?thesis
    using guarded_binding sample_preview_valid sample_times guarded_fingerprint sample_confirmation_token
    by (simp add: prepare_issue_def require_user_confirmation_def require_confirmation_writable_def validate_ttl_def
        MAX_CONFIRMATION_TTL_SECONDS_def sample_preview_def sample_repo_def)
qed

text \<open>Metadata of plain keys with quiet texts, nulls, numbers and empty lists are fixed points of the
  sanitiser.\<close>

definition quiet_entry :: "string \<times> json \<Rightarrow> bool" where
  "quiet_entry kv = (case kv of (k, v) \<Rightarrow> plain_entry (k, JInt 0) \<and>
     (case v of JStr t \<Rightarrow> quiet_text t | JFloat _ \<Rightarrow> False | JObj _ \<Rightarrow> False | JList xs \<Rightarrow> xs = [] | _ \<Rightarrow> True))"

lemma sanitize_items_quiet:
  "list_all quiet_entry kvs \<Longrightarrow> distinct (map fst (acc @ kvs)) \<Longrightarrow>
     seen + int (length kvs) \<le> MAX_METADATA_ITEMS \<Longrightarrow>
     sanitize_items 0 acc kvs seen = Inr (JObj (acc @ kvs), seen + int (length kvs))"
proof (induction kvs arbitrary: acc seen)
  case (Cons kv kvs)
  obtain k v where kv: "kv = (k, v)" by (cases kv)
  have key: "metadata_key k = Inr k" using Cons.prems(1) kv plain_key by (auto simp: quiet_entry_def plain_entry_def)
  have "sanitize_metadata_value 1 v (seen + 1) = Inr (v, seen + 1)"
    using Cons.prems(1) kv quiet_free_text [of _ MAX_METADATA_STRING_LENGTH]
    by (cases v) (auto simp: quiet_entry_def MAX_METADATA_STRING_LENGTH_def MAX_METADATA_DEPTH_def)
  moreover have "dict_put k v acc = acc @ [(k, v)]" using Cons.prems(2) kv by (intro dict_put_new) auto
  moreover have "sanitize_items 0 (acc @ [(k, v)]) kvs (seen + 1) =
      Inr (JObj ((acc @ [(k, v)]) @ kvs), seen + 1 + int (length kvs))"
    using Cons.prems kv by (intro Cons.IH) auto
  ultimately show ?case using key Cons.prems(3) kv by (simp add: consume_metadata_item_def)
qed simp

lemma quiet_metadata:
  assumes "list_all quiet_entry m" "distinct (map fst m)" "int (length m) \<le> MAX_METADATA_ITEMS"
    and "int (utf8_length (encode (JObj m))) \<le> MAX_METADATA_BYTES"
  shows "serialize_metadata_for_write m = Inr (canon (JObj m))" "validate_stored_metadata m = Inr m"
proof -
  have "all_finite v" if "(k, v) \<in> set m" for k v
    using assms(1) that by (cases v) (fastforce simp: list_all_iff quiet_entry_def)+
  then have "all_finite (JObj m)" by (auto simp: list_all_iff)
  moreover have "sanitize_metadata m = Inr m"
    using sanitize_items_quiet [of m "[]" 0] assms by (simp add: sanitize_metadata_def MAX_METADATA_DEPTH_def)
  ultimately show "serialize_metadata_for_write m = Inr (canon (JObj m))" "validate_stored_metadata m = Inr m"
    using assms(4)
    by (simp_all add: serialize_metadata_for_write_def validate_stored_metadata_def encode_metadata_def require_def dict_eq_def
        del: canon.simps all_finite.simps)
qed

lemma quiet_digest: "quiet_text sample_fingerprint"
  by code_simp

lemma quiet_but_digest:
  "list_all (\<lambda>(k, v). if v = JStr sample_fingerprint then plain_entry (k, JInt 0) else quiet_entry (k, v)) m \<Longrightarrow>
     list_all quiet_entry m"
  using quiet_digest by (auto simp: list_all_iff quiet_entry_def split: if_splits)

lemma quiet_issue_metadata:
  "list_all quiet_entry (canon_dict issue_metadata)" "distinct (map fst (canon_dict issue_metadata))"
proof -
  have "list_all (\<lambda>(k, v). if v = JStr sample_fingerprint then plain_entry (k, JInt 0) else quiet_entry (k, v))
      (canon_dict issue_metadata)"
    by code_simp
  then show "list_all quiet_entry (canon_dict issue_metadata)" by (rule quiet_but_digest)
qed code_simp

definition issued_row :: AuditRow where
  "issued_row = confirmation_row (sample_env sample_uuid) ''c1'' ''op1'' ''confirmation.issue'' ''success'' ''user''
     (JObj (canon_dict issue_metadata))"

definition issued_event :: AuditEvent where
  "issued_event = \<lparr>sequence = 1, event_id = sample_uuid, operation_id = ''op1'', occurred_at = ''2026-01-01T00:00:00Z'',
     actor_type = ''user'', actor_id = None, action = ''confirmation.issue'', target_type = Some ''confirmation'',
     target_id = Some ''c1'', result = ''success'', summary = Some ''High-risk confirmation decision recorded'',
     error_class = None, event_metadata = canon_dict issue_metadata\<rparr>"

definition issued_repo :: repo where
  "issued_repo = advance (sample_env sample_uuid)
     (sample_repo\<lparr>audit_events := [numbered issued_row sample_repo], last_sequence := 1\<rparr>)"

definition sample_info :: ConfirmationInfo where
  "sample_info = \<lparr>ci_confirmation_id = ''c1'', ci_operation_id = ''op1'', ci_capability_id = ''compute.transform'',
     ci_capability_version = ''1.0'', ci_request_fingerprint = sample_fingerprint,
     ci_registry_fingerprint = sample_fingerprint, ci_decision = ''approved'',
     ci_issued_at = ''2026-01-01T00:00:00Z'', ci_expires_at = ''2026-01-01T00:02:00Z'',
     ci_target_kind = ''provided_data'', ci_destination_host = None, ci_side_effects = [], ci_credential_class = None,
     ci_data_leaves_machine = False, ci_irreversible = False, ci_recovery_available = False,
     ci_effect_summary = ''transform'', ci_account_label = None, ci_recovery_description = None\<rparr>"

lemma issue_metadata_sizes:
  "int (length issue_metadata) \<le> MAX_METADATA_ITEMS" "int (length (canon_dict issue_metadata)) \<le> MAX_METADATA_ITEMS"
  "int (utf8_length (encode (JObj issue_metadata))) \<le> MAX_METADATA_BYTES"
  "distinct (map fst issue_metadata)" "list_all (List.member (canon_dict issue_metadata)) issue_metadata"
  by code_simp+

lemma issue_metadata_written:
  "serialize_metadata_for_write issue_metadata = Inr (JObj (canon_dict issue_metadata))"
  "validate_stored_metadata (canon_dict issue_metadata) = Inr (canon_dict issue_metadata)"
proof -
  have "list_all quiet_entry issue_metadata"
    using quiet_issue_metadata(1) issue_metadata_sizes(5) by (auto simp: list_all_iff)
  from quiet_metadata(1) [OF this issue_metadata_sizes(4,1,3)]
  show "serialize_metadata_for_write issue_metadata = Inr (JObj (canon_dict issue_metadata))" by simp
  have "encode (JObj (canon_dict issue_metadata)) = encode (JObj issue_metadata)"
    using encode_canon [of "JObj issue_metadata"] by simp
  with issue_metadata_sizes(3) quiet_metadata(2) [OF quiet_issue_metadata issue_metadata_sizes(2)]
  show "validate_stored_metadata (canon_dict issue_metadata) = Inr (canon_dict issue_metadata)" by simp
qed

lemma issued_event_read: "event_from_row (numbered issued_row sample_repo) = Inr issued_event"
proof -
  have tokens: "validate_token MAX_ACTION_LENGTH ''confirmation.issue'' = Inr ''confirmation.issue''"
    "validate_token MAX_ACTION_LENGTH ''confirmation'' = Inr ''confirmation''"
    "validate_token MAX_IDENTIFIER_LENGTH ''op1'' = Inr ''op1''"
    by (rule plain_token_valid [OF _ subset_refl]; code_simp)+
  have "validate_identifier ''c1'' = Inr ''c1''" by code_simp
  moreover have "quiet_text ''High-risk confirmation decision recorded''" by code_simp
  note quiet_summary(2) [OF this]
  ultimately show ?thesis
    by (subst event_from_rowI [OF _ _ _ _ _ _ _ _ _ _ _ _ _ issue_metadata_written(2)])
      (use tokens sample_uuid_ok sample_clock_ok in
        \<open>simp_all add: issued_row_def confirmation_row_def issued_event_def sample_env_def sample_repo_def
           validate_optional_identifier_def ALLOWED_ACTOR_TYPES_def ALLOWED_RESULTS_def\<close>)
qed

lemma issued_history:
  "confirmation_events ''c1'' sample_repo = Inr []" "confirmation_events ''c1'' issued_repo = Inr [issued_event]"
proof -
  show "confirmation_events ''c1'' sample_repo = Inr []"
    by (simp add: confirmation_events_def confirmation_rows_def sample_repo_def MAX_CONFIRMATION_EVENTS_def)
  have "confirmation_rows ''c1'' issued_repo = [numbered issued_row sample_repo]"
    by (simp add: confirmation_rows_def issued_repo_def issued_row_def confirmation_row_def CONFIRMATION_ACTIONS_def)
  then show "confirmation_events ''c1'' issued_repo = Inr [issued_event]"
    by (simp add: confirmation_events_def MAX_CONFIRMATION_EVENTS_def issued_event_read)
qed

lemma issued_resolution:
  "resolution_from_events ''c1'' [issued_event] ''op1'' sample_fingerprint 63902908800000000 =
     Inr \<lparr>cr_confirmation_id = Some ''c1'', cr_reason = ''approved'', cr_request_fingerprint = sample_fingerprint,
          cr_info = Some sample_info\<rparr>"
  by code_simp

lemma guarded_operation_id: "rq_operation_id guarded_operation = ''op1''"
  by (simp add: guarded_operation_def sample_operation_def)

lemma sample_issue:
  "confirmation_issue (\<lambda>_. None) (\<lambda>_. sample_digest) (sample_env sample_uuid) sample_instant sample_instant (Some ''c1'')
     guarded_operation guarded_registry sample_preview ''approved'' 120 ''user'' ''user_management_action'' sample_repo =
     (Inr sample_info, issued_repo)"
proof -
  have ins: "insert_event issued_row sample_repo =
      Inr (sample_repo\<lparr>audit_events := [numbered issued_row sample_repo], last_sequence := 1\<rparr>)"
    by (simp add: insert_event_def sample_repo_def)
  have body: "issue_body (sample_env sample_uuid) ''c1'' ''op1'' ''success'' issue_metadata sample_repo =
      bindr (insert_event issued_row sample_repo) (\<lambda>t. Inr ((), t))"
    by (simp add: issue_body_def issued_history insert_confirmation_event_def sample_confirmation_token
        issue_metadata_written issued_row_def)
  have "append_unique_issue (sample_env sample_uuid) ''c1'' ''op1'' ''success'' issue_metadata sample_repo =
      (Inr (), issued_repo)"
    unfolding append_unique_issue_def confirmation_write_eq body ins issued_repo_def
    using append.write_op_eq [OF sample_repo_ok, of "sample_env sample_uuid" issued_row "\<lambda>_. Inr ()"] ins
    by (simp add: write_op_def bind_op_def transaction_def body)
  moreover have "confirmation_resolve (\<lambda>_. sample_digest) sample_instant (Some ''c1'') guarded_operation
      (fingerprint guarded_registry) None None issued_repo =
      Inr \<lparr>cr_confirmation_id = Some ''c1'', cr_reason = ''approved'', cr_request_fingerprint = sample_fingerprint,
          cr_info = Some sample_info\<rparr>"
    by (simp add: confirmation_resolve_def guarded_binding guarded_fingerprint sample_confirmation_token issued_history
        sample_times guarded_operation_id issued_resolution)
  ultimately show ?thesis
    unfolding confirmation_issue_def bind_lift sample_prepare_issue sum.case prod.case
    by (simp add: bind_op_right guarded_operation_id)
qed

lemma issued_repo_ok: "repo_ok issued_repo"
  using confirmation_issue_cases [OF sample_repo_ok sample_issue] by (auto simp: recorded_def)

definition later_uuid :: string where
  "later_uuid = ''00000000-0000-0000-0000-00000000000c''"

definition sample_consume :: "string \<Rightarrow> (repo, ConfirmationInfo) op" where
  "sample_consume i = confirmation_consume (\<lambda>_. sample_digest) (sample_env i) sample_instant ''c1'' guarded_operation
     (fingerprint guarded_registry) None None ''capability''"

lemma consume_metadata_quiet:
  "list_all quiet_entry (consume_metadata ''c1'' sample_fingerprint guarded_operation)"
  "distinct (map fst (consume_metadata ''c1'' sample_fingerprint guarded_operation))"
  "int (length (consume_metadata ''c1'' sample_fingerprint guarded_operation)) \<le> MAX_METADATA_ITEMS"
  "int (utf8_length (encode (JObj (consume_metadata ''c1'' sample_fingerprint guarded_operation)))) \<le> MAX_METADATA_BYTES"
proof -
  let ?m = "consume_metadata ''c1'' sample_fingerprint guarded_operation"
  have "list_all (\<lambda>(k, v). if v = JStr sample_fingerprint then plain_entry (k, JInt 0) else quiet_entry (k, v)) ?m"
    by code_simp
  then show "list_all quiet_entry ?m" by (rule quiet_but_digest)
qed code_simp+

lemma sample_consumed: "\<exists>t. sample_consume later_uuid issued_repo = (Inr sample_info, t)"
proof -
  obtain j where j: "serialize_metadata_for_write (consume_metadata ''c1'' sample_fingerprint guarded_operation) = Inr j"
    using quiet_metadata(1) [OF consume_metadata_quiet] by blast
  let ?row = "confirmation_row (sample_env later_uuid) ''c1'' ''op1'' ''confirmation.consume'' ''success'' ''capability'' j"
  have "event_id issued_row = sample_uuid" by (simp add: issued_row_def confirmation_row_def sample_env_def)
  then have "\<exists>u. insert_event ?row issued_repo = Inr u"
    by (simp add: insert_event_def issued_repo_def confirmation_row_def sample_env_def later_uuid_def sample_uuid_def)
  then obtain u where u: "insert_event ?row issued_repo = Inr u" by blast
  have body: "consume_body (sample_env later_uuid) sample_instant ''c1'' guarded_operation sample_fingerprint
      ''capability'' issued_repo = Inr (sample_info, u)"
    by (simp add: consume_body_def issued_history sample_times guarded_operation_id issued_resolution resolution_approved_def
        insert_confirmation_event_def sample_confirmation_token j u)
  have "sample_consume later_uuid issued_repo = confirmation_write (sample_env later_uuid) (consume_body (sample_env later_uuid)
      sample_instant ''c1'' guarded_operation sample_fingerprint ''capability'') issued_repo"
    by (simp add: sample_consume_def confirmation_consume_def bind_lift ALLOWED_CONFIRMATION_CONSUMERS_def
        require_confirmation_writable_def guarded_binding guarded_fingerprint sample_confirmation_token issued_repo_def sample_repo_def)
  moreover obtain r t where w: "confirmation_write (sample_env later_uuid) (consume_body (sample_env later_uuid)
      sample_instant ''c1'' guarded_operation sample_fingerprint ''capability'') issued_repo = (r, t)" by fastforce
  ultimately show ?thesis using consuming.write_cases [OF issued_repo_ok w] body by auto
qed

theorem confirmation_issued_by_user_witness:
  "\<exists>rq d destination. confirmation_issue (\<lambda>_. None) (\<lambda>_. sample_digest) (sample_env sample_uuid) sample_instant sample_instant
     (Some ''c1'') guarded_operation guarded_registry sample_preview ''approved'' 120 ''user'' ''user_management_action''
     sample_repo = (Inr sample_info, issued_repo) \<and> release_available d \<and> def_risk_tier d = HIGH_RISK \<and>
     meets_definition (\<lambda>_. None) d rq destination \<and>
     (\<exists>i. recorded (sample_env sample_uuid) i (rq_operation_id rq) ''confirmation.issue'' ''success'' ''user'' sample_repo issued_repo)"
  using confirmation_issued_by_user [OF sample_repo_ok sample_issue] sample_issue by auto

theorem consume_needs_exact_approval_witness:
  "\<exists>t row issue. sample_consume later_uuid issued_repo = (Inr sample_info, t) \<and> row \<in> set (audit_events issued_repo) \<and>
     event_from_row row = Inr issue \<and> actor_type issue = ''user'' \<and> info_from_issue issue = Inr sample_info \<and>
     ci_decision sample_info = ''approved''"
proof -
  obtain t where t: "sample_consume later_uuid issued_repo = (Inr sample_info, t)" using sample_consumed by blast
  from consume_needs_exact_approval [OF issued_repo_ok this [unfolded sample_consume_def]] t show ?thesis by blast
qed

theorem closed_confirmation_stays_closed_witness:
  "\<exists>t res v. sample_consume later_uuid issued_repo = (Inr sample_info, t) \<and>
     sample_consume ''00000000-0000-0000-0000-00000000000d'' t = (res, v) \<and> isl res \<and> v = t"
proof -
  let ?i = "''00000000-0000-0000-0000-00000000000d''"
  obtain t where t: "sample_consume later_uuid issued_repo = (Inr sample_info, t)" using sample_consumed by blast
  have ok: "repo_ok t"
    using confirmation_consume_cases [OF issued_repo_ok t [unfolded sample_consume_def]] by (auto simp: recorded_def)
  obtain res v where v: "sample_consume ?i t = (res, v)" by fastforce
  have "isl res \<and> v = t"
    using closed_confirmation_stays_closed [OF issued_repo_ok disjI1 [OF t [unfolded sample_consume_def]] ok evolves_refl]
      v [unfolded sample_consume_def] by blast
  with t v show ?thesis by blast
qed

theorem confirmation_fingerprint_binds_witness:
  "\<exists>a b fp. confirmation_fingerprint (\<lambda>text. text) guarded_operation (fingerprint guarded_registry) None None = Inr fp \<and>
     confirmation_fingerprint (\<lambda>text. text)
       (guarded_operation\<lparr>rq_arguments := [(''text'', JStr ''a''), (''operation'', JStr ''b'')]\<rparr>)
       (fingerprint guarded_registry) None None = Inr fp \<and> validate_request_envelope guarded_operation = Inr a \<and>
     canon (JObj (rq_arguments a)) = canon (JObj (rq_arguments b)) \<and>
     b = a\<lparr>rq_arguments := rq_arguments b, rq_scope := rq_scope b, rq_destination := rq_destination b\<rparr>"
proof -
  let ?b = "guarded_operation\<lparr>rq_arguments := [(''text'', JStr ''a''), (''operation'', JStr ''b'')]\<rparr>"
  obtain p where p: "confirmation_payload guarded_operation (fingerprint guarded_registry) None None = Inr p"
    using guarded_fingerprint by (auto simp: confirmation_fingerprint_def)
  have "confirmation_payload ?b (fingerprint guarded_registry) None None =
      confirmation_payload guarded_operation (fingerprint guarded_registry) None None"
    by code_simp
  with p have f: "confirmation_fingerprint (\<lambda>text. text) guarded_operation (fingerprint guarded_registry) None None =
      Inr (make_fingerprint (\<lambda>text. text) p)"
    "confirmation_fingerprint (\<lambda>text. text) ?b (fingerprint guarded_registry) None None =
      Inr (make_fingerprint (\<lambda>text. text) p)"
    by (simp_all add: confirmation_fingerprint_def)
  from confirmation_fingerprint_binds [OF f] f show ?thesis by blast
qed

end
