(* ===== verification/Ledger.thy ===== *)
theory Ledger
  imports Project_Laws Trust_Laws Work_Lifecycle Conversation_Laws Confirmation_Laws
begin

text \<open>
  What the modelled calls promise together. The abstract specification is a ledger: entries by
  identifier with a revision each, a journal of the identifiers that were written about, and a
  version. A ledger opens an entry, revises an entry or adds a remark to the journal, and each
  such step adds one line to the journal and one to the version. An entry can also be opened or
  revised silently, with a new version but no line in the journal. The calls of the services that
  keep an audit trail refine at most one audited step each. The calls that write records without an
  audit event, which are \<open>create_record\<close> and \<open>update_record\<close> of the repository itself and the two
  saves of the conversation service, refine at most one silent step each. So the state revision
  counts the audit events and the silent writes, and no record has more revisions than audit events
  about it and silent writes to it.
\<close>

section \<open>The specification\<close>

record ledger_entry =
  en_type :: string
  en_created :: string
  en_sensitivity :: string
  en_revision :: int

record ledger =
  entries :: "string \<rightharpoonup> ledger_entry"
  journal :: "string option list"
  version :: int

inductive ledger_step :: "ledger \<Rightarrow> ledger \<Rightarrow> bool" where
  opens: "entries l i = None \<Longrightarrow> en_revision d = 1 \<Longrightarrow>
    ledger_step l \<lparr>entries = (entries l)(i \<mapsto> d), journal = journal l @ [Some i], version = version l + 1\<rparr>"
| revises: "entries l i = Some d \<Longrightarrow>
    ledger_step l \<lparr>entries = (entries l)(i \<mapsto> d\<lparr>en_revision := en_revision d + 1\<rparr>),
      journal = journal l @ [Some i], version = version l + 1\<rparr>"
| remarks: "ledger_step l (l\<lparr>journal := journal l @ [x], version := version l + 1\<rparr>)"

inductive silent_step :: "string \<Rightarrow> ledger \<Rightarrow> ledger \<Rightarrow> bool" where
  opens_silently: "entries l i = None \<Longrightarrow> en_revision d = 1 \<Longrightarrow>
    silent_step i l \<lparr>entries = (entries l)(i \<mapsto> d), journal = journal l, version = version l + 1\<rparr>"
| revises_silently: "entries l i = Some d \<Longrightarrow>
    silent_step i l \<lparr>entries = (entries l)(i \<mapsto> d\<lparr>en_revision := en_revision d + 1\<rparr>),
      journal = journal l, version = version l + 1\<rparr>"

text \<open>The account of a ledger, given the identifiers that were written silently.\<close>

definition accounted :: "string list \<Rightarrow> ledger \<Rightarrow> bool" where
  "accounted silent l \<longleftrightarrow> version l = int (length (journal l) + length silent) \<and>
     (\<forall>i d. entries l i = Some d \<longrightarrow>
        1 \<le> en_revision d \<and> en_revision d \<le> int (count_list (journal l) (Some i) + count_list silent i))"

lemma ledger_step_accounted: "ledger_step l k \<Longrightarrow> accounted silent l \<Longrightarrow> accounted silent k"
proof (induction rule: ledger_step.induct)
  case (opens l i d)
  then show ?case by (auto simp: accounted_def)
next
  case (revises l i d)
  then show ?case by (force simp: accounted_def)
next
  case (remarks l x)
  then show ?case by (force simp: accounted_def)
qed

lemma silent_step_accounted: "silent_step i l k \<Longrightarrow> accounted silent l \<Longrightarrow> accounted (silent @ [i]) k"
proof (induction rule: silent_step.induct)
  case (opens_silently l i d)
  then show ?case by (force simp: accounted_def)
next
  case (revises_silently l i d)
  then show ?case by (force simp: accounted_def)
qed

section \<open>The abstraction\<close>

definition entry_of :: "RecordRow \<Rightarrow> ledger_entry" where
  "entry_of r = \<lparr>en_type = record_type r, en_created = created_at r, en_sensitivity = sensitivity r, en_revision = revision r\<rparr>"

definition ledger_of :: "repo \<Rightarrow> ledger" where
  "ledger_of s = \<lparr>entries = (\<lambda>i. map_option entry_of (find_row i (records s))),
     journal = map target_id (audit_events s), version = state_revision s\<rparr>"

definition refines_to :: "repo \<Rightarrow> repo \<Rightarrow> bool" where
  "refines_to s t \<longleftrightarrow> repo_ok t \<and> evolves s t \<and> (t = s \<or> ledger_step (ledger_of s) (ledger_of t))"

lemma refines_accounted: "refines_to s t \<Longrightarrow> accounted silent (ledger_of s) \<Longrightarrow> accounted silent (ledger_of t)"
  unfolding refines_to_def by (elim conjE disjE) (simp, erule (1) ledger_step_accounted)

lemma refines_refl [intro]: "repo_ok s \<Longrightarrow> refines_to s s"
  by (simp add: refines_to_def)

lemma find_append_map: "find_row (rec_id r) (records s) = None \<Longrightarrow> records t = records s @ [r] \<Longrightarrow>
    (\<lambda>i. map_option entry_of (find_row i (records t))) =
    (\<lambda>i. map_option entry_of (find_row i (records s)))(rec_id r \<mapsto> entry_of r)"
  by (auto simp: find_row_append1)

lemma find_replace_map: "find_row (rec_id q) (records s) = Some r \<Longrightarrow> records t = replace_row q (records s) \<Longrightarrow>
    (\<lambda>i. map_option entry_of (find_row i (records t))) =
    (\<lambda>i. map_option entry_of (find_row i (records s)))(rec_id q \<mapsto> entry_of q)"
  by (auto simp: find_row_replace)

lemma refines_opens:
  assumes "repo_ok t" "evolves s t" "find_row i (records s) = None" "records t = records s @ [r]"
    and "rec_id r = i" "revision r = 1" "audit_events t = audit_events s @ [a]" "target_id a = Some i"
    and "state_revision t = state_revision s + 1"
  shows "refines_to s t"
proof -
  have e: "ledger_of t = \<lparr>entries = (entries (ledger_of s))(i \<mapsto> entry_of r),
      journal = journal (ledger_of s) @ [Some i], version = version (ledger_of s) + 1\<rparr>"
    using assms(3-9) find_append_map [of r s t] by (simp add: ledger_of_def)
  have "ledger_step (ledger_of s) (ledger_of t)"
    unfolding e by (rule ledger_step.opens) (use assms(3,6) in \<open>simp_all add: ledger_of_def entry_of_def\<close>)
  with assms(1,2) show ?thesis by (simp add: refines_to_def)
qed

lemma refines_revises:
  assumes "repo_ok t" "evolves s t" "find_row i (records s) = Some r" "records t = replace_row q (records s)"
    and "rec_id q = rec_id r" "record_type q = record_type r" "created_at q = created_at r" "sensitivity q = sensitivity r"
    and "revision q = revision r + 1" "audit_events t = audit_events s @ [a]" "target_id a = Some i"
    and "state_revision t = state_revision s + 1"
  shows "refines_to s t"
proof -
  have i: "rec_id r = i" using find_row_Some [OF assms(3)] by simp
  have q: "entry_of q = (entry_of r)\<lparr>en_revision := en_revision (entry_of r) + 1\<rparr>"
    using assms(6-9) by (simp add: entry_of_def)
  have e: "ledger_of t = \<lparr>entries = (entries (ledger_of s))(i \<mapsto> (entry_of r)\<lparr>en_revision := en_revision (entry_of r) + 1\<rparr>),
      journal = journal (ledger_of s) @ [Some i], version = version (ledger_of s) + 1\<rparr>"
    using assms(3-5,10-12) i find_replace_map [of q s r t] unfolding q [symmetric] by (simp add: ledger_of_def)
  have "ledger_step (ledger_of s) (ledger_of t)"
    unfolding e by (rule ledger_step.revises) (use assms(3) in \<open>simp add: ledger_of_def\<close>)
  with assms(1,2) show ?thesis by (simp add: refines_to_def)
qed

section \<open>The transactions refine the ledger\<close>

lemma create_typed_refines:
  assumes "repo_ok s"
  shows "refines_to s (snd (create_typed_record e rtype ttl m sens op act unique ameta s))"
proof -
  obtain res t where c: "create_typed_record e rtype ttl m sens op act unique ameta s = (res, t)" by fastforce
  from create_typed_record_cases [OF assms c] show ?thesis
  proof
    assume "isl res \<and> t = s"
    with assms c show ?thesis by auto
  next
    let ?row = "typed_new_row e rtype ttl sens (JObj (canon_dict m))"
    assume "\<exists>a. res = Inr (new_uuid e) \<and> repo_ok t \<and> evolves s t \<and> unique s = Inr () \<and>
       find_row (new_uuid e) (records s) = None \<and> records t = records s @ [?row] \<and>
       audit_events t = audit_events s @ [a] \<and> event_id a = event_uuid e \<and>
       target_type a = Some rtype \<and> target_id a = Some (new_uuid e) \<and> actor_type a = ''user'' \<and>
       state_revision t = state_revision s + 1 \<and> workspace_revision t = state_revision t"
    then obtain a where a: "repo_ok t" "evolves s t" "find_row (new_uuid e) (records s) = None"
      "records t = records s @ [?row]" "audit_events t = audit_events s @ [a]" "target_id a = Some (new_uuid e)"
      "state_revision t = state_revision s + 1" by blast
    show ?thesis unfolding c snd_conv
      by (rule refines_opens [OF a(1-4) _ _ a(5-7)]) (simp_all add: typed_new_row_def)
  qed
qed

lemma update_typed_refines:
  assumes "repo_ok s" "stat \<in> set ALLOWED_STATUSES"
  shows "refines_to s (snd (update_typed_record e current expected m stat op actor act ameta s))"
proof -
  obtain res t where c: "update_typed_record e current expected m stat op actor act ameta s = (res, t)" by fastforce
  from update_typed_record_cases [OF assms c] show ?thesis
  proof
    assume "isl res \<and> t = s"
    with assms c show ?thesis by auto
  next
    assume "\<exists>row a. res = Inr () \<and> repo_ok t \<and> evolves s t \<and> find_row (rec_id current) (records s) = Some row \<and>
       revision row = expected \<and>
       records t = replace_row (typed_row (utc_now e) stat (JObj (canon_dict m)) row) (records s) \<and>
       audit_events t = audit_events s @ [a] \<and> event_id a = event_uuid e \<and> actor_type a = actor \<and>
       target_type a = Some (record_type current) \<and> target_id a = Some (rec_id current) \<and>
       state_revision t = state_revision s + 1 \<and> workspace_revision t = state_revision t"
    then obtain row a where a: "repo_ok t" "evolves s t" "find_row (rec_id current) (records s) = Some row"
      "records t = replace_row (typed_row (utc_now e) stat (JObj (canon_dict m)) row) (records s)"
      "audit_events t = audit_events s @ [a]" "target_id a = Some (rec_id current)"
      "state_revision t = state_revision s + 1" by blast
    show ?thesis unfolding c snd_conv
      by (rule refines_revises [OF a(1-4) _ _ _ _ _ a(5-7)]) (simp_all add: typed_row_def)
  qed
qed

lemma created_refines: "created e d actor s t \<Longrightarrow> refines_to s t"
  unfolding created_def audited_def by (auto intro!: refines_opens [where r = "drafted e d"]) (simp add: draft_row_def)

lemma changed_refines: "changed e i expected v actor ttype r s t \<Longrightarrow> refines_to s t"
  unfolding changed_def audited_def by (auto intro!: refines_revises [where q = "revised e v r"])

lemma store_create_refines: "repo_ok s \<Longrightarrow> refines_to s (snd (store_create e d op actor act summ ameta s))"
  using store_create_cases created_refines
  by (cases "store_create e d op actor act summ ameta s") (metis refines_refl snd_conv)

lemma store_update_refines:
  assumes "repo_ok s" "revising_ok v"
  shows "refines_to s (snd (store_update e x current expected v op checked actor act summ ameta s))"
proof -
  obtain res t where c: "store_update e x current expected v op checked actor act summ ameta s = (res, t)" by fastforce
  from store_update_cases [OF assms c] show ?thesis
    using assms(1) c changed_refines by fastforce
qed

section \<open>The calls refine the ledger\<close>

text \<open>The contract of a call, with what it means for accounting.\<close>

locale ledger_call =
  fixes call :: "(repo, 'a) op"
  assumes refines: "repo_ok s \<Longrightarrow> refines_to s (snd (call s))"
begin

lemma call_accounted: "repo_ok s \<Longrightarrow> accounted silent (ledger_of s) \<Longrightarrow> accounted silent (ledger_of (snd (call s)))"
  using refines refines_accounted by blast

end

text \<open>A call that validates, writes with one transaction and reads what it wrote meets the contract
  when the transaction does.\<close>

lemma ledger_callI:
  assumes "\<And>s w. repo_ok s \<Longrightarrow> prep s = Inr w \<Longrightarrow> refines_to s (snd (f w s))"
  shows "ledger_call (bind_op (lift_op prep) (\<lambda>w. bind_op (f w) (\<lambda>i. lift_op (g w i))))"
proof
  fix s assume ok: "repo_ok s"
  show "refines_to s (snd (bind_op (lift_op prep) (\<lambda>w. bind_op (f w) (\<lambda>i. lift_op (g w i))) s))"
  proof (cases "prep s")
    case (Inl x)
    then show ?thesis using ok unfolding bind_lift by auto
  next
    case (Inr w)
    then show ?thesis using assms [OF ok Inr] unfolding bind_lift by (auto simp: bind_op_read split: prod.splits sum.splits)
  qed
qed

lemmas typed_create_call = ledger_callI [OF create_typed_refines]
lemmas record_create_call = ledger_callI [OF store_create_refines]

lemma typed_update_call:
  assumes "\<And>s w. repo_ok s \<Longrightarrow> prep s = Inr w \<Longrightarrow> stat w \<in> set ALLOWED_STATUSES"
  shows "ledger_call (bind_op (lift_op prep) (\<lambda>w. bind_op
    (update_typed_record e (cur w) expected (m w) (stat w) op actor act (am w)) (\<lambda>i. lift_op (g w i))))"
  using assms by (intro ledger_callI update_typed_refines)

lemma record_update_call:
  assumes "\<And>s w. repo_ok s \<Longrightarrow> prep s = Inr w \<Longrightarrow> revising_ok (v w)"
  shows "ledger_call (bind_op (lift_op prep) (\<lambda>w. bind_op
    (store_update e x (cur w) expected (v w) op (chk w) actor (act w) (summ w) (am w)) (\<lambda>i. lift_op (g w i))))"
  using assms by (intro ledger_callI store_update_refines)

lemma active_status: "require_active_record st = Inr u \<Longrightarrow> st \<in> set ALLOWED_STATUSES"
  using active_allowed by (auto simp: require_active_record_def)

interpretation preference_create: ledger_call "preference_create e key val descr op sens actor"
  for e key val descr op sens actor
  unfolding preference_create_def case_prod_beta by (rule typed_create_call)

interpretation preference_update: ledger_call "preference_update e i expected val descr op actor"
  for e i expected val descr op actor
  unfolding preference_update_def case_prod_beta by (rule typed_update_call) (auto intro: active_status)

interpretation preference_archive: ledger_call "preference_archive e i expected op actor" for e i expected op actor
  unfolding preference_archive_def case_prod_beta by (rule typed_update_call) (rule active_allowed(2))

interpretation policy_create: ledger_call "policy_create e key rule enabled op sens actor"
  for e key rule enabled op sens actor
  unfolding policy_create_def case_prod_beta by (rule typed_create_call)

interpretation policy_update: ledger_call "policy_update e i expected rule enabled op actor"
  for e i expected rule enabled op actor
  unfolding policy_update_def case_prod_beta by (rule typed_update_call) (auto intro: active_status)

interpretation policy_archive: ledger_call "policy_archive e i expected op actor" for e i expected op actor
  unfolding policy_archive_def case_prod_beta by (rule typed_update_call) (rule active_allowed(2))

interpretation permission_create: ledger_call "permission_create e at cap scp md expires source op sens actor"
  for e at cap scp md expires source op sens actor
  unfolding permission_create_def case_prod_beta by (rule typed_create_call)

interpretation permission_update: ledger_call "permission_update e at i expected md expires source op actor"
  for e at i expected md expires source op actor
  unfolding permission_update_def case_prod_beta by (rule typed_update_call) (auto intro: active_status)

interpretation permission_archive: ledger_call "permission_archive e i expected op actor" for e i expected op actor
  unfolding permission_archive_def case_prod_beta by (rule typed_update_call) (rule active_allowed(2))

lemma permission_status: "repo_ok s \<Longrightarrow> permission_get i s = Inr p \<Longrightarrow> i_status p \<in> set ALLOWED_STATUSES"
  using permission_getD [of i s p] row_status_allowed [of s i] permission_inv by fastforce

interpretation consume: ledger_call "consume_allow_once e at clock i expected op actor"
  for e at clock i expected op actor
  unfolding consume_allow_once_def case_prod_beta by (rule typed_update_call) (auto intro: permission_status)


interpretation memory_create: ledger_call "memory_create e v op sens actor" for e v op sens actor
  unfolding memory_create_def create_memory_record_def by (rule record_create_call)

interpretation memory_update: ledger_call "memory_update e i expected v op actor" for e i expected v op actor
  unfolding memory_update_def update_memory_record_def case_prod_beta
  by (rule record_update_call) (rule memory_revising_ok)

interpretation memory_archive: ledger_call "memory_archive e i expected op actor" for e i expected op actor
proof
  fix s assume ok: "repo_ok s"
  obtain res t where c: "memory_archive e i expected op actor s = (res, t)" by fastforce
  from memory_archive_cases [OF ok c] show "refines_to s (snd (memory_archive e i expected op actor s))"
    using ok c changed_refines by fastforce
qed

interpretation project_create: ledger_call "project_create e v sens op actor" for e v sens op actor
  unfolding project_create_def pd_create_record_def by (rule record_create_call)

interpretation project_create_v2: ledger_call "project_create_v2 e v ch sens op actor" for e v ch sens op actor
  unfolding project_create_v2_def pd_create_record_def case_prod_beta by (rule record_create_call)

interpretation decision_create: ledger_call "decision_create e v sens op actor" for e v sens op actor
  unfolding decision_create_def pd_create_record_def by (rule record_create_call)

lemma stored_version: "repo_ok s \<Longrightarrow> get_record i s = Inr r \<Longrightarrow> 1 \<le> rec_schema_version r"
  using get_recordD [of i s r] get_record_row [of i s r] repo_ok_row [of s i] by (fastforce simp: row_ok_def)

lemma current_version:
  "repo_ok s \<Longrightarrow> current_project i actor s = Inr (r, p) \<Longrightarrow> 1 \<le> rec_schema_version r"
  "repo_ok s \<Longrightarrow> current_decision i actor s = Inr (r, d) \<Longrightarrow> 1 \<le> rec_schema_version r"
  using stored_version [of s i r] by (auto simp: current_project_def current_decision_def require_pd_record_def)

lemmas pd_allowed_all = pd_allowed active_allowed

interpretation project_update: ledger_call "project_update e i expected v op actor" for e i expected v op actor
  unfolding project_update_def pd_update_record_def case_prod_beta
  by (rule record_update_call) (auto simp: revising_ok_def pd_allowed_all dest: current_version)

interpretation project_update_v2: ledger_call "project_update_v2 e i expected v ch op actor" for e i expected v ch op actor
  unfolding project_update_v2_def pd_update_record_def case_prod_beta
  by (rule record_update_call) (auto simp: revising_ok_def pd_allowed_all dest: current_version)

interpretation project_archive: ledger_call "project_archive e i expected op actor" for e i expected op actor
  unfolding project_archive_def pd_update_record_def case_prod_beta
  by (rule record_update_call) (auto simp: revising_ok_def pd_allowed_all dest: current_version)

interpretation decision_update: ledger_call "decision_update e i expected v op actor" for e i expected v op actor
  unfolding decision_update_def pd_update_record_def case_prod_beta
  by (rule record_update_call) (auto simp: revising_ok_def pd_allowed_all dest: current_version)

interpretation decision_archive: ledger_call "decision_archive e i expected op actor" for e i expected op actor
  unfolding decision_archive_def pd_update_record_def case_prod_beta
  by (rule record_update_call) (auto simp: revising_ok_def pd_allowed_all dest: current_version)

lemma create_truth_refines:
  "repo_ok s \<Longrightarrow> refines_to s (snd (create_truth_record e rtype ttl m prov sens op actor am s))"
  using store_create_refines unfolding create_truth_record_def bind_lift by (auto split: sum.splits)

lemma create_statement_call: "ledger_call (create_statement e kind prep q)"
  unfolding create_statement_def case_prod_beta by (intro ledger_callI create_truth_refines)

interpretation create_claim: ledger_call "create_claim e at q body" for e at q body
  unfolding create_claim_def by (rule create_statement_call)

interpretation create_evidence: ledger_call "create_evidence e at q body etype as bs ds" for e at q body etype as bs ds
  unfolding create_evidence_def by (rule create_statement_call)

interpretation create_inference: ledger_call "create_inference e at q body how as bs" for e at q body how as bs
  unfolding create_inference_def by (rule create_statement_call)

interpretation assess_trust: ledger_call "assess_trust e v op sens" for e v op sens
  unfolding assess_trust_def case_prod_beta by (intro ledger_callI create_truth_refines)

lemma update_truth_refines:
  assumes "repo_ok s" "parse_truth_record r = Inr i" "stat \<in> set ALLOWED_STATUSES"
  shows "refines_to s (snd (update_truth_record e r expected m stat op actor act am s))"
proof -
  obtain res t where c: "update_truth_record e r expected m stat op actor act am s = (res, t)" by fastforce
  from update_truth_cases [OF assms c] show ?thesis using assms(1) c changed_refines by fastforce
qed

interpretation truth_review: ledger_call "truth_review_op e at i expected state nt op actor"
  for e at i expected state nt op actor
  unfolding truth_review_op_def case_prod_beta
  by (rule ledger_callI) (auto simp: Let_def intro!: update_truth_refines active_allowed)

interpretation truth_archive: ledger_call "truth_archive e i expected op actor" for e i expected op actor
  unfolding truth_archive_def case_prod_beta
  by (rule ledger_callI) (auto intro!: update_truth_refines active_allowed)

interpretation work_propose: ledger_call "work_propose e v sens op actor" for e v sens op actor
  unfolding work_propose_def create_work_item_def by (rule record_create_call)

interpretation work_create: ledger_call "work_create e v sens op actor" for e v sens op actor
  unfolding work_create_def create_work_item_def by (rule record_create_call)

interpretation revise_work: ledger_call "revise_work e i expected op actor plan" for e i expected op actor plan
  unfolding revise_work_def update_work_item_def case_prod_beta
  by (rule record_update_call) (auto simp: revising_ok_def pd_allowed_all)

interpretation work_archive: ledger_call "work_archive e i expected op actor" for e i expected op actor
  unfolding work_archive_def update_work_item_def case_prod_beta
  by (rule record_update_call) (auto simp: revising_ok_def pd_allowed_all)

lemma refines_remarks:
  assumes "repo_ok t" "evolves s t" "records t = records s" "audit_events t = audit_events s @ [a]"
    and "state_revision t = state_revision s + 1"
  shows "refines_to s t"
proof -
  have e: "ledger_of t = (ledger_of s)\<lparr>journal := journal (ledger_of s) @ [target_id a], version := version (ledger_of s) + 1\<rparr>"
    using assms(3-5) by (simp add: ledger_of_def)
  have "ledger_step (ledger_of s) (ledger_of t)" unfolding e by (rule ledger_step.remarks)
  with assms(1,2) show ?thesis by (simp add: refines_to_def)
qed

interpretation audit_append: ledger_call "audit_append e q" for e q
proof
  fix s assume ok: "repo_ok s"
  show "refines_to s (snd (audit_append e q s))"
  proof (cases "prepare_append e q s")
    case (Inl x)
    then show ?thesis using ok by (auto simp: audit_append_def bind_lift)
  next
    case (Inr row)
    obtain res t where c: "audit_append e q s = (res, t)" by fastforce
    have w: "write_op e (insert_event row) (audit_get (event_id row)) s = (res, t)"
      using c Inr by (simp add: audit_append_def bind_lift)
    from audit_append_cases [OF ok c] show ?thesis
    proof
      assume "isl res \<and> t = s"
      with ok c show ?thesis by auto
    next
      assume "\<exists>row. prepare_append e q s = Inr row \<and> new_uuid e \<notin> event_id ` set (audit_events s) \<and>
        audit_events t = audit_events s @ [numbered row s] \<and> records t = records s \<and>
        repo_ok t \<and> state_revision t = state_revision s + 1 \<and> workspace_revision t = state_revision t \<and>
        require_audit_schema t = require_audit_schema s \<and> res = audit_get (event_id row) t"
      then obtain a where "repo_ok t" "records t = records s" "audit_events t = audit_events s @ [a]"
        "state_revision t = state_revision s + 1" by blast
      then show ?thesis using append.write_op_evolves [OF ok w] c refines_remarks by simp
    qed
  qed
qed

text \<open>The capability broker records its decisions through the audit service, and the confirmation
  ledger writes its events itself; a call of \<open>issue\<close> may have committed its event and then raise.\<close>

interpretation broker: ledger_call "default_preflight unicode_idna e clock registry policy request"
  for unicode_idna e clock registry policy request
proof
  fix s assume ok: "repo_ok s"
  obtain res t where c: "default_preflight unicode_idna e clock registry policy request s = (res, t)" by fastforce
  from preflight_cases [OF c [unfolded default_preflight_def]]
  show "refines_to s (snd (default_preflight unicode_idna e clock registry policy request s))"
  proof
    assume "\<exists>x. res = Inl x \<and> t = s"
    with ok c show ?thesis by auto
  next
    assume "\<exists>rq dec r. validate_request_envelope request = Inr rq \<and>
      decide unicode_idna registry policy (\<lambda>cap scp. permission_resolve clock cap scp s) rq = Inr dec \<and>
      audit_append e (decision_audit rq dec) s = (r, t) \<and>
      res = (case r of Inl x \<Rightarrow> Inl CapabilityAuditError | Inr ev \<Rightarrow> Inr dec)"
    then obtain q r where "audit_append e q s = (r, t)" by blast
    with audit_append.refines [OF ok, of e q] c show ?thesis by simp
  qed
qed

lemma recorded_refines: "recorded e i op act res actor s t \<Longrightarrow> refines_to s t"
  unfolding recorded_def by (auto intro: refines_remarks)

interpretation confirmation_issue: ledger_call "confirmation_issue unicode_idna sha256_hex e now later new_id request registry
    preview decision ttl actor origin"
  for unicode_idna sha256_hex e now later new_id request registry preview decision ttl actor origin
proof
  fix s assume ok: "repo_ok s"
  obtain res t where c: "confirmation_issue unicode_idna sha256_hex e now later new_id request registry preview decision
      ttl actor origin s = (res, t)" by fastforce
  from confirmation_issue_cases [OF ok c] have "refines_to s t" using ok recorded_refines by blast
  with c show "refines_to s (snd (confirmation_issue unicode_idna sha256_hex e now later new_id request registry preview
      decision ttl actor origin s))" by simp
qed

interpretation confirmation_consume: ledger_call "confirmation_consume sha256_hex e now confirmation request fp destination
    credential actor"
  for sha256_hex e now confirmation request fp destination credential actor
proof
  fix s assume ok: "repo_ok s"
  obtain res t where c: "confirmation_consume sha256_hex e now confirmation request fp destination credential actor s =
      (res, t)" by fastforce
  from confirmation_consume_cases [OF ok c] have "refines_to s t" using ok recorded_refines by blast
  with c show "refines_to s (snd (confirmation_consume sha256_hex e now confirmation request fp destination credential
      actor s))" by simp
qed

interpretation confirmation_revoke: ledger_call "confirmation_revoke e confirmation operation actor origin"
  for e confirmation operation actor origin
proof
  fix s assume ok: "repo_ok s"
  obtain res t where c: "confirmation_revoke e confirmation operation actor origin s = (res, t)" by fastforce
  from confirmation_revoke_cases [OF ok c] have "refines_to s t" using ok recorded_refines by blast
  with c show "refines_to s (snd (confirmation_revoke e confirmation operation actor origin s))" by simp
qed

section \<open>The writes without an event\<close>

definition silently :: "string \<Rightarrow> repo \<Rightarrow> repo \<Rightarrow> bool" where
  "silently i s t \<longleftrightarrow> repo_ok t \<and> evolves s t \<and> (t = s \<or> silent_step i (ledger_of s) (ledger_of t))"

lemma silently_accounted:
  "silently i s t \<Longrightarrow> accounted silent (ledger_of s) \<Longrightarrow> accounted (if t = s then silent else silent @ [i]) (ledger_of t)"
  by (auto simp: silently_def intro: silent_step_accounted)

lemma silently_refl [intro]: "repo_ok s \<Longrightarrow> silently i s s"
  by (simp add: silently_def)

lemma create_record_silent:
  assumes "repo_ok s" "create_record e rtype schema stat prov sens ttl meta rid s = (res, t)"
    and "\<And>r. res = Inr r \<Longrightarrow> i = rec_id r"
  shows "silently i s t"
proof (cases "prepare_create e rtype schema stat prov sens ttl meta rid s")
  case (Inl x)
  with assms(1,2) show ?thesis by (auto simp: create_record_def bind_lift)
next
  case (Inr row)
  have w: "write_op e (create_body row) (get_record (rec_id row)) s = (res, t)"
    using assms(2) Inr by (simp add: create_record_def bind_lift)
  note row = prepare_create_row [OF Inr]
  from create.write_op_cases [OF assms(1) w] show ?thesis
  proof
    assume "\<exists>u. create_body row s = Inr u \<and> t = advance e u \<and> res = get_record (rec_id row) t \<and>
      state_revision t = state_revision s + 1 \<and> workspace_revision t = state_revision t"
    then obtain u where u: "create_body row s = Inr u" "t = advance e u" "res = get_record (rec_id row) t"
      "state_revision t = state_revision s + 1" by blast
    have t: "find_row (rec_id row) (records s) = None" "records t = records s @ [row]" "audit_events t = audit_events s"
      using create_bodyD [OF u(1)] u(2) by auto
    obtain m where "metadata row = Some (JObj m)" using row by blast
    then have "res = Inr (with_metadata row m)" using get_after_append [OF t(2,1)] u(3) by blast
    then have i: "i = rec_id row" using assms(3) by simp
    have e: "ledger_of t = \<lparr>entries = (entries (ledger_of s))(i \<mapsto> entry_of row), journal = journal (ledger_of s),
        version = version (ledger_of s) + 1\<rparr>"
      using t u(4) find_append_map [OF t(1,2)] i by (simp add: ledger_of_def)
    have "silent_step i (ledger_of s) (ledger_of t)"
      unfolding e by (rule opens_silently) (use t(1) i row in \<open>simp_all add: ledger_of_def entry_of_def\<close>)
    moreover have "repo_ok t" "evolves s t"
      using create.write_op_ok [OF _ assms(1) w] create.write_op_evolves [OF assms(1) w] row by auto
    ultimately show ?thesis by (simp add: silently_def)
  qed (use assms(1) in auto)
qed

lemma update_record_silent:
  assumes "repo_ok s" "update_record e i expected stat ttl meta s = (res, t)"
  shows "silently i s t"
proof (cases "prepare_update e i expected stat ttl meta s")
  case (Inl x)
  with assms show ?thesis by (auto simp: update_record_def bind_lift)
next
  case (Inr p)
  note p = prepare_updateD [OF Inr]
  have w: "write_op e (update_body p) (get_record (plan_id p)) s = (res, t)"
    using assms(2) Inr by (simp add: update_record_def bind_lift commit_update_def)
  from update.write_op_cases [OF assms(1) w] show ?thesis
  proof
    assume "\<exists>u. update_body p s = Inr u \<and> t = advance e u \<and> res = get_record (plan_id p) t \<and>
      state_revision t = state_revision s + 1 \<and> workspace_revision t = state_revision t"
    then obtain u where u: "update_body p s = Inr u" "t = advance e u" "state_revision t = state_revision s + 1" by blast
    obtain r where r: "find_row i (records s) = Some r" "u = s\<lparr>records := replace_row (updated_row p r) (records s)\<rparr>"
      using update_bodyD [OF u(1)] p by auto
    let ?q = "updated_row p r"
    have id: "rec_id ?q = i" using find_row_Some [OF r(1)] by simp
    have t: "records t = replace_row ?q (records s)" "audit_events t = audit_events s" using r(2) u(2) by simp_all
    have q: "entry_of ?q = (entry_of r)\<lparr>en_revision := en_revision (entry_of r) + 1\<rparr>"
      by (simp add: entry_of_def updated_row_def)
    have e: "ledger_of t = \<lparr>entries = (entries (ledger_of s))(i \<mapsto> (entry_of r)\<lparr>en_revision := en_revision (entry_of r) + 1\<rparr>),
        journal = journal (ledger_of s), version = version (ledger_of s) + 1\<rparr>"
      using find_replace_map [of ?q s r t] r(1) id t u(3) unfolding q [symmetric] by (simp add: ledger_of_def)
    have "silent_step i (ledger_of s) (ledger_of t)"
      unfolding e by (rule revises_silently) (use r(1) in \<open>simp add: ledger_of_def\<close>)
    moreover have "repo_ok t" "evolves s t"
      using update.write_op_ok [OF _ assms(1) w] update.write_op_evolves [OF assms(1) w] p by auto
    ultimately show ?thesis by (simp add: silently_def)
  qed (use assms(1) in auto)
qed

lemma created_id:
  assumes "repo_ok s" "create_record e rtype schema stat prov sens ttl meta (Some i) s = (Inr r, t)" "i \<noteq> []"
  shows "rec_id r = i"
proof -
  obtain row where row: "prepare_create e rtype schema stat prov sens ttl meta (Some i) s = Inr row"
    "write_op e (create_body row) (get_record (rec_id row)) s = (Inr r, t)"
    using assms(2) by (auto simp: create_record_def bind_lift split: sum.splits)
  have "rec_id row = i" using row(1) assms(3)
    by (auto simp: prepare_create_def Let_def validate_record_id_def split: option.splits if_splits)
  moreover have "get_record (rec_id row) t = Inr r" using create.write_op_cases [OF assms(1) row(2)] by auto
  ultimately have g: "get_record i t = Inr r" by simp
  obtain q where q: "find_row i (records t) = Some q" using get_recordD [OF g] by blast
  show ?thesis using get_record_row [OF g q] find_row_Some [OF q] by simp
qed

lemma save_conversation_silent:
  assumes "repo_ok s" "ConversationRecord v ttl environment src = Inr c"
  shows "silently (cv_id c) s (snd (save_conversation e c prov sens s))"
proof -
  obtain res t where c: "create_record e ''conversation'' 1 ''active'' prov sens (cv_title c)
      (Some (conversation_metadata c)) (Some (cv_id c)) s = (res, t)" by fastforce
  have "cv_id c \<noteq> []"
    using conversation_idem [OF assms(2)] event_uuid_nonempty by (auto simp: conversation_normal_def ConversationRecord_def)
  then have "cv_id c = rec_id r" if "res = Inr r" for r using created_id [OF assms(1) c [unfolded that]] by simp
  then have "silently (cv_id c) s t" using create_record_silent [OF assms(1) c] by blast
  with c show ?thesis by (simp add: save_conversation_def bind_op_read split: sum.split)
qed

lemma save_event_silent:
  assumes "repo_ok s" "ConversationEventRecord raw = Inr ev"
  shows "silently (ev_id ev) s (snd (save_conversation_event e ev prov sens s))"
proof -
  obtain res t where c: "create_record e ''conversation_event'' 1 ''active'' prov sens None
      (Some (event_metadata_dict ev)) (Some (ev_id ev)) s = (res, t)" by fastforce
  have "ev_id ev \<noteq> []" using event_idem [OF assms(2)] event_uuid_nonempty by (simp add: event_normal_def)
  then have "ev_id ev = rec_id r" if "res = Inr r" for r using created_id [OF assms(1) c [unfolded that]] by simp
  then have "silently (ev_id ev) s t" using create_record_silent [OF assms(1) c] by blast
  with c assms(1) show ?thesis
    by (auto simp: save_conversation_event_def bind_lift bind_op_read split: sum.split)
qed

section \<open>The system\<close>

text \<open>A step of a service is a call of an operation that keeps the audit trail, whatever its arguments,
  its clock and its result: the audit service itself, the settings, the memories, the projects and
  decisions, the records of truth, the work items, the preflight of the capability broker and the
  confirmation ledger.\<close>

inductive service_step :: "repo \<Rightarrow> repo \<Rightarrow> bool" where
  "service_step s (snd (audit_append e q s))"
| "service_step s (snd (preference_create e key val descr op sens actor s))"
| "service_step s (snd (preference_update e i expected val descr op actor s))"
| "service_step s (snd (preference_archive e i expected op actor s))"
| "service_step s (snd (policy_create e key rule enabled op sens actor s))"
| "service_step s (snd (policy_update e i expected rule enabled op actor s))"
| "service_step s (snd (policy_archive e i expected op actor s))"
| "service_step s (snd (permission_create e at cap scp md expires source op sens actor s))"
| "service_step s (snd (permission_update e at i expected md expires source op actor s))"
| "service_step s (snd (permission_archive e i expected op actor s))"
| "service_step s (snd (consume_allow_once e at clock i expected oid actor s))"
| "service_step s (snd (memory_create e mv op sens actor s))"
| "service_step s (snd (memory_update e i expected mv op actor s))"
| "service_step s (snd (memory_archive e i expected op actor s))"
| "service_step s (snd (project_create e pv sens op actor s))"
| "service_step s (snd (project_create_v2 e pv ch sens op actor s))"
| "service_step s (snd (project_update e i expected pv op actor s))"
| "service_step s (snd (project_update_v2 e i expected pv ch op actor s))"
| "service_step s (snd (project_archive e i expected op actor s))"
| "service_step s (snd (decision_create e dv sens op actor s))"
| "service_step s (snd (decision_update e i expected dv op actor s))"
| "service_step s (snd (decision_archive e i expected op actor s))"
| "service_step s (snd (create_claim e at rq body s))"
| "service_step s (snd (create_evidence e at rq body etype as bs ds s))"
| "service_step s (snd (create_inference e at rq body how as bs s))"
| "service_step s (snd (assess_trust e tv op sens s))"
| "service_step s (snd (truth_review_op e at i expected state nt op actor s))"
| "service_step s (snd (truth_archive e i expected op actor s))"
| "service_step s (snd (work_propose e wv sens op actor s))"
| "service_step s (snd (work_create e wv sens op actor s))"
| "service_step s (snd (work_update_definition e i expected wv op actor s))"
| "service_step s (snd (work_transition e at i expected to_status when blockers op actor s))"
| "service_step s (snd (work_set_verification e i expected state evidence op actor s))"
| "service_step s (snd (work_archive e i expected op actor s))"
| "service_step s (snd (default_preflight unicode_idna e clock registry policy request s))"
| "service_step s (snd (confirmation_issue unicode_idna sha256_hex e now later new_id request registry preview decision ttl
    actor origin s))"
| "service_step s (snd (confirmation_consume sha256_hex e now confirmation request fp destination credential actor s))"
| "service_step s (snd (confirmation_revoke e confirmation operation actor origin s))"

text \<open>A silent write of the record \<open>i\<close>: a direct call of the repository, or a save of a constructed
  conversation or event.\<close>

inductive repository_step :: "string \<Rightarrow> repo \<Rightarrow> repo \<Rightarrow> bool" where
  "create_record e rtype schema stat prov sens ttl meta rid s = (res, t) \<Longrightarrow> (\<And>r. res = Inr r \<Longrightarrow> i = rec_id r) \<Longrightarrow>
    repository_step i s t"
| "repository_step i s (snd (update_record e i expected stat ttl meta s))"
| "ConversationRecord v ttl environment src = Inr c \<Longrightarrow>
    repository_step (cv_id c) s (snd (save_conversation e c prov sens s))"
| "ConversationEventRecord raw = Inr ev \<Longrightarrow>
    repository_step (ev_id ev) s (snd (save_conversation_event e ev prov sens s))"

lemma repository_silent:
  assumes "repository_step i s t" "repo_ok s"
  shows "silently i s t"
  using assms
proof (induction rule: repository_step.induct)
  case (1 e rtype schema stat prov sens ttl meta rid s res t i)
  then show ?case using create_record_silent by blast
next
  case (2 i s e expected stat ttl meta)
  then show ?case using update_record_silent by (metis prod.collapse)
next
  case (3 v ttl environment src c s e prov sens)
  then show ?case using save_conversation_silent by blast
next
  case (4 raw ev s e prov sens)
  then show ?case using save_event_silent by blast
qed

lemma service_refines:
  assumes "service_step s t" "repo_ok s"
  shows "refines_to s t"
  using assms
  by (induction rule: service_step.induct)
    (simp_all add: work_op_defs audit_append.refines preference_create.refines preference_update.refines
      preference_archive.refines policy_create.refines policy_update.refines policy_archive.refines
      permission_create.refines permission_update.refines permission_archive.refines consume.refines
      memory_create.refines memory_update.refines memory_archive.refines project_create.refines
      project_create_v2.refines project_update.refines project_update_v2.refines project_archive.refines
      decision_create.refines decision_update.refines decision_archive.refines create_claim.refines
      create_evidence.refines create_inference.refines assess_trust.refines truth_review.refines
      truth_archive.refines work_propose.refines work_create.refines revise_work.refines work_archive.refines
      broker.refines confirmation_issue.refines confirmation_consume.refines confirmation_revoke.refines)

text \<open>C39: the workspace implements the ledger. Take any modelled call that writes, whatever its
  arguments and whether it returns or raises. It keeps the repository well formed and changes the
  tables only in the ways they may change. If it is a call of a service that audits (audit, settings,
  memory, projects and decisions, truth, work, capability preflight, confirmations), it leaves the
  ledger of the repository as it was or takes exactly one audited step of the specification. If it is
  \<open>create_record\<close>, \<open>update_record\<close> or a save of a conversation or of an event, it leaves the ledger
  as it was or takes exactly one silent step on the record that it writes.\<close>

theorem services_refine_ledger:
  assumes "repo_ok s"
  shows "(service_step s t \<longrightarrow>
       repo_ok t \<and> evolves s t \<and> (t = s \<or> ledger_step (ledger_of s) (ledger_of t))) \<and>
    (repository_step i s t \<longrightarrow>
       repo_ok t \<and> evolves s t \<and> (t = s \<or> silent_step i (ledger_of s) (ledger_of t)))"
  using service_refines [OF _ assms] repository_silent [OF _ assms] by (simp add: refines_to_def silently_def)

text \<open>A run of the workspace, with the identifiers that silent writes have changed, one for each.\<close>

inductive workspace_run :: "repo \<Rightarrow> string list \<Rightarrow> repo \<Rightarrow> bool" where
  starts: "workspace_run s [] s"
| serves: "workspace_run s silent t \<Longrightarrow> service_step t u \<Longrightarrow> workspace_run s silent u"
| writes: "workspace_run s silent t \<Longrightarrow> repository_step i t u \<Longrightarrow>
    workspace_run s (if u = t then silent else silent @ [i]) u"

lemma workspace_run_accounted:
  assumes "workspace_run s silent t" "repo_ok s" "accounted before (ledger_of s)"
  shows "repo_ok t \<and> evolves s t \<and> accounted (before @ silent) (ledger_of t)"
  using assms
proof (induction rule: workspace_run.induct)
  case (starts s)
  then show ?case by simp
next
  case (serves s silent t u)
  then have t: "repo_ok t" "evolves s t" "accounted (before @ silent) (ledger_of t)" by auto
  note u = service_refines [OF serves(2) t(1)]
  have "repo_ok u" "evolves t u" using u by (simp_all add: refines_to_def)
  then show ?case using evolves_trans [OF t(2)] refines_accounted [OF u t(3)] by blast
next
  case (writes s silent t i u)
  then have t: "repo_ok t" "evolves s t" "accounted (before @ silent) (ledger_of t)" by auto
  note u = repository_silent [OF writes(2) t(1)]
  have "repo_ok u" "evolves t u" using u by (simp_all add: silently_def)
  moreover have "accounted (before @ (if u = t then silent else silent @ [i])) (ledger_of u)"
    using silently_accounted [OF u t(3)] by (simp split: if_splits)
  ultimately show ?case using evolves_trans [OF t(2)] by blast
qed

lemma accounted_records:
  assumes "repo_ok t" "accounted silent (ledger_of t)"
  shows "state_revision t = int (length (audit_events t) + length silent) \<and>
    (\<forall>r \<in> set (records t). 1 \<le> revision r \<and>
       revision r \<le> int (length (filter (\<lambda>a. target_id a = Some (rec_id r)) (audit_events t)) +
         count_list silent (rec_id r)))"
proof
  have count: "count_list (map f xs) y = length (filter (\<lambda>x. f x = y) xs)" for f :: "AuditRow \<Rightarrow> string option" and xs y
    by (induction xs) auto
  show "state_revision t = int (length (audit_events t) + length silent)"
    using assms(2) by (simp add: accounted_def ledger_of_def)
  have "find_row (rec_id r) (records t) = Some r" if "r \<in> set (records t)" for r
    using that assms(1) by (simp add: repo_ok_def find_row_distinct)
  then show "\<forall>r \<in> set (records t). 1 \<le> revision r \<and>
      revision r \<le> int (length (filter (\<lambda>a. target_id a = Some (rec_id r)) (audit_events t)) +
        count_list silent (rec_id r))"
    using assms(2) by (force simp: accounted_def ledger_of_def entry_of_def count)
qed

text \<open>C40: every change is accounted for. Take any sequence of the modelled calls from an empty
  workspace, with the list of the identifiers that \<open>create_record\<close>, \<open>update_record\<close> and the saves of
  conversations and events have written. The state revision is the number of audit events and of
  these writes together. No record has more revisions than there are audit events about it and
  direct writes of it, so that every revision of a record that was never written directly has its
  audit event. Nothing that was once stored or logged is lost: at every later point of the run the
  records are still there and the earlier events are a prefix of the present ones.\<close>

theorem every_change_audited:
  assumes "repo_ok s" and "records s = []" and "audit_events s = []" and "state_revision s = 0"
    and "workspace_run s before t" and "workspace_run t silent u"
  shows "state_revision u = int (length (audit_events u) + length (before @ silent)) \<and>
    (\<forall>r \<in> set (records u). 1 \<le> revision r \<and>
       revision r \<le> int (length (filter (\<lambda>a. target_id a = Some (rec_id r)) (audit_events u)) +
         count_list (before @ silent) (rec_id r))) \<and>
    (\<forall>i r. find_row i (records t) = Some r \<longrightarrow> (\<exists>q. find_row i (records u) = Some q \<and> row_evolves r q)) \<and>
    (\<exists>new. audit_events u = audit_events t @ new)"
proof -
  have "accounted [] (ledger_of s)" using assms(2-4) by (simp add: accounted_def ledger_of_def find_row_def)
  from workspace_run_accounted [OF assms(5,1) this] have t: "repo_ok t" "accounted before (ledger_of t)" by auto
  from workspace_run_accounted [OF assms(6) this] have
    u: "repo_ok u" "evolves t u" "accounted (before @ silent) (ledger_of u)" by auto
  show ?thesis using accounted_records [OF u(1,3)] u(2) by (auto simp: evolves_def)
qed

section \<open>A concrete run\<close>

lemma sample_run:
  "\<exists>t r a. service_step sample_repo t \<and> audit_events t = [a] \<and> get_record ''u1'' t = Inr r"
proof -
  let ?e = "clock_env ''u1'' ''v1'' ''2026-01-01T00:00:00Z''"
  obtain info t r a where c: "memory_create ?e sample_memory (Some ''op1'') ''personal'' ''user'' sample_repo = (Inr info, t)"
    "audit_events t = [a]" "get_record ''u1'' t = Inr r" using sample_memory_created by blast
  have "service_step sample_repo (snd (memory_create ?e sample_memory (Some ''op1'') ''personal'' ''user'' sample_repo))"
    by (rule service_step.intros)
  then have "service_step sample_repo t" using c(1) by simp
  with c show ?thesis by blast
qed

lemma sample_silent: "repository_step talk_id sample_repo talk_repo" "talk_repo \<noteq> sample_repo"
proof -
  have id: "cv_id sample_talk = talk_id" by (simp add: sample_talk_def)
  show "repository_step talk_id sample_repo talk_repo"
    using repository_step.intros(3) [OF sample_talk_constructed] unfolding talk_repo_def id .
  obtain res t where run: "save_conversation (sample_env ''-'') sample_talk ''user-created'' ''personal'' sample_repo = (res, t)"
    by fastforce
  from save_conversation_result [OF sample_repo_ok conversation_idem [OF sample_talk_constructed] run]
  have "state_revision talk_repo = state_revision sample_repo + 1"
    using talk_saved run by (auto simp: talk_repo_def saved_def)
  then show "talk_repo \<noteq> sample_repo" by auto
qed

theorem services_refine_ledger_witness:
  "(\<exists>t. service_step sample_repo t \<and> t \<noteq> sample_repo \<and> ledger_step (ledger_of sample_repo) (ledger_of t)) \<and>
   repository_step talk_id sample_repo talk_repo \<and> silent_step talk_id (ledger_of sample_repo) (ledger_of talk_repo)"
proof -
  obtain t r a where t: "service_step sample_repo t" "audit_events t = [a]" using sample_run by blast
  then have "t \<noteq> sample_repo" by (auto simp: sample_repo_def)
  with services_refine_ledger [OF sample_repo_ok, of t] services_refine_ledger [OF sample_repo_ok, of talk_repo talk_id]
    t(1) sample_silent show ?thesis by blast
qed

theorem every_change_audited_witness:
  "(\<exists>t r a. workspace_run sample_repo [] t \<and> get_record ''u1'' t = Inr r \<and> audit_events t = [a] \<and>
     target_id a = Some ''u1'' \<and> state_revision t = 1) \<and>
   workspace_run sample_repo [talk_id] talk_repo \<and>
   state_revision talk_repo = int (length (audit_events talk_repo)) + 1"
proof -
  obtain t r a where t: "service_step sample_repo t" "audit_events t = [a]" "get_record ''u1'' t = Inr r" using sample_run by blast
  have start: "records sample_repo = []" "audit_events sample_repo = []" "state_revision sample_repo = 0"
    by (simp_all add: sample_repo_def state_revision_def)
  have run: "workspace_run sample_repo [] t" by (rule workspace_run.serves [OF starts t(1)])
  note acc = every_change_audited [OF sample_repo_ok start starts run]
  obtain row where "find_row ''u1'' (records t) = Some row" using get_recordD [OF t(3)] by blast
  then have row: "row \<in> set (records t)" "rec_id row = ''u1''" using find_row_Some by auto
  have "1 \<le> revision row \<and> revision row \<le> int (length (filter (\<lambda>b. target_id b = Some (rec_id row)) (audit_events t)))"
    using acc row(1) by simp
  then have "1 \<le> int (length (filter (\<lambda>b. target_id b = Some ''u1'') [a]))"
    unfolding row(2) t(2) by linarith
  then have "target_id a = Some ''u1''" by (simp split: if_splits)
  moreover have "state_revision t = 1" using acc unfolding t(2) by simp
  moreover have talk: "workspace_run sample_repo [talk_id] talk_repo"
    using workspace_run.writes [OF starts sample_silent(1)] sample_silent(2) by simp
  moreover have "state_revision talk_repo = int (length (audit_events talk_repo)) + 1"
    using every_change_audited [OF sample_repo_ok start starts talk] by simp
  ultimately show ?thesis using run t(2,3) by blast
qed

end
