(* ===== verification/Spec2Isabelle.thy ===== *)
theory Spec2Isabelle
  imports Ledger
begin

text \<open>
  Verification of the workspace core of Doll (\<open>src/src/doll/\<close>).

  \<^bold>\<open>The program.\<close> Doll keeps the authoritative memory of a local assistant in a workspace: one SQLite
  database of records with a common envelope, an append-only table of audit events, and a state
  revision that is kept both in the database and in the workspace file. Every feature is a
  service over an open repository. A service validates its arguments, runs one transaction that
  writes a record, adds an audit event and advances the revision, and reads back what it wrote
  with a reader that validates everything again. No text that looks like a secret may reach the database.

  \<^bold>\<open>Conventions.\<close> A Python call is a function from the state to a result and a state (\<open>op\<close> of
  \<open>Prelude\<close>); a raise is a value \<open>Inl x\<close> of \<open>exc\<close>, with one constructor for each exception class. A
  transaction keeps the changes of its body when the body returns and drops them when it raises.
  Text is a list of characters of one byte (the code points below 256), for which the character
  classes, \<open>lower\<close>, \<open>strip\<close> and the UTF-8 length are those of Python; integers are unbounded, as in
  Python; floats are kept as their \<open>repr\<close>; a dictionary is an association list in insertion
  order. The clock and \<open>uuid4()\<close> are the argument \<open>env\<close> of a call. SHA-256 and the IDNA codec on
  names outside of ASCII are arguments of the definitions that use them. The definitions that model code compute.

  \<^bold>\<open>Theories.\<close>
    \<^item> \<open>Prelude\<close>: results, exceptions, the operations of a service, transactions.
    \<^item> \<open>Text\<close>, \<open>Json\<close>, \<open>Regex\<close>, \<open>Datetime\<close>, \<open>Timestamps\<close>, \<open>Url\<close>, \<open>Normalizer\<close>: the parts of the language
      and its library that the sources use: string methods, \<open>json.dumps\<close> with sorted keys and Python's
      equality of JSON values, the backtracking matcher of \<open>re\<close> in its order of alternatives,
      \<open>datetime.fromisoformat\<close> and \<open>isoformat\<close>, \<open>str(UUID(..))\<close>, \<open>urlsplit\<close> and the addresses of
      \<open>ipaddress\<close>. \<open>Normalizer\<close> holds the contract of a
      validator that returns a normal form (locale \<open>normalizer\<close>); each validator of each service is
      an interpretation of it.
    \<^item> \<open>Secret_Detection\<close> (\<open>secret_detection.py\<close>, \<open>sensitive_fields.py\<close>): the twelve detectors, the
      bounded scan, the merge of overlapping findings, \<open>redact_text\<close>; names of secret fields.
    \<^item> \<open>Secret_Policy\<close> (\<open>secret_policy.py\<close>): where secret material may be handled, secret-reference
      metadata, the boundary of ordinary records.
    \<^item> \<open>State_Repository\<close> (\<open>state_repository.py\<close>, \<open>state.py\<close>, parts of \<open>state_db.py\<close> and
      \<open>workspace.py\<close>): the state \<open>repo\<close>, \<open>create_record\<close>, \<open>get_record\<close>, \<open>update_record\<close>, the commit of the
      state revision, the unique index on model bindings; the invariant \<open>repo_ok\<close>, the relation
      \<open>evolves\<close> between the states before and after, and the contract of a transaction body
      (locale \<open>write_body\<close>), of which every writer of the development is an interpretation.
    \<^item> \<open>Audit_Log\<close> (\<open>audit.py\<close>): sanitisation, \<open>append\<close>, \<open>get\<close>, \<open>list\<close> and the reader of stored events.
    \<^item> \<open>Typed_Records\<close>, \<open>Settings\<close> (\<open>settings.py\<close>): the transactions of settings records, and the services
      for preferences, policies and permissions, with one-time consumption and resolution.
    \<^item> \<open>Record_Store\<close>: the transactions and field validators of which \<open>memory.py\<close>, \<open>project_state.py\<close>,
      \<open>trust.py\<close> and \<open>work_item.py\<close> each have a copy, stated once with the exception class as an argument, and
      the contract of a record reader (locale \<open>record_reader\<close>).
    \<^item> \<open>Memory\<close> (\<open>memory.py\<close>), \<open>Artifacts\<close> (\<open>artifact.py\<close>, \<open>workspace_files.py\<close>), \<open>Project_State\<close> and
      \<open>Project_Laws\<close> (\<open>project_state.py\<close>), \<open>Trust\<close> and \<open>Trust_Laws\<close> (\<open>trust.py\<close>): the record services.
    \<^item> \<open>Dependency_Graph\<close>, \<open>Work_Item\<close>, \<open>Work_Laws\<close>, \<open>Work_Lifecycle\<close> (\<open>work_item.py\<close>): the search for a
      dependency cycle, the service, and its state machine as an inductive step relation.
    \<^item> \<open>Conversations\<close>, \<open>Conversation_Laws\<close> (\<open>state.py\<close>, \<open>state_repository.py\<close>): the conversation
      dataclasses and the graph of saved events.
    \<^item> \<open>Capabilities\<close>, \<open>Capability_Laws\<close> (\<open>capabilities.py\<close>): reviewed definitions in a sealed registry,
      the validation of an untrusted request, destinations and the outbound policy, and the preflight;
      the contract of its two interfaces, the permission resolver and the audit recorder (locale
      \<open>preflight_ports\<close>, interpreted on the two services of the development).
    \<^item> \<open>Confirmation\<close>, \<open>Confirmation_Laws\<close> (\<open>confirmation.py\<close>, \<open>_confirmation_types.py\<close>,
      \<open>_confirmation_validation.py\<close>): the append-only ledger of user decisions on operations of the
      highest risk tier; the contract of a body that appends one event (locale \<open>event_body\<close>), of which
      issue, consume and revoke are interpretations.
    \<^item> \<open>Ledger\<close>: an abstract ledger with audited and silent steps. Each call of a service that audits
      (audit, settings, memory, projects and decisions, truth, work, capability preflight, confirmations)
      refines at most one audited step (locale \<open>ledger_call\<close>, interpreted on each call). The calls that
      write a record without an audit event, \<open>create_record\<close>, \<open>update_record\<close> and the two saves of
      conversations, refine at most one silent step.

  \<^bold>\<open>What the lemmas show.\<close> Redaction covers every detected span and fails closed. A validated value is a
  fixed point of its validator, so what a service writes is what its reader accepts. A call of a service
  that audits raises and has changed nothing, or writes at most one record and one audit event;
  \<open>create_record\<close>, \<open>update_record\<close> and the saves of conversations write one record and no event. A call
  can also commit and then raise, because the read after the commit fails; the theorems state these
  cases as such: under a clock that runs backwards (\<open>memory_clock_regression\<close>), when the redacted summary
  of an event outgrows its limit (\<open>audit_summary_growth_corrupts\<close>), and when a work item is archived
  whose stored title is not normalised (\<open>work_calls_atomic\<close>). Permissions are granted from stored,
  active, unexpired records only, and a one-time permission is consumed once. A work item moves along
  the allowed transitions, other actors than the user can only propose, and the dependency check decides
  acyclicity. Conversation events form a graph without cycles. A capability registry is sealed and its
  fingerprint covers every field; a request is authorised only if it meets every clause of a released
  definition below the highest tier and a stored permission grants it, and every decision is audited. An
  operation of the highest tier is confirmed by the user for exactly one request, and a confirmation that
  was consumed or revoked stays closed. Over any sequence of the modelled calls from an empty workspace the state
  revision counts the audit events and the writes without an event, and no record has more revisions
  than events about it and such writes of it. The theorems on findings say what goes wrong and from
  which state: permissions whose scopes are equal as Python values and not as text, an archived policy
  that locks its projects, a finished blocker that locks the items that it blocked, a loopback address
  that passes as a host name.

  \<^bold>\<open>Interleaving.\<close> A writer takes the database lock for its transaction (\<open>BEGIN IMMEDIATE\<close>), so a
  transaction is one step. What a call validated before it is not protected; the transactions compare the
  revision and the status again under the lock, and this is what the models of the transactions do.
  \<open>update_record\<close> is split into the part before and the part under the lock for this reason.

  \<^bold>\<open>Bounds and termination.\<close> The matcher of regular expressions recurses
  on the expression; a repetition counts its rounds down from the length of the rest of the text,
  which is enough because every repeated expression of the sources consumes a character. No other definition uses fuel. The search for cycles ends because the set of
  nodes that are not being visited shrinks (measure in \<open>Dependency_Graph\<close>); Python's limit on the
  recursion depth is not modelled, neither there nor for nested JSON values.

  \<^bold>\<open>Not modelled.\<close> Opening, creating and migrating the database, and the files of the workspace: the
  model starts from an open repository. Publication and verification of artifact files: system calls; the
  paths and records of artifacts are modelled. Text outside of Latin-1. Cyclic Python objects in
  metadata, which JSON values cannot express, and arguments of a type that the annotations exclude, except
  where a reader passes on stored values. The packages for state export and import, backup and
  restore, generic import and export, model manifests, the preflight that asks for a confirmation,
  procedures, checkpoints, recall, runtime adapters, document readers and the command line are
  other parts of the system: they use the services above or files and processes, and are listed
  as such in the manifest.
\<close>

end
